(* ===== verification/Prelude.thy ===== *)
theory Prelude
  imports Main "HOL-Library.Word"
begin

text \<open>
  Shared vocabulary of the development: machine integers, results, and the operations of
  Rust's \<open>str\<close> that the program uses. A Rust string is the \<open>char list\<close> of its UTF-8
  bytes, so \<open>length\<close> is \<open>str::len\<close>, and byte offsets are list positions. \<open>Inl\<close> is
  \<open>Err\<close> and \<open>Inr\<close> is \<open>Ok\<close>. The lemma collections \<open>str_simps\<close> and \<open>res_simps\<close>
  carry the proofs of the later theories.
\<close>

named_theorems str_simps
named_theorems res_simps

type_synonym u8 = "8 word"
type_synonym u16 = "16 word"
type_synonym u64 = "64 word"
  \<comment> \<open>\<open>i64\<close> values are 64-bit words read with \<open>sint\<close>\<close>
type_synonym i64 = "64 word"

section \<open>Results\<close>

abbreviation Err :: "'e \<Rightarrow> 'e + 'a" where "Err \<equiv> Inl"
abbreviation Ok :: "'a \<Rightarrow> 'e + 'a" where "Ok \<equiv> Inr"

fun bind_res :: "'e + 'a \<Rightarrow> ('a \<Rightarrow> 'e + 'b) \<Rightarrow> 'e + 'b" where
  "bind_res (Inl e) f = Inl e"
| "bind_res (Inr a) f = f a"

fun map_err :: "('e \<Rightarrow> 'f) \<Rightarrow> 'e + 'a \<Rightarrow> 'f + 'a" where
  "map_err f (Inl e) = Inl (f e)"
| "map_err f (Inr a) = Inr a"

fun map_ok :: "('a \<Rightarrow> 'b) \<Rightarrow> 'e + 'a \<Rightarrow> 'e + 'b" where
  "map_ok f (Inl e) = Inl e"
| "map_ok f (Inr a) = Inr (f a)"

fun ok_or :: "'a option \<Rightarrow> 'e \<Rightarrow> 'e + 'a" where
  "ok_or None e = Inl e"
| "ok_or (Some a) e = Inr a"

fun res_ok :: "'e + 'a \<Rightarrow> 'a option" where
  "res_ok (Inl e) = None"
| "res_ok (Inr a) = Some a"

lemma bind_res_Ok [res_simps]: "bind_res r f = Inr b \<longleftrightarrow> (\<exists>a. r = Inr a \<and> f a = Inr b)"
  by (cases r) auto

lemma ok_or_Ok [res_simps]: "ok_or x e = Inr a \<longleftrightarrow> x = Some a"
  by (cases x) auto

lemma map_err_Ok [res_simps]: "map_err f r = Inr a \<longleftrightarrow> r = Inr a"
  by (cases r) auto

lemma map_ok_Ok [res_simps]: "map_ok f r = Inr b \<longleftrightarrow> (\<exists>a. r = Inr a \<and> b = f a)"
  by (cases r) auto

section \<open>Prefixes, suffixes and substring search\<close>

fun strip_prefix :: "string \<Rightarrow> string \<Rightarrow> string option" where
  "strip_prefix [] s = Some s"
| "strip_prefix (p # ps) [] = None"
| "strip_prefix (p # ps) (c # cs) = (if p = c then strip_prefix ps cs else None)"

definition starts_with :: "string \<Rightarrow> string \<Rightarrow> bool" where
  "starts_with p s \<longleftrightarrow> strip_prefix p s \<noteq> None"

definition strip_suffix :: "string \<Rightarrow> string \<Rightarrow> string option" where
  "strip_suffix p s = map_option rev (strip_prefix (rev p) (rev s))"

definition ends_with :: "string \<Rightarrow> string \<Rightarrow> bool" where
  "ends_with p s \<longleftrightarrow> strip_suffix p s \<noteq> None"

fun find_sub :: "string \<Rightarrow> string \<Rightarrow> nat option" where
  "find_sub p [] = (if p = [] then Some 0 else None)"
| "find_sub p (c # cs) =
     (if starts_with p (c # cs) then Some 0 else map_option Suc (find_sub p cs))"

definition contains :: "string \<Rightarrow> string \<Rightarrow> bool" where
  "contains p s \<longleftrightarrow> find_sub p s \<noteq> None"

fun split_on :: "char \<Rightarrow> string \<Rightarrow> string list" where
  "split_on d [] = [[]]"
| "split_on d (c # cs) =
     (if c = d then [] # split_on d cs
      else (case split_on d cs of [] \<Rightarrow> [[c]] | w # ws \<Rightarrow> (c # w) # ws))"

fun split_once :: "char \<Rightarrow> string \<Rightarrow> (string \<times> string) option" where
  "split_once d [] = None"
| "split_once d (c # cs) =
     (if c = d then Some ([], cs)
      else map_option (\<lambda>(a, b). (c # a, b)) (split_once d cs))"

fun join :: "string \<Rightarrow> string list \<Rightarrow> string" where
  "join sep [] = []"
| "join sep [w] = w"
| "join sep (w # ws) = w @ sep @ join sep ws"

definition trim_start_matches :: "char \<Rightarrow> string \<Rightarrow> string" where
  "trim_start_matches c s = dropWhile (\<lambda>x. x = c) s"

definition trim_end_matches :: "char \<Rightarrow> string \<Rightarrow> string" where
  "trim_end_matches c s = rev (dropWhile (\<lambda>x. x = c) (rev s))"

definition trim_matches :: "char \<Rightarrow> string \<Rightarrow> string" where
  "trim_matches c s = trim_end_matches c (trim_start_matches c s)"

lemma strip_prefix_Some [str_simps]: "strip_prefix p s = Some r \<longleftrightarrow> s = p @ r"
  by (induction p s rule: strip_prefix.induct) auto

lemma strip_prefix_append [simp]: "strip_prefix p (p @ r) = Some r"
  by (simp add: strip_prefix_Some)

lemma starts_with_iff [str_simps]: "starts_with p s \<longleftrightarrow> (\<exists>r. s = p @ r)"
  by (cases "strip_prefix p s") (auto simp: starts_with_def strip_prefix_Some)

lemma starts_with_code [simp]:
  "starts_with [] s"
  "\<not> starts_with (p # ps) []"
  "starts_with (p # ps) (c # cs) \<longleftrightarrow> p = c \<and> starts_with ps cs"
  by (auto simp: starts_with_def)

lemma strip_suffix_Some [str_simps]: "strip_suffix p s = Some r \<longleftrightarrow> s = r @ p"
  by (auto simp: strip_suffix_def strip_prefix_Some) (metis rev_append rev_rev_ident)

lemma ends_with_iff [str_simps]: "ends_with p s \<longleftrightarrow> (\<exists>r. s = r @ p)"
proof
  assume "ends_with p s"
  then obtain r where "strip_suffix p s = Some r" by (auto simp: ends_with_def)
  then show "\<exists>r. s = r @ p" by (auto simp: strip_suffix_Some)
next
  assume "\<exists>r. s = r @ p"
  then obtain r where "strip_suffix p s = Some r" by (auto simp: strip_suffix_Some)
  then show "ends_with p s" by (simp add: ends_with_def)
qed

lemma ends_with_Cons: "ends_with p s \<Longrightarrow> ends_with p (c # s)"
  by (auto simp: ends_with_iff)

lemma find_sub_here: "find_sub p (p @ s) = Some 0"
proof (cases "p @ s")
  case Nil
  then show ?thesis by simp
next
  case (Cons c r)
  have "starts_with p (p @ s)" by (auto simp: starts_with_iff)
  with Cons show ?thesis by simp
qed

lemma find_sub_Some: "find_sub p s = Some i \<Longrightarrow> \<exists>a b. s = a @ p @ b \<and> length a = i"
proof (induction p s arbitrary: i rule: find_sub.induct)
  case (1 p)
  then show ?case by (auto split: if_splits)
next
  case (2 p c cs)
  show ?case
  proof (cases "starts_with p (c # cs)")
    case True
    with "2.prems" show ?thesis by (auto simp: starts_with_iff)
  next
    case False
    with "2.prems" obtain j where j: "find_sub p cs = Some j" "i = Suc j" by auto
    from "2.IH" [OF False j(1)] obtain a b where ab: "cs = a @ p @ b" "length a = j" by auto
    have "c # cs = (c # a) @ p @ b \<and> length (c # a) = i" using ab j(2) by simp
    then show ?thesis by blast
  qed
qed

text \<open>
  The first occurrence of a pattern that ends in a delimiter, behind a delimiter-free
  stretch \<open>u\<close>: unless \<open>u\<close> itself ends in the rest of the pattern, the search runs on
  past \<open>u\<close>. This one lemma decides where \<open>key="\<close> is found in a parameter list.
\<close>

lemma delimiter_unique:
  "q \<notin> set a \<Longrightarrow> q \<notin> set b \<Longrightarrow> a @ q # x = b @ q # y \<longleftrightarrow> a = b \<and> x = y"
proof (induction a arbitrary: b)
  case Nil
  then show ?case by (cases b) auto
next
  case (Cons c a)
  then show ?case by (cases b) auto
qed

lemma delimiter_uniqueD: "a @ q # x = b @ q # y \<Longrightarrow> q \<notin> set a \<Longrightarrow> q \<notin> set b \<Longrightarrow> a = b"
  by (simp add: delimiter_unique)

lemma find_sub_skip:
  assumes "q \<notin> set u" "q \<notin> set k" "\<not> ends_with k u"
  shows "find_sub (k @ [q]) (u @ q # t) = map_option (\<lambda>n. n + length u) (find_sub (k @ [q]) (q # t))"
  using assms
proof (induction u)
  case Nil
  then show ?case by (simp add: option.map_ident)
next
  case (Cons c u)
  have no: "\<not> starts_with (k @ [q]) (c # u @ q # t)"
  proof
    assume "starts_with (k @ [q]) (c # u @ q # t)"
    then obtain r where "c # u @ q # t = (k @ [q]) @ r" unfolding starts_with_iff ..
    then have eq: "(c # u) @ q # t = k @ q # r"
      by (simp only: append_Cons append_assoc append_Nil)
    have "c # u = k" by (rule delimiter_uniqueD [OF eq Cons.prems(1,2)])
    with Cons.prems(3) show False by (auto simp: ends_with_iff)
  qed
  have "\<not> ends_with k u" using Cons.prems(3) ends_with_Cons by blast
  then have ih: "find_sub (k @ [q]) (u @ q # t) =
      map_option (\<lambda>n. n + length u) (find_sub (k @ [q]) (q # t))"
    using Cons.IH Cons.prems(1,2) by auto
  have "find_sub (k @ [q]) ((c # u) @ q # t) = map_option Suc (find_sub (k @ [q]) (u @ q # t))"
    using no by (simp only: append_Cons find_sub.simps if_False)
  also have "\<dots> = map_option (\<lambda>n. n + length (c # u)) (find_sub (k @ [q]) (q # t))"
    by (simp only: ih option.map_comp) (rule arg_cong2 [where f = map_option]; simp add: fun_eq_iff)
  finally show ?case .
qed

lemma find_sub_at_end:
  assumes "q \<notin> set u" "q \<notin> set k"
  shows "find_sub (k @ [q]) ((u @ k) @ q # t) = Some (length u)"
  using assms
proof (induction u)
  case Nil
  have "find_sub (k @ [q]) ((k @ [q]) @ t) = Some 0" by (rule find_sub_here)
  then show ?case by simp
next
  case (Cons c u)
  have "\<not> starts_with (k @ [q]) (c # (u @ k) @ q # t)"
  proof
    assume "starts_with (k @ [q]) (c # (u @ k) @ q # t)"
    then obtain r where "c # (u @ k) @ q # t = (k @ [q]) @ r" unfolding starts_with_iff ..
    then have eq: "(c # u @ k) @ q # t = k @ q # r"
      by (simp only: append_Cons append_assoc append_Nil)
    have nq: "q \<notin> set (c # u @ k)" using Cons.prems by auto
    have "c # u @ k = k" by (rule delimiter_uniqueD [OF eq nq Cons.prems(2)])
    then have "length (c # u @ k) = length k" by (rule arg_cong)
    then show False by simp
  qed
  moreover have "find_sub (k @ [q]) ((u @ k) @ q # t) = Some (length u)"
    using Cons.IH Cons.prems by auto
  ultimately show ?case by (simp only: append_Cons find_sub.simps if_False) simp
qed

lemma find_char_skip: "q \<notin> set u \<Longrightarrow> find_sub [q] (u @ q # t) = Some (length u)"
  using find_sub_at_end [of q u "[]" t] by simp

lemma find_char_None [simp]: "find_sub [q] s = None \<longleftrightarrow> q \<notin> set s"
  by (induction s) auto

lemma split_on_nonempty [simp]: "split_on d s \<noteq> []"
  by (cases s) (auto split: list.splits)

lemma split_on_free [str_simps]: "d \<notin> set s \<Longrightarrow> split_on d s = [s]"
  by (induction s) auto

lemma split_on_append [str_simps]: "d \<notin> set a \<Longrightarrow> split_on d (a @ d # s) = a # split_on d s"
  by (induction a) auto

lemma split_on_no_delim: "w \<in> set (split_on d s) \<Longrightarrow> d \<notin> set w"
  by (induction s arbitrary: w) (auto split: list.splits if_splits)

lemma split_once_Some [str_simps]:
  "split_once d s = Some (a, b) \<longleftrightarrow> s = a @ d # b \<and> d \<notin> set a"
proof (induction s arbitrary: a)
  case Nil
  then show ?case by simp
next
  case (Cons c s)
  then show ?case by (cases a) auto
qed

lemma trim_end_matches_id [simp]: "s \<noteq> [] \<Longrightarrow> last s \<noteq> c \<Longrightarrow> trim_end_matches c s = s"
  by (cases s rule: rev_cases) (simp_all add: trim_end_matches_def)

lemma trim_end_matches_snoc [simp]: "trim_end_matches c (s @ [c]) = trim_end_matches c s"
  by (simp add: trim_end_matches_def)

lemma trim_end_matches_idem [simp]:
  "trim_end_matches c (trim_end_matches c s) = trim_end_matches c s"
  by (simp add: trim_end_matches_def)

lemma trim_end_matches_decomp: "\<exists>n. s = trim_end_matches c s @ replicate n c"
proof (induction s rule: rev_induct)
  case Nil
  then show ?case by (simp add: trim_end_matches_def)
next
  case (snoc x s)
  show ?case
  proof (cases "x = c")
    case True
    from snoc obtain n where "s = trim_end_matches c s @ replicate n c" ..
    with True have "s @ [x] = trim_end_matches c (s @ [x]) @ replicate (Suc n) c"
      by (simp add: replicate_append_same [symmetric])
    then show ?thesis ..
  next
    case False
    then have "s @ [x] = trim_end_matches c (s @ [x]) @ replicate 0 c" by simp
    then show ?thesis ..
  qed
qed

section \<open>Bytes, ASCII and UTF-8\<close>

definition byte :: "char \<Rightarrow> nat" where
  "byte c = of_char c"

definition is_ascii :: "char \<Rightarrow> bool" where
  "is_ascii c \<longleftrightarrow> byte c < 128"

definition is_ascii_uppercase :: "char \<Rightarrow> bool" where
  "is_ascii_uppercase c \<longleftrightarrow> 65 \<le> byte c \<and> byte c \<le> 90"

definition is_ascii_lowercase :: "char \<Rightarrow> bool" where
  "is_ascii_lowercase c \<longleftrightarrow> 97 \<le> byte c \<and> byte c \<le> 122"

definition is_ascii_digit :: "char \<Rightarrow> bool" where
  "is_ascii_digit c \<longleftrightarrow> 48 \<le> byte c \<and> byte c \<le> 57"

definition is_ascii_alphanumeric :: "char \<Rightarrow> bool" where
  "is_ascii_alphanumeric c \<longleftrightarrow> is_ascii_uppercase c \<or> is_ascii_lowercase c \<or> is_ascii_digit c"

definition is_ascii_whitespace :: "char \<Rightarrow> bool" where
  "is_ascii_whitespace c \<longleftrightarrow> byte c \<in> {9, 10, 12, 13, 32}"

definition to_ascii_lower :: "char \<Rightarrow> char" where
  "to_ascii_lower c = (if is_ascii_uppercase c then char_of (byte c + 32) else c)"

definition to_ascii_upper :: "char \<Rightarrow> char" where
  "to_ascii_upper c = (if is_ascii_lowercase c then char_of (byte c - 32) else c)"

definition eq_ignore_ascii_case :: "string \<Rightarrow> string \<Rightarrow> bool" where
  "eq_ignore_ascii_case a b \<longleftrightarrow> map to_ascii_lower a = map to_ascii_lower b"

text \<open>UTF-8 continuation bytes, scalar boundaries and slicing; \<open>None\<close> is the panic of
  \<open>&s[i..j]\<close> on a bad range.\<close>

definition is_cont :: "char \<Rightarrow> bool" where
  "is_cont c \<longleftrightarrow> 128 \<le> byte c \<and> byte c < 192"

definition is_char_boundary :: "string \<Rightarrow> nat \<Rightarrow> bool" where
  "is_char_boundary s i \<longleftrightarrow> i = 0 \<or> i = length s \<or> (i < length s \<and> \<not> is_cont (s ! i))"

definition str_slice :: "string \<Rightarrow> nat \<Rightarrow> nat \<Rightarrow> string option" where
  "str_slice s i j =
     (if i \<le> j \<and> j \<le> length s \<and> is_char_boundary s i \<and> is_char_boundary s j
      then Some (take (j - i) (drop i s)) else None)"

function utf8_chars :: "string \<Rightarrow> string list" where
  "utf8_chars [] = []"
| "utf8_chars (c # cs) = (c # takeWhile is_cont cs) # utf8_chars (dropWhile is_cont cs)"
  by pat_completeness auto
termination
  by (relation "measure length") (auto simp: le_imp_less_Suc length_dropWhile_le)

text \<open>
  \<open>str::to_uppercase\<close> maps scalar by scalar. The ASCII part is written out; \<open>up\<close> is the
  Unicode table for the other scalars. \<open>str::to_lowercase\<close> looks at the context of a final
  sigma, so \<open>low\<close> acts on a whole string that is not ASCII.
\<close>

definition to_uppercase :: "(string \<Rightarrow> string) \<Rightarrow> string \<Rightarrow> string" where
  "to_uppercase up s =
     concat (map (\<lambda>w. case w of [c] \<Rightarrow> (if is_ascii c then [to_ascii_upper c] else up w) | _ \<Rightarrow> up w)
                 (utf8_chars s))"

definition to_lowercase :: "(string \<Rightarrow> string) \<Rightarrow> string \<Rightarrow> string" where
  "to_lowercase low s = (if list_all is_ascii s then map to_ascii_lower s else low s)"

lemma byte_less_256 [simp]: "byte c < 256"
  by (simp add: byte_def)

lemma byte_inject [simp]: "byte c = byte d \<longleftrightarrow> c = d"
  by (simp add: byte_def)

lemma ascii_not_cont [simp]: "is_ascii c \<Longrightarrow> \<not> is_cont c"
  by (simp add: is_ascii_def is_cont_def)

lemma byte_to_ascii_upper:
  "byte (to_ascii_upper c) = (if is_ascii_lowercase c then byte c - 32 else byte c)"
  by (auto simp: to_ascii_upper_def byte_def is_ascii_lowercase_def)

lemma byte_to_ascii_lower:
  "byte (to_ascii_lower c) = (if is_ascii_uppercase c then byte c + 32 else byte c)"
  by (auto simp: to_ascii_lower_def byte_def is_ascii_uppercase_def)

lemma is_ascii_upper [simp]: "is_ascii (to_ascii_upper c) \<longleftrightarrow> is_ascii c"
  by (auto simp: is_ascii_def byte_to_ascii_upper is_ascii_lowercase_def)

lemma is_ascii_lower [simp]: "is_ascii (to_ascii_lower c) \<longleftrightarrow> is_ascii c"
  by (auto simp: is_ascii_def byte_to_ascii_lower is_ascii_uppercase_def)

lemma to_ascii_lower_idem [simp]: "to_ascii_lower (to_ascii_lower c) = to_ascii_lower c"
proof -
  have "\<not> is_ascii_uppercase (to_ascii_lower c)"
    by (auto simp: is_ascii_uppercase_def byte_to_ascii_lower)
  then show ?thesis by (simp add: to_ascii_lower_def [of "to_ascii_lower c"])
qed

lemma to_ascii_upper_idem [simp]: "to_ascii_upper (to_ascii_upper c) = to_ascii_upper c"
proof -
  have "\<not> is_ascii_lowercase (to_ascii_upper c)"
    by (auto simp: is_ascii_lowercase_def byte_to_ascii_upper)
  then show ?thesis by (simp add: to_ascii_upper_def [of "to_ascii_upper c"])
qed

lemma to_uppercase_ascii [str_simps]:
  "list_all is_ascii s \<Longrightarrow> to_uppercase up s = map to_ascii_upper s"
proof (induction s)
  case Nil
  then show ?case by (simp add: to_uppercase_def)
next
  case (Cons c s)
  have "takeWhile is_cont s = [] \<and> dropWhile is_cont s = s"
    using Cons.prems by (cases s) auto
  with Cons show ?case by (simp add: to_uppercase_def)
qed

lemma to_lowercase_ascii [str_simps]:
  "list_all is_ascii s \<Longrightarrow> to_lowercase low s = map to_ascii_lower s"
  by (simp add: to_lowercase_def)

lemma char_boundary_ascii [str_simps]:
  "list_all is_ascii s \<Longrightarrow> i \<le> length s \<Longrightarrow> is_char_boundary s i"
  by (auto simp: is_char_boundary_def list_all_length)

section \<open>Unicode white space\<close>

text \<open>The UTF-8 encodings of the scalars \<open>str::trim\<close> removes (Unicode \<open>White_Space\<close>).\<close>

definition white_space :: "string list" where
  "white_space =
     [[CHR 0x09], [CHR 0x0A], [CHR 0x0B], [CHR 0x0C], [CHR 0x0D], [CHR 0x20],
      [CHR 0xC2, CHR 0x85], [CHR 0xC2, CHR 0xA0], [CHR 0xE1, CHR 0x9A, CHR 0x80],
      [CHR 0xE2, CHR 0x80, CHR 0x80], [CHR 0xE2, CHR 0x80, CHR 0x81],
      [CHR 0xE2, CHR 0x80, CHR 0x82], [CHR 0xE2, CHR 0x80, CHR 0x83],
      [CHR 0xE2, CHR 0x80, CHR 0x84], [CHR 0xE2, CHR 0x80, CHR 0x85],
      [CHR 0xE2, CHR 0x80, CHR 0x86], [CHR 0xE2, CHR 0x80, CHR 0x87],
      [CHR 0xE2, CHR 0x80, CHR 0x88], [CHR 0xE2, CHR 0x80, CHR 0x89],
      [CHR 0xE2, CHR 0x80, CHR 0x8A], [CHR 0xE2, CHR 0x80, CHR 0xA8],
      [CHR 0xE2, CHR 0x80, CHR 0xA9], [CHR 0xE2, CHR 0x80, CHR 0xAF],
      [CHR 0xE2, CHR 0x81, CHR 0x9F], [CHR 0xE3, CHR 0x80, CHR 0x80]]"

function strip_any :: "string list \<Rightarrow> string \<Rightarrow> string" where
  "strip_any ws s =
     (case List.find (\<lambda>w. w \<noteq> [] \<and> starts_with w s) ws of
        None \<Rightarrow> s
      | Some w \<Rightarrow> strip_any ws (drop (length w) s))"
  by pat_completeness auto
termination
proof (relation "measure (\<lambda>(ws, s). length s)")
  fix ws s w
  assume "List.find (\<lambda>w. w \<noteq> [] \<and> starts_with w s) ws = Some w"
  then have "w \<noteq> []" "starts_with w s" by (auto simp: find_Some_iff)
  then show "((ws, drop (length w) s), ws, s) \<in> measure (\<lambda>(ws, s). length s)"
    by (auto simp: starts_with_iff)
qed simp

declare strip_any.simps [simp del]

definition trim_start :: "string \<Rightarrow> string" where
  "trim_start s = strip_any white_space s"

definition trim_end :: "string \<Rightarrow> string" where
  "trim_end s = rev (strip_any (map rev white_space) (rev s))"

definition trim :: "string \<Rightarrow> string" where
  "trim s = trim_end (trim_start s)"

definition ws_lead :: "char \<Rightarrow> bool" where
  "ws_lead c \<longleftrightarrow> c \<in> set (map hd white_space)"

definition ws_tail :: "char \<Rightarrow> bool" where
  "ws_tail c \<longleftrightarrow> c \<in> set (map last white_space)"

lemma strip_any_id:
  assumes "\<forall>w \<in> set ws. w \<noteq> [] \<longrightarrow> \<not> starts_with w s"
  shows "strip_any ws s = s"
proof -
  have "List.find (\<lambda>w. w \<noteq> [] \<and> starts_with w s) ws = None"
    using assms by (auto simp: find_None_iff)
  then show ?thesis by (subst strip_any.simps) simp
qed

lemma trim_start_id: "\<not> ws_lead c \<Longrightarrow> trim_start (c # s) = c # s"
  unfolding trim_start_def ws_lead_def
  by (rule strip_any_id) (auto simp: white_space_def)

lemma trim_end_id: "\<not> ws_tail c \<Longrightarrow> trim_end (s @ [c]) = s @ [c]"
  unfolding trim_end_def ws_tail_def
  by (subst strip_any_id) (auto simp: white_space_def)

lemma trim_id [str_simps]:
  assumes "s \<noteq> []" "\<not> ws_lead (hd s)" "\<not> ws_tail (last s)"
  shows "trim s = s"
proof -
  obtain c r where "s = c # r" using assms(1) by (cases s) auto
  with assms(2) have 1: "trim_start s = s" by (simp add: trim_start_id)
  have "s = butlast s @ [last s]" using assms(1) by simp
  with assms(3) have "trim_end s = s" by (metis trim_end_id)
  with 1 show ?thesis by (simp add: trim_def)
qed

lemma trim_Nil [simp]: "trim [] = []"
  by (simp add: trim_def trim_start_def trim_end_def strip_any_id white_space_def)

lemma trim_space_start: "trim (CHR '' '' # s) = trim s"
proof -
  have f: "List.find (\<lambda>w. w \<noteq> [] \<and> starts_with w (CHR '' '' # s)) white_space = Some '' ''"
    by (simp add: white_space_def)
  have "strip_any white_space (CHR '' '' # s) = strip_any white_space s"
    by (subst strip_any.simps) (simp add: f)
  then show ?thesis by (simp add: trim_def trim_start_def)
qed

end
