(* ===== verification/Wire.thy ===== *)
theory Wire
  imports Prelude
begin

text \<open>
  The wire types of \<^verbatim>\<open>aauth/src/protocol\<close>: the enums with their string forms, the
  protocol error codes, the JWT claim sets and the request and response bodies the later
  theories pass around. Constructors and fields carry a short prefix of their Rust type.
\<close>

section \<open>Enumerations with a string form (\<^verbatim>\<open>common.rs\<close>, \<^verbatim>\<open>jwt.rs\<close>)\<close>

datatype requirement_level =
    RL_AgentToken | RL_AuthToken | RL_Approval | RL_Interaction | RL_Clarification | RL_Claims

fun rl_as_str :: "requirement_level \<Rightarrow> string" where
  "rl_as_str RL_AgentToken = ''agent-token''"
| "rl_as_str RL_AuthToken = ''auth-token''"
| "rl_as_str RL_Approval = ''approval''"
| "rl_as_str RL_Interaction = ''interaction''"
| "rl_as_str RL_Clarification = ''clarification''"
| "rl_as_str RL_Claims = ''claims''"

definition rl_from_str :: "string \<Rightarrow> requirement_level option" where
  "rl_from_str v =
     (if v = ''agent-token'' then Some RL_AgentToken
      else if v = ''auth-token'' then Some RL_AuthToken
      else if v = ''approval'' then Some RL_Approval
      else if v = ''interaction'' then Some RL_Interaction
      else if v = ''clarification'' then Some RL_Clarification
      else if v = ''claims'' then Some RL_Claims
      else None)"

datatype capability = Cap_Interaction | Cap_Clarification | Cap_Payment

fun cap_as_str :: "capability \<Rightarrow> string" where
  "cap_as_str Cap_Interaction = ''interaction''"
| "cap_as_str Cap_Clarification = ''clarification''"
| "cap_as_str Cap_Payment = ''payment''"

definition cap_from_str :: "string \<Rightarrow> capability option" where
  "cap_from_str v =
     (if v = ''interaction'' then Some Cap_Interaction
      else if v = ''clarification'' then Some Cap_Clarification
      else if v = ''payment'' then Some Cap_Payment
      else None)"

datatype pending_status = PS_Pending | PS_Interacting

record mission =
  approver :: string
  s256 :: string

datatype jwt_typ = Typ_Agent | Typ_Auth | Typ_Resource

fun typ_as_str :: "jwt_typ \<Rightarrow> string" where
  "typ_as_str Typ_Agent = ''aa-agent+jwt''"
| "typ_as_str Typ_Auth = ''aa-auth+jwt''"
| "typ_as_str Typ_Resource = ''aa-resource+jwt''"

fun verify_error_code :: "jwt_typ \<Rightarrow> string" where
  "verify_error_code Typ_Agent = ''invalid_agent_token''"
| "verify_error_code Typ_Auth = ''invalid_auth_token''"
| "verify_error_code Typ_Resource = ''invalid_resource_token''"

definition typ_from_str :: "string \<Rightarrow> jwt_typ option" where
  "typ_from_str v =
     (if v = ''aa-agent+jwt'' then Some Typ_Agent
      else if v = ''aa-auth+jwt'' then Some Typ_Auth
      else if v = ''aa-resource+jwt'' then Some Typ_Resource
      else None)"

lemma rl_from_str_as_str [simp]: "rl_from_str (rl_as_str l) = Some l"
  by (cases l) (simp_all add: rl_from_str_def)

lemma rl_from_str_Some: "rl_from_str v = Some l \<longleftrightarrow> v = rl_as_str l"
  by (cases l) (auto simp: rl_from_str_def)

lemma cap_from_str_as_str [simp]: "cap_from_str (cap_as_str c) = Some c"
  by (cases c) (simp_all add: cap_from_str_def)

lemma typ_from_str_Some: "typ_from_str v = Some t \<longleftrightarrow> v = typ_as_str t"
  by (cases t) (auto simp: typ_from_str_def)

section \<open>Protocol error bodies (\<^verbatim>\<open>error.rs\<close>)\<close>

datatype aauth_error_code =
    EC_InvalidRequest
  | EC_InvalidAgentToken
  | EC_ExpiredAgentToken
  | EC_InvalidResourceToken
  | EC_ExpiredResourceToken
  | EC_UserUnreachable
  | EC_ServerError
  | EC_InvalidSignature
  | EC_InvalidScope
  | EC_Denied
  | EC_Abandoned
  | EC_Expired
  | EC_InvalidCode
  | EC_SlowDown
  | EC_InvalidInput
  | EC_InvalidKey
  | EC_UnknownKey
  | EC_InvalidJwt
  | EC_ExpiredJwt
  | EC_AccessDenied
  | EC_UserAbandoned
  | EC_InteractionExpired
  | EC_TemporarilyUnavailable
  | EC_InteractionUnavailable
  | EC_MissionTerminated
  | EC_Custom string

fun ec_as_str :: "aauth_error_code \<Rightarrow> string" where
  "ec_as_str EC_InvalidRequest = ''invalid_request''"
| "ec_as_str EC_InvalidAgentToken = ''invalid_agent_token''"
| "ec_as_str EC_ExpiredAgentToken = ''expired_agent_token''"
| "ec_as_str EC_InvalidResourceToken = ''invalid_resource_token''"
| "ec_as_str EC_ExpiredResourceToken = ''expired_resource_token''"
| "ec_as_str EC_UserUnreachable = ''user_unreachable''"
| "ec_as_str EC_ServerError = ''server_error''"
| "ec_as_str EC_InvalidSignature = ''invalid_signature''"
| "ec_as_str EC_InvalidScope = ''invalid_scope''"
| "ec_as_str EC_Denied = ''denied''"
| "ec_as_str EC_Abandoned = ''abandoned''"
| "ec_as_str EC_Expired = ''expired''"
| "ec_as_str EC_InvalidCode = ''invalid_code''"
| "ec_as_str EC_SlowDown = ''slow_down''"
| "ec_as_str EC_InvalidInput = ''invalid_input''"
| "ec_as_str EC_InvalidKey = ''invalid_key''"
| "ec_as_str EC_UnknownKey = ''unknown_key''"
| "ec_as_str EC_InvalidJwt = ''invalid_jwt''"
| "ec_as_str EC_ExpiredJwt = ''expired_jwt''"
| "ec_as_str EC_AccessDenied = ''access_denied''"
| "ec_as_str EC_UserAbandoned = ''user_abandoned''"
| "ec_as_str EC_InteractionExpired = ''interaction_expired''"
| "ec_as_str EC_TemporarilyUnavailable = ''temporarily_unavailable''"
| "ec_as_str EC_InteractionUnavailable = ''interaction_unavailable''"
| "ec_as_str EC_MissionTerminated = ''mission_terminated''"
| "ec_as_str (EC_Custom code) = code"

definition ec_from_wire :: "string \<Rightarrow> aauth_error_code" where
  "ec_from_wire s =
     (if s = ''invalid_request'' then EC_InvalidRequest
      else if s = ''invalid_agent_token'' then EC_InvalidAgentToken
      else if s = ''expired_agent_token'' then EC_ExpiredAgentToken
      else if s = ''invalid_resource_token'' then EC_InvalidResourceToken
      else if s = ''expired_resource_token'' then EC_ExpiredResourceToken
      else if s = ''user_unreachable'' then EC_UserUnreachable
      else if s = ''server_error'' then EC_ServerError
      else if s = ''invalid_signature'' then EC_InvalidSignature
      else if s = ''invalid_scope'' then EC_InvalidScope
      else if s = ''denied'' then EC_Denied
      else if s = ''abandoned'' then EC_Abandoned
      else if s = ''expired'' then EC_Expired
      else if s = ''invalid_code'' then EC_InvalidCode
      else if s = ''slow_down'' then EC_SlowDown
      else if s = ''invalid_input'' then EC_InvalidInput
      else if s = ''invalid_key'' then EC_InvalidKey
      else if s = ''unknown_key'' then EC_UnknownKey
      else if s = ''invalid_jwt'' then EC_InvalidJwt
      else if s = ''expired_jwt'' then EC_ExpiredJwt
      else if s = ''access_denied'' then EC_AccessDenied
      else if s = ''user_abandoned'' then EC_UserAbandoned
      else if s = ''interaction_expired'' then EC_InteractionExpired
      else if s = ''temporarily_unavailable'' then EC_TemporarilyUnavailable
      else if s = ''interaction_unavailable'' then EC_InteractionUnavailable
      else if s = ''mission_terminated'' then EC_MissionTerminated
      else EC_Custom s)"

record protocol_error =
  pe_error :: aauth_error_code
  error_description :: "string option"
  error_uri :: "string option"

definition pe_new :: "aauth_error_code \<Rightarrow> protocol_error" where
  "pe_new code = \<lparr>pe_error = code, error_description = None, error_uri = None\<rparr>"

definition pe_with_description :: "aauth_error_code \<Rightarrow> string \<Rightarrow> protocol_error" where
  "pe_with_description code d =
     \<lparr>pe_error = code, error_description = Some d, error_uri = None\<rparr>"

definition pe_server_error :: protocol_error where
  "pe_server_error = pe_new EC_ServerError"

lemma ec_as_str_from_wire [simp]: "ec_as_str (ec_from_wire s) = s"
  by (simp add: ec_from_wire_def)

section \<open>Keys and claims (\<^verbatim>\<open>httpsig-key/src/protocol/jwk.rs\<close>, \<^verbatim>\<open>jwt.rs\<close>)\<close>

record public_jwk =
  kty :: string
  crv :: string
  jwk_x :: string
  jwk_y :: "string option"
  jwk_kid :: "string option"

record signing_jwk =
  s_kty :: string
  s_crv :: string
  s_x :: string
  s_y :: "string option"
  s_d :: string
  s_kid :: "string option"

definition signing_public_jwk :: "signing_jwk \<Rightarrow> public_jwk" where
  "signing_public_jwk k =
     \<lparr>kty = s_kty k, crv = s_crv k, jwk_x = s_x k, jwk_y = s_y k, jwk_kid = s_kid k\<rparr>"

record cnf_claim =
  cnf_jwk :: public_jwk

datatype act_claim = ActClaim (act_agent: string) (act_act: "act_claim option")

record agent_claims =
  ag_iss :: string
  ag_dwk :: string
  ag_sub :: string
  ag_jti :: string
  ag_cnf :: cnf_claim
  ag_iat :: i64
  ag_exp :: i64
  ag_ps :: "string option"
  parent_agent :: "string option"

definition claims_identifier :: "agent_claims \<Rightarrow> string" where
  "claims_identifier c = ag_sub c"

record auth_claims =
  au_iss :: string
  au_dwk :: string
  au_aud :: string
  au_jti :: string
  au_agent :: string
  au_act :: "act_claim option"
  au_cnf :: cnf_claim
  au_iat :: i64
  au_exp :: i64
  au_sub :: "string option"
  au_scope :: "string option"
  au_tenant :: "string option"
  au_mission :: "mission option"

record resource_interaction_claim =
  ri_url :: string
  ri_code :: string

record resource_claims =
  rc_iss :: string
  rc_dwk :: string
  rc_aud :: string
  rc_jti :: string
  rc_agent :: string
  rc_agent_jkt :: string
  rc_iat :: u64
  rc_exp :: u64
  rc_scope :: "string option"
  rc_mission :: "mission option"
  rc_interaction :: "resource_interaction_claim option"

section \<open>Token exchange bodies (\<^verbatim>\<open>token_exchange.rs\<close>, \<^verbatim>\<open>authorization.rs\<close>)\<close>

record token_exchange_request =
  tx_resource_token :: string
  tx_upstream_token :: "string option"
  tx_subagent_token :: "string option"
  tx_justification :: "string option"
  tx_login_hint :: "string option"
  tx_tenant :: "string option"
  tx_domain_hint :: "string option"
  tx_capabilities :: "capability list option"
  tx_prompt :: "string option"
  tx_platform :: "string option"
  tx_device :: "string option"

record access_token_exchange_request =
  ax_resource_token :: string
  ax_agent_token :: string
  ax_upstream_token :: "string option"
  ax_subagent_token :: "string option"

record token_response_body =
  auth_token :: string
  expires_in :: u64

record authorization_request =
  az_scope :: string

record authorization_granted_response =
  ag_status :: string
  ag_scope :: string

end
