(* ===== verification/Errors.thy ===== *)
theory Errors
  imports Wire
begin

text \<open>
  The error values of \<^verbatim>\<open>aauth/src/error.rs\<close> and \<^verbatim>\<open>httpsig-key/src/error.rs\<close> with
  their messages, the conversions between them, and their mapping to HTTP: the protocol JSON
  body of \<open>IntoAauthProtocol\<close> and the \<^verbatim>\<open>Signature-Error\<close> header. An error of another
  library (JSON, base64, URL, transport) is the string of its message.
\<close>

fun show_nat :: "nat \<Rightarrow> string" where
  "show_nat n = (if n < 10 then [char_of (48 + n)] else show_nat (n div 10) @ [char_of (48 + n mod 10)])"

declare show_nat.simps [simp del]

section \<open>Error enumerations\<close>

datatype httpsig_error =
    HE_MissingSignatureKey | HE_MissingSignatureInput | HE_MissingSignature | HE_MissingJwtParam
  | HE_MissingComponent string | HE_AuthorizationHeaderMissing | HE_CreatedInFuture | HE_Expired
  | HE_MissingCreated | HE_InvalidCreated string | HE_InvalidSignatureFormat
  | HE_InvalidEncoding string | HE_InvalidKeyLength | HE_UnsupportedSigningJwk string string
  | HE_MissingEcY | HE_VerificationFailed | HE_UnsupportedScheme string | HE_HwkSignUnsupported
  | HE_InvalidHeaderValue string | HE_MissingCoveredComponents | HE_InvalidSignatureKey string
  | HE_InvalidJwt string | HE_MissingCnfJwk | HE_Httpsig string | HE_Json string

datatype jwt_error =
    JE_Decode string | JE_MissingTyp | JE_UnknownTyp string | JE_AlgNone
  | JE_UnsupportedKty string | JE_Thumbprint string | JE_Canonicalize string | JE_JwkSet string

datatype signature_error =
    SE_MissingSignatureKey | SE_MissingJwtParam | SE_JwtNotQuoted | SE_MissingSignatureInput
  | SE_MissingSignature | SE_MissingComponent string | SE_MissingAuthorizationComponent
  | SE_AuthorizationHeaderMissing | SE_CreatedInFuture | SE_Expired | SE_MissingCreated
  | SE_InvalidCreated string | SE_InvalidSignatureFormat | SE_InvalidEncoding string
  | SE_InvalidKeyLength | SE_UnsupportedSigningJwk string string | SE_MissingEcY
  | SE_VerificationFailed | SE_HwkUnsupported | SE_MissingAuthority
  | SE_InvalidHeaderValue string | SE_MissingCoveredComponents | SE_HttpsigKey string
  | SE_Jwt jwt_error

datatype metadata_error =
    ME_HttpStatus string u16 | ME_Request string string | ME_Decode string string
  | ME_MissingJwksUri string | ME_MissingTokenEndpoint | ME_RateLimited string
  | ME_UnknownJwksUri string

datatype verify_reason =
    VR_WrongTyp | VR_InvalidDwk | VR_SignatureFailed | VR_ExpectedAuth | VR_UnsupportedTyp
  | VR_FutureIat | VR_InvalidIss | VR_InvalidPs | VR_InvalidParentAgent

datatype verify_error =
    VE_Expired jwt_typ | VE_Invalid jwt_typ verify_reason | VE_KeyBindingFailed
  | VE_AudMismatch | VE_IssMismatch | VE_AgentMismatch | VE_AgentJktMismatch | VE_MissingKid
  | VE_UnknownKid string | VE_Token string string | VE_Metadata metadata_error
  | VE_Jwt jwt_error | VE_NoAudience

datatype header_error =
    HD_EmptyRequirement | HD_MissingRequirementMember | HD_UnknownRequirement string
  | HD_MissingResourceToken | HD_MissingInteractionUrl | HD_MissingInteractionCode
  | HD_MissingApprover | HD_MissingS256 | HD_Invalid string

datatype deferred_error =
    DE_UnexpectedStatus u16 u16 | DE_MissingLocation | DE_MissingRequirement
  | DE_Requirement header_error | DE_Body string | DE_TimedOut u64 | DE_PostFailed u16
  | DE_MissingAuthTokenBody | DE_PaymentNotPendingBody | DE_PaymentNotRequirement
  | DE_InvalidUrl string | DE_MissingHost | DE_Transport string | DE_Serialize string

datatype agent_auth_error =
    AE_InvalidOrigin string | AE_PersonServerUnresolved | AE_ExpectedAgentJwt | AE_HwkUnsupported

datatype resource_token_error = RTE_SystemTime string | RTE_Encode string

datatype aauth_error =
    Jwt jwt_error | Signature signature_error | Metadata metadata_error | Verify verify_error
  | Deferred deferred_error | Header header_error | Agent agent_auth_error
  | ResourceToken resource_token_error

section \<open>Messages (\<open>Display\<close>)\<close>

fun httpsig_error_msg :: "httpsig_error \<Rightarrow> string" where
  "httpsig_error_msg HE_MissingSignatureKey = ''missing Signature-Key header''"
| "httpsig_error_msg HE_MissingSignatureInput = ''missing Signature-Input header''"
| "httpsig_error_msg HE_MissingSignature = ''missing Signature header''"
| "httpsig_error_msg HE_MissingJwtParam = ''Signature-Key missing jwt parameter''"
| "httpsig_error_msg (HE_MissingComponent c) =
     ''Signature-Input missing required component: '' @ c"
| "httpsig_error_msg HE_AuthorizationHeaderMissing =
     ''authorization covered but Authorization header missing''"
| "httpsig_error_msg HE_CreatedInFuture = ''signature created in the future''"
| "httpsig_error_msg HE_Expired = ''signature expired''"
| "httpsig_error_msg HE_MissingCreated = ''Signature-Input missing created''"
| "httpsig_error_msg (HE_InvalidCreated _) = ''invalid Signature-Input created''"
| "httpsig_error_msg HE_InvalidSignatureFormat = ''invalid Signature header format''"
| "httpsig_error_msg (HE_InvalidEncoding _) = ''invalid encoding''"
| "httpsig_error_msg HE_InvalidKeyLength = ''invalid key length''"
| "httpsig_error_msg (HE_UnsupportedSigningJwk k c) =
     ''unsupported signing JWK: kty='' @ k @ '' crv='' @ c"
| "httpsig_error_msg HE_MissingEcY = ''EC JWK missing y coordinate''"
| "httpsig_error_msg HE_VerificationFailed = ''HTTP signature verification failed''"
| "httpsig_error_msg (HE_UnsupportedScheme s) = ''unsupported Signature-Key scheme: '' @ s"
| "httpsig_error_msg HE_HwkSignUnsupported =
     ''hwk scheme is not supported for signing with this API''"
| "httpsig_error_msg (HE_InvalidHeaderValue _) = ''invalid header value''"
| "httpsig_error_msg HE_MissingCoveredComponents = ''Signature-Input missing covered components''"
| "httpsig_error_msg (HE_InvalidSignatureKey _) = ''invalid Signature-Key header''"
| "httpsig_error_msg (HE_InvalidJwt _) = ''invalid JWT in Signature-Key''"
| "httpsig_error_msg HE_MissingCnfJwk = ''JWT missing cnf.jwk''"
| "httpsig_error_msg (HE_Httpsig m) = ''httpsig error: '' @ m"
| "httpsig_error_msg (HE_Json _) = ''JSON error''"

fun jwt_error_msg :: "jwt_error \<Rightarrow> string" where
  "jwt_error_msg (JE_Decode m) = ''JWT decode failed: '' @ m"
| "jwt_error_msg JE_MissingTyp = ''missing typ header''"
| "jwt_error_msg (JE_UnknownTyp t) = ''unknown typ: '' @ t"
| "jwt_error_msg JE_AlgNone = ''JWT alg none is not accepted''"
| "jwt_error_msg (JE_UnsupportedKty k) = ''unsupported JWK kty: '' @ k"
| "jwt_error_msg (JE_Thumbprint m) = ''JWK thumbprint failed: '' @ m"
| "jwt_error_msg (JE_Canonicalize _) = ''JWK canonicalize failed''"
| "jwt_error_msg (JE_JwkSet _) = ''JWK set decode failed''"

fun signature_error_msg :: "signature_error \<Rightarrow> string" where
  "signature_error_msg SE_MissingSignatureKey = ''missing signature-key header''"
| "signature_error_msg SE_MissingJwtParam = ''signature-key missing jwt parameter''"
| "signature_error_msg SE_JwtNotQuoted = ''signature-key jwt not quoted''"
| "signature_error_msg SE_MissingSignatureInput = ''missing signature-input header''"
| "signature_error_msg SE_MissingSignature = ''missing signature header''"
| "signature_error_msg (SE_MissingComponent c) =
     ''signature-input missing required component: '' @ c"
| "signature_error_msg SE_MissingAuthorizationComponent =
     ''signature-input missing authorization component''"
| "signature_error_msg SE_AuthorizationHeaderMissing =
     ''authorization covered but Authorization header missing''"
| "signature_error_msg SE_CreatedInFuture = ''signature created in the future''"
| "signature_error_msg SE_Expired = ''signature expired''"
| "signature_error_msg SE_MissingCreated = ''signature-input missing created''"
| "signature_error_msg (SE_InvalidCreated _) = ''invalid signature-input created''"
| "signature_error_msg SE_InvalidSignatureFormat = ''invalid signature header format''"
| "signature_error_msg (SE_InvalidEncoding _) = ''invalid signature encoding''"
| "signature_error_msg SE_InvalidKeyLength = ''invalid key length''"
| "signature_error_msg (SE_UnsupportedSigningJwk k c) =
     ''unsupported signing JWK: kty='' @ k @ '' crv='' @ c"
| "signature_error_msg SE_MissingEcY = ''EC signing JWK missing y coordinate''"
| "signature_error_msg SE_VerificationFailed = ''HTTP signature verification failed''"
| "signature_error_msg SE_HwkUnsupported = ''hwk signature key not supported''"
| "signature_error_msg SE_MissingAuthority = ''request missing Host / URI authority for signing''"
| "signature_error_msg (SE_InvalidHeaderValue _) = ''invalid header value''"
| "signature_error_msg SE_MissingCoveredComponents = ''signature-input missing covered components''"
| "signature_error_msg (SE_HttpsigKey m) = ''httpsig-key error: '' @ m"
| "signature_error_msg (SE_Jwt e) = jwt_error_msg e"

fun metadata_error_msg :: "metadata_error \<Rightarrow> string" where
  "metadata_error_msg (ME_HttpStatus u st) = ''HTTP '' @ show_nat (unat st) @ '' fetching '' @ u"
| "metadata_error_msg (ME_Request u _) = ''request failed for '' @ u"
| "metadata_error_msg (ME_Decode u _) = ''invalid metadata/JWKS JSON from '' @ u"
| "metadata_error_msg (ME_MissingJwksUri u) = ''missing jwks_uri in metadata from '' @ u"
| "metadata_error_msg ME_MissingTokenEndpoint = ''missing token_endpoint in metadata''"
| "metadata_error_msg (ME_RateLimited u) = ''JWKS fetch rate limited for '' @ u"
| "metadata_error_msg (ME_UnknownJwksUri u) = ''unknown JWKS URI: '' @ u"

fun typ_debug :: "jwt_typ \<Rightarrow> string" where
  "typ_debug Typ_Agent = ''Agent''"
| "typ_debug Typ_Auth = ''Auth''"
| "typ_debug Typ_Resource = ''Resource''"

fun verify_error_msg :: "verify_error \<Rightarrow> string" where
  "verify_error_msg (VE_Expired _) = ''token expired''"
| "verify_error_msg (VE_Invalid t _) = ''invalid token ('' @ typ_debug t @ '')''"
| "verify_error_msg VE_KeyBindingFailed =
     ''cnf.jwk thumbprint does not match HTTP signature key''"
| "verify_error_msg VE_AudMismatch = ''auth token aud mismatch''"
| "verify_error_msg VE_IssMismatch = ''resource token iss mismatch''"
| "verify_error_msg VE_AgentMismatch = ''agent mismatch''"
| "verify_error_msg VE_AgentJktMismatch = ''agent_jkt mismatch''"
| "verify_error_msg VE_MissingKid = ''missing kid''"
| "verify_error_msg (VE_UnknownKid k) = ''unknown kid: '' @ k"
| "verify_error_msg (VE_Token c m) = c @ '': '' @ m"
| "verify_error_msg (VE_Metadata e) = metadata_error_msg e"
| "verify_error_msg (VE_Jwt e) = jwt_error_msg e"
| "verify_error_msg VE_NoAudience = ''cannot determine resource token audience''"

fun header_error_msg :: "header_error \<Rightarrow> string" where
  "header_error_msg HD_EmptyRequirement = ''empty AAuth-Requirement header''"
| "header_error_msg HD_MissingRequirementMember = ''missing requirement= in AAuth-Requirement''"
| "header_error_msg (HD_UnknownRequirement l) = ''unknown requirement level: '' @ l"
| "header_error_msg HD_MissingResourceToken = ''auth-token requires resource-token''"
| "header_error_msg HD_MissingInteractionUrl = ''interaction requires url''"
| "header_error_msg HD_MissingInteractionCode = ''interaction requires code''"
| "header_error_msg HD_MissingApprover = ''mission missing approver''"
| "header_error_msg HD_MissingS256 = ''mission missing s256''"
| "header_error_msg (HD_Invalid m) = ''invalid header: '' @ m"

fun deferred_error_msg :: "deferred_error \<Rightarrow> string" where
  "deferred_error_msg (DE_UnexpectedStatus e g) =
     ''expected status '' @ show_nat (unat e) @ '', got '' @ show_nat (unat g)"
| "deferred_error_msg DE_MissingLocation = ''202 missing Location''"
| "deferred_error_msg DE_MissingRequirement = ''202 missing AAuth-Requirement''"
| "deferred_error_msg (DE_Requirement e) = header_error_msg e"
| "deferred_error_msg (DE_Body _) = ''invalid pending JSON body''"
| "deferred_error_msg (DE_TimedOut s) = ''polling timed out after '' @ show_nat (unat s) @ ''s''"
| "deferred_error_msg (DE_PostFailed st) =
     ''pending POST failed with status '' @ show_nat (unat st)"
| "deferred_error_msg DE_MissingAuthTokenBody = ''pending poll returned 200 without auth token''"
| "deferred_error_msg DE_PaymentNotPendingBody = ''payment defer is not a pending JSON body''"
| "deferred_error_msg DE_PaymentNotRequirement = ''payment defer uses 402, not AAuth-Requirement''"
| "deferred_error_msg (DE_InvalidUrl _) = ''invalid pending URL''"
| "deferred_error_msg DE_MissingHost = ''pending URL missing host''"
| "deferred_error_msg (DE_Transport _) = ''HTTP request failed''"
| "deferred_error_msg (DE_Serialize _) = ''failed to serialize request body''"

fun agent_auth_error_msg :: "agent_auth_error \<Rightarrow> string" where
  "agent_auth_error_msg (AE_InvalidOrigin _) = ''invalid resource URL''"
| "agent_auth_error_msg AE_PersonServerUnresolved =
     ''person server unresolved: no config and no agent ps claim''"
| "agent_auth_error_msg AE_ExpectedAgentJwt =
     ''expected agent JWT for person server resolution''"
| "agent_auth_error_msg AE_HwkUnsupported = ''hwk signature key cannot supply agent JWT''"

fun resource_token_error_msg :: "resource_token_error \<Rightarrow> string" where
  "resource_token_error_msg (RTE_SystemTime _) = ''clock error''"
| "resource_token_error_msg (RTE_Encode _) = ''JWT encode failed''"

fun aauth_error_msg :: "aauth_error \<Rightarrow> string" where
  "aauth_error_msg (Jwt e) = jwt_error_msg e"
| "aauth_error_msg (Signature e) = signature_error_msg e"
| "aauth_error_msg (Metadata e) = metadata_error_msg e"
| "aauth_error_msg (Verify e) = verify_error_msg e"
| "aauth_error_msg (Deferred e) = deferred_error_msg e"
| "aauth_error_msg (Header e) = header_error_msg e"
| "aauth_error_msg (Agent e) = agent_auth_error_msg e"
| "aauth_error_msg (ResourceToken e) = resource_token_error_msg e"

end
