(* ===== verification/Error_Mapping.thy ===== *)
theory Error_Mapping
  imports Errors
begin

text \<open>
  How a failure reaches the wire (\<^verbatim>\<open>aauth/src/error.rs\<close>,
  \<^verbatim>\<open>httpsig-key/src/protocol/signature_error.rs\<close>): \<open>IntoAauthProtocol\<close> gives the status
  and JSON body, \<open>signature_error_header\<close> the \<^verbatim>\<open>Signature-Error\<close> header, and
  \<open>is_missing_agent_credential\<close> decides whether a challenge is sent instead.
\<close>

section \<open>Signature errors\<close>

fun is_missing_agent_credential_sig :: "signature_error \<Rightarrow> bool" where
  "is_missing_agent_credential_sig SE_MissingSignatureKey = True"
| "is_missing_agent_credential_sig SE_MissingJwtParam = True"
| "is_missing_agent_credential_sig SE_MissingSignature = True"
| "is_missing_agent_credential_sig SE_MissingSignatureInput = True"
| "is_missing_agent_credential_sig SE_HwkUnsupported = True"
| "is_missing_agent_credential_sig _ = False"

fun signature_error_code :: "signature_error \<Rightarrow> string" where
  "signature_error_code (SE_MissingComponent _) = ''invalid_input''"
| "signature_error_code SE_MissingAuthorizationComponent = ''invalid_input''"
| "signature_error_code SE_AuthorizationHeaderMissing = ''invalid_input''"
| "signature_error_code SE_MissingCoveredComponents = ''invalid_input''"
| "signature_error_code SE_MissingJwtParam = ''invalid_jwt''"
| "signature_error_code SE_JwtNotQuoted = ''invalid_jwt''"
| "signature_error_code (SE_Jwt _) = ''invalid_jwt''"
| "signature_error_code (SE_UnsupportedSigningJwk _ _) = ''unsupported_algorithm''"
| "signature_error_code SE_InvalidKeyLength = ''invalid_key''"
| "signature_error_code SE_MissingEcY = ''invalid_key''"
| "signature_error_code SE_HwkUnsupported = ''invalid_key''"
| "signature_error_code _ = ''invalid_signature''"

definition signature_error_from :: "httpsig_error \<Rightarrow> signature_error" where
  "signature_error_from err =
     (case err of
        HE_MissingSignatureKey \<Rightarrow> SE_MissingSignatureKey
      | HE_MissingJwtParam \<Rightarrow> SE_MissingJwtParam
      | HE_MissingSignatureInput \<Rightarrow> SE_MissingSignatureInput
      | HE_MissingSignature \<Rightarrow> SE_MissingSignature
      | HE_MissingComponent c \<Rightarrow>
          (if c = ''authorization'' then SE_MissingAuthorizationComponent
           else SE_MissingComponent c)
      | HE_AuthorizationHeaderMissing \<Rightarrow> SE_AuthorizationHeaderMissing
      | HE_CreatedInFuture \<Rightarrow> SE_CreatedInFuture
      | HE_Expired \<Rightarrow> SE_Expired
      | HE_MissingCreated \<Rightarrow> SE_MissingCreated
      | HE_InvalidCreated e \<Rightarrow> SE_InvalidCreated e
      | HE_InvalidSignatureFormat \<Rightarrow> SE_InvalidSignatureFormat
      | HE_InvalidEncoding e \<Rightarrow> SE_InvalidEncoding e
      | HE_InvalidKeyLength \<Rightarrow> SE_InvalidKeyLength
      | HE_UnsupportedSigningJwk k c \<Rightarrow> SE_UnsupportedSigningJwk k c
      | HE_MissingEcY \<Rightarrow> SE_MissingEcY
      | HE_VerificationFailed \<Rightarrow> SE_VerificationFailed
      | HE_UnsupportedScheme s \<Rightarrow>
          (if s = ''hwk'' then SE_HwkUnsupported else SE_HttpsigKey (httpsig_error_msg err))
      | HE_HwkSignUnsupported \<Rightarrow> SE_HwkUnsupported
      | HE_InvalidHeaderValue e \<Rightarrow> SE_InvalidHeaderValue e
      | HE_MissingCoveredComponents \<Rightarrow> SE_MissingCoveredComponents
      | _ \<Rightarrow> SE_HttpsigKey (httpsig_error_msg err))"

section \<open>The mappings\<close>

fun verify_signature_error_code :: "verify_error \<Rightarrow> string" where
  "verify_signature_error_code (VE_Expired _) = ''expired_jwt''"
| "verify_signature_error_code VE_KeyBindingFailed = ''invalid_key''"
| "verify_signature_error_code VE_MissingKid = ''unknown_key''"
| "verify_signature_error_code (VE_UnknownKid _) = ''unknown_key''"
| "verify_signature_error_code (VE_Token code _) =
     (if contains ''expired'' code then ''expired_jwt'' else ''invalid_jwt'')"
| "verify_signature_error_code _ = ''invalid_jwt''"

definition token_code_mapped :: "string \<Rightarrow> aauth_error_code" where
  "token_code_mapped code =
     (if code = ''invalid_agent_token'' then EC_InvalidAgentToken
      else if code = ''expired_agent_token'' then EC_ExpiredAgentToken
      else if code = ''invalid_resource_token'' then EC_InvalidResourceToken
      else if code = ''expired_resource_token'' then EC_ExpiredResourceToken
      else if code = ''invalid_jwt'' then EC_InvalidJwt
      else EC_Custom code)"

fun verify_into_protocol :: "verify_error \<Rightarrow> (u16 \<times> protocol_error) option" where
  "verify_into_protocol (VE_Expired t) =
     Some (401, pe_with_description
       (case t of Typ_Agent \<Rightarrow> EC_ExpiredAgentToken
                | Typ_Resource \<Rightarrow> EC_ExpiredResourceToken
                | Typ_Auth \<Rightarrow> EC_ExpiredJwt) (verify_error_msg (VE_Expired t)))"
| "verify_into_protocol (VE_Invalid t r) =
     Some (401, pe_with_description
       (case t of Typ_Agent \<Rightarrow> EC_InvalidAgentToken
                | Typ_Resource \<Rightarrow> EC_InvalidResourceToken
                | Typ_Auth \<Rightarrow> EC_InvalidJwt) (verify_error_msg (VE_Invalid t r)))"
| "verify_into_protocol VE_KeyBindingFailed =
     Some (401, pe_with_description EC_InvalidKey (verify_error_msg VE_KeyBindingFailed))"
| "verify_into_protocol VE_MissingKid =
     Some (401, pe_with_description EC_UnknownKey (verify_error_msg VE_MissingKid))"
| "verify_into_protocol (VE_UnknownKid k) =
     Some (401, pe_with_description EC_UnknownKey (verify_error_msg (VE_UnknownKid k)))"
| "verify_into_protocol (VE_Token code message) =
     Some (401, pe_with_description (token_code_mapped code) message)"
| "verify_into_protocol e = Some (401, pe_with_description EC_InvalidJwt (verify_error_msg e))"

fun signature_into_protocol :: "signature_error \<Rightarrow> (u16 \<times> protocol_error) option" where
  "signature_into_protocol e =
     Some (401, pe_with_description EC_InvalidSignature (signature_error_msg e))"

fun into_aauth_protocol :: "aauth_error \<Rightarrow> (u16 \<times> protocol_error) option" where
  "into_aauth_protocol (Signature e) = signature_into_protocol e"
| "into_aauth_protocol (Verify e) = verify_into_protocol e"
| "into_aauth_protocol (Jwt e) =
     Some (401, pe_with_description EC_InvalidJwt (jwt_error_msg e))"
| "into_aauth_protocol (Header e) =
     Some (400, pe_with_description EC_InvalidRequest (header_error_msg e))"
| "into_aauth_protocol _ = None"

fun is_missing_agent_credential :: "aauth_error \<Rightarrow> bool" where
  "is_missing_agent_credential (Signature e) = is_missing_agent_credential_sig e"
| "is_missing_agent_credential _ = False"

record signature_error_hdr =
  seh_error :: string
  seh_description :: "string option"

definition seh_new :: "string \<Rightarrow> signature_error_hdr" where
  "seh_new e = \<lparr>seh_error = e, seh_description = None\<rparr>"

fun signature_error_header :: "aauth_error \<Rightarrow> signature_error_hdr option" where
  "signature_error_header (Signature e) = Some (seh_new (signature_error_code e))"
| "signature_error_header (Verify e) = Some (seh_new (verify_signature_error_code e))"
| "signature_error_header (Jwt _) = Some (seh_new ''invalid_jwt'')"
| "signature_error_header _ = None"

section \<open>The \<^verbatim>\<open>Signature-Error\<close> header\<close>

definition seh_to_header :: "signature_error_hdr \<Rightarrow> string" where
  "seh_to_header h =
     (case seh_description h of
        Some d \<Rightarrow> ''error='' @ seh_error h @ ''; description=\"'' @ d @ ''\"''
      | None \<Rightarrow> ''error='' @ seh_error h)"

definition unquote :: "string \<Rightarrow> string" where
  "unquote v =
     (case strip_prefix ''\"'' v of
        None \<Rightarrow> v
      | Some s \<Rightarrow> (case strip_suffix ''\"'' s of None \<Rightarrow> v | Some t \<Rightarrow> t))"

fun seh_parts :: "string list \<Rightarrow> string option \<times> string option \<Rightarrow> string option \<times> string option" where
  "seh_parts [] acc = acc"
| "seh_parts (part # parts) (err, desc) =
     (let p = trim part in
      case strip_prefix ''error='' p of
        Some v \<Rightarrow> seh_parts parts (Some (unquote (trim v)), desc)
      | None \<Rightarrow>
          (case strip_prefix ''description='' p of
             Some v \<Rightarrow> seh_parts parts (err, Some (unquote (trim v)))
           | None \<Rightarrow> seh_parts parts (err, desc)))"

definition seh_from_header :: "string \<Rightarrow> signature_error_hdr option" where
  "seh_from_header h =
     (case seh_parts (split_on (CHR '';'') h) (None, None) of
        (Some e, d) \<Rightarrow> Some \<lparr>seh_error = e, seh_description = d\<rparr>
      | (None, _) \<Rightarrow> None)"

section \<open>Properties\<close>

definition signature_error_codes :: "string set" where
  "signature_error_codes =
     {''invalid_input'', ''invalid_jwt'', ''unsupported_algorithm'', ''invalid_key'',
      ''invalid_signature'', ''expired_jwt'', ''unknown_key''}"

lemma signature_error_code_range: "signature_error_code e \<in> signature_error_codes"
  by (cases e) (simp_all add: signature_error_codes_def)

lemma verify_signature_error_code_range: "verify_signature_error_code e \<in> signature_error_codes"
  by (cases e) (simp_all add: signature_error_codes_def)

lemma invalid_jwt_code: "''invalid_jwt'' \<in> signature_error_codes"
  by (simp add: signature_error_codes_def)

lemma seh_error_new: "seh_error (seh_new c) = c"
  by (simp add: seh_new_def)

lemma verify_into_protocol_status: "\<exists>b. verify_into_protocol e = Some (401, b)"
  by (cases e) simp_all

text \<open>
  C36: a failure carries a \<^verbatim>\<open>Signature-Error\<close> header exactly when its protocol body is a
  401; the header's code is one of the seven registered tokens, and it survives the
  header's own printer and parser.
\<close>
theorem failure_response_consistent:
  "(signature_error_header err \<noteq> None) = (\<exists>b. into_aauth_protocol err = Some (401, b)) \<and>
   (case signature_error_header err of
      None \<Rightarrow> True
    | Some h \<Rightarrow> seh_error h \<in> signature_error_codes \<and> seh_from_header (seh_to_header h) = Some h)"
proof -
  have rt: "seh_from_header (seh_to_header (seh_new c)) = Some (seh_new c)"
    if "c \<in> signature_error_codes" for c
    using that unfolding signature_error_codes_def
    by (auto simp: seh_from_header_def seh_to_header_def seh_new_def unquote_def str_simps
        ws_lead_def ws_tail_def white_space_def)
  show ?thesis
    using signature_error_code_range verify_signature_error_code_range
      verify_into_protocol_status
    by (cases err) (auto simp: rt seh_error_new invalid_jwt_code
        simp del: verify_signature_error_code.simps signature_error_code.simps)
qed

text \<open>
  The conversion of a transport-level signature error keeps its class: it reads as a missing
  credential exactly for the four absent-header errors and the two unsupported-\<^verbatim>\<open>hwk\<close> ones.
\<close>

lemma missing_credential_from:
  "is_missing_agent_credential (Signature (signature_error_from e)) \<longleftrightarrow>
     e \<in> {HE_MissingSignatureKey, HE_MissingJwtParam, HE_MissingSignatureInput,
          HE_MissingSignature, HE_HwkSignUnsupported, HE_UnsupportedScheme ''hwk''}"
  by (cases e) (auto simp: signature_error_from_def)

end
