(* ===== verification/Headers.thy ===== *)
theory Headers
  imports Errors
begin

text \<open>
  The AAuth header codecs: \<^verbatim>\<open>AAuth-Requirement\<close>, \<^verbatim>\<open>AAuth-Capabilities\<close> and
  \<^verbatim>\<open>AAuth-Mission\<close> (\<^verbatim>\<open>aauth/src/protocol/headers.rs\<close>) and the \<^verbatim>\<open>token68\<close>
  credentials (\<^verbatim>\<open>aauth/src/protocol/token68.rs\<close>), each printer and parser as written,
  with the round trips and the exact inputs on which they fail.
\<close>

section \<open>\<^verbatim>\<open>AAuth-Requirement\<close>\<close>

datatype aauth_challenge =
    Ch_AgentToken
  | Ch_AuthToken (ch_resource_token: string)
  | Ch_Approval
  | Ch_Interaction (ch_url: string) (ch_code: string)
  | Ch_Clarification
  | Ch_Claims

fun ch_level :: "aauth_challenge \<Rightarrow> requirement_level" where
  "ch_level Ch_AgentToken = RL_AgentToken"
| "ch_level (Ch_AuthToken _) = RL_AuthToken"
| "ch_level Ch_Approval = RL_Approval"
| "ch_level (Ch_Interaction _ _) = RL_Interaction"
| "ch_level Ch_Clarification = RL_Clarification"
| "ch_level Ch_Claims = RL_Claims"

fun ch_to_header :: "aauth_challenge \<Rightarrow> string" where
  "ch_to_header Ch_Approval = ''requirement=approval''"
| "ch_to_header Ch_Clarification = ''requirement=clarification''"
| "ch_to_header Ch_Claims = ''requirement=claims''"
| "ch_to_header Ch_AgentToken = ''requirement=agent-token''"
| "ch_to_header (Ch_AuthToken resource_token) =
     ''requirement=auth-token; resource-token=\"'' @ resource_token @ ''\"''"
| "ch_to_header (Ch_Interaction url code) =
     ''requirement=interaction; url=\"'' @ url @ ''\"; code=\"'' @ code @ ''\"''"

definition extract_quoted_param :: "string \<Rightarrow> string \<Rightarrow> string option" where
  "extract_quoted_param input key =
     (let pattern = key @ ''=\"'' in
      case find_sub pattern input of
        None \<Rightarrow> None
      | Some i \<Rightarrow>
          (let rest = drop (i + length pattern) input in
           map_option (\<lambda>e. take e rest) (find_sub ''\"'' rest)))"

definition ch_from_header :: "string \<Rightarrow> aauth_error + aauth_challenge" where
  "ch_from_header header_value =
     (let trimmed = trim header_value in
      if trimmed = [] then Err (Header HD_EmptyRequirement)
      else
        bind_res
          (ok_or (map_option (\<lambda>rest. trim (hd (split_on (CHR '';'') rest)))
                    (strip_prefix ''requirement='' trimmed))
                 (Header HD_MissingRequirementMember))
          (\<lambda>requirement_match.
        bind_res
          (ok_or (rl_from_str requirement_match)
                 (Header (HD_UnknownRequirement requirement_match)))
          (\<lambda>level.
        case level of
          RL_AgentToken \<Rightarrow> Ok Ch_AgentToken
        | RL_Approval \<Rightarrow> Ok Ch_Approval
        | RL_Clarification \<Rightarrow> Ok Ch_Clarification
        | RL_Claims \<Rightarrow> Ok Ch_Claims
        | RL_AuthToken \<Rightarrow>
            map_ok Ch_AuthToken
              (ok_or (extract_quoted_param trimmed ''resource-token'')
                     (Header HD_MissingResourceToken))
        | RL_Interaction \<Rightarrow>
            bind_res (ok_or (extract_quoted_param trimmed ''url'')
                            (Header HD_MissingInteractionUrl))
              (\<lambda>url.
            bind_res (ok_or (extract_quoted_param trimmed ''code'')
                            (Header HD_MissingInteractionCode))
              (\<lambda>code. Ok (Ch_Interaction url code))))))"

section \<open>\<^verbatim>\<open>AAuth-Capabilities\<close> and \<^verbatim>\<open>AAuth-Mission\<close>\<close>

definition join_header :: "capability list \<Rightarrow> string" where
  "join_header capabilities = join '', '' (map cap_as_str capabilities)"

definition parse_header :: "string \<Rightarrow> capability list" where
  "parse_header header_value =
     List.map_filter cap_from_str (map trim (split_on (CHR '','') header_value))"

definition mission_to_header :: "mission \<Rightarrow> string" where
  "mission_to_header m = ''approver=\"'' @ approver m @ ''\"; s256=\"'' @ s256 m @ ''\"''"

definition mission_from_header :: "string \<Rightarrow> aauth_error + mission" where
  "mission_from_header header_value =
     bind_res (ok_or (extract_quoted_param header_value ''approver'') (Header HD_MissingApprover))
       (\<lambda>a. bind_res (ok_or (extract_quoted_param header_value ''s256'') (Header HD_MissingS256))
       (\<lambda>h. Ok \<lparr>approver = a, s256 = h\<rparr>))"

section \<open>\<^verbatim>\<open>token68\<close> credentials\<close>

definition is_token68_char :: "char \<Rightarrow> bool" where
  "is_token68_char b \<longleftrightarrow> is_ascii_alphanumeric b \<or> b \<in> set ''-._~+/''"

definition is_token68 :: "string \<Rightarrow> bool" where
  "is_token68 s = (let body = trim_end_matches (CHR ''='') s
                   in body \<noteq> [] \<and> list_all is_token68_char body)"

definition parse_aauth_credential :: "string \<Rightarrow> aauth_error + string" where
  "parse_aauth_credential v =
     bind_res (ok_or (strip_prefix ''AAuth '' (trim v))
                     (Header (HD_Invalid ''Authorization scheme must be AAuth'')))
       (\<lambda>token. if is_token68 token then Ok token
                else Err (Header (HD_Invalid ''AAuth credential is not token68'')))"

definition parse_aauth_access_header :: "string \<Rightarrow> aauth_error + string" where
  "parse_aauth_access_header value =
     (let trimmed = trim value in
      if is_token68 trimmed then Ok trimmed
      else Err (Header (HD_Invalid ''AAuth-Access is not token68'')))"

section \<open>Reading a quoted parameter\<close>

lemma ws_lead_simps [simp]:
  "\<not> ws_lead (CHR ''r'')" "\<not> ws_lead (CHR ''A'')"
  by (simp_all add: ws_lead_def white_space_def)

lemma ws_tail_simps [simp]: "\<not> ws_tail (CHR 0x22)"
  by (simp add: ws_tail_def white_space_def)

lemma extract_at:
  assumes "find_sub (key @ ''=\"'') input = Some (length a)"
    and "input = a @ key @ ''=\"'' @ v @ CHR 0x22 # t" and "CHR 0x22 \<notin> set v"
  shows "extract_quoted_param input key = Some v"
proof -
  have "drop (length a + length (key @ ''=\"'')) input = v @ CHR 0x22 # t"
    using assms(2) by simp
  moreover have "find_sub ''\"'' (v @ CHR 0x22 # t) = Some (length v)"
    using assms(3) by (rule find_char_skip)
  ultimately show ?thesis
    using assms(1) by (simp add: extract_quoted_param_def Let_def)
qed

lemma find_sub_past_value:
  assumes "CHR 0x22 \<notin> set u" "CHR 0x22 \<notin> set k" "\<not> ends_with k u"
  shows "find_sub (k @ ''\"'') (u @ CHR 0x22 # t) =
    map_option (\<lambda>n. n + length u) (find_sub (k @ ''\"'') (CHR 0x22 # t))"
  using find_sub_skip [of "CHR 0x22" u k t] assms by simp

section \<open>Round trips\<close>

definition unquoted :: "string \<Rightarrow> bool" where
  "unquoted s \<longleftrightarrow> CHR 0x22 \<notin> set s"

lemma interaction_url:
  assumes "unquoted url"
  shows "extract_quoted_param (ch_to_header (Ch_Interaction url code)) ''url'' = Some url"
proof (rule extract_at [where a = "''requirement=interaction; ''" and t = "''; code=\"'' @ code @ ''\"''"])
  show "find_sub (''url'' @ ''=\"'') (ch_to_header (Ch_Interaction url code)) =
      Some (length ''requirement=interaction; '')" by simp
  show "ch_to_header (Ch_Interaction url code) = ''requirement=interaction; '' @ ''url'' @ ''=\"'' @
      url @ CHR 0x22 # ''; code=\"'' @ code @ ''\"''" by simp
  show "CHR 0x22 \<notin> set url" using assms by (simp add: unquoted_def)
qed

lemma interaction_code_found:
  assumes u: "unquoted url" "unquoted code" and e: "\<not> ends_with ''code='' url"
  shows "extract_quoted_param (ch_to_header (Ch_Interaction url code)) ''code'' = Some code"
proof (rule extract_at [where a = "''requirement=interaction; url=\"'' @ url @ ''\"; ''" and t = "[]"])
  have "find_sub ''code=\"'' (url @ CHR 0x22 # ''; code=\"'' @ code @ ''\"'') = Some (3 + length url)"
    using find_sub_past_value [of url "''code=''" "''; code=\"'' @ code @ ''\"''"] u e
    by (simp add: unquoted_def)
  then show "find_sub (''code'' @ ''=\"'') (ch_to_header (Ch_Interaction url code)) =
      Some (length (''requirement=interaction; url=\"'' @ url @ ''\"; ''))" by simp
  show "ch_to_header (Ch_Interaction url code) = (''requirement=interaction; url=\"'' @ url @ ''\"; '')
      @ ''code'' @ ''=\"'' @ code @ CHR 0x22 # []" by simp
  show "CHR 0x22 \<notin> set code" using u by (simp add: unquoted_def)
qed

lemma interaction_code_confused:
  assumes u: "unquoted url" and e: "ends_with ''code='' url"
  shows "extract_quoted_param (ch_to_header (Ch_Interaction url code)) ''code'' = Some ''; code=''"
proof -
  obtain p where p: "url = p @ ''code=''" using e by (auto simp: ends_with_iff)
  have q: "CHR 0x22 \<notin> set p" using u p by (simp add: unquoted_def)
  have f: "find_sub ''code=\"'' (p @ ''code=\"; code=\"'' @ code @ ''\"'') = Some (length p)"
    using find_sub_at_end [of "CHR 0x22" p "''code=''" "''; code=\"'' @ code @ ''\"''"] q by simp
  show ?thesis
  proof (rule extract_at [where a = "''requirement=interaction; url=\"'' @ p" and t = "code @ ''\"''"])
    show "find_sub (''code'' @ ''=\"'') (ch_to_header (Ch_Interaction url code)) =
        Some (length (''requirement=interaction; url=\"'' @ p))" using f by (simp add: p)
  qed (simp_all add: p)
qed

lemma from_header_interaction:
  "ch_from_header (ch_to_header (Ch_Interaction url code)) =
     bind_res (ok_or (extract_quoted_param (ch_to_header (Ch_Interaction url code)) ''url'')
                     (Header HD_MissingInteractionUrl))
       (\<lambda>u. bind_res (ok_or (extract_quoted_param (ch_to_header (Ch_Interaction url code)) ''code'')
                            (Header HD_MissingInteractionCode))
       (\<lambda>c. Ok (Ch_Interaction u c)))"
proof -
  let ?h = "ch_to_header (Ch_Interaction url code)"
  have t: "trim ?h = ?h" by (rule trim_id) simp_all
  have s: "strip_prefix ''requirement='' ?h =
      Some (''interaction; url=\"'' @ url @ ''\"; code=\"'' @ code @ ''\"'')" by simp
  have h: "hd (split_on (CHR '';'') (''interaction; url=\"'' @ url @ ''\"; code=\"'' @ code @ ''\"''))
      = ''interaction''"
    using split_on_append [of "CHR '';''" "''interaction''"] by simp
  have ti: "trim ''interaction'' = ''interaction''"
    by (rule trim_id) (simp_all add: ws_lead_def ws_tail_def white_space_def)
  have "?h \<noteq> []" by simp
  then show ?thesis
    by (simp only: ch_from_header_def Let_def t s h ti if_False option.map ok_or.simps
        bind_res.simps rl_from_str_as_str [of RL_Interaction, simplified] requirement_level.case)
qed

lemma from_header_auth_token:
  assumes "unquoted t"
  shows "ch_from_header (ch_to_header (Ch_AuthToken t)) = Ok (Ch_AuthToken t)"
proof -
  let ?h = "ch_to_header (Ch_AuthToken t)"
  have t: "trim ?h = ?h" by (rule trim_id) simp_all
  have s: "strip_prefix ''requirement='' ?h = Some (''auth-token; resource-token=\"'' @ t @ ''\"'')" by simp
  have h: "hd (split_on (CHR '';'') (''auth-token; resource-token=\"'' @ t @ ''\"'')) = ''auth-token''"
    using split_on_append [of "CHR '';''" "''auth-token''"] by simp
  have ti: "trim ''auth-token'' = ''auth-token''"
    by (rule trim_id) (simp_all add: ws_lead_def ws_tail_def white_space_def)
  have x: "extract_quoted_param ?h ''resource-token'' = Some t"
  proof (rule extract_at [where a = "''requirement=auth-token; ''" and t = "[]"])
    show "CHR 0x22 \<notin> set t" using assms by (simp add: unquoted_def)
  qed simp_all
  have "?h \<noteq> []" by simp
  then show ?thesis
    by (simp only: ch_from_header_def Let_def t s h ti x if_False option.map ok_or.simps map_ok.simps
        bind_res.simps rl_from_str_as_str [of RL_AuthToken, simplified] requirement_level.case)
qed

text \<open>The challenges that carry no parameter are read back by evaluation.\<close>

lemma from_header_plain:
  "ch_from_header (ch_to_header Ch_AgentToken) = Ok Ch_AgentToken"
  "ch_from_header (ch_to_header Ch_Approval) = Ok Ch_Approval"
  "ch_from_header (ch_to_header Ch_Clarification) = Ok Ch_Clarification"
  "ch_from_header (ch_to_header Ch_Claims) = Ok Ch_Claims"
  by (simp_all add: ch_from_header_def Let_def rl_from_str_def trim_id
      ws_lead_def ws_tail_def white_space_def)

fun ch_values :: "aauth_challenge \<Rightarrow> string list" where
  "ch_values (Ch_AuthToken t) = [t]"
| "ch_values (Ch_Interaction url code) = [url, code]"
| "ch_values _ = []"

text \<open>Where no url shadows its code, the header is read back exactly.\<close>

fun unshadowed :: "aauth_challenge \<Rightarrow> bool" where
  "unshadowed (Ch_Interaction url code) \<longleftrightarrow> \<not> ends_with ''code='' url"
| "unshadowed _ \<longleftrightarrow> True"

lemma ch_read_back:
  assumes "\<forall>v \<in> set (ch_values c). unquoted v" "unshadowed c"
  shows "ch_from_header (ch_to_header c) = Ok c"
proof (cases c)
  case (Ch_Interaction url code)
  with assms show ?thesis
    by (auto simp: from_header_interaction interaction_url interaction_code_found simp del: ch_to_header.simps)
qed (use assms in \<open>simp_all add: from_header_plain from_header_auth_token del: ch_to_header.simps\<close>)

text \<open>
  C34: a challenge whose values hold no double quote is read back from its own header, with one
  exception that the theorem states exactly: when the interaction url ends in
  \<^verbatim>\<open>code=\<close>, the parser finds its \<^verbatim>\<open>code="\<close> at the end of the url and returns the
  separator \<^verbatim>\<open>; code=\<close> as the interaction code.
\<close>
theorem challenge_round_trip:
  assumes "\<forall>v \<in> set (ch_values c). unquoted v"
  shows "ch_from_header (ch_to_header c) = Ok (case c of
      Ch_Interaction url code \<Rightarrow>
        Ch_Interaction url (if ends_with ''code='' url then ''; code='' else code)
    | _ \<Rightarrow> c)"
proof (cases c)
  case (Ch_Interaction url code)
  with assms show ?thesis
    by (auto simp: from_header_interaction interaction_url interaction_code_found
        interaction_code_confused simp del: ch_to_header.simps)
qed (use assms in \<open>simp_all add: from_header_plain from_header_auth_token del: ch_to_header.simps\<close>)

theorem challenge_round_trip_witness:
  "ch_from_header (ch_to_header (Ch_Interaction ''https://ps/i?code='' ''AB-12''))
     = Ok (Ch_Interaction ''https://ps/i?code='' ''; code='') \<and>
   ch_from_header (ch_to_header (Ch_Interaction ''https://ps/i'' ''AB-12''))
     = Ok (Ch_Interaction ''https://ps/i'' ''AB-12'')"
  using challenge_round_trip [of "Ch_Interaction ''https://ps/i?code='' ''AB-12''"]
    challenge_round_trip [of "Ch_Interaction ''https://ps/i'' ''AB-12''"]
  by (simp add: unquoted_def ends_with_def strip_suffix_def del: ch_to_header.simps)

lemma mission_approver:
  assumes "unquoted (approver m)"
  shows "extract_quoted_param (mission_to_header m) ''approver'' = Some (approver m)"
proof (rule extract_at [where a = "[]" and t = "''; s256=\"'' @ s256 m @ ''\"''"])
  show "CHR 0x22 \<notin> set (approver m)" using assms by (simp add: unquoted_def)
qed (simp_all add: mission_to_header_def)

lemma mission_s256_found:
  assumes u: "unquoted (approver m)" "unquoted (s256 m)" and e: "\<not> ends_with ''s256='' (approver m)"
  shows "extract_quoted_param (mission_to_header m) ''s256'' = Some (s256 m)"
proof (rule extract_at [where a = "''approver=\"'' @ approver m @ ''\"; ''" and t = "[]"])
  have "find_sub ''s256=\"'' (approver m @ CHR 0x22 # ''; s256=\"'' @ s256 m @ ''\"'')
      = Some (3 + length (approver m))"
    using find_sub_past_value [of "approver m" "''s256=''" "''; s256=\"'' @ s256 m @ ''\"''"] u e
    by (simp add: unquoted_def)
  then show "find_sub (''s256'' @ ''=\"'') (mission_to_header m) =
      Some (length (''approver=\"'' @ approver m @ ''\"; ''))" by (simp add: mission_to_header_def)
  show "CHR 0x22 \<notin> set (s256 m)" using u by (simp add: unquoted_def)
qed (simp add: mission_to_header_def)

lemma mission_s256_confused:
  assumes u: "unquoted (approver m)" and e: "ends_with ''s256='' (approver m)"
  shows "extract_quoted_param (mission_to_header m) ''s256'' = Some ''; s256=''"
proof -
  obtain p where p: "approver m = p @ ''s256=''" using e by (auto simp: ends_with_iff)
  have q: "CHR 0x22 \<notin> set p" using u p by (simp add: unquoted_def)
  have f: "find_sub ''s256=\"'' (p @ ''s256=\"; s256=\"'' @ s256 m @ ''\"'') = Some (length p)"
    using find_sub_at_end [of "CHR 0x22" p "''s256=''" "''; s256=\"'' @ s256 m @ ''\"''"] q by simp
  show ?thesis
  proof (rule extract_at [where a = "''approver=\"'' @ p" and t = "s256 m @ ''\"''"])
    show "find_sub (''s256'' @ ''=\"'') (mission_to_header m) = Some (length (''approver=\"'' @ p))"
      using f by (simp add: p mission_to_header_def)
  qed (simp_all add: p mission_to_header_def)
qed

text \<open>
  A mission whose values hold no double quote is read back from its \<^verbatim>\<open>AAuth-Mission\<close>
  header; the one exception is an approver ending in \<^verbatim>\<open>s256=\<close>, whose hash is read as
  the separator.
\<close>
theorem mission_round_trip:
  assumes "unquoted (approver m)" "unquoted (s256 m)"
  shows "mission_from_header (mission_to_header m) =
    Ok (m\<lparr>s256 := if ends_with ''s256='' (approver m) then ''; s256='' else s256 m\<rparr>)"
  using assms
  by (simp add: mission_from_header_def mission_approver mission_s256_found mission_s256_confused)

theorem mission_round_trip_witness:
  "mission_from_header (mission_to_header \<lparr>approver = ''https://ps'', s256 = ''abc''\<rparr>)
     = Ok \<lparr>approver = ''https://ps'', s256 = ''abc''\<rparr>"
  using mission_round_trip [of "\<lparr>approver = ''https://ps'', s256 = ''abc''\<rparr>"]
  by (simp add: unquoted_def ends_with_def strip_suffix_def)

lemma cap_trim: "trim (cap_as_str c) = cap_as_str c" "CHR '','' \<notin> set (cap_as_str c)"
  by (cases c; simp add: trim_id ws_lead_def ws_tail_def white_space_def)+

lemma parse_header_step:
  "cs \<noteq> [] \<Longrightarrow> c \<in> {[], '' ''} \<Longrightarrow> parse_header (c @ join_header cs) = cs"
proof (induction cs arbitrary: c rule: induct_list012)
  case (2 x)
  have "CHR '','' \<notin> set (c @ cap_as_str x)" using 2 cap_trim(2) [of x] by auto
  moreover have "trim (c @ cap_as_str x) = cap_as_str x"
    using 2 cap_trim(1) [of x] by (auto simp: trim_space_start)
  ultimately show ?case
    by (simp add: parse_header_def join_header_def split_on_free map_filter_simps)
next
  case (3 x y zs)
  have n: "CHR '','' \<notin> set (c @ cap_as_str x)" using 3 cap_trim(2) [of x] by auto
  have t: "trim (c @ cap_as_str x) = cap_as_str x"
    using 3 cap_trim(1) [of x] by (auto simp: trim_space_start)
  have j: "c @ join_header (x # y # zs) = (c @ cap_as_str x) @ CHR '','' # ('' '' @ join_header (y # zs))"
    by (simp add: join_header_def)
  have "parse_header ('' '' @ join_header (y # zs)) = y # zs" using "3.IH"(2) by blast
  then show ?case
    unfolding j by (simp only: parse_header_def split_on_append [OF n] list.map t)
      (simp add: map_filter_simps)
qed simp

text \<open>
  The \<^verbatim>\<open>AAuth-Capabilities\<close> list is read back in order from its header, for every
  non-empty list; the empty header is the empty list.
\<close>
theorem capabilities_round_trip: "parse_header (join_header cs) = cs"
proof (cases "cs = []")
  case True
  then show ?thesis by (simp add: parse_header_def join_header_def map_filter_simps cap_from_str_def)
next
  case False
  then show ?thesis using parse_header_step [of cs "[]"] by simp
qed

section \<open>\<^verbatim>\<open>token68\<close>\<close>

lemma token68_char_ws: "is_token68_char c \<or> c = CHR ''='' \<Longrightarrow> \<not> ws_lead c \<and> \<not> ws_tail c"
  by (auto simp: is_token68_char_def is_ascii_alphanumeric_def is_ascii_uppercase_def
      is_ascii_lowercase_def is_ascii_digit_def ws_lead_def ws_tail_def white_space_def byte_def)

lemma token68_separators:
  "c \<in> {CHR '' '', CHR '','', CHR 0x22} \<Longrightarrow> \<not> (is_token68_char c \<or> c = CHR ''='')"
  by (auto simp: is_token68_char_def is_ascii_alphanumeric_def is_ascii_uppercase_def
      is_ascii_lowercase_def is_ascii_digit_def byte_def)

lemma token68_chars:
  assumes "is_token68 t"
  shows "t \<noteq> []" "\<forall>c \<in> set t. is_token68_char c \<or> c = CHR ''=''"
proof -
  from trim_end_matches_decomp obtain n
    where d: "t = trim_end_matches (CHR ''='') t @ replicate n (CHR ''='')" by blast
  have b: "trim_end_matches (CHR ''='') t \<noteq> []" "list_all is_token68_char (trim_end_matches (CHR ''='') t)"
    using assms by (simp_all add: is_token68_def Let_def)
  show "t \<noteq> []" using b(1) by (auto simp: trim_end_matches_def)
  show "\<forall>c \<in> set t. is_token68_char c \<or> c = CHR ''=''"
    using b(2) by (subst d) (auto simp: list_all_iff)
qed

lemma token68_trim:
  assumes "is_token68 t"
  shows "trim t = t" "trim (''AAuth '' @ t) = ''AAuth '' @ t"
proof -
  have n: "t \<noteq> []" and c: "\<forall>c \<in> set t. \<not> ws_lead c \<and> \<not> ws_tail c"
    using token68_chars [OF assms] token68_char_ws by auto
  show "trim t = t" using n c by (intro trim_id) auto
  show "trim (''AAuth '' @ t) = ''AAuth '' @ t" using n c by (intro trim_id) auto
qed

lemma credential_token68: "parse_aauth_credential v = Ok t \<Longrightarrow> is_token68 t"
  by (auto simp: parse_aauth_credential_def res_simps split: if_splits)

lemma access_header_token68: "parse_aauth_access_header v = Ok t \<Longrightarrow> is_token68 t"
  by (auto simp: parse_aauth_access_header_def Let_def split: if_splits)

text \<open>
  The values that \<^verbatim>\<open>Authorization: AAuth\<close> and \<^verbatim>\<open>AAuth-Access\<close> can carry are exactly
  the \<^verbatim>\<open>token68\<close> strings: such a token is read back from the header the client writes,
  and nothing else is ever accepted. An accepted token holds no white space, quote or comma
  that could split the header.
\<close>
theorem token68_credentials:
  "(\<exists>v. parse_aauth_credential v = Ok t) = is_token68 t \<and>
   (\<exists>v. parse_aauth_access_header v = Ok t) = is_token68 t \<and>
   (parse_aauth_credential (''AAuth '' @ t) = Ok t) = is_token68 t \<and>
   (parse_aauth_access_header t = Ok t) = is_token68 t \<and>
   \<not> (is_token68 t \<and> {CHR '' '', CHR '','', CHR 0x22} \<inter> set t \<noteq> {})"
proof -
  have 1: "parse_aauth_credential (''AAuth '' @ t) = Ok t" if "is_token68 t"
    unfolding parse_aauth_credential_def token68_trim(2) [OF that] using that by simp
  have 2: "parse_aauth_access_header t = Ok t" if "is_token68 t"
    using that by (simp add: parse_aauth_access_header_def Let_def token68_trim)
  have 3: "\<not> (is_token68 t \<and> {CHR '' '', CHR '','', CHR 0x22} \<inter> set t \<noteq> {})"
    using token68_chars(2) [of t] token68_separators by blast
  show ?thesis
    using 1 2 3 credential_token68 access_header_token68 by metis
qed

end
