(* ===== verification/Identifiers.thy ===== *)
theory Identifiers
  imports Wire
begin

text \<open>
  Server and agent identifiers (\<^verbatim>\<open>aauth/src/protocol/identifiers.rs\<close>) and the audience
  rules built on them (\<^verbatim>\<open>http_util.rs\<close>, \<^verbatim>\<open>resource_verify/audience.rs\<close>). The \<^verbatim>\<open>url\<close>
  crate is a parameter: \<open>parse\<close> stands for \<^verbatim>\<open>Url::parse\<close> and gives the accessors the
  code reads.
\<close>

record url_parts =
  u_scheme :: string
  u_username :: string
  u_password :: "string option"
  u_host_str :: "string option"
  u_port :: "u16 option"
  u_path :: string
  u_query :: "string option"
  u_fragment :: "string option"

type_synonym url_parser = "string \<Rightarrow> url_parts option"

section \<open>Server identifiers\<close>

definition is_loopback_http_identifier :: "url_parser \<Rightarrow> string \<Rightarrow> bool" where
  "is_loopback_http_identifier parse url =
     (if url = [] \<or> ends_with ''/'' url then False
      else case parse url of
        None \<Rightarrow> False
      | Some p \<Rightarrow>
          if u_scheme p \<noteq> ''http'' then False
          else if u_query p \<noteq> None \<or> u_fragment p \<noteq> None then False
          else if u_path p \<noteq> ''/'' \<and> u_path p \<noteq> [] then False
          else if u_username p \<noteq> [] \<or> u_password p \<noteq> None then False
          else u_host_str p = Some ''127.0.0.1'' \<or> u_host_str p = Some ''localhost'')"

definition is_valid_server_identifier :: "url_parser \<Rightarrow> string \<Rightarrow> bool" where
  "is_valid_server_identifier parse url =
     (if is_loopback_http_identifier parse url then True
      else if url = [] \<or> ends_with ''/'' url then False
      else if list_ex is_ascii_uppercase url then False
      else case parse url of
        None \<Rightarrow> False
      | Some p \<Rightarrow>
          if u_scheme p \<noteq> ''https'' then False
          else if u_port p \<noteq> None then False
          else if u_username p \<noteq> [] \<or> u_password p \<noteq> None then False
          else if u_query p \<noteq> None \<or> u_fragment p \<noteq> None then False
          else if u_path p \<noteq> ''/'' \<and> u_path p \<noteq> [] then False
          else (case u_host_str p of None \<Rightarrow> False | Some host \<Rightarrow> host \<noteq> []))"

section \<open>Agent identifiers\<close>

definition label_char :: "char \<Rightarrow> bool" where
  "label_char c \<longleftrightarrow> is_ascii_lowercase c \<or> is_ascii_digit c \<or> c = CHR ''-''"

definition local_char :: "char \<Rightarrow> bool" where
  "local_char c \<longleftrightarrow> is_ascii_lowercase c \<or> is_ascii_digit c \<or> c \<in> {CHR ''-'', CHR ''_'', CHR ''+'', CHR ''.''}"

definition is_valid_domain_name :: "string \<Rightarrow> bool" where
  "is_valid_domain_name domain =
     (if domain = [] \<or> list_ex is_ascii_uppercase domain then False
      else if contains ''://'' domain \<or> contains ''/'' domain \<or> contains '':'' domain then False
      else list_all (\<lambda>label. label \<noteq> [] \<and> length label \<le> 63 \<and> list_all label_char label \<and>
             \<not> starts_with ''-'' label \<and> \<not> ends_with ''-'' label) (split_on (CHR ''.'') domain))"

definition is_valid_agent_identifier :: "string \<Rightarrow> bool" where
  "is_valid_agent_identifier i =
     (case strip_prefix ''aauth:'' i of
        None \<Rightarrow> False
      | Some rest \<Rightarrow>
          (case split_once (CHR ''@'') rest of
             None \<Rightarrow> False
           | Some (local, domain) \<Rightarrow>
               if local = [] \<or> 255 < length local then False
               else if \<not> list_all local_char local then False
               else is_valid_domain_name domain))"

section \<open>Audiences\<close>

text \<open>\<open>low\<close> is the Unicode part of \<^verbatim>\<open>str::to_lowercase\<close>.\<close>

definition normalize_server_url :: "(string \<Rightarrow> string) \<Rightarrow> string \<Rightarrow> string" where
  "normalize_server_url low url = to_lowercase low (trim_end_matches (CHR ''/'') url)"

definition resolve_resource_token_audience ::
    "agent_claims \<Rightarrow> string option \<Rightarrow> string option \<Rightarrow> string option" where
  "resolve_resource_token_audience agent access_server_url person_server_fallback =
     (case access_server_url of
        Some as_url \<Rightarrow> Some as_url
      | None \<Rightarrow>
          (case ag_ps agent of
             Some ps \<Rightarrow> Some ps
           | None \<Rightarrow> person_server_fallback))"

section \<open>The grammars the validators implement\<close>

definition ldh_label :: "string \<Rightarrow> bool" where
  "ldh_label l \<longleftrightarrow> l \<noteq> [] \<and> length l \<le> 63 \<and> list_all label_char l \<and> hd l \<noteq> CHR ''-'' \<and> last l \<noteq> CHR ''-''"

lemma starts_with_single: "l \<noteq> [] \<Longrightarrow> starts_with [c] l \<longleftrightarrow> hd l = c"
  by (cases l) auto

lemma ends_with_single: "l \<noteq> [] \<Longrightarrow> ends_with [c] l \<longleftrightarrow> last l = c"
  by (cases l rule: rev_cases) (auto simp: ends_with_iff)

lemma join_split_on: "join [d] (split_on d s) = s"
proof (induction s)
  case (Cons c s)
  obtain w ws where w: "split_on d s = w # ws" by (cases "split_on d s") auto
  with Cons show ?case by (cases ws) auto
qed simp

lemma split_on_join:
  "ls \<noteq> [] \<Longrightarrow> \<forall>l \<in> set ls. d \<notin> set l \<Longrightarrow> split_on d (join [d] ls) = ls"
proof (induction ls rule: induct_list012)
  case (3 x y zs)
  then show ?case using split_on_append [of d x "join [d] (y # zs)"] by simp
qed (simp_all add: split_on_free)

lemma find_sub_contains: "contains p s \<Longrightarrow> set p \<subseteq> set s"
  by (auto simp: contains_def dest: find_sub_Some)

lemma label_char_facts:
  "label_char c \<Longrightarrow> \<not> is_ascii_uppercase c"
  "\<not> label_char (CHR ''/'')" "\<not> label_char (CHR '':'')" "\<not> label_char (CHR ''.'')"
  by (auto simp: label_char_def is_ascii_lowercase_def is_ascii_uppercase_def is_ascii_digit_def byte_def)

lemma set_join: "set (join sep ls) \<subseteq> set sep \<union> \<Union> (set ` set ls)"
  by (induction sep ls rule: join.induct) auto

lemma domain_name_labels:
  "is_valid_domain_name dname \<longleftrightarrow>
     (\<exists>ls. ls \<noteq> [] \<and> dname = join ''.'' ls \<and> list_all ldh_label ls)"
proof
  assume v: "is_valid_domain_name dname"
  let ?ls = "split_on (CHR ''.'') dname"
  have "list_all ldh_label ?ls"
    using v by (auto simp: is_valid_domain_name_def ldh_label_def list_all_iff
        starts_with_single ends_with_single split: if_splits)
  moreover have "dname = join ''.'' ?ls" by (simp add: join_split_on)
  ultimately show "\<exists>ls. ls \<noteq> [] \<and> dname = join ''.'' ls \<and> list_all ldh_label ls"
    using split_on_nonempty by blast
next
  assume "\<exists>ls. ls \<noteq> [] \<and> dname = join ''.'' ls \<and> list_all ldh_label ls"
  then obtain ls where ls: "ls \<noteq> []" "dname = join ''.'' ls" "list_all ldh_label ls" by blast
  have lab: "c \<in> set dname \<Longrightarrow> label_char c \<or> c = CHR ''.''" for c
    using ls set_join [of "''.''" ls] by (fastforce simp: ldh_label_def list_all_iff)
  have free: "\<forall>l \<in> set ls. CHR ''.'' \<notin> set l"
    using ls(3) label_char_facts(4) by (fastforce simp: ldh_label_def list_all_iff)
  have sp: "split_on (CHR ''.'') dname = ls" using ls(1,2) free by (simp add: split_on_join)
  have ne: "dname \<noteq> []" using sp ls(3) by (auto simp: ldh_label_def)
  have up: "\<not> list_ex is_ascii_uppercase dname"
    using lab label_char_facts(1)
    by (auto simp: list_ex_iff is_ascii_uppercase_def byte_def dest!: lab)
  have "CHR ''/'' \<notin> set dname" "CHR '':'' \<notin> set dname" using lab label_char_facts by fastforce+
  then have "\<not> contains ''://'' dname" "\<not> contains ''/'' dname" "\<not> contains '':'' dname"
    using find_sub_contains by fastforce+
  moreover have "list_all (\<lambda>label. label \<noteq> [] \<and> length label \<le> 63 \<and> list_all label_char label \<and>
      \<not> starts_with ''-'' label \<and> \<not> ends_with ''-'' label) ls"
    using ls(3) by (auto simp: ldh_label_def list_all_iff starts_with_single ends_with_single)
  ultimately show "is_valid_domain_name dname"
    using ne up by (simp add: is_valid_domain_name_def sp)
qed

text \<open>
  C37: the agent-identifier check accepts exactly the grammar
  \<^verbatim>\<open>aauth:local@label(.label)*\<close> with a local part of 1 to 255 of the allowed characters
  and LDH labels of 1 to 63 that neither begin nor end with a hyphen.
\<close>
theorem agent_identifier_grammar:
  "is_valid_agent_identifier i =
     (\<exists>local labels. i = ''aauth:'' @ local @ ''@'' @ join ''.'' labels \<and>
        0 < length local \<and> length local \<le> 255 \<and> list_all local_char local \<and>
        labels \<noteq> [] \<and> list_all ldh_label labels)"
proof -
  have at: "CHR ''@'' \<notin> set l" if "list_all local_char l" for l
    using that
    by (auto simp: list_all_iff local_char_def is_ascii_lowercase_def is_ascii_digit_def byte_def
        dest!: bspec)
  have eq: "is_valid_agent_identifier (''aauth:'' @ local @ CHR ''@'' # dname) \<longleftrightarrow>
      local \<noteq> [] \<and> length local \<le> 255 \<and> list_all local_char local \<and> is_valid_domain_name dname"
    if "CHR ''@'' \<notin> set local" for local dname
  proof -
    have "split_once (CHR ''@'') (local @ CHR ''@'' # dname) = Some (local, dname)"
      using that by (simp add: split_once_Some)
    then show ?thesis
      by (simp add: is_valid_agent_identifier_def strip_prefix_append
          del: strip_prefix.simps append.simps append_Cons)
  qed
  show ?thesis
  proof
    assume v: "is_valid_agent_identifier i"
    then obtain rest local dname where
      "strip_prefix ''aauth:'' i = Some rest" "split_once (CHR ''@'') rest = Some (local, dname)"
      by (auto simp: is_valid_agent_identifier_def split: option.splits)
    then have i: "i = ''aauth:'' @ local @ CHR ''@'' # dname" "CHR ''@'' \<notin> set local"
      by (simp_all add: strip_prefix_Some split_once_Some)
    with v show "\<exists>local labels. i = ''aauth:'' @ local @ ''@'' @ join ''.'' labels \<and>
        0 < length local \<and> length local \<le> 255 \<and> list_all local_char local \<and>
        labels \<noteq> [] \<and> list_all ldh_label labels"
      using eq [OF i(2), of dname] by (auto simp: domain_name_labels)
  next
    assume "\<exists>local labels. i = ''aauth:'' @ local @ ''@'' @ join ''.'' labels \<and>
        0 < length local \<and> length local \<le> 255 \<and> list_all local_char local \<and>
        labels \<noteq> [] \<and> list_all ldh_label labels"
    then obtain local labels where i: "i = ''aauth:'' @ local @ CHR ''@'' # join ''.'' labels"
      "local \<noteq> []" "length local \<le> 255" "list_all local_char local"
      "labels \<noteq> []" "list_all ldh_label labels" by auto
    then show "is_valid_agent_identifier i"
      using eq [OF at [OF i(4)], of "join ''.'' labels"] domain_name_labels by blast
  qed
qed

text \<open>
  A server identifier is accepted exactly when it does not end in a slash and parses to a
  bare origin (no user information, path, query or fragment) that is either a loopback
  \<^verbatim>\<open>http\<close> origin, with any port, or a lowercase \<^verbatim>\<open>https\<close> origin with a host and no port.
\<close>
theorem server_identifier_accepts:
  "is_valid_server_identifier parse url =
     (\<exists>p. parse url = Some p \<and> url \<noteq> [] \<and> last url \<noteq> CHR ''/'' \<and>
        u_username p = [] \<and> u_password p = None \<and> u_query p = None \<and> u_fragment p = None \<and>
        (u_path p = [] \<or> u_path p = ''/'') \<and>
        (case u_host_str p of None \<Rightarrow> False | Some host \<Rightarrow>
           u_scheme p = ''http'' \<and> host \<in> {''127.0.0.1'', ''localhost''} \<or>
           u_scheme p = ''https'' \<and> host \<noteq> [] \<and> u_port p = None \<and> filter is_ascii_uppercase url = []))"
proof (cases "url = [] \<or> ends_with ''/'' url \<or> parse url = None")
  case True
  then show ?thesis
    by (auto simp: is_valid_server_identifier_def is_loopback_http_identifier_def ends_with_single)
next
  case False
  then obtain p where p: "parse url = Some p" by blast
  have l: "last url \<noteq> CHR ''/''" using False ends_with_single by blast
  have up: "list_ex is_ascii_uppercase url = (filter is_ascii_uppercase url \<noteq> [])"
    by (auto simp: list_ex_iff filter_empty_conv)
  show ?thesis using False l
    by (cases "u_host_str p") (auto simp: p up is_valid_server_identifier_def is_loopback_http_identifier_def)
qed

text \<open>
  The audience of a resource token is the access server when one is configured, else the
  agent's own \<^verbatim>\<open>ps\<close> claim, else the fallback; it fails only when all three are absent,
  and the fallback is never preferred to a claim of the agent.
\<close>
theorem audience_precedence:
  "resolve_resource_token_audience agent as fallback =
     (case List.map_filter (\<lambda>x. x) [as, ag_ps agent, fallback] of [] \<Rightarrow> None | a # _ \<Rightarrow> Some a)"
  by (auto simp: resolve_resource_token_audience_def map_filter_simps split: option.splits)

lemma normalize_ascii:
  assumes "list_all is_ascii url"
  shows "normalize_server_url low url = map to_ascii_lower (trim_end_matches (CHR ''/'') url)"
proof -
  obtain n where "url = trim_end_matches (CHR ''/'') url @ replicate n (CHR ''/'')"
    using trim_end_matches_decomp by blast
  with assms have "list_all is_ascii (trim_end_matches (CHR ''/'') url)"
    by (metis list_all_append)
  then show ?thesis by (simp add: normalize_server_url_def to_lowercase_ascii)
qed

end
