(* ===== verification/Json.thy ===== *)
theory Json
  imports Wire
begin

text \<open>
  JSON values and the (de)serialisation \<^verbatim>\<open>serde\<close> derives for the wire structs of
  \<^verbatim>\<open>aauth/src/protocol\<close>. The text level of \<^verbatim>\<open>serde_json\<close> (parsing, printing, its error
  messages) is the record \<open>serde_json\<close>, a parameter. A derived struct accepts an object
  (unknown fields ignored, a repeated field is an error) or an array in field order; an
  \<open>Option\<close> field is absent, \<^verbatim>\<open>null\<close>, or a value, and is not written when \<open>None\<close>.
\<close>

datatype json =
    JNull
  | JBool bool
  | JInt int
  | JFloat string
  | JStr string
  | JArr "json list"
  | JObj "(string \<times> json) list"

record serde_json =
  sj_parse :: "string \<Rightarrow> json option"
  sj_print :: "json \<Rightarrow> string"
  sj_error :: "string \<Rightarrow> string"

section \<open>Derived struct decoding\<close>

definition field :: "(string \<times> json) list \<Rightarrow> string \<Rightarrow> json option option" where
  "field kvs k =
     (case filter (\<lambda>(k', _). k' = k) kvs of
        [] \<Rightarrow> Some None
      | [(_, v)] \<Rightarrow> Some (Some v)
      | _ \<Rightarrow> None)"

fun de_struct :: "string list \<Rightarrow> json \<Rightarrow> json option list option" where
  "de_struct names (JObj kvs) = those (map (field kvs) names)"
| "de_struct names (JArr vs) =
     (if length vs \<le> length names then Some (map Some vs @ replicate (length names - length vs) None)
      else None)"
| "de_struct names _ = None"

fun req :: "(json \<Rightarrow> 'a option) \<Rightarrow> json option \<Rightarrow> 'a option" where
  "req d None = None"
| "req d (Some v) = d v"

fun opt :: "(json \<Rightarrow> 'a option) \<Rightarrow> json option \<Rightarrow> 'a option option" where
  "opt d None = Some None"
| "opt d (Some JNull) = Some None"
| "opt d (Some v) = map_option Some (d v)"

fun de_str :: "json \<Rightarrow> string option" where
  "de_str (JStr s) = Some s"
| "de_str _ = None"

fun de_u64 :: "json \<Rightarrow> u64 option" where
  "de_u64 (JInt i) = (if 0 \<le> i \<and> i < 2 ^ 64 then Some (word_of_int i) else None)"
| "de_u64 _ = None"

fun de_list :: "(json \<Rightarrow> 'a option) \<Rightarrow> json \<Rightarrow> 'a list option" where
  "de_list d (JArr vs) = those (map d vs)"
| "de_list d _ = None"

text \<open>A unit variant is its name, or an object with the name and \<^verbatim>\<open>null\<close>.\<close>

fun de_variant :: "json \<Rightarrow> string option" where
  "de_variant (JStr s) = Some s"
| "de_variant (JObj [(s, JNull)]) = Some s"
| "de_variant _ = None"

definition en_opt :: "string \<Rightarrow> ('a \<Rightarrow> json) \<Rightarrow> 'a option \<Rightarrow> (string \<times> json) list" where
  "en_opt k e v = (case v of None \<Rightarrow> [] | Some a \<Rightarrow> [(k, e a)])"

definition en_u64 :: "u64 \<Rightarrow> json" where
  "en_u64 w = JInt (uint w)"

section \<open>Token and error bodies\<close>

definition en_token_response :: "token_response_body \<Rightarrow> json" where
  "en_token_response b =
     JObj [(''auth_token'', JStr (auth_token b)), (''expires_in'', en_u64 (expires_in b))]"

definition de_token_response :: "json \<Rightarrow> token_response_body option" where
  "de_token_response j =
     (case de_struct [''auth_token'', ''expires_in''] j of
        Some [t, e] \<Rightarrow>
          (case (req de_str t, req de_u64 e) of
             (Some t, Some e) \<Rightarrow> Some \<lparr>auth_token = t, expires_in = e\<rparr>
           | _ \<Rightarrow> None)
      | _ \<Rightarrow> None)"

definition en_protocol_error :: "protocol_error \<Rightarrow> json" where
  "en_protocol_error e =
     JObj ((''error'', JStr (ec_as_str (pe_error e)))
       # en_opt ''error_description'' JStr (error_description e)
       @ en_opt ''error_uri'' JStr (error_uri e))"

definition de_protocol_error :: "json \<Rightarrow> protocol_error option" where
  "de_protocol_error j =
     (case de_struct [''error'', ''error_description'', ''error_uri''] j of
        Some [c, d, u] \<Rightarrow>
          (case (req de_str c, opt de_str d, opt de_str u) of
             (Some c, Some d, Some u) \<Rightarrow>
               Some \<lparr>pe_error = ec_from_wire c, error_description = d, error_uri = u\<rparr>
           | _ \<Rightarrow> None)
      | _ \<Rightarrow> None)"

definition de_resource_token_response :: "json \<Rightarrow> string option" where
  "de_resource_token_response j =
     (case de_struct [''resource_token''] j of Some [t] \<Rightarrow> req de_str t | _ \<Rightarrow> None)"

definition de_capability :: "json \<Rightarrow> capability option" where
  "de_capability j = Option.bind (de_variant j) cap_from_str"

definition en_token_exchange :: "token_exchange_request \<Rightarrow> json" where
  "en_token_exchange r =
     JObj ((''resource_token'', JStr (tx_resource_token r))
       # en_opt ''upstream_token'' JStr (tx_upstream_token r)
       @ en_opt ''subagent_token'' JStr (tx_subagent_token r)
       @ en_opt ''justification'' JStr (tx_justification r)
       @ en_opt ''login_hint'' JStr (tx_login_hint r)
       @ en_opt ''tenant'' JStr (tx_tenant r)
       @ en_opt ''domain_hint'' JStr (tx_domain_hint r)
       @ en_opt ''capabilities'' (\<lambda>cs. JArr (map (JStr \<circ> cap_as_str) cs)) (tx_capabilities r)
       @ en_opt ''prompt'' JStr (tx_prompt r)
       @ en_opt ''platform'' JStr (tx_platform r)
       @ en_opt ''device'' JStr (tx_device r))"

definition de_token_exchange :: "json \<Rightarrow> token_exchange_request option" where
  "de_token_exchange j =
     (case de_struct [''resource_token'', ''upstream_token'', ''subagent_token'', ''justification'',
         ''login_hint'', ''tenant'', ''domain_hint'', ''capabilities'', ''prompt'', ''platform'',
         ''device''] j of
        Some [rt, ut, st, ju, lh, te, dh, ca, pr, pl, de] \<Rightarrow>
          (case (req de_str rt, opt de_str ut, opt de_str st, opt de_str ju, opt de_str lh,
              opt de_str te, opt de_str dh, opt (de_list de_capability) ca, opt de_str pr,
              opt de_str pl, opt de_str de) of
             (Some rt, Some ut, Some st, Some ju, Some lh, Some te, Some dh, Some ca, Some pr,
              Some pl, Some de) \<Rightarrow>
               Some \<lparr>tx_resource_token = rt, tx_upstream_token = ut, tx_subagent_token = st,
                 tx_justification = ju, tx_login_hint = lh, tx_tenant = te, tx_domain_hint = dh,
                 tx_capabilities = ca, tx_prompt = pr, tx_platform = pl, tx_device = de\<rparr>
           | _ \<Rightarrow> None)
      | _ \<Rightarrow> None)"

definition en_access_exchange :: "access_token_exchange_request \<Rightarrow> json" where
  "en_access_exchange r =
     JObj ([(''resource_token'', JStr (ax_resource_token r)), (''agent_token'', JStr (ax_agent_token r))]
       @ en_opt ''upstream_token'' JStr (ax_upstream_token r)
       @ en_opt ''subagent_token'' JStr (ax_subagent_token r))"

definition de_access_exchange :: "json \<Rightarrow> access_token_exchange_request option" where
  "de_access_exchange j =
     (case de_struct [''resource_token'', ''agent_token'', ''upstream_token'', ''subagent_token''] j of
        Some [rt, at, ut, st] \<Rightarrow>
          (case (req de_str rt, req de_str at, opt de_str ut, opt de_str st) of
             (Some rt, Some at, Some ut, Some st) \<Rightarrow>
               Some \<lparr>ax_resource_token = rt, ax_agent_token = at, ax_upstream_token = ut,
                 ax_subagent_token = st\<rparr>
           | _ \<Rightarrow> None)
      | _ \<Rightarrow> None)"

section \<open>Round trips of the struct codecs\<close>

lemma opt_str_some: "opt de_str (Some (JStr s)) = Some (Some s)"
  by simp

lemma those_map_Some [simp]: "those (map (Some \<circ> f) xs) = Some (map f xs)"
  by (induction xs) auto

lemma de_u64_en [simp]: "de_u64 (en_u64 w) = Some w"
proof -
  have "0 \<le> uint w \<and> uint w < 2 ^ 64" using uint_lt2p [of w] by simp
  then show ?thesis by (simp add: en_u64_def)
qed

lemma opt_u64 [simp]: "opt de_u64 (Some (en_u64 w)) = Some (Some w)"
  by (metis de_u64_en en_u64_def opt.simps(4) option.simps(9))

lemma token_response_rt [simp]: "de_token_response (en_token_response b) = Some b"
  by (simp add: en_token_response_def de_token_response_def field_def)

lemma protocol_error_rt:
  "de_protocol_error (en_protocol_error e) = Some (e\<lparr>pe_error := ec_from_wire (ec_as_str (pe_error e))\<rparr>)"
  by (cases "error_description e"; cases "error_uri e")
    (simp_all add: en_protocol_error_def de_protocol_error_def field_def en_opt_def)

end
