(* ===== verification/Jwt.thy ===== *)
theory Jwt
  imports Identifiers Json Error_Mapping
begin

text \<open>
  AAuth tokens (\<^verbatim>\<open>aauth/src/jwt\<close>, \<^verbatim>\<open>httpsig-key/src/thumbprint.rs\<close>): header parsing,
  unverified and verified decoding, claim accessors, minting and JWK thumbprints. The
  \<^verbatim>\<open>jsonwebtoken\<close> crate, base64 and SHA-256 are the parameter \<open>jwt_lib\<close>: its
  \<open>Inl\<close> values are that crate's error messages. Times are \<open>i64\<close> words read with
  \<open>sint\<close>.
\<close>

section \<open>The libraries\<close>

text \<open>A key of a JWK set, as \<^verbatim>\<open>JwkSet::find\<close> sees it.\<close>

record jwk_entry =
  je_kid :: "string option"
  je_jwk :: public_jwk

type_synonym jwk_set = "jwk_entry list"

definition jwk_set_find :: "jwk_set \<Rightarrow> string \<Rightarrow> jwk_entry option" where
  "jwk_set_find ks kid = List.find (\<lambda>e. je_kid e = Some kid) ks"

record raw_header =
  rh_typ :: "string option"
  rh_alg :: string
  rh_kid :: "string option"

text \<open>
  \<open>jl_decode_*\<close> is \<^verbatim>\<open>jsonwebtoken::decode\<close> with a key, an algorithm and a leeway, at the
  time given; \<open>jl_insecure_*\<close> is \<^verbatim>\<open>insecure_decode\<close>; \<open>jl_b64\<close> and \<open>jl_b64_encode\<close> are
  \<^verbatim>\<open>URL_SAFE_NO_PAD\<close>.
\<close>

record 'key jwt_lib =
  jl_header :: "string \<Rightarrow> string + raw_header"
  jl_insecure_agent :: "string \<Rightarrow> string + agent_claims"
  jl_insecure_auth :: "string \<Rightarrow> string + auth_claims"
  jl_insecure_resource :: "string \<Rightarrow> string + resource_claims"
  jl_decode_agent :: "string \<Rightarrow> 'key \<Rightarrow> string \<Rightarrow> u64 \<Rightarrow> i64 \<Rightarrow> string + agent_claims"
  jl_decode_auth :: "string \<Rightarrow> 'key \<Rightarrow> string \<Rightarrow> u64 \<Rightarrow> i64 \<Rightarrow> string + auth_claims"
  jl_decode_resource :: "string \<Rightarrow> 'key \<Rightarrow> string \<Rightarrow> u64 \<Rightarrow> i64 \<Rightarrow> string + resource_claims"
  jl_from_jwk :: "jwk_entry \<Rightarrow> string + 'key"
  jl_b64 :: "string \<Rightarrow> string option"
  jl_b64_encode :: "string \<Rightarrow> string"
  jl_sha256 :: "string \<Rightarrow> string"
  jl_json :: serde_json

section \<open>Headers (\<^verbatim>\<open>jwt/decode.rs\<close>)\<close>

definition JWT_CLOCK_SKEW :: u64 where "JWT_CLOCK_SKEW = 60"

record jwt_header_parts =
  jh_typ :: jwt_typ
  jh_alg :: string
  jh_kid :: "string option"

text \<open>\<^verbatim>\<open>value.get("alg")\<close> sees the last of repeated members.\<close>

definition json_get :: "json \<Rightarrow> string \<Rightarrow> json option" where
  "json_get j k = (case j of JObj kvs \<Rightarrow> map_of (rev kvs) k | _ \<Rightarrow> None)"

definition reject_alg_none :: "'key jwt_lib \<Rightarrow> string \<Rightarrow> aauth_error + unit" where
  "reject_alg_none L jwt =
     (let header_b64 = hd (split_on (CHR ''.'') jwt) in
      bind_res (ok_or (jl_b64 L header_b64) (Jwt JE_AlgNone)) (\<lambda>bytes.
      bind_res (ok_or (sj_parse (jl_json L) bytes) (Jwt JE_AlgNone)) (\<lambda>value.
      let alg = (case Option.bind (json_get value ''alg'') de_str of None \<Rightarrow> [] | Some a \<Rightarrow> a) in
      if eq_ignore_ascii_case alg ''none'' then Err (Jwt JE_AlgNone) else Ok ())))"

definition jwt_header :: "'key jwt_lib \<Rightarrow> string \<Rightarrow> aauth_error + jwt_header_parts" where
  "jwt_header L jwt =
     bind_res (reject_alg_none L jwt) (\<lambda>_.
     bind_res (map_err (\<lambda>m. Jwt (JE_Decode m)) (jl_header L jwt)) (\<lambda>header.
     bind_res (ok_or (rh_typ header) (Jwt JE_MissingTyp)) (\<lambda>typ_str.
     bind_res (ok_or (typ_from_str typ_str) (Jwt (JE_UnknownTyp typ_str))) (\<lambda>typ.
     Ok \<lparr>jh_typ = typ, jh_alg = rh_alg header, jh_kid = rh_kid header\<rparr>))))"

section \<open>Tokens (\<^verbatim>\<open>jwt/claims.rs\<close>)\<close>

datatype parsed_token =
    PT_Agent agent_claims
  | PT_Auth auth_claims
  | PT_Resource resource_claims

definition ve_token :: "string \<Rightarrow> string \<Rightarrow> aauth_error" where
  "ve_token code message = Verify (VE_Token code message)"

definition decode_err :: "string \<Rightarrow> aauth_error \<Rightarrow> aauth_error" where
  "decode_err code err = ve_token code (''JWT decode failed: '' @ aauth_error_msg err)"

definition auth_claims_validate :: "auth_claims \<Rightarrow> aauth_error + unit" where
  "auth_claims_validate c =
     (if au_sub c = None \<and> au_scope c = None
      then Err (ve_token (verify_error_code Typ_Auth) ''at least one of sub or scope must be present'')
      else Ok ())"

definition jwt_err :: "string + 'a \<Rightarrow> aauth_error + 'a" where
  "jwt_err r = map_err (\<lambda>m. Jwt (JE_Decode m)) r"

definition parse_token :: "'key jwt_lib \<Rightarrow> string \<Rightarrow> aauth_error + parsed_token" where
  "parse_token L jwt =
     bind_res (jwt_header L jwt) (\<lambda>header.
       let error_code = verify_error_code (jh_typ header) in
       case jh_typ header of
         Typ_Agent \<Rightarrow>
           map_err (decode_err error_code) (map_ok PT_Agent (jwt_err (jl_insecure_agent L jwt)))
       | Typ_Auth \<Rightarrow>
           bind_res (map_err (decode_err error_code) (jwt_err (jl_insecure_auth L jwt))) (\<lambda>claims.
           bind_res (auth_claims_validate claims) (\<lambda>_. Ok (PT_Auth claims)))
       | Typ_Resource \<Rightarrow>
           map_err (decode_err error_code) (map_ok PT_Resource (jwt_err (jl_insecure_resource L jwt))))"

definition verify_with_key :: "'key jwt_lib \<Rightarrow> i64 \<Rightarrow> string \<Rightarrow> 'key \<Rightarrow> aauth_error + parsed_token" where
  "verify_with_key L now jwt key =
     bind_res (jwt_header L jwt) (\<lambda>header.
       let error_code = verify_error_code (jh_typ header); alg = jh_alg header in
       case jh_typ header of
         Typ_Agent \<Rightarrow>
           map_err (decode_err error_code)
             (map_ok PT_Agent (jwt_err (jl_decode_agent L jwt key alg JWT_CLOCK_SKEW now)))
       | Typ_Auth \<Rightarrow>
           bind_res (map_err (decode_err error_code)
                      (jwt_err (jl_decode_auth L jwt key alg JWT_CLOCK_SKEW now))) (\<lambda>claims.
           bind_res (auth_claims_validate claims) (\<lambda>_. Ok (PT_Auth claims)))
       | Typ_Resource \<Rightarrow>
           map_err (decode_err error_code)
             (map_ok PT_Resource (jwt_err (jl_decode_resource L jwt key alg JWT_CLOCK_SKEW now))))"

fun token_iss :: "parsed_token \<Rightarrow> string" where
  "token_iss (PT_Agent c) = ag_iss c"
| "token_iss (PT_Auth c) = au_iss c"
| "token_iss (PT_Resource c) = rc_iss c"

fun token_dwk :: "parsed_token \<Rightarrow> string" where
  "token_dwk (PT_Agent c) = ag_dwk c"
| "token_dwk (PT_Auth c) = au_dwk c"
| "token_dwk (PT_Resource c) = rc_dwk c"

text \<open>\<^verbatim>\<open>c.exp as i64\<close> keeps the bits.\<close>

fun token_exp :: "parsed_token \<Rightarrow> i64" where
  "token_exp (PT_Agent c) = ag_exp c"
| "token_exp (PT_Auth c) = au_exp c"
| "token_exp (PT_Resource c) = rc_exp c"

fun token_cnf_jwk :: "parsed_token \<Rightarrow> public_jwk option" where
  "token_cnf_jwk (PT_Agent c) = Some (cnf_jwk (ag_cnf c))"
| "token_cnf_jwk (PT_Auth c) = Some (cnf_jwk (au_cnf c))"
| "token_cnf_jwk (PT_Resource c) = None"

fun token_type :: "parsed_token \<Rightarrow> string" where
  "token_type (PT_Agent _) = ''agent''"
| "token_type (PT_Auth _) = ''auth''"
| "token_type (PT_Resource _) = ''resource''"

fun token_agent_identifier :: "parsed_token \<Rightarrow> string option" where
  "token_agent_identifier (PT_Agent c) = Some (claims_identifier c)"
| "token_agent_identifier _ = None"

fun as_agent :: "parsed_token \<Rightarrow> agent_claims option" where
  "as_agent (PT_Agent c) = Some c"
| "as_agent _ = None"

fun as_auth :: "parsed_token \<Rightarrow> auth_claims option" where
  "as_auth (PT_Auth c) = Some c"
| "as_auth _ = None"

fun as_resource :: "parsed_token \<Rightarrow> resource_claims option" where
  "as_resource (PT_Resource c) = Some c"
| "as_resource _ = None"

fun token_typ :: "parsed_token \<Rightarrow> jwt_typ" where
  "token_typ (PT_Agent _) = Typ_Agent"
| "token_typ (PT_Auth _) = Typ_Auth"
| "token_typ (PT_Resource _) = Typ_Resource"

section \<open>Thumbprints (\<^verbatim>\<open>thumbprint.rs\<close>, \<^verbatim>\<open>jwt/mod.rs\<close>)\<close>

definition jwk_json :: "public_jwk \<Rightarrow> (string \<times> json) list" where
  "jwk_json k =
     [(''kty'', JStr (kty k)), (''crv'', JStr (crv k)), (''x'', JStr (jwk_x k))]
     @ en_opt ''y'' JStr (jwk_y k) @ en_opt ''kid'' JStr (jwk_kid k)"

definition thumbprint_members :: "public_jwk \<Rightarrow> httpsig_error + (string \<times> json) list" where
  "thumbprint_members k =
     map_ok (\<lambda>required. List.map_filter (\<lambda>m. map_option (Pair m) (map_of (jwk_json k) m)) required)
       (if kty k = ''OKP'' then Ok [''crv'', ''kty'', ''x'']
        else if kty k = ''EC'' then Ok [''crv'', ''kty'', ''x'', ''y'']
        else Err (HE_UnsupportedSigningJwk (kty k) (crv k)))"

definition httpsig_thumbprint :: "'key jwt_lib \<Rightarrow> public_jwk \<Rightarrow> httpsig_error + string" where
  "httpsig_thumbprint L k =
     map_ok (\<lambda>ms. jl_b64_encode L (jl_sha256 L (sj_print (jl_json L) (JObj ms)))) (thumbprint_members k)"

definition jwk_thumbprint :: "'key jwt_lib \<Rightarrow> public_jwk \<Rightarrow> aauth_error + string" where
  "jwk_thumbprint L k =
     map_err (\<lambda>e. case e of
         HE_UnsupportedSigningJwk t _ \<Rightarrow> Jwt (JE_UnsupportedKty t)
       | other \<Rightarrow> Jwt (JE_Thumbprint (httpsig_error_msg other))) (httpsig_thumbprint L k)"

section \<open>Minting (\<^verbatim>\<open>jwt/mint.rs\<close>, \<^verbatim>\<open>person_server/keys.rs\<close>, \<^verbatim>\<open>resource/token.rs\<close>)\<close>

text \<open>
  \<open>encode header_typ kid claims\<close> stands for \<^verbatim>\<open>jsonwebtoken::encode\<close> under the server's key
  with \<^verbatim>\<open>alg = EdDSA\<close>; \<open>jti\<close> is the fresh UUID.
\<close>

definition mint_auth_claims ::
    "i64 \<Rightarrow> string \<Rightarrow> string \<Rightarrow> string \<Rightarrow> string \<Rightarrow> string \<Rightarrow> public_jwk \<Rightarrow> string option \<Rightarrow>
     string option \<Rightarrow> auth_claims" where
  "mint_auth_claims now jti dwk iss aud agent agent_jwk sub scope =
     \<lparr>au_iss = iss, au_dwk = dwk, au_aud = aud, au_jti = jti, au_agent = agent, au_act = None,
      au_cnf = \<lparr>cnf_jwk = agent_jwk\<rparr>, au_iat = now, au_exp = now + 3600, au_sub = sub,
      au_scope = scope, au_tenant = None, au_mission = None\<rparr>"

type_synonym jwt_encode = "string \<Rightarrow> string option \<Rightarrow> auth_claims \<Rightarrow> string + string"

definition encode_auth_jwt ::
    "jwt_encode \<Rightarrow> i64 \<Rightarrow> string \<Rightarrow> string option \<Rightarrow> string \<Rightarrow> string \<Rightarrow> string \<Rightarrow> string \<Rightarrow> public_jwk \<Rightarrow>
     string option \<Rightarrow> string option \<Rightarrow> aauth_error + string" where
  "encode_auth_jwt encode now jti kid dwk iss aud agent agent_jwk sub scope =
     jwt_err (encode (typ_as_str Typ_Auth) kid
       (mint_auth_claims now jti dwk iss aud agent agent_jwk sub scope))"

definition mint_person_auth_jwt ::
    "jwt_encode \<Rightarrow> i64 \<Rightarrow> string \<Rightarrow> string option \<Rightarrow> string \<Rightarrow> string \<Rightarrow> string \<Rightarrow> public_jwk \<Rightarrow>
     string option \<Rightarrow> string option \<Rightarrow> aauth_error + string" where
  "mint_person_auth_jwt encode now jti kid iss aud agent agent_jwk sub scope =
     encode_auth_jwt encode now jti kid ''aauth-person.json'' iss aud agent agent_jwk sub scope"

definition mint_access_auth_jwt ::
    "jwt_encode \<Rightarrow> i64 \<Rightarrow> string \<Rightarrow> string option \<Rightarrow> string \<Rightarrow> string \<Rightarrow> string \<Rightarrow> public_jwk \<Rightarrow>
     string option \<Rightarrow> string option \<Rightarrow> aauth_error + string" where
  "mint_access_auth_jwt encode now jti kid iss aud agent agent_jwk sub scope =
     encode_auth_jwt encode now jti kid ''aauth-access.json'' iss aud agent agent_jwk sub scope"

record resource_token_options =
  ro_resource :: string
  ro_audience :: string
  ro_agent :: string
  ro_agent_jkt :: string
  ro_scope :: "string option"
  ro_mission :: "mission option"
  ro_lifetime :: "u64 option"
  ro_interaction :: "resource_interaction_claim option"

definition resource_token_claims :: "u64 \<Rightarrow> string \<Rightarrow> resource_token_options \<Rightarrow> resource_claims" where
  "resource_token_claims now jti ro =
     (let lifetime = (case ro_lifetime ro of None \<Rightarrow> 300 | Some l \<Rightarrow> l) in
      \<lparr>rc_iss = ro_resource ro, rc_dwk = ''aauth-resource.json'', rc_aud = ro_audience ro,
       rc_jti = jti, rc_agent = ro_agent ro, rc_agent_jkt = ro_agent_jkt ro, rc_iat = now,
       rc_exp = now + lifetime, rc_scope = ro_scope ro, rc_mission = ro_mission ro,
       rc_interaction = ro_interaction ro\<rparr>)"

definition resource_token_sign ::
    "(string \<Rightarrow> resource_claims \<Rightarrow> resource_token_error + string) \<Rightarrow> u64 \<Rightarrow> string \<Rightarrow>
     resource_token_options \<Rightarrow> resource_token_error + string" where
  "resource_token_sign sign now jti ro = sign (typ_as_str Typ_Resource) (resource_token_claims now jti ro)"

section \<open>Facts shared by the verifiers\<close>

lemma jwt_err_Ok [res_simps]: "jwt_err r = Inr a \<longleftrightarrow> r = Inr a"
  by (simp add: jwt_err_def res_simps)

lemma auth_validate_Ok [res_simps]:
  "auth_claims_validate c = Inr u \<longleftrightarrow> au_sub c \<noteq> None \<or> au_scope c \<noteq> None"
  by (auto simp: auth_claims_validate_def)

lemma jwt_header_Ok:
  "jwt_header L jwt = Ok h \<Longrightarrow>
     \<exists>rh. jl_header L jwt = Ok rh \<and> rh_typ rh = Some (typ_as_str (jh_typ h)) \<and>
       jh_alg h = rh_alg rh \<and> jh_kid h = rh_kid rh"
  by (auto simp: jwt_header_def res_simps typ_from_str_Some)

lemma parse_token_Ok:
  "parse_token L jwt = Ok p \<Longrightarrow>
     \<exists>h. jwt_header L jwt = Ok h \<and> jh_typ h = token_typ p \<and>
       (case p of
          PT_Agent c \<Rightarrow> jl_insecure_agent L jwt = Ok c
        | PT_Auth c \<Rightarrow> jl_insecure_auth L jwt = Ok c \<and> (au_sub c \<noteq> None \<or> au_scope c \<noteq> None)
        | PT_Resource c \<Rightarrow> jl_insecure_resource L jwt = Ok c)"
proof -
  assume r: "parse_token L jwt = Ok p"
  then obtain h where h: "jwt_header L jwt = Ok h" by (auto simp: parse_token_def res_simps)
  with r show ?thesis by (cases "jh_typ h") (auto simp: parse_token_def res_simps Let_def)
qed

lemma verify_with_key_Ok:
  "verify_with_key L now jwt key = Ok p \<Longrightarrow>
     \<exists>h. jwt_header L jwt = Ok h \<and> jh_typ h = token_typ p \<and>
       (case p of
          PT_Agent c \<Rightarrow> jl_decode_agent L jwt key (jh_alg h) JWT_CLOCK_SKEW now = Ok c
        | PT_Auth c \<Rightarrow> jl_decode_auth L jwt key (jh_alg h) JWT_CLOCK_SKEW now = Ok c \<and>
            (au_sub c \<noteq> None \<or> au_scope c \<noteq> None)
        | PT_Resource c \<Rightarrow> jl_decode_resource L jwt key (jh_alg h) JWT_CLOCK_SKEW now = Ok c)"
proof -
  assume r: "verify_with_key L now jwt key = Ok p"
  then obtain h where h: "jwt_header L jwt = Ok h" by (auto simp: verify_with_key_def res_simps)
  with r show ?thesis by (cases "jh_typ h") (auto simp: verify_with_key_def res_simps Let_def)
qed

end
