(* ===== verification/Verify.thy ===== *)
theory Verify
  imports Jwt
begin

text \<open>
  Token verification (\<^verbatim>\<open>aauth/src/resource_verify/verify.rs\<close>, \<^verbatim>\<open>aauth/src/metadata.rs\<close>).
  A metadata fetcher is the pair of its two answers; \<open>now\<close> is the clock in seconds as an
  \<open>i64\<close>. The soundness theorems say what a caller knows of a token that was accepted.
\<close>

record fetcher =
  mf_resolve_jwks_uri :: "string \<Rightarrow> string \<Rightarrow> aauth_error + string"
  mf_fetch_jwks :: "string \<Rightarrow> aauth_error + jwk_set"

definition absent_metadata_fetcher :: fetcher where
  "absent_metadata_fetcher =
     \<lparr>mf_resolve_jwks_uri = (\<lambda>_ _. Err (Metadata (ME_UnknownJwksUri ''AbsentMetadataFetcher''))),
      mf_fetch_jwks = (\<lambda>jwks_uri. Err (Metadata (ME_UnknownJwksUri jwks_uri)))\<rparr>"

definition static_metadata_fetcher :: "string \<Rightarrow> jwk_set \<Rightarrow> fetcher" where
  "static_metadata_fetcher uri jwks =
     \<lparr>mf_resolve_jwks_uri = (\<lambda>_ _. Ok uri),
      mf_fetch_jwks = (\<lambda>jwks_uri. if jwks_uri = uri then Ok jwks
        else Err (Metadata (ME_UnknownJwksUri jwks_uri)))\<rparr>"

definition CLOCK_SKEW :: i64 where "CLOCK_SKEW = 60"

definition ve_invalid :: "jwt_typ \<Rightarrow> verify_reason \<Rightarrow> aauth_error" where
  "ve_invalid t r = Verify (VE_Invalid t r)"

text \<open>Signed 64-bit comparison.\<close>

definition i64_less :: "i64 \<Rightarrow> i64 \<Rightarrow> bool" where
  "i64_less a b \<longleftrightarrow> sint a < sint b"

definition expired_at :: "i64 \<Rightarrow> i64 \<Rightarrow> bool" where
  "expired_at now exp \<longleftrightarrow> i64_less exp (now - CLOCK_SKEW)"

section \<open>The verifiers\<close>

definition validate_agent_token_claims :: "url_parser \<Rightarrow> i64 \<Rightarrow> agent_claims \<Rightarrow> aauth_error + unit" where
  "validate_agent_token_claims parse now agent =
     (if ag_dwk agent \<noteq> ''aauth-agent.json'' then Err (ve_invalid Typ_Agent VR_InvalidDwk)
      else if i64_less (now + CLOCK_SKEW) (ag_iat agent) then Err (ve_invalid Typ_Agent VR_FutureIat)
      else if \<not> is_valid_server_identifier parse (ag_iss agent)
        then Err (ve_invalid Typ_Agent VR_InvalidIss)
      else if (case ag_ps agent of None \<Rightarrow> False | Some ps \<Rightarrow> \<not> is_valid_server_identifier parse ps)
        then Err (ve_invalid Typ_Agent VR_InvalidPs)
      else if (case parent_agent agent of None \<Rightarrow> False | Some p \<Rightarrow> \<not> is_valid_agent_identifier p)
        then Err (ve_invalid Typ_Agent VR_InvalidParentAgent)
      else Ok ())"

definition fetch_decoding_key ::
    "'key jwt_lib \<Rightarrow> fetcher \<Rightarrow> string \<Rightarrow> string \<Rightarrow> string \<Rightarrow> aauth_error + 'key" where
  "fetch_decoding_key L F iss dwk jwt =
     bind_res (mf_resolve_jwks_uri F iss dwk) (\<lambda>jwks_uri.
     bind_res (mf_fetch_jwks F jwks_uri) (\<lambda>jwks.
     bind_res (jwt_header L jwt) (\<lambda>header.
     bind_res (ok_or (jh_kid header) (Verify VE_MissingKid)) (\<lambda>kid.
     bind_res (ok_or (jwk_set_find jwks kid) (Verify (VE_UnknownKid kid))) (\<lambda>jwk.
     jwt_err (jl_from_jwk L jwk))))))"

definition verify_token ::
    "'key jwt_lib \<Rightarrow> url_parser \<Rightarrow> fetcher \<Rightarrow> i64 \<Rightarrow> string \<Rightarrow> string \<Rightarrow> aauth_error + parsed_token" where
  "verify_token L parse F now jwt http_signature_thumbprint =
     bind_res (parse_token L jwt) (\<lambda>parsed.
     bind_res (case parsed of
         PT_Agent agent \<Rightarrow> map_ok (\<lambda>_. Typ_Agent) (validate_agent_token_claims parse now agent)
       | PT_Auth _ \<Rightarrow> Ok Typ_Auth
       | PT_Resource _ \<Rightarrow> Err (ve_invalid Typ_Resource VR_UnsupportedTyp)) (\<lambda>typ.
     if expired_at now (token_exp parsed) then Err (Verify (VE_Expired typ))
     else
       bind_res (ok_or (token_cnf_jwk parsed) (Verify VE_KeyBindingFailed)) (\<lambda>cnf_jwk.
       bind_res (jwk_thumbprint L cnf_jwk) (\<lambda>cnf_thumbprint.
       if cnf_thumbprint \<noteq> http_signature_thumbprint then Err (Verify VE_KeyBindingFailed)
       else
         bind_res (fetch_decoding_key L F (token_iss parsed) (token_dwk parsed) jwt) (\<lambda>decoding_key.
         map_err (\<lambda>e. case e of
             Verify v \<Rightarrow> Verify v
           | Jwt j \<Rightarrow> Verify (VE_Jwt j)
           | other \<Rightarrow> ve_token (verify_error_code typ)
               (''JWT signature verification failed: '' @ aauth_error_msg other))
           (verify_with_key L now jwt decoding_key))))))"

record resource_token_expectation =
  rt_expected_agent :: "string option"
  rt_expected_agent_jkt :: "string option"

definition verify_resource_token ::
    "'key jwt_lib \<Rightarrow> fetcher \<Rightarrow> i64 \<Rightarrow> string \<Rightarrow> resource_token_expectation \<Rightarrow> aauth_error + resource_claims" where
  "verify_resource_token L F now jwt opts =
     bind_res (parse_token L jwt) (\<lambda>parsed.
     bind_res (case parsed of
         PT_Resource c \<Rightarrow> Ok c
       | PT_Agent _ \<Rightarrow> Err (ve_invalid Typ_Resource VR_WrongTyp)
       | PT_Auth _ \<Rightarrow> Err (ve_invalid Typ_Resource VR_WrongTyp)) (\<lambda>claims.
     if expired_at now (rc_exp claims) then Err (Verify (VE_Expired Typ_Resource))
     else if rc_dwk claims \<noteq> ''aauth-resource.json'' then Err (ve_invalid Typ_Resource VR_InvalidDwk)
     else if (case rt_expected_agent opts of None \<Rightarrow> False | Some e \<Rightarrow> rc_agent claims \<noteq> e)
       then Err (Verify VE_AgentMismatch)
     else if (case rt_expected_agent_jkt opts of None \<Rightarrow> False | Some e \<Rightarrow> rc_agent_jkt claims \<noteq> e)
       then Err (Verify VE_AgentJktMismatch)
     else
       bind_res (fetch_decoding_key L F (rc_iss claims) (rc_dwk claims) jwt) (\<lambda>decoding_key.
       bind_res (verify_with_key L now jwt decoding_key) (\<lambda>p.
       case p of
         PT_Resource c \<Rightarrow> Ok c
       | _ \<Rightarrow> Err (ve_token (verify_error_code Typ_Resource)
                 ''Resource token signature verification failed: unexpected typ'')))))"

definition verify_auth_token_binding ::
    "(string \<Rightarrow> string) \<Rightarrow> auth_claims \<Rightarrow> string \<Rightarrow> aauth_error + unit" where
  "verify_auth_token_binding low auth resource_url =
     (if normalize_server_url low (au_aud auth) \<noteq> normalize_server_url low resource_url
      then Err (Verify VE_AudMismatch) else Ok ())"

definition verify_client_auth_token_claims ::
    "'key jwt_lib \<Rightarrow> (string \<Rightarrow> string) \<Rightarrow> i64 \<Rightarrow> auth_claims \<Rightarrow> string \<Rightarrow> string \<Rightarrow> string \<Rightarrow> string \<Rightarrow>
     aauth_error + unit" where
  "verify_client_auth_token_claims L low now auth resource_url resource_token_aud agent_sub agent_jkt =
     (if expired_at now (au_exp auth) then Err (Verify (VE_Expired Typ_Auth))
      else if normalize_server_url low (au_iss auth) \<noteq> normalize_server_url low resource_token_aud
        then Err (Verify VE_IssMismatch)
      else
        bind_res (verify_auth_token_binding low auth resource_url) (\<lambda>_.
        bind_res (jwk_thumbprint L (cnf_jwk (au_cnf auth))) (\<lambda>cnf_thumbprint.
        if cnf_thumbprint \<noteq> agent_jkt then Err (Verify VE_KeyBindingFailed)
        else if au_agent auth \<noteq> agent_sub then Err (Verify VE_AgentMismatch)
        else if (case au_act auth of None \<Rightarrow> False
                 | Some act \<Rightarrow> act_agent act = [] \<or> \<not> starts_with ''aauth:'' (act_agent act))
          then Err (ve_token (verify_error_code Typ_Auth)
                 ''act.agent must be a non-empty aauth: agent identifier'')
        else Ok ())))"

definition verify_client_auth_token ::
    "'key jwt_lib \<Rightarrow> (string \<Rightarrow> string) \<Rightarrow> fetcher \<Rightarrow> i64 \<Rightarrow> string \<Rightarrow> string \<Rightarrow> string \<Rightarrow> string \<Rightarrow> string \<Rightarrow> bool \<Rightarrow>
     aauth_error + auth_claims" where
  "verify_client_auth_token L low F now jwt resource_url resource_token_aud agent_sub agent_jkt
      verify_signature =
     bind_res (parse_token L jwt) (\<lambda>parsed.
     bind_res (case parsed of PT_Auth c \<Rightarrow> Ok c
               | _ \<Rightarrow> Err (ve_invalid Typ_Auth VR_ExpectedAuth)) (\<lambda>auth.
     bind_res (verify_client_auth_token_claims L low now auth resource_url resource_token_aud
                agent_sub agent_jkt) (\<lambda>_.
     if verify_signature then
       bind_res (fetch_decoding_key L F (au_iss auth) (au_dwk auth) jwt) (\<lambda>decoding_key.
       bind_res (verify_with_key L now jwt decoding_key) (\<lambda>p.
       case p of PT_Auth c \<Rightarrow> Ok c | _ \<Rightarrow> Err (ve_invalid Typ_Auth VR_ExpectedAuth)))
     else Ok auth)))"

definition verify_resource_challenge ::
    "'key jwt_lib \<Rightarrow> (string \<Rightarrow> string) \<Rightarrow> fetcher \<Rightarrow> i64 \<Rightarrow> string \<Rightarrow> string \<Rightarrow> string \<Rightarrow> string \<Rightarrow>
     aauth_error + resource_claims" where
  "verify_resource_challenge L low F now jwt resource_url agent_sub agent_jkt =
     bind_res (verify_resource_token L F now jwt
                \<lparr>rt_expected_agent = Some agent_sub, rt_expected_agent_jkt = Some agent_jkt\<rparr>) (\<lambda>claims.
     if normalize_server_url low (rc_iss claims) \<noteq> normalize_server_url low resource_url
     then Err (Verify VE_IssMismatch) else Ok claims)"

section \<open>What acceptance means\<close>

text \<open>
  \<open>signed_by_issuer\<close>: the key the header names is in the issuer's published set and the token
  decodes under it. \<open>decode_agrees\<close> is documented of the JWT crate: verified decoding
  returns the claims that unverified decoding of the same token returns.
\<close>

definition signed_by_issuer :: "'key jwt_lib \<Rightarrow> fetcher \<Rightarrow> i64 \<Rightarrow> string \<Rightarrow> parsed_token \<Rightarrow> bool" where
  "signed_by_issuer L F now jwt p \<longleftrightarrow>
     (\<exists>h kid uri jwks e key. jwt_header L jwt = Ok h \<and> jh_typ h = token_typ p \<and> jh_kid h = Some kid \<and>
        mf_resolve_jwks_uri F (token_iss p) (token_dwk p) = Ok uri \<and> mf_fetch_jwks F uri = Ok jwks \<and>
        e \<in> set jwks \<and> je_kid e = Some kid \<and> jl_from_jwk L e = Ok key \<and>
        (case p of
           PT_Agent c \<Rightarrow> jl_decode_agent L jwt key (jh_alg h) JWT_CLOCK_SKEW now = Ok c
         | PT_Auth c \<Rightarrow> jl_decode_auth L jwt key (jh_alg h) JWT_CLOCK_SKEW now = Ok c
         | PT_Resource c \<Rightarrow> jl_decode_resource L jwt key (jh_alg h) JWT_CLOCK_SKEW now = Ok c))"

definition decode_agrees :: "'key jwt_lib \<Rightarrow> bool" where
  "decode_agrees L \<longleftrightarrow>
     (\<forall>jwt key alg lw now.
        (\<forall>c. jl_decode_agent L jwt key alg lw now = Ok c \<longrightarrow> jl_insecure_agent L jwt = Ok c) \<and>
        (\<forall>c. jl_decode_auth L jwt key alg lw now = Ok c \<longrightarrow> jl_insecure_auth L jwt = Ok c) \<and>
        (\<forall>c. jl_decode_resource L jwt key alg lw now = Ok c \<longrightarrow> jl_insecure_resource L jwt = Ok c))"

lemma jwk_set_find_Some: "jwk_set_find ks kid = Some e \<Longrightarrow> e \<in> set ks \<and> je_kid e = Some kid"
  unfolding jwk_set_find_def by (induction ks) (auto split: if_splits)

lemma fetch_decoding_key_Ok:
  "fetch_decoding_key L F iss dwk jwt = Ok key \<Longrightarrow>
     \<exists>h kid uri jwks e. jwt_header L jwt = Ok h \<and> jh_kid h = Some kid \<and>
       mf_resolve_jwks_uri F iss dwk = Ok uri \<and> mf_fetch_jwks F uri = Ok jwks \<and>
       e \<in> set jwks \<and> je_kid e = Some kid \<and> jl_from_jwk L e = Ok key"
  by (auto simp: fetch_decoding_key_def res_simps dest!: jwk_set_find_Some)

lemma verified_same:
  assumes "decode_agrees L" "parse_token L jwt = Ok p" "verify_with_key L now jwt key = Ok q"
  shows "q = p"
proof -
  obtain h where h: "jwt_header L jwt = Ok h" "jh_typ h = token_typ p" "jh_typ h = token_typ q"
    using parse_token_Ok [OF assms(2)] verify_with_key_Ok [OF assms(3)] by auto
  show ?thesis
    using parse_token_Ok [OF assms(2)] verify_with_key_Ok [OF assms(3)] assms(1) h
    by (cases p; cases q) (auto simp: decode_agrees_def)
qed

lemma signed_by_issuerI:
  assumes "fetch_decoding_key L F (token_iss p) (token_dwk p) jwt = Ok key"
    and "verify_with_key L now jwt key = Ok p"
  shows "signed_by_issuer L F now jwt p"
proof -
  obtain h where h: "jwt_header L jwt = Ok h" "jh_typ h = token_typ p"
    and d: "case p of
          PT_Agent c \<Rightarrow> jl_decode_agent L jwt key (jh_alg h) JWT_CLOCK_SKEW now = Ok c
        | PT_Auth c \<Rightarrow> jl_decode_auth L jwt key (jh_alg h) JWT_CLOCK_SKEW now = Ok c
        | PT_Resource c \<Rightarrow> jl_decode_resource L jwt key (jh_alg h) JWT_CLOCK_SKEW now = Ok c"
    using verify_with_key_Ok [OF assms(2)] by (cases p) auto
  obtain kid uri jwks e where "jh_kid h = Some kid"
    "mf_resolve_jwks_uri F (token_iss p) (token_dwk p) = Ok uri" "mf_fetch_jwks F uri = Ok jwks"
    "e \<in> set jwks" "je_kid e = Some kid" "jl_from_jwk L e = Ok key"
    using fetch_decoding_key_Ok [OF assms(1)] h(1) by auto
  with h d show ?thesis unfolding signed_by_issuer_def by blast
qed

lemma validate_agent_Ok [res_simps]:
  "validate_agent_token_claims parse now c = Inr u \<longleftrightarrow>
     ag_dwk c = ''aauth-agent.json'' \<and> \<not> i64_less (now + CLOCK_SKEW) (ag_iat c) \<and>
     is_valid_server_identifier parse (ag_iss c) \<and>
     (\<forall>ps. ag_ps c = Some ps \<longrightarrow> is_valid_server_identifier parse ps) \<and>
     (\<forall>q. parent_agent c = Some q \<longrightarrow> is_valid_agent_identifier q)"
  by (auto simp: validate_agent_token_claims_def split: option.splits)

lemma expect_auth_Ok [res_simps]:
  "(case p of PT_Agent a \<Rightarrow> Inl e | PT_Auth c \<Rightarrow> Inr c | PT_Resource r \<Rightarrow> Inl e) = Inr c \<longleftrightarrow>
     p = PT_Auth c"
  by (cases p) auto

lemma expect_resource_Ok [res_simps]:
  "(case p of PT_Agent a \<Rightarrow> Inl e | PT_Auth c \<Rightarrow> Inl e | PT_Resource r \<Rightarrow> Inr r) = Inr c \<longleftrightarrow>
     p = PT_Resource c"
  by (cases p) auto

lemma verify_token_Ok:
  assumes "verify_token L parse F now jwt tp = Ok q"
  shows "\<exists>p key jwk. parse_token L jwt = Ok p \<and> \<not> expired_at now (token_exp p) \<and>
    token_cnf_jwk p = Some jwk \<and> jwk_thumbprint L jwk = Ok tp \<and>
    (\<forall>c. p = PT_Agent c \<longrightarrow> validate_agent_token_claims parse now c = Ok ()) \<and>
    fetch_decoding_key L F (token_iss p) (token_dwk p) jwt = Ok key \<and>
    verify_with_key L now jwt key = Ok q"
proof -
  obtain p where p: "parse_token L jwt = Ok p"
    using assms by (auto simp: verify_token_def res_simps)
  show ?thesis
  proof (cases p)
    case (PT_Resource c)
    with assms p show ?thesis by (simp add: verify_token_def)
  next
    case (PT_Agent c)
    with assms p show ?thesis by (auto simp: verify_token_def res_simps split: if_splits)
  next
    case (PT_Auth c)
    with assms p show ?thesis by (auto simp: verify_token_def res_simps split: if_splits)
  qed
qed

definition token_trusted ::
    "'key jwt_lib \<Rightarrow> url_parser \<Rightarrow> fetcher \<Rightarrow> i64 \<Rightarrow> string \<Rightarrow> string \<Rightarrow> parsed_token \<Rightarrow> bool" where
  "token_trusted L parse F now jwt tp p \<longleftrightarrow>
     signed_by_issuer L F now jwt p \<and>
     sint (now - 60) \<le> sint (token_exp p) \<and>
     map_option (jwk_thumbprint L) (token_cnf_jwk p) = Some (Ok tp) \<and>
     (case p of
        PT_Agent c \<Rightarrow> ag_dwk c = ''aauth-agent.json'' \<and> sint (ag_iat c) \<le> sint (now + 60) \<and>
          is_valid_server_identifier parse (ag_iss c) \<and>
          pred_option (is_valid_server_identifier parse) (ag_ps c) \<and>
          pred_option is_valid_agent_identifier (parent_agent c)
      | PT_Auth c \<Rightarrow> \<not> (au_sub c = None \<and> au_scope c = None)
      | PT_Resource _ \<Rightarrow> False)"

lemma verify_token_sound:
  assumes "decode_agrees L" and "verify_token L parse F now jwt tp = Ok p"
  shows "token_trusted L parse F now jwt tp p"
  unfolding token_trusted_def
proof (intro conjI)
  obtain p' key jwk where v: "parse_token L jwt = Ok p'" "\<not> expired_at now (token_exp p')"
    "token_cnf_jwk p' = Some jwk" "jwk_thumbprint L jwk = Ok tp"
    "\<forall>c. p' = PT_Agent c \<longrightarrow> validate_agent_token_claims parse now c = Ok ()"
    "fetch_decoding_key L F (token_iss p') (token_dwk p') jwt = Ok key"
    "verify_with_key L now jwt key = Ok p"
    using verify_token_Ok [OF assms(2)] by blast
  have same: "p' = p" using verified_same [OF assms(1) v(1,7)] by simp
  show "signed_by_issuer L F now jwt p" using signed_by_issuerI v(6,7) same by metis
  show "sint (now - 60) \<le> sint (token_exp p)"
    using v(2) same by (simp add: expired_at_def i64_less_def CLOCK_SKEW_def)
  show "map_option (jwk_thumbprint L) (token_cnf_jwk p) = Some (Ok tp)" using v(3,4) same by simp
  show "case p of
        PT_Agent c \<Rightarrow> ag_dwk c = ''aauth-agent.json'' \<and> sint (ag_iat c) \<le> sint (now + 60) \<and>
          is_valid_server_identifier parse (ag_iss c) \<and>
          pred_option (is_valid_server_identifier parse) (ag_ps c) \<and>
          pred_option is_valid_agent_identifier (parent_agent c)
      | PT_Auth c \<Rightarrow> \<not> (au_sub c = None \<and> au_scope c = None)
      | PT_Resource _ \<Rightarrow> False"
    using v same parse_token_Ok [OF v(1)]
    by (cases p) (auto simp: res_simps i64_less_def CLOCK_SKEW_def pred_option_def elem_set)
qed

text \<open>
  C7: an accepted request token is trustworthy. It is an agent or auth token, signed under a
  key its issuer publishes with the kid of its header, not expired beyond the 60 second
  skew, bound to the key that signed the HTTP request, and, for an agent token, carries
  the agent discovery document, no future \<^verbatim>\<open>iat\<close> and well-formed identifiers.
\<close>
theorem accepted_token_trusted:
  assumes "decode_agrees L" and "verify_token L parse F now jwt tp = Ok p"
  shows "signed_by_issuer L F now jwt p \<and>
    sint (now - 60) \<le> sint (token_exp p) \<and>
    map_option (jwk_thumbprint L) (token_cnf_jwk p) = Some (Ok tp) \<and>
    (case p of
        PT_Agent c \<Rightarrow> ag_dwk c = ''aauth-agent.json'' \<and> sint (ag_iat c) \<le> sint (now + 60) \<and>
          is_valid_server_identifier parse (ag_iss c) \<and>
          pred_option (is_valid_server_identifier parse) (ag_ps c) \<and>
          pred_option is_valid_agent_identifier (parent_agent c)
      | PT_Auth c \<Rightarrow> \<not> (au_sub c = None \<and> au_scope c = None)
      | PT_Resource _ \<Rightarrow> False)"
  using verify_token_sound [OF assms] by (simp add: token_trusted_def)

lemma verify_resource_token_Ok:
  assumes "verify_resource_token L F now jwt opts = Ok r"
  shows "\<exists>c key. parse_token L jwt = Ok (PT_Resource c) \<and> \<not> expired_at now (rc_exp c) \<and>
    rc_dwk c = ''aauth-resource.json'' \<and>
    (\<forall>e. rt_expected_agent opts = Some e \<longrightarrow> rc_agent c = e) \<and>
    (\<forall>e. rt_expected_agent_jkt opts = Some e \<longrightarrow> rc_agent_jkt c = e) \<and>
    fetch_decoding_key L F (rc_iss c) (rc_dwk c) jwt = Ok key \<and>
    verify_with_key L now jwt key = Ok (PT_Resource r)"
  using assms
  by (auto simp: verify_resource_token_def res_simps split: if_splits option.splits)

definition challenge_trusted ::
    "'key jwt_lib \<Rightarrow> (string \<Rightarrow> string) \<Rightarrow> fetcher \<Rightarrow> i64 \<Rightarrow> string \<Rightarrow> string \<Rightarrow> string \<Rightarrow> string \<Rightarrow>
     resource_claims \<Rightarrow> bool" where
  "challenge_trusted L low F now jwt resource_url agent_sub agent_jkt c \<longleftrightarrow>
     signed_by_issuer L F now jwt (PT_Resource c) \<and>
     normalize_server_url low (rc_iss c) = normalize_server_url low resource_url \<and>
     rc_agent c = agent_sub \<and>
     rc_agent_jkt c = agent_jkt \<and>
     rc_dwk c = ''aauth-resource.json'' \<and>
     sint (now - 60) \<le> sint (rc_exp c)"

lemma verify_resource_challenge_sound:
  assumes "decode_agrees L"
    and "verify_resource_challenge L low F now jwt resource_url agent_sub agent_jkt = Ok c"
  shows "challenge_trusted L low F now jwt resource_url agent_sub agent_jkt c"
  unfolding challenge_trusted_def
proof (intro conjI)
  have v: "verify_resource_token L F now jwt
      \<lparr>rt_expected_agent = Some agent_sub, rt_expected_agent_jkt = Some agent_jkt\<rparr> = Ok c"
    and n: "normalize_server_url low (rc_iss c) = normalize_server_url low resource_url"
    using assms(2) by (auto simp: verify_resource_challenge_def res_simps split: if_splits)
  show "normalize_server_url low (rc_iss c) = normalize_server_url low resource_url" by (rule n)
  obtain c' key where r: "parse_token L jwt = Ok (PT_Resource c')" "\<not> expired_at now (rc_exp c')"
    "rc_dwk c' = ''aauth-resource.json''" "rc_agent c' = agent_sub" "rc_agent_jkt c' = agent_jkt"
    "fetch_decoding_key L F (rc_iss c') (rc_dwk c') jwt = Ok key"
    "verify_with_key L now jwt key = Ok (PT_Resource c)"
    using verify_resource_token_Ok [OF v] by auto
  have same: "c' = c" using verified_same [OF assms(1) r(1,7)] by simp
  show "rc_agent c = agent_sub" "rc_agent_jkt c = agent_jkt" "rc_dwk c = ''aauth-resource.json''"
    using r same by simp_all
  show "sint (now - 60) \<le> sint (rc_exp c)"
    using r(2) same by (simp add: expired_at_def i64_less_def CLOCK_SKEW_def)
  show "signed_by_issuer L F now jwt (PT_Resource c)"
    using signed_by_issuerI [of L F "PT_Resource c" jwt key now] r(6,7) same by simp
qed

text \<open>
  A resource challenge the agent accepts was signed by the very resource it called (the
  issuer's published key; issuer equal up to case and trailing slashes), names this agent
  and this agent's key, and has not expired beyond the skew.
\<close>
theorem accepted_challenge_trusted:
  assumes "decode_agrees L"
    and "verify_resource_challenge L low F now jwt resource_url agent_sub agent_jkt = Ok c"
  shows "signed_by_issuer L F now jwt (PT_Resource c) \<and>
    normalize_server_url low (rc_iss c) = normalize_server_url low resource_url \<and>
    rc_agent c = agent_sub \<and>
    rc_agent_jkt c = agent_jkt \<and>
    rc_dwk c = ''aauth-resource.json'' \<and>
    sint (now - 60) \<le> sint (rc_exp c)"
  using verify_resource_challenge_sound [OF assms] by (simp add: challenge_trusted_def)

lemma client_claims_Ok [res_simps]:
  "verify_client_auth_token_claims L low now auth resource_url aud agent_sub agent_jkt = Inr u \<longleftrightarrow>
     \<not> expired_at now (au_exp auth) \<and>
     normalize_server_url low (au_iss auth) = normalize_server_url low aud \<and>
     normalize_server_url low (au_aud auth) = normalize_server_url low resource_url \<and>
     jwk_thumbprint L (cnf_jwk (au_cnf auth)) = Ok agent_jkt \<and> au_agent auth = agent_sub \<and>
     (\<forall>act. au_act auth = Some act \<longrightarrow> starts_with ''aauth:'' (act_agent act))"
  by (auto simp: verify_client_auth_token_claims_def verify_auth_token_binding_def res_simps
      split: option.splits)

definition auth_token_bound ::
    "'key jwt_lib \<Rightarrow> (string \<Rightarrow> string) \<Rightarrow> fetcher \<Rightarrow> i64 \<Rightarrow> string \<Rightarrow> string \<Rightarrow> string \<Rightarrow> string \<Rightarrow> string \<Rightarrow> bool \<Rightarrow>
     auth_claims \<Rightarrow> bool" where
  "auth_token_bound L low F now jwt resource_url aud agent_sub agent_jkt check_signature c \<longleftrightarrow>
     sint (now - 60) \<le> sint (au_exp c) \<and>
     normalize_server_url low (au_iss c) = normalize_server_url low aud \<and>
     normalize_server_url low (au_aud c) = normalize_server_url low resource_url \<and>
     jwk_thumbprint L (cnf_jwk (au_cnf c)) = Ok agent_jkt \<and>
     au_agent c = agent_sub \<and>
     \<not> (au_sub c = None \<and> au_scope c = None) \<and>
     pred_option (\<lambda>act. starts_with ''aauth:'' (act_agent act)) (au_act c) \<and>
     \<not> (check_signature \<and> \<not> signed_by_issuer L F now jwt (PT_Auth c))"

lemma verify_client_auth_token_sound:
  assumes "decode_agrees L"
    and "verify_client_auth_token L low F now jwt resource_url aud agent_sub agent_jkt check_signature = Ok c"
  shows "auth_token_bound L low F now jwt resource_url aud agent_sub agent_jkt check_signature c"
  unfolding auth_token_bound_def
proof (intro conjI)
  obtain p where p: "parse_token L jwt = Ok p"
    using assms(2) by (auto simp: verify_client_auth_token_def res_simps)
  obtain a where a: "p = PT_Auth a" using assms(2) p
    by (cases p) (auto simp: verify_client_auth_token_def)
  have cl: "verify_client_auth_token_claims L low now a resource_url aud agent_sub agent_jkt = Ok ()"
    using assms(2) p a by (auto simp: verify_client_auth_token_def res_simps)
  have sig: "a = c \<and> \<not> (check_signature \<and> \<not> signed_by_issuer L F now jwt (PT_Auth c))"
  proof (cases check_signature)
    case True
    then obtain key where k: "fetch_decoding_key L F (au_iss a) (au_dwk a) jwt = Ok key"
      "verify_with_key L now jwt key = Ok (PT_Auth c)"
      using assms(2) p a cl
      by (auto simp: verify_client_auth_token_def res_simps)
    have "PT_Auth c = p" using verified_same [OF assms(1) p k(2)] .
    then show ?thesis
      using a signed_by_issuerI [of L F "PT_Auth c" jwt key now] k by simp
  next
    case False
    then show ?thesis using assms(2) p a cl by (auto simp: verify_client_auth_token_def)
  qed
  then have ac: "a = c" ..
  show "\<not> (check_signature \<and> \<not> signed_by_issuer L F now jwt (PT_Auth c))" using sig ..
  show "\<not> (au_sub c = None \<and> au_scope c = None)"
    using parse_token_Ok [OF p] a ac by auto
  note ok = cl [unfolded client_claims_Ok]
  show "sint (now - 60) \<le> sint (au_exp c)"
    using ok ac by (simp add: expired_at_def i64_less_def CLOCK_SKEW_def)
  show "normalize_server_url low (au_iss c) = normalize_server_url low aud"
    "normalize_server_url low (au_aud c) = normalize_server_url low resource_url"
    "jwk_thumbprint L (cnf_jwk (au_cnf c)) = Ok agent_jkt" "au_agent c = agent_sub"
    using ok ac by simp_all
  show "pred_option (\<lambda>act. starts_with ''aauth:'' (act_agent act)) (au_act c)"
    using ok ac by (cases "au_act c") simp_all
qed

text \<open>
  C30: what is known of an auth token that the agent accepts from token exchange, whether or
  not its signature is checked. It names exactly this agent and its \<^verbatim>\<open>cnf\<close> key has exactly the
  agent's thumbprint; its issuer and its audience equal the resource token's audience and the
  resource being called after \<open>normalize_server_url\<close> (the protocol asks for the identifiers
  themselves to be equal); it has not been expired for more than the skew of a minute; it
  names a subject or a scope; if it has an \<^verbatim>\<open>act\<close> claim, its agent begins with \<^verbatim>\<open>aauth:\<close>, and
  nothing more is asked of it. With signature checking it is also signed by the key its issuer
  publishes under the token's key id.
\<close>
theorem accepted_auth_token_bound:
  assumes "decode_agrees L"
    and "verify_client_auth_token L low F now jwt resource_url aud agent_sub agent_jkt check_signature = Ok c"
  shows "sint (now - 60) \<le> sint (au_exp c) \<and>
    normalize_server_url low (au_iss c) = normalize_server_url low aud \<and>
    normalize_server_url low (au_aud c) = normalize_server_url low resource_url \<and>
    jwk_thumbprint L (cnf_jwk (au_cnf c)) = Ok agent_jkt \<and>
    au_agent c = agent_sub \<and>
    \<not> (au_sub c = None \<and> au_scope c = None) \<and>
    pred_option (\<lambda>act. starts_with ''aauth:'' (act_agent act)) (au_act c) \<and>
    \<not> (check_signature \<and> \<not> signed_by_issuer L F now jwt (PT_Auth c))"
  using verify_client_auth_token_sound [OF assms] by (simp add: auth_token_bound_def)

section \<open>A concrete run\<close>

text \<open>
  A sample library instance: three tokens, told apart by their first letters, signed by one key that the
  sample fetcher publishes under the kid \<^verbatim>\<open>k1\<close>.
\<close>

definition sample_jwk :: public_jwk where
  "sample_jwk = \<lparr>kty = ''OKP'', crv = ''Ed25519'', jwk_x = ''x'', jwk_y = None, jwk_kid = Some ''k1''\<rparr>"

definition sample_agent :: agent_claims where
  "sample_agent =
     \<lparr>ag_iss = ''https://a'', ag_dwk = ''aauth-agent.json'', ag_sub = ''aauth:x@a'', ag_jti = ''j'',
      ag_cnf = \<lparr>cnf_jwk = sample_jwk\<rparr>, ag_iat = 900, ag_exp = 2000, ag_ps = None, parent_agent = None\<rparr>"

definition sample_auth :: auth_claims where
  "sample_auth =
     \<lparr>au_iss = ''https://p'', au_dwk = ''aauth-person.json'', au_aud = ''https://r'', au_jti = ''j'',
      au_agent = ''aauth:x@a'', au_act = None, au_cnf = \<lparr>cnf_jwk = sample_jwk\<rparr>, au_iat = 900,
      au_exp = 2000, au_sub = Some ''u'', au_scope = None, au_tenant = None, au_mission = None\<rparr>"

definition sample_resource :: resource_claims where
  "sample_resource =
     \<lparr>rc_iss = ''https://r'', rc_dwk = ''aauth-resource.json'', rc_aud = ''https://p'', rc_jti = ''j'',
      rc_agent = ''aauth:x@a'', rc_agent_jkt = ''T'', rc_iat = 900, rc_exp = 2000, rc_scope = None,
      rc_mission = None, rc_interaction = None\<rparr>"

definition sample_lib :: "string jwt_lib" where
  "sample_lib =
     \<lparr>jl_header = (\<lambda>jwt. Ok \<lparr>rh_typ = Some (if starts_with ''agent'' jwt then ''aa-agent+jwt''
          else if starts_with ''auth'' jwt then ''aa-auth+jwt'' else ''aa-resource+jwt''),
        rh_alg = ''EdDSA'', rh_kid = Some ''k1''\<rparr>),
      jl_insecure_agent = (\<lambda>_. Ok sample_agent), jl_insecure_auth = (\<lambda>_. Ok sample_auth),
      jl_insecure_resource = (\<lambda>_. Ok sample_resource),
      jl_decode_agent = (\<lambda>_ key _ _ _. if key = ''K'' then Ok sample_agent else Err ''bad signature''),
      jl_decode_auth = (\<lambda>_ key _ _ _. if key = ''K'' then Ok sample_auth else Err ''bad signature''),
      jl_decode_resource = (\<lambda>_ key _ _ _. if key = ''K'' then Ok sample_resource else Err ''bad signature''),
      jl_from_jwk = (\<lambda>_. Ok ''K''), jl_b64 = (\<lambda>s. Some s), jl_b64_encode = (\<lambda>_. ''T''),
      jl_sha256 = (\<lambda>s. s),
      jl_json = \<lparr>sj_parse = (\<lambda>_. Some (JObj [(''alg'', JStr ''EdDSA'')])), sj_print = (\<lambda>_. []),
        sj_error = (\<lambda>_. [])\<rparr>\<rparr>"

definition sample_fetcher :: fetcher where
  "sample_fetcher = static_metadata_fetcher ''https://a/jwks'' [\<lparr>je_kid = Some ''k1'', je_jwk = sample_jwk\<rparr>]"

definition sample_parse :: url_parser where
  "sample_parse u =
     Some \<lparr>u_scheme = ''https'', u_username = [], u_password = None, u_host_str = Some ''h'',
       u_port = None, u_path = ''/'', u_query = None, u_fragment = None\<rparr>"

lemma sample_decode_agrees: "decode_agrees sample_lib"
  by (auto simp: decode_agrees_def sample_lib_def split: if_splits)

lemma not_none: "\<not> eq_ignore_ascii_case ''EdDSA'' ''none''"
  by (simp add: eq_ignore_ascii_case_def)

lemma sample_header:
  "jwt_header sample_lib jwt =
     Ok \<lparr>jh_typ = (if starts_with ''agent'' jwt then Typ_Agent
         else if starts_with ''auth'' jwt then Typ_Auth else Typ_Resource),
       jh_alg = ''EdDSA'', jh_kid = Some ''k1''\<rparr>"
  by (simp add: jwt_header_def reject_alg_none_def sample_lib_def Let_def json_get_def not_none
      typ_from_str_def)

lemma sample_thumbprint: "jwk_thumbprint sample_lib sample_jwk = Ok ''T''"
  by (simp add: jwk_thumbprint_def httpsig_thumbprint_def thumbprint_members_def sample_jwk_def
      sample_lib_def)

lemma sample_key: "fetch_decoding_key sample_lib sample_fetcher iss dwk jwt = Ok ''K''"
  by (simp add: fetch_decoding_key_def sample_header sample_fetcher_def static_metadata_fetcher_def
      jwk_set_find_def jwt_err_def) (simp add: sample_lib_def)

lemma sample_expired: "\<not> expired_at 1000 2000"
  by (simp add: expired_at_def i64_less_def CLOCK_SKEW_def)

lemma sample_validate: "validate_agent_token_claims sample_parse 1000 sample_agent = Ok ()"
  by (simp add: validate_agent_token_claims_def sample_agent_def i64_less_def CLOCK_SKEW_def
      is_valid_server_identifier_def is_loopback_http_identifier_def sample_parse_def ends_with_single
      is_ascii_uppercase_def byte_def)

lemma sample_tokens:
  "parse_token sample_lib ''agent'' = Ok (PT_Agent sample_agent)"
  "parse_token sample_lib ''agent.p.s'' = Ok (PT_Agent sample_agent)"
  "parse_token sample_lib ''auth'' = Ok (PT_Auth sample_auth)"
  "parse_token sample_lib ''resource'' = Ok (PT_Resource sample_resource)"
  "verify_with_key sample_lib now ''agent'' ''K'' = Ok (PT_Agent sample_agent)"
  "verify_with_key sample_lib now ''agent.p.s'' ''K'' = Ok (PT_Agent sample_agent)"
  "verify_with_key sample_lib now ''auth'' ''K'' = Ok (PT_Auth sample_auth)"
  "verify_with_key sample_lib now ''resource'' ''K'' = Ok (PT_Resource sample_resource)"
  by (simp_all add: parse_token_def verify_with_key_def sample_header Let_def jwt_err_def)
    (simp_all add: sample_lib_def auth_claims_validate_def sample_auth_def)

lemma sample_fields [simp]:
  "ag_exp sample_agent = 2000" "cnf_jwk (ag_cnf sample_agent) = sample_jwk"
  "au_exp sample_auth = 2000" "cnf_jwk (au_cnf sample_auth) = sample_jwk"
  by (simp_all add: sample_agent_def sample_auth_def)

lemma sample_verify_agent:
  "verify_token sample_lib sample_parse sample_fetcher 1000 ''agent'' ''T'' = Ok (PT_Agent sample_agent)"
  "verify_token sample_lib sample_parse sample_fetcher 1000 ''agent.p.s'' ''T'' = Ok (PT_Agent sample_agent)"
  by (simp_all add: verify_token_def sample_tokens sample_validate sample_key sample_expired sample_thumbprint)

lemma sample_verify_auth:
  "verify_token sample_lib sample_parse sample_fetcher 1000 ''auth'' ''T'' = Ok (PT_Auth sample_auth)"
  by (simp add: verify_token_def sample_tokens sample_key sample_expired sample_thumbprint)

theorem accepted_token_trusted_witness:
  "signed_by_issuer sample_lib sample_fetcher 1000 ''agent'' (PT_Agent sample_agent)"
  using accepted_token_trusted [OF sample_decode_agrees sample_verify_agent(1)] by simp

lemma sample_challenge:
  "verify_resource_challenge sample_lib id sample_fetcher 1000 ''resource'' ''https://r/'' ''aauth:x@a'' ''T''
     = Ok sample_resource"
  by (simp add: verify_resource_challenge_def verify_resource_token_def sample_tokens sample_key)
    (simp add: sample_resource_def sample_expired normalize_server_url_def to_lowercase_def
      trim_end_matches_def is_ascii_def byte_def)

theorem accepted_challenge_trusted_witness:
  "signed_by_issuer sample_lib sample_fetcher 1000 ''resource'' (PT_Resource sample_resource) \<and>
   rc_agent_jkt sample_resource = ''T''"
  using accepted_challenge_trusted [OF sample_decode_agrees sample_challenge] by simp

lemma sample_client_auth:
  "verify_client_auth_token sample_lib id sample_fetcher 1000 ''auth'' ''https://r'' ''https://p''
     ''aauth:x@a'' ''T'' True = Ok sample_auth"
  by (simp add: verify_client_auth_token_def sample_tokens sample_key
      verify_client_auth_token_claims_def verify_auth_token_binding_def sample_expired sample_thumbprint)
    (simp add: sample_auth_def)

theorem accepted_auth_token_bound_witness:
  "au_agent sample_auth = ''aauth:x@a'' \<and> jwk_thumbprint sample_lib (cnf_jwk (au_cnf sample_auth)) = Ok ''T''"
  using accepted_auth_token_bound [OF sample_decode_agrees sample_client_auth] by simp

end
