(* ===== verification/Http.thy ===== *)
theory Http
  imports Headers
begin

text \<open>
  HTTP messages as the program sees them: header maps (\<^verbatim>\<open>http::HeaderMap\<close>, a multimap
  under lower-case names whose \<open>get\<close> is the first value), requests, responses, and the
  helpers of \<^verbatim>\<open>aauth/src/http_util.rs\<close> that derive the signed components.
\<close>

section \<open>Header maps\<close>

type_synonym header_map = "(string \<times> string) list"

fun hm_get :: "header_map \<Rightarrow> string \<Rightarrow> string option" where
  "hm_get [] name = None"
| "hm_get ((n, v) # hs) name = (if n = name then Some v else hm_get hs name)"

definition hm_get_all :: "header_map \<Rightarrow> string \<Rightarrow> string list" where
  "hm_get_all hs name = map snd (filter (\<lambda>(n, _). n = name) hs)"

definition hm_remove :: "header_map \<Rightarrow> string \<Rightarrow> header_map" where
  "hm_remove hs name = filter (\<lambda>(n, _). n \<noteq> name) hs"

definition hm_insert :: "header_map \<Rightarrow> string \<Rightarrow> string \<Rightarrow> header_map" where
  "hm_insert hs name v = hm_remove hs name @ [(name, v)]"

definition to_str_ok :: "string \<Rightarrow> bool" where
  "to_str_ok v \<longleftrightarrow> list_all (\<lambda>c. (32 \<le> byte c \<and> byte c < 127) \<or> byte c = 9) v"

definition header_value_ok :: "string \<Rightarrow> bool" where
  "header_value_ok v \<longleftrightarrow> list_all (\<lambda>c. (32 \<le> byte c \<and> byte c \<noteq> 127) \<or> byte c = 9) v"

definition header_value :: "header_map \<Rightarrow> string \<Rightarrow> string option" where
  "header_value hs name =
     (case hm_get hs name of None \<Rightarrow> None | Some v \<Rightarrow> if to_str_ok v then Some v else None)"

lemma hm_get_remove [simp]: "hm_get (hm_remove hs name) k = (if k = name then None else hm_get hs k)"
  by (induction hs) (auto simp: hm_remove_def)

lemma hm_get_append: "hm_get (hs @ hs') k = (case hm_get hs k of None \<Rightarrow> hm_get hs' k | Some v \<Rightarrow> Some v)"
  by (induction hs k rule: hm_get.induct) auto

lemma hm_get_insert [simp]: "hm_get (hm_insert hs name v) k = (if k = name then Some v else hm_get hs k)"
  by (auto simp: hm_insert_def hm_get_append split: option.splits)

section \<open>Requests and responses\<close>

record request =
  rq_method :: string
  rq_host :: "string option"
  rq_port :: "u16 option"
  rq_path :: string
  rq_headers :: header_map
  rq_body :: string

record response =
  rs_status :: u16
  rs_headers :: header_map
  rs_body :: string

section \<open>Signed components\<close>

definition signature_parts :: "request \<Rightarrow> string \<times> string \<times> string" where
  "signature_parts req =
     (let authority =
        (case header_value (rq_headers req) ''host'' of
           Some h \<Rightarrow> h
         | None \<Rightarrow>
             (case rq_host req of
                None \<Rightarrow> []
              | Some host \<Rightarrow>
                  (case rq_port req of
                     Some port \<Rightarrow> host @ '':'' @ show_nat (unat port)
                   | None \<Rightarrow> host)))
      in (rq_method req, authority, rq_path req))"

text \<open>\<^verbatim>\<open>SignOptions::extras\<close>: further covered components with their values.\<close>

type_synonym sign_options = "(string \<times> string) list"

definition aauth_sign_options :: "header_map \<Rightarrow> sign_options" where
  "aauth_sign_options headers =
     (case header_value headers ''authorization'' of
        Some v \<Rightarrow> if starts_with ''AAuth '' v then [(''authorization'', v)] else []
      | None \<Rightarrow> []) @
     (case header_value headers ''aauth-mission'' of
        Some m \<Rightarrow> [(''aauth-mission'', m)]
      | None \<Rightarrow> [])"

end
