(* ===== verification/Deferred.thy ===== *)
theory Deferred
  imports Http Json
begin

text \<open>
  Deferred responses (\<^verbatim>\<open>aauth/src/deferred\<close>, \<^verbatim>\<open>aauth/src/protocol/pending.rs\<close>): what a
  server waits for, the snapshot it stores, the pending bodies both sides exchange and the
  client's reading of a 202 response.
\<close>

section \<open>State of a deferral (\<^verbatim>\<open>deferred/types.rs\<close>)\<close>

datatype defer_requirement =
    DR_Interaction (dr_url: string) (dr_code: string)
  | DR_Clarification (dr_question: string) (dr_timeout: "u64 option")
  | DR_Claims (dr_required: "string list")
  | DR_Approval
  | DR_Payment (dr_location: string)

record defer_created =
  dc_location :: string
  dc_requirement :: defer_requirement

record defer_waiting =
  dw_status :: pending_status
  dw_requirement :: defer_requirement

datatype pending_outcome =
    PO_AuthToken token_response_body
  | PO_OpaqueAccess string
  | PO_Error protocol_error

datatype pending_snapshot =
    PSn_Waiting pending_status defer_requirement
  | PSn_Complete pending_outcome

definition snapshot_waiting :: "defer_requirement \<Rightarrow> pending_snapshot" where
  "snapshot_waiting requirement = PSn_Waiting PS_Pending requirement"

definition snapshot_complete :: "pending_outcome \<Rightarrow> pending_snapshot" where
  "snapshot_complete outcome = PSn_Complete outcome"

fun header_challenge :: "defer_requirement \<Rightarrow> aauth_error + aauth_challenge" where
  "header_challenge (DR_Interaction url code) = Ok (Ch_Interaction url code)"
| "header_challenge (DR_Clarification _ _) = Ok Ch_Clarification"
| "header_challenge (DR_Claims _) = Ok Ch_Claims"
| "header_challenge DR_Approval = Ok Ch_Approval"
| "header_challenge (DR_Payment _) = Err (Deferred DE_PaymentNotRequirement)"

definition DEFAULT_PENDING_TTL_SECS :: u64 where
  "DEFAULT_PENDING_TTL_SECS = 600"

text \<open>\<open>generate_pending_id\<close> on its sixteen random bytes.\<close>

definition hex_digit :: "nat \<Rightarrow> char" where
  "hex_digit n = ''0123456789abcdef'' ! n"

definition generate_pending_id :: "u8 list \<Rightarrow> string" where
  "generate_pending_id bytes =
     concat (map (\<lambda>b. [hex_digit (unat b div 16), hex_digit (unat b mod 16)]) bytes)"

definition pending_location :: "string \<Rightarrow> string \<Rightarrow> string \<Rightarrow> string" where
  "pending_location base_url pending_path i =
     trim_end_matches (CHR ''/'') base_url @ ''/'' @
     trim_start_matches (CHR ''/'') pending_path @ ''/'' @ i"

section \<open>Pending bodies (\<^verbatim>\<open>protocol/pending.rs\<close>)\<close>

fun ps_as_str :: "pending_status \<Rightarrow> string" where
  "ps_as_str PS_Pending = ''pending''"
| "ps_as_str PS_Interacting = ''interacting''"

definition ps_from_str :: "string \<Rightarrow> pending_status option" where
  "ps_from_str s =
     (if s = ''pending'' then Some PS_Pending
      else if s = ''interacting'' then Some PS_Interacting else None)"

definition de_pending_status :: "json \<Rightarrow> pending_status option" where
  "de_pending_status j = Option.bind (de_variant j) ps_from_str"

record clarification_challenge =
  cl_status :: pending_status
  cl_clarification :: string
  cl_timeout :: "u64 option"
  cl_options :: "string list option"

record claims_challenge =
  cm_status :: pending_status
  cm_required :: "string list"

datatype pending_body =
    PB_Status pending_status
  | PB_Clarification clarification_challenge
  | PB_Claims claims_challenge

definition for_waiting :: "defer_requirement \<Rightarrow> pending_status \<Rightarrow> aauth_error + pending_body" where
  "for_waiting requirement status =
     (case requirement of
        DR_Clarification question timeout \<Rightarrow>
          Ok (PB_Clarification \<lparr>cl_status = status, cl_clarification = question,
                cl_timeout = timeout, cl_options = None\<rparr>)
      | DR_Claims required_claims \<Rightarrow>
          Ok (PB_Claims \<lparr>cm_status = status, cm_required = required_claims\<rparr>)
      | DR_Interaction _ _ \<Rightarrow> Ok (PB_Status status)
      | DR_Approval \<Rightarrow> Ok (PB_Status status)
      | DR_Payment _ \<Rightarrow> Err (Deferred DE_PaymentNotPendingBody))"

definition for_created :: "defer_requirement \<Rightarrow> aauth_error + pending_body" where
  "for_created requirement = for_waiting requirement PS_Pending"

fun en_pending_body :: "pending_body \<Rightarrow> json" where
  "en_pending_body (PB_Status s) = JObj [(''status'', JStr (ps_as_str s))]"
| "en_pending_body (PB_Clarification c) =
     JObj ([(''status'', JStr (ps_as_str (cl_status c))), (''clarification'', JStr (cl_clarification c))]
       @ en_opt ''timeout'' en_u64 (cl_timeout c)
       @ en_opt ''options'' (\<lambda>os. JArr (map JStr os)) (cl_options c))"
| "en_pending_body (PB_Claims c) =
     JObj [(''status'', JStr (ps_as_str (cm_status c))),
           (''required_claims'', JArr (map JStr (cm_required c)))]"

definition de_clarification_challenge :: "json \<Rightarrow> clarification_challenge option" where
  "de_clarification_challenge j =
     (case de_struct [''status'', ''clarification'', ''timeout'', ''options''] j of
        Some [s, c, t, os] \<Rightarrow>
          (case (case s of None \<Rightarrow> Some PS_Pending | Some v \<Rightarrow> de_pending_status v,
                 req de_str c, opt de_u64 t, opt (de_list de_str) os) of
             (Some s, Some c, Some t, Some os) \<Rightarrow>
               Some \<lparr>cl_status = s, cl_clarification = c, cl_timeout = t, cl_options = os\<rparr>
           | _ \<Rightarrow> None)
      | _ \<Rightarrow> None)"

definition de_claims_challenge :: "json \<Rightarrow> claims_challenge option" where
  "de_claims_challenge j =
     (case de_struct [''status'', ''required_claims''] j of
        Some [s, r] \<Rightarrow>
          (case (req de_pending_status s, req (de_list de_str) r) of
             (Some s, Some r) \<Rightarrow> Some \<lparr>cm_status = s, cm_required = r\<rparr>
           | _ \<Rightarrow> None)
      | _ \<Rightarrow> None)"

record claims_submission =
  cs_sub :: string
  cs_email :: "string option"
  cs_tenant :: "string option"
  cs_extra :: "string \<rightharpoonup> json"

record updated_token_request =
  ut_resource_token :: string
  ut_justification :: "string option"

datatype pending_post_body =
    PP_Clarification string
  | PP_Claims claims_submission
  | PP_UpdatedToken updated_token_request
  | PP_InteractionCompleted

text \<open>A flattened struct reads objects only; the other members become the map.\<close>

fun de_claims_submission :: "json \<Rightarrow> claims_submission option" where
  "de_claims_submission (JObj kvs) =
     (case (field kvs ''sub'', field kvs ''email'', field kvs ''tenant'') of
        (Some s, Some e, Some t) \<Rightarrow>
          (case (req de_str s, opt de_str e, opt de_str t) of
             (Some s, Some e, Some t) \<Rightarrow>
               Some \<lparr>cs_sub = s, cs_email = e, cs_tenant = t,
                 cs_extra = map_of (rev (filter (\<lambda>(k, _). k \<notin> {''sub'', ''email'', ''tenant''}) kvs))\<rparr>
           | _ \<Rightarrow> None)
      | _ \<Rightarrow> None)"
| "de_claims_submission _ = None"

definition de_clarification_response :: "json \<Rightarrow> string option" where
  "de_clarification_response j =
     (case de_struct [''clarification_response''] j of Some [c] \<Rightarrow> req de_str c | _ \<Rightarrow> None)"

definition de_updated_token :: "json \<Rightarrow> updated_token_request option" where
  "de_updated_token j =
     (case de_struct [''resource_token'', ''justification''] j of
        Some [r, u] \<Rightarrow>
          (case (req de_str r, opt de_str u) of
             (Some r, Some u) \<Rightarrow> Some \<lparr>ut_resource_token = r, ut_justification = u\<rparr>
           | _ \<Rightarrow> None)
      | _ \<Rightarrow> None)"

definition de_pending_post_body :: "json \<Rightarrow> pending_post_body option" where
  "de_pending_post_body j =
     (case de_clarification_response j of
        Some c \<Rightarrow> Some (PP_Clarification c)
      | None \<Rightarrow>
          (case de_claims_submission j of
             Some c \<Rightarrow> Some (PP_Claims c)
           | None \<Rightarrow>
               (case de_updated_token j of
                  Some r \<Rightarrow> Some (PP_UpdatedToken r)
                | None \<Rightarrow> map_option (\<lambda>_. PP_InteractionCompleted) (de_struct [] j))))"

datatype pending_input =
    PI_ClarificationResponse string
  | PI_ClaimsSubmission claims_submission
  | PI_UpdatedToken updated_token_request
  | PI_InteractionCompleted
  | PI_Cancelled

fun pending_input_from :: "pending_post_body \<Rightarrow> pending_input" where
  "pending_input_from (PP_Clarification c) = PI_ClarificationResponse c"
| "pending_input_from (PP_Claims c) = PI_ClaimsSubmission c"
| "pending_input_from (PP_UpdatedToken r) = PI_UpdatedToken r"
| "pending_input_from PP_InteractionCompleted = PI_InteractionCompleted"

definition from_slice :: "serde_json \<Rightarrow> (json \<Rightarrow> 'a option) \<Rightarrow> string \<Rightarrow> string + 'a" where
  "from_slice sj d body = ok_or (Option.bind (sj_parse sj body) d) (sj_error sj body)"

definition parse_pending_post_body :: "serde_json \<Rightarrow> string \<Rightarrow> aauth_error + pending_input" where
  "parse_pending_post_body sj body =
     (if body = [] \<or> list_all is_ascii_whitespace body then Ok PI_InteractionCompleted
      else map_ok pending_input_from
             (map_err (\<lambda>m. Deferred (DE_Body m)) (from_slice sj de_pending_post_body body)))"

section \<open>Outcomes (\<^verbatim>\<open>deferred/outcome.rs\<close>, \<^verbatim>\<open>deferred/poll.rs\<close>)\<close>

datatype auth_token_flow_outcome =
    FO_Granted token_response_body
  | FO_Deferred defer_created
  | FO_Denied protocol_error
  | FO_Gone

datatype auth_token_poll_outcome =
    AP_Pending defer_waiting
  | AP_Complete pending_outcome
  | AP_Gone

fun poll_outcome_from_snapshot :: "pending_snapshot \<Rightarrow> auth_token_poll_outcome" where
  "poll_outcome_from_snapshot (PSn_Complete outcome) = AP_Complete outcome"
| "poll_outcome_from_snapshot (PSn_Waiting status requirement) =
     AP_Pending \<lparr>dw_status = status, dw_requirement = requirement\<rparr>"

record server_poll_options =
  sp_location_url :: string
  max_poll_duration_secs :: "u64 option"
  prefer_wait :: "u64 option"

definition server_poll_options_new :: "string \<Rightarrow> server_poll_options" where
  "server_poll_options_new location_url =
     \<lparr>sp_location_url = location_url, max_poll_duration_secs = None, prefer_wait = None\<rparr>"

datatype server_poll_outcome =
    SP_AuthToken token_response_body
  | SP_Deferred defer_requirement string
  | SP_Error protocol_error
  | SP_Gone

definition SERVER_POLL_DEFAULT_MAX_SECS :: u64 where "SERVER_POLL_DEFAULT_MAX_SECS = 300"

definition SERVER_POLL_DEFAULT_PREFER_WAIT :: u64 where "SERVER_POLL_DEFAULT_PREFER_WAIT = 45"

section \<open>Reading a 202 (\<^verbatim>\<open>deferred/parse.rs\<close>)\<close>

record parsed_deferred =
  pd_location :: string
  pd_requirement :: defer_requirement

text \<open>\<open>url_join base rel\<close> stands for \<^verbatim>\<open>Url::parse(base)?.join(rel)?.to_string()\<close>.\<close>

definition resolve_deferred_location :: "(string \<Rightarrow> string \<Rightarrow> string option) \<Rightarrow> string \<Rightarrow> string \<Rightarrow> string" where
  "resolve_deferred_location url_join base_url location =
     (if starts_with ''http://'' location \<or> starts_with ''https://'' location then location
      else (case url_join base_url (trim_start_matches (CHR ''/'') location) of
              Some u \<Rightarrow> u
            | None \<Rightarrow> location))"

definition defer_requirement_from :: "serde_json \<Rightarrow> aauth_challenge \<Rightarrow> string \<Rightarrow> aauth_error + defer_requirement" where
  "defer_requirement_from sj challenge body =
     (case challenge of
        Ch_Clarification \<Rightarrow>
          map_ok (\<lambda>c. DR_Clarification (cl_clarification c) (cl_timeout c))
            (if body = [] then
               Ok \<lparr>cl_status = PS_Pending, cl_clarification = ''Please clarify your request'',
                   cl_timeout = None, cl_options = None\<rparr>
             else map_err (\<lambda>m. Deferred (DE_Body m)) (from_slice sj de_clarification_challenge body))
      | Ch_Claims \<Rightarrow>
          map_ok (\<lambda>c. DR_Claims (cm_required c))
            (if body = [] then Ok \<lparr>cm_status = PS_Pending, cm_required = []\<rparr>
             else map_err (\<lambda>m. Deferred (DE_Body m)) (from_slice sj de_claims_challenge body))
      | Ch_Interaction url code \<Rightarrow> Ok (DR_Interaction url code)
      | Ch_Approval \<Rightarrow> Ok DR_Approval
      | Ch_AgentToken \<Rightarrow>
          Err (Header (HD_Invalid ''agent-token/auth-token requirements are not defer requirements''))
      | Ch_AuthToken _ \<Rightarrow>
          Err (Header (HD_Invalid ''agent-token/auth-token requirements are not defer requirements'')))"

definition parse_deferred_response ::
    "serde_json \<Rightarrow> (string \<Rightarrow> string \<Rightarrow> string option) \<Rightarrow> u16 \<Rightarrow> header_map \<Rightarrow> string \<Rightarrow> string
     \<Rightarrow> aauth_error + parsed_deferred" where
  "parse_deferred_response sj url_join status headers body base_url =
     (if status \<noteq> 202 then Err (Deferred (DE_UnexpectedStatus 202 status))
      else
        bind_res (ok_or (header_value headers ''location'') (Deferred DE_MissingLocation))
          (\<lambda>loc. let location = resolve_deferred_location url_join base_url loc in
        bind_res (ok_or (header_value headers ''aauth-requirement'') (Deferred DE_MissingRequirement))
          (\<lambda>requirement_header.
        bind_res (ch_from_header requirement_header)
          (\<lambda>challenge.
        bind_res (defer_requirement_from sj challenge body)
          (\<lambda>requirement. Ok \<lparr>pd_location = location, pd_requirement = requirement\<rparr>)))))"

definition parse_auth_token_response :: "serde_json \<Rightarrow> u16 \<Rightarrow> string \<Rightarrow> aauth_error + token_response_body" where
  "parse_auth_token_response sj status body =
     (if status \<noteq> 200 then Err (Deferred (DE_UnexpectedStatus 200 status))
      else map_err (\<lambda>m. Deferred (DE_Body m)) (from_slice sj de_token_response body))"

section \<open>Pending bodies survive their encoding\<close>

lemma ps_from_as_str [simp]: "ps_from_str (ps_as_str s) = Some s"
  by (cases s) (simp_all add: ps_from_str_def)

lemma de_pending_status_en [simp]: "de_pending_status (JStr (ps_as_str s)) = Some s"
  by (simp add: de_pending_status_def)

lemma de_strs [simp]: "those (map (de_str \<circ> JStr) xs) = Some xs"
  by (induction xs) auto

lemma clarification_rt:
  "de_clarification_challenge (en_pending_body (PB_Clarification c)) = Some c"
  by (cases "cl_timeout c"; cases "cl_options c")
    (simp_all add: de_clarification_challenge_def field_def en_opt_def)

lemma claims_rt: "de_claims_challenge (en_pending_body (PB_Claims c)) = Some c"
  by (simp add: de_claims_challenge_def field_def)

end
