(* ===== verification/Pending_Store.thy ===== *)
theory Pending_Store
  imports Deferred "HOL-Library.Multiset"
begin

text \<open>
  Pending records and their persistence (\<^verbatim>\<open>aauth-policy/src/store\<close>). \<open>store_ops\<close> is the
  trait \<^verbatim>\<open>PendingStore\<close>; the locale \<open>pending_store\<close> states what a provider promises, and
  the in-memory provider is proved to keep it. An operation of a service is a function of
  the store state; \<open>seq\<close> is \<^verbatim>\<open>?\<close> on it.
\<close>

section \<open>Operations on a state\<close>

type_synonym ('s, 'e, 'a) action = "'s \<Rightarrow> ('e + 'a) \<times> 's"

definition ret :: "'a \<Rightarrow> ('s, 'e, 'a) action" where
  "ret a s = (Ok a, s)"

definition fail :: "'e \<Rightarrow> ('s, 'e, 'a) action" where
  "fail e s = (Err e, s)"

definition lift_res :: "'e + 'a \<Rightarrow> ('s, 'e, 'a) action" where
  "lift_res r s = (r, s)"

definition seq :: "('s, 'e, 'a) action \<Rightarrow> ('a \<Rightarrow> ('s, 'e, 'b) action) \<Rightarrow> ('s, 'e, 'b) action" where
  "seq m f s = (case m s of (Inl e, s') \<Rightarrow> (Inl e, s') | (Inr a, s') \<Rightarrow> f a s')"

definition err_as :: "('e \<Rightarrow> 'f) \<Rightarrow> ('s, 'e, 'a) action \<Rightarrow> ('s, 'f, 'a) action" where
  "err_as g m s = (case m s of (r, s') \<Rightarrow> (map_err g r, s'))"

text \<open>\<^verbatim>\<open>let _ = op\<close>: the result is dropped, the effect stays.\<close>

definition ignore :: "('s, 'e, 'a) action \<Rightarrow> ('s, 'f, unit) action" where
  "ignore m s = (case m s of (_, s') \<Rightarrow> (Ok (), s'))"

lemma action_simps [simp]:
  "ret a s = (Ok a, s)" "fail e s = (Err e, s)" "lift_res r s = (r, s)"
  by (simp_all add: ret_def fail_def lift_res_def)

lemma seq_simps [simp]:
  "m s = (Inr a, s') \<Longrightarrow> seq m f s = f a s'"
  "m s = (Inl e, s') \<Longrightarrow> seq m f s = (Inl e, s')"
  by (simp_all add: seq_def)

lemma err_as_simps [simp]:
  "m s = (r, s') \<Longrightarrow> err_as g m s = (map_err g r, s')"
  by (simp add: err_as_def)

lemma ignore_simps [simp]: "m s = (r, s') \<Longrightarrow> ignore m s = (Ok (), s')"
  by (simp add: ignore_def)

section \<open>Records (\<^verbatim>\<open>store/records.rs\<close>)\<close>

record federation_pending_state =
  fp_access_server_url :: string
  as_pending_url :: string

record person_pending_context =
  pp_person_server_url :: string
  pp_resource_url :: string
  pp_agent_claims :: agent_claims
  pp_resource_claims :: resource_claims
  pp_exchange_request :: token_exchange_request
  pp_agent_token :: string
  federation :: "federation_pending_state option"
  resource_interaction :: "resource_interaction_claim option"
  ps_interaction_code :: "string option"
  interaction_code_consumed :: bool

record access_pending_context =
  ap_access_server_url :: string
  ap_resource_url :: string
  ap_person_server_url :: string
  ap_agent_claims :: agent_claims
  ap_resource_claims :: resource_claims
  ap_resource_token :: string
  ap_agent_token :: string

record resource_pending_context =
  rp_resource_url :: string
  rp_agent_claims :: agent_claims
  rp_scope :: "string option"

record 'c pending_record =
  pr_id :: string
  created_at :: u64
  expires_at :: u64
  pr_context :: 'c
  pr_snapshot :: pending_snapshot

text \<open>The addition wraps as in a release build.\<close>

definition pending_record_new ::
    "u64 \<Rightarrow> string \<Rightarrow> 'c \<Rightarrow> pending_snapshot \<Rightarrow> u64 \<Rightarrow> 'c pending_record" where
  "pending_record_new now i ctx snapshot ttl_secs =
     \<lparr>pr_id = i, created_at = now, expires_at = now + ttl_secs, pr_context = ctx,
      pr_snapshot = snapshot\<rparr>"

definition is_expired :: "u64 \<Rightarrow> 'c pending_record \<Rightarrow> bool" where
  "is_expired now r \<longleftrightarrow> now > expires_at r"

definition set_snapshot :: "pending_snapshot \<Rightarrow> 'c pending_record \<Rightarrow> 'c pending_record" where
  "set_snapshot snapshot r = r\<lparr>pr_snapshot := snapshot\<rparr>"

section \<open>The trait (\<^verbatim>\<open>store/traits.rs\<close>)\<close>

record ('s, 'e, 'c) store_ops =
  op_create :: "'c pending_record \<Rightarrow> ('s, 'e, string) action"
  op_load :: "string \<Rightarrow> ('s, 'e, 'c pending_record option) action"
  op_save :: "string \<Rightarrow> 'c pending_record \<Rightarrow> ('s, 'e, unit) action"
  op_complete :: "string \<Rightarrow> pending_outcome \<Rightarrow> ('s, 'e, unit) action"
  op_remove :: "string \<Rightarrow> ('s, 'e, unit) action"
  op_find_if :: "('c pending_record \<Rightarrow> bool) \<Rightarrow> ('s, 'e, (string \<times> 'c pending_record) option) action"

definition poll_auth_pending ::
    "('s, 'e, 'c) store_ops \<Rightarrow> u64 \<Rightarrow> string \<Rightarrow> ('s, 'e, auth_token_poll_outcome) action" where
  "poll_auth_pending ops now pending_id =
     seq (op_load ops pending_id) (\<lambda>r.
       case r of
         None \<Rightarrow> ret AP_Gone
       | Some record \<Rightarrow>
           if is_expired now record
           then seq (ignore (op_remove ops pending_id)) (\<lambda>_. ret AP_Gone)
           else ret (poll_outcome_from_snapshot (pr_snapshot record)))"

section \<open>The contract\<close>

text \<open>
  \<open>look\<close> is the abstract store, a partial map. An operation that reports an error leaves the
  map alone; one that succeeds changes it at one key as its name says. \<open>find_if\<close> returns
  some record of the store that satisfies the predicate, or none exists.
\<close>

definition complete_at :: "string \<Rightarrow> pending_outcome \<Rightarrow> (string \<rightharpoonup> 'c pending_record) \<Rightarrow> string \<rightharpoonup> 'c pending_record" where
  "complete_at i outcome m =
     (case m i of None \<Rightarrow> m | Some r \<Rightarrow> m(i \<mapsto> set_snapshot (snapshot_complete outcome) r))"

locale pending_store =
  fixes ops :: "('s, 'e, 'c) store_ops"
    and look :: "'s \<Rightarrow> string \<rightharpoonup> 'c pending_record"
    and ok :: "'s \<Rightarrow> bool"
  assumes create_law: "\<lbrakk>ok s; op_create ops r s = (cres, s')\<rbrakk> \<Longrightarrow>
      ok s' \<and> look s' = (case cres of Inl _ \<Rightarrow> look s | Inr i \<Rightarrow> (look s)(i \<mapsto> r)) \<and>
      (\<forall>i. cres = Inr i \<longrightarrow> i = pr_id r)"
    and load_law: "\<lbrakk>ok s; op_load ops i s = (lres, s')\<rbrakk> \<Longrightarrow>
      ok s' \<and> look s' = look s \<and> (\<forall>r. lres = Inr r \<longrightarrow> r = look s i)"
    and save_law: "\<lbrakk>ok s; op_save ops i r s = (sres, s')\<rbrakk> \<Longrightarrow>
      ok s' \<and> look s' = (case sres of Inl _ \<Rightarrow> look s | Inr _ \<Rightarrow> (look s)(i \<mapsto> r))"
    and complete_law: "\<lbrakk>ok s; op_complete ops i out s = (mres, s')\<rbrakk> \<Longrightarrow>
      ok s' \<and> look s' = (case mres of Inl _ \<Rightarrow> look s | Inr _ \<Rightarrow> complete_at i out (look s))"
    and remove_law: "\<lbrakk>ok s; op_remove ops i s = (rres, s')\<rbrakk> \<Longrightarrow>
      ok s' \<and> look s' = (case rres of Inl _ \<Rightarrow> look s | Inr _ \<Rightarrow> (look s)(i := None))"
    and find_law: "\<lbrakk>ok s; op_find_if ops p s = (fres, s')\<rbrakk> \<Longrightarrow>
      ok s' \<and> look s' = look s \<and>
      (\<forall>x. fres = Inr x \<longrightarrow> (case x of
         None \<Rightarrow> (\<forall>i r. look s i = Some r \<longrightarrow> \<not> p r)
       | Some (i, r) \<Rightarrow> look s i = Some r \<and> p r))"
begin

text \<open>
  Polling reports the stored snapshot of a live record and forgets an expired one, whatever
  the store; it never changes another record.
\<close>

lemma poll_spec:
  assumes "ok s" and "poll_auth_pending ops now i s = (Inr out, s')"
  shows "ok s' \<and>
    (case look s i of
       None \<Rightarrow> out = AP_Gone \<and> look s' = look s
     | Some r \<Rightarrow>
         if is_expired now r then out = AP_Gone \<and> look s' \<in> {look s, (look s)(i := None)}
         else out = poll_outcome_from_snapshot (pr_snapshot r) \<and> look s' = look s)"
proof -
  obtain lr s1 where l: "op_load ops i s = (lr, s1)" by fastforce
  with assms(2) obtain r where lr: "lr = Inr r"
    by (cases lr) (auto simp: poll_auth_pending_def)
  from load_law [OF assms(1) l] lr have k: "ok s1" "look s1 = look s" "r = look s i" by auto
  show ?thesis
  proof (cases "look s i")
    case None
    with assms(2) l lr k show ?thesis by (simp add: poll_auth_pending_def)
  next
    case (Some rec)
    show ?thesis
    proof (cases "is_expired now rec")
      case False
      with assms(2) l lr k Some show ?thesis by (simp add: poll_auth_pending_def)
    next
      case True
      obtain rr s2 where r: "op_remove ops i s1 = (rr, s2)" by fastforce
      from remove_law [OF k(1) r] k(2)
      have "ok s2" "look s2 \<in> {look s, (look s)(i := None)}" by (auto split: sum.splits)
      moreover have "out = AP_Gone \<and> s' = s2"
        using assms(2) l lr k Some True r by (simp add: poll_auth_pending_def)
      ultimately show ?thesis using Some True by simp
    qed
  qed
qed

end

section \<open>The in-memory provider (\<^verbatim>\<open>store/memory.rs\<close>)\<close>

text \<open>
  The \<^verbatim>\<open>HashMap\<close> is a list of entries with distinct keys. Its iteration order is not
  specified by Rust: \<open>iter\<close>, a parameter, enumerates the entries in some order.
\<close>

record 'c mem_store =
  inner :: "(string \<times> 'c pending_record) list"
  last_created :: "string option"

definition mem_new :: "'c mem_store" where
  "mem_new = \<lparr>inner = [], last_created = None\<rparr>"

definition mem_insert :: "string \<Rightarrow> 'c pending_record \<Rightarrow> 'c mem_store \<Rightarrow> 'c mem_store" where
  "mem_insert i r s = s\<lparr>inner := (i, r) # filter (\<lambda>(k, _). k \<noteq> i) (inner s)\<rparr>"

definition mem_len :: "'c mem_store \<Rightarrow> nat" where
  "mem_len s = length (inner s)"

definition mem_is_empty :: "'c mem_store \<Rightarrow> bool" where
  "mem_is_empty s \<longleftrightarrow> mem_len s = 0"

definition mem_last_id ::
    "((string \<times> 'c pending_record) list \<Rightarrow> (string \<times> 'c pending_record) list) \<Rightarrow>
     'c mem_store \<Rightarrow> string option" where
  "mem_last_id iter s = (case iter (inner s) of [] \<Rightarrow> None | (k, _) # _ \<Rightarrow> Some k)"

definition mem_create :: "'c pending_record \<Rightarrow> ('c mem_store, 'e, string) action" where
  "mem_create r s = (let i = pr_id r in (Ok i, mem_insert i r (s\<lparr>last_created := Some i\<rparr>)))"

definition mem_load :: "string \<Rightarrow> ('c mem_store, 'e, 'c pending_record option) action" where
  "mem_load i s = (Ok (map_of (inner s) i), s)"

definition mem_save :: "string \<Rightarrow> 'c pending_record \<Rightarrow> ('c mem_store, 'e, unit) action" where
  "mem_save i r s = (Ok (), mem_insert i r s)"

definition mem_complete :: "string \<Rightarrow> pending_outcome \<Rightarrow> ('c mem_store, 'e, unit) action" where
  "mem_complete i outcome s =
     (Ok (), s\<lparr>inner := map (\<lambda>(k, r). (k, if k = i then set_snapshot (snapshot_complete outcome) r else r))
                          (inner s)\<rparr>)"

definition mem_remove :: "string \<Rightarrow> ('c mem_store, 'e, unit) action" where
  "mem_remove i s = (Ok (), s\<lparr>inner := filter (\<lambda>(k, _). k \<noteq> i) (inner s)\<rparr>)"

definition mem_find_if ::
    "((string \<times> 'c pending_record) list \<Rightarrow> (string \<times> 'c pending_record) list) \<Rightarrow>
     ('c pending_record \<Rightarrow> bool) \<Rightarrow> ('c mem_store, 'e, (string \<times> 'c pending_record) option) action" where
  "mem_find_if iter pred s = (Ok (List.find (\<lambda>(_, r). pred r) (iter (inner s))), s)"

definition mem_ops ::
    "((string \<times> 'c pending_record) list \<Rightarrow> (string \<times> 'c pending_record) list) \<Rightarrow>
     ('c mem_store, 'e, 'c) store_ops" where
  "mem_ops iter =
     \<lparr>op_create = mem_create, op_load = mem_load, op_save = mem_save, op_complete = mem_complete,
      op_remove = mem_remove, op_find_if = mem_find_if iter\<rparr>"

definition mem_look :: "'c mem_store \<Rightarrow> string \<rightharpoonup> 'c pending_record" where
  "mem_look s = map_of (inner s)"

definition mem_ok :: "'c mem_store \<Rightarrow> bool" where
  "mem_ok s \<longleftrightarrow> distinct (map fst (inner s))"

text \<open>\<open>id\<close> enumerates in list order; \<open>enumerates\<close> is all Rust promises of an order.\<close>

definition enumerates :: "('a list \<Rightarrow> 'a list) \<Rightarrow> bool" where
  "enumerates iter \<longleftrightarrow> (\<forall>xs. mset (iter xs) = mset xs)"

lemma map_of_filter_neq: "map_of (filter (\<lambda>(k, _). k \<noteq> i) xs) = (map_of xs)(i := None)"
  by (induction xs) (auto simp: fun_eq_iff)

lemma distinct_filter_keys: "distinct (map fst xs) \<Longrightarrow> distinct (map fst (filter P xs))"
  by (induction xs) auto

lemma mem_insert_ok: "mem_ok s \<Longrightarrow> mem_ok (mem_insert i r s)"
  by (auto simp: mem_ok_def mem_insert_def distinct_filter_keys)

lemma mem_insert_look: "mem_look (mem_insert i r s) = (mem_look s)(i \<mapsto> r)"
  by (auto simp: mem_look_def mem_insert_def map_of_filter_neq)

lemma mem_complete_look:
  "map_of (map (\<lambda>(k, r). (k, if k = i then f r else r)) xs) =
     (case map_of xs i of None \<Rightarrow> map_of xs | Some r \<Rightarrow> (map_of xs)(i \<mapsto> f r))"
  by (induction xs) (auto simp: fun_eq_iff split: option.splits)

lemma find_member: "List.find P xs = Some x \<Longrightarrow> x \<in> set xs \<and> P x"
  by (induction xs) (auto split: if_splits)

lemma mem_find_spec:
  assumes "enumerates iter" and "mem_ok s"
  shows "case List.find (\<lambda>(_, r). p r) (iter (inner s)) of
      None \<Rightarrow> (\<forall>i r. mem_look s i = Some r \<longrightarrow> \<not> p r)
    | Some (i, r) \<Rightarrow> mem_look s i = Some r \<and> p r"
proof -
  have st: "set (iter (inner s)) = set (inner s)"
    using assms(1) by (metis enumerates_def set_mset_mset)
  show ?thesis
  proof (cases "List.find (\<lambda>(_, r). p r) (iter (inner s))")
    case None
    then have "\<forall>x \<in> set (inner s). \<not> p (snd x)"
      using st by (auto simp: find_None_iff)
    then show ?thesis using None by (fastforce simp: mem_look_def dest: map_of_SomeD)
  next
    case (Some x)
    have "x \<in> set (iter (inner s)) \<and> p (snd x)" using find_member [OF Some] by (cases x) simp
    with st have "x \<in> set (inner s)" "p (snd x)" by simp_all
    then show ?thesis
      using Some assms(2) by (auto simp: mem_look_def mem_ok_def)
  qed
qed

lemma mem_complete_map:
  fixes f :: "'c pending_record \<Rightarrow> 'c pending_record"
  shows "map fst (map (\<lambda>(k, r). (k, if k = i then f r else r)) xs) = map fst xs"
  by (induction xs) auto

lemma mem_created [simp]:
  "mem_ok (s\<lparr>last_created := x\<rparr>) = mem_ok s" "mem_look (s\<lparr>last_created := x\<rparr>) = mem_look s"
  by (simp_all add: mem_ok_def mem_look_def)

lemma mem_updated [simp]:
  "mem_ok (s\<lparr>inner := xs\<rparr>) \<longleftrightarrow> distinct (map fst xs)" "mem_look (s\<lparr>inner := xs\<rparr>) = map_of xs"
  by (simp_all add: mem_ok_def mem_look_def)

lemma mem_distinct: "mem_ok s \<Longrightarrow> distinct (map fst (inner s))"
  by (simp add: mem_ok_def)

interpretation mem: pending_store "mem_ops iter" mem_look "\<lambda>s. mem_ok s \<and> enumerates iter" for iter
proof (unfold_locales, goal_cases)
  case (1 s r res s')
  then show ?case
    by (auto simp: mem_ops_def mem_create_def Let_def mem_insert_look mem_insert_ok)
next
  case (2 s i res s')
  then show ?case by (auto simp: mem_ops_def mem_load_def mem_look_def)
next
  case (3 s i r res s')
  then show ?case by (auto simp: mem_ops_def mem_save_def mem_insert_look mem_insert_ok)
next
  case (4 s i out res s')
  then show ?case
    by (auto simp: mem_ops_def mem_complete_def complete_at_def mem_complete_look mem_complete_map
        mem_distinct mem_look_def simp del: list.map_comp map_map)
next
  case (5 s i res s')
  then show ?case
    by (auto simp: mem_ops_def mem_remove_def map_of_filter_neq distinct_filter_keys mem_distinct
        mem_look_def)
next
  case (6 s p res s')
  then show ?case using mem_find_spec [of iter s p]
    by (auto simp: mem_ops_def mem_find_if_def)
qed

text \<open>The in-memory operations never fail (\<^verbatim>\<open>Infallible\<close>).\<close>

lemma mem_infallible:
  "\<exists>a s'. op_create (mem_ops iter) r s = (Ok a, s')"
  "\<exists>a s'. op_load (mem_ops iter) i s = (Ok a, s')"
  "\<exists>s'. op_save (mem_ops iter) i r s = (Ok (), s')"
  "\<exists>s'. op_complete (mem_ops iter) i out s = (Ok (), s')"
  "\<exists>s'. op_remove (mem_ops iter) i s = (Ok (), s')"
  "\<exists>a s'. op_find_if (mem_ops iter) p s = (Ok a, s')"
  by (simp_all add: mem_ops_def mem_create_def mem_load_def mem_save_def mem_complete_def
      mem_remove_def mem_find_if_def Let_def)

section \<open>Reasoning about an action\<close>

text \<open>\<open>run_sat m s Q\<close>: the result and final state of \<open>m\<close> from \<open>s\<close> satisfy \<open>Q\<close>.\<close>

definition run_sat :: "('s, 'e, 'a) action \<Rightarrow> 's \<Rightarrow> ('e + 'a \<Rightarrow> 's \<Rightarrow> bool) \<Rightarrow> bool" where
  "run_sat m s Q \<longleftrightarrow> (case m s of (r, s') \<Rightarrow> Q r s')"

named_theorems sat_simps

lemma sat_ret [sat_simps]: "run_sat (ret a) s Q \<longleftrightarrow> Q (Inr a) s"
  by (simp add: run_sat_def)

lemma sat_fail [sat_simps]: "run_sat (fail e) s Q \<longleftrightarrow> Q (Inl e) s"
  by (simp add: run_sat_def)

lemma sat_lift [sat_simps]: "run_sat (lift_res r) s Q \<longleftrightarrow> Q r s"
  by (simp add: run_sat_def)

lemma sat_seq [sat_simps]:
  "run_sat (seq m f) s Q \<longleftrightarrow>
     run_sat m s (\<lambda>r s'. (\<forall>e. r = Inl e \<longrightarrow> Q (Inl e) s') \<and> (\<forall>a. r = Inr a \<longrightarrow> run_sat (f a) s' Q))"
  by (auto simp: run_sat_def seq_def split: prod.splits sum.splits)

lemma map_err_cases [simp]:
  "map_err g r = Inl e \<longleftrightarrow> (\<exists>e'. r = Inl e' \<and> e = g e')"
  "map_err g r = Inr a \<longleftrightarrow> r = Inr a"
  by (cases r; auto)+

text \<open>What a successful run went through.\<close>

lemma seq_Ok: "seq m f s = (Inr b, s') \<longleftrightarrow> (\<exists>a s1. m s = (Inr a, s1) \<and> f a s1 = (Inr b, s'))"
  by (auto simp: seq_def split: prod.splits sum.splits)

lemma err_as_Ok: "err_as g m s = (Inr b, s') \<longleftrightarrow> m s = (Inr b, s')"
  by (auto simp: err_as_def split: prod.splits)

lemma ignore_Ok: "ignore m s = (Inr u, s') \<longleftrightarrow> (\<exists>r. m s = (r, s'))"
  by (auto simp: ignore_def split: prod.splits)

lemmas run_Ok = seq_Ok err_as_Ok ignore_Ok action_simps

lemma sat_err_as [sat_simps]: "run_sat (err_as g m) s Q \<longleftrightarrow> run_sat m s (\<lambda>r. Q (map_err g r))"
  by (auto simp: run_sat_def err_as_def split: prod.splits)

lemma sat_ignore [sat_simps]: "run_sat (ignore m) s Q \<longleftrightarrow> run_sat m s (\<lambda>_. Q (Inr ()))"
  by (auto simp: run_sat_def ignore_def split: prod.splits)

lemma sat_mono: "run_sat m s P \<Longrightarrow> (\<And>r s'. P r s' \<Longrightarrow> Q r s') \<Longrightarrow> run_sat m s Q"
  by (auto simp: run_sat_def)

lemma sat_result: "run_sat m s Q \<Longrightarrow> m s = (r, s') \<Longrightarrow> Q r s'"
  by (simp add: run_sat_def)

context pending_store
begin

lemma load_sat:
  assumes "ok s" and "\<And>s'. ok s' \<Longrightarrow> look s' = look s \<Longrightarrow> Q (Inr (look s i)) s'"
    and "\<And>e s'. ok s' \<Longrightarrow> look s' = look s \<Longrightarrow> Q (Inl e) s'"
  shows "run_sat (op_load ops i) s Q"
proof -
  obtain r s' where m: "op_load ops i s = (r, s')" by fastforce
  then show ?thesis using load_law [OF assms(1) m] assms(2,3) by (cases r) (auto simp: run_sat_def)
qed

lemma save_sat:
  assumes "ok s" and "\<And>s'. ok s' \<Longrightarrow> look s' = (look s)(i \<mapsto> r) \<Longrightarrow> Q (Inr ()) s'"
    and "\<And>e s'. ok s' \<Longrightarrow> look s' = look s \<Longrightarrow> Q (Inl e) s'"
  shows "run_sat (op_save ops i r) s Q"
proof -
  obtain x s' where m: "op_save ops i r s = (x, s')" by fastforce
  then show ?thesis using save_law [OF assms(1) m] assms(2,3) by (cases x) (auto simp: run_sat_def)
qed

lemma complete_sat:
  assumes "ok s" and "\<And>s'. ok s' \<Longrightarrow> look s' = complete_at i out (look s) \<Longrightarrow> Q (Inr ()) s'"
    and "\<And>e s'. ok s' \<Longrightarrow> look s' = look s \<Longrightarrow> Q (Inl e) s'"
  shows "run_sat (op_complete ops i out) s Q"
proof -
  obtain x s' where m: "op_complete ops i out s = (x, s')" by fastforce
  then show ?thesis using complete_law [OF assms(1) m] assms(2,3) by (cases x) (auto simp: run_sat_def)
qed

lemma remove_sat:
  assumes "ok s" and "\<And>s'. ok s' \<Longrightarrow> look s' = (look s)(i := None) \<Longrightarrow> Q (Inr ()) s'"
    and "\<And>e s'. ok s' \<Longrightarrow> look s' = look s \<Longrightarrow> Q (Inl e) s'"
  shows "run_sat (op_remove ops i) s Q"
proof -
  obtain x s' where m: "op_remove ops i s = (x, s')" by fastforce
  then show ?thesis using remove_law [OF assms(1) m] assms(2,3) by (cases x) (auto simp: run_sat_def)
qed

lemma create_sat:
  assumes "ok s" and "\<And>s'. ok s' \<Longrightarrow> look s' = (look s)(pr_id r \<mapsto> r) \<Longrightarrow> Q (Inr (pr_id r)) s'"
    and "\<And>e s'. ok s' \<Longrightarrow> look s' = look s \<Longrightarrow> Q (Inl e) s'"
  shows "run_sat (op_create ops r) s Q"
proof -
  obtain x s' where m: "op_create ops r s = (x, s')" by fastforce
  then show ?thesis using create_law [OF assms(1) m] assms(2,3) by (cases x) (auto simp: run_sat_def)
qed

lemma find_sat:
  assumes "ok s"
    and "\<And>s'. ok s' \<Longrightarrow> look s' = look s \<Longrightarrow> \<forall>i r. look s i = Some r \<longrightarrow> \<not> p r \<Longrightarrow> Q (Inr None) s'"
    and "\<And>i r s'. ok s' \<Longrightarrow> look s' = look s \<Longrightarrow> look s i = Some r \<Longrightarrow> p r \<Longrightarrow> Q (Inr (Some (i, r))) s'"
    and "\<And>e s'. ok s' \<Longrightarrow> look s' = look s \<Longrightarrow> Q (Inl e) s'"
  shows "run_sat (op_find_if ops p) s Q"
proof -
  obtain x s' where m: "op_find_if ops p s = (x, s')" by fastforce
  then show ?thesis using find_law [OF assms(1) m] assms(2-4)
    by (cases x) (auto simp: run_sat_def split: option.splits)
qed

end

text \<open>The in-memory operations as rewrite rules.\<close>

lemma mem_run:
  "op_load (mem_ops iter) i s = (Ok (mem_look s i), s)"
  "op_save (mem_ops iter) i r s = (Ok (), mem_insert i r s)"
  "op_create (mem_ops iter) r s = (Ok (pr_id r), mem_insert (pr_id r) r (s\<lparr>last_created := Some (pr_id r)\<rparr>))"
  "op_find_if (mem_ops iter) p s = (Ok (List.find (\<lambda>(_, r). p r) (iter (inner s))), s)"
  by (simp_all add: mem_ops_def mem_load_def mem_look_def mem_save_def mem_create_def mem_find_if_def
      Let_def)

lemma mem_run_complete:
  "\<exists>s'. op_complete (mem_ops iter) i out s = (Ok (), s') \<and> mem_look s' = complete_at i out (mem_look s)"
  by (auto simp: mem_ops_def mem_complete_def complete_at_def mem_complete_look mem_look_def
      split: option.splits)

lemma mem_run_remove:
  "\<exists>s'. op_remove (mem_ops iter) i s = (Ok (), s') \<and> mem_look s' = (mem_look s)(i := None)"
  by (auto simp: mem_ops_def mem_remove_def mem_look_def map_of_filter_neq)

text \<open>A record that is the only match is the one found, in every iteration order.\<close>

lemma mem_find_unique:
  assumes "enumerates iter" "mem_ok s" "mem_look s i = Some r" "p r"
    and "\<And>j q. mem_look s j = Some q \<Longrightarrow> p q \<Longrightarrow> j = i"
  shows "op_find_if (mem_ops iter) p s = (Ok (Some (i, r)), s)"
proof -
  have "List.find (\<lambda>(_, r). p r) (iter (inner s)) = Some (i, r)"
  proof (cases "List.find (\<lambda>(_, r). p r) (iter (inner s))")
    case None
    then show ?thesis using mem_find_spec [OF assms(1,2), of p] assms(3,4) by simp
  next
    case (Some x)
    obtain j q where x: "x = (j, q)" by (cases x)
    then have "mem_look s j = Some q" "p q"
      using mem_find_spec [OF assms(1,2), of p] Some by simp_all
    with assms(3,5) have "j = i" "q = r" by auto
    with Some x show ?thesis by simp
  qed
  then show ?thesis by (simp add: mem_run)
qed

lemma mem_find_none:
  assumes "enumerates iter" "mem_ok s" "\<And>j q. mem_look s j = Some q \<Longrightarrow> \<not> p q"
  shows "op_find_if (mem_ops iter) p s = (Ok None, s)"
proof -
  have "List.find (\<lambda>(_, r). p r) (iter (inner s)) = None"
  proof (cases "List.find (\<lambda>(_, r). p r) (iter (inner s))")
    case (Some x)
    obtain j q where x: "x = (j, q)" by (cases x)
    then have "mem_look s j = Some q" "p q"
      using mem_find_spec [OF assms(1,2), of p] Some by simp_all
    with assms(3) show ?thesis by blast
  qed
  then show ?thesis by (simp add: mem_run)
qed

end
