(* ===== verification/Metadata.thy ===== *)
theory Metadata
  imports Verify Pending_Store
begin

text \<open>
  The well-known documents (\<^verbatim>\<open>aauth/src/protocol/metadata.rs\<close>) with their derived JSON, and
  the fetcher that caches them and limits its requests (\<^verbatim>\<open>aauth-reqwest/src/metadata.rs\<close>).
  Instants are milliseconds; an \<open>Option\<close> that is \<open>None\<close> is not written.
\<close>

section \<open>Documents\<close>

record person_server_metadata =
  psm_issuer :: "string option"
  psm_token_endpoint :: string
  psm_jwks_uri :: "string option"
  psm_name :: "string option"
  psm_description :: "string option"
  psm_logo_uri :: "string option"
  psm_logo_dark_uri :: "string option"
  psm_documentation_uri :: "string option"
  psm_tos_uri :: "string option"
  psm_policy_uri :: "string option"
  psm_mission_endpoint :: "string option"
  psm_permission_endpoint :: "string option"
  psm_audit_endpoint :: "string option"
  psm_interaction_endpoint :: "string option"
  psm_mission_control_endpoint :: "string option"
  psm_revocation_endpoint :: "string option"
  psm_scopes_supported :: "string list option"
  psm_claims_supported :: "string list option"

definition person_metadata_default :: person_server_metadata where
  "person_metadata_default =
     \<lparr>psm_issuer = None, psm_token_endpoint = [], psm_jwks_uri = None, psm_name = None,
       psm_description = None, psm_logo_uri = None, psm_logo_dark_uri = None, psm_documentation_uri = None,
       psm_tos_uri = None, psm_policy_uri = None, psm_mission_endpoint = None, psm_permission_endpoint =
       None, psm_audit_endpoint = None, psm_interaction_endpoint = None, psm_mission_control_endpoint =
       None, psm_revocation_endpoint = None, psm_scopes_supported = None, psm_claims_supported =
       None\<rparr>"

definition en_person_metadata :: "person_server_metadata \<Rightarrow> json" where
  "en_person_metadata m =
     JObj (en_opt ''issuer'' JStr (psm_issuer m)
       @ [(''token_endpoint'', JStr (psm_token_endpoint m))]
       @ en_opt ''jwks_uri'' JStr (psm_jwks_uri m)
       @ en_opt ''name'' JStr (psm_name m)
       @ en_opt ''description'' JStr (psm_description m)
       @ en_opt ''logo_uri'' JStr (psm_logo_uri m)
       @ en_opt ''logo_dark_uri'' JStr (psm_logo_dark_uri m)
       @ en_opt ''documentation_uri'' JStr (psm_documentation_uri m)
       @ en_opt ''tos_uri'' JStr (psm_tos_uri m)
       @ en_opt ''policy_uri'' JStr (psm_policy_uri m)
       @ en_opt ''mission_endpoint'' JStr (psm_mission_endpoint m)
       @ en_opt ''permission_endpoint'' JStr (psm_permission_endpoint m)
       @ en_opt ''audit_endpoint'' JStr (psm_audit_endpoint m)
       @ en_opt ''interaction_endpoint'' JStr (psm_interaction_endpoint m)
       @ en_opt ''mission_control_endpoint'' JStr (psm_mission_control_endpoint m)
       @ en_opt ''revocation_endpoint'' JStr (psm_revocation_endpoint m)
       @ en_opt ''scopes_supported'' (\<lambda>xs. JArr (map JStr xs)) (psm_scopes_supported m)
       @ en_opt ''claims_supported'' (\<lambda>xs. JArr (map JStr xs)) (psm_claims_supported m))"

definition psm_names :: "string list" where
  "psm_names =
     [''issuer'', ''token_endpoint'', ''jwks_uri'', ''name'', ''description'', ''logo_uri'',
       ''logo_dark_uri'', ''documentation_uri'', ''tos_uri'', ''policy_uri'', ''mission_endpoint'',
       ''permission_endpoint'', ''audit_endpoint'', ''interaction_endpoint'', ''mission_control_endpoint'',
       ''revocation_endpoint'', ''scopes_supported'', ''claims_supported'']"

definition de_person_metadata :: "json \<Rightarrow> person_server_metadata option" where
  "de_person_metadata j =
     Option.bind (de_struct psm_names j) (\<lambda>v.
     Option.bind (opt de_str (v ! 0)) (\<lambda>issuer.
     Option.bind (req de_str (v ! 1)) (\<lambda>token_endpoint.
     Option.bind (opt de_str (v ! 2)) (\<lambda>jwks_uri.
     Option.bind (opt de_str (v ! 3)) (\<lambda>name.
     Option.bind (opt de_str (v ! 4)) (\<lambda>description.
     Option.bind (opt de_str (v ! 5)) (\<lambda>logo_uri.
     Option.bind (opt de_str (v ! 6)) (\<lambda>logo_dark_uri.
     Option.bind (opt de_str (v ! 7)) (\<lambda>documentation_uri.
     Option.bind (opt de_str (v ! 8)) (\<lambda>tos_uri.
     Option.bind (opt de_str (v ! 9)) (\<lambda>policy_uri.
     Option.bind (opt de_str (v ! 10)) (\<lambda>mission_endpoint.
     Option.bind (opt de_str (v ! 11)) (\<lambda>permission_endpoint.
     Option.bind (opt de_str (v ! 12)) (\<lambda>audit_endpoint.
     Option.bind (opt de_str (v ! 13)) (\<lambda>interaction_endpoint.
     Option.bind (opt de_str (v ! 14)) (\<lambda>mission_control_endpoint.
     Option.bind (opt de_str (v ! 15)) (\<lambda>revocation_endpoint.
     Option.bind (opt (de_list de_str) (v ! 16)) (\<lambda>scopes_supported.
     Option.bind (opt (de_list de_str) (v ! 17)) (\<lambda>claims_supported.
     Some \<lparr>psm_issuer = issuer, psm_token_endpoint = token_endpoint, psm_jwks_uri = jwks_uri,
       psm_name = name, psm_description = description, psm_logo_uri = logo_uri, psm_logo_dark_uri =
       logo_dark_uri, psm_documentation_uri = documentation_uri, psm_tos_uri = tos_uri, psm_policy_uri =
       policy_uri, psm_mission_endpoint = mission_endpoint, psm_permission_endpoint = permission_endpoint,
       psm_audit_endpoint = audit_endpoint, psm_interaction_endpoint = interaction_endpoint,
       psm_mission_control_endpoint = mission_control_endpoint, psm_revocation_endpoint =
       revocation_endpoint, psm_scopes_supported = scopes_supported, psm_claims_supported =
       claims_supported\<rparr>)))))))))))))))))))"

record access_server_metadata =
  asm_issuer :: "string option"
  asm_token_endpoint :: string
  asm_jwks_uri :: "string option"
  asm_name :: "string option"
  asm_description :: "string option"
  asm_logo_uri :: "string option"
  asm_logo_dark_uri :: "string option"
  asm_documentation_uri :: "string option"
  asm_tos_uri :: "string option"
  asm_policy_uri :: "string option"
  asm_revocation_endpoint :: "string option"

definition access_metadata_default :: access_server_metadata where
  "access_metadata_default =
     \<lparr>asm_issuer = None, asm_token_endpoint = [], asm_jwks_uri = None, asm_name = None,
       asm_description = None, asm_logo_uri = None, asm_logo_dark_uri = None, asm_documentation_uri = None,
       asm_tos_uri = None, asm_policy_uri = None, asm_revocation_endpoint = None\<rparr>"

definition en_access_metadata :: "access_server_metadata \<Rightarrow> json" where
  "en_access_metadata m =
     JObj (en_opt ''issuer'' JStr (asm_issuer m)
       @ [(''token_endpoint'', JStr (asm_token_endpoint m))]
       @ en_opt ''jwks_uri'' JStr (asm_jwks_uri m)
       @ en_opt ''name'' JStr (asm_name m)
       @ en_opt ''description'' JStr (asm_description m)
       @ en_opt ''logo_uri'' JStr (asm_logo_uri m)
       @ en_opt ''logo_dark_uri'' JStr (asm_logo_dark_uri m)
       @ en_opt ''documentation_uri'' JStr (asm_documentation_uri m)
       @ en_opt ''tos_uri'' JStr (asm_tos_uri m)
       @ en_opt ''policy_uri'' JStr (asm_policy_uri m)
       @ en_opt ''revocation_endpoint'' JStr (asm_revocation_endpoint m))"

definition asm_names :: "string list" where
  "asm_names =
     [''issuer'', ''token_endpoint'', ''jwks_uri'', ''name'', ''description'', ''logo_uri'',
       ''logo_dark_uri'', ''documentation_uri'', ''tos_uri'', ''policy_uri'', ''revocation_endpoint'']"

definition de_access_metadata :: "json \<Rightarrow> access_server_metadata option" where
  "de_access_metadata j =
     Option.bind (de_struct asm_names j) (\<lambda>v.
     Option.bind (opt de_str (v ! 0)) (\<lambda>issuer.
     Option.bind (req de_str (v ! 1)) (\<lambda>token_endpoint.
     Option.bind (opt de_str (v ! 2)) (\<lambda>jwks_uri.
     Option.bind (opt de_str (v ! 3)) (\<lambda>name.
     Option.bind (opt de_str (v ! 4)) (\<lambda>description.
     Option.bind (opt de_str (v ! 5)) (\<lambda>logo_uri.
     Option.bind (opt de_str (v ! 6)) (\<lambda>logo_dark_uri.
     Option.bind (opt de_str (v ! 7)) (\<lambda>documentation_uri.
     Option.bind (opt de_str (v ! 8)) (\<lambda>tos_uri.
     Option.bind (opt de_str (v ! 9)) (\<lambda>policy_uri.
     Option.bind (opt de_str (v ! 10)) (\<lambda>revocation_endpoint.
     Some \<lparr>asm_issuer = issuer, asm_token_endpoint = token_endpoint, asm_jwks_uri = jwks_uri,
       asm_name = name, asm_description = description, asm_logo_uri = logo_uri, asm_logo_dark_uri =
       logo_dark_uri, asm_documentation_uri = documentation_uri, asm_tos_uri = tos_uri, asm_policy_uri =
       policy_uri, asm_revocation_endpoint = revocation_endpoint\<rparr>))))))))))))"

datatype resource_access_mode_wire = RW_AgentToken | RW_AauthAccessToken | RW_AuthToken

definition de_access_mode :: "json \<Rightarrow> resource_access_mode_wire option" where
  "de_access_mode j =
     Option.bind (de_variant j) (\<lambda>s.
       if s = ''agent-token'' then Some RW_AgentToken
       else if s = ''aauth-access-token'' then Some RW_AauthAccessToken
       else if s = ''auth-token'' then Some RW_AuthToken else None)"

text \<open>A string map keeps the last of repeated keys.\<close>

fun de_string_map :: "json \<Rightarrow> (string \<rightharpoonup> string) option" where
  "de_string_map (JObj kvs) =
     map_option (map_of \<circ> rev) (those (map (\<lambda>(k, v). map_option (Pair k) (de_str v)) kvs))"
| "de_string_map _ = None"

fun de_bool :: "json \<Rightarrow> bool option" where
  "de_bool (JBool b) = Some b"
| "de_bool _ = None"

record resource_server_metadata =
  rsm_issuer :: "string option"
  rsm_jwks_uri :: "string option"
  rsm_access_mode :: "resource_access_mode_wire option"
  rsm_name :: "string option"
  rsm_description :: "string option"
  rsm_logo_uri :: "string option"
  rsm_logo_dark_uri :: "string option"
  rsm_documentation_uri :: "string option"
  rsm_tos_uri :: "string option"
  rsm_policy_uri :: "string option"
  rsm_authorization_endpoint :: "string option"
  rsm_login_endpoint :: "string option"
  rsm_scope_descriptions :: "(string \<rightharpoonup> string) option"
  rsm_signature_window :: "u64 option"
  rsm_additional_signature_components :: "string list option"
  rsm_revocation_endpoint :: "string option"
  rsm_r3_vocabularies :: "string list option"

definition rsm_names :: "string list" where
  "rsm_names =
     [''issuer'', ''jwks_uri'', ''access_mode'', ''name'', ''description'', ''logo_uri'', ''logo_dark_uri'',
       ''documentation_uri'', ''tos_uri'', ''policy_uri'', ''authorization_endpoint'', ''login_endpoint'',
       ''scope_descriptions'', ''signature_window'', ''additional_signature_components'',
       ''revocation_endpoint'', ''r3_vocabularies'']"

definition de_resource_metadata :: "json \<Rightarrow> resource_server_metadata option" where
  "de_resource_metadata j =
     Option.bind (de_struct rsm_names j) (\<lambda>v.
     Option.bind (opt de_str (v ! 0)) (\<lambda>issuer.
     Option.bind (opt de_str (v ! 1)) (\<lambda>jwks_uri.
     Option.bind (opt de_access_mode (v ! 2)) (\<lambda>access_mode.
     Option.bind (opt de_str (v ! 3)) (\<lambda>name.
     Option.bind (opt de_str (v ! 4)) (\<lambda>description.
     Option.bind (opt de_str (v ! 5)) (\<lambda>logo_uri.
     Option.bind (opt de_str (v ! 6)) (\<lambda>logo_dark_uri.
     Option.bind (opt de_str (v ! 7)) (\<lambda>documentation_uri.
     Option.bind (opt de_str (v ! 8)) (\<lambda>tos_uri.
     Option.bind (opt de_str (v ! 9)) (\<lambda>policy_uri.
     Option.bind (opt de_str (v ! 10)) (\<lambda>authorization_endpoint.
     Option.bind (opt de_str (v ! 11)) (\<lambda>login_endpoint.
     Option.bind (opt de_string_map (v ! 12)) (\<lambda>scope_descriptions.
     Option.bind (opt de_u64 (v ! 13)) (\<lambda>signature_window.
     Option.bind (opt (de_list de_str) (v ! 14)) (\<lambda>additional_signature_components.
     Option.bind (opt de_str (v ! 15)) (\<lambda>revocation_endpoint.
     Option.bind (opt (de_list de_str) (v ! 16)) (\<lambda>r3_vocabularies.
     Some \<lparr>rsm_issuer = issuer, rsm_jwks_uri = jwks_uri, rsm_access_mode = access_mode, rsm_name =
       name, rsm_description = description, rsm_logo_uri = logo_uri, rsm_logo_dark_uri = logo_dark_uri,
       rsm_documentation_uri = documentation_uri, rsm_tos_uri = tos_uri, rsm_policy_uri = policy_uri,
       rsm_authorization_endpoint = authorization_endpoint, rsm_login_endpoint = login_endpoint,
       rsm_scope_descriptions = scope_descriptions, rsm_signature_window = signature_window,
       rsm_additional_signature_components = additional_signature_components, rsm_revocation_endpoint =
       revocation_endpoint, rsm_r3_vocabularies = r3_vocabularies\<rparr>))))))))))))))))))"

record agent_provider_metadata =
  apm_issuer :: "string option"
  apm_jwks_uri :: string
  apm_name :: "string option"
  apm_description :: "string option"
  apm_logo_uri :: "string option"
  apm_logo_dark_uri :: "string option"
  apm_documentation_uri :: "string option"
  apm_callback_endpoint :: "string option"
  apm_event_endpoint :: "string option"
  apm_login_endpoint :: "string option"
  apm_localhost_callback_allowed :: "bool option"
  apm_tos_uri :: "string option"
  apm_policy_uri :: "string option"

definition apm_names :: "string list" where
  "apm_names =
     [''issuer'', ''jwks_uri'', ''name'', ''description'', ''logo_uri'', ''logo_dark_uri'',
       ''documentation_uri'', ''callback_endpoint'', ''event_endpoint'', ''login_endpoint'',
       ''localhost_callback_allowed'', ''tos_uri'', ''policy_uri'']"

definition de_agent_metadata :: "json \<Rightarrow> agent_provider_metadata option" where
  "de_agent_metadata j =
     Option.bind (de_struct apm_names j) (\<lambda>v.
     Option.bind (opt de_str (v ! 0)) (\<lambda>issuer.
     Option.bind (req de_str (v ! 1)) (\<lambda>jwks_uri.
     Option.bind (opt de_str (v ! 2)) (\<lambda>name.
     Option.bind (opt de_str (v ! 3)) (\<lambda>description.
     Option.bind (opt de_str (v ! 4)) (\<lambda>logo_uri.
     Option.bind (opt de_str (v ! 5)) (\<lambda>logo_dark_uri.
     Option.bind (opt de_str (v ! 6)) (\<lambda>documentation_uri.
     Option.bind (opt de_str (v ! 7)) (\<lambda>callback_endpoint.
     Option.bind (opt de_str (v ! 8)) (\<lambda>event_endpoint.
     Option.bind (opt de_str (v ! 9)) (\<lambda>login_endpoint.
     Option.bind (opt de_bool (v ! 10)) (\<lambda>localhost_callback_allowed.
     Option.bind (opt de_str (v ! 11)) (\<lambda>tos_uri.
     Option.bind (opt de_str (v ! 12)) (\<lambda>policy_uri.
     Some \<lparr>apm_issuer = issuer, apm_jwks_uri = jwks_uri, apm_name = name, apm_description =
       description, apm_logo_uri = logo_uri, apm_logo_dark_uri = logo_dark_uri, apm_documentation_uri =
       documentation_uri, apm_callback_endpoint = callback_endpoint, apm_event_endpoint = event_endpoint,
       apm_login_endpoint = login_endpoint, apm_localhost_callback_allowed = localhost_callback_allowed,
       apm_tos_uri = tos_uri, apm_policy_uri = policy_uri\<rparr>))))))))))))))"

definition agent_metadata_default :: agent_provider_metadata where
  "agent_metadata_default =
     \<lparr>apm_issuer = None, apm_jwks_uri = [], apm_name = None, apm_description = None, apm_logo_uri =
       None, apm_logo_dark_uri = None, apm_documentation_uri = None, apm_callback_endpoint = None,
       apm_event_endpoint = None, apm_login_endpoint = None, apm_localhost_callback_allowed = None,
       apm_tos_uri = None, apm_policy_uri = None\<rparr>"

definition person_metadata_validate :: "person_server_metadata \<Rightarrow> metadata_error + unit" where
  "person_metadata_validate m = (if psm_token_endpoint m = [] then Err ME_MissingTokenEndpoint else Ok ())"

definition access_metadata_validate :: "access_server_metadata \<Rightarrow> metadata_error + unit" where
  "access_metadata_validate m = (if asm_token_endpoint m = [] then Err ME_MissingTokenEndpoint else Ok ())"

definition agent_metadata_from_jwks_uri :: "string \<Rightarrow> agent_provider_metadata" where
  "agent_metadata_from_jwks_uri jwks_uri = agent_metadata_default\<lparr>apm_jwks_uri := jwks_uri\<rparr>"

section \<open>The cache\<close>

definition METADATA_CACHE_TTL :: nat where "METADATA_CACHE_TTL = 600 * 1000"
definition MIN_FETCH_INTERVAL :: nat where "MIN_FETCH_INTERVAL = 60 * 1000"

record cache_entry =
  ce_jwks_uri :: string
  ce_fetched_at :: nat

record metadata_cache =
  mc_metadata :: "string \<rightharpoonup> cache_entry"
  mc_jwks :: "string \<rightharpoonup> jwk_set"
  mc_last_fetch :: "string \<rightharpoonup> nat"



text \<open>\<^verbatim>\<open>Instant::elapsed\<close> saturates at zero, as subtraction on \<open>nat\<close> does.\<close>

definition can_fetch :: "nat \<Rightarrow> string \<Rightarrow> metadata_cache \<Rightarrow> bool" where
  "can_fetch now key c =
     (case mc_last_fetch c key of Some prev \<Rightarrow> now - prev \<ge> MIN_FETCH_INTERVAL | None \<Rightarrow> True)"

definition record_fetch :: "nat \<Rightarrow> string \<Rightarrow> metadata_cache \<Rightarrow> metadata_cache" where
  "record_fetch now key c = c\<lparr>mc_last_fetch := (mc_last_fetch c)(key \<mapsto> now)\<rparr>"

text \<open>
  The web: \<open>wb_get\<close> is an unsigned GET, its \<open>Inl\<close> a transport error; \<open>wb_body\<close> reads a body;
  \<open>wb_jwks\<close> is the crate's \<^verbatim>\<open>JwkSet\<close> decoding, \<open>wb_now\<close> the monotonic clock.
\<close>

record 'w web =
  wb_get :: "string \<Rightarrow> 'w \<Rightarrow> (string + response) \<times> 'w"
  wb_body :: "response \<Rightarrow> string + string"
  wb_json :: serde_json
  wb_jwks :: "string \<Rightarrow> string + jwk_set"
  wb_now :: "'w \<Rightarrow> nat"

text \<open>\<open>get_bytes\<close>: the request, status check and body that both fetches make.\<close>

definition get_bytes :: "'w web \<Rightarrow> string \<Rightarrow> ('w, aauth_error, string) action" where
  "get_bytes W url w =
     (case wb_get W url w of
        (Inl m, w') \<Rightarrow> (Err (Metadata (ME_Request url m)), w')
      | (Inr resp, w') \<Rightarrow>
          (if \<not> (200 \<le> rs_status resp \<and> rs_status resp < 300)
           then Err (Metadata (ME_HttpStatus url (rs_status resp)))
           else map_err (\<lambda>m. Metadata (ME_Request url m)) (wb_body W resp), w'))"

definition request_metadata ::
    "'w web \<Rightarrow> string \<Rightarrow> ('w \<times> metadata_cache, aauth_error, agent_provider_metadata) action" where
  "request_metadata W url = (\<lambda>(w, c).
     let c = record_fetch (wb_now W w) url c in
     case get_bytes W url w of
       (Inl e, w') \<Rightarrow> (Err e, (w', c))
     | (Inr bytes, w') \<Rightarrow>
         (case from_slice (wb_json W) de_agent_metadata bytes of
            Inl m \<Rightarrow> (Err (Metadata (ME_Decode url m)), (w', c))
          | Inr metadata \<Rightarrow>
              if apm_jwks_uri metadata = [] then (Err (Metadata (ME_MissingJwksUri url)), (w', c))
              else (Ok metadata, (w', c\<lparr>mc_metadata := (mc_metadata c)(url \<mapsto>
                \<lparr>ce_jwks_uri = apm_jwks_uri metadata, ce_fetched_at = wb_now W w'\<rparr>)\<rparr>))))"

definition fetch_metadata ::
    "'w web \<Rightarrow> string \<Rightarrow> ('w \<times> metadata_cache, aauth_error, agent_provider_metadata) action" where
  "fetch_metadata W url = (\<lambda>(w, c).
     case mc_metadata c url of
       Some entry \<Rightarrow>
         (if wb_now W w - ce_fetched_at entry < METADATA_CACHE_TTL \<or> \<not> can_fetch (wb_now W w) url c
          then (Ok (agent_metadata_from_jwks_uri (ce_jwks_uri entry)), (w, c))
          else request_metadata W url (w, c))
     | None \<Rightarrow> request_metadata W url (w, c))"

definition cached_resolve_jwks_uri ::
    "'w web \<Rightarrow> string \<Rightarrow> string \<Rightarrow> ('w \<times> metadata_cache, aauth_error, string) action" where
  "cached_resolve_jwks_uri W iss dwk =
     seq (fetch_metadata W (trim_end_matches (CHR ''/'') iss @ ''/.well-known/'' @ dwk)) (\<lambda>metadata.
     ret (apm_jwks_uri metadata))"


section \<open>Requests for key sets are limited\<close>


datatype cache_event = Requested nat string | Cleared


text \<open>The events since the cache was last cleared.\<close>

definition since_clear :: "cache_event list \<Rightarrow> cache_event list" where
  "since_clear tr = takeWhile (\<lambda>e. e \<noteq> Cleared) tr"

lemma since_clear_simps [simp]:
  "since_clear [] = []" "since_clear (Cleared # tr) = []"
  "since_clear (Requested t uri # tr) = Requested t uri # since_clear tr"
  by (simp_all add: since_clear_def)


















end
