(* ===== verification/Interaction_Code.thy ===== *)
theory Interaction_Code
  imports Prelude
begin

text \<open>
  Interaction codes (\<^verbatim>\<open>aauth/src/interaction_code.rs\<close>): the generator on its five random
  bytes, with its 128-bit shifts, and the canonicalisation of a code a person types, whose
  byte slices panic (\<open>None\<close>) off a character boundary.
\<close>

unbundle bit_operations_syntax

definition CROCKFORD32 :: string where
  "CROCKFORD32 = ''0123456789ABCDEFGHJKMNPQRSTVWXYZ''"

definition code_number :: "u8 list \<Rightarrow> 128 word" where
  "code_number buf = fold (\<lambda>b n. push_bit 8 n OR ucast b) buf 0"

definition code_raw :: "128 word \<Rightarrow> string" where
  "code_raw n = map (\<lambda>i. CROCKFORD32 ! unat (drop_bit ((7 - i) * 5) n AND 31)) [0..<8]"

definition generate_code :: "u8 list \<Rightarrow> string" where
  "generate_code buf = (let raw = code_raw (code_number buf) in take 4 raw @ ''-'' @ drop 4 raw)"

text \<open>\<open>up\<close> is the Unicode table of \<^verbatim>\<open>str::to_uppercase\<close> outside ASCII.\<close>

definition fold_alias :: "char \<Rightarrow> char" where
  "fold_alias c = (if c = CHR ''I'' \<or> c = CHR ''L'' then CHR ''1''
                   else if c = CHR ''O'' then CHR ''0'' else c)"

definition bare_code :: "(string \<Rightarrow> string) \<Rightarrow> string \<Rightarrow> string" where
  "bare_code up code = map fold_alias (to_uppercase up (filter (\<lambda>c. c \<noteq> CHR ''-'') code))"

definition canonicalize_code :: "(string \<Rightarrow> string) \<Rightarrow> string \<Rightarrow> string option" where
  "canonicalize_code up code =
     (let bare = bare_code up code in
      case str_slice bare 0 (min 4 (length bare)) of
        None \<Rightarrow> None
      | Some a \<Rightarrow>
          (case str_slice bare (min 4 (length bare)) (min 8 (length bare)) of
             None \<Rightarrow> None
           | Some b \<Rightarrow> Some (a @ ''-'' @ b)))"

section \<open>Generated codes\<close>

lemma crockford_facts:
  "length CROCKFORD32 = 32" "distinct CROCKFORD32"
  "list_all (\<lambda>c. is_ascii c \<and> to_ascii_upper c = c \<and> fold_alias c = c \<and> c \<noteq> CHR ''-'') CROCKFORD32"
  "list_all (\<lambda>c. is_ascii (to_ascii_lower c) \<and> fold_alias (to_ascii_upper (to_ascii_lower c)) = c) CROCKFORD32"
  "list_all (\<lambda>t. is_ascii t \<and> fold_alias (to_ascii_upper t) = CHR ''1'') ''IiLl''"
  "list_all (\<lambda>t. is_ascii t \<and> fold_alias (to_ascii_upper t) = CHR ''0'') ''Oo''"
  by (simp_all add: CROCKFORD32_def is_ascii_def to_ascii_upper_def to_ascii_lower_def fold_alias_def
      is_ascii_lowercase_def is_ascii_uppercase_def byte_def char_of_def bit_Suc_0_iff)

lemma and_31: "unat (x AND 31 :: 128 word) = unat x mod 32"
proof -
  have "(31 :: 128 word) = mask 5" by (simp add: mask_eq_exp_minus_1)
  then have "x AND 31 = take_bit 5 x" by (simp add: take_bit_eq_mask)
  then have "unat (x AND 31) = take_bit 5 (unat x)" by (simp only: unsigned_take_bit_eq)
  then show ?thesis by (simp add: take_bit_eq_mod)
qed

lemma push_or: "push_bit 8 n OR (ucast (b :: u8) :: 128 word) = push_bit 8 n + ucast b"
proof -
  have "push_bit 8 n AND (ucast b :: 128 word) = 0"
    by (rule bit_eqI) (auto simp: bit_simps dest: bit_imp_le_length)
  then show ?thesis by (simp add: disjunctive_add_eq_or)
qed

lemma unat_u8: "unat (b :: u8) < 256"
  using unsigned_less [of b] by simp

definition code_value :: "u8 list \<Rightarrow> nat" where
  "code_value buf = fold (\<lambda>b n. n * 256 + unat b) buf 0"

lemma code_value_snoc: "code_value (buf @ [b]) = code_value buf * 256 + unat b"
  by (simp add: code_value_def)

lemma code_value_bound: "code_value buf < 256 ^ length buf"
proof (induction buf rule: rev_induct)
  case (snoc b buf)
  have "unat b < 256" by (rule unat_u8)
  with snoc show ?case by (simp add: code_value_snoc)
qed (simp add: code_value_def)

lemma code_value_inj: "length a = length b \<Longrightarrow> code_value a = code_value b \<Longrightarrow> a = b"
proof (induction a arbitrary: b rule: rev_induct)
  case (snoc x xs)
  then obtain y ys where b: "b = ys @ [y]" by (cases b rule: rev_cases) auto
  have u: "unat x < 256" "unat y < 256" by (rule unat_u8)+
  have e: "code_value xs * 256 + unat x = code_value ys * 256 + unat y"
    using snoc.prems(2) by (simp add: b code_value_snoc)
  have "code_value xs = code_value ys" using e u by linarith
  with e have "unat x = unat y" by simp
  then show ?case
    using snoc.IH [of ys] snoc.prems(1) \<open>code_value xs = code_value ys\<close>
    by (simp add: b word_unat_eq_iff)
qed simp

lemma code_number_snoc: "code_number (buf @ [b]) = push_bit 8 (code_number buf) + ucast b"
  by (simp add: code_number_def push_or)

lemma unat_code_number: "length buf \<le> 15 \<Longrightarrow> unat (code_number buf) = code_value buf"
proof (induction buf rule: rev_induct)
  case Nil
  then show ?case by (simp add: code_number_def code_value_def)
next
  case (snoc b buf)
  have "(256::nat) ^ length (buf @ [b]) \<le> 256 ^ 15" using snoc.prems by (intro power_increasing) auto
  then have small: "code_value buf * 256 + unat b < 2 ^ 128"
    using code_value_bound [of "buf @ [b]"] by (simp add: code_value_snoc)
  have "unat (code_number buf) = code_value buf" using snoc by simp
  then have v: "code_number buf = of_nat (code_value buf)" by (metis of_nat_unat ucast_id)
  have "(ucast b :: 128 word) = of_nat (unat b)" by simp
  then have "code_number (buf @ [b]) = of_nat (code_value buf * 256 + unat b)"
    by (simp add: code_number_snoc push_bit_eq_mult v)
  moreover have "unat (of_nat (code_value buf * 256 + unat b) :: 128 word) = code_value buf * 256 + unat b"
    using small by (simp only: unat_of_nat) simp
  ultimately show ?case by (simp only: code_value_snoc)
qed

lemma code_raw_digits:
  "code_raw n = map (\<lambda>k. CROCKFORD32 ! (unat n div 32 ^ k mod 32)) [7, 6, 5, 4, 3, 2, 1, 0]"
proof -
  have "unat (drop_bit (k * 5) n AND 31) = unat n div 32 ^ k mod 32" for k
  proof -
    have "unat (drop_bit (k * 5) n) = unat n div 2 ^ (k * 5)"
      by (subst unat_drop_bit_eq) (simp only: drop_bit_eq_div)
    moreover have "(2::nat) ^ (k * 5) = 32 ^ k" by (simp add: mult.commute [of k] power_mult)
    ultimately show ?thesis by (simp only: and_31)
  qed
  then show ?thesis by (simp add: code_raw_def upt_rec)
qed

lemma length_code_raw [simp]: "length (code_raw n) = 8"
  by (simp add: code_raw_def)

lemma generate_code_raw:
  "code_raw (code_number buf) = take 4 (generate_code buf) @ drop 5 (generate_code buf)"
  by (simp add: generate_code_def Let_def)

lemma generate_code_form:
  "generate_code buf =
     (let d = \<lambda>k. CROCKFORD32 ! (unat (code_number buf) div 32 ^ k mod 32)
      in [d 7, d 6, d 5, d 4, CHR ''-'', d 3, d 2, d 1, d 0])"
  by (simp add: generate_code_def code_raw_digits Let_def)

definition crockford_char :: "char \<Rightarrow> bool" where
  "crockford_char c \<longleftrightarrow> c \<in> set CROCKFORD32"

lemma crockford_nth: "k < 32 \<Longrightarrow> CROCKFORD32 ! k \<in> set CROCKFORD32"
  using crockford_facts(1) by auto

lemma base32_digits:
  assumes "x < 32 ^ m" "y < 32 ^ m" "\<And>k. k < m \<Longrightarrow> x div 32 ^ k mod 32 = y div 32 ^ k mod (32::nat)"
  shows "x = y"
  using assms
proof (induction m arbitrary: x y)
  case (Suc m)
  have "x div 32 = y div 32"
  proof (rule Suc.IH)
    fix k assume "k < m"
    then show "x div 32 div 32 ^ k mod 32 = y div 32 div 32 ^ k mod 32"
      using Suc.prems(3) [of "Suc k"] by (simp add: div_mult2_eq)
  qed (use Suc.prems(1,2) in auto)
  moreover have "x mod 32 = y mod 32" using Suc.prems(3) [of 0] by simp
  ultimately show ?case by (metis mod_div_decomp)
qed simp

lemma generate_code_inj:
  assumes "length a = 5" "length b = 5" "generate_code a = generate_code b"
  shows "a = b"
proof -
  let ?x = "unat (code_number a)" and ?y = "unat (code_number b)"
  have v: "?x = code_value a" "?y = code_value b" using assms by (simp_all add: unat_code_number)
  have dig: "?x div 32 ^ k mod 32 = ?y div 32 ^ k mod 32" if "k < 8" for k
  proof -
    have "code_raw (code_number a) = code_raw (code_number b)" using assms(3) by (metis generate_code_raw)
    moreover have "k \<in> set [7, 6, 5, 4, 3, 2, 1, 0]" using that by auto
    ultimately have "CROCKFORD32 ! (?x div 32 ^ k mod 32) = CROCKFORD32 ! (?y div 32 ^ k mod 32)"
      unfolding code_raw_digits map_eq_conv by blast
    then show ?thesis using crockford_facts(1,2) by (simp add: nth_eq_iff_index_eq)
  qed
  have "code_value a < 32 ^ 8" "code_value b < 32 ^ 8"
    using code_value_bound [of a] code_value_bound [of b] assms(1,2) by simp_all
  then have "?x = ?y" using base32_digits [of ?x 8 ?y] dig v by simp
  then show ?thesis using assms(1,2) v code_value_inj by simp
qed

section \<open>Canonical codes\<close>

lemma bare_ascii:
  "list_all is_ascii code \<Longrightarrow>
     bare_code up code = map fold_alias (map to_ascii_upper (filter (\<lambda>c. c \<noteq> CHR ''-'') code))"
  by (simp add: bare_code_def list_all_iff to_uppercase_ascii)

lemma fold_alias_ascii: "is_ascii c \<Longrightarrow> is_ascii (fold_alias c)"
  by (simp add: fold_alias_def is_ascii_def byte_def)

lemma canonicalize_ascii:
  assumes "list_all is_ascii code"
  shows "canonicalize_code up code =
    (let bare = map (fold_alias \<circ> to_ascii_upper) (filter (\<lambda>c. c \<noteq> CHR ''-'') code)
     in Some (take 4 bare @ ''-'' @ take 4 (drop 4 bare)))"
proof -
  let ?b = "map (fold_alias \<circ> to_ascii_upper) (filter (\<lambda>c. c \<noteq> CHR ''-'') code)"
  have b: "bare_code up code = ?b" using assms by (simp add: bare_ascii)
  have a: "list_all is_ascii ?b" using assms by (auto simp: list_all_iff fold_alias_ascii)
  have "str_slice ?b 0 (min 4 (length ?b)) = Some (take 4 ?b)"
    using a by (simp only: str_slice_def char_boundary_ascii) (simp add: min_def)
  moreover have "str_slice ?b (min 4 (length ?b)) (min 8 (length ?b)) = Some (take 4 (drop 4 ?b))"
    using a by (simp only: str_slice_def char_boundary_ascii) (simp add: min_def)
  ultimately show ?thesis by (simp only: canonicalize_code_def b Let_def option.case)
qed

lemma generate_code_symbols:
  "filter (\<lambda>c. c \<noteq> CHR ''-'') (generate_code buf) = code_raw (code_number buf)"
  "list_all (\<lambda>c. c \<in> set CROCKFORD32) (code_raw n)"
proof -
  show sym: "list_all (\<lambda>c. c \<in> set CROCKFORD32) (code_raw n)" for n
    by (auto simp: code_raw_digits crockford_nth)
  have "c \<in> set (code_raw n) \<Longrightarrow> c \<noteq> CHR ''-''" for c n
    using sym [of n] crockford_facts(3) by (auto simp: list_all_iff)
  then have "filter (\<lambda>c. c \<noteq> CHR ''-'') (take 4 (code_raw n)) = take 4 (code_raw n)"
    "filter (\<lambda>c. c \<noteq> CHR ''-'') (drop 4 (code_raw n)) = drop 4 (code_raw n)" for n
    by (meson filter_True in_set_takeD, meson filter_True in_set_dropD)
  then show "filter (\<lambda>c. c \<noteq> CHR ''-'') (generate_code buf) = code_raw (code_number buf)"
    by (simp add: generate_code_def Let_def)
qed

text \<open>A person may type a symbol in lower case, or one of the look-alike letters.\<close>

definition typed_for :: "char \<Rightarrow> char \<Rightarrow> bool" where
  "typed_for t c \<longleftrightarrow> t = c \<or> t = to_ascii_lower c \<or>
     c = CHR ''1'' \<and> t \<in> set ''IiLl'' \<or> c = CHR ''0'' \<and> t \<in> set ''Oo''"

lemma typed_for_folds:
  assumes "typed_for t c" "c \<in> set CROCKFORD32"
  shows "is_ascii t" "fold_alias (to_ascii_upper t) = c"
proof -
  have c: "is_ascii c" "to_ascii_upper c = c" "fold_alias c = c"
    "is_ascii (to_ascii_lower c)" "fold_alias (to_ascii_upper (to_ascii_lower c)) = c"
    using assms(2) crockford_facts(3,4) by (auto simp: list_all_iff)
  from assms(1) consider "t = c" | "t = to_ascii_lower c" | "c = CHR ''1''" "t \<in> set ''IiLl''"
    | "c = CHR ''0''" "t \<in> set ''Oo''" unfolding typed_for_def by blast
  then have "is_ascii t \<and> fold_alias (to_ascii_upper t) = c"
    by cases (use c crockford_facts(5,6) in \<open>auto simp: list_all_iff\<close>)
  then show "is_ascii t" "fold_alias (to_ascii_upper t) = c" by simp_all
qed

definition typed_code :: "string \<Rightarrow> string \<Rightarrow> bool" where
  "typed_code typed code \<longleftrightarrow>
     list_all2 typed_for (filter (\<lambda>c. c \<noteq> CHR ''-'') typed) (filter (\<lambda>c. c \<noteq> CHR ''-'') code)"

lemma typed_code_folds:
  assumes "list_all2 typed_for ts cs" "list_all (\<lambda>c. c \<in> set CROCKFORD32) cs"
  shows "list_all is_ascii ts \<and> map (fold_alias \<circ> to_ascii_upper) ts = cs"
  using assms by (induction rule: list_all2_induct) (auto simp: typed_for_folds)

lemma hyphen_ascii: "list_all is_ascii (filter (\<lambda>c. c \<noteq> CHR ''-'') s) \<Longrightarrow> list_all is_ascii s"
  by (induction s) (auto simp: is_ascii_def byte_def split: if_splits)

lemma canonical_typed:
  assumes "typed_code typed (generate_code buf)"
  shows "canonicalize_code up typed = Some (generate_code buf)"
proof -
  have t: "list_all is_ascii (filter (\<lambda>c. c \<noteq> CHR ''-'') typed) \<and>
      map (fold_alias \<circ> to_ascii_upper) (filter (\<lambda>c. c \<noteq> CHR ''-'') typed) = code_raw (code_number buf)"
    using assms typed_code_folds generate_code_symbols by (simp add: typed_code_def)
  then have "list_all is_ascii typed" using hyphen_ascii by blast
  then show ?thesis using t
    by (simp add: canonicalize_ascii Let_def generate_code_def)
qed

text \<open>
  C35: however a person types a generated code (any hyphens, either case, I or L for 1, O for 0),
  canonicalisation returns the stored code without a panic, and what they typed stands for
  the code of at most one draw of the five random bytes.
\<close>
theorem typed_code_identifies:
  assumes "length buf = 5" and "typed_code typed (generate_code buf)"
  shows "canonicalize_code up typed = Some (generate_code buf) \<and>
    (\<forall>buf'. \<not> (length buf' = 5 \<and> buf' \<noteq> buf \<and> typed_code typed (generate_code buf')))"
proof (intro conjI)
  show "canonicalize_code up typed = Some (generate_code buf)"
    using assms(2) by (rule canonical_typed)
  show "\<forall>buf'. \<not> (length buf' = 5 \<and> buf' \<noteq> buf \<and> typed_code typed (generate_code buf'))"
    using assms canonical_typed [of typed _ up] generate_code_inj by (metis option.inject)
qed

lemma sample_code: "generate_code [1, 4, 21, 213, 15] = ''0421-BN8F''"
  by (simp add: generate_code_form Let_def unat_code_number code_value_def CROCKFORD32_def)

theorem typed_code_identifies_witness:
  "canonicalize_code (\<lambda>w. w) ''o4-2ibn8f'' = Some ''0421-BN8F''"
proof -
  have "typed_code ''o4-2ibn8f'' (generate_code [1, 4, 21, 213, 15])"
    by (simp add: sample_code typed_code_def typed_for_def to_ascii_lower_def
        is_ascii_uppercase_def byte_def char_of_def bit_Suc_0_iff)
  then show ?thesis
    using typed_code_identifies [of "[1, 4, 21, 213, 15]" "''o4-2ibn8f''" "\<lambda>w. w"]
    by (simp add: sample_code)
qed

text \<open>
  Canonicalisation panics exactly when, after upper-casing and removing hyphens, one of
  the two slice positions 4 and 8 falls inside a multi-byte character; in particular it never
  panics on ASCII input.
\<close>
theorem canonicalize_panics:
  "(canonicalize_code up code = None) =
     (\<exists>i \<in> {4, 8}. i < length (bare_code up code) \<and> is_cont (bare_code up code ! i)) \<and>
   \<not> (list_all is_ascii code \<and> canonicalize_code up code = None)"
proof -
  have "(canonicalize_code up code = None) =
     (\<exists>i \<in> {4, 8}. i < length (bare_code up code) \<and> is_cont (bare_code up code ! i))"
    by (auto simp: canonicalize_code_def Let_def str_slice_def is_char_boundary_def min_def)
  then show ?thesis by (auto simp: canonicalize_ascii Let_def)
qed

end
