(* ===== verification/Services.thy ===== *)
theory Services
  imports Identifiers Interaction_Code Pending_Store
begin

text \<open>
  What the role services exchange (\<^verbatim>\<open>aauth/src/{person_server,access_server,resource}/service.rs\<close>,
  \<^verbatim>\<open>aauth-policy/src/decision.rs\<close>, \<^verbatim>\<open>policies.rs\<close>): contexts, outcomes, policy
  decisions, and the policies the crate ships. A policy is the pair of its two methods; the
  bytes \<^verbatim>\<open>generate_code\<close> draws are an argument.
\<close>

section \<open>Contexts and outcomes\<close>

record person_token_context =
  pt_person_server_url :: string
  pt_resource_url :: string
  pt_agent_claims :: agent_claims
  pt_resource_claims :: resource_claims
  pt_exchange_request :: token_exchange_request

definition audience_is_person_server :: "(string \<Rightarrow> string) \<Rightarrow> person_token_context \<Rightarrow> bool" where
  "audience_is_person_server low ctx \<longleftrightarrow>
     normalize_server_url low (rc_aud (pt_resource_claims ctx)) =
     normalize_server_url low (pt_person_server_url ctx)"

datatype person_token_flow_outcome =
    PF_Granted token_response_body
  | PF_Deferred defer_created
  | PF_Denied protocol_error
  | PF_Gone
  | PF_Unauthorized
  | PF_BadGateway

fun into_auth_flow :: "person_token_flow_outcome \<Rightarrow> auth_token_flow_outcome option" where
  "into_auth_flow (PF_Granted body) = Some (FO_Granted body)"
| "into_auth_flow (PF_Deferred defer) = Some (FO_Deferred defer)"
| "into_auth_flow (PF_Denied err) = Some (FO_Denied err)"
| "into_auth_flow PF_Gone = Some FO_Gone"
| "into_auth_flow PF_Unauthorized = None"
| "into_auth_flow PF_BadGateway = None"

datatype person_interaction_outcome =
    PIO_Redirect string
  | PIO_InvalidCode
  | PIO_Expired
  | PIO_Pending pending_body

record access_token_context =
  at_access_server_url :: string
  at_resource_url :: string
  at_person_server_url :: string
  at_agent_claims :: agent_claims
  at_resource_claims :: resource_claims
  at_resource_token :: string
  at_agent_token :: string

record resource_access_context =
  ra_resource_url :: string
  ra_agent_claims :: agent_claims
  ra_scope :: "string option"

datatype resource_consent_flow_outcome =
    RCO_GrantOpaque string
  | RCO_Deferred defer_created
  | RCO_Denied protocol_error

record resource_access_config =
  rac_interaction_url :: string
  rac_pending_base_url :: string
  rac_pending_path :: string
  rac_pending_ttl_secs :: u64

section \<open>Decisions (\<^verbatim>\<open>decision.rs\<close>)\<close>

record auth_grant =
  gr_sub :: string
  gr_scope :: "string option"

datatype access_token_decision =
    AD_Grant auth_grant
  | AD_Deny protocol_error
  | AD_Defer defer_requirement

datatype person_token_decision =
    PD_Grant auth_grant
  | PD_Federate
  | PD_Deny protocol_error
  | PD_Defer defer_requirement

datatype resource_consent_decision =
    RD_GrantOpaque
  | RD_Deny protocol_error
  | RD_Defer defer_requirement

text \<open>\<^verbatim>\<open>PolicyError::Message\<close> is its string.\<close>

record ('ctx, 'dec) policy =
  pol_evaluate :: "'ctx \<Rightarrow> string + 'dec"
  pol_resume :: "'ctx \<Rightarrow> pending_input \<Rightarrow> string + 'dec"

section \<open>Shipped policies (\<^verbatim>\<open>policies.rs\<close>)\<close>

definition cancelled_error :: protocol_error where
  "cancelled_error = pe_with_description EC_AccessDenied ''Request cancelled''"

definition always_grant_person_evaluate ::
    "(string \<Rightarrow> string) \<Rightarrow> string \<Rightarrow> person_token_context \<Rightarrow> string + person_token_decision" where
  "always_grant_person_evaluate low sub ctx =
     (if audience_is_person_server low ctx
      then Ok (PD_Grant \<lparr>gr_sub = sub, gr_scope = rc_scope (pt_resource_claims ctx)\<rparr>)
      else Ok PD_Federate)"

definition always_grant_person_policy ::
    "(string \<Rightarrow> string) \<Rightarrow> string \<Rightarrow> (person_token_context, person_token_decision) policy" where
  "always_grant_person_policy low sub =
     \<lparr>pol_evaluate = always_grant_person_evaluate low sub,
      pol_resume = (\<lambda>ctx input. case input of
          PI_InteractionCompleted \<Rightarrow> always_grant_person_evaluate low sub ctx
        | PI_ClarificationResponse _ \<Rightarrow> always_grant_person_evaluate low sub ctx
        | PI_Cancelled \<Rightarrow> Ok (PD_Deny cancelled_error)
        | PI_ClaimsSubmission _ \<Rightarrow> Err ''claims submission not expected''
        | PI_UpdatedToken _ \<Rightarrow> always_grant_person_evaluate low sub ctx)\<rparr>"

definition access_grant :: "string \<Rightarrow> access_token_context \<Rightarrow> access_token_decision" where
  "access_grant sub ctx = AD_Grant \<lparr>gr_sub = sub, gr_scope = rc_scope (at_resource_claims ctx)\<rparr>"

definition always_grant_access_policy ::
    "string \<Rightarrow> (access_token_context, access_token_decision) policy" where
  "always_grant_access_policy sub =
     \<lparr>pol_evaluate = (\<lambda>ctx. Ok (access_grant sub ctx)),
      pol_resume = (\<lambda>ctx input. case input of
          PI_InteractionCompleted \<Rightarrow> Ok (access_grant sub ctx)
        | PI_ClarificationResponse _ \<Rightarrow> Ok (access_grant sub ctx)
        | PI_Cancelled \<Rightarrow> Ok (AD_Deny cancelled_error)
        | PI_ClaimsSubmission _ \<Rightarrow> Ok (access_grant sub ctx)
        | PI_UpdatedToken _ \<Rightarrow> Ok (access_grant sub ctx))\<rparr>"

definition always_grant_resource_policy ::
    "(resource_access_context, resource_consent_decision) policy" where
  "always_grant_resource_policy =
     \<lparr>pol_evaluate = (\<lambda>ctx. Ok RD_GrantOpaque),
      pol_resume = (\<lambda>ctx input. case input of
          PI_InteractionCompleted \<Rightarrow> Ok RD_GrantOpaque
        | PI_Cancelled \<Rightarrow> Ok (RD_Deny cancelled_error)
        | _ \<Rightarrow> Ok RD_GrantOpaque)\<rparr>"

definition defer_interaction_resource_policy ::
    "u8 list \<Rightarrow> string \<Rightarrow> (resource_access_context, resource_consent_decision) policy" where
  "defer_interaction_resource_policy buf interaction_url =
     \<lparr>pol_evaluate = (\<lambda>ctx. Ok (RD_Defer (DR_Interaction interaction_url (generate_code buf)))),
      pol_resume = (\<lambda>ctx input. case input of
          PI_InteractionCompleted \<Rightarrow> Ok RD_GrantOpaque
        | PI_Cancelled \<Rightarrow> Ok (RD_Deny cancelled_error)
        | _ \<Rightarrow> Ok RD_GrantOpaque)\<rparr>"

definition clarification_then_grant_person_policy ::
    "(string \<Rightarrow> string) \<Rightarrow> string \<Rightarrow> string \<Rightarrow> (person_token_context, person_token_decision) policy" where
  "clarification_then_grant_person_policy low sub question =
     \<lparr>pol_evaluate = (\<lambda>ctx. Ok (PD_Defer (DR_Clarification question None))),
      pol_resume = (\<lambda>ctx input. case input of
          PI_ClarificationResponse _ \<Rightarrow> always_grant_person_evaluate low sub ctx
        | PI_InteractionCompleted \<Rightarrow> always_grant_person_evaluate low sub ctx
        | PI_Cancelled \<Rightarrow> Ok (PD_Deny cancelled_error)
        | PI_ClaimsSubmission _ \<Rightarrow> Err ''claims submission not expected''
        | PI_UpdatedToken _ \<Rightarrow> always_grant_person_evaluate low sub ctx)\<rparr>"

definition defer_interaction_person_policy ::
    "u8 list \<Rightarrow> (person_token_context, person_token_decision) policy \<Rightarrow> string \<Rightarrow>
     (person_token_context, person_token_decision) policy" where
  "defer_interaction_person_policy buf inner_policy interaction_url =
     \<lparr>pol_evaluate = (\<lambda>ctx. Ok (PD_Defer (DR_Interaction interaction_url (generate_code buf)))),
      pol_resume = pol_resume inner_policy\<rparr>"

definition clarification_then_grant_access_policy ::
    "string \<Rightarrow> string \<Rightarrow> (access_token_context, access_token_decision) policy" where
  "clarification_then_grant_access_policy sub question =
     \<lparr>pol_evaluate = (\<lambda>ctx. Ok (AD_Defer (DR_Clarification question None))),
      pol_resume = (\<lambda>ctx input. case input of
          PI_ClarificationResponse _ \<Rightarrow> Ok (access_grant sub ctx)
        | PI_InteractionCompleted \<Rightarrow> Ok (access_grant sub ctx)
        | PI_Cancelled \<Rightarrow> Ok (AD_Deny cancelled_error)
        | PI_ClaimsSubmission _ \<Rightarrow> Err ''claims submission not expected''
        | PI_UpdatedToken _ \<Rightarrow> Ok (access_grant sub ctx))\<rparr>"

definition defer_interaction_access_policy ::
    "u8 list \<Rightarrow> (access_token_context, access_token_decision) policy \<Rightarrow> string \<Rightarrow>
     (access_token_context, access_token_decision) policy" where
  "defer_interaction_access_policy buf inner_policy interaction_url =
     \<lparr>pol_evaluate = (\<lambda>ctx. Ok (AD_Defer (DR_Interaction interaction_url (generate_code buf)))),
      pol_resume = pol_resume inner_policy\<rparr>"

definition defer_claims_access_policy ::
    "string \<Rightarrow> string list \<Rightarrow> (access_token_context, access_token_decision) policy" where
  "defer_claims_access_policy sub required_claims =
     \<lparr>pol_evaluate = (\<lambda>ctx. Ok (AD_Defer (DR_Claims required_claims))),
      pol_resume = (\<lambda>ctx input. case input of
          PI_ClaimsSubmission _ \<Rightarrow> Ok (access_grant sub ctx)
        | PI_InteractionCompleted \<Rightarrow> Ok (access_grant sub ctx)
        | PI_UpdatedToken _ \<Rightarrow> Ok (access_grant sub ctx)
        | PI_Cancelled \<Rightarrow> Ok (AD_Deny cancelled_error)
        | PI_ClarificationResponse _ \<Rightarrow> Err ''clarification not expected'')\<rparr>"

definition defer_approval_access_policy ::
    "string \<Rightarrow> (access_token_context, access_token_decision) policy" where
  "defer_approval_access_policy sub =
     \<lparr>pol_evaluate = (\<lambda>ctx. Ok (AD_Defer DR_Approval)),
      pol_resume = (\<lambda>ctx input. case input of
          PI_InteractionCompleted \<Rightarrow> Ok (access_grant sub ctx)
        | PI_Cancelled \<Rightarrow> Ok (AD_Deny cancelled_error)
        | _ \<Rightarrow> Ok (access_grant sub ctx))\<rparr>"

section \<open>What the shipped policies grant\<close>

definition person_grant_or_federate ::
    "(string \<Rightarrow> string) \<Rightarrow> string \<Rightarrow> person_token_context \<Rightarrow> person_token_decision" where
  "person_grant_or_federate low sub ctx =
     (if audience_is_person_server low ctx
      then PD_Grant \<lparr>gr_sub = sub, gr_scope = rc_scope (pt_resource_claims ctx)\<rparr> else PD_Federate)"

text \<open>
  Each Person Server policy of the crate grants only a request whose audience is this
  server, with the resource token's own scope; a request for another audience is federated,
  never granted, and a cancelled one is denied.
\<close>
theorem person_policies_respect_audience:
  assumes "pol \<in> {always_grant_person_policy low sub,
      clarification_then_grant_person_policy low sub question,
      defer_interaction_person_policy buf (always_grant_person_policy low sub) url}"
  shows "pol_resume pol ctx PI_Cancelled = Ok (PD_Deny cancelled_error) \<and>
    (pol_evaluate pol ctx = Ok (PD_Grant g) \<or> pol_resume pol ctx input = Ok (PD_Grant g) \<longrightarrow>
      audience_is_person_server low ctx \<and> g = \<lparr>gr_sub = sub, gr_scope = rc_scope (pt_resource_claims ctx)\<rparr>) \<and>
    (pol_evaluate pol ctx = Ok PD_Federate \<or> pol_resume pol ctx input = Ok PD_Federate \<longrightarrow>
      \<not> audience_is_person_server low ctx)"
  using assms
  by (auto simp: always_grant_person_policy_def clarification_then_grant_person_policy_def
      defer_interaction_person_policy_def always_grant_person_evaluate_def
      split: pending_input.splits if_splits)

end
