(* ===== verification/Federation.thy ===== *)
theory Federation
  imports Metadata Services
begin

text \<open>
  The Person Server's side of a request (\<^verbatim>\<open>aauth/src/person_server/{context,federation,
  access_client}.rs\<close>): verifying a token request, minting, and exchanging a resource token
  at the Access Server it names. The Access Server's answers are the record \<open>access_client\<close>.
\<close>

section \<open>The Access Server as a client sees it\<close>

datatype access_exchange_outcome =
    AX_Complete token_response_body
  | AX_Deferred defer_requirement string

record access_client =
  ac_fetch_metadata :: "string \<Rightarrow> aauth_error + access_server_metadata"
  ac_exchange_token :: "string \<Rightarrow> access_token_exchange_request \<Rightarrow> aauth_error + access_exchange_outcome"
  ac_resume_pending :: "string \<Rightarrow> pending_input \<Rightarrow> aauth_error + token_response_body option"
  ac_poll_pending :: "string \<Rightarrow> server_poll_options \<Rightarrow> aauth_error + server_poll_outcome"

definition absent_error :: "string \<Rightarrow> aauth_error" where
  "absent_error op =
     Metadata (ME_Request (''AbsentAccessServerClient::'' @ op) ''no AccessServerClient configured'')"

definition absent_access_client :: access_client where
  "absent_access_client =
     \<lparr>ac_fetch_metadata = (\<lambda>_. Err (absent_error ''fetch_metadata'')),
      ac_exchange_token = (\<lambda>_ _. Err (absent_error ''exchange_token'')),
      ac_resume_pending = (\<lambda>_ _. Err (absent_error ''resume_pending'')),
      ac_poll_pending = (\<lambda>_ _. Err (absent_error ''poll_pending''))\<rparr>"

section \<open>Configuration (\<^verbatim>\<open>person_server/service.rs\<close>)\<close>

record person_server_config =
  psc_person_server_url :: string
  psc_resource_url :: string
  psc_person_jwks_uri :: string
  psc_interaction_url :: string
  psc_pending_base_url :: string
  psc_pending_path :: string
  psc_pending_ttl_secs :: u64
  psc_fetcher :: fetcher
  psc_access_server :: access_client
  psc_federation_poll_max_secs :: "u64 option"

text \<open>A minter is its one method: issuer, audience, agent, agent key, subject, scope.\<close>

type_synonym minter =
  "string \<Rightarrow> string \<Rightarrow> string \<Rightarrow> public_jwk \<Rightarrow> string option \<Rightarrow> string option \<Rightarrow> aauth_error + string"

section \<open>Requests (\<^verbatim>\<open>context.rs\<close>)\<close>

definition verify_token_request ::
    "'key jwt_lib \<Rightarrow> i64 \<Rightarrow> person_server_config \<Rightarrow> string \<Rightarrow> string \<Rightarrow> string \<Rightarrow>
     token_exchange_request \<Rightarrow> aauth_error + person_token_context" where
  "verify_token_request L now cfg agent_jwt agent_jkt resource_token exchange_request =
     bind_res (parse_token L agent_jwt) (\<lambda>p.
     bind_res (case p of
         PT_Agent c \<Rightarrow> Ok c
       | PT_Auth _ \<Rightarrow> Err (ve_invalid Typ_Auth VR_WrongTyp)
       | PT_Resource _ \<Rightarrow> Err (ve_invalid Typ_Auth VR_WrongTyp)) (\<lambda>agent.
     bind_res (verify_resource_token L (psc_fetcher cfg) now resource_token
         \<lparr>rt_expected_agent = Some (claims_identifier agent), rt_expected_agent_jkt = Some agent_jkt\<rparr>)
       (\<lambda>resource_claims.
     Ok \<lparr>pt_person_server_url = psc_person_server_url cfg, pt_resource_url = psc_resource_url cfg,
         pt_agent_claims = agent, pt_resource_claims = resource_claims,
         pt_exchange_request = exchange_request\<rparr>)))"

definition mint_person_auth ::
    "person_server_config \<Rightarrow> minter \<Rightarrow> string \<Rightarrow> string option \<Rightarrow> agent_claims \<Rightarrow>
     aauth_error + token_response_body" where
  "mint_person_auth cfg minter sub scope agent =
     bind_res (minter (psc_person_server_url cfg) (psc_resource_url cfg) (claims_identifier agent)
                 (cnf_jwk (ag_cnf agent)) (Some sub) scope)
       (\<lambda>auth_jwt. Ok \<lparr>auth_token = auth_jwt, expires_in = 3600\<rparr>)"

section \<open>Federation (\<^verbatim>\<open>federation.rs\<close>)\<close>

datatype federation_outcome =
    FedComplete token_response_body
  | FedDeferred defer_requirement string string

definition verify_federated_auth_token ::
    "'key jwt_lib \<Rightarrow> url_parser \<Rightarrow> fetcher \<Rightarrow> i64 \<Rightarrow> string \<Rightarrow> string \<Rightarrow> string \<Rightarrow> string \<Rightarrow>
     aauth_error + unit" where
  "verify_federated_auth_token L parse F now token expected_iss expected_aud agent_token =
     bind_res (parse_token L agent_token) (\<lambda>p.
     bind_res (case p of PT_Agent c \<Rightarrow> Ok c | _ \<Rightarrow> Err (ve_invalid Typ_Agent VR_WrongTyp)) (\<lambda>agent.
     bind_res (jwk_thumbprint L (cnf_jwk (ag_cnf agent))) (\<lambda>agent_jkt.
     bind_res (verify_token L parse F now token agent_jkt) (\<lambda>verified.
     bind_res (case verified of PT_Auth c \<Rightarrow> Ok c | _ \<Rightarrow> Err (ve_invalid Typ_Auth VR_ExpectedAuth)) (\<lambda>auth.
     if trim_end_matches (CHR ''/'') (au_iss auth) \<noteq> trim_end_matches (CHR ''/'') expected_iss
       then Err (Verify VE_IssMismatch)
     else if trim_end_matches (CHR ''/'') (au_aud auth) \<noteq> trim_end_matches (CHR ''/'') expected_aud
       then Err (Verify VE_AudMismatch)
     else if au_agent auth \<noteq> claims_identifier agent then Err (Verify VE_AgentMismatch)
     else Ok ())))))"

definition federate_to_access_server ::
    "'key jwt_lib \<Rightarrow> url_parser \<Rightarrow> i64 \<Rightarrow> person_server_config \<Rightarrow> string \<Rightarrow> string \<Rightarrow>
     aauth_error + federation_outcome" where
  "federate_to_access_server L parse now cfg resource_token agent_token =
     bind_res (parse_token L resource_token) (\<lambda>p.
     bind_res (case p of PT_Resource c \<Rightarrow> Ok c | _ \<Rightarrow> Err (ve_invalid Typ_Resource VR_WrongTyp)) (\<lambda>claims.
     let access_server_url = trim_end_matches (CHR ''/'') (rc_aud claims) in
     bind_res (ac_fetch_metadata (psc_access_server cfg) access_server_url) (\<lambda>metadata.
     bind_res (map_err Metadata (access_metadata_validate metadata)) (\<lambda>_.
     bind_res (ac_exchange_token (psc_access_server cfg) (asm_token_endpoint metadata)
         \<lparr>ax_resource_token = resource_token, ax_agent_token = agent_token,
          ax_upstream_token = None, ax_subagent_token = None\<rparr>) (\<lambda>outcome.
     case outcome of
       AX_Complete token_body \<Rightarrow>
         bind_res (verify_federated_auth_token L parse (psc_fetcher cfg) now (auth_token token_body)
             access_server_url (psc_resource_url cfg) agent_token)
           (\<lambda>_. Ok (FedComplete token_body))
     | AX_Deferred requirement pending_url \<Rightarrow>
         Ok (FedDeferred requirement pending_url access_server_url))))))"

section \<open>What a federated token guarantees\<close>

lemma expect_agent_Ok [res_simps]:
  "(case p of PT_Agent a \<Rightarrow> Inr a | PT_Auth c \<Rightarrow> Inl e | PT_Resource r \<Rightarrow> Inl e) = Inr c \<longleftrightarrow>
     p = PT_Agent c"
  by (cases p) auto

definition federated_token_ok ::
    "'key jwt_lib \<Rightarrow> fetcher \<Rightarrow> i64 \<Rightarrow> string \<Rightarrow> string \<Rightarrow> string \<Rightarrow> string \<Rightarrow> bool" where
  "federated_token_ok L F now token expected_iss expected_aud agent_token \<longleftrightarrow>
     (\<exists>a c. parse_token L agent_token = Ok (PT_Agent a) \<and>
        signed_by_issuer L F now token (PT_Auth c) \<and>
        trim_end_matches (CHR ''/'') (au_iss c) = trim_end_matches (CHR ''/'') expected_iss \<and>
        trim_end_matches (CHR ''/'') (au_aud c) = trim_end_matches (CHR ''/'') expected_aud \<and>
        au_agent c = ag_sub a \<and>
        jwk_thumbprint L (cnf_jwk (au_cnf c)) = jwk_thumbprint L (cnf_jwk (ag_cnf a)) \<and>
        sint (now - 60) \<le> sint (au_exp c))"

lemma verify_token_auth_sound:
  assumes "decode_agrees L" "verify_token L parse F now jwt tp = Ok (PT_Auth c)"
  shows "signed_by_issuer L F now jwt (PT_Auth c) \<and> jwk_thumbprint L (cnf_jwk (au_cnf c)) = Ok tp \<and>
    sint (now - 60) \<le> sint (au_exp c)"
proof -
  obtain p' key jwk where v: "parse_token L jwt = Ok p'" "\<not> expired_at now (token_exp p')"
    "token_cnf_jwk p' = Some jwk" "jwk_thumbprint L jwk = Ok tp"
    "fetch_decoding_key L F (token_iss p') (token_dwk p') jwt = Ok key"
    "verify_with_key L now jwt key = Ok (PT_Auth c)"
    using verify_token_Ok [OF assms(2)] by blast
  have same: "p' = PT_Auth c" using verified_same [OF assms(1) v(1,6)] by simp
  then show ?thesis
    using v signed_by_issuerI [of L F "PT_Auth c" jwt key now]
    by (simp add: expired_at_def i64_less_def CLOCK_SKEW_def)
qed

lemma verify_federated_Ok:
  assumes "decode_agrees L"
    and "verify_federated_auth_token L parse F now token iss aud agent_token = Ok ()"
  shows "federated_token_ok L F now token iss aud agent_token"
proof -
  obtain a jkt c where h: "parse_token L agent_token = Ok (PT_Agent a)"
    "jwk_thumbprint L (cnf_jwk (ag_cnf a)) = Ok jkt"
    "verify_token L parse F now token jkt = Ok (PT_Auth c)"
    "trim_end_matches (CHR ''/'') (au_iss c) = trim_end_matches (CHR ''/'') iss"
    "trim_end_matches (CHR ''/'') (au_aud c) = trim_end_matches (CHR ''/'') aud"
    "au_agent c = ag_sub a"
    using assms(2)
    by (auto simp: verify_federated_auth_token_def res_simps claims_identifier_def split: if_splits)
  then show ?thesis
    using verify_token_auth_sound [OF assms(1) h(3)] unfolding federated_token_ok_def by fastforce
qed

lemma federate_outcome_complete:
  "(case out of AX_Complete b \<Rightarrow> bind_res (f b) (\<lambda>_. Ok (FedComplete b))
      | AX_Deferred r u \<Rightarrow> Ok (FedDeferred r u w)) = Inr (FedComplete body) \<longleftrightarrow>
     out = AX_Complete body \<and> (\<exists>u. f body = Inr u)"
  by (cases out) (auto simp: res_simps)

lemma federate_complete:
  assumes "federate_to_access_server L parse now cfg resource_token agent_token = Ok (FedComplete body)"
  obtains r where "parse_token L resource_token = Ok (PT_Resource r)"
    "verify_federated_auth_token L parse (psc_fetcher cfg) now (auth_token body)
      (trim_end_matches (CHR ''/'') (rc_aud r)) (psc_resource_url cfg) agent_token = Ok ()"
  using assms
  by (auto simp: federate_to_access_server_def res_simps Let_def federate_outcome_complete)

lemma federated_grant_ok:
  assumes "decode_agrees L"
    and "federate_to_access_server L parse now cfg resource_token agent_token = Ok (FedComplete body)"
  shows "\<exists>r. parse_token L resource_token = Ok (PT_Resource r) \<and>
    federated_token_ok L (psc_fetcher cfg) now (auth_token body) (rc_aud r) (psc_resource_url cfg) agent_token"
proof -
  obtain r where r: "parse_token L resource_token = Ok (PT_Resource r)"
    and v: "verify_federated_auth_token L parse (psc_fetcher cfg) now (auth_token body)
      (trim_end_matches (CHR ''/'') (rc_aud r)) (psc_resource_url cfg) agent_token = Ok ()"
    by (rule federate_complete [OF assms(2)])
  have "federated_token_ok L (psc_fetcher cfg) now (auth_token body) (rc_aud r) (psc_resource_url cfg) agent_token"
    using verify_federated_Ok [OF assms(1) v] by (simp add: federated_token_ok_def)
  with r show ?thesis by blast
qed

text \<open>
  C24: an auth token a Person Server relays from federation was issued and signed by the Access
  Server the resource token names as audience, for this server's resource, is unexpired
  beyond the skew, and is bound to the agent's own identifier and key.
\<close>
theorem federated_grant_verified:
  assumes "decode_agrees L"
    and "federate_to_access_server L parse now cfg resource_token agent_token = Ok (FedComplete body)"
  shows "\<exists>r. parse_token L resource_token = Ok (PT_Resource r) \<and>
    federated_token_ok L (psc_fetcher cfg) now (auth_token body) (rc_aud r) (psc_resource_url cfg) agent_token"
  using assms by (rule federated_grant_ok)

definition token_request_trusted ::
    "'key jwt_lib \<Rightarrow> i64 \<Rightarrow> person_server_config \<Rightarrow> string \<Rightarrow> string \<Rightarrow> string \<Rightarrow>
     token_exchange_request \<Rightarrow> person_token_context \<Rightarrow> bool" where
  "token_request_trusted L now cfg agent_jwt agent_jkt resource_token exchange ctx \<longleftrightarrow>
    signed_by_issuer L (psc_fetcher cfg) now resource_token (PT_Resource (pt_resource_claims ctx)) \<and>
    rc_agent (pt_resource_claims ctx) = ag_sub (pt_agent_claims ctx) \<and>
    rc_agent_jkt (pt_resource_claims ctx) = agent_jkt \<and>
    parse_token L agent_jwt = Ok (PT_Agent (pt_agent_claims ctx)) \<and>
    pt_exchange_request ctx = exchange \<and>
    pt_person_server_url ctx = psc_person_server_url cfg \<and>
    pt_resource_url ctx = psc_resource_url cfg"

lemma verify_token_request_sound:
  assumes "decode_agrees L"
    and "verify_token_request L now cfg agent_jwt agent_jkt resource_token exchange = Ok ctx"
  shows "token_request_trusted L now cfg agent_jwt agent_jkt resource_token exchange ctx"
  unfolding token_request_trusted_def
proof (intro conjI)
  obtain a r where h: "parse_token L agent_jwt = Ok (PT_Agent a)"
    "verify_resource_token L (psc_fetcher cfg) now resource_token
       \<lparr>rt_expected_agent = Some (ag_sub a), rt_expected_agent_jkt = Some agent_jkt\<rparr> = Ok r"
    "ctx = \<lparr>pt_person_server_url = psc_person_server_url cfg, pt_resource_url = psc_resource_url cfg,
      pt_agent_claims = a, pt_resource_claims = r, pt_exchange_request = exchange\<rparr>"
    using assms(2)
    by (auto simp: verify_token_request_def res_simps claims_identifier_def split: parsed_token.splits)
  obtain c key where v: "parse_token L resource_token = Ok (PT_Resource c)"
    "rc_agent c = ag_sub a" "rc_agent_jkt c = agent_jkt"
    "fetch_decoding_key L (psc_fetcher cfg) (rc_iss c) (rc_dwk c) resource_token = Ok key"
    "verify_with_key L now resource_token key = Ok (PT_Resource r)"
    using verify_resource_token_Ok [OF h(2)] by auto
  have same: "c = r" using verified_same [OF assms(1) v(1,5)] by simp
  show "signed_by_issuer L (psc_fetcher cfg) now resource_token (PT_Resource (pt_resource_claims ctx))"
    using signed_by_issuerI [of L "psc_fetcher cfg" "PT_Resource r" resource_token key now] v same h(3)
    by simp
  show "rc_agent (pt_resource_claims ctx) = ag_sub (pt_agent_claims ctx)"
    "rc_agent_jkt (pt_resource_claims ctx) = agent_jkt"
    "parse_token L agent_jwt = Ok (PT_Agent (pt_agent_claims ctx))"
    "pt_exchange_request ctx = exchange" "pt_person_server_url ctx = psc_person_server_url cfg"
    "pt_resource_url ctx = psc_resource_url cfg"
    using v h same by simp_all
qed

text \<open>
  A token request that the Person Server accepts carries a resource token signed by its
  issuer, addressed to the requesting agent and to the key the agent signed with; the
  context it builds names this server and its configured resource.
\<close>
theorem token_request_verified:
  assumes "decode_agrees L"
    and "verify_token_request L now cfg agent_jwt agent_jkt resource_token exchange = Ok ctx"
  shows "signed_by_issuer L (psc_fetcher cfg) now resource_token (PT_Resource (pt_resource_claims ctx)) \<and>
    rc_agent (pt_resource_claims ctx) = ag_sub (pt_agent_claims ctx) \<and>
    rc_agent_jkt (pt_resource_claims ctx) = agent_jkt \<and>
    parse_token L agent_jwt = Ok (PT_Agent (pt_agent_claims ctx)) \<and>
    pt_exchange_request ctx = exchange \<and>
    pt_person_server_url ctx = psc_person_server_url cfg \<and>
    pt_resource_url ctx = psc_resource_url cfg"
  using verify_token_request_sound [OF assms] by (simp add: token_request_trusted_def)

section \<open>A concrete run\<close>

definition sample_access_client :: access_client where
  "sample_access_client =
     \<lparr>ac_fetch_metadata = (\<lambda>_. Ok (access_metadata_default\<lparr>asm_token_endpoint := ''/token''\<rparr>)),
      ac_exchange_token = (\<lambda>_ _. Ok (AX_Complete \<lparr>auth_token = ''auth'', expires_in = 60\<rparr>)),
      ac_resume_pending = (\<lambda>_ _. Ok None), ac_poll_pending = (\<lambda>_ _. Ok SP_Gone)\<rparr>"

definition sample_config :: person_server_config where
  "sample_config =
     \<lparr>psc_person_server_url = ''https://p'', psc_resource_url = ''https://r'', psc_person_jwks_uri = ''https://p/jwks'',
      psc_interaction_url = ''https://p/i'', psc_pending_base_url = ''https://p'',
      psc_pending_path = ''/pending'', psc_pending_ttl_secs = 600, psc_fetcher = sample_fetcher,
      psc_access_server = sample_access_client, psc_federation_poll_max_secs = None\<rparr>"

lemma sample_verify_federated:
  "verify_federated_auth_token sample_lib sample_parse sample_fetcher 1000 ''auth'' ''https://p'' ''https://r''
     ''agent'' = Ok ()"
  by (simp add: verify_federated_auth_token_def sample_tokens sample_thumbprint sample_verify_auth)
    (simp add: sample_auth_def sample_agent_def claims_identifier_def)

lemma sample_federates:
  "federate_to_access_server sample_lib sample_parse 1000 sample_config ''resource'' ''agent''
     = Ok (FedComplete \<lparr>auth_token = ''auth'', expires_in = 60\<rparr>)"
  by (simp add: federate_to_access_server_def sample_tokens sample_config_def sample_access_client_def
      access_metadata_validate_def Let_def)
    (simp add: sample_resource_def sample_verify_federated)

theorem federated_grant_verified_witness:
  "federated_token_ok sample_lib sample_fetcher 1000 ''auth'' ''https://p'' ''https://r'' ''agent''"
  using federated_grant_verified [OF sample_decode_agrees sample_federates]
  by (simp add: sample_tokens sample_config_def) (simp add: sample_resource_def)

definition sample_exchange :: token_exchange_request where
  "sample_exchange =
     \<lparr>tx_resource_token = ''resource'', tx_upstream_token = None, tx_subagent_token = None,
      tx_justification = None, tx_login_hint = None, tx_tenant = None, tx_domain_hint = None,
      tx_capabilities = None, tx_prompt = None, tx_platform = None, tx_device = None\<rparr>"

definition sample_context :: person_token_context where
  "sample_context =
     \<lparr>pt_person_server_url = ''https://p'', pt_resource_url = ''https://r'',
      pt_agent_claims = sample_agent, pt_resource_claims = sample_resource,
      pt_exchange_request = sample_exchange\<rparr>"

lemma sample_request:
  "verify_token_request sample_lib 1000 sample_config ''agent'' ''T'' ''resource'' sample_exchange
     = Ok sample_context"
  by (simp add: verify_token_request_def sample_tokens verify_resource_token_def sample_config_def sample_key)
    (simp add: sample_resource_def sample_expired sample_agent_def claims_identifier_def sample_context_def)

theorem token_request_verified_witness:
  "signed_by_issuer sample_lib (psc_fetcher sample_config) 1000 ''resource''
     (PT_Resource (pt_resource_claims sample_context)) \<and>
   rc_agent_jkt (pt_resource_claims sample_context) = ''T''"
  using token_request_verified [OF sample_decode_agrees sample_request] by simp

text \<open>The policies of \<^verbatim>\<open>Services\<close> at this context.\<close>

theorem person_policies_respect_audience_witness:
  "pol_evaluate (always_grant_person_policy id ''u'') sample_context
     = Ok (PD_Grant \<lparr>gr_sub = ''u'', gr_scope = None\<rparr>) \<and>
   audience_is_person_server id sample_context"
proof -
  have g: "pol_evaluate (always_grant_person_policy id ''u'') sample_context
     = Ok (PD_Grant \<lparr>gr_sub = ''u'', gr_scope = None\<rparr>)"
    by (simp add: always_grant_person_policy_def always_grant_person_evaluate_def audience_is_person_server_def
        sample_context_def sample_resource_def)
  then show ?thesis
    using person_policies_respect_audience [where pol = "always_grant_person_policy id ''u''" and low = id
        and sub = "''u''" and ctx = sample_context] by blast
qed

end
