(* ===== verification/Person_Service.thy ===== *)
theory Person_Service
  imports Federation
begin

text \<open>
  The Person Server's token service (\<^verbatim>\<open>aauth-policy/src/person\<close>): exchange, polling,
  resumption of a pending request, the interaction page and its callback. The service holds a
  policy, a pending store, a minter and its configuration; \<open>env\<close> holds what the code takes
  from its surroundings (clock, random bytes, Unicode tables, the URL library). Lemmas are
  proved for every store that keeps the contract; the properties use the in-memory one.
\<close>

section \<open>Service and environment\<close>

record env =
  ev_now :: u64
  ev_id_bytes :: "u8 list"
  ev_code_bytes :: "u8 list"
  ev_up :: "string \<Rightarrow> string"
  ev_low :: "string \<Rightarrow> string"
  ev_parse :: url_parser
  ev_with_query :: "string \<Rightarrow> (string \<times> string) list \<Rightarrow> string"

datatype orchestration_error =
    OE_InvalidInteractionUrl
  | OE_InteractionUrlNotHttps
  | OE_MissingResourceInteraction
  | OE_PendingBody aauth_error

datatype 'e person_error =
    PSE_Store 'e
  | PSE_Policy string
  | PSE_Orchestration orchestration_error
  | PSE_Aauth aauth_error

record ('key, 's, 'e) person_service =
  pv_lib :: "'key jwt_lib"
  pv_policy :: "(person_token_context, person_token_decision) policy"
  pv_pending :: "('s, 'e, person_pending_context) store_ops"
  pv_minter :: minter
  pv_config :: person_server_config

abbreviation store_op ::
    "('s, 'e, 'a) action \<Rightarrow> ('s, 'e person_error, 'a) action" where
  "store_op m \<equiv> err_as PSE_Store m"

definition pending_url :: "person_server_config \<Rightarrow> string \<Rightarrow> string" where
  "pending_url cfg i = pending_location (psc_pending_base_url cfg) (psc_pending_path cfg) i"

section \<open>Deferrals (\<^verbatim>\<open>person/defer.rs\<close>)\<close>

definition person_pending_from ::
    "person_token_context \<Rightarrow> string \<Rightarrow> federation_pending_state option \<Rightarrow>
     resource_interaction_claim option \<Rightarrow> string option \<Rightarrow> person_pending_context" where
  "person_pending_from ctx agent_jwt fed ix code =
     \<lparr>pp_person_server_url = pt_person_server_url ctx, pp_resource_url = pt_resource_url ctx,
      pp_agent_claims = pt_agent_claims ctx, pp_resource_claims = pt_resource_claims ctx,
      pp_exchange_request = pt_exchange_request ctx, pp_agent_token = agent_jwt,
      federation = fed, resource_interaction = ix, ps_interaction_code = code,
      interaction_code_consumed = False\<rparr>"

definition update_person_pending_defer ::
    "('key, 's, 'e) person_service \<Rightarrow> string \<Rightarrow> defer_requirement \<Rightarrow>
     ('s, 'e person_error, person_token_flow_outcome) action" where
  "update_person_pending_defer svc pending_id requirement =
     seq (store_op (op_load (pv_pending svc) pending_id)) (\<lambda>found.
       case found of
         None \<Rightarrow> ret PF_Gone
       | Some record \<Rightarrow>
           seq (store_op (op_save (pv_pending svc) pending_id
                  (record\<lparr>pr_snapshot := snapshot_waiting requirement\<rparr>))) (\<lambda>_.
           ret (PF_Deferred \<lparr>dc_location = pending_url (pv_config svc) pending_id,
                  dc_requirement = requirement\<rparr>)))"

definition create_deferred_person_response ::
    "env \<Rightarrow> ('key, 's, 'e) person_service \<Rightarrow> person_token_context \<Rightarrow> defer_requirement \<Rightarrow> string \<Rightarrow>
     ('s, 'e person_error, person_token_flow_outcome) action" where
  "create_deferred_person_response ev svc ctx requirement agent_jwt =
     (let i = generate_pending_id (ev_id_bytes ev);
          location = pending_url (pv_config svc) i;
          record = pending_record_new (ev_now ev) i
            (person_pending_from ctx agent_jwt None None None)
            (snapshot_waiting requirement) (psc_pending_ttl_secs (pv_config svc))
      in seq (store_op (op_create (pv_pending svc) record)) (\<lambda>_.
         ret (PF_Deferred \<lparr>dc_location = location, dc_requirement = requirement\<rparr>)))"

text \<open>
  \<open>canonicalize_code\<close> is \<open>Some\<close> on the code just generated (\<open>canonical_typed\<close>), so the
  stored field is what the code stores.
\<close>

definition create_resource_initiated_deferred_response ::
    "env \<Rightarrow> ('key, 's, 'e) person_service \<Rightarrow> person_token_context \<Rightarrow> string \<Rightarrow>
     ('s, 'e person_error, person_token_flow_outcome) action" where
  "create_resource_initiated_deferred_response ev svc ctx agent_jwt =
     seq (lift_res (ok_or (rc_interaction (pt_resource_claims ctx))
            (PSE_Orchestration OE_MissingResourceInteraction))) (\<lambda>resource_ix.
     let ps_code = generate_code (ev_code_bytes ev);
         requirement = DR_Interaction (psc_interaction_url (pv_config svc)) ps_code;
         i = generate_pending_id (ev_id_bytes ev);
         location = pending_url (pv_config svc) i;
         record = pending_record_new (ev_now ev) i
           (person_pending_from ctx agent_jwt None (Some resource_ix) (canonicalize_code (ev_up ev) ps_code))
           (snapshot_waiting requirement) (psc_pending_ttl_secs (pv_config svc))
     in seq (store_op (op_create (pv_pending svc) record)) (\<lambda>_.
        ret (PF_Deferred \<lparr>dc_location = location, dc_requirement = requirement\<rparr>)))"

section \<open>Federated deferrals (\<^verbatim>\<open>person/federation_pending.rs\<close>)\<close>

definition create_federated_deferred_response ::
    "env \<Rightarrow> ('key, 's, 'e) person_service \<Rightarrow> person_token_context \<Rightarrow> string option \<Rightarrow> defer_requirement \<Rightarrow>
     federation_pending_state \<Rightarrow> string \<Rightarrow> ('s, 'e person_error, person_token_flow_outcome) action" where
  "create_federated_deferred_response ev svc ctx pending_id requirement fed agent_jwt =
     (let i = (case pending_id of Some p \<Rightarrow> p | None \<Rightarrow> generate_pending_id (ev_id_bytes ev));
          location = pending_url (pv_config svc) i;
          person_ctx = person_pending_from ctx agent_jwt (Some fed) None None;
          done = ret (PF_Deferred \<lparr>dc_location = location, dc_requirement = requirement\<rparr>)
      in if pending_id \<noteq> None then
           seq (store_op (op_load (pv_pending svc) i)) (\<lambda>found.
             case found of
               None \<Rightarrow> ret PF_Gone
             | Some record \<Rightarrow>
                 seq (store_op (op_save (pv_pending svc) i
                        (record\<lparr>pr_context := person_ctx, pr_snapshot := snapshot_waiting requirement\<rparr>)))
                   (\<lambda>_. done))
         else
           seq (store_op (op_create (pv_pending svc)
                  (pending_record_new (ev_now ev) i person_ctx (snapshot_waiting requirement)
                     (psc_pending_ttl_secs (pv_config svc)))))
             (\<lambda>_. done))"

definition complete_with ::
    "('key, 's, 'e) person_service \<Rightarrow> string \<Rightarrow> pending_outcome \<Rightarrow> person_token_flow_outcome \<Rightarrow>
     ('s, 'e person_error, person_token_flow_outcome) action" where
  "complete_with svc pending_id outcome result =
     seq (store_op (op_complete (pv_pending svc) pending_id outcome)) (\<lambda>_. ret result)"

definition handle_federated_pending_post ::
    "env \<Rightarrow> ('key, 's, 'e) person_service \<Rightarrow> string \<Rightarrow> federation_pending_state \<Rightarrow> string \<Rightarrow> string \<Rightarrow>
     pending_input \<Rightarrow> ('s, 'e person_error, person_token_flow_outcome) action" where
  "handle_federated_pending_post ev svc pending_id fed agent_token resource_url input =
     (let cfg = pv_config svc; as_client = psc_access_server cfg in
      if input = PI_Cancelled then
        complete_with svc pending_id (PO_Error cancelled_error) (PF_Denied cancelled_error)
      else
        case ac_resume_pending as_client (as_pending_url fed) input of
          Inl _ \<Rightarrow> ret PF_BadGateway
        | Inr post_outcome \<Rightarrow>
            (case (case post_outcome of
                     Some body \<Rightarrow> Ok (SP_AuthToken body)
                   | None \<Rightarrow> ac_poll_pending as_client (fp_access_server_url fed)
                       \<lparr>sp_location_url = as_pending_url fed,
                        max_poll_duration_secs = psc_federation_poll_max_secs cfg,
                        prefer_wait = None\<rparr>) of
               Inl _ \<Rightarrow> ret PF_BadGateway
             | Inr poll_outcome \<Rightarrow>
                 (case poll_outcome of
                    SP_AuthToken body \<Rightarrow>
                      (case verify_federated_auth_token (pv_lib svc) (ev_parse ev) (psc_fetcher cfg)
                              (ev_now ev) (auth_token body) (fp_access_server_url fed) resource_url
                              agent_token of
                         Inl _ \<Rightarrow> ret PF_Unauthorized
                       | Inr _ \<Rightarrow> complete_with svc pending_id (PO_AuthToken body) (PF_Granted body))
                  | SP_Deferred requirement location_url \<Rightarrow>
                      seq (store_op (op_load (pv_pending svc) pending_id)) (\<lambda>found.
                        case found of
                          None \<Rightarrow> ret PF_Gone
                        | Some record \<Rightarrow>
                            seq (store_op (op_save (pv_pending svc) pending_id
                                   (record\<lparr>pr_snapshot := snapshot_waiting requirement,
                                      pr_context := (pr_context record)\<lparr>federation :=
                                        Some \<lparr>fp_access_server_url = fp_access_server_url fed,
                                          as_pending_url = location_url\<rparr>\<rparr>\<rparr>))) (\<lambda>_.
                            ret (PF_Deferred \<lparr>dc_location = pending_url cfg pending_id,
                                   dc_requirement = requirement\<rparr>)))
                  | SP_Error err \<Rightarrow> complete_with svc pending_id (PO_Error err) (PF_Denied err)
                  | SP_Gone \<Rightarrow>
                      seq (ignore (op_remove (pv_pending svc) pending_id)) (\<lambda>_. ret PF_Gone))))"

section \<open>Applying a decision (\<^verbatim>\<open>person/defer.rs\<close>)\<close>

definition apply_person_decision ::
    "env \<Rightarrow> ('key, 's, 'e) person_service \<Rightarrow> person_token_context \<Rightarrow> person_token_decision \<Rightarrow> string \<Rightarrow>
     ('s, 'e person_error, person_token_flow_outcome) action" where
  "apply_person_decision ev svc ctx decision agent_jwt =
     (case decision of
        PD_Grant grant \<Rightarrow>
          seq (lift_res (map_err PSE_Aauth (mint_person_auth (pv_config svc) (pv_minter svc)
                 (gr_sub grant) (gr_scope grant) (pt_agent_claims ctx))))
            (\<lambda>body. ret (PF_Granted body))
      | PD_Federate \<Rightarrow>
          (case federate_to_access_server (pv_lib svc) (ev_parse ev) (ev_now ev) (pv_config svc)
                  (tx_resource_token (pt_exchange_request ctx)) agent_jwt of
             Inr (FedComplete body) \<Rightarrow> ret (PF_Granted body)
           | Inr (FedDeferred requirement pend as_url) \<Rightarrow>
               create_federated_deferred_response ev svc ctx None requirement
                 \<lparr>fp_access_server_url = as_url, as_pending_url = pend\<rparr> agent_jwt
           | Inl _ \<Rightarrow> ret PF_Unauthorized)
      | PD_Deny err \<Rightarrow> ret (PF_Denied err)
      | PD_Defer requirement \<Rightarrow> create_deferred_person_response ev svc ctx requirement agent_jwt)"

definition apply_person_pending_decision ::
    "env \<Rightarrow> ('key, 's, 'e) person_service \<Rightarrow> person_token_context \<Rightarrow> string \<Rightarrow> person_token_decision \<Rightarrow>
     string \<Rightarrow> ('s, 'e person_error, person_token_flow_outcome) action" where
  "apply_person_pending_decision ev svc ctx pending_id decision agent_jwt =
     (case decision of
        PD_Grant grant \<Rightarrow>
          seq (lift_res (map_err PSE_Aauth (mint_person_auth (pv_config svc) (pv_minter svc)
                 (gr_sub grant) (gr_scope grant) (pt_agent_claims ctx))))
            (\<lambda>body. complete_with svc pending_id (PO_AuthToken body) (PF_Granted body))
      | PD_Federate \<Rightarrow>
          (case federate_to_access_server (pv_lib svc) (ev_parse ev) (ev_now ev) (pv_config svc)
                  (tx_resource_token (pt_exchange_request ctx)) agent_jwt of
             Inr (FedComplete body) \<Rightarrow>
               complete_with svc pending_id (PO_AuthToken body) (PF_Granted body)
           | Inr (FedDeferred requirement pend as_url) \<Rightarrow>
               create_federated_deferred_response ev svc ctx (Some pending_id) requirement
                 \<lparr>fp_access_server_url = as_url, as_pending_url = pend\<rparr> agent_jwt
           | Inl _ \<Rightarrow> ret PF_Unauthorized)
      | PD_Deny err \<Rightarrow> complete_with svc pending_id (PO_Error err) (PF_Denied err)
      | PD_Defer requirement \<Rightarrow> update_person_pending_defer svc pending_id requirement)"

section \<open>The service (\<^verbatim>\<open>person/mod.rs\<close>, \<^verbatim>\<open>person/interaction.rs\<close>)\<close>

definition validate_interaction_url :: "url_parser \<Rightarrow> string \<Rightarrow> orchestration_error + unit" where
  "validate_interaction_url parse url =
     (case parse url of
        None \<Rightarrow> Err OE_InvalidInteractionUrl
      | Some p \<Rightarrow> if u_scheme p \<noteq> ''https'' then Err OE_InteractionUrlNotHttps else Ok ())"

definition build_resource_interaction_redirect ::
    "env \<Rightarrow> resource_interaction_claim \<Rightarrow> string \<Rightarrow> orchestration_error + string" where
  "build_resource_interaction_redirect ev ix callback_url =
     (case ev_parse ev (ri_url ix) of
        None \<Rightarrow> Err OE_InvalidInteractionUrl
      | Some _ \<Rightarrow> Ok (ev_with_query ev (ri_url ix) [(''code'', ri_code ix), (''callback'', callback_url)]))"

definition map_interaction_callback_error :: "string \<Rightarrow> protocol_error" where
  "map_interaction_callback_error e =
     pe_with_description
       (if e = ''access_denied'' then EC_Denied
        else if e = ''user_abandoned'' then EC_Abandoned
        else if e = ''interaction_expired'' then EC_Expired
        else if e = ''server_error'' \<or> e = ''temporarily_unavailable'' then EC_ServerError
        else EC_Custom e) e"

definition person_exchange_token ::
    "env \<Rightarrow> ('key, 's, 'e) person_service \<Rightarrow> person_token_context \<Rightarrow> string \<Rightarrow>
     ('s, 'e person_error, person_token_flow_outcome) action" where
  "person_exchange_token ev svc ctx agent_jwt =
     (if rc_interaction (pt_resource_claims ctx) \<noteq> None then
        create_resource_initiated_deferred_response ev svc ctx agent_jwt
      else
        seq (lift_res (map_err PSE_Policy (pol_evaluate (pv_policy svc) ctx))) (\<lambda>decision.
        apply_person_decision ev svc ctx decision agent_jwt))"

definition person_poll_pending ::
    "env \<Rightarrow> ('key, 's, 'e) person_service \<Rightarrow> string \<Rightarrow>
     ('s, 'e person_error, auth_token_poll_outcome) action" where
  "person_poll_pending ev svc pending_id =
     store_op (poll_auth_pending (pv_pending svc) (ev_now ev) pending_id)"

text \<open>Loading a live record: \<^verbatim>\<open>Gone\<close> when it is absent or expired (and then removed).\<close>

definition with_live_record ::
    "env \<Rightarrow> ('key, 's, 'e) person_service \<Rightarrow> string \<Rightarrow>
     (person_pending_context pending_record \<Rightarrow> ('s, 'e person_error, person_token_flow_outcome) action) \<Rightarrow>
     ('s, 'e person_error, person_token_flow_outcome) action" where
  "with_live_record ev svc pending_id k =
     seq (store_op (op_load (pv_pending svc) pending_id)) (\<lambda>found.
       case found of
         None \<Rightarrow> ret PF_Gone
       | Some record \<Rightarrow>
           if is_expired (ev_now ev) record
           then seq (ignore (op_remove (pv_pending svc) pending_id)) (\<lambda>_. ret PF_Gone)
           else k record)"

definition context_of :: "person_pending_context \<Rightarrow> resource_claims \<Rightarrow> person_token_context" where
  "context_of c claims =
     \<lparr>pt_person_server_url = pp_person_server_url c, pt_resource_url = pp_resource_url c,
      pt_agent_claims = pp_agent_claims c, pt_resource_claims = claims,
      pt_exchange_request = pp_exchange_request c\<rparr>"

definition person_resume_pending ::
    "env \<Rightarrow> ('key, 's, 'e) person_service \<Rightarrow> string \<Rightarrow> pending_input \<Rightarrow>
     ('s, 'e person_error, person_token_flow_outcome) action" where
  "person_resume_pending ev svc pending_id input =
     with_live_record ev svc pending_id (\<lambda>record.
       let c = pr_context record in
       case federation c of
         Some fed \<Rightarrow>
           handle_federated_pending_post ev svc pending_id fed (pp_agent_token c)
             (psc_resource_url (pv_config svc)) input
       | None \<Rightarrow>
           (let ctx = context_of c (pp_resource_claims c) in
            seq (lift_res (map_err PSE_Policy (pol_resume (pv_policy svc) ctx input))) (\<lambda>decision.
            apply_person_pending_decision ev svc ctx pending_id decision (pp_agent_token c))))"

definition resolve_interaction_callback ::
    "env \<Rightarrow> ('key, 's, 'e) person_service \<Rightarrow> string \<Rightarrow> string option \<Rightarrow>
     ('s, 'e person_error, person_token_flow_outcome) action" where
  "resolve_interaction_callback ev svc pending_id callback_error =
     with_live_record ev svc pending_id (\<lambda>record.
       case callback_error of
         Some err \<Rightarrow>
           (let polling_err = map_interaction_callback_error err in
            complete_with svc pending_id (PO_Error polling_err) (PF_Denied polling_err))
       | None \<Rightarrow>
           (let c = pr_context record in
            if federation c \<noteq> None then ret PF_BadGateway
            else
              (let ctx = context_of c ((pp_resource_claims c)\<lparr>rc_interaction := None\<rparr>) in
               seq (lift_res (map_err PSE_Policy (pol_evaluate (pv_policy svc) ctx))) (\<lambda>decision.
               apply_person_pending_decision ev svc ctx pending_id decision (pp_agent_token c)))))"

text \<open>Marking the code used: \<open>interaction_code_consumed\<close>, and \<^verbatim>\<open>Interacting\<close> while waiting.\<close>

definition consume_code :: "person_pending_context pending_record \<Rightarrow> person_pending_context pending_record" where
  "consume_code r =
     r\<lparr>pr_context := (pr_context r)\<lparr>interaction_code_consumed := True\<rparr>,
       pr_snapshot := (case pr_snapshot r of
           PSn_Waiting _ requirement \<Rightarrow> PSn_Waiting PS_Interacting requirement
         | PSn_Complete outcome \<Rightarrow> PSn_Complete outcome)\<rparr>"

definition code_matches :: "string \<Rightarrow> person_pending_context pending_record \<Rightarrow> bool" where
  "code_matches canonical r \<longleftrightarrow>
     ps_interaction_code (pr_context r) = Some canonical \<and> \<not> interaction_code_consumed (pr_context r)"

text \<open>\<open>None\<close> is the panic of \<open>canonicalize_code\<close>.\<close>

definition begin_interaction ::
    "env \<Rightarrow> ('key, 's, 'e) person_service \<Rightarrow> string \<Rightarrow>
     ('s, 'e person_error, person_interaction_outcome) action option" where
  "begin_interaction ev svc code =
     map_option (\<lambda>canonical.
       seq (store_op (op_find_if (pv_pending svc) (code_matches canonical))) (\<lambda>found.
         case found of
           None \<Rightarrow> ret PIO_InvalidCode
         | Some (pending_id, record) \<Rightarrow>
             if is_expired (ev_now ev) record
             then seq (ignore (op_remove (pv_pending svc) pending_id)) (\<lambda>_. ret PIO_Expired)
             else
               (let record = consume_code record in
                seq (store_op (op_save (pv_pending svc) pending_id record)) (\<lambda>_.
                case resource_interaction (pr_context record) of
                  Some resource_ix \<Rightarrow>
                    seq (lift_res (map_err PSE_Orchestration
                           (validate_interaction_url (ev_parse ev) (ri_url resource_ix)))) (\<lambda>_.
                    let callback_url =
                      trim_end_matches (CHR ''/'') (psc_interaction_url (pv_config svc))
                        @ ''/callback?id='' @ pending_id
                    in seq (lift_res (map_err PSE_Orchestration
                              (build_resource_interaction_redirect ev resource_ix callback_url)))
                         (\<lambda>redirect. ret (PIO_Redirect redirect)))
                | None \<Rightarrow>
                    (case pr_snapshot record of
                       PSn_Waiting _ requirement \<Rightarrow>
                         seq (lift_res (map_err (\<lambda>e. PSE_Orchestration (OE_PendingBody e))
                                (for_waiting requirement PS_Interacting)))
                           (\<lambda>body. ret (PIO_Pending body))
                     | PSn_Complete _ \<Rightarrow> ret PIO_InvalidCode)))))
       (canonicalize_code (ev_up ev) code)"

section \<open>What resuming a pending request does to the store\<close>

text \<open>
  The abstract effect of a resumption on the map of records: it touches the one record it was
  asked about, and the new snapshot of that record is the outcome reported to the agent.
\<close>

definition same_identity :: "'c pending_record \<Rightarrow> 'c pending_record \<Rightarrow> bool" where
  "same_identity r r' \<longleftrightarrow>
     pr_id r' = pr_id r \<and> created_at r' = created_at r \<and> expires_at r' = expires_at r"

definition resumption :: "string \<Rightarrow> string \<Rightarrow> (string \<rightharpoonup> 'c pending_record) \<Rightarrow>
    person_token_flow_outcome \<Rightarrow> (string \<rightharpoonup> 'c pending_record) \<Rightarrow> bool" where
  "resumption location i m out m' \<longleftrightarrow>
     (case out of
        PF_Granted body \<Rightarrow>
          (\<exists>r. m i = Some r \<and> m' = m(i \<mapsto> set_snapshot (PSn_Complete (PO_AuthToken body)) r))
      | PF_Denied err \<Rightarrow>
          (\<exists>r. m i = Some r \<and> m' = m(i \<mapsto> set_snapshot (PSn_Complete (PO_Error err)) r))
      | PF_Deferred d \<Rightarrow>
          (\<exists>r r'. m i = Some r \<and> m' = m(i \<mapsto> r') \<and> same_identity r r' \<and>
             pr_snapshot r' = PSn_Waiting PS_Pending (dc_requirement d) \<and> dc_location d = location)
      | PF_Gone \<Rightarrow> m' \<in> {m, m(i := None)}
      | PF_Unauthorized \<Rightarrow> m' = m
      | PF_BadGateway \<Rightarrow> m' = m)"

definition resumed ::
    "('s \<Rightarrow> bool) \<Rightarrow> ('s \<Rightarrow> string \<rightharpoonup> 'c pending_record) \<Rightarrow> string \<Rightarrow> string \<Rightarrow>
     (string \<rightharpoonup> 'c pending_record) \<Rightarrow> 'e + person_token_flow_outcome \<Rightarrow> 's \<Rightarrow> bool" where
  "resumed ok look location i m x s' \<longleftrightarrow> ok s' \<and>
     (case x of Inl _ \<Rightarrow> look s' = m | Inr out \<Rightarrow> resumption location i m out (look s'))"

locale person_store = pending_store ops look ok
  for ops :: "('s, 'e, person_pending_context) store_ops" and look and ok +
  fixes svc :: "('key, 's, 'e) person_service"
  assumes uses_store: "pv_pending svc = ops"
begin

abbreviation post :: "string \<Rightarrow> (string \<rightharpoonup> person_pending_context pending_record) \<Rightarrow>
    'e person_error + person_token_flow_outcome \<Rightarrow> 's \<Rightarrow> bool" where
  "post i m \<equiv> resumed ok look (pending_url (pv_config svc) i) i m"

lemmas post_def = resumed_def

lemma complete_with_post:
  assumes "ok s" "look s i = Some r"
    and "res = PF_Granted body \<and> out = PO_AuthToken body \<or> res = PF_Denied err \<and> out = PO_Error err"
  shows "run_sat (complete_with svc i out res) s (post i (look s))"
  unfolding complete_with_def sat_simps uses_store
  by (rule complete_sat [OF assms(1)]; use assms in
      \<open>auto simp: sat_simps post_def resumption_def complete_at_def snapshot_complete_def\<close>)

text \<open>Reload the record and store it again, waiting for a new requirement.\<close>

lemma reload_save_post:
  assumes "ok s" "\<And>r. same_identity r (f r) \<and> pr_snapshot (f r) = PSn_Waiting PS_Pending q"
  shows "run_sat (seq (store_op (op_load ops i)) (\<lambda>found. case found of
        None \<Rightarrow> ret PF_Gone
      | Some r \<Rightarrow> seq (store_op (op_save ops i (f r))) (\<lambda>_.
          ret (PF_Deferred \<lparr>dc_location = pending_url (pv_config svc) i, dc_requirement = q\<rparr>))))
    s (post i (look s))"
  unfolding sat_simps
proof (rule load_sat [OF assms(1)], goal_cases)
  case (1 s1)
  have "run_sat (seq (store_op (op_save ops i (f r))) (\<lambda>_.
      ret (PF_Deferred \<lparr>dc_location = pending_url (pv_config svc) i, dc_requirement = q\<rparr>)))
      s1 (post i (look s))" if "look s i = Some r" for r
    unfolding sat_simps
    by (rule save_sat [OF 1(1)]; use 1 that assms(2) [of r] in \<open>auto simp: post_def resumption_def\<close>)
  then show ?case using 1 by (auto simp: sat_simps(1) post_def resumption_def split: option.split)
qed (simp add: post_def)

lemma update_defer_post:
  "ok s \<Longrightarrow> run_sat (update_person_pending_defer svc i requirement) s (post i (look s))"
  unfolding update_person_pending_defer_def uses_store
  by (rule reload_save_post) (simp_all add: same_identity_def snapshot_waiting_def)

lemma federated_defer_post:
  "ok s \<Longrightarrow>
    run_sat (create_federated_deferred_response ev svc ctx (Some i) requirement fed jwt) s (post i (look s))"
  unfolding create_federated_deferred_response_def Let_def uses_store option.case
    if_P [OF option.distinct(2)]
  by (rule reload_save_post) (simp_all add: same_identity_def snapshot_waiting_def)

lemma apply_pending_post:
  assumes "ok s" "look s i = Some r"
  shows "run_sat (apply_person_pending_decision ev svc ctx i decision jwt) s (post i (look s))"
proof (cases decision)
  case (PD_Grant g)
  show ?thesis
  proof (cases "mint_person_auth (pv_config svc) (pv_minter svc) (gr_sub g) (gr_scope g) (pt_agent_claims ctx)")
    case (Inl e)
    with assms PD_Grant show ?thesis by (simp add: apply_person_pending_decision_def sat_simps post_def)
  next
    case (Inr body)
    with complete_with_post [OF assms, of "PF_Granted body" body "PO_AuthToken body"] PD_Grant
    show ?thesis by (simp add: apply_person_pending_decision_def sat_simps)
  qed
next
  case PD_Federate
  show ?thesis
  proof (cases "federate_to_access_server (pv_lib svc) (ev_parse ev) (ev_now ev) (pv_config svc)
      (tx_resource_token (pt_exchange_request ctx)) jwt")
    case (Inl e)
    with assms PD_Federate show ?thesis
      by (simp add: apply_person_pending_decision_def sat_simps post_def resumption_def)
  next
    case (Inr o')
    show ?thesis
    proof (cases o')
      case (FedComplete body)
      with Inr complete_with_post [OF assms, of "PF_Granted body" body "PO_AuthToken body"] PD_Federate
      show ?thesis by (simp add: apply_person_pending_decision_def)
    next
      case (FedDeferred req' pend u)
      with Inr federated_defer_post [OF assms(1)] PD_Federate
      show ?thesis by (simp add: apply_person_pending_decision_def)
    qed
  qed
next
  case (PD_Deny err)
  with complete_with_post [OF assms, of "PF_Denied err" _ "PO_Error err"]
  show ?thesis by (simp add: apply_person_pending_decision_def)
next
  case (PD_Defer requirement)
  with update_defer_post [OF assms(1)] show ?thesis by (simp add: apply_person_pending_decision_def)
qed

lemma federated_post_post:
  assumes "ok s" "look s i = Some r"
  shows "run_sat (handle_federated_pending_post ev svc i fed jwt url input) s (post i (look s))"
proof -
  let ?as = "psc_access_server (pv_config svc)"
  have gone: "run_sat (op_remove ops i) s (\<lambda>_. post i (look s) (Inr PF_Gone))"
    by (rule remove_sat [OF assms(1)]; auto simp: post_def resumption_def)
  have "run_sat (case p of
      SP_AuthToken body \<Rightarrow>
        (case verify_federated_auth_token (pv_lib svc) (ev_parse ev) (psc_fetcher (pv_config svc))
            (ev_now ev) (auth_token body) (fp_access_server_url fed) url jwt of
           Inl _ \<Rightarrow> ret PF_Unauthorized
         | Inr _ \<Rightarrow> complete_with svc i (PO_AuthToken body) (PF_Granted body))
    | SP_Deferred requirement location_url \<Rightarrow>
        seq (store_op (op_load ops i)) (\<lambda>found. case found of
            None \<Rightarrow> ret PF_Gone
          | Some record \<Rightarrow> seq (store_op (op_save ops i
              (record\<lparr>pr_snapshot := snapshot_waiting requirement,
                 pr_context := (pr_context record)\<lparr>federation :=
                   Some \<lparr>fp_access_server_url = fp_access_server_url fed,
                     as_pending_url = location_url\<rparr>\<rparr>\<rparr>))) (\<lambda>_.
              ret (PF_Deferred \<lparr>dc_location = pending_url (pv_config svc) i, dc_requirement = requirement\<rparr>)))
    | SP_Error err \<Rightarrow> complete_with svc i (PO_Error err) (PF_Denied err)
    | SP_Gone \<Rightarrow> seq (ignore (op_remove ops i)) (\<lambda>_. ret PF_Gone)) s (post i (look s))" for p
  proof (cases p)
    case (SP_AuthToken body)
    then show ?thesis using assms complete_with_post [OF assms, of "PF_Granted body" body "PO_AuthToken body"]
      by (auto simp: sat_simps post_def resumption_def split: sum.splits)
  next
    case (SP_Deferred q u)
    show ?thesis unfolding SP_Deferred server_poll_outcome.case
      by (rule reload_save_post [OF assms(1)]) (simp_all add: same_identity_def snapshot_waiting_def)
  next
    case (SP_Error err)
    then show ?thesis using complete_with_post [OF assms, of "PF_Denied err" _ "PO_Error err"] by simp
  next
    case SP_Gone
    then show ?thesis using gone by (simp add: sat_simps)
  qed
  note outcome = this
  have cancel: "run_sat (complete_with svc i (PO_Error cancelled_error) (PF_Denied cancelled_error)) s (post i (look s))"
    using complete_with_post [OF assms, of "PF_Denied cancelled_error" _ "PO_Error cancelled_error"] by simp
  have stay: "run_sat (ret PF_BadGateway) s (post i (look s))"
    using assms by (simp add: sat_simps post_def resumption_def)
  show ?thesis
    unfolding handle_federated_pending_post_def Let_def uses_store
    using cancel stay outcome by (auto split: sum.split option.split)
qed

lemma with_live_post:
  assumes "ok s"
    and "\<And>r s1. ok s1 \<Longrightarrow> look s1 = look s \<Longrightarrow> look s i = Some r \<Longrightarrow> \<not> is_expired (ev_now ev) r \<Longrightarrow>
      run_sat (k r) s1 (post i (look s))"
  shows "run_sat (with_live_record ev svc i k) s (post i (look s))"
  unfolding with_live_record_def sat_simps uses_store
proof (rule load_sat [OF assms(1)], goal_cases)
  case (1 s1)
  have gone: "run_sat (op_remove ops i) s1 (\<lambda>_. post i (look s) (Inr PF_Gone))"
    by (rule remove_sat [OF 1(1)]; use 1 in \<open>auto simp: post_def resumption_def\<close>)
  have none: "post i (look s) (Inr PF_Gone) s1" using 1 by (simp add: post_def resumption_def)
  show ?case
    using 1 assms(2) [OF 1] gone none
    by (cases "look s i") (auto simp: sat_simps)
qed (simp add: post_def)

lemma resume_post:
  assumes "ok s"
  shows "run_sat (person_resume_pending ev svc i input) s (post i (look s))"
  unfolding person_resume_pending_def Let_def
proof (rule with_live_post [OF assms])
  fix r s1
  assume h: "ok s1" "look s1 = look s" "look s i = Some r" "\<not> is_expired (ev_now ev) r"
  then have l: "look s1 i = Some r" by simp
  let ?ctx = "context_of (pr_context r) (pp_resource_claims (pr_context r))"
  show "run_sat (case federation (pr_context r) of
        None \<Rightarrow> seq (lift_res (map_err PSE_Policy (pol_resume (pv_policy svc) ?ctx input)))
            (\<lambda>decision. apply_person_pending_decision ev svc ?ctx i decision (pp_agent_token (pr_context r)))
      | Some fed \<Rightarrow> handle_federated_pending_post ev svc i fed (pp_agent_token (pr_context r))
            (psc_resource_url (pv_config svc)) input) s1 (post i (look s))"
    using federated_post_post [OF h(1) l] apply_pending_post [OF h(1) l] h
    by (cases "pol_resume (pv_policy svc) ?ctx input")
      (auto simp: sat_simps post_def split: option.splits)
qed

lemma callback_post:
  assumes "ok s"
  shows "run_sat (resolve_interaction_callback ev svc i e) s (post i (look s))"
  unfolding resolve_interaction_callback_def Let_def
proof (rule with_live_post [OF assms])
  fix r s1
  assume h: "ok s1" "look s1 = look s" "look s i = Some r" "\<not> is_expired (ev_now ev) r"
  then have l: "look s1 i = Some r" by simp
  let ?ctx = "context_of (pr_context r) ((pp_resource_claims (pr_context r))\<lparr>rc_interaction := None\<rparr>)"
  show "run_sat (case e of
        None \<Rightarrow> if federation (pr_context r) \<noteq> None then ret PF_BadGateway
          else seq (lift_res (map_err PSE_Policy (pol_evaluate (pv_policy svc) ?ctx)))
            (\<lambda>decision. apply_person_pending_decision ev svc ?ctx i decision (pp_agent_token (pr_context r)))
      | Some err \<Rightarrow> complete_with svc i (PO_Error (map_interaction_callback_error err))
          (PF_Denied (map_interaction_callback_error err))) s1 (post i (look s))"
    using complete_with_post [OF h(1) l] apply_pending_post [OF h(1) l] h
    by (cases "pol_evaluate (pv_policy svc) ?ctx")
      (auto simp: sat_simps post_def resumption_def split: option.splits)
qed

end

section \<open>The service on the in-memory store\<close>

interpretation person_mem: person_store "mem_ops iter" mem_look "\<lambda>s. mem_ok s \<and> enumerates iter"
    "svc\<lparr>pv_pending := mem_ops iter\<rparr>" for iter svc
  by unfold_locales simp

lemma in_memory: "pv_pending svc = ops \<Longrightarrow> svc\<lparr>pv_pending := ops\<rparr> = svc"
  by auto

text \<open>
  C23: whatever the policy and the Access Server answer, resuming a pending request (by agent
  input or by the interaction callback) touches at most that one record; the record's
  new snapshot is exactly the outcome the caller is told, its identity and deadline never
  change, and a failed call changes nothing.
\<close>
theorem resumption_contract:
  assumes "mem_ok s" "enumerates iter" "pv_pending svc = mem_ops iter"
    and "act \<in> {person_resume_pending ev svc i input, resolve_interaction_callback ev svc i cb}"
    and "act s = (x, s')"
  shows "mem_ok s' \<and>
    (case x of Inl _ \<Rightarrow> mem_look s' = mem_look s
      | Inr out \<Rightarrow> resumption (pending_url (pv_config svc) i) i (mem_look s) out (mem_look s'))"
proof (intro conjI)
  have s: "svc\<lparr>pv_pending := mem_ops iter\<rparr> = svc" using assms(3) by simp
  let ?P = "resumed (\<lambda>s. mem_ok s \<and> enumerates iter) mem_look (pending_url (pv_config svc) i) i (mem_look s)"
  have k: "mem_ok s \<and> enumerates iter" using assms(1,2) ..
  have "run_sat (person_resume_pending ev svc i input) s ?P"
    "run_sat (resolve_interaction_callback ev svc i cb) s ?P"
    using person_mem.resume_post [OF k, where svc = svc and ev = ev and i = i and input = input]
      person_mem.callback_post [OF k, where svc = svc and ev = ev and i = i and e = cb] s
    by simp_all
  then have p: "?P x s'" using assms(4,5) by (auto dest: sat_result)
  show "mem_ok s'" using p by (simp add: resumed_def)
  show "case x of Inl _ \<Rightarrow> mem_look s' = mem_look s
      | Inr out \<Rightarrow> resumption (pending_url (pv_config svc) i) i (mem_look s) out (mem_look s')"
    using p by (simp add: resumed_def)
qed

section \<open>Where a grant comes from\<close>

lemma complete_with_Ok: "complete_with svc i out res s = (Inr r, s') \<Longrightarrow> r = res"
  by (auto simp: complete_with_def run_Ok)

lemma no_grant:
  "update_person_pending_defer svc i q s \<noteq> (Inr (PF_Granted body), s')"
  "create_federated_deferred_response ev svc ctx p q fed jwt s \<noteq> (Inr (PF_Granted body), s')"
  by (auto simp: update_person_pending_defer_def create_federated_deferred_response_def Let_def run_Ok
      split: option.splits if_splits)

lemma apply_pending_granted:
  assumes "apply_person_pending_decision ev svc ctx i decision jwt s = (Inr (PF_Granted body), s')"
  shows "(\<exists>g. decision = PD_Grant g \<and> mint_person_auth (pv_config svc) (pv_minter svc) (gr_sub g)
       (gr_scope g) (pt_agent_claims ctx) = Ok body) \<or>
     (decision = PD_Federate \<and> federate_to_access_server (pv_lib svc) (ev_parse ev) (ev_now ev)
       (pv_config svc) (tx_resource_token (pt_exchange_request ctx)) jwt = Ok (FedComplete body))"
  using assms
  by (auto simp: apply_person_pending_decision_def run_Ok map_err_Ok no_grant
      split: person_token_decision.splits sum.splits federation_outcome.splits dest!: complete_with_Ok)

lemma federated_granted:
  assumes "handle_federated_pending_post ev svc i fed jwt url input s = (Inr (PF_Granted body), s')"
  shows "verify_federated_auth_token (pv_lib svc) (ev_parse ev) (psc_fetcher (pv_config svc)) (ev_now ev)
     (auth_token body) (fp_access_server_url fed) url jwt = Ok ()"
  using assms
  by (auto simp: handle_federated_pending_post_def Let_def run_Ok
      split: if_splits sum.splits option.splits server_poll_outcome.splits dest!: complete_with_Ok)

text \<open>
  C13: an agent that posts to a pending request is handed an auth token only if the request is
  live and either this server's policy granted it (and the minter signed for the recorded
  agent's key), or the token comes from an Access Server and has passed verification for the
  recorded agent token and this server's resource. That Access Server is the one the request
  was federated to, or, when the policy federates only now, the resource token's audience.
\<close>
theorem resumed_grant_authorised:
  assumes "decode_agrees (pv_lib svc)" and "pv_pending svc = mem_ops iter"
    and "person_resume_pending ev svc i input s = (Ok (PF_Granted body), s')"
  shows "\<exists>r. mem_look s i = Some r \<and> \<not> is_expired (ev_now ev) r \<and>
    (let c = pr_context r; decision = pol_resume (pv_policy svc) (context_of c (pp_resource_claims c)) input;
       token_ok = (\<lambda>iss. federated_token_ok (pv_lib svc) (psc_fetcher (pv_config svc)) (ev_now ev)
         (auth_token body) iss (psc_resource_url (pv_config svc)) (pp_agent_token c)) in
     case federation c of
       Some fed \<Rightarrow> token_ok (fp_access_server_url fed)
     | None \<Rightarrow>
         (\<exists>g. decision = Ok (PD_Grant g) \<and>
            mint_person_auth (pv_config svc) (pv_minter svc) (gr_sub g) (gr_scope g) (pp_agent_claims c) = Ok body) \<or>
         (\<exists>t. decision = Ok PD_Federate \<and> token_ok (rc_aud t) \<and>
            parse_token (pv_lib svc) (tx_resource_token (pp_exchange_request c)) = Ok (PT_Resource t)))"
proof -
  obtain r where r: "mem_look s i = Some r" "\<not> is_expired (ev_now ev) r"
    and k: "(case federation (pr_context r) of
         Some fed \<Rightarrow> handle_federated_pending_post ev svc i fed (pp_agent_token (pr_context r))
             (psc_resource_url (pv_config svc)) input
       | None \<Rightarrow>
           (let ctx = context_of (pr_context r) (pp_resource_claims (pr_context r)) in
            seq (lift_res (map_err PSE_Policy (pol_resume (pv_policy svc) ctx input))) (\<lambda>decision.
            apply_person_pending_decision ev svc ctx i decision (pp_agent_token (pr_context r))))) s
      = (Ok (PF_Granted body), s')"
    using assms(2,3)
    by (auto simp: person_resume_pending_def with_live_record_def run_Ok mem_run Let_def
        split: option.splits if_splits)
  let ?c = "pr_context r"
  let ?ctx = "context_of ?c (pp_resource_claims ?c)"
  show ?thesis
  proof (cases "federation ?c")
    case (Some fed)
    then have "handle_federated_pending_post ev svc i fed (pp_agent_token ?c)
        (psc_resource_url (pv_config svc)) input s = (Ok (PF_Granted body), s')" using k by simp
    from verify_federated_Ok [OF assms(1) federated_granted [OF this]] r Some show ?thesis
      by (auto simp: Let_def)
  next
    case None
    with k obtain d where d: "pol_resume (pv_policy svc) ?ctx input = Ok d"
      "apply_person_pending_decision ev svc ?ctx i d (pp_agent_token ?c) s = (Ok (PF_Granted body), s')"
      by (auto simp: Let_def run_Ok)
    from apply_pending_granted [OF d(2)] show ?thesis
    proof (elim disjE exE conjE)
      fix g
      assume "d = PD_Grant g" "mint_person_auth (pv_config svc) (pv_minter svc) (gr_sub g) (gr_scope g)
          (pt_agent_claims ?ctx) = Ok body"
      with r None d show ?thesis by (auto simp: Let_def context_of_def)
    next
      assume f: "d = PD_Federate" "federate_to_access_server (pv_lib svc) (ev_parse ev) (ev_now ev) (pv_config svc)
          (tx_resource_token (pt_exchange_request ?ctx)) (pp_agent_token ?c) = Ok (FedComplete body)"
      from federated_grant_ok [OF assms(1) f(2)] f(1) d(1) r None show ?thesis
        by (auto simp: Let_def context_of_def)
    qed
  qed
qed

text \<open>
  C31: a finished request is not final. If a live request was already denied, or completed in any
  other way, a further post still reaches the policy, and a policy that grants replaces the
  recorded outcome with a fresh token, although the protocol asks for \<^verbatim>\<open>410 Gone\<close> after a
  terminal response.
\<close>
theorem completed_request_resumes:
  assumes "pv_pending svc = mem_ops iter" and "mem_look s i = Some r"
    and "pr_snapshot r = PSn_Complete outcome" and "\<not> is_expired (ev_now ev) r"
    and "federation (pr_context r) = None"
    and "pol_resume (pv_policy svc) (context_of (pr_context r) (pp_resource_claims (pr_context r))) input
      = Ok (PD_Grant g)"
    and "mint_person_auth (pv_config svc) (pv_minter svc) (gr_sub g) (gr_scope g)
      (pp_agent_claims (pr_context r)) = Ok body"
  shows "\<exists>s'. person_resume_pending ev svc i input s = (Ok (PF_Granted body), s') \<and>
    mem_look s' i = Some (set_snapshot (PSn_Complete (PO_AuthToken body)) r)"
proof -
  obtain s' where c: "op_complete (pv_pending svc) i (PO_AuthToken body) s = (Ok (), s')"
    "mem_look s' = complete_at i (PO_AuthToken body) (mem_look s)"
    unfolding assms(1) using mem_run_complete by blast
  have "person_resume_pending ev svc i input s = (Ok (PF_Granted body), s')"
    using assms c(1)
    by (auto simp: person_resume_pending_def with_live_record_def run_Ok mem_run Let_def
        apply_person_pending_decision_def complete_with_def context_of_def)
  moreover have "mem_look s' i = Some (set_snapshot (PSn_Complete (PO_AuthToken body)) r)"
    using c(2) assms(2) by (simp add: complete_at_def snapshot_complete_def)
  ultimately show ?thesis by blast
qed

section \<open>The interaction page\<close>

lemma seq_run: "m s = (Inr a, s1) \<Longrightarrow> seq m f s = f a s1"
  by simp

lemma store_op_run: "m s = (Inr a, s1) \<Longrightarrow> store_op m s = (Inr a, s1)"
  by simp

definition initiated_record ::
    "env \<Rightarrow> person_server_config \<Rightarrow> person_token_context \<Rightarrow> string \<Rightarrow> resource_interaction_claim \<Rightarrow>
     person_pending_context pending_record" where
  "initiated_record ev cfg ctx jwt ix =
     pending_record_new (ev_now ev) (generate_pending_id (ev_id_bytes ev))
       (person_pending_from ctx jwt None (Some ix) (Some (generate_code (ev_code_bytes ev))))
       (snapshot_waiting (DR_Interaction (psc_interaction_url cfg) (generate_code (ev_code_bytes ev))))
       (psc_pending_ttl_secs cfg)"

lemma generated_code_typed: "typed_code (generate_code buf) (generate_code buf)"
  by (simp add: typed_code_def typed_for_def list_all2_refl)

lemma canonical_generated: "canonicalize_code up (generate_code buf) = Some (generate_code buf)"
  by (rule canonical_typed [OF generated_code_typed])

lemma initiated_run:
  assumes "pv_pending svc = mem_ops iter" "rc_interaction (pt_resource_claims ctx) = Some ix"
    and "i = generate_pending_id (ev_id_bytes ev)"
  shows "person_exchange_token ev svc ctx jwt s =
    (Ok (PF_Deferred \<lparr>dc_location = pending_url (pv_config svc) i,
       dc_requirement = DR_Interaction (psc_interaction_url (pv_config svc)) (generate_code (ev_code_bytes ev))\<rparr>),
     mem_insert i (initiated_record ev (pv_config svc) ctx jwt ix) (s\<lparr>last_created := Some i\<rparr>))"
  using assms
  by (simp add: person_exchange_token_def create_resource_initiated_deferred_response_def Let_def
      seq_run mem_run canonical_generated initiated_record_def pending_record_new_def)

text \<open>One visit: the only record with this unused code is found, consumed and redirected.\<close>

lemma begin_redirects:
  assumes "mem_ok s" "enumerates iter" "pv_pending svc = mem_ops iter"
    and "typed_code typed (generate_code buf)"
    and "mem_look s i = Some r" "code_matches (generate_code buf) r"
    and "\<And>j q. mem_look s j = Some q \<Longrightarrow> code_matches (generate_code buf) q \<Longrightarrow> j = i"
    and "\<not> is_expired (ev_now ev) r" "resource_interaction (pr_context r) = Some ix"
    and "ev_parse ev (ri_url ix) = Some p" "u_scheme p = ''https''"
  shows "\<exists>act. begin_interaction ev svc typed = Some act \<and>
    act s = (Ok (PIO_Redirect (ev_with_query ev (ri_url ix) [(''code'', ri_code ix), (''callback'',
        trim_end_matches (CHR ''/'') (psc_interaction_url (pv_config svc)) @ ''/callback?id='' @ i)])),
      mem_insert i (consume_code r) s)"
proof -
  have f: "op_find_if (pv_pending svc) (code_matches (generate_code buf)) s = (Ok (Some (i, r)), s)"
    unfolding assms(3)
    by (rule mem_find_unique [where p = "code_matches (generate_code buf)", OF assms(2,1,5,6)])
      (use assms(7) in blast)
  have v: "op_save (pv_pending svc) i (consume_code r) s = (Ok (), mem_insert i (consume_code r) s)"
    by (simp add: assms(3) mem_run)
  have ri: "resource_interaction (pr_context (consume_code r)) = Some ix"
    using assms(9) by (simp add: consume_code_def)
  show ?thesis
    using assms(8,10,11) f v ri canonical_typed [OF assms(4), of "ev_up ev"]
    by (simp add: begin_interaction_def seq_run Let_def validate_interaction_url_def
        build_resource_interaction_redirect_def)
qed

lemma consumed: "\<not> code_matches c (consume_code r)"
  by (simp add: code_matches_def consume_code_def)

lemma begin_invalid:
  assumes "mem_ok s" "enumerates iter" "pv_pending svc = mem_ops iter"
    and "typed_code typed (generate_code buf)"
    and "\<And>j q. mem_look s j = Some q \<Longrightarrow> \<not> code_matches (generate_code buf) q"
  shows "\<exists>act. begin_interaction ev svc typed = Some act \<and> act s = (Ok PIO_InvalidCode, s)"
proof -
  have f: "op_find_if (pv_pending svc) (code_matches (generate_code buf)) s = (Ok None, s)"
    unfolding assms(3) by (rule mem_find_none [OF assms(2,1)]) (use assms(5) in blast)
  show ?thesis
    using f canonical_typed [OF assms(4), of "ev_up ev"]
    by (simp add: begin_interaction_def seq_run)
qed

text \<open>
  C22: a resource-initiated interaction reaches the resource, once. The agent is deferred with a
  fresh code; whoever types that code in any accepted spelling before the deadline is
  redirected to the resource's own interaction URL with the resource's code and a callback
  naming this very request; from then on the code is invalid for everybody.
\<close>
theorem initiated_interaction_single_use:
  assumes "mem_ok s" "enumerates iter" "pv_pending svc = mem_ops iter"
    and "rc_interaction (pt_resource_claims ctx) = Some ix"
    and "\<forall>j q. \<not> (mem_look s j = Some q \<and> code_matches (generate_code (ev_code_bytes ev)) q)"
    and "typed_code typed (generate_code (ev_code_bytes ev))"
    and "ev_now ev' \<le> ev_now ev + psc_pending_ttl_secs (pv_config svc)"
    and "ev_parse ev' (ri_url ix) = Some p" "u_scheme p = ''https''"
    and "i = generate_pending_id (ev_id_bytes ev)"
  shows "\<exists>d s1 act s2.
    person_exchange_token ev svc ctx jwt s = (Ok (PF_Deferred d), s1) \<and>
    d = \<lparr>dc_location = pending_url (pv_config svc) i, dc_requirement =
       DR_Interaction (psc_interaction_url (pv_config svc)) (generate_code (ev_code_bytes ev))\<rparr> \<and>
    begin_interaction ev' svc typed = Some act \<and>
    act s1 = (Ok (PIO_Redirect (ev_with_query ev' (ri_url ix) [(''code'', ri_code ix), (''callback'',
        trim_end_matches (CHR ''/'') (psc_interaction_url (pv_config svc)) @ ''/callback?id='' @ i)])), s2) \<and>
    (\<forall>ev'' typed'. typed_code typed' (generate_code (ev_code_bytes ev)) \<longrightarrow>
       (\<exists>act'. begin_interaction ev'' svc typed' = Some act' \<and> act' s2 = (Ok PIO_InvalidCode, s2)))"
proof -
  let ?c = "generate_code (ev_code_bytes ev)"
  let ?r = "initiated_record ev (pv_config svc) ctx jwt ix"
  let ?s1 = "mem_insert i ?r (s\<lparr>last_created := Some i\<rparr>)"
  let ?s2 = "mem_insert i (consume_code ?r) ?s1"
  have ok: "mem_ok ?s1" "mem_ok ?s2" using assms(1) by (simp_all add: mem_insert_ok)
  have look: "mem_look ?s1 = (mem_look s)(i \<mapsto> ?r)" "mem_look ?s2 = (mem_look s)(i \<mapsto> consume_code ?r)"
    by (simp_all add: mem_insert_look)
  have r: "code_matches ?c ?r" "resource_interaction (pr_context ?r) = Some ix"
    by (simp_all add: code_matches_def initiated_record_def pending_record_new_def person_pending_from_def)
  have live: "\<not> is_expired (ev_now ev') ?r"
    using assms(7) by (simp add: is_expired_def initiated_record_def pending_record_new_def)
  have only: "mem_look ?s1 j = Some q \<Longrightarrow> code_matches ?c q \<Longrightarrow> j = i" for j q
    using assms(5) by (auto simp: look split: if_splits)
  have used: "mem_look ?s2 j = Some q \<Longrightarrow> \<not> code_matches ?c q" for j q
    using assms(5) by (auto simp: look consumed split: if_splits)
  have found: "mem_look ?s1 i = Some ?r" by (simp add: look)
  obtain act where act: "begin_interaction ev' svc typed = Some act"
    "act ?s1 = (Ok (PIO_Redirect (ev_with_query ev' (ri_url ix) [(''code'', ri_code ix), (''callback'',
        trim_end_matches (CHR ''/'') (psc_interaction_url (pv_config svc)) @ ''/callback?id='' @ i)])), ?s2)"
    using begin_redirects [where buf = "ev_code_bytes ev" and ev = ev', OF ok(1) assms(2,3,6) found r(1) _ live r(2) assms(8,9)]
      only by blast
  have later: "\<exists>act'. begin_interaction ev'' svc typed' = Some act' \<and> act' ?s2 = (Ok PIO_InvalidCode, ?s2)"
    if "typed_code typed' ?c" for ev'' typed'
    using begin_invalid [where ev = ev'', OF ok(2) assms(2,3) that] used by blast
  from initiated_run [OF assms(3,4,10), where jwt = jwt and s = s] act later show ?thesis by blast
qed

section \<open>A concrete run\<close>

definition sample_env :: env where
  "sample_env =
     \<lparr>ev_now = 1000, ev_id_bytes = [1, 2], ev_code_bytes = [1, 4, 21, 213, 15], ev_up = (\<lambda>w. w),
      ev_low = (\<lambda>s. s), ev_parse = sample_parse, ev_with_query = (\<lambda>u _. u)\<rparr>"

definition sample_grant_policy :: "(person_token_context, person_token_decision) policy" where
  "sample_grant_policy =
     \<lparr>pol_evaluate = (\<lambda>_. Ok (PD_Grant \<lparr>gr_sub = ''u'', gr_scope = None\<rparr>)),
      pol_resume = (\<lambda>_ _. Ok (PD_Grant \<lparr>gr_sub = ''u'', gr_scope = None\<rparr>))\<rparr>"

definition sample_service :: "(string, person_pending_context mem_store, unit) person_service" where
  "sample_service =
     \<lparr>pv_lib = sample_lib, pv_policy = sample_grant_policy, pv_pending = mem_ops id,
      pv_minter = (\<lambda>_ _ _ _ _ _. Ok ''auth''), pv_config = sample_config\<rparr>"

definition sample_body :: token_response_body where
  "sample_body = \<lparr>auth_token = ''auth'', expires_in = 3600\<rparr>"

definition sample_record :: "pending_snapshot \<Rightarrow> person_pending_context pending_record" where
  "sample_record snap =
     pending_record_new 900 ''p1'' (person_pending_from sample_context ''agent'' None None None) snap 600"

definition sample_store :: "pending_snapshot \<Rightarrow> person_pending_context mem_store" where
  "sample_store snap = \<lparr>inner = [(''p1'', sample_record snap)], last_created = None\<rparr>"

lemma sample_service_facts:
  "pv_pending sample_service = mem_ops id" "pv_lib sample_service = sample_lib"
  "pv_policy sample_service = sample_grant_policy"
  "mint_person_auth (pv_config sample_service) (pv_minter sample_service) sub scope a = Ok sample_body"
  by (simp_all add: sample_service_def mint_person_auth_def sample_body_def)

lemma sample_store_facts:
  "mem_ok (sample_store x)" "mem_look (sample_store x) ''p1'' = Some (sample_record x)" "enumerates id"
  "pr_snapshot (sample_record x) = x" "\<not> is_expired (ev_now sample_env) (sample_record x)"
  "federation (pr_context (sample_record x)) = None"
  by (simp_all add: sample_store_def mem_ok_def mem_look_def enumerates_def sample_record_def
      pending_record_new_def person_pending_from_def is_expired_def sample_env_def)

lemma sample_resume:
  "\<exists>s'. person_resume_pending sample_env sample_service ''p1'' PI_InteractionCompleted (sample_store x)
     = (Ok (PF_Granted sample_body), s')"
proof -
  obtain s' where c: "op_complete (pv_pending sample_service) ''p1'' (PO_AuthToken sample_body) (sample_store x)
      = (Ok (), s')"
    unfolding sample_service_facts using mem_run_complete by blast
  have l: "op_load (pv_pending sample_service) ''p1'' (sample_store x) = (Ok (Some (sample_record x)), sample_store x)"
    by (simp add: sample_service_facts mem_run sample_store_facts)
  show ?thesis
    using c l
    by (simp add: person_resume_pending_def with_live_record_def seq_run Let_def sample_store_facts
        sample_service_facts(2-4) sample_grant_policy_def apply_person_pending_decision_def complete_with_def)
qed

theorem completed_request_resumes_witness:
  "\<exists>s'. person_resume_pending sample_env sample_service ''p1'' PI_InteractionCompleted
        (sample_store (PSn_Complete (PO_Error cancelled_error)))
     = (Ok (PF_Granted sample_body), s') \<and>
     mem_look s' ''p1'' = Some (set_snapshot (PSn_Complete (PO_AuthToken sample_body))
       (sample_record (PSn_Complete (PO_Error cancelled_error))))"
  by (rule completed_request_resumes [of sample_service id])
    (rule sample_service_facts sample_store_facts | simp add: sample_service_facts sample_grant_policy_def)+

theorem resumption_contract_witness:
  "\<exists>s'. person_resume_pending sample_env sample_service ''p1'' PI_InteractionCompleted
        (sample_store (snapshot_waiting DR_Approval)) = (Ok (PF_Granted sample_body), s') \<and> mem_ok s' \<and>
     mem_look s' ''p1'' = Some (set_snapshot (PSn_Complete (PO_AuthToken sample_body))
       (sample_record (snapshot_waiting DR_Approval)))"
proof -
  let ?s = "sample_store (snapshot_waiting DR_Approval)"
  obtain s' where r: "person_resume_pending sample_env sample_service ''p1'' PI_InteractionCompleted ?s
      = (Ok (PF_Granted sample_body), s')" using sample_resume by blast
  have m: "person_resume_pending sample_env sample_service ''p1'' PI_InteractionCompleted \<in>
      {person_resume_pending sample_env sample_service ''p1'' PI_InteractionCompleted,
       resolve_interaction_callback sample_env sample_service ''p1'' None}" by simp
  note c = resumption_contract [OF sample_store_facts(1,3) sample_service_facts(1) m r]
  show ?thesis using c r by (auto simp: resumption_def sample_store_facts)
qed

theorem resumed_grant_authorised_witness:
  "\<exists>s' r. person_resume_pending sample_env sample_service ''p1'' PI_InteractionCompleted
        (sample_store (snapshot_waiting DR_Approval)) = (Ok (PF_Granted sample_body), s') \<and>
     mem_look (sample_store (snapshot_waiting DR_Approval)) ''p1'' = Some r \<and> \<not> is_expired 1000 r"
proof -
  obtain s' where r: "person_resume_pending sample_env sample_service ''p1'' PI_InteractionCompleted
        (sample_store (snapshot_waiting DR_Approval)) = (Ok (PF_Granted sample_body), s')"
    using sample_resume by blast
  have d: "decode_agrees (pv_lib sample_service)"
    by (simp add: sample_service_facts sample_decode_agrees)
  have n: "ev_now sample_env = 1000" by (simp add: sample_env_def)
  show ?thesis using resumed_grant_authorised [OF d sample_service_facts(1) r] r unfolding n by blast
qed

definition sample_initiated :: person_token_context where
  "sample_initiated = sample_context\<lparr>pt_resource_claims :=
     sample_resource\<lparr>rc_interaction := Some \<lparr>ri_url = ''https://r/i'', ri_code = ''R1''\<rparr>\<rparr>\<rparr>"

theorem initiated_interaction_single_use_witness:
  "\<exists>d s1 act s2. person_exchange_token sample_env sample_service sample_initiated ''agent'' mem_new
       = (Ok (PF_Deferred d), s1) \<and>
     begin_interaction sample_env sample_service ''o4-2ibn8f'' = Some act \<and>
     act s1 = (Ok (PIO_Redirect ''https://r/i''), s2) \<and>
     (\<exists>act'. begin_interaction sample_env sample_service ''0421-BN8F'' = Some act' \<and>
        act' s2 = (Ok PIO_InvalidCode, s2))"
proof -
  have code: "ev_code_bytes sample_env = [1, 4, 21, 213, 15]" by (simp add: sample_env_def)
  have t: "typed_code ''o4-2ibn8f'' (generate_code (ev_code_bytes sample_env))"
    "typed_code ''0421-BN8F'' (generate_code (ev_code_bytes sample_env))"
    by (simp_all add: code sample_code typed_code_def typed_for_def to_ascii_lower_def
        is_ascii_uppercase_def byte_def char_of_def bit_Suc_0_iff)
  have h: "mem_ok mem_new" "\<forall>j q. \<not> (mem_look mem_new j = Some q \<and>
      code_matches (generate_code (ev_code_bytes sample_env)) q)"
    "rc_interaction (pt_resource_claims sample_initiated) = Some \<lparr>ri_url = ''https://r/i'', ri_code = ''R1''\<rparr>"
    "ev_now sample_env \<le> ev_now sample_env + psc_pending_ttl_secs (pv_config sample_service)"
    by (simp_all add: mem_new_def mem_ok_def mem_look_def sample_initiated_def sample_env_def
        sample_service_def sample_config_def)
  have p: "ev_parse sample_env (ri_url \<lparr>ri_url = ''https://r/i'', ri_code = ''R1''\<rparr>) =
      Some \<lparr>u_scheme = ''https'', u_username = [], u_password = None, u_host_str = Some ''h'',
       u_port = None, u_path = ''/'', u_query = None, u_fragment = None\<rparr>"
    by (simp add: sample_env_def sample_parse_def)
  have q: "ev_with_query sample_env u x = u" for u x by (simp add: sample_env_def)
  show ?thesis
    using initiated_interaction_single_use [OF h(1) sample_store_facts(3) sample_service_facts(1) h(3,2)
        t(1) h(4) p _ refl, where jwt = "''agent''"] t(2)
    unfolding q by simp blast
qed

end
