(* ===== verification/Access_Service.thy ===== *)
theory Access_Service
  imports Person_Service
begin

text \<open>
  The Access Server's token service (\<^verbatim>\<open>aauth/src/access_server/service.rs\<close>,
  \<^verbatim>\<open>aauth-policy/src/access\<close>): the context read from an exchange request, the policy
  decision, and the pending records. The effect on the store is the one of
  \<open>Person_Service.resumption\<close>, through the embedding \<open>person_flow\<close> of the outcomes.
\<close>

section \<open>Configuration and contexts\<close>

record access_server_config =
  asc_access_server_url :: string
  asc_resource_url :: string
  asc_person_server_url :: string
  asc_access_jwks_uri :: string
  asc_pending_base_url :: string
  asc_pending_path :: string
  asc_pending_ttl_secs :: u64

definition access_context_from_exchange ::
    "'key jwt_lib \<Rightarrow> access_server_config \<Rightarrow> access_token_exchange_request \<Rightarrow>
     aauth_error + access_token_context" where
  "access_context_from_exchange L cfg request =
     bind_res (parse_token L (ax_agent_token request)) (\<lambda>p.
     bind_res (case p of
         PT_Agent c \<Rightarrow> Ok c
       | PT_Auth _ \<Rightarrow> Err (ve_invalid Typ_Auth VR_WrongTyp)
       | PT_Resource _ \<Rightarrow> Err (ve_invalid Typ_Auth VR_WrongTyp)) (\<lambda>agent.
     bind_res (parse_token L (ax_resource_token request)) (\<lambda>q.
     bind_res (case q of PT_Resource c \<Rightarrow> Ok c | _ \<Rightarrow> Err (ve_invalid Typ_Resource VR_WrongTyp))
       (\<lambda>resource_claims.
     Ok \<lparr>at_access_server_url = asc_access_server_url cfg, at_resource_url = asc_resource_url cfg,
         at_person_server_url = asc_person_server_url cfg, at_agent_claims = agent,
         at_resource_claims = resource_claims, at_resource_token = ax_resource_token request,
         at_agent_token = ax_agent_token request\<rparr>))))"

definition access_context_of :: "access_pending_context \<Rightarrow> access_token_context" where
  "access_context_of c =
     \<lparr>at_access_server_url = ap_access_server_url c, at_resource_url = ap_resource_url c,
      at_person_server_url = ap_person_server_url c, at_agent_claims = ap_agent_claims c,
      at_resource_claims = ap_resource_claims c, at_resource_token = ap_resource_token c,
      at_agent_token = ap_agent_token c\<rparr>"

definition access_pending_from :: "access_token_context \<Rightarrow> access_pending_context" where
  "access_pending_from ctx =
     \<lparr>ap_access_server_url = at_access_server_url ctx, ap_resource_url = at_resource_url ctx,
      ap_person_server_url = at_person_server_url ctx, ap_agent_claims = at_agent_claims ctx,
      ap_resource_claims = at_resource_claims ctx, ap_resource_token = at_resource_token ctx,
      ap_agent_token = at_agent_token ctx\<rparr>"

section \<open>The service\<close>

datatype 'e access_error =
    ASE_Store 'e
  | ASE_Policy string
  | ASE_Aauth aauth_error

record ('s, 'e) access_service =
  av_policy :: "(access_token_context, access_token_decision) policy"
  av_pending :: "('s, 'e, access_pending_context) store_ops"
  av_minter :: minter
  av_config :: access_server_config

abbreviation access_store_op ::
    "('s, 'e, 'a) action \<Rightarrow> ('s, 'e access_error, 'a) action" where
  "access_store_op m \<equiv> err_as ASE_Store m"

definition access_pending_url :: "access_server_config \<Rightarrow> string \<Rightarrow> string" where
  "access_pending_url cfg i = pending_location (asc_pending_base_url cfg) (asc_pending_path cfg) i"

definition mint_access_auth ::
    "('s, 'e) access_service \<Rightarrow> auth_grant \<Rightarrow> access_token_context \<Rightarrow> aauth_error + token_response_body" where
  "mint_access_auth svc grant ctx =
     bind_res (av_minter svc (asc_access_server_url (av_config svc)) (asc_resource_url (av_config svc))
         (claims_identifier (at_agent_claims ctx)) (cnf_jwk (ag_cnf (at_agent_claims ctx)))
         (Some (gr_sub grant))
         (case gr_scope grant of Some sc \<Rightarrow> Some sc | None \<Rightarrow> rc_scope (at_resource_claims ctx)))
       (\<lambda>auth_jwt. Ok \<lparr>auth_token = auth_jwt, expires_in = 3600\<rparr>)"

definition create_deferred_access_response ::
    "env \<Rightarrow> ('s, 'e) access_service \<Rightarrow> access_token_context \<Rightarrow> defer_requirement \<Rightarrow>
     ('s, 'e access_error, auth_token_flow_outcome) action" where
  "create_deferred_access_response ev svc ctx requirement =
     (let i = generate_pending_id (ev_id_bytes ev);
          location = access_pending_url (av_config svc) i;
          record = pending_record_new (ev_now ev) i (access_pending_from ctx)
            (snapshot_waiting requirement) (asc_pending_ttl_secs (av_config svc))
      in seq (access_store_op (op_create (av_pending svc) record)) (\<lambda>_.
         ret (FO_Deferred \<lparr>dc_location = location, dc_requirement = requirement\<rparr>)))"

definition update_access_pending_defer ::
    "('s, 'e) access_service \<Rightarrow> string \<Rightarrow> defer_requirement \<Rightarrow>
     ('s, 'e access_error, auth_token_flow_outcome) action" where
  "update_access_pending_defer svc pending_id requirement =
     seq (access_store_op (op_load (av_pending svc) pending_id)) (\<lambda>found.
       case found of
         None \<Rightarrow> ret FO_Gone
       | Some record \<Rightarrow>
           seq (access_store_op (op_save (av_pending svc) pending_id
                  (record\<lparr>pr_snapshot := snapshot_waiting requirement\<rparr>))) (\<lambda>_.
           ret (FO_Deferred \<lparr>dc_location = access_pending_url (av_config svc) pending_id,
                  dc_requirement = requirement\<rparr>)))"

definition apply_access_decision ::
    "env \<Rightarrow> ('s, 'e) access_service \<Rightarrow> access_token_context \<Rightarrow> access_token_decision \<Rightarrow>
     ('s, 'e access_error, auth_token_flow_outcome) action" where
  "apply_access_decision ev svc ctx decision =
     (case decision of
        AD_Grant grant \<Rightarrow>
          seq (lift_res (map_err ASE_Aauth (mint_access_auth svc grant ctx)))
            (\<lambda>body. ret (FO_Granted body))
      | AD_Deny err \<Rightarrow> ret (FO_Denied err)
      | AD_Defer requirement \<Rightarrow> create_deferred_access_response ev svc ctx requirement)"

definition apply_access_pending_decision ::
    "('s, 'e) access_service \<Rightarrow> access_token_context \<Rightarrow> string \<Rightarrow> access_token_decision \<Rightarrow>
     ('s, 'e access_error, auth_token_flow_outcome) action" where
  "apply_access_pending_decision svc ctx pending_id decision =
     (case decision of
        AD_Grant grant \<Rightarrow>
          seq (lift_res (map_err ASE_Aauth (mint_access_auth svc grant ctx))) (\<lambda>body.
          seq (access_store_op (op_complete (av_pending svc) pending_id (PO_AuthToken body))) (\<lambda>_.
          ret (FO_Granted body)))
      | AD_Deny err \<Rightarrow>
          seq (access_store_op (op_complete (av_pending svc) pending_id (PO_Error err))) (\<lambda>_.
          ret (FO_Denied err))
      | AD_Defer requirement \<Rightarrow> update_access_pending_defer svc pending_id requirement)"

definition access_exchange_token ::
    "env \<Rightarrow> ('s, 'e) access_service \<Rightarrow> access_token_context \<Rightarrow>
     ('s, 'e access_error, auth_token_flow_outcome) action" where
  "access_exchange_token ev svc ctx =
     seq (lift_res (map_err ASE_Policy (pol_evaluate (av_policy svc) ctx))) (\<lambda>decision.
     apply_access_decision ev svc ctx decision)"

definition access_poll_pending ::
    "env \<Rightarrow> ('s, 'e) access_service \<Rightarrow> string \<Rightarrow> ('s, 'e access_error, auth_token_poll_outcome) action" where
  "access_poll_pending ev svc pending_id =
     access_store_op (poll_auth_pending (av_pending svc) (ev_now ev) pending_id)"

definition access_resume_pending ::
    "env \<Rightarrow> ('s, 'e) access_service \<Rightarrow> string \<Rightarrow> pending_input \<Rightarrow>
     ('s, 'e access_error, auth_token_flow_outcome) action" where
  "access_resume_pending ev svc pending_id input =
     seq (access_store_op (op_load (av_pending svc) pending_id)) (\<lambda>found.
       case found of
         None \<Rightarrow> ret FO_Gone
       | Some record \<Rightarrow>
           if is_expired (ev_now ev) record
           then seq (ignore (op_remove (av_pending svc) pending_id)) (\<lambda>_. ret FO_Gone)
           else
             (let ctx = access_context_of (pr_context record) in
              seq (lift_res (map_err ASE_Policy (pol_resume (av_policy svc) ctx input))) (\<lambda>decision.
              apply_access_pending_decision svc ctx pending_id decision)))"

section \<open>Effect on the store\<close>

fun person_flow :: "auth_token_flow_outcome \<Rightarrow> person_token_flow_outcome" where
  "person_flow (FO_Granted body) = PF_Granted body"
| "person_flow (FO_Deferred d) = PF_Deferred d"
| "person_flow (FO_Denied err) = PF_Denied err"
| "person_flow FO_Gone = PF_Gone"

lemma into_auth_flow_person_flow [simp]: "into_auth_flow (person_flow out) = Some out"
  by (cases out) simp_all

locale access_store = pending_store ops look ok
  for ops :: "('s, 'e, access_pending_context) store_ops" and look and ok +
  fixes svc :: "('s, 'e) access_service"
  assumes uses_store: "av_pending svc = ops"
begin

abbreviation post :: "string \<Rightarrow> (string \<rightharpoonup> access_pending_context pending_record) \<Rightarrow>
    'e access_error + auth_token_flow_outcome \<Rightarrow> 's \<Rightarrow> bool" where
  "post i m x s' \<equiv> resumed ok look (access_pending_url (av_config svc) i) i m (map_ok person_flow x) s'"

lemma access_decision_post:
  assumes "ok s" "look s i = Some r"
  shows "run_sat (apply_access_pending_decision svc ctx i decision) s (post i (look s))"
proof (cases decision)
  case (AD_Grant g)
  have "run_sat (op_complete ops i (PO_AuthToken body)) s (\<lambda>x s'.
      (\<forall>e. x = Inl e \<longrightarrow> post i (look s) (Inl (ASE_Store e)) s') \<and>
      (\<forall>a. x = Inr a \<longrightarrow> post i (look s) (Inr (FO_Granted body)) s'))" for body
    by (rule complete_sat [OF assms(1)]; use assms in
        \<open>auto simp: resumed_def resumption_def complete_at_def snapshot_complete_def\<close>)
  then show ?thesis using AD_Grant assms uses_store
    by (cases "mint_access_auth svc g ctx")
      (auto simp: apply_access_pending_decision_def sat_simps resumed_def)
next
  case (AD_Deny err)
  have "run_sat (op_complete ops i (PO_Error err)) s (\<lambda>x s'.
      (\<forall>e. x = Inl e \<longrightarrow> post i (look s) (Inl (ASE_Store e)) s') \<and>
      (\<forall>a. x = Inr a \<longrightarrow> post i (look s) (Inr (FO_Denied err)) s'))"
    by (rule complete_sat [OF assms(1)]; use assms in
        \<open>auto simp: resumed_def resumption_def complete_at_def snapshot_complete_def\<close>)
  then show ?thesis using AD_Deny uses_store
    unfolding apply_access_pending_decision_def
    by (simp add: sat_simps) (erule sat_mono, force)
next
  case (AD_Defer q)
  have "run_sat (op_save ops i (r\<lparr>pr_snapshot := snapshot_waiting q\<rparr>)) s1 (\<lambda>x s'.
      (\<forall>e. x = Inl e \<longrightarrow> post i (look s) (Inl (ASE_Store e)) s') \<and>
      (\<forall>a. x = Inr a \<longrightarrow> post i (look s) (Inr (FO_Deferred
        \<lparr>dc_location = access_pending_url (av_config svc) i, dc_requirement = q\<rparr>)) s'))"
    if "ok s1" "look s1 = look s" for s1
    by (rule save_sat [OF that(1)]; use assms that in
        \<open>auto simp: resumed_def resumption_def same_identity_def snapshot_waiting_def\<close>)
  then have "run_sat (update_access_pending_defer svc i q) s (post i (look s))"
    unfolding update_access_pending_defer_def sat_simps uses_store
    by (intro load_sat [OF assms(1)]) (auto simp: assms(2) sat_simps resumed_def)
  then show ?thesis using AD_Defer by (simp add: apply_access_pending_decision_def)
qed

lemma access_resume_post:
  assumes "ok s"
  shows "run_sat (access_resume_pending ev svc i input) s (post i (look s))"
  unfolding access_resume_pending_def Let_def sat_simps uses_store
proof (rule load_sat [OF assms], goal_cases)
  case (1 s1)
  have gone: "run_sat (op_remove ops i) s1 (\<lambda>_. post i (look s) (Inr FO_Gone))"
    by (rule remove_sat [OF 1(1)]; use 1 in \<open>auto simp: resumed_def resumption_def\<close>)
  have none: "post i (look s) (Inr FO_Gone) s1" "post i (look s) (Inl e) s1" for e
    using 1 by (simp_all add: resumed_def resumption_def)
  show ?case
  proof (cases "look s i")
    case None
    then show ?thesis using none by (simp add: sat_simps)
  next
    case (Some r)
    then have l: "look s1 i = Some r" using 1 by simp
    have "run_sat (apply_access_pending_decision svc ctx i d) s1 (post i (look s))" for ctx d
      using access_decision_post [OF 1(1) l] 1(2) by simp
    then show ?thesis
      using Some gone none
      by (cases "pol_resume (av_policy svc) (access_context_of (pr_context r)) input") (auto simp: sat_simps)
  qed
qed (simp add: resumed_def)

end

interpretation access_mem: access_store "mem_ops iter" mem_look "\<lambda>s. mem_ok s \<and> enumerates iter"
    "svc\<lparr>av_pending := mem_ops iter\<rparr>" for iter svc
  by unfold_locales simp

text \<open>
  The Access Server keeps the same contract: a post to a pending request touches only that
  record, stores exactly the outcome it reports under the record's original identity and
  deadline, and changes nothing when it fails.
\<close>
theorem access_resumption_contract:
  assumes "mem_ok s" "enumerates iter" "av_pending svc = mem_ops iter"
    and "access_resume_pending ev svc i input s = (x, s')"
  shows "mem_ok s' \<and>
    (case x of Inl _ \<Rightarrow> mem_look s' = mem_look s
      | Inr out \<Rightarrow> resumption (access_pending_url (av_config svc) i) i (mem_look s) (person_flow out) (mem_look s'))"
proof (intro conjI)
  have sv: "svc\<lparr>av_pending := mem_ops iter\<rparr> = svc" using assms(3) by simp
  have k: "mem_ok s \<and> enumerates iter" using assms(1,2) ..
  have "resumed (\<lambda>s. mem_ok s \<and> enumerates iter) mem_look (access_pending_url (av_config svc) i) i
      (mem_look s) (map_ok person_flow x) s'"
    using access_mem.access_resume_post [OF k, where svc = svc and ev = ev and i = i and input = input] sv
      assms(4) by (auto dest: sat_result)
  then show "mem_ok s'" "case x of Inl _ \<Rightarrow> mem_look s' = mem_look s
      | Inr out \<Rightarrow> resumption (access_pending_url (av_config svc) i) i (mem_look s) (person_flow out) (mem_look s')"
    by (cases x; simp add: resumed_def)+
qed

text \<open>
  C32: the Access Server checks no signature on the tokens it exchanges: whatever two strings
  parse as an agent token and a resource token, a granting policy makes it mint an auth
  token for the key the agent token itself names, with no look at any issuer's keys.
\<close>
theorem access_exchange_unverified:
  assumes "parse_token L (ax_agent_token request) = Ok (PT_Agent a)"
    and "parse_token L (ax_resource_token request) = Ok (PT_Resource r)"
    and "av_policy svc = always_grant_access_policy sub"
    and "av_minter svc (asc_access_server_url (av_config svc)) (asc_resource_url (av_config svc)) (ag_sub a)
      (cnf_jwk (ag_cnf a)) (Some sub) (rc_scope r) = Ok jwt"
  shows "\<exists>ctx. access_context_from_exchange L (av_config svc) request = Ok ctx \<and>
    access_exchange_token ev svc ctx s = (Ok (FO_Granted \<lparr>auth_token = jwt, expires_in = 3600\<rparr>), s)"
  using assms
  by (auto simp: access_context_from_exchange_def access_exchange_token_def always_grant_access_policy_def
      access_grant_def apply_access_decision_def mint_access_auth_def claims_identifier_def seq_def
      split: option.splits)

section \<open>A concrete run\<close>

definition sample_access_config :: access_server_config where
  "sample_access_config =
     \<lparr>asc_access_server_url = ''https://s'', asc_resource_url = ''https://r'',
      asc_person_server_url = ''https://p'', asc_access_jwks_uri = ''https://s/jwks'', asc_pending_base_url = ''https://s'',
      asc_pending_path = ''/access/pending'', asc_pending_ttl_secs = 600\<rparr>"

definition sample_access_service :: "(access_pending_context mem_store, unit) access_service" where
  "sample_access_service =
     \<lparr>av_policy = always_grant_access_policy ''u'', av_pending = mem_ops id,
      av_minter = (\<lambda>_ _ _ _ _ _. Ok ''auth''), av_config = sample_access_config\<rparr>"

definition sample_access_request :: access_token_exchange_request where
  "sample_access_request =
     \<lparr>ax_resource_token = ''resource'', ax_agent_token = ''agent'', ax_upstream_token = None,
      ax_subagent_token = None\<rparr>"

theorem access_exchange_unverified_witness:
  "\<exists>ctx. access_context_from_exchange sample_lib sample_access_config sample_access_request = Ok ctx \<and>
    access_exchange_token sample_env sample_access_service ctx mem_new
      = (Ok (FO_Granted \<lparr>auth_token = ''auth'', expires_in = 3600\<rparr>), mem_new)"
  using access_exchange_unverified [of sample_lib sample_access_request sample_agent sample_resource
      sample_access_service "''u''" "''auth''" sample_env mem_new]
  by (simp add: sample_access_request_def sample_tokens sample_access_service_def)

theorem access_resumption_contract_witness:
  "\<exists>s'. access_resume_pending sample_env sample_access_service ''p1'' PI_InteractionCompleted mem_new
      = (Ok FO_Gone, s') \<and> mem_ok s' \<and> mem_look s' ''p1'' = None"
proof -
  have n: "mem_look mem_new = Map.empty" "mem_ok mem_new" by (simp_all add: mem_new_def mem_look_def mem_ok_def)
  have p: "av_pending sample_access_service = mem_ops id" by (simp add: sample_access_service_def)
  have r: "access_resume_pending sample_env sample_access_service ''p1'' PI_InteractionCompleted mem_new
      = (Ok FO_Gone, mem_new)"
    by (simp add: access_resume_pending_def p seq_run mem_run n)
  show ?thesis
    using access_resumption_contract [OF n(2) sample_store_facts(3) p r] r
    by (auto simp: resumption_def n)
qed

end
