(* ===== verification/Httpsig.thy ===== *)
theory Httpsig
  imports Verify Pending_Store
begin

text \<open>
  HTTP message signatures with \<^verbatim>\<open>Signature-Key\<close> (\<^verbatim>\<open>httpsig-key/src\<close>): the header's
  codec, key selection, signing and verification. The \<^verbatim>\<open>httpsig\<close> crate (RFC 9421 syntax and
  cryptography) is the parameter \<open>httpsig_lib\<close>; its \<open>Inl\<close> values are its error messages.
  A component is its line, a key its algorithm and bytes.
\<close>

section \<open>\<^verbatim>\<open>Signature-Key\<close> (\<^verbatim>\<open>protocol/signature_key.rs\<close>, \<^verbatim>\<open>protocol/sigkey.rs\<close>)\<close>

datatype key_scheme = KS_Hwk | KS_JktJwt | KS_JwksUri | KS_Jwt | KS_X509 | KS_Other string

fun ks_as_str :: "key_scheme \<Rightarrow> string" where
  "ks_as_str KS_Hwk = ''hwk''"
| "ks_as_str KS_JktJwt = ''jkt-jwt''"
| "ks_as_str KS_JwksUri = ''jwks_uri''"
| "ks_as_str KS_Jwt = ''jwt''"
| "ks_as_str KS_X509 = ''x509''"
| "ks_as_str (KS_Other s) = s"

definition ks_parse :: "string \<Rightarrow> key_scheme" where
  "ks_parse token =
     (if token = ''hwk'' then KS_Hwk
      else if token = ''jkt-jwt'' then KS_JktJwt
      else if token = ''jwks_uri'' then KS_JwksUri
      else if token = ''jwt'' then KS_Jwt
      else if token = ''x509'' then KS_X509
      else KS_Other token)"

datatype sigkey_value = SV_Jkt | SV_Uri | SV_X509 | SV_Other string

fun sv_as_str :: "sigkey_value \<Rightarrow> string" where
  "sv_as_str SV_Jkt = ''jkt''"
| "sv_as_str SV_Uri = ''uri''"
| "sv_as_str SV_X509 = ''x509''"
| "sv_as_str (SV_Other s) = s"

definition sv_parse :: "string \<Rightarrow> sigkey_value" where
  "sv_parse token =
     (if token = ''jkt'' then SV_Jkt else if token = ''uri'' then SV_Uri
      else if token = ''x509'' then SV_X509 else SV_Other token)"

datatype signature_key = SK_Jwt string | SK_Hwk public_jwk | SK_Unsupported key_scheme

record signing_material =
  sm_signing_jwk :: signing_jwk
  sm_signature_key :: signature_key

definition quoted_param :: "string \<Rightarrow> string \<Rightarrow> string" where
  "quoted_param k v = k @ ''=\"'' @ v @ ''\"''"

fun to_member_value :: "signature_key \<Rightarrow> httpsig_error + string" where
  "to_member_value (SK_Jwt jwt) = Ok (''jwt;'' @ quoted_param ''jwt'' jwt)"
| "to_member_value (SK_Hwk k) =
     Ok (join '';''
       ([''hwk'', quoted_param ''kty'' (kty k), quoted_param ''crv'' (crv k), quoted_param ''x'' (jwk_x k)]
        @ (case jwk_y k of None \<Rightarrow> [] | Some y \<Rightarrow> [quoted_param ''y'' y])
        @ (case jwk_kid k of None \<Rightarrow> [] | Some i \<Rightarrow> [quoted_param ''kid'' i])))"
| "to_member_value (SK_Unsupported scheme) = Err (HE_UnsupportedScheme (ks_as_str scheme))"

definition sk_to_header :: "signature_key \<Rightarrow> string \<Rightarrow> httpsig_error + string" where
  "sk_to_header key label = map_ok (\<lambda>m. label @ ''='' @ m) (to_member_value key)"

text \<open>The loop over the \<^verbatim>\<open>jwt\<close> parameters: the last one counts, an open quote is an error.\<close>

fun jwt_params :: "string list \<Rightarrow> string option \<Rightarrow> httpsig_error + string option" where
  "jwt_params [] acc = Ok acc"
| "jwt_params (part # parts) acc =
     (case strip_prefix ''jwt=\"'' (trim part) of
        None \<Rightarrow> jwt_params parts acc
      | Some v \<Rightarrow>
          (case find_sub ''\"'' v of
             None \<Rightarrow> Err HE_MissingJwtParam
           | Some e \<Rightarrow> jwt_params parts (Some (take e v))))"

definition hwk_params :: "string list \<Rightarrow> string \<Rightarrow> string option" where
  "hwk_params parts =
     map_of (rev (List.map_filter (\<lambda>part. map_option (\<lambda>(k, v). (trim k, trim_matches (CHR 0x22) (trim v)))
       (split_once (CHR ''='') (trim part))) parts))"

definition parse_member :: "string \<Rightarrow> httpsig_error + signature_key" where
  "parse_member member =
     (let parts = split_on (CHR '';'') member in
      case ks_parse (trim (hd parts)) of
        KS_Jwt \<Rightarrow>
          bind_res (jwt_params (tl parts) None) (\<lambda>jwt.
          map_ok SK_Jwt (ok_or jwt HE_MissingJwtParam))
      | KS_Hwk \<Rightarrow>
          (let ps = hwk_params (tl parts) in
           bind_res (ok_or (ps ''kty'') (HE_InvalidSignatureKey ''hwk missing kty'')) (\<lambda>t.
           bind_res (ok_or (ps ''crv'') (HE_InvalidSignatureKey ''hwk missing crv'')) (\<lambda>c.
           bind_res (ok_or (ps ''x'') (HE_InvalidSignatureKey ''hwk missing x'')) (\<lambda>x.
           Ok (SK_Hwk \<lparr>kty = t, crv = c, jwk_x = x, jwk_y = ps ''y'', jwk_kid = ps ''kid''\<rparr>)))))
      | other \<Rightarrow> Ok (SK_Unsupported other))"

definition sk_from_header :: "string \<Rightarrow> string \<Rightarrow> httpsig_error + signature_key" where
  "sk_from_header header label =
     (let pre = label @ ''='' in
      bind_res (ok_or (find_sub pre header)
        (HE_InvalidSignatureKey (''label `'' @ label @ ''` not found''))) (\<lambda>start.
      let rest = drop (start + length pre) header in
      parse_member (trim (hd (split_on (CHR '','') rest)))))"

section \<open>The crate\<close>

text \<open>
  \<open>'p\<close> are signature parameters, \<open>'s\<close> a parsed signature. \<open>hl_b64\<close> is
  \<^verbatim>\<open>URL_SAFE_NO_PAD\<close>, \<open>hl_b64_pad\<close> is \<^verbatim>\<open>URL_SAFE\<close>; \<open>hl_header_name\<close> is
  \<^verbatim>\<open>HeaderName::from_bytes\<close>.
\<close>

record ('p, 's) httpsig_lib =
  hl_parse :: "string \<Rightarrow> string \<Rightarrow> string + (string \<Rightarrow> 's option)"
  hl_params_of :: "'s \<Rightarrow> 'p"
  hl_covered :: "'p \<Rightarrow> string list"
  hl_created :: "'p \<Rightarrow> u64 option"
  hl_component_id :: "string \<Rightarrow> string + string"
  hl_new_params :: "string list \<Rightarrow> string + 'p"
  hl_set_created :: "u64 \<Rightarrow> 'p \<Rightarrow> 'p"
  hl_component :: "string \<Rightarrow> string + unit"
  hl_base :: "string list \<Rightarrow> 'p \<Rightarrow> string + unit"
  hl_check :: "string list \<Rightarrow> 'p \<Rightarrow> string \<times> string \<Rightarrow> 's \<Rightarrow> bool"
  hl_build :: "string list \<Rightarrow> 'p \<Rightarrow> string \<times> string \<Rightarrow> string \<Rightarrow> string + string \<times> string"
  hl_public_key :: "string \<Rightarrow> string \<Rightarrow> string + unit"
  hl_secret_key :: "string \<Rightarrow> string \<Rightarrow> string + unit"
  hl_header_name :: "string \<Rightarrow> string option"
  hl_header_error :: string
  hl_b64 :: "string \<Rightarrow> string + string"
  hl_b64_pad :: "string \<Rightarrow> string + string"
  hl_json :: serde_json

section \<open>Key material (\<^verbatim>\<open>crypto.rs\<close>)\<close>

definition secret_key_from_signing_jwk ::
    "('p, 's) httpsig_lib \<Rightarrow> signing_jwk \<Rightarrow> httpsig_error + string \<times> string" where
  "secret_key_from_signing_jwk H k =
     bind_res (map_err HE_InvalidEncoding (hl_b64 H (s_d k))) (\<lambda>d.
     let make = (\<lambda>alg. if length d \<noteq> 32 then Err HE_InvalidKeyLength
       else map_ok (\<lambda>_. (alg, d)) (map_err HE_Httpsig (hl_secret_key H alg d))) in
     if s_kty k = ''OKP'' \<and> s_crv k = ''Ed25519'' then make ''ed25519''
     else if s_kty k = ''EC'' \<and> s_crv k = ''P-256'' then make ''ecdsa-p256-sha256''
     else Err (HE_UnsupportedSigningJwk (s_kty k) (s_crv k)))"

definition public_key_from_jwk ::
    "('p, 's) httpsig_lib \<Rightarrow> public_jwk \<Rightarrow> httpsig_error + string \<times> string" where
  "public_key_from_jwk H k =
     (let make = (\<lambda>alg bytes. map_ok (\<lambda>_. (alg, bytes)) (map_err HE_Httpsig (hl_public_key H alg bytes))) in
      if kty k = ''OKP'' \<and> crv k = ''Ed25519'' then
        bind_res (map_err HE_InvalidEncoding (hl_b64 H (jwk_x k))) (\<lambda>x.
        if length x \<noteq> 32 then Err HE_InvalidKeyLength else make ''ed25519'' x)
      else if kty k = ''EC'' \<and> crv k = ''P-256'' then
        bind_res (ok_or (jwk_y k) HE_MissingEcY) (\<lambda>y64.
        bind_res (map_err HE_InvalidEncoding (hl_b64 H (jwk_x k))) (\<lambda>x.
        bind_res (map_err HE_InvalidEncoding (hl_b64 H y64)) (\<lambda>y.
        if length x \<noteq> 32 \<or> length y \<noteq> 32 then Err HE_InvalidKeyLength
        else make ''ecdsa-p256-sha256'' (CHR 0x04 # x @ y))))
      else Err (HE_UnsupportedSigningJwk (kty k) (crv k)))"

section \<open>Verification (\<^verbatim>\<open>verify.rs\<close>)\<close>

record verify_options =
  vo_max_age_secs :: u64
  vo_clock_skew_secs :: i64
  vo_require_authorization :: bool
  vo_label :: "string option"

definition verify_options_default :: verify_options where
  "verify_options_default =
     \<lparr>vo_max_age_secs = 60, vo_clock_skew_secs = 60, vo_require_authorization = False, vo_label = None\<rparr>"

record verified_http_signature =
  vs_label :: string
  vs_signature_key :: signature_key
  vs_public_jwk :: public_jwk
  vs_thumbprint :: string
  vs_jwt :: "string option"

text \<open>The derived reading of the JWT payload: \<^verbatim>\<open>cnf\<close> and its \<^verbatim>\<open>jwk\<close> may be missing or null.\<close>

definition de_public_jwk :: "json \<Rightarrow> public_jwk option" where
  "de_public_jwk j =
     (case de_struct [''kty'', ''crv'', ''x'', ''y'', ''kid''] j of
        Some [t, c, x, y, i] \<Rightarrow>
          (case (req de_str t, req de_str c, req de_str x, opt de_str y, opt de_str i) of
             (Some t, Some c, Some x, Some y, Some i) \<Rightarrow>
               Some \<lparr>kty = t, crv = c, jwk_x = x, jwk_y = y, jwk_kid = i\<rparr>
           | _ \<Rightarrow> None)
      | _ \<Rightarrow> None)"

definition de_cnf :: "json \<Rightarrow> public_jwk option option" where
  "de_cnf j = (case de_struct [''jwk''] j of Some [k] \<Rightarrow> opt de_public_jwk k | _ \<Rightarrow> None)"

definition de_jwt_payload :: "json \<Rightarrow> public_jwk option option option" where
  "de_jwt_payload j = (case de_struct [''cnf''] j of Some [c] \<Rightarrow> opt de_cnf c | _ \<Rightarrow> None)"

definition cnf_jwk_from_jwt :: "('p, 's) httpsig_lib \<Rightarrow> string \<Rightarrow> httpsig_error + public_jwk" where
  "cnf_jwk_from_jwt H jwt =
     (case split_on (CHR ''.'') jwt of
        _ # payload_b64 # _ \<Rightarrow>
          bind_res (map_err HE_InvalidJwt
            (case hl_b64 H payload_b64 of Inr b \<Rightarrow> Ok b | Inl _ \<Rightarrow> hl_b64_pad H payload_b64)) (\<lambda>payload_bytes.
          bind_res (map_err HE_Json (from_slice (hl_json H) de_jwt_payload payload_bytes)) (\<lambda>cnf.
          ok_or (Option.bind cnf (\<lambda>c. c)) HE_MissingCnfJwk))
      | _ \<Rightarrow> Err (HE_InvalidJwt ''missing payload''))"

fun resolve_public_jwk ::
    "('p, 's) httpsig_lib \<Rightarrow> signature_key \<Rightarrow> httpsig_error + public_jwk \<times> string option" where
  "resolve_public_jwk H (SK_Jwt jwt) = map_ok (\<lambda>k. (k, Some jwt)) (cnf_jwk_from_jwt H jwt)"
| "resolve_public_jwk H (SK_Hwk k) = Ok (k, None)"
| "resolve_public_jwk H (SK_Unsupported s) = Err (HE_UnsupportedScheme (ks_as_str s))"

definition unquote_id :: "string \<Rightarrow> string" where
  "unquote_id i = trim_matches (CHR 0x22) i"

definition required_components :: "string list" where
  "required_components = [''@method'', ''@authority'', ''@path'', ''signature-key'']"

fun require_components :: "string list \<Rightarrow> string list \<Rightarrow> httpsig_error + unit" where
  "require_components covered [] = Ok ()"
| "require_components covered (c # cs) =
     (if c \<in> set covered then require_components covered cs else Err (HE_MissingComponent c))"

definition authorization_covered :: "verify_options \<Rightarrow> string list \<Rightarrow> httpsig_error + unit" where
  "authorization_covered vo covered =
     (if vo_require_authorization vo \<and> ''authorization'' \<notin> set covered
      then Err (HE_MissingComponent ''authorization'') else Ok ())"

text \<open>The request as the verifier is told of it.\<close>

record signed_parts =
  sp_method :: string
  sp_authority :: string
  sp_path :: string
  sp_key_header :: string
  sp_headers :: header_map

definition component_value ::
    "('p, 's) httpsig_lib \<Rightarrow> (string \<Rightarrow> string) \<Rightarrow> signed_parts \<Rightarrow> string \<Rightarrow> httpsig_error + string" where
  "component_value H up sp name =
     (if name = ''@method'' then Ok (to_uppercase up (sp_method sp))
      else if name = ''@authority'' then Ok (sp_authority sp)
      else if name = ''@path'' then Ok (sp_path sp)
      else if name = ''signature-key'' then Ok (sp_key_header sp)
      else
        bind_res (ok_or (hl_header_name H name) (HE_MissingComponent ''header'')) (\<lambda>n.
        ok_or (header_value (sp_headers sp) n)
          (if name = ''authorization'' then HE_AuthorizationHeaderMissing else HE_MissingComponent ''header'')))"

definition component_line :: "string \<Rightarrow> string \<Rightarrow> string" where
  "component_line name v = ''\"'' @ name @ ''\": '' @ v"

fun component_lines ::
    "('p, 's) httpsig_lib \<Rightarrow> (string \<Rightarrow> string) \<Rightarrow> signed_parts \<Rightarrow> string list \<Rightarrow> httpsig_error + string list" where
  "component_lines H up sp [] = Ok []"
| "component_lines H up sp (i # is) =
     bind_res (component_value H up sp (unquote_id i)) (\<lambda>v.
     let line = component_line (unquote_id i) v in
     bind_res (map_err HE_Httpsig (hl_component H line)) (\<lambda>_.
     map_ok ((#) line) (component_lines H up sp is)))"

definition check_created :: "verify_options \<Rightarrow> u64 \<Rightarrow> u64 \<Rightarrow> httpsig_error + unit" where
  "check_created vo now created =
     (if created > now + vo_clock_skew_secs vo then Err HE_CreatedInFuture
      else if (if now < created then 0 else now - created) > vo_max_age_secs vo + vo_clock_skew_secs vo
      then Err HE_Expired else Ok ())"

definition http_verify ::
    "('p, 's) httpsig_lib \<Rightarrow> 'key jwt_lib \<Rightarrow> (string \<Rightarrow> string) \<Rightarrow> u64 \<Rightarrow> string \<Rightarrow> string \<Rightarrow> string \<Rightarrow>
     header_map \<Rightarrow> verify_options \<Rightarrow> httpsig_error + verified_http_signature" where
  "http_verify H L up now meth authority path headers vo =
     (let label = (case vo_label vo of None \<Rightarrow> ''sig'' | Some l \<Rightarrow> l) in
      bind_res (ok_or (header_value headers ''signature-key'') HE_MissingSignatureKey) (\<lambda>key_hdr.
      bind_res (ok_or (header_value headers ''signature-input'') HE_MissingSignatureInput) (\<lambda>input.
      bind_res (ok_or (header_value headers ''signature'') HE_MissingSignature) (\<lambda>sig_hdr.
      bind_res (sk_from_header key_hdr label) (\<lambda>signature_key.
      bind_res (map_err HE_Httpsig (hl_parse H sig_hdr input)) (\<lambda>members.
      bind_res (ok_or (members label) HE_InvalidSignatureFormat) (\<lambda>sg.
      let params = hl_params_of H sg; covered = map unquote_id (hl_covered H params) in
      bind_res (require_components covered required_components) (\<lambda>_.
      bind_res (authorization_covered vo covered) (\<lambda>_.
      bind_res (ok_or (hl_created H params) HE_MissingCreated) (\<lambda>created.
      bind_res (check_created vo now created) (\<lambda>_.
      bind_res (resolve_public_jwk H signature_key) (\<lambda>(public_jwk, jwt).
      bind_res (httpsig_thumbprint L public_jwk) (\<lambda>thumbprint.
      bind_res (public_key_from_jwk H public_jwk) (\<lambda>verifying_key.
      bind_res (component_lines H up \<lparr>sp_method = meth, sp_authority = authority, sp_path = path,
          sp_key_header = key_hdr, sp_headers = headers\<rparr> (hl_covered H params)) (\<lambda>ls.
      bind_res (map_err HE_Httpsig (hl_base H ls params)) (\<lambda>_.
      if hl_check H ls params verifying_key sg
      then Ok \<lparr>vs_label = label, vs_signature_key = signature_key, vs_public_jwk = public_jwk,
          vs_thumbprint = thumbprint, vs_jwt = jwt\<rparr>
      else Err HE_VerificationFailed))))))))))))))))"

section \<open>Signing (\<^verbatim>\<open>sign.rs\<close>, \<^verbatim>\<open>aauth/src/http_util.rs\<close>)\<close>

text \<open>The headers are the state; a failure keeps what was already inserted.\<close>

definition insert_header ::
    "('p, 's) httpsig_lib \<Rightarrow> string \<Rightarrow> string \<Rightarrow> (header_map, httpsig_error, unit) action" where
  "insert_header H name v =
     (if header_value_ok v then (\<lambda>hs. (Ok (), hm_insert hs name v))
      else fail (HE_InvalidHeaderValue (hl_header_error H)))"

fun all_ok :: "('a \<Rightarrow> string + 'b) \<Rightarrow> 'a list \<Rightarrow> httpsig_error + 'b list" where
  "all_ok f [] = Ok []"
| "all_ok f (x # xs) = bind_res (map_err HE_Httpsig (f x)) (\<lambda>y. map_ok ((#) y) (all_ok f xs))"

definition sign_lines ::
    "(string \<Rightarrow> string) \<Rightarrow> string \<Rightarrow> string \<Rightarrow> string \<Rightarrow> string \<Rightarrow> sign_options \<Rightarrow> string list" where
  "sign_lines up meth authority path key_header extras =
     map (\<lambda>(n, v). component_line n v)
       ([(''@method'', to_uppercase up meth), (''@authority'', authority), (''@path'', path),
         (''signature-key'', key_header)] @ extras)"

definition http_sign ::
    "('p, 's) httpsig_lib \<Rightarrow> (string \<Rightarrow> string) \<Rightarrow> u64 \<Rightarrow> string \<Rightarrow> string \<Rightarrow> string \<Rightarrow> signing_material \<Rightarrow>
     sign_options \<Rightarrow> string option \<Rightarrow> (header_map, httpsig_error, unit) action" where
  "http_sign H up now meth authority path material extras label_opt =
     (case sm_signature_key material of
        SK_Unsupported s \<Rightarrow> fail (HE_UnsupportedScheme (ks_as_str s))
      | key \<Rightarrow>
          (let label = (case label_opt of None \<Rightarrow> ''sig'' | Some l \<Rightarrow> l) in
           seq (lift_res (sk_to_header key label)) (\<lambda>key_header.
           seq (insert_header H ''signature-key'' key_header) (\<lambda>_.
           seq (lift_res (all_ok (hl_component_id H) (required_components @ map fst extras))) (\<lambda>ids.
           seq (lift_res (map_err HE_Httpsig (hl_new_params H ids))) (\<lambda>params0.
           let params = hl_set_created H now params0;
               ls = sign_lines up meth authority path key_header extras in
           seq (lift_res (all_ok (hl_component H) ls)) (\<lambda>_.
           seq (lift_res (map_err HE_Httpsig (hl_base H ls params))) (\<lambda>_.
           seq (lift_res (secret_key_from_signing_jwk H (sm_signing_jwk material))) (\<lambda>secret.
           seq (lift_res (map_err HE_Httpsig (hl_build H ls params secret label))) (\<lambda>(input, sg).
           seq (insert_header H ''signature-input'' input) (\<lambda>_.
           insert_header H ''signature'' sg)))))))))))"

text \<open>\<^verbatim>\<open>RequestSigningExt::sign\<close> on an \<^verbatim>\<open>http::Request\<close>.\<close>

definition on_headers :: "(header_map, 'e, 'a) action \<Rightarrow> (request, 'e, 'a) action" where
  "on_headers m rq = (case m (rq_headers rq) of (r, hs) \<Rightarrow> (r, rq\<lparr>rq_headers := hs\<rparr>))"

definition request_sign ::
    "('p, 's) httpsig_lib \<Rightarrow> (string \<Rightarrow> string) \<Rightarrow> u64 \<Rightarrow> signing_material \<Rightarrow> (request, aauth_error, unit) action" where
  "request_sign H up now material rq =
     (case sm_signature_key material of
        SK_Jwt _ \<Rightarrow>
          (case signature_parts rq of (meth, authority, path) \<Rightarrow>
             if authority = [] then (Err (Signature SE_MissingAuthority), rq)
             else err_as (\<lambda>e. Signature (signature_error_from e))
               (on_headers (http_sign H up now meth authority path material
                  (aauth_sign_options (rq_headers rq)) None)) rq)
      | _ \<Rightarrow> (Err (Signature SE_HwkUnsupported), rq))"

definition request_sign_with_auth_token ::
    "('p, 's) httpsig_lib \<Rightarrow> (string \<Rightarrow> string) \<Rightarrow> u64 \<Rightarrow> signing_material \<Rightarrow> string \<Rightarrow>
     (request, aauth_error, unit) action" where
  "request_sign_with_auth_token H up now material jwt =
     request_sign H up now (material\<lparr>sm_signature_key := SK_Jwt jwt\<rparr>)"

section \<open>What a verified signature says\<close>

text \<open>
  \<open>authentic\<close>: under the signature's own label, the crate accepted a signature by the public key
  that the presented JWK stands for, over lines that state the method, authority and path of
  this very request and its \<^verbatim>\<open>Signature-Key\<close> header, and it was made in the time window.
\<close>

definition authentic ::
    "('p, 's) httpsig_lib \<Rightarrow> (string \<Rightarrow> string) \<Rightarrow> u64 \<Rightarrow> string \<Rightarrow> string \<Rightarrow> string \<Rightarrow> header_map \<Rightarrow>
     verify_options \<Rightarrow> verified_http_signature \<Rightarrow> bool" where
  "authentic H up now meth authority path headers vo v \<longleftrightarrow>
     (\<exists>kh input sig_hdr members sg ls pk created.
        header_value headers ''signature-key'' = Some kh \<and>
        sk_from_header kh (vs_label v) = Ok (vs_signature_key v) \<and>
        header_value headers ''signature-input'' = Some input \<and>
        header_value headers ''signature'' = Some sig_hdr \<and>
        hl_parse H sig_hdr input = Inr members \<and> members (vs_label v) = Some sg \<and>
        public_key_from_jwk H (vs_public_jwk v) = Ok pk \<and>
        hl_check H ls (hl_params_of H sg) pk sg \<and>
        {component_line ''@method'' (to_uppercase up meth), component_line ''@authority'' authority,
         component_line ''@path'' path, component_line ''signature-key'' kh} \<subseteq> set ls \<and>
        (vo_require_authorization vo \<longrightarrow> (\<exists>n a. hl_header_name H ''authorization'' = Some n \<and>
           header_value headers n = Some a \<and> component_line ''authorization'' a \<in> set ls)) \<and>
        hl_created H (hl_params_of H sg) = Some created \<and>
        created \<le> now + vo_clock_skew_secs vo \<and>
        \<not> (created \<le> now \<and> now - created > vo_max_age_secs vo + vo_clock_skew_secs vo))"

lemma component_lines_member:
  assumes "component_lines H up sp is = Ok ls" "c \<in> set (map unquote_id is)"
  shows "\<exists>v. component_value H up sp c = Ok v \<and> component_line c v \<in> set ls"
  using assms
proof (induction "is" arbitrary: ls)
  case (Cons i "is")
  then show ?case by (auto simp: res_simps Let_def)
qed simp

lemma require_components_Ok [res_simps]:
  "require_components covered cs = Inr u \<longleftrightarrow> set cs \<subseteq> set covered"
  by (induction cs) auto

lemma check_created_Ok [res_simps]:
  "check_created vo now created = Inr u \<longleftrightarrow>
     created \<le> now + vo_clock_skew_secs vo \<and>
     \<not> (created \<le> now \<and> now - created > vo_max_age_secs vo + vo_clock_skew_secs vo)"
  by (auto simp: check_created_def not_less not_le)

lemma verify_authentic:
  assumes "http_verify H L up now meth authority path headers vo = Ok v"
  shows "authentic H up now meth authority path headers vo v \<and>
    httpsig_thumbprint L (vs_public_jwk v) = Ok (vs_thumbprint v) \<and>
    resolve_public_jwk H (vs_signature_key v) = Ok (vs_public_jwk v, vs_jwt v)"
proof -
  define label where "label = (case vo_label vo of None \<Rightarrow> ''sig'' | Some l \<Rightarrow> l)"
  obtain kh input sig_hdr key members sg created jwk jwt tp pk ls where f:
    "header_value headers ''signature-key'' = Some kh" "sk_from_header kh label = Ok key"
    "header_value headers ''signature-input'' = Some input" "header_value headers ''signature'' = Some sig_hdr"
    "hl_parse H sig_hdr input = Inr members" "members label = Some sg"
    "require_components (map unquote_id (hl_covered H (hl_params_of H sg))) required_components = Ok ()"
    "authorization_covered vo (map unquote_id (hl_covered H (hl_params_of H sg))) = Ok ()"
    "hl_created H (hl_params_of H sg) = Some created" "check_created vo now created = Ok ()"
    "resolve_public_jwk H key = Ok (jwk, jwt)" "httpsig_thumbprint L jwk = Ok tp"
    "public_key_from_jwk H jwk = Ok pk"
    "component_lines H up \<lparr>sp_method = meth, sp_authority = authority, sp_path = path,
          sp_key_header = kh, sp_headers = headers\<rparr> (hl_covered H (hl_params_of H sg)) = Ok ls"
    "hl_check H ls (hl_params_of H sg) pk sg"
    "v = \<lparr>vs_label = label, vs_signature_key = key, vs_public_jwk = jwk, vs_thumbprint = tp, vs_jwt = jwt\<rparr>"
    using assms unfolding http_verify_def Let_def label_def [symmetric]
    by (clarsimp simp: bind_res_Ok ok_or_Ok map_err_Ok split: if_splits)
  note line = component_lines_member [OF f(14)]
  have "\<exists>v. component_value H up \<lparr>sp_method = meth, sp_authority = authority, sp_path = path,
      sp_key_header = kh, sp_headers = headers\<rparr> c = Ok v \<and> component_line c v \<in> set ls"
    if "c \<in> set required_components" for c
    using line f(7) [unfolded require_components_Ok] that by blast
  note req = this
  let ?L = "{component_line ''@method'' (to_uppercase up meth), component_line ''@authority'' authority,
      component_line ''@path'' path, component_line ''signature-key'' kh}"
  have ls: "?L \<subseteq> set ls"
    using req [of "''@method''"] req [of "''@authority''"] req [of "''@path''"] req [of "''signature-key''"]
    by (simp add: required_components_def component_value_def)
  have auth: "\<exists>n a. hl_header_name H ''authorization'' = Some n \<and> header_value headers n = Some a \<and>
      component_line ''authorization'' a \<in> set ls" if "vo_require_authorization vo"
    using line [of "''authorization''"] f(8) that
    by (auto simp: component_value_def authorization_covered_def bind_res_Ok ok_or_Ok split: if_splits)
  have "authentic H up now meth authority path headers vo v"
    unfolding authentic_def f(16) verified_http_signature.simps
    using f(1-6,13,15,9) f(10) [unfolded check_created_Ok] ls auth by blast
  then show ?thesis using f(11,12,16) by simp
qed

text \<open>
  C21: an accepted signature authenticates the request. Its key is the one whose thumbprint is
  reported; when the key came in a JWT, that JWT's \<^verbatim>\<open>cnf\<close> names it; and the signature covers
  the request line, the authority and the key header (and the \<^verbatim>\<open>Authorization\<close> header when
  that is required) with the values the server saw, freshly.
\<close>
theorem verified_signature_authentic:
  assumes "http_verify H L up now meth authority path headers vo = Ok v"
  shows "authentic H up now meth authority path headers vo v \<and>
    httpsig_thumbprint L (vs_public_jwk v) = Ok (vs_thumbprint v) \<and>
    resolve_public_jwk H (vs_signature_key v) = Ok (vs_public_jwk v, vs_jwt v)"
  by (rule verify_authentic [OF assms])

section \<open>The key header is read back\<close>

definition clean :: "string \<Rightarrow> bool" where
  "clean v \<longleftrightarrow> CHR 0x22 \<notin> set v \<and> CHR '','' \<notin> set v \<and> CHR '';'' \<notin> set v"

fun key_values :: "signature_key \<Rightarrow> string list" where
  "key_values (SK_Jwt jwt) = [jwt]"
| "key_values (SK_Hwk k) = [kty k, crv k, jwk_x k] @ (case jwk_y k of None \<Rightarrow> [] | Some y \<Rightarrow> [y])
     @ (case jwk_kid k of None \<Rightarrow> [] | Some i \<Rightarrow> [i])"
| "key_values (SK_Unsupported s) = []"

lemma ws_plain [simp]:
  "\<not> ws_lead (CHR 0x22)" "\<not> ws_tail (CHR 0x22)" "\<not> ws_lead (CHR ''j'')" "\<not> ws_lead (CHR ''h'')"
  "\<not> ws_lead (CHR ''k'')" "\<not> ws_lead (CHR ''c'')" "\<not> ws_lead (CHR ''x'')" "\<not> ws_lead (CHR ''y'')"
  "\<not> ws_tail (CHR ''t'')" "\<not> ws_tail (CHR ''k'')" "\<not> ws_tail (CHR ''y'')" "\<not> ws_tail (CHR ''v'')"
  "\<not> ws_tail (CHR ''x'')" "\<not> ws_tail (CHR ''d'')"
  by (simp_all add: ws_lead_def ws_tail_def white_space_def)

lemma trim_param [simp]:
  "k \<noteq> [] \<Longrightarrow> \<not> ws_lead (hd k) \<Longrightarrow> trim (quoted_param k v) = quoted_param k v"
  by (rule trim_id) (simp_all add: quoted_param_def)

lemma trim_word [simp]:
  "trim ''jwt'' = ''jwt''" "trim ''hwk'' = ''hwk''" "trim ''kty'' = ''kty''" "trim ''crv'' = ''crv''"
  "trim ''x'' = ''x''" "trim ''y'' = ''y''" "trim ''kid'' = ''kid''"
  by (rule trim_id; simp)+

lemma trim_matches_quoted:
  assumes "CHR 0x22 \<notin> set v"
  shows "trim_matches (CHR 0x22) (''\"'' @ v @ ''\"'') = v"
proof -
  have id: "dropWhile (\<lambda>x. x = CHR 0x22) w = w" if "CHR 0x22 \<notin> set w" for w
    using that by (cases w) auto
  have "dropWhile (\<lambda>x. x = CHR 0x22) (v @ ''\"'') = (if v = [] then [] else v @ ''\"'')"
    using assms by (cases v) auto
  then show ?thesis using id [of "rev v"] assms
    by (simp add: trim_matches_def trim_start_matches_def trim_end_matches_def)
qed

lemma param_read:
  assumes "CHR 0x22 \<notin> set v" "CHR ''='' \<notin> set k" "k \<noteq> []" "\<not> ws_lead (hd k)" "trim k = k"
  shows "map_option (\<lambda>(k, v). (trim k, trim_matches (CHR 0x22) (trim v)))
     (split_once (CHR ''='') (trim (quoted_param k v))) = Some (k, v)"
proof -
  have s: "split_once (CHR ''='') (quoted_param k v) = Some (k, ''\"'' @ v @ ''\"'')"
    using assms(2) by (simp add: split_once_Some quoted_param_def)
  have "trim (''\"'' @ v @ ''\"'') = ''\"'' @ v @ ''\"''" by (rule trim_id) simp_all
  then show ?thesis using assms s trim_matches_quoted [OF assms(1)] by simp
qed

lemma clean_param: "clean v \<Longrightarrow> clean k \<Longrightarrow> CHR '';'' \<notin> set (quoted_param k v) \<and> CHR '','' \<notin> set (quoted_param k v)"
  by (simp add: clean_def quoted_param_def)

lemma jwt_member_read:
  assumes "clean jwt"
  shows "parse_member (''jwt;'' @ quoted_param ''jwt'' jwt) = Ok (SK_Jwt jwt)"
proof -
  have p: "CHR '';'' \<notin> set (quoted_param ''jwt'' jwt)" using assms clean_param [of jwt "''jwt''"] by (simp add: clean_def)
  have s: "split_on (CHR '';'') (''jwt;'' @ quoted_param ''jwt'' jwt) = [''jwt'', quoted_param ''jwt'' jwt]"
    using split_on_append [of "CHR '';''" "''jwt''" "quoted_param ''jwt'' jwt"] split_on_free [OF p] by simp
  have e: "find_sub ''\"'' (jwt @ ''\"'') = Some (length jwt)"
    using find_char_skip [of "CHR 0x22" jwt "[]"] assms by (simp add: clean_def)
  have j: "strip_prefix ''jwt=\"'' (quoted_param ''jwt'' jwt) = Some (jwt @ ''\"'')"
    by (simp add: quoted_param_def)
  have t: "trim (quoted_param ''jwt'' jwt) = quoted_param ''jwt'' jwt" by simp
  show ?thesis using s e j t by (simp add: parse_member_def ks_parse_def)
qed

lemma hwk_params_read:
  assumes "\<forall>(k, v) \<in> set ps. clean v \<and> k \<in> {''kty'', ''crv'', ''x'', ''y'', ''kid''}"
  shows "hwk_params (map (\<lambda>(k, v). quoted_param k v) ps) = map_of (rev ps)"
proof -
  have "List.map_filter (\<lambda>part. map_option (\<lambda>(k, v). (trim k, trim_matches (CHR 0x22) (trim v)))
      (split_once (CHR ''='') (trim part))) (map (\<lambda>(k, v). quoted_param k v) ps) = ps"
    using assms
  proof (induction ps)
    case (Cons p ps)
    obtain k v where p: "p = (k, v)" by (cases p)
    then have "clean v" "k \<in> {''kty'', ''crv'', ''x'', ''y'', ''kid''}" using Cons.prems by simp_all
    then have "map_option (\<lambda>(k, v). (trim k, trim_matches (CHR 0x22) (trim v)))
        (split_once (CHR ''='') (trim (quoted_param k v))) = Some (k, v)"
      by (intro param_read) (auto simp: clean_def)
    then show ?case using Cons p by (auto simp: map_filter_simps)
  qed (simp add: map_filter_simps)
  then show ?thesis by (simp add: hwk_params_def)
qed

definition jwk_params :: "public_jwk \<Rightarrow> (string \<times> string) list" where
  "jwk_params k = [(''kty'', kty k), (''crv'', crv k), (''x'', jwk_x k)]
     @ (case jwk_y k of None \<Rightarrow> [] | Some y \<Rightarrow> [(''y'', y)])
     @ (case jwk_kid k of None \<Rightarrow> [] | Some i \<Rightarrow> [(''kid'', i)])"

lemma hwk_member: "to_member_value (SK_Hwk k) = Ok (join '';'' (''hwk'' # map (\<lambda>(k, v). quoted_param k v) (jwk_params k)))"
  by (simp add: jwk_params_def split: option.split)

lemma hwk_member_read:
  assumes "\<forall>v \<in> set (key_values (SK_Hwk k)). clean v"
  shows "parse_member (join '';'' (''hwk'' # map (\<lambda>(k, v). quoted_param k v) (jwk_params k))) = Ok (SK_Hwk k)"
proof -
  let ?ps = "map (\<lambda>(k, v). quoted_param k v) (jwk_params k)"
  have c: "\<forall>(n, v) \<in> set (jwk_params k). clean v \<and> n \<in> {''kty'', ''crv'', ''x'', ''y'', ''kid''}"
    using assms by (auto simp: jwk_params_def split: option.splits)
  then have "\<forall>p \<in> set (''hwk'' # ?ps). CHR '';'' \<notin> set p"
    by (auto dest!: bspec simp: clean_def quoted_param_def)
  then have s: "split_on (CHR '';'') (join '';'' (''hwk'' # ?ps)) = ''hwk'' # ?ps"
    using split_on_join [of "''hwk'' # ?ps" "CHR '';''"] by simp
  have "map_of (rev (jwk_params k)) ''kty'' = Some (kty k)" "map_of (rev (jwk_params k)) ''crv'' = Some (crv k)"
    "map_of (rev (jwk_params k)) ''x'' = Some (jwk_x k)" "map_of (rev (jwk_params k)) ''y'' = jwk_y k"
    "map_of (rev (jwk_params k)) ''kid'' = jwk_kid k"
    by (simp_all add: jwk_params_def split: option.splits)
  then show ?thesis using s hwk_params_read [OF c] by (simp add: parse_member_def ks_parse_def)
qed

lemma member_shape:
  assumes "to_member_value key = Ok m" "\<forall>v \<in> set (key_values key). clean v"
  shows "CHR '','' \<notin> set m \<and> trim m = m \<and> parse_member m = Ok key"
proof (cases key)
  case (SK_Jwt jwt)
  have t: "trim (''jwt;'' @ quoted_param ''jwt'' jwt) = ''jwt;'' @ quoted_param ''jwt'' jwt"
    by (rule trim_id) (simp_all add: quoted_param_def)
  show ?thesis using assms SK_Jwt jwt_member_read [of jwt] t by (auto simp: clean_def quoted_param_def)
next
  case (SK_Hwk k)
  let ?m = "join '';'' (''hwk'' # map (\<lambda>(k, v). quoted_param k v) (jwk_params k))"
  have m: "m = ?m" using assms(1) SK_Hwk hwk_member by simp
  have "CHR '','' \<notin> set m" "trim m = m"
  proof -
    have sj: "set ?m \<subseteq> set '';'' \<union> \<Union> (set ` set (''hwk'' # map (\<lambda>(k, v). quoted_param k v) (jwk_params k)))"
      by (rule set_join)
    show "CHR '','' \<notin> set m" using sj assms(2) SK_Hwk
      by (auto simp: m jwk_params_def clean_def quoted_param_def split: option.splits)
    have "\<exists>r. ?m = r @ ''\"''"
      by (simp add: jwk_params_def quoted_param_def split: option.split)
    moreover have "\<exists>r. ?m = CHR ''h'' # r" by (simp add: jwk_params_def)
    ultimately show "trim m = m" unfolding m by (metis last_snoc list.distinct(1) list.sel(1) trim_id ws_plain(1-4))
  qed
  then show ?thesis using m hwk_member_read assms(2) SK_Hwk by simp
qed (use assms in simp)

text \<open>
  A key header is read back: whatever label it is written under, a JWT or bare key whose
  values hold no quote, comma or semicolon is parsed from its own \<^verbatim>\<open>Signature-Key\<close> header.
\<close>

lemma key_read_back:
  assumes "\<forall>v \<in> set (key_values key). clean v" and "sk_to_header key label = Ok h"
  shows "sk_from_header h label = Ok key"
proof -
  obtain m where m: "to_member_value key = Ok m" "h = (label @ ''='') @ m"
    using assms(2) by (auto simp: sk_to_header_def map_ok_Ok)
  from member_shape [OF m(1) assms(1)]
  have k: "CHR '','' \<notin> set m" "trim m = m" "parse_member m = Ok key" by simp_all
  have "find_sub (label @ ''='') h = Some 0" unfolding m(2) by (rule find_sub_here)
  then show ?thesis using k m(2) split_on_free [OF k(1)] by (simp add: sk_from_header_def Let_def)
qed

section \<open>A signed request verifies\<close>

text \<open>
  What RFC 9421 promises of the crate for a key pair at the time of signing: component
  identifiers and parameters keep what they were made of, and header values it built parse
  back to a signature that the public key accepts over the same lines.
\<close>

definition crate_agrees ::
    "('p, 's) httpsig_lib \<Rightarrow> u64 \<Rightarrow> string \<times> string \<Rightarrow> string \<times> string \<Rightarrow> bool" where
  "crate_agrees H now sk pk \<longleftrightarrow>
     (\<forall>n i. hl_component_id H n = Inr i \<longrightarrow> CHR 0x22 \<notin> set n \<longrightarrow> unquote_id i = n) \<and>
     (\<forall>ids p. hl_new_params H ids = Inr p \<longrightarrow>
        hl_covered H (hl_set_created H now p) = ids \<and> hl_created H (hl_set_created H now p) = Some now) \<and>
     (\<forall>ls p label input sg. hl_build H ls p sk label = Inr (input, sg) \<longrightarrow>
        to_str_ok input \<and> to_str_ok sg \<and>
        (\<exists>members s. hl_parse H sg input = Inr members \<and> members label = Some s \<and>
           hl_params_of H s = p \<and> hl_check H ls p pk s))"

text \<open>An extra component is a header of the request, under its normal name.\<close>

definition extra_ok :: "('p, 's) httpsig_lib \<Rightarrow> header_map \<Rightarrow> string \<times> string \<Rightarrow> bool" where
  "extra_ok H headers e \<longleftrightarrow>
     header_value headers (fst e) = Some (snd e) \<and> hl_header_name H (fst e) = Some (fst e) \<and>
     CHR 0x22 \<notin> set (fst e) \<and>
     fst e \<notin> {''@method'', ''@authority'', ''@path'', ''signature-key'', ''signature-input'', ''signature''}"

lemma all_ok_list: "all_ok f xs = Ok ys \<Longrightarrow> list_all2 (\<lambda>x y. f x = Inr y) xs ys"
  by (induction xs arbitrary: ys) (auto simp: bind_res_Ok map_err_Ok map_ok_Ok)

lemma all_ok_member: "all_ok f xs = Ok ys \<Longrightarrow> x \<in> set xs \<Longrightarrow> \<exists>y. f x = Inr y"
  by (induction xs arbitrary: ys) (auto simp: bind_res_Ok map_err_Ok map_ok_Ok)

lemma list_all2_mono_elem:
  assumes "list_all2 P xs ys" and "\<And>x y. x \<in> set xs \<Longrightarrow> P x y \<Longrightarrow> Q x y"
  shows "list_all2 Q xs ys"
  using assms by (induction rule: list_all2_induct) auto

lemma component_lines_list:
  assumes "list_all2 (\<lambda>(n, v) i. unquote_id i = n \<and> component_value H up sp n = Ok v \<and>
      hl_component H (component_line n v) = Inr ()) cs is"
  shows "component_lines H up sp is = Ok (map (\<lambda>(n, v). component_line n v) cs)"
  using assms by (induction cs "is" rule: list_all2_induct) (auto simp: Let_def)

lemma to_str_ok_parts [simp]:
  "to_str_ok [] " "to_str_ok (c # s) \<longleftrightarrow> ((32 \<le> byte c \<and> byte c < 127) \<or> byte c = 9) \<and> to_str_ok s"
  "to_str_ok (s @ t) \<longleftrightarrow> to_str_ok s \<and> to_str_ok t"
  by (simp_all add: to_str_ok_def)

lemma sign_steps:
  assumes "http_sign H up now meth authority path material extras None headers = (Ok (), headers')"
    and "sm_signature_key material = SK_Jwt jwt"
  obtains ids p sk us input sg where
    "all_ok (hl_component_id H) (required_components @ map fst extras) = Ok ids"
    "hl_new_params H ids = Inr p" "secret_key_from_signing_jwk H (sm_signing_jwk material) = Ok sk"
    "all_ok (hl_component H) (sign_lines up meth authority path (''sig=jwt;'' @ quoted_param ''jwt'' jwt) extras)
       = Ok us"
    "hl_base H (sign_lines up meth authority path (''sig=jwt;'' @ quoted_param ''jwt'' jwt) extras)
       (hl_set_created H now p) = Inr ()"
    "hl_build H (sign_lines up meth authority path (''sig=jwt;'' @ quoted_param ''jwt'' jwt) extras)
       (hl_set_created H now p) sk ''sig'' = Inr (input, sg)"
    "headers' = hm_insert (hm_insert (hm_insert headers ''signature-key''
       (''sig=jwt;'' @ quoted_param ''jwt'' jwt)) ''signature-input'' input) ''signature'' sg"
  using assms
  by (auto simp: http_sign_def Let_def run_Ok sk_to_header_def insert_header_def map_err_Ok
      split: if_splits prod.splits)

lemma signed_verifies:
  assumes signed: "http_sign H up now meth authority path material extras None headers = (Ok (), headers')"
    and key: "sm_signature_key material = SK_Jwt jwt" "clean jwt" "to_str_ok jwt"
    and cnf: "cnf_jwk_from_jwt H jwt = Ok jwk" "httpsig_thumbprint L jwk = Ok tp"
      "public_key_from_jwk H jwk = Ok pk"
    and crate: "secret_key_from_signing_jwk H (sm_signing_jwk material) = Ok sk" "crate_agrees H now sk pk"
    and extras: "\<forall>e \<in> set extras. extra_ok H headers e"
    and fresh: "now \<le> now'" "now' - now \<le> 120" "now' \<le> now' + 60"
    and auth: "vo \<in> {verify_options_default, verify_options_default
      \<lparr>vo_require_authorization := ''authorization'' \<in> set (map fst extras)\<rparr>}"
  shows "http_verify H L up now' meth authority path headers' vo =
    Ok \<lparr>vs_label = ''sig'', vs_signature_key = SK_Jwt jwt, vs_public_jwk = jwk, vs_thumbprint = tp,
      vs_jwt = Some jwt\<rparr>"
proof -
  let ?kh = "''sig=jwt;'' @ quoted_param ''jwt'' jwt"
  let ?ls = "sign_lines up meth authority path ?kh extras"
  let ?p = "\<lambda>p. hl_set_created H now p"
  let ?sp = "\<lparr>sp_method = meth, sp_authority = authority, sp_path = path, sp_key_header = ?kh,
    sp_headers = headers'\<rparr>"
  let ?cs = "[(''@method'', to_uppercase up meth), (''@authority'', authority), (''@path'', path),
    (''signature-key'', ?kh)] @ extras"
  obtain ids p us input sg where st:
    "all_ok (hl_component_id H) (required_components @ map fst extras) = Ok ids"
    "hl_new_params H ids = Inr p" "all_ok (hl_component H) ?ls = Ok us" "hl_base H ?ls (?p p) = Inr ()"
    "hl_build H ?ls (?p p) sk ''sig'' = Inr (input, sg)"
    "headers' = hm_insert (hm_insert (hm_insert headers ''signature-key'' ?kh) ''signature-input'' input)
       ''signature'' sg"
    by (rule sign_steps [OF signed key(1)]) (use crate(1) in simp)
  obtain members s where c: "to_str_ok input" "to_str_ok sg" "hl_parse H sg input = Inr members"
    "members ''sig'' = Some s" "hl_params_of H s = ?p p" "hl_check H ?ls (?p p) pk s"
    "hl_covered H (?p p) = ids" "hl_created H (?p p) = Some now"
  proof -
    have "hl_covered H (?p p) = ids" "hl_created H (?p p) = Some now"
      using crate(2) st(2) unfolding crate_agrees_def by simp_all
    moreover obtain members s where "to_str_ok input" "to_str_ok sg" "hl_parse H sg input = Inr members"
      "members ''sig'' = Some s" "hl_params_of H s = ?p p" "hl_check H ?ls (?p p) pk s"
      using crate(2) st(5) unfolding crate_agrees_def by blast
    ultimately show ?thesis using that by blast
  qed
  have hdr: "header_value headers' ''signature-key'' = Some ?kh" "header_value headers' ''signature-input'' = Some input"
    "header_value headers' ''signature'' = Some sg"
    using c key(3) by (simp_all add: st(6) header_value_def quoted_param_def byte_def)
  have kr: "sk_from_header ?kh ''sig'' = Ok (SK_Jwt jwt)"
    using key_read_back [of "SK_Jwt jwt" "''sig''" ?kh] key(2) by (simp add: sk_to_header_def)
  have names: "map fst ?cs = required_components @ map fst extras"
    by (simp add: required_components_def)
  have lines: "?ls = map (\<lambda>(n, v). component_line n v) ?cs" by (simp add: sign_lines_def)
  have "list_all2 (\<lambda>e i. hl_component_id H (fst e) = Inr i) ?cs ids"
    using all_ok_list [OF st(1)] unfolding names [symmetric] by (simp only: list_all2_map1)
  then have "list_all2 (\<lambda>(n, v) i. unquote_id i = n \<and> component_value H up ?sp n = Ok v \<and>
      hl_component H (component_line n v) = Inr ()) ?cs ids"
  proof (rule list_all2_mono_elem)
    fix e i assume e: "e \<in> set ?cs" and i: "hl_component_id H (fst e) = Inr i"
    have "component_line (fst e) (snd e) \<in> set ?ls" using e unfolding lines by (force simp: case_prod_beta)
    then have l: "hl_component H (component_line (fst e) (snd e)) = Inr ()"
      using all_ok_member [OF st(3)] by auto
    have v: "component_value H up ?sp (fst e) = Ok (snd e)"
    proof (cases "e \<in> set extras")
      case True
      then have x: "extra_ok H headers e" using extras by blast
      then have "header_value headers' (fst e) = Some (snd e)"
        by (simp add: st(6) extra_ok_def header_value_def)
      then show ?thesis using x by (simp add: component_value_def extra_ok_def)
    next
      case False
      then show ?thesis using e by (auto simp: component_value_def)
    qed
    have "CHR 0x22 \<notin> set (fst e)" using e extras by (auto simp: extra_ok_def)
    then have "unquote_id i = fst e" using crate(2) i unfolding crate_agrees_def by blast
    then show "(case e of (n, v) \<Rightarrow> \<lambda>i. unquote_id i = n \<and> component_value H up ?sp n = Ok v \<and>
        hl_component H (component_line n v) = Inr ()) i" using l v by (simp add: case_prod_beta)
  qed
  note la = this
  have cl: "component_lines H up ?sp ids = Ok ?ls" unfolding lines by (rule component_lines_list [OF la])
  have cov: "map unquote_id ids = required_components @ map fst extras"
    unfolding names [symmetric] using la by (induction rule: list_all2_induct) auto
  have rc: "require_components (map unquote_id ids) required_components = Ok ()"
    by (simp add: require_components_Ok cov)
  have ac: "authorization_covered vo (map unquote_id ids) = Ok ()"
    using auth by (auto simp: authorization_covered_def cov verify_options_default_def)
  have w: "now \<le> now' + 60" using fresh(1,3) by (rule order_trans)
  have cc: "check_created vo now' now = Ok ()"
    using auth fresh w by (auto simp: check_created_Ok verify_options_default_def not_less)
  have lb: "vo_label vo = None" using auth by (auto simp: verify_options_default_def)
  show ?thesis
    using hdr kr c(3-8) rc ac cc cnf cl st(4) lb
    by (simp add: http_verify_def Let_def)
qed

text \<open>
  C19: what one side signs the other accepts. A request signed with a key presented as a JWT is
  accepted by the verifier for the same method, authority and path within the two-minute
  window, whatever extra header components were covered, and the verifier reports that JWT,
  its confirmation key and the key's thumbprint. The crate is assumed to honour RFC 9421.
\<close>
theorem signed_request_verifies:
  assumes signed: "http_sign H up now meth authority path material extras None headers = (Ok (), headers')"
    and key: "sm_signature_key material = SK_Jwt jwt" "clean jwt" "to_str_ok jwt"
    and cnf: "cnf_jwk_from_jwt H jwt = Ok jwk" "httpsig_thumbprint L jwk = Ok tp"
      "public_key_from_jwk H jwk = Ok pk"
    and crate: "secret_key_from_signing_jwk H (sm_signing_jwk material) = Ok sk" "crate_agrees H now sk pk"
    and extras: "\<forall>e \<in> set extras. extra_ok H headers e"
    and fresh: "now \<le> now'" "now' - now \<le> 120" "now' \<le> now' + 60"
    and auth: "vo \<in> {verify_options_default, verify_options_default
      \<lparr>vo_require_authorization := ''authorization'' \<in> set (map fst extras)\<rparr>}"
  shows "http_verify H L up now' meth authority path headers' vo =
    Ok \<lparr>vs_label = ''sig'', vs_signature_key = SK_Jwt jwt, vs_public_jwk = jwk, vs_thumbprint = tp,
      vs_jwt = Some jwt\<rparr>"
  by (rule signed_verifies [OF assms])

section \<open>A concrete signature\<close>

text \<open>
  A crate instance that can sign two messages, \<^verbatim>\<open>GET https://r/\<close> at time 1000 without and with the
  credential \<^verbatim>\<open>AAuth 07\<close>, and a signer whose JWT \<^verbatim>\<open>agent.p.s\<close> has \<open>sample_jwk\<close> as its
  confirmation key.
\<close>

definition sample_extras :: sign_options where
  "sample_extras = [(''authorization'', ''AAuth 07'')]"

definition sample_lines :: "sign_options \<Rightarrow> string list" where
  "sample_lines extras = sign_lines id ''GET'' ''r'' ''/'' ''sig=jwt;jwt=\"agent.p.s\"'' extras"

definition sample_params :: "sign_options \<Rightarrow> string list \<times> u64 option" where
  "sample_params extras = (map (\<lambda>n. ''\"'' @ n @ ''\"'') (required_components @ map fst extras), Some 1000)"

definition sample_key_json :: serde_json where
  "sample_key_json =
     \<lparr>sj_parse = (\<lambda>_. Some (JObj [(''cnf'', JObj [(''jwk'', JObj (jwk_json sample_jwk))])])),
      sj_print = (\<lambda>_. []), sj_error = (\<lambda>_. [])\<rparr>"

definition sample_http :: "(string list \<times> u64 option, string list \<times> u64 option) httpsig_lib" where
  "sample_http =
     \<lparr>hl_parse = (\<lambda>sg input.
        if sg = ''s1'' \<and> input = ''i1'' then Inr [''sig'' \<mapsto> sample_params []]
        else if sg = ''s2'' \<and> input = ''i2'' then Inr [''sig'' \<mapsto> sample_params sample_extras]
        else Inl ''syntax''),
      hl_params_of = id, hl_covered = fst, hl_created = snd,
      hl_component_id = (\<lambda>n. Inr (''\"'' @ n @ ''\"'')), hl_new_params = (\<lambda>ids. Inr (ids, None)),
      hl_set_created = (\<lambda>t p. (fst p, Some t)), hl_component = (\<lambda>_. Inr ()), hl_base = (\<lambda>_ _. Inr ()),
      hl_check = (\<lambda>ls p pk sg. (ls, p) \<in> {(sample_lines [], sample_params []),
        (sample_lines sample_extras, sample_params sample_extras)} \<and> sg = p),
      hl_build = (\<lambda>ls p sk l.
        if (ls, p, l) = (sample_lines [], sample_params [], ''sig'') then Inr (''i1'', ''s1'')
        else if (ls, p, l) = (sample_lines sample_extras, sample_params sample_extras, ''sig'') then Inr (''i2'', ''s2'')
        else Inl ''unknown message''),
      hl_public_key = (\<lambda>_ _. Inr ()), hl_secret_key = (\<lambda>_ _. Inr ()), hl_header_name = Some,
      hl_header_error = [], hl_b64 = (\<lambda>_. Inr (replicate 32 (CHR 0x01))),
      hl_b64_pad = (\<lambda>_. Inl ''padding''), hl_json = sample_key_json\<rparr>"

definition sample_signing_jwk :: signing_jwk where
  "sample_signing_jwk =
     \<lparr>s_kty = ''OKP'', s_crv = ''Ed25519'', s_x = ''x'', s_y = None, s_d = ''d'', s_kid = Some ''k1''\<rparr>"

definition sample_material :: signing_material where
  "sample_material = \<lparr>sm_signing_jwk = sample_signing_jwk, sm_signature_key = SK_Jwt ''agent.p.s''\<rparr>"

definition sample_signed_headers :: header_map where
  "sample_signed_headers =
     [(''signature-key'', ''sig=jwt;jwt=\"agent.p.s\"''), (''signature-input'', ''i1''), (''signature'', ''s1'')]"

definition sample_retry_headers :: header_map where
  "sample_retry_headers =
     [(''authorization'', ''AAuth 07''), (''signature-key'', ''sig=jwt;jwt=\"agent.p.s\"''),
      (''signature-input'', ''i2''), (''signature'', ''s2'')]"

lemma sample_lib_steps:
  "hl_new_params sample_http is = Inr (is, None)" "hl_set_created sample_http t (is, c) = (is, Some t)"
  "hl_base sample_http ls ps = Inr ()" "hl_component sample_http l = Inr ()"
  "hl_component_id sample_http n = Inr (''\"'' @ n @ ''\"'')" "hl_header_name sample_http n = Some n"
  "hl_build sample_http (sample_lines []) (sample_params []) sk ''sig'' = Inr (''i1'', ''s1'')"
  "hl_build sample_http (sample_lines sample_extras) (sample_params sample_extras) sk ''sig'' = Inr (''i2'', ''s2'')"
  by (simp_all add: sample_http_def) (simp add: sample_params_def sample_extras_def required_components_def)

lemma all_ok_Ok: "(\<And>x. f x = Inr (g x)) \<Longrightarrow> all_ok f xs = Ok (map g xs)"
  by (induction xs) simp_all

lemma sample_secret: "secret_key_from_signing_jwk sample_http sample_signing_jwk = Ok (''ed25519'', replicate 32 (CHR 0x01))"
  by (simp add: secret_key_from_signing_jwk_def sample_signing_jwk_def sample_http_def)

lemma sample_signed:
  "http_sign sample_http id 1000 ''GET'' ''r'' ''/'' sample_material [] None []
     = (Ok (), sample_signed_headers)"
  "http_sign sample_http id 1000 ''GET'' ''r'' ''/'' sample_material sample_extras None [(''authorization'', ''AAuth 07'')]
     = (Ok (), sample_retry_headers)"
proof -
  have l: "sign_lines id ''GET'' ''r'' ''/'' ''sig=jwt;jwt=\"agent.p.s\"'' extras = sample_lines extras" for extras
    by (simp add: sample_lines_def)
  have ids: "all_ok (hl_component_id sample_http) ns = Ok (map (\<lambda>n. ''\"'' @ n @ ''\"'') ns)"
    "all_ok (hl_component sample_http) ls = Ok (map (\<lambda>_. ()) ls)" for ns ls
    by (rule all_ok_Ok, simp add: sample_lib_steps)+
  have p: "(map (\<lambda>n. ''\"'' @ n @ ''\"'') (required_components @ map fst extras), Some 1000) = sample_params extras"
    for extras by (simp add: sample_params_def)
  note run = http_sign_def sample_material_def seq_def sk_to_header_def insert_header_def Let_def hm_insert_def
    hm_remove_def quoted_param_def header_value_ok_def byte_def sample_secret ids sample_lib_steps
  show "http_sign sample_http id 1000 ''GET'' ''r'' ''/'' sample_material [] None []
      = (Ok (), sample_signed_headers)"
    using l [of "[]"] p [of "[]"] by (simp add: run sample_signed_headers_def)
  show "http_sign sample_http id 1000 ''GET'' ''r'' ''/'' sample_material sample_extras None [(''authorization'', ''AAuth 07'')]
      = (Ok (), sample_retry_headers)"
    using l [of sample_extras] p [of sample_extras] by (simp add: run sample_retry_headers_def)
qed

lemma sample_cnf: "cnf_jwk_from_jwt sample_http ''agent.p.s'' = Ok sample_jwk"
  by (simp add: cnf_jwk_from_jwt_def sample_http_def sample_key_json_def from_slice_def de_jwt_payload_def
      field_def en_opt_def de_cnf_def de_public_jwk_def jwk_json_def sample_jwk_def)

lemma sample_public_key: "public_key_from_jwk sample_http sample_jwk = Ok (''ed25519'', replicate 32 (CHR 0x01))"
  by (simp add: public_key_from_jwk_def sample_jwk_def sample_http_def)

lemma sample_httpsig_thumbprint: "httpsig_thumbprint sample_lib sample_jwk = Ok ''T''"
  by (simp add: httpsig_thumbprint_def thumbprint_members_def sample_jwk_def sample_lib_def)

lemma sample_params_distinct: "sample_params [] \<noteq> sample_params sample_extras"
  by (simp add: sample_params_def sample_extras_def)

lemma sample_crate: "crate_agrees sample_http 1000 sk pk"
  using trim_matches_quoted sample_params_distinct
  by (auto simp: crate_agrees_def sample_http_def unquote_id_def to_str_ok_def byte_def split: if_splits)

lemma sample_verifies:
  assumes "http_sign sample_http id 1000 meth authority path sample_material extras None headers = (Ok (), headers')"
    and "\<forall>e \<in> set extras. extra_ok sample_http headers e"
    and "vo \<in> {verify_options_default, verify_options_default
      \<lparr>vo_require_authorization := ''authorization'' \<in> set (map fst extras)\<rparr>}"
  shows "http_verify sample_http sample_lib id 1000 meth authority path headers' vo =
     Ok \<lparr>vs_label = ''sig'', vs_signature_key = SK_Jwt ''agent.p.s'', vs_public_jwk = sample_jwk,
       vs_thumbprint = ''T'', vs_jwt = Some ''agent.p.s''\<rparr>"
  by (rule signed_verifies [OF assms(1) _ _ _ sample_cnf sample_httpsig_thumbprint sample_public_key _ sample_crate
        assms(2) _ _ _ assms(3)])
    (simp_all add: sample_material_def clean_def to_str_ok_def byte_def sample_secret)

lemma sample_request_verifies:
  "http_verify sample_http sample_lib id 1000 ''GET'' ''r'' ''/'' sample_signed_headers verify_options_default =
     Ok \<lparr>vs_label = ''sig'', vs_signature_key = SK_Jwt ''agent.p.s'', vs_public_jwk = sample_jwk,
       vs_thumbprint = ''T'', vs_jwt = Some ''agent.p.s''\<rparr>"
  by (rule sample_verifies [OF sample_signed(1)]) simp_all

lemma sample_retry_verifies:
  "http_verify sample_http sample_lib id 1000 ''GET'' ''r'' ''/'' sample_retry_headers
      (verify_options_default\<lparr>vo_require_authorization := True\<rparr>) =
     Ok \<lparr>vs_label = ''sig'', vs_signature_key = SK_Jwt ''agent.p.s'', vs_public_jwk = sample_jwk,
       vs_thumbprint = ''T'', vs_jwt = Some ''agent.p.s''\<rparr>"
  by (rule sample_verifies [OF sample_signed(2)])
    (simp_all add: sample_extras_def extra_ok_def header_value_def to_str_ok_def byte_def sample_lib_steps)

theorem signed_request_verifies_witness:
  "http_verify sample_http sample_lib id 1060 ''GET'' ''r'' ''/'' sample_signed_headers verify_options_default =
     Ok \<lparr>vs_label = ''sig'', vs_signature_key = SK_Jwt ''agent.p.s'', vs_public_jwk = sample_jwk,
       vs_thumbprint = ''T'', vs_jwt = Some ''agent.p.s''\<rparr>"
  by (rule signed_request_verifies [OF sample_signed(1) _ _ _ sample_cnf sample_httpsig_thumbprint
        sample_public_key _ sample_crate])
    (simp_all add: sample_material_def clean_def to_str_ok_def byte_def sample_secret)

theorem verified_signature_authentic_witness:
  "\<exists>v. vs_jwt v = Some ''agent.p.s'' \<and>
     authentic sample_http id 1000 ''GET'' ''r'' ''/'' sample_signed_headers verify_options_default v"
  using verified_signature_authentic [OF sample_request_verifies]
  by (intro exI conjI) (auto simp: sample_cnf)

end
