(* ===== verification/Resource_Service.thy ===== *)
theory Resource_Service
  imports Person_Service
begin

text \<open>
  The resource-managed access service (\<^verbatim>\<open>aauth-policy/src/resource\<close>,
  \<^verbatim>\<open>aauth/src/resource/service.rs\<close>): opaque access tokens, consent decisions and polling of
  pending consents. The state is the pair of the pending store's and the token store's. The
  token store is an interface of its own, kept by the in-memory one.
\<close>

section \<open>Opaque access tokens (\<^verbatim>\<open>resource/opaque.rs\<close>)\<close>

record 'o opaque_ops =
  oo_issue :: "u8 list \<Rightarrow> string \<Rightarrow> 'o \<Rightarrow> string \<times> 'o"
  oo_validate :: "string \<Rightarrow> string \<Rightarrow> 'o \<Rightarrow> bool"
  oo_revoke :: "string \<Rightarrow> 'o \<Rightarrow> 'o"

text \<open>The in-memory store: the map from tokens to agents.\<close>

type_synonym opaque_map = "string \<rightharpoonup> string"

definition opaque_new :: opaque_map where
  "opaque_new = Map.empty"

text \<open>\<open>b64\<close> is \<^verbatim>\<open>URL_SAFE_NO_PAD.encode\<close>; \<open>bytes\<close> are the 32 random bytes.\<close>

definition opaque_token :: "(string \<Rightarrow> string) \<Rightarrow> u8 list \<Rightarrow> string" where
  "opaque_token b64 bytes =
     b64 (concat (map (\<lambda>b. [hex_digit (unat b div 16), hex_digit (unat b mod 16)]) bytes))"

definition opaque_issue :: "(string \<Rightarrow> string) \<Rightarrow> u8 list \<Rightarrow> string \<Rightarrow> opaque_map \<Rightarrow> string \<times> opaque_map" where
  "opaque_issue b64 bytes agent_id tokens =
     (let encoded = opaque_token b64 bytes in (encoded, tokens(encoded \<mapsto> agent_id)))"

definition opaque_validate :: "string \<Rightarrow> string \<Rightarrow> opaque_map \<Rightarrow> bool" where
  "opaque_validate token agent_id tokens =
     (case tokens token of None \<Rightarrow> False | Some i \<Rightarrow> i = agent_id)"

definition opaque_revoke :: "string \<Rightarrow> opaque_map \<Rightarrow> opaque_map" where
  "opaque_revoke token tokens = tokens(token := None)"

definition opaque_mem_ops :: "(string \<Rightarrow> string) \<Rightarrow> opaque_map opaque_ops" where
  "opaque_mem_ops b64 =
     \<lparr>oo_issue = opaque_issue b64, oo_validate = opaque_validate, oo_revoke = opaque_revoke\<rparr>"

section \<open>The contract of a token store\<close>

text \<open>Events of a store's life, and what a store is after them.\<close>

datatype opaque_event = OE_Issue "u8 list" string | OE_Revoke string

fun opaque_step :: "'o opaque_ops \<Rightarrow> opaque_event \<Rightarrow> 'o \<Rightarrow> 'o" where
  "opaque_step ops (OE_Issue bytes agent_id) s = snd (oo_issue ops bytes agent_id s)"
| "opaque_step ops (OE_Revoke token) s = oo_revoke ops token s"

definition opaque_run :: "'o opaque_ops \<Rightarrow> opaque_event list \<Rightarrow> 'o \<Rightarrow> 'o" where
  "opaque_run ops evs s = fold (opaque_step ops) evs s"

text \<open>The abstract view: who holds a token is decided by the last event that names it.\<close>

fun holder :: "(u8 list \<Rightarrow> string) \<Rightarrow> string \<Rightarrow> opaque_event list \<Rightarrow> string option" where
  "holder tok t [] = None"
| "holder tok t (OE_Issue bytes a # evs) = (if tok bytes = t then Some a else holder tok t evs)"
| "holder tok t (OE_Revoke u # evs) = (if u = t then None else holder tok t evs)"

locale opaque_store =
  fixes ops :: "'o opaque_ops" and owner :: "'o \<Rightarrow> string \<rightharpoonup> string" and tok :: "u8 list \<Rightarrow> string"
  assumes issue_law: "oo_issue ops bytes a s = (t, s') \<Longrightarrow> t = tok bytes \<and> owner s' = (owner s)(t \<mapsto> a)"
    and validate_law: "oo_validate ops t a s \<longleftrightarrow> owner s t = Some a"
    and revoke_law: "owner (oo_revoke ops t s) = (owner s)(t := None)"
begin

lemma step_owner:
  "owner (opaque_step ops e s) t = (case e of
      OE_Issue bytes a \<Rightarrow> if tok bytes = t then Some a else owner s t
    | OE_Revoke u \<Rightarrow> if u = t then None else owner s t)"
proof (cases e)
  case (OE_Issue bytes a)
  obtain u s' where i: "oo_issue ops bytes a s = (u, s')" by (cases "oo_issue ops bytes a s")
  from issue_law [OF i] OE_Issue i show ?thesis by simp
qed (simp add: revoke_law)

lemma run_owner:
  assumes "owner s = Map.empty"
  shows "owner (opaque_run ops evs s) t = holder tok t (rev evs)"
proof (induction evs rule: rev_induct)
  case Nil
  then show ?case using assms by (simp add: opaque_run_def)
next
  case (snoc e evs)
  have "owner (opaque_run ops (evs @ [e]) s) t = owner (opaque_step ops e (opaque_run ops evs s)) t"
    by (simp add: opaque_run_def)
  then show ?case using snoc by (cases e) (simp_all add: step_owner del: opaque_step.simps)
qed

lemma run_validate:
  "owner s = Map.empty \<Longrightarrow>
     oo_validate ops t a (opaque_run ops evs s) \<longleftrightarrow> holder tok t (rev evs) = Some a"
  by (simp add: validate_law run_owner)

end

interpretation opaque_mem: opaque_store "opaque_mem_ops b64" "\<lambda>s. s" "opaque_token b64" for b64
  by unfold_locales
    (auto simp: opaque_mem_ops_def opaque_issue_def opaque_validate_def opaque_revoke_def Let_def
      split: option.splits)

text \<open>
  C38: the in-memory token store implements the abstract one: whatever tokens were issued and
  revoked since it was created, a token is accepted for an agent exactly when the last event
  that concerns that token issued it to that agent. So a revoked token is dead, and a token
  is never valid for two agents at once.
\<close>
theorem opaque_tokens_refine:
  "oo_validate (opaque_mem_ops b64) t a (opaque_run (opaque_mem_ops b64) evs opaque_new) =
     (holder (opaque_token b64) t (rev evs) = Some a)"
  by (rule opaque_mem.run_validate) (simp add: opaque_new_def)

section \<open>The service (\<^verbatim>\<open>resource/service.rs\<close>)\<close>

datatype 'e resource_error =
    RSE_Store 'e
  | RSE_Policy string

record ('s, 'e, 'o) resource_service =
  rv_policy :: "(resource_access_context, resource_consent_decision) policy"
  rv_pending :: "('s, 'e, resource_pending_context) store_ops"
  rv_opaque :: "'o opaque_ops"
  rv_config :: resource_access_config

text \<open>An action on the pending store, seen on the pair of states.\<close>

definition on_pending :: "('s, 'e, 'a) action \<Rightarrow> ('s \<times> 'o, 'e resource_error, 'a) action" where
  "on_pending m = (\<lambda>(s, tokens). case m s of (r, s') \<Rightarrow> (map_err RSE_Store r, (s', tokens)))"

text \<open>An empty url or code of an interaction is filled in.\<close>

fun fill_interaction :: "env \<Rightarrow> resource_access_config \<Rightarrow> defer_requirement \<Rightarrow> defer_requirement" where
  "fill_interaction ev cfg (DR_Interaction url code) =
     DR_Interaction (if url = [] then rac_interaction_url cfg else url)
       (if code = [] then generate_code (ev_code_bytes ev) else code)"
| "fill_interaction ev cfg requirement = requirement"

definition create_deferred_resource_response ::
    "env \<Rightarrow> ('s, 'e, 'o) resource_service \<Rightarrow> resource_access_context \<Rightarrow> defer_requirement \<Rightarrow>
     ('s \<times> 'o, 'e resource_error, resource_consent_flow_outcome) action" where
  "create_deferred_resource_response ev svc ctx requirement =
     (let requirement = fill_interaction ev (rv_config svc) requirement;
          i = generate_pending_id (ev_id_bytes ev);
          location = pending_location (rac_pending_base_url (rv_config svc))
            (rac_pending_path (rv_config svc)) i;
          record = pending_record_new (ev_now ev) i
            \<lparr>rp_resource_url = ra_resource_url ctx, rp_agent_claims = ra_agent_claims ctx,
             rp_scope = ra_scope ctx\<rparr>
            (snapshot_waiting requirement) (rac_pending_ttl_secs (rv_config svc))
      in seq (on_pending (op_create (rv_pending svc) record)) (\<lambda>_.
         ret (RCO_Deferred \<lparr>dc_location = location, dc_requirement = requirement\<rparr>)))"

definition consent_for_agent ::
    "env \<Rightarrow> u8 list \<Rightarrow> ('s, 'e, 'o) resource_service \<Rightarrow> resource_access_context \<Rightarrow>
     ('s \<times> 'o, 'e resource_error, resource_consent_flow_outcome) action" where
  "consent_for_agent ev token_bytes svc ctx =
     seq (lift_res (map_err RSE_Policy (pol_evaluate (rv_policy svc) ctx))) (\<lambda>decision.
     case decision of
       RD_GrantOpaque \<Rightarrow> (\<lambda>(s, tokens).
         case oo_issue (rv_opaque svc) token_bytes (claims_identifier (ra_agent_claims ctx)) tokens of
           (token, tokens') \<Rightarrow> (Ok (RCO_GrantOpaque token), (s, tokens')))
     | RD_Deny err \<Rightarrow> ret (RCO_Denied err)
     | RD_Defer requirement \<Rightarrow> create_deferred_resource_response ev svc ctx requirement)"

definition resource_poll_pending ::
    "env \<Rightarrow> ('s, 'e, 'o) resource_service \<Rightarrow> string \<Rightarrow>
     ('s \<times> 'o, 'e resource_error, auth_token_poll_outcome) action" where
  "resource_poll_pending ev svc pending_id =
     seq (on_pending (poll_auth_pending (rv_pending svc) (ev_now ev) pending_id)) (\<lambda>outcome.
     if (case outcome of
           AP_Complete (PO_OpaqueAccess _) \<Rightarrow> True
         | AP_Complete (PO_AuthToken _) \<Rightarrow> True
         | _ \<Rightarrow> False)
     then seq (ignore (on_pending (op_remove (rv_pending svc) pending_id))) (\<lambda>_. ret outcome)
     else ret outcome)"

definition service_validate_opaque :: "('s, 'e, 'o) resource_service \<Rightarrow> string \<Rightarrow> string \<Rightarrow> 's \<times> 'o \<Rightarrow> bool" where
  "service_validate_opaque svc token agent_id = (\<lambda>(s, tokens). oo_validate (rv_opaque svc) token agent_id tokens)"

section \<open>Access modes (\<^verbatim>\<open>aauth/src/resource/service.rs\<close>)\<close>

text \<open>The service of the mode is the caller's; \<^verbatim>\<open>NoResourceAccessService\<close> rejects every token.\<close>

datatype 'svc resource_access_mode =
    RM_IdentityBased
  | RM_PsAsserted (rm_require_auth_token: bool) (rm_access_server_url: "string option")
      (rm_person_server_fallback: "string option")
  | RM_ResourceManaged 'svc

definition no_validate_opaque :: "string \<Rightarrow> string \<Rightarrow> bool" where
  "no_validate_opaque token agent_id = False"

record resource_interaction_context =
  rx_resource_url :: string
  rx_agent :: agent_claims
  rx_agent_jkt :: string

definition no_resource_interaction :: "resource_interaction_context \<Rightarrow> resource_interaction_claim option" where
  "no_resource_interaction ctx = None"

section \<open>What consent and polling do\<close>

lemma on_pending_run [simp]:
  "m s = (r, s') \<Longrightarrow> on_pending m (s, tokens) = (map_err RSE_Store r, (s', tokens))"
  by (simp add: on_pending_def)

text \<open>
  Asking for consent has exactly the effect its answer tells. A granted token is valid for
  the asking agent alone and leaves every other token as it was; a deferral adds one waiting
  record under the identifier in the location and issues nothing; a denial or a policy
  failure changes nothing.
\<close>
theorem consent_effects:
  assumes "rv_pending svc = mem_ops iter" and "rv_opaque svc = opaque_mem_ops b64"
    and "consent_for_agent ev bytes svc ctx (s, tokens) = (x, (s', tokens'))"
  shows "case x of
      Inr (RCO_GrantOpaque t) \<Rightarrow>
        pol_evaluate (rv_policy svc) ctx = Ok RD_GrantOpaque \<and> s' = s \<and>
        (\<forall>u a. service_validate_opaque svc u a (s', tokens') =
           (if u = t then a = ag_sub (ra_agent_claims ctx)
            else service_validate_opaque svc u a (s, tokens)))
    | Inr (RCO_Deferred d) \<Rightarrow>
        tokens' = tokens \<and>
        (\<exists>r. mem_look s' = (mem_look s)(pr_id r \<mapsto> r) \<and>
           dc_location d = pending_location (rac_pending_base_url (rv_config svc))
             (rac_pending_path (rv_config svc)) (pr_id r) \<and>
           pr_snapshot r = PSn_Waiting PS_Pending (dc_requirement d) \<and>
           expires_at r = ev_now ev + rac_pending_ttl_secs (rv_config svc) \<and>
           rp_agent_claims (pr_context r) = ra_agent_claims ctx)
    | Inr (RCO_Denied err) \<Rightarrow>
        pol_evaluate (rv_policy svc) ctx = Ok (RD_Deny err) \<and> (s', tokens') = (s, tokens)
    | Inl e \<Rightarrow> (\<exists>m. pol_evaluate (rv_policy svc) ctx = Err m \<and> e = RSE_Policy m) \<and> (s', tokens') = (s, tokens)"
proof (cases "pol_evaluate (rv_policy svc) ctx")
  case (Inl m)
  then show ?thesis using assms(3) by (auto simp: consent_for_agent_def seq_def)
next
  case (Inr d)
  let ?r = "\<lambda>q. pending_record_new (ev_now ev) (generate_pending_id (ev_id_bytes ev))
      \<lparr>rp_resource_url = ra_resource_url ctx, rp_agent_claims = ra_agent_claims ctx, rp_scope = ra_scope ctx\<rparr>
      (snapshot_waiting (fill_interaction ev (rv_config svc) q)) (rac_pending_ttl_secs (rv_config svc))"
  show ?thesis
  proof (cases d)
    case (RD_Defer q)
    have "mem_look s' = (mem_look s)(pr_id (?r q) \<mapsto> ?r q)" "tokens' = tokens"
      "x = Ok (RCO_Deferred \<lparr>dc_location = pending_location (rac_pending_base_url (rv_config svc))
         (rac_pending_path (rv_config svc)) (pr_id (?r q)),
         dc_requirement = fill_interaction ev (rv_config svc) q\<rparr>)"
      using assms Inr RD_Defer
      by (auto simp: consent_for_agent_def seq_def Let_def create_deferred_resource_response_def
          on_pending_def mem_run mem_insert_look pending_record_new_def)
    then show ?thesis
      by (simp, intro exI [of _ "?r q"]) (simp add: pending_record_new_def snapshot_waiting_def)
  qed (use assms Inr in \<open>auto simp: consent_for_agent_def seq_def opaque_mem_ops_def opaque_issue_def
      opaque_validate_def service_validate_opaque_def claims_identifier_def Let_def\<close>)
qed

text \<open>
  A completed consent is delivered once. When a poll returns a token, the record is gone and
  every later poll of that request, at any time, is told so; a recorded error is reported
  again and again until the request expires; other requests and all tokens are untouched.
\<close>
theorem consent_delivered_once:
  assumes "rv_pending svc = mem_ops iter"
    and "resource_poll_pending ev svc i (s, tokens) = (Ok (AP_Complete out), (s', tokens'))"
  shows "tokens' = tokens \<and>
    (case out of
       PO_Error err \<Rightarrow> s' = s
     | _ \<Rightarrow> mem_look s' = (mem_look s)(i := None) \<and>
         (\<forall>ev'. resource_poll_pending ev' svc i (s', tokens') = (Ok AP_Gone, (s', tokens'))))"
proof -
  obtain r where r: "mem_look s i = Some r" "\<not> is_expired (ev_now ev) r"
    and o: "poll_outcome_from_snapshot (pr_snapshot r) = AP_Complete out"
  proof -
    show ?thesis using assms that
      by (auto simp: resource_poll_pending_def seq_def on_pending_def poll_auth_pending_def mem_run ignore_def
          split: option.splits if_splits prod.splits)
  qed
  have p: "poll_auth_pending (rv_pending svc) (ev_now ev) i s = (Ok (AP_Complete out), s)"
    using r o assms(1) by (simp add: poll_auth_pending_def mem_run)
  obtain s1 where rm: "op_remove (rv_pending svc) i s = (Ok (), s1)" "mem_look s1 = (mem_look s)(i := None)"
    unfolding assms(1) using mem_run_remove by blast
  have gone: "resource_poll_pending ev' svc i (s1, tokens) = (Ok AP_Gone, (s1, tokens))" for ev'
    using assms(1) rm(2)
    by (simp add: resource_poll_pending_def seq_def on_pending_def poll_auth_pending_def mem_run)
  show ?thesis
    using assms(2) p rm gone
    by (cases out) (auto simp: resource_poll_pending_def seq_def on_pending_def ignore_def)
qed

section \<open>A concrete run\<close>

definition sample_resource_service ::
    "(resource_pending_context mem_store, unit, opaque_map) resource_service" where
  "sample_resource_service =
     \<lparr>rv_policy = always_grant_resource_policy, rv_pending = mem_ops id,
      rv_opaque = opaque_mem_ops id,
      rv_config = \<lparr>rac_interaction_url = ''https://r/i'', rac_pending_base_url = ''https://r'',
        rac_pending_path = ''/pending'', rac_pending_ttl_secs = 600\<rparr>\<rparr>"

definition sample_access_context :: resource_access_context where
  "sample_access_context =
     \<lparr>ra_resource_url = ''https://r'', ra_agent_claims = sample_agent, ra_scope = None\<rparr>"

theorem consent_effects_witness:
  "\<exists>t tokens. consent_for_agent sample_env [7] sample_resource_service sample_access_context (mem_new, opaque_new)
     = (Ok (RCO_GrantOpaque t), (mem_new, tokens)) \<and>
   service_validate_opaque sample_resource_service t ''aauth:x@a'' (mem_new, tokens) \<and>
   \<not> service_validate_opaque sample_resource_service t ''aauth:y@a'' (mem_new, tokens)"
proof -
  have p: "rv_pending sample_resource_service = mem_ops id"
    "rv_opaque sample_resource_service = opaque_mem_ops id"
    "rv_policy sample_resource_service = always_grant_resource_policy"
    by (simp_all add: sample_resource_service_def)
  obtain t tokens where r: "consent_for_agent sample_env [7] sample_resource_service sample_access_context
      (mem_new, opaque_new) = (Ok (RCO_GrantOpaque t), (mem_new, tokens))"
    by (auto simp: consent_for_agent_def p always_grant_resource_policy_def seq_def opaque_mem_ops_def
        opaque_issue_def Let_def)
  have a: "ag_sub (ra_agent_claims sample_access_context) = ''aauth:x@a''"
    by (simp add: sample_access_context_def sample_agent_def)
  show ?thesis using consent_effects [OF p(1,2) r] r a by auto
qed

definition sample_consent_store :: "resource_pending_context mem_store" where
  "sample_consent_store = mem_insert ''c1''
     (pending_record_new 900 ''c1''
        \<lparr>rp_resource_url = ''https://r'', rp_agent_claims = sample_agent, rp_scope = None\<rparr>
        (snapshot_complete (PO_OpaqueAccess ''tok'')) 600) mem_new"

theorem consent_delivered_once_witness:
  "\<exists>s'. resource_poll_pending sample_env sample_resource_service ''c1'' (sample_consent_store, opaque_new)
      = (Ok (AP_Complete (PO_OpaqueAccess ''tok'')), (s', opaque_new)) \<and>
    resource_poll_pending sample_env sample_resource_service ''c1'' (s', opaque_new)
      = (Ok AP_Gone, (s', opaque_new))"
proof -
  have p: "rv_pending sample_resource_service = mem_ops id" by (simp add: sample_resource_service_def)
  have l: "mem_look sample_consent_store ''c1'' = Some (pending_record_new 900 ''c1''
        \<lparr>rp_resource_url = ''https://r'', rp_agent_claims = sample_agent, rp_scope = None\<rparr>
        (snapshot_complete (PO_OpaqueAccess ''tok'')) 600)"
    by (simp add: sample_consent_store_def mem_insert_look)
  obtain s1 where rm: "op_remove (rv_pending sample_resource_service) ''c1'' sample_consent_store = (Ok (), s1)"
    unfolding p using mem_run_remove by blast
  have r: "resource_poll_pending sample_env sample_resource_service ''c1'' (sample_consent_store, opaque_new)
      = (Ok (AP_Complete (PO_OpaqueAccess ''tok'')), (s1, opaque_new))"
    using l rm by (simp add: resource_poll_pending_def seq_def on_pending_def poll_auth_pending_def p
        pending_record_new_def mem_run is_expired_def sample_env_def snapshot_complete_def ignore_def)
  show ?thesis using consent_delivered_once [OF p r] r by auto
qed

end
