(* ===== verification/Respond.thy ===== *)
theory Respond
  imports Services
begin

text \<open>
  The wire responses of the server roles (\<^verbatim>\<open>aauth-axum/src/respond.rs\<close>,
  \<^verbatim>\<open>aauth-axum/src/extract.rs\<close>). \<open>None\<close> is the panic of an \<^verbatim>\<open>expect\<close> on a header value.
\<close>

section \<open>Building responses\<close>

text \<open>\<^verbatim>\<open>(status, headers, Json(body))\<close>: \<^verbatim>\<open>Json\<close> sets the content type, the headers override.\<close>

definition json_response :: "serde_json \<Rightarrow> u16 \<Rightarrow> header_map \<Rightarrow> json \<Rightarrow> response" where
  "json_response sj status headers j =
     \<lparr>rs_status = status,
      rs_headers = fold (\<lambda>(n, v) hs. hm_insert hs n v) headers [(''content-type'', ''application/json'')],
      rs_body = sj_print sj j\<rparr>"

definition status_response :: "u16 \<Rightarrow> response" where
  "status_response status = \<lparr>rs_status = status, rs_headers = [], rs_body = []\<rparr>"

definition internal_error :: "serde_json \<Rightarrow> response" where
  "internal_error sj = json_response sj 500 [] (en_protocol_error pe_server_error)"

definition polling_status :: "protocol_error \<Rightarrow> u16" where
  "polling_status err =
     (case pe_error err of
        EC_Denied \<Rightarrow> 403 | EC_Abandoned \<Rightarrow> 403 | EC_AccessDenied \<Rightarrow> 403
      | EC_Expired \<Rightarrow> 408 | EC_InteractionExpired \<Rightarrow> 408
      | EC_InvalidCode \<Rightarrow> 410
      | EC_SlowDown \<Rightarrow> 429
      | EC_ServerError \<Rightarrow> 500 | EC_TemporarilyUnavailable \<Rightarrow> 500
      | EC_Custom code \<Rightarrow>
          (if code \<in> {''denied'', ''abandoned'', ''access_denied''} then 403
           else if code \<in> {''expired'', ''interaction_expired''} then 408
           else if code = ''invalid_code'' then 410
           else if code = ''slow_down'' then 429
           else if code \<in> {''server_error'', ''temporarily_unavailable''} then 500
           else 403)
      | _ \<Rightarrow> 403)"

definition set_header :: "string \<Rightarrow> string \<Rightarrow> header_map \<Rightarrow> header_map option" where
  "set_header name v hs = (if header_value_ok v then Some (hm_insert hs name v) else None)"

definition insert_poll_headers :: "defer_requirement \<Rightarrow> header_map \<Rightarrow> header_map option" where
  "insert_poll_headers requirement hs =
     (let hs = hm_insert (hm_insert hs ''retry-after'' ''0'') ''cache-control'' ''no-store'' in
      case header_challenge requirement of
        Inr challenge \<Rightarrow> set_header ''aauth-requirement'' (ch_to_header challenge) hs
      | Inl _ \<Rightarrow> Some hs)"

definition insert_defer_created_headers :: "string \<Rightarrow> defer_requirement \<Rightarrow> header_map \<Rightarrow> header_map option" where
  "insert_defer_created_headers location requirement hs =
     Option.bind (set_header ''location'' location hs) (\<lambda>hs.
     Option.bind (insert_poll_headers requirement hs) (\<lambda>hs.
     Some (hm_insert hs ''content-type'' ''application/json'')))"

section \<open>One response per outcome\<close>

definition respond_created :: "serde_json \<Rightarrow> defer_created \<Rightarrow> response option" where
  "respond_created sj d =
     (case for_created (dc_requirement d) of
        Inl _ \<Rightarrow> Some (internal_error sj)
      | Inr body \<Rightarrow>
          map_option (\<lambda>hs. json_response sj 202 hs (en_pending_body body))
            (insert_defer_created_headers (dc_location d) (dc_requirement d) []))"

definition respond_waiting :: "serde_json \<Rightarrow> defer_waiting \<Rightarrow> response option" where
  "respond_waiting sj d =
     (case for_waiting (dw_requirement d) (dw_status d) of
        Inl _ \<Rightarrow> Some (internal_error sj)
      | Inr body \<Rightarrow>
          map_option (\<lambda>hs. json_response sj 202 (hm_insert hs ''content-type'' ''application/json'')
              (en_pending_body body))
            (insert_poll_headers (dw_requirement d) []))"

definition respond_payment :: "serde_json \<Rightarrow> string \<Rightarrow> response option" where
  "respond_payment sj location =
     map_option (\<lambda>hs. json_response sj 402 (hm_insert hs ''content-type'' ''application/json'')
         (JObj [(''status'', JStr ''pending'')]))
       (set_header ''location'' location [])"

text \<open>\<open>opaque_response\<close>: a 200 with the token in \<^verbatim>\<open>AAuth-Access\<close> and no body.\<close>

definition opaque_response :: "string \<Rightarrow> response option" where
  "opaque_response token =
     map_option (\<lambda>hs. \<lparr>rs_status = 200, rs_headers = hs, rs_body = []\<rparr>) (set_header ''aauth-access'' token [])"

definition respond_pending_outcome :: "serde_json \<Rightarrow> pending_outcome \<Rightarrow> response option" where
  "respond_pending_outcome sj out =
     (case out of
        PO_AuthToken body \<Rightarrow> Some (json_response sj 200 [] (en_token_response body))
      | PO_OpaqueAccess token \<Rightarrow> opaque_response token
      | PO_Error err \<Rightarrow> Some (json_response sj (polling_status err) [] (en_protocol_error err)))"

definition respond_flow :: "serde_json \<Rightarrow> auth_token_flow_outcome \<Rightarrow> response option" where
  "respond_flow sj out =
     (case out of
        FO_Granted body \<Rightarrow> Some (json_response sj 200 [] (en_token_response body))
      | FO_Deferred d \<Rightarrow> respond_created sj d
      | FO_Denied err \<Rightarrow> Some (json_response sj 403 [] (en_protocol_error err))
      | FO_Gone \<Rightarrow> Some (status_response 410))"

definition respond_poll :: "serde_json \<Rightarrow> auth_token_poll_outcome \<Rightarrow> response option" where
  "respond_poll sj out =
     (case out of
        AP_Pending waiting \<Rightarrow> respond_waiting sj waiting
      | AP_Complete outcome \<Rightarrow> respond_pending_outcome sj outcome
      | AP_Gone \<Rightarrow> Some (status_response 410))"

definition respond_person_flow :: "serde_json \<Rightarrow> person_token_flow_outcome \<Rightarrow> response option" where
  "respond_person_flow sj out =
     (case out of
        PF_Granted body \<Rightarrow> respond_flow sj (FO_Granted body)
      | PF_Deferred d \<Rightarrow> respond_flow sj (FO_Deferred d)
      | PF_Denied err \<Rightarrow> respond_flow sj (FO_Denied err)
      | PF_Gone \<Rightarrow> Some (status_response 410)
      | PF_Unauthorized \<Rightarrow> Some (status_response 401)
      | PF_BadGateway \<Rightarrow> Some (status_response 502))"

text \<open>\<open>bad_header\<close> is the response \<^verbatim>\<open>axum\<close> makes of a location that is no header value.\<close>

definition respond_interaction :: "serde_json \<Rightarrow> response \<Rightarrow> person_interaction_outcome \<Rightarrow> response" where
  "respond_interaction sj bad_header out =
     (case out of
        PIO_Redirect location \<Rightarrow>
          (if header_value_ok location
           then \<lparr>rs_status = 302, rs_headers = [(''location'', location)], rs_body = []\<rparr> else bad_header)
      | PIO_InvalidCode \<Rightarrow> json_response sj 410 [] (en_protocol_error (pe_new EC_InvalidCode))
      | PIO_Expired \<Rightarrow>
          json_response sj (polling_status (pe_new EC_Expired)) [] (en_protocol_error (pe_new EC_Expired))
      | PIO_Pending body \<Rightarrow> json_response sj 200 [] (en_pending_body body))"

definition respond_consent :: "serde_json \<Rightarrow> resource_consent_flow_outcome \<Rightarrow> response option" where
  "respond_consent sj out =
     (case out of
        RCO_GrantOpaque token \<Rightarrow> opaque_response token
      | RCO_Deferred d \<Rightarrow> respond_created sj d
      | RCO_Denied err \<Rightarrow> Some (json_response sj 403 [] (en_protocol_error err)))"

section \<open>Bodies posted to a pending URL (\<^verbatim>\<open>extract.rs\<close>)\<close>

definition invalid_request_response :: "serde_json \<Rightarrow> string \<Rightarrow> response" where
  "invalid_request_response sj d =
     json_response sj 400 [] (en_protocol_error (pe_with_description EC_InvalidRequest d))"

text \<open>\<open>None\<close> for a body that cannot be read.\<close>

definition pending_resume_input :: "serde_json \<Rightarrow> string option \<Rightarrow> response + pending_input" where
  "pending_resume_input sj body =
     (case body of
        None \<Rightarrow> Err (invalid_request_response sj ''failed to read request body'')
      | Some bytes \<Rightarrow>
          map_err (\<lambda>e. invalid_request_response sj (aauth_error_msg e)) (parse_pending_post_body sj bytes))"

section \<open>What the client reads\<close>

text \<open>\<open>serde_json\<close> reads back a value it wrote; no value is written as nothing.\<close>

definition reads_back :: "serde_json \<Rightarrow> json \<Rightarrow> bool" where
  "reads_back sj j \<longleftrightarrow> sj_parse sj (sj_print sj j) = Some j \<and> sj_print sj j \<noteq> []"

definition absolute :: "string \<Rightarrow> bool" where
  "absolute url \<longleftrightarrow> starts_with ''http://'' url \<or> starts_with ''https://'' url"

lemma to_str_header_ok: "to_str_ok v \<Longrightarrow> header_value_ok v"
  by (auto simp: to_str_ok_def header_value_ok_def elim!: list.pred_mono_strong)

lemma created_response:
  assumes "for_created (dc_requirement d) = Ok body" "header_challenge (dc_requirement d) = Ok c"
    and "to_str_ok (dc_location d)" "to_str_ok (ch_to_header c)"
  obtains resp where "respond_created sj d = Some resp" "rs_status resp = 202"
    "header_value (rs_headers resp) ''location'' = Some (dc_location d)"
    "header_value (rs_headers resp) ''aauth-requirement'' = Some (ch_to_header c)"
    "header_value (rs_headers resp) ''retry-after'' = Some ''0''"
    "header_value (rs_headers resp) ''cache-control'' = Some ''no-store''"
    "rs_body resp = sj_print sj (en_pending_body body)"
  using that assms
  by (simp add: respond_created_def insert_defer_created_headers_def insert_poll_headers_def set_header_def
      to_str_header_ok json_response_def hm_insert_def hm_remove_def header_value_def Let_def
      to_str_ok_def [of "''0''"] to_str_ok_def [of "''no-store''"] byte_def)

lemma requirement_read_back:
  assumes "for_created q = Ok body" "header_challenge q = Ok c" "reads_back sj (en_pending_body body)"
  shows "defer_requirement_from sj c (sj_print sj (en_pending_body body)) = Ok q"
proof (cases q)
  case (DR_Clarification question timeout)
  let ?c = "\<lparr>cl_status = PS_Pending, cl_clarification = question, cl_timeout = timeout, cl_options = None\<rparr>"
  have "c = Ch_Clarification" "body = PB_Clarification ?c"
    using assms(1,2) DR_Clarification by (simp_all add: for_created_def for_waiting_def)
  then show ?thesis
    using assms(3) DR_Clarification clarification_rt [of ?c]
    by (simp add: defer_requirement_from_def reads_back_def from_slice_def del: en_pending_body.simps)
next
  case (DR_Claims cs)
  let ?c = "\<lparr>cm_status = PS_Pending, cm_required = cs\<rparr>"
  have "c = Ch_Claims" "body = PB_Claims ?c"
    using assms(1,2) DR_Claims by (simp_all add: for_created_def for_waiting_def)
  then show ?thesis
    using assms(3) DR_Claims claims_rt [of ?c]
    by (simp add: defer_requirement_from_def reads_back_def from_slice_def del: en_pending_body.simps)
qed (use assms in \<open>auto simp: defer_requirement_from_def\<close>)

lemma parse_created:
  assumes "for_created q = Ok body" "header_challenge q = Ok c" "reads_back sj (en_pending_body body)"
    and "absolute location" "\<forall>v \<in> set (ch_values c). unquoted v" "unshadowed c"
    and "header_value headers ''location'' = Some location"
    and "header_value headers ''aauth-requirement'' = Some (ch_to_header c)"
  shows "parse_deferred_response sj url_join 202 headers (sj_print sj (en_pending_body body)) base_url
      = Ok \<lparr>pd_location = location, pd_requirement = q\<rparr>"
proof -
  have "resolve_deferred_location url_join base_url location = location"
    using assms(4) by (simp add: resolve_deferred_location_def absolute_def)
  then show ?thesis
    using assms(7,8) ch_read_back [OF assms(5,6)] requirement_read_back [OF assms(1-3)]
    by (simp add: parse_deferred_response_def Let_def del: ch_to_header.simps)
qed

text \<open>
  What a server defers is what the client reads. The 202 a server writes for a deferral is
  parsed by the client as the same location and the same requirement, for each of the four
  requirements a pending body can carry, and it asks not to be cached and to be polled at
  once. The side conditions are those of the header syntax: an absolute location and header
  values in visible ASCII, no quote in the challenge and no interaction url ending in
  \<^verbatim>\<open>code=\<close>.
\<close>
theorem deferred_response_read_back:
  assumes "for_created (dc_requirement d) = Ok body" "header_challenge (dc_requirement d) = Ok c"
    and "reads_back sj (en_pending_body body)"
    and "absolute (dc_location d)" "to_str_ok (dc_location d)" "to_str_ok (ch_to_header c)"
    and "\<forall>v \<in> set (ch_values c). unquoted v" "unshadowed c"
  shows "\<exists>resp. respond_created sj d = Some resp \<and>
    parse_deferred_response sj url_join (rs_status resp) (rs_headers resp) (rs_body resp) base_url
      = Ok \<lparr>pd_location = dc_location d, pd_requirement = dc_requirement d\<rparr> \<and>
    header_value (rs_headers resp) ''retry-after'' = Some ''0'' \<and>
    header_value (rs_headers resp) ''cache-control'' = Some ''no-store''"
proof -
  obtain resp where r: "respond_created sj d = Some resp" "rs_status resp = 202"
    "header_value (rs_headers resp) ''location'' = Some (dc_location d)"
    "header_value (rs_headers resp) ''aauth-requirement'' = Some (ch_to_header c)"
    "header_value (rs_headers resp) ''retry-after'' = Some ''0''"
    "header_value (rs_headers resp) ''cache-control'' = Some ''no-store''"
    "rs_body resp = sj_print sj (en_pending_body body)"
    using created_response [OF assms(1,2,5,6)] .
  from parse_created [OF assms(1-4,7,8) r(3,4), of url_join base_url]
  have "parse_deferred_response sj url_join (rs_status resp) (rs_headers resp) (rs_body resp) base_url
      = Ok \<lparr>pd_location = dc_location d, pd_requirement = dc_requirement d\<rparr>"
    using r by simp
  with r show ?thesis by blast
qed

text \<open>
  A polling error can be relayed. Read from its JSON and served again, an error keeps its
  wire form and its HTTP status, whether its code is one the program knows or a custom one.
\<close>
theorem error_relay_faithful:
  "\<exists>e'. de_protocol_error (en_protocol_error e) = Some e' \<and> polling_status e' = polling_status e \<and>
     en_protocol_error e' = en_protocol_error e"
proof (intro exI conjI)
  let ?e = "e\<lparr>pe_error := ec_from_wire (ec_as_str (pe_error e))\<rparr>"
  show "de_protocol_error (en_protocol_error e) = Some ?e" by (rule protocol_error_rt)
  show "polling_status ?e = polling_status e"
    by (cases "pe_error e") (simp_all add: ec_from_wire_def polling_status_def)
  show "en_protocol_error ?e = en_protocol_error e"
    by (simp add: en_protocol_error_def ec_as_str_from_wire)
qed

definition sample_json :: "json \<Rightarrow> serde_json" where
  "sample_json j = \<lparr>sj_parse = (\<lambda>s. if s = ''j'' then Some j else None), sj_print = (\<lambda>_. ''j''),
     sj_error = (\<lambda>_. ''error'')\<rparr>"

theorem deferred_response_read_back_witness:
  "\<exists>resp. respond_created (sample_json (JObj [(''status'', JStr ''pending'')]))
      \<lparr>dc_location = ''https://p/1'', dc_requirement = DR_Interaction ''https://p/i'' ''AB''\<rparr> = Some resp \<and>
    parse_deferred_response (sample_json (JObj [(''status'', JStr ''pending'')])) (\<lambda>_ _. None) (rs_status resp)
      (rs_headers resp) (rs_body resp) ''https://p'' =
      Ok \<lparr>pd_location = ''https://p/1'', pd_requirement = DR_Interaction ''https://p/i'' ''AB''\<rparr>"
  using deferred_response_read_back [of "\<lparr>dc_location = ''https://p/1'',
      dc_requirement = DR_Interaction ''https://p/i'' ''AB''\<rparr>" "PB_Status PS_Pending"
      "Ch_Interaction ''https://p/i'' ''AB''" "sample_json (JObj [(''status'', JStr ''pending'')])" "\<lambda>_ _. None"
      "''https://p''"]
  by (simp add: for_created_def for_waiting_def reads_back_def sample_json_def absolute_def to_str_ok_def byte_def
      unquoted_def ends_with_def strip_suffix_def) blast

end
