(* ===== verification/Resource_Layer.thy ===== *)
theory Resource_Layer
  imports Httpsig Resource_Service Respond
begin

text \<open>
  The Tower layer that guards a resource's routes (\<^verbatim>\<open>aauth-axum/src/resource/layer.rs\<close>,
  \<^verbatim>\<open>resource/extract.rs\<close>). A request is forwarded to the inner service with a token
  attached, answered by the layer, or the layer panics on a header value. The consent
  service behind the resource-managed mode is an interface, kept by \<open>Resource_Service\<close>.
\<close>

section \<open>The layer\<close>

record ('st, 'err) access_iface =
  if_consent :: "resource_access_context \<Rightarrow> ('st, 'err, resource_consent_flow_outcome) action"
  if_poll :: "string \<Rightarrow> ('st, 'err, auth_token_poll_outcome) action"
  if_validate :: "string \<Rightarrow> string \<Rightarrow> 'st \<Rightarrow> bool"

record ('key, 'p, 'g, 'st, 'err) resource_layer =
  rl_http :: "('p, 'g) httpsig_lib"
  rl_jwt :: "'key jwt_lib"
  rl_up :: "string \<Rightarrow> string"
  rl_low :: "string \<Rightarrow> string"
  rl_parse :: url_parser
  rl_json :: serde_json
  rl_fetcher :: fetcher
  rl_resource_url :: string
  rl_mode :: "('st, 'err) access_iface resource_access_mode"
  rl_sign :: "string \<Rightarrow> resource_claims \<Rightarrow> resource_token_error + string"
  rl_jti :: string
  rl_interaction :: "resource_interaction_context \<Rightarrow> resource_interaction_claim option"

datatype layer_outcome = LO_Forward parsed_token | LO_Reply response | LO_Panic

section \<open>Replies\<close>

definition text_response :: "header_map \<Rightarrow> string \<Rightarrow> response" where
  "text_response headers body = \<lparr>rs_status = 401, rs_headers = headers, rs_body = body\<rparr>"

definition agent_token_required :: response where
  "agent_token_required =
     text_response [(''aauth-requirement'', ch_to_header Ch_AgentToken)] ''Agent token required''"

definition unauthorized_err :: "serde_json \<Rightarrow> aauth_error \<Rightarrow> response" where
  "unauthorized_err sj err =
     (let base = (case into_aauth_protocol err of
          Some (status, protocol) \<Rightarrow>
            \<lparr>rs_status = status, rs_headers = [(''content-type'', ''application/json'')],
             rs_body = sj_print sj (en_protocol_error protocol)\<rparr>
        | None \<Rightarrow>
            \<lparr>rs_status = 401, rs_headers = [(''content-type'', ''application/json'')],
             rs_body = sj_print sj (en_protocol_error
               (pe_with_description EC_InvalidSignature ''unauthorized''))\<rparr>)
      in case signature_error_header err of
           Some sig_err \<Rightarrow>
             (if header_value_ok (seh_to_header sig_err)
              then base\<lparr>rs_headers := hm_insert (rs_headers base) ''signature-error'' (seh_to_header sig_err)\<rparr>
              else base)
         | None \<Rightarrow> base)"

definition unauthorized_message :: "serde_json \<Rightarrow> string \<Rightarrow> response" where
  "unauthorized_message sj message =
     \<lparr>rs_status = 401, rs_headers = [(''content-type'', ''application/json'')],
      rs_body = sj_print sj (en_protocol_error (pe_with_description EC_InvalidRequest message))\<rparr>"

section \<open>Reading the request\<close>

definition agent_sub_from_jwt :: "'key jwt_lib \<Rightarrow> string \<Rightarrow> string" where
  "agent_sub_from_jwt L jwt =
     (case parse_token L jwt of
        Inr t \<Rightarrow> (case token_agent_identifier t of Some a \<Rightarrow> a | None \<Rightarrow> [])
      | Inl _ \<Rightarrow> [])"

definition extract_aauth_access :: "header_map \<Rightarrow> aauth_error + string option" where
  "extract_aauth_access headers =
     (case hm_get_all headers ''authorization'' of
        [] \<Rightarrow> Ok None
      | [v] \<Rightarrow>
          (if \<not> to_str_ok v then Err (Header (HD_Invalid ''non-UTF-8 Authorization''))
           else if \<not> starts_with ''AAuth'' (trim v) then Ok None
           else map_ok Some (parse_aauth_credential v))
      | _ \<Rightarrow> Err (Header (HD_Invalid ''multiple Authorization headers'')))"

definition is_identity_based :: "'svc resource_access_mode \<Rightarrow> bool" where
  "is_identity_based mode = (case mode of RM_IdentityBased \<Rightarrow> True | _ \<Rightarrow> False)"

text \<open>\<open>refuse\<close>: a missing agent credential has its own answer when identity is all that counts.\<close>

definition refuse :: "('key, 'p, 'g, 'st, 'err) resource_layer \<Rightarrow> aauth_error \<Rightarrow> layer_outcome" where
  "refuse rl err =
     (if is_identity_based (rl_mode rl) \<and> is_missing_agent_credential err
      then LO_Reply agent_token_required else LO_Reply (unauthorized_err (rl_json rl) err))"

section \<open>Decisions on a verified token\<close>

definition issue_challenge ::
    "('key, 'p, 'g, 'st, 'err) resource_layer \<Rightarrow> u64 \<Rightarrow> string \<Rightarrow> agent_claims \<Rightarrow> string option \<Rightarrow>
     string option \<Rightarrow> layer_outcome" where
  "issue_challenge rl now thumbprint agent access_server_url person_server_fallback =
     (case resolve_resource_token_audience agent access_server_url person_server_fallback of
        None \<Rightarrow> LO_Reply (unauthorized_message (rl_json rl)
          ''cannot determine resource token audience: no access server, no agent ps claim, and no fallback'')
      | Some audience \<Rightarrow>
          (let interaction = rl_interaction rl
                 \<lparr>rx_resource_url = rl_resource_url rl, rx_agent = agent, rx_agent_jkt = thumbprint\<rparr> in
           case resource_token_sign (rl_sign rl) now (rl_jti rl)
                  \<lparr>ro_resource = rl_resource_url rl, ro_audience = audience, ro_agent = claims_identifier agent,
                   ro_agent_jkt = thumbprint, ro_scope = None, ro_mission = None, ro_lifetime = None,
                   ro_interaction = interaction\<rparr> of
             Inl e \<Rightarrow> LO_Reply (unauthorized_err (rl_json rl) (ResourceToken e))
           | Inr resource_token \<Rightarrow>
               (let header = ch_to_header (Ch_AuthToken resource_token) in
                if header_value_ok header
                then LO_Reply (text_response [(''aauth-requirement'', header)] ''Auth token required'')
                else LO_Panic)))"

definition reply_or_panic :: "response option \<Rightarrow> layer_outcome" where
  "reply_or_panic r = (case r of Some resp \<Rightarrow> LO_Reply resp | None \<Rightarrow> LO_Panic)"

definition decide ::
    "('key, 'p, 'g, 'st, 'err) resource_layer \<Rightarrow> u64 \<Rightarrow> string \<Rightarrow> parsed_token \<Rightarrow> 'st \<Rightarrow> layer_outcome \<times> 'st" where
  "decide rl now thumbprint verified st =
     (case rl_mode rl of
        RM_IdentityBased \<Rightarrow>
          (case verified of PT_Agent _ \<Rightarrow> (LO_Forward verified, st) | _ \<Rightarrow> (LO_Reply agent_token_required, st))
      | RM_PsAsserted require access_server_url person_server_fallback \<Rightarrow>
          (case verified of
             PT_Agent agent \<Rightarrow>
               (if require
                then (issue_challenge rl now thumbprint agent access_server_url person_server_fallback, st)
                else (LO_Forward verified, st))
           | _ \<Rightarrow> (LO_Forward verified, st))
      | RM_ResourceManaged service \<Rightarrow>
          (case verified of
             PT_Agent agent \<Rightarrow>
               (case if_consent service
                      \<lparr>ra_resource_url = rl_resource_url rl, ra_agent_claims = agent, ra_scope = None\<rparr> st of
                  (Inr outcome, st') \<Rightarrow> (reply_or_panic (respond_consent (rl_json rl) outcome), st')
                | (Inl _, st') \<Rightarrow> (LO_Reply (internal_error (rl_json rl)), st'))
           | PT_Auth _ \<Rightarrow> (LO_Forward verified, st)
           | PT_Resource _ \<Rightarrow> (LO_Reply (unauthorized_message (rl_json rl) ''unexpected resource token''), st)))"

text \<open>The path of a request that carries an opaque token; it ends the call.\<close>

definition opaque_path ::
    "('key, 'p, 'g, 'st, 'err) resource_layer \<Rightarrow> ('st, 'err) access_iface \<Rightarrow> string \<Rightarrow> string \<Rightarrow> 'st \<Rightarrow>
     layer_outcome" where
  "opaque_path rl service jwt token st =
     (case parse_token (rl_jwt rl) jwt of
        Inr (PT_Agent agent) \<Rightarrow>
          (if if_validate service token (agent_sub_from_jwt (rl_jwt rl) jwt) st
           then LO_Forward (PT_Agent agent)
           else LO_Reply (unauthorized_message (rl_json rl) ''invalid opaque access token''))
      | _ \<Rightarrow> LO_Reply (unauthorized_message (rl_json rl) ''invalid opaque access token''))"

fun is_unsupported_typ :: "aauth_error \<Rightarrow> bool" where
  "is_unsupported_typ (Verify (VE_Invalid _ VR_UnsupportedTyp)) = True"
| "is_unsupported_typ _ = False"

definition token_path ::
    "('key, 'p, 'g, 'st, 'err) resource_layer \<Rightarrow> u64 \<Rightarrow> string \<Rightarrow> string \<Rightarrow> 'st \<Rightarrow> layer_outcome \<times> 'st" where
  "token_path rl now jwt thumbprint st =
     (case verify_token (rl_jwt rl) (rl_parse rl) (rl_fetcher rl) now jwt thumbprint of
        Inl e \<Rightarrow>
          (if is_identity_based (rl_mode rl) \<and> is_unsupported_typ e
           then LO_Reply agent_token_required else LO_Reply (unauthorized_err (rl_json rl) e), st)
      | Inr verified \<Rightarrow>
          (case (case verified of
                   PT_Auth auth \<Rightarrow> verify_auth_token_binding (rl_low rl) auth (rl_resource_url rl)
                 | _ \<Rightarrow> Ok ()) of
             Inl e \<Rightarrow> (LO_Reply (unauthorized_err (rl_json rl) e), st)
           | Inr _ \<Rightarrow> decide rl now thumbprint verified st))"

definition layer_call ::
    "('key, 'p, 'g, 'st, 'err) resource_layer \<Rightarrow> u64 \<Rightarrow> request \<Rightarrow> 'st \<Rightarrow> layer_outcome \<times> 'st" where
  "layer_call rl now rq st =
     (case signature_parts rq of (meth, authority, path) \<Rightarrow>
      let opaque_auth = (case rl_mode rl of
            RM_ResourceManaged _ \<Rightarrow> extract_aauth_access (rq_headers rq) | _ \<Rightarrow> Ok None);
          opaque_retry = (case opaque_auth of Inr t \<Rightarrow> t \<noteq> None | Inl _ \<Rightarrow> True);
          options = verify_options_default\<lparr>vo_require_authorization := opaque_retry\<rparr>
      in case http_verify (rl_http rl) (rl_jwt rl) (rl_up rl) now meth authority path (rq_headers rq) options of
           Inl e \<Rightarrow> (refuse rl (Signature (signature_error_from e)), st)
         | Inr v \<Rightarrow>
             (case vs_jwt v of
                None \<Rightarrow> (refuse rl (Signature SE_MissingJwtParam), st)
              | Some jwt \<Rightarrow>
                  (case rl_mode rl of
                     RM_ResourceManaged service \<Rightarrow>
                       (case opaque_auth of
                          Inl _ \<Rightarrow> (LO_Reply (unauthorized_message (rl_json rl) ''invalid opaque access token''), st)
                        | Inr (Some token) \<Rightarrow> (opaque_path rl service jwt token st, st)
                        | Inr None \<Rightarrow> token_path rl now jwt (vs_thumbprint v) st)
                   | _ \<Rightarrow> token_path rl now jwt (vs_thumbprint v) st)))"

text \<open>\<^verbatim>\<open>VerifiedAAuthToken\<close>: a handler's view of what the layer attached (\<^verbatim>\<open>extract.rs\<close>).\<close>

definition verified_token_extension :: "parsed_token option \<Rightarrow> (u16 \<times> string) + parsed_token" where
  "verified_token_extension ext = ok_or ext (401, ''Missing verified AAuth token'')"

section \<open>What is forwarded\<close>

text \<open>
  \<open>signed_with\<close>: the server accepted the request's signature, which named its key by a JWT.
\<close>

definition layer_options :: "('key, 'p, 'g, 'st, 'err) resource_layer \<Rightarrow> request \<Rightarrow> verify_options" where
  "layer_options rl rq = verify_options_default\<lparr>vo_require_authorization :=
     (case (case rl_mode rl of RM_ResourceManaged _ \<Rightarrow> extract_aauth_access (rq_headers rq) | _ \<Rightarrow> Ok None) of
        Inr t \<Rightarrow> t \<noteq> None | Inl _ \<Rightarrow> True)\<rparr>"

definition layer_verify ::
    "('key, 'p, 'g, 'st, 'err) resource_layer \<Rightarrow> u64 \<Rightarrow> request \<Rightarrow> httpsig_error + verified_http_signature" where
  "layer_verify rl now rq =
     (case signature_parts rq of (meth, authority, path) \<Rightarrow>
        http_verify (rl_http rl) (rl_jwt rl) (rl_up rl) now meth authority path (rq_headers rq) (layer_options rl rq))"

lemma layer_call_eq:
  "layer_call rl now rq st =
     (case layer_verify rl now rq of
        Inl e \<Rightarrow> (refuse rl (Signature (signature_error_from e)), st)
      | Inr v \<Rightarrow>
          (case vs_jwt v of
             None \<Rightarrow> (refuse rl (Signature SE_MissingJwtParam), st)
           | Some jwt \<Rightarrow>
               (case rl_mode rl of
                  RM_ResourceManaged service \<Rightarrow>
                    (case extract_aauth_access (rq_headers rq) of
                       Inl _ \<Rightarrow> (LO_Reply (unauthorized_message (rl_json rl) ''invalid opaque access token''), st)
                     | Inr (Some token) \<Rightarrow> (opaque_path rl service jwt token st, st)
                     | Inr None \<Rightarrow> token_path rl now jwt (vs_thumbprint v) st)
                | _ \<Rightarrow> token_path rl now jwt (vs_thumbprint v) st)))"
  by (auto simp: layer_call_def layer_verify_def layer_options_def Let_def
      split: prod.splits sum.splits option.splits resource_access_mode.splits)

lemma refuse_not_forward [simp]: "refuse rl e \<noteq> LO_Forward p"
  by (simp add: refuse_def)

lemma opaque_path_forward:
  "opaque_path rl service jwt token st = LO_Forward p \<longleftrightarrow>
     (\<exists>a. p = PT_Agent a \<and> parse_token (rl_jwt rl) jwt = Ok p \<and> if_validate service token (ag_sub a) st)"
  by (auto simp: opaque_path_def agent_sub_from_jwt_def claims_identifier_def
      split: sum.splits parsed_token.splits)

text \<open>Which tokens a mode lets through.\<close>

fun mode_admits :: "'svc resource_access_mode \<Rightarrow> parsed_token \<Rightarrow> bool" where
  "mode_admits RM_IdentityBased p = (\<exists>a. p = PT_Agent a)"
| "mode_admits (RM_PsAsserted require _ _) p = (if require then \<exists>a. p = PT_Auth a else \<exists>a b. p \<in> {PT_Agent a, PT_Auth b})"
| "mode_admits (RM_ResourceManaged _) p = (\<exists>a. p = PT_Auth a)"

lemma decide_forward:
  "decide rl now tp q st = (LO_Forward p, st') \<Longrightarrow> (\<forall>r. q \<noteq> PT_Resource r) \<Longrightarrow>
     p = q \<and> st' = st \<and> mode_admits (rl_mode rl) p"
  by (auto simp: decide_def issue_challenge_def reply_or_panic_def Let_def
      split: resource_access_mode.splits parsed_token.splits if_splits option.splits sum.splits prod.splits)

lemma token_path_forward:
  assumes "decode_agrees (rl_jwt rl)" "token_path rl now jwt tp st = (LO_Forward p, st')"
  shows "token_trusted (rl_jwt rl) (rl_parse rl) (rl_fetcher rl) now jwt tp p \<and> st' = st \<and>
    mode_admits (rl_mode rl) p \<and>
    (\<forall>a. p = PT_Auth a \<longrightarrow>
       normalize_server_url (rl_low rl) (au_aud a) = normalize_server_url (rl_low rl) (rl_resource_url rl))"
proof -
  obtain q where q: "verify_token (rl_jwt rl) (rl_parse rl) (rl_fetcher rl) now jwt tp = Ok q"
    and b: "\<forall>a. q = PT_Auth a \<longrightarrow>
       normalize_server_url (rl_low rl) (au_aud a) = normalize_server_url (rl_low rl) (rl_resource_url rl)"
    and d: "decide rl now tp q st = (LO_Forward p, st')"
    using assms(2) by (auto simp: token_path_def verify_auth_token_binding_def
        split: sum.splits if_splits parsed_token.splits)
  have t: "token_trusted (rl_jwt rl) (rl_parse rl) (rl_fetcher rl) now jwt tp q"
    using verify_token_sound [OF assms(1) q] .
  then have "\<forall>r. q \<noteq> PT_Resource r" by (auto simp: token_trusted_def)
  from decide_forward [OF d this] t b show ?thesis by auto
qed

text \<open>
  C8: every request the layer lets through is authentic, and carries a credential the mode asks
  for. Either its signing key is the confirmation key of a token that passed verification, of
  the kind the mode admits and, if it is an auth token, addressed to this resource; or, in
  the resource-managed mode, the request presents an opaque token that the service holds valid
  for the agent its JWT names, with the \<^verbatim>\<open>Authorization\<close> header covered by the signature.
  Letting a request through changes no state.
\<close>
theorem forwarded_request_trusted:
  assumes "decode_agrees (rl_jwt rl)" and "layer_call rl now rq st = (LO_Forward p, st')"
    and "signature_parts rq = (meth, authority, path)"
  shows "st' = st \<and>
    (\<exists>v jwt. authentic (rl_http rl) (rl_up rl) now meth authority path (rq_headers rq) (layer_options rl rq) v \<and>
      vs_jwt v = Some jwt \<and> resolve_public_jwk (rl_http rl) (vs_signature_key v) = Ok (vs_public_jwk v, vs_jwt v) \<and>
      httpsig_thumbprint (rl_jwt rl) (vs_public_jwk v) = Ok (vs_thumbprint v) \<and>
      (token_trusted (rl_jwt rl) (rl_parse rl) (rl_fetcher rl) now jwt (vs_thumbprint v) p \<and>
         mode_admits (rl_mode rl) p \<and>
         (\<forall>a. p = PT_Auth a \<longrightarrow>
            normalize_server_url (rl_low rl) (au_aud a) = normalize_server_url (rl_low rl) (rl_resource_url rl)) \<or>
       (\<exists>service token a. rl_mode rl = RM_ResourceManaged service \<and>
          extract_aauth_access (rq_headers rq) = Ok (Some token) \<and> p = PT_Agent a \<and>
          parse_token (rl_jwt rl) jwt = Ok p \<and> if_validate service token (ag_sub a) st \<and>
          vo_require_authorization (layer_options rl rq))))"
proof -
  obtain v where v: "layer_verify rl now rq = Ok v"
    using assms(2) by (cases "layer_verify rl now rq") (auto simp: layer_call_eq)
  obtain jwt where j: "vs_jwt v = Some jwt"
    using assms(2) v by (cases "vs_jwt v") (auto simp: layer_call_eq)
  have a: "authentic (rl_http rl) (rl_up rl) now meth authority path (rq_headers rq) (layer_options rl rq) v \<and>
      httpsig_thumbprint (rl_jwt rl) (vs_public_jwk v) = Ok (vs_thumbprint v) \<and>
      resolve_public_jwk (rl_http rl) (vs_signature_key v) = Ok (vs_public_jwk v, vs_jwt v)"
    using v assms(3) by (intro verify_authentic) (simp add: layer_verify_def)
  show ?thesis
  proof (cases "\<exists>service token. rl_mode rl = RM_ResourceManaged service \<and>
      extract_aauth_access (rq_headers rq) = Ok (Some token)")
    case True
    then obtain service token where o: "rl_mode rl = RM_ResourceManaged service"
      "extract_aauth_access (rq_headers rq) = Ok (Some token)" by blast
    have "opaque_path rl service jwt token st = LO_Forward p" "st' = st"
      using assms(2) v j o by (auto simp: layer_call_eq)
    moreover have "vo_require_authorization (layer_options rl rq)" using o by (simp add: layer_options_def)
    ultimately show ?thesis using a j o by (auto simp: opaque_path_forward)
  next
    case False
    then have "token_path rl now jwt (vs_thumbprint v) st = (LO_Forward p, st')"
      using assms(2) v j by (auto simp: layer_call_eq split: resource_access_mode.splits sum.splits option.splits)
    from token_path_forward [OF assms(1) this] a j show ?thesis by blast
  qed
qed

text \<open>
  On the opaque path nobody checks who issued the agent's JWT. Whenever a resource-managed
  request presents an opaque credential, the layer's answer does not depend on the issuers'
  published keys at all: the agent identity is whatever the presented JWT says.
\<close>
theorem opaque_path_ignores_issuer:
  assumes "rl_mode rl = RM_ResourceManaged service"
    and "extract_aauth_access (rq_headers rq) = Ok (Some token)"
  shows "layer_call (rl\<lparr>rl_fetcher := F\<rparr>) now rq st = layer_call rl now rq st"
  using assms
  by (simp add: layer_call_eq layer_verify_def layer_options_def refuse_def opaque_path_def
      split: prod.splits sum.splits option.splits parsed_token.splits)

section \<open>From consent to access\<close>

text \<open>
  What the layer needs of the consent service: a token it grants is valid for the asking agent
  and no other.
\<close>

locale consent_access =
  fixes access :: "('st, 'err) access_iface"
  assumes grant_law: "if_consent access ctx st = (Ok (RCO_GrantOpaque t), st') \<Longrightarrow>
    if_validate access t a st' \<longleftrightarrow> a = ag_sub (ra_agent_claims ctx)"
begin

text \<open>A retry that presents the granted token, under a verified signature.\<close>

lemma retry_decided:
  assumes "rl_mode rl = RM_ResourceManaged access"
    and "if_consent access ctx st = (Ok (RCO_GrantOpaque t), st')"
    and "extract_aauth_access (rq_headers rq) = Ok (Some t)" "layer_verify rl now rq = Ok v"
    and "vs_jwt v = Some jwt" "parse_token (rl_jwt rl) jwt = Ok (PT_Agent a)"
  shows "layer_call rl now rq st' =
    (if ag_sub a = ag_sub (ra_agent_claims ctx) then LO_Forward (PT_Agent a)
     else LO_Reply (unauthorized_message (rl_json rl) ''invalid opaque access token''), st')"
  using assms grant_law [OF assms(2)]
  by (simp add: layer_call_eq opaque_path_def agent_sub_from_jwt_def claims_identifier_def)

end

text \<open>The policy service as the layer sees it, over the in-memory token store.\<close>

definition policy_access ::
    "env \<Rightarrow> u8 list \<Rightarrow> ('s, 'e, 'o) resource_service \<Rightarrow> ('s \<times> 'o, 'e resource_error) access_iface" where
  "policy_access ev bytes svc =
     \<lparr>if_consent = consent_for_agent ev bytes svc, if_poll = resource_poll_pending ev svc,
      if_validate = service_validate_opaque svc\<rparr>"

interpretation policy_consent:
  consent_access "policy_access ev bytes (svc\<lparr>rv_opaque := opaque_mem_ops b64\<rparr>)" for ev bytes svc b64
proof unfold_locales
  fix ctx and st st' :: "'a \<times> opaque_map" and t a
  assume g: "if_consent (policy_access ev bytes (svc\<lparr>rv_opaque := opaque_mem_ops b64\<rparr>)) ctx st
      = (Ok (RCO_GrantOpaque t), st')"
  obtain d where d: "pol_evaluate (rv_policy svc) ctx = Ok d"
    using g by (cases "pol_evaluate (rv_policy svc) ctx")
      (auto simp: policy_access_def consent_for_agent_def seq_def)
  have "d = RD_GrantOpaque"
    using g d by (cases d) (auto simp: policy_access_def consent_for_agent_def seq_def
        create_deferred_resource_response_def Let_def split: prod.splits sum.splits)
  then show "if_validate (policy_access ev bytes (svc\<lparr>rv_opaque := opaque_mem_ops b64\<rparr>)) t a st' \<longleftrightarrow>
      a = ag_sub (ra_agent_claims ctx)"
    using g d by (cases st) (auto simp: policy_access_def consent_for_agent_def seq_def opaque_mem_ops_def
        opaque_issue_def opaque_validate_def service_validate_opaque_def claims_identifier_def Let_def)
qed

text \<open>Only a granted consent is answered with an \<^verbatim>\<open>AAuth-Access\<close> header.\<close>

lemma hm_insert_names: "fst ` set (hm_insert hs n v) \<subseteq> insert n (fst ` set hs)"
  by (auto simp: hm_insert_def hm_remove_def)

lemma hm_get_absent: "k \<notin> fst ` set hs \<Longrightarrow> hm_get hs k = None"
  by (induction hs k rule: hm_get.induct) auto

lemma hm_get_fold:
  "k \<notin> fst ` set headers \<Longrightarrow> hm_get (fold (\<lambda>(n, v) hs. hm_insert hs n v) headers hs) k = hm_get hs k"
  by (induction headers arbitrary: hs) auto

lemma json_response_no_access:
  "''aauth-access'' \<notin> fst ` set headers \<Longrightarrow>
     hm_get (rs_headers (json_response sj status headers j)) ''aauth-access'' = None"
  by (simp add: json_response_def hm_get_fold)

lemma created_no_access:
  assumes "respond_created sj d = Some resp"
  shows "hm_get (rs_headers resp) ''aauth-access'' = None"
proof (cases "for_created (dc_requirement d)")
  case (Inl e)
  then show ?thesis using assms
    by (auto simp: respond_created_def internal_error_def intro: json_response_no_access)
next
  case (Inr body)
  then obtain hs where h: "insert_defer_created_headers (dc_location d) (dc_requirement d) [] = Some hs"
    "resp = json_response sj 202 hs (en_pending_body body)"
    using assms by (auto simp: respond_created_def)
  have "fst ` set hs \<subseteq> {''location'', ''retry-after'', ''cache-control'', ''aauth-requirement'', ''content-type''}"
    using h(1) by (auto simp: insert_defer_created_headers_def insert_poll_headers_def set_header_def Let_def
        hm_insert_def hm_remove_def bind_eq_Some_conv split: if_splits sum.splits)
  then have "''aauth-access'' \<notin> fst ` set hs" by auto
  then show ?thesis unfolding h(2) by (rule json_response_no_access)
qed

lemma consent_access_header:
  assumes "respond_consent sj out = Some resp" "hm_get (rs_headers resp) ''aauth-access'' = Some t"
  shows "out = RCO_GrantOpaque t"
proof (cases out)
  case (RCO_GrantOpaque u)
  then show ?thesis using assms by (auto simp: respond_consent_def opaque_response_def set_header_def split: if_splits)
next
  case (RCO_Deferred d)
  then show ?thesis using assms created_no_access by (simp add: respond_consent_def)
next
  case (RCO_Denied err)
  then show ?thesis using assms json_response_no_access [of "[]"] by (auto simp: respond_consent_def)
qed

lemma refusals_no_access [simp]:
  "hm_get (rs_headers agent_token_required) ''aauth-access'' = None"
  "hm_get (rs_headers (unauthorized_message sj m)) ''aauth-access'' = None"
  "hm_get (rs_headers (unauthorized_err sj e)) ''aauth-access'' = None"
  "hm_get (rs_headers (internal_error sj)) ''aauth-access'' = None"
  by (auto simp: agent_token_required_def text_response_def unauthorized_message_def unauthorized_err_def
      internal_error_def json_response_def Let_def split: option.split prod.split)

lemma refuse_reply: "refuse rl e = LO_Reply resp \<Longrightarrow> hm_get (rs_headers resp) ''aauth-access'' = None"
  by (auto simp: refuse_def split: if_splits)

lemma access_reply_granted:
  assumes "layer_call rl now rq st = (LO_Reply resp, st')" "hm_get (rs_headers resp) ''aauth-access'' = Some t"
    and "rl_mode rl = RM_ResourceManaged service"
  obtains v jwt a where "layer_verify rl now rq = Ok v" "vs_jwt v = Some jwt"
    "verify_token (rl_jwt rl) (rl_parse rl) (rl_fetcher rl) now jwt (vs_thumbprint v) = Ok (PT_Agent a)"
    "if_consent service \<lparr>ra_resource_url = rl_resource_url rl, ra_agent_claims = a, ra_scope = None\<rparr> st
       = (Ok (RCO_GrantOpaque t), st')"
    "respond_consent (rl_json rl) (RCO_GrantOpaque t) = Some resp"
proof -
  obtain v where v: "layer_verify rl now rq = Ok v"
    using assms by (cases "layer_verify rl now rq") (auto simp: layer_call_eq dest: refuse_reply)
  obtain jwt where j: "vs_jwt v = Some jwt"
    using assms v by (cases "vs_jwt v") (auto simp: layer_call_eq dest: refuse_reply)
  have tp: "token_path rl now jwt (vs_thumbprint v) st = (LO_Reply resp, st')"
    using assms v j by (auto simp: layer_call_eq opaque_path_def
        split: sum.splits option.splits parsed_token.splits if_splits)
  obtain q where q: "verify_token (rl_jwt rl) (rl_parse rl) (rl_fetcher rl) now jwt (vs_thumbprint v) = Ok q"
    and d: "decide rl now (vs_thumbprint v) q st = (LO_Reply resp, st')"
    using tp assms(2) by (auto simp: token_path_def split: sum.splits if_splits)
  obtain a where a: "q = PT_Agent a"
    using d assms(2,3) by (cases q) (auto simp: decide_def)
  let ?ctx = "\<lparr>ra_resource_url = rl_resource_url rl, ra_agent_claims = a, ra_scope = None\<rparr>"
  obtain r st2 where c: "if_consent service ?ctx st = (r, st2)" by (cases "if_consent service ?ctx st")
  obtain out where r: "r = Ok out"
    using d a c assms(2,3) by (cases r) (auto simp: decide_def)
  have o: "respond_consent (rl_json rl) out = Some resp" "st2 = st'"
    using d a c r assms(3) by (auto simp: decide_def reply_or_panic_def split: option.splits)
  have "out = RCO_GrantOpaque t" using consent_access_header [OF o(1) assms(2)] .
  then show ?thesis using that v j q a c r o by simp
qed

lemma token68_to_str: "is_token68 t \<Longrightarrow> to_str_ok (''AAuth '' @ t)"
  using token68_chars(2) [of t]
  by (auto simp: to_str_ok_def list_all_iff byte_def is_token68_char_def is_ascii_alphanumeric_def
      is_ascii_uppercase_def is_ascii_lowercase_def is_ascii_digit_def)

lemma presented_token:
  assumes "hm_get_all hs ''authorization'' = [''AAuth '' @ t]" "is_token68 t"
  shows "extract_aauth_access hs = Ok (Some t)"
proof -
  have "parse_aauth_credential (''AAuth '' @ t) = Ok t"
    unfolding parse_aauth_credential_def token68_trim(2) [OF assms(2)] using assms(2) by simp
  then show ?thesis
    using assms(1) token68_to_str [OF assms(2)] token68_trim(2) [OF assms(2)]
    by (simp add: extract_aauth_access_def)
qed

text \<open>
  A granted opaque token opens the resource to the agent it was granted to, and to nobody
  else. If the layer answered a request with an \<^verbatim>\<open>AAuth-Access\<close> token, then that request was
  verified as some agent's, and any later request that presents the token under a signature
  that verifies and an agent JWT is let through exactly when the JWT names that agent.
\<close>
theorem opaque_grant_usable:
  assumes mode: "rl_mode rl = RM_ResourceManaged (policy_access ev bytes svc)" "rv_opaque svc = opaque_mem_ops b64"
    and first: "layer_call rl now rq st = (LO_Reply resp, st')"
      "hm_get (rs_headers resp) ''aauth-access'' = Some t" "is_token68 t"
    and retry: "hm_get_all (rq_headers rq') ''authorization'' = [''AAuth '' @ t]"
      "layer_verify rl now' rq' = Ok v'" "vs_jwt v' = Some jwt'" "parse_token (rl_jwt rl) jwt' = Ok (PT_Agent b)"
  shows "\<exists>v jwt a. layer_verify rl now rq = Ok v \<and> vs_jwt v = Some jwt \<and>
    verify_token (rl_jwt rl) (rl_parse rl) (rl_fetcher rl) now jwt (vs_thumbprint v) = Ok (PT_Agent a) \<and>
    rs_status resp = 200 \<and>
    layer_call rl now' rq' st' =
      (if ag_sub b = ag_sub a then LO_Forward (PT_Agent b)
       else LO_Reply (unauthorized_message (rl_json rl) ''invalid opaque access token''), st')"
proof -
  have svc: "svc\<lparr>rv_opaque := opaque_mem_ops b64\<rparr> = svc" using mode(2) by simp
  obtain v jwt a where g: "layer_verify rl now rq = Ok v" "vs_jwt v = Some jwt"
    "verify_token (rl_jwt rl) (rl_parse rl) (rl_fetcher rl) now jwt (vs_thumbprint v) = Ok (PT_Agent a)"
    and c: "if_consent (policy_access ev bytes svc)
      \<lparr>ra_resource_url = rl_resource_url rl, ra_agent_claims = a, ra_scope = None\<rparr> st = (Ok (RCO_GrantOpaque t), st')"
    and r: "respond_consent (rl_json rl) (RCO_GrantOpaque t) = Some resp"
    using access_reply_granted [OF first(1,2) mode(1)] .
  have mode': "rl_mode rl = RM_ResourceManaged (policy_access ev bytes (svc\<lparr>rv_opaque := opaque_mem_ops b64\<rparr>))"
    unfolding svc by (rule mode(1))
  have c': "if_consent (policy_access ev bytes (svc\<lparr>rv_opaque := opaque_mem_ops b64\<rparr>))
      \<lparr>ra_resource_url = rl_resource_url rl, ra_agent_claims = a, ra_scope = None\<rparr> st = (Ok (RCO_GrantOpaque t), st')"
    unfolding svc by (rule c)
  have "rs_status resp = 200"
    using r by (auto simp: respond_consent_def opaque_response_def)
  moreover have "layer_call rl now' rq' st' =
      (if ag_sub b = ag_sub a then LO_Forward (PT_Agent b)
       else LO_Reply (unauthorized_message (rl_json rl) ''invalid opaque access token''), st')"
    using policy_consent.retry_decided [OF mode' c' presented_token [OF retry(1) first(3)] retry(2,3,4)] by simp
  ultimately show ?thesis using g by blast
qed

section \<open>Concrete runs\<close>

definition sample_layer ::
    "('st, 'err) access_iface resource_access_mode \<Rightarrow>
     (string, string list \<times> u64 option, string list \<times> u64 option, 'st, 'err) resource_layer" where
  "sample_layer mode =
     \<lparr>rl_http = sample_http, rl_jwt = sample_lib, rl_up = id, rl_low = id, rl_parse = sample_parse,
      rl_json = sample_json JNull, rl_fetcher = sample_fetcher, rl_resource_url = ''https://r'', rl_mode = mode,
      rl_sign = (\<lambda>_ _. Ok ''resource''), rl_jti = ''j'', rl_interaction = no_resource_interaction\<rparr>"

definition sample_get :: "header_map \<Rightarrow> request" where
  "sample_get headers =
     \<lparr>rq_method = ''GET'', rq_host = Some ''r'', rq_port = None, rq_path = ''/'', rq_headers = headers, rq_body = []\<rparr>"

definition sample_managed :: "(resource_pending_context mem_store \<times> opaque_map, unit resource_error) access_iface" where
  "sample_managed = policy_access sample_env [7] sample_resource_service"

definition sample_verified :: verified_http_signature where
  "sample_verified =
     \<lparr>vs_label = ''sig'', vs_signature_key = SK_Jwt ''agent.p.s'', vs_public_jwk = sample_jwk,
      vs_thumbprint = ''T'', vs_jwt = Some ''agent.p.s''\<rparr>"

lemma sample_parts:
  "signature_parts (sample_get sample_signed_headers) = (''GET'', ''r'', ''/'')"
  "signature_parts (sample_get sample_retry_headers) = (''GET'', ''r'', ''/'')"
  by (simp_all add: signature_parts_def sample_get_def sample_signed_headers_def sample_retry_headers_def
      header_value_def)

lemma sample_access:
  "extract_aauth_access sample_signed_headers = Ok None"
  "hm_get_all sample_retry_headers ''authorization'' = [''AAuth '' @ ''07'']"
  by (simp_all add: extract_aauth_access_def hm_get_all_def sample_signed_headers_def sample_retry_headers_def)

lemma sample_token68: "is_token68 ''07''"
  by (simp add: is_token68_def trim_end_matches_def Let_def is_token68_char_def is_ascii_alphanumeric_def
      is_ascii_digit_def byte_def)

lemma sample_layer_verify:
  "layer_verify (sample_layer mode) 1000 (sample_get sample_signed_headers) = Ok sample_verified"
  "layer_verify (sample_layer (RM_ResourceManaged service)) 1000 (sample_get sample_retry_headers) = Ok sample_verified"
proof -
  have "layer_options (sample_layer mode) (sample_get sample_signed_headers) = verify_options_default"
    by (auto simp: layer_options_def sample_layer_def sample_get_def sample_access verify_options_default_def
        split: resource_access_mode.split)
  then show "layer_verify (sample_layer mode) 1000 (sample_get sample_signed_headers) = Ok sample_verified"
    using sample_request_verifies sample_parts
    by (simp add: layer_verify_def sample_verified_def) (simp add: sample_layer_def sample_get_def)
  have "layer_options (sample_layer (RM_ResourceManaged service)) (sample_get sample_retry_headers) =
      verify_options_default\<lparr>vo_require_authorization := True\<rparr>"
    using presented_token [OF sample_access(2) sample_token68]
    by (simp add: layer_options_def sample_layer_def sample_get_def)
  then show "layer_verify (sample_layer (RM_ResourceManaged service)) 1000 (sample_get sample_retry_headers)
      = Ok sample_verified"
    using sample_retry_verifies sample_parts
    by (simp add: layer_verify_def sample_verified_def) (simp add: sample_layer_def sample_get_def)
qed

lemma sample_token_path:
  "token_path (sample_layer mode) 1000 ''agent.p.s'' ''T'' st = decide (sample_layer mode) 1000 ''T'' (PT_Agent sample_agent) st"
  using sample_verify_agent(2) by (simp add: token_path_def sample_layer_def)

lemma sample_layer_fields:
  "rl_mode (sample_layer mode) = mode" "rl_http (sample_layer mode) = sample_http"
  "rl_jwt (sample_layer mode) = sample_lib" "rl_parse (sample_layer mode) = sample_parse"
  "rl_fetcher (sample_layer mode) = sample_fetcher" "rl_resource_url (sample_layer mode) = ''https://r''"
  "rq_headers (sample_get hs) = hs"
  "vs_jwt sample_verified = Some ''agent.p.s''" "vs_thumbprint sample_verified = ''T''"
  by (simp_all add: sample_layer_def sample_get_def sample_verified_def)

lemma sample_identity_call:
  "layer_call (sample_layer RM_IdentityBased) 1000 (sample_get sample_signed_headers) st
     = (LO_Forward (PT_Agent sample_agent), st)"
  by (simp add: layer_call_eq sample_layer_verify sample_token_path sample_layer_fields decide_def)

theorem forwarded_request_trusted_witness:
  "\<exists>jwt. token_trusted sample_lib sample_parse sample_fetcher 1000 jwt ''T'' (PT_Agent sample_agent)"
proof -
  have f: "decode_agrees (rl_jwt (sample_layer RM_IdentityBased))"
    unfolding sample_layer_fields by (rule sample_decode_agrees)
  obtain v :: verified_http_signature and jwt where "httpsig_thumbprint sample_lib (vs_public_jwk v) = Ok (vs_thumbprint v)"
    "token_trusted sample_lib sample_parse sample_fetcher 1000 jwt (vs_thumbprint v) (PT_Agent sample_agent)"
    using forwarded_request_trusted [OF f sample_identity_call sample_parts(1)]
    unfolding sample_layer_fields by simp blast
  moreover have "vs_thumbprint v = ''T''" if "httpsig_thumbprint sample_lib k = Ok (vs_thumbprint v)" for k
    using that by (auto simp: httpsig_thumbprint_def sample_lib_def map_ok_Ok)
  ultimately show ?thesis by auto
qed

lemma sample_consent:
  "if_consent sample_managed \<lparr>ra_resource_url = ''https://r'', ra_agent_claims = sample_agent, ra_scope = None\<rparr>
     (mem_new, opaque_new) = (Ok (RCO_GrantOpaque ''07''), (mem_new, [''07'' \<mapsto> ''aauth:x@a'']))"
  by (simp add: sample_managed_def policy_access_def sample_resource_service_def consent_for_agent_def
      always_grant_resource_policy_def seq_def opaque_mem_ops_def opaque_issue_def opaque_token_def hex_digit_def
      opaque_new_def Let_def sample_agent_def claims_identifier_def)

definition sample_grant_reply :: response where
  "sample_grant_reply = \<lparr>rs_status = 200, rs_headers = [(''aauth-access'', ''07'')], rs_body = []\<rparr>"

lemma sample_grant_call:
  "layer_call (sample_layer (RM_ResourceManaged sample_managed)) 1000 (sample_get sample_signed_headers)
     (mem_new, opaque_new) = (LO_Reply sample_grant_reply, (mem_new, [''07'' \<mapsto> ''aauth:x@a'']))"
  by (simp add: layer_call_eq sample_layer_verify sample_layer_fields sample_access sample_token_path decide_def
      sample_consent reply_or_panic_def respond_consent_def opaque_response_def set_header_def header_value_ok_def
      byte_def hm_insert_def hm_remove_def sample_grant_reply_def)

theorem opaque_grant_usable_witness:
  "fst (layer_call (sample_layer (RM_ResourceManaged sample_managed)) 1000 (sample_get sample_retry_headers)
     (mem_new, [''07'' \<mapsto> ''aauth:x@a''])) \<noteq> LO_Panic"
proof -
  have m: "rl_mode (sample_layer (RM_ResourceManaged sample_managed)) =
      RM_ResourceManaged (policy_access sample_env [7] sample_resource_service)"
    "rv_opaque sample_resource_service = opaque_mem_ops id"
    by (simp_all add: sample_layer_fields sample_managed_def sample_resource_service_def)
  have h: "hm_get (rs_headers sample_grant_reply) ''aauth-access'' = Some ''07''"
    by (simp add: sample_grant_reply_def)
  have p: "parse_token (rl_jwt (sample_layer (RM_ResourceManaged sample_managed))) ''agent.p.s'' = Ok (PT_Agent sample_agent)"
    by (simp add: sample_layer_fields sample_tokens)
  have r: "hm_get_all (rq_headers (sample_get sample_retry_headers)) ''authorization'' = [''AAuth '' @ ''07'']"
    by (simp only: sample_layer_fields sample_access)
  show ?thesis
    using opaque_grant_usable [OF m sample_grant_call h sample_token68 r sample_layer_verify(2)
        sample_layer_fields(8) p] by (auto split: if_splits)
qed

theorem opaque_path_ignores_issuer_witness:
  "layer_call (sample_layer (RM_ResourceManaged sample_managed)\<lparr>rl_fetcher := absent_metadata_fetcher\<rparr>) 1000
     (sample_get sample_retry_headers) (mem_new, [''07'' \<mapsto> ''aauth:x@a'']) =
   (LO_Forward (PT_Agent sample_agent), (mem_new, [''07'' \<mapsto> ''aauth:x@a'']))"
proof -
  have e: "extract_aauth_access (rq_headers (sample_get sample_retry_headers)) = Ok (Some ''07'')"
    using presented_token [OF sample_access(2) sample_token68] by (simp add: sample_layer_fields)
  have "layer_call (sample_layer (RM_ResourceManaged sample_managed)) 1000 (sample_get sample_retry_headers)
      (mem_new, [''07'' \<mapsto> ''aauth:x@a'']) = (LO_Forward (PT_Agent sample_agent), (mem_new, [''07'' \<mapsto> ''aauth:x@a'']))"
    using e by (simp add: layer_call_eq sample_layer_verify sample_layer_fields opaque_path_def sample_tokens
        agent_sub_from_jwt_def sample_managed_def policy_access_def sample_resource_service_def
        service_validate_opaque_def opaque_mem_ops_def opaque_validate_def claims_identifier_def)
      (simp add: sample_agent_def)
  from trans [OF opaque_path_ignores_issuer [OF sample_layer_fields(1) e] this] show ?thesis .
qed

end
