(* ===== verification/Routes.thy ===== *)
theory Routes
  imports Person_Service Access_Service Resource_Layer
begin

text \<open>
  The HTTP handlers of the three server roles (\<^verbatim>\<open>aauth-axum/src/{person,access,resource}/routes.rs\<close>):
  what each reads of a request, what it verifies, the service operation it calls and the
  response it makes. A handler is a function of the service's state; \<open>None\<close> is a panic.
\<close>

section \<open>Reading a request\<close>

text \<open>
  The web framework: \<open>fr_json_type\<close> is its test of the content type, \<open>fr_bytes\<close> reads the
  body, \<open>fr_reject\<close> is the response to a body it does not accept, \<open>fr_bad_header\<close> the one to
  a redirect whose location is no header value.
\<close>

datatype json_rejection = JR_ContentType | JR_Syntax | JR_Data

record ('p, 'g) front =
  fr_http :: "('p, 'g) httpsig_lib"
  fr_json :: serde_json
  fr_json_type :: "header_map \<Rightarrow> bool"
  fr_bytes :: "request \<Rightarrow> response + string"
  fr_reject :: "json_rejection \<Rightarrow> response"
  fr_bad_header :: response

text \<open>The extractor \<^verbatim>\<open>Option<Json<T>>\<close>: absent means no content type.\<close>

definition optional_json ::
    "('p, 'g) front \<Rightarrow> (json \<Rightarrow> 'a option) \<Rightarrow> request \<Rightarrow> response + 'a option" where
  "optional_json F d rq =
     (if hm_get (rq_headers rq) ''content-type'' = None then Ok None
      else if \<not> fr_json_type F (rq_headers rq) then Err (fr_reject F JR_ContentType)
      else bind_res (fr_bytes F rq) (\<lambda>bytes.
        case sj_parse (fr_json F) bytes of
          None \<Rightarrow> Err (fr_reject F JR_Syntax)
        | Some j \<Rightarrow> (case d j of None \<Rightarrow> Err (fr_reject F JR_Data) | Some a \<Rightarrow> Ok (Some a))))"

definition host_authority :: "header_map \<Rightarrow> string" where
  "host_authority headers = (case header_value headers ''host'' of None \<Rightarrow> ''localhost'' | Some h \<Rightarrow> h)"

definition verify_post ::
    "('p, 'g) front \<Rightarrow> 'key jwt_lib \<Rightarrow> env \<Rightarrow> request \<Rightarrow> httpsig_error + verified_http_signature" where
  "verify_post F L ev rq =
     http_verify (fr_http F) L (ev_up ev) (ev_now ev) ''POST'' (host_authority (rq_headers rq)) (rq_path rq)
       (rq_headers rq) verify_options_default"

text \<open>The end of every handler.\<close>

definition finish ::
    "('p, 'g) front \<Rightarrow> ('a \<Rightarrow> response option) \<Rightarrow> ('e + 'a) \<times> 's \<Rightarrow> response option \<times> 's" where
  "finish F respond = (\<lambda>(r, s).
     (case r of Inl _ \<Rightarrow> Some (internal_error (fr_json F)) | Inr out \<Rightarrow> respond out, s))"

definition reply :: "u16 \<Rightarrow> 's \<Rightarrow> response option \<times> 's" where
  "reply status s = (Some (status_response status), s)"

definition path_of :: "string \<Rightarrow> string \<Rightarrow> string" where
  "path_of base path = trim_end_matches (CHR ''/'') base @ path"

section \<open>Person Server (\<^verbatim>\<open>person/routes.rs\<close>)\<close>

definition person_metadata_handler :: "('p, 'g) front \<Rightarrow> person_server_config \<Rightarrow> response" where
  "person_metadata_handler F cfg =
     json_response (fr_json F) 200 [] (en_person_metadata (person_metadata_default
       \<lparr>psm_issuer := Some (psc_person_server_url cfg),
        psm_token_endpoint := path_of (psc_pending_base_url cfg) ''/aauth/token'',
        psm_jwks_uri := Some (psc_person_jwks_uri cfg),
        psm_interaction_endpoint := Some (psc_interaction_url cfg)\<rparr>))"

definition token_exchange_handler ::
    "('p, 'g) front \<Rightarrow> env \<Rightarrow> ('key, 's, 'e) person_service \<Rightarrow> request \<Rightarrow> 's \<Rightarrow> response option \<times> 's" where
  "token_exchange_handler F ev svc rq s =
     (case optional_json F de_token_exchange rq of
        Inl rejection \<Rightarrow> (Some rejection, s)
      | Inr body \<Rightarrow>
          (case verify_post F (pv_lib svc) ev rq of
             Inl _ \<Rightarrow> reply 401 s
           | Inr v \<Rightarrow>
               (case vs_jwt v of
                  None \<Rightarrow> reply 401 s
                | Some jwt \<Rightarrow>
                    (case body of
                       None \<Rightarrow> reply 400 s
                     | Some request \<Rightarrow>
                         (case verify_token_request (pv_lib svc) (ev_now ev) (pv_config svc) jwt (vs_thumbprint v)
                                 (tx_resource_token request) request of
                            Inl _ \<Rightarrow> reply 401 s
                          | Inr ctx \<Rightarrow>
                              finish F (respond_person_flow (fr_json F))
                                (person_exchange_token ev svc ctx jwt s))))))"

definition pending_poll_handler ::
    "('p, 'g) front \<Rightarrow> env \<Rightarrow> ('key, 's, 'e) person_service \<Rightarrow> string \<Rightarrow> 's \<Rightarrow> response option \<times> 's" where
  "pending_poll_handler F ev svc pending_id s =
     finish F (respond_poll (fr_json F)) (person_poll_pending ev svc pending_id s)"

definition posted_input :: "('p, 'g) front \<Rightarrow> request \<Rightarrow> response + pending_input" where
  "posted_input F rq = pending_resume_input (fr_json F) (res_ok (fr_bytes F rq))"

definition pending_post_handler ::
    "('p, 'g) front \<Rightarrow> env \<Rightarrow> ('key, 's, 'e) person_service \<Rightarrow> string \<Rightarrow> request \<Rightarrow> 's \<Rightarrow> response option \<times> 's" where
  "pending_post_handler F ev svc pending_id rq s =
     (case posted_input F rq of
        Inl rejection \<Rightarrow> (Some rejection, s)
      | Inr input \<Rightarrow>
          finish F (respond_person_flow (fr_json F)) (person_resume_pending ev svc pending_id input s))"

definition interaction_start_handler ::
    "('p, 'g) front \<Rightarrow> env \<Rightarrow> ('key, 's, 'e) person_service \<Rightarrow> string \<Rightarrow> 's \<Rightarrow> response option \<times> 's" where
  "interaction_start_handler F ev svc code s =
     (case begin_interaction ev svc code of
        None \<Rightarrow> (None, s)
      | Some act \<Rightarrow> finish F (\<lambda>out. Some (respond_interaction (fr_json F) (fr_bad_header F) out)) (act s))"

definition interaction_callback_handler ::
    "('p, 'g) front \<Rightarrow> env \<Rightarrow> ('key, 's, 'e) person_service \<Rightarrow> string \<Rightarrow> string option \<Rightarrow> 's \<Rightarrow>
     response option \<times> 's" where
  "interaction_callback_handler F ev svc pending_id err s =
     finish F (respond_person_flow (fr_json F)) (resolve_interaction_callback ev svc pending_id err s)"

section \<open>Access Server (\<^verbatim>\<open>access/routes.rs\<close>)\<close>

definition access_metadata_handler :: "('p, 'g) front \<Rightarrow> access_server_config \<Rightarrow> response" where
  "access_metadata_handler F cfg =
     json_response (fr_json F) 200 [] (en_access_metadata (access_metadata_default
       \<lparr>asm_issuer := Some (asc_access_server_url cfg),
        asm_token_endpoint := asc_access_server_url cfg @ ''/access/aauth/token'',
        asm_jwks_uri := Some (asc_access_jwks_uri cfg)\<rparr>))"

definition access_token_exchange_handler ::
    "('p, 'g) front \<Rightarrow> 'key jwt_lib \<Rightarrow> env \<Rightarrow> ('s, 'e) access_service \<Rightarrow> request \<Rightarrow> 's \<Rightarrow> response option \<times> 's" where
  "access_token_exchange_handler F L ev svc rq s =
     (case optional_json F de_access_exchange rq of
        Inl rejection \<Rightarrow> (Some rejection, s)
      | Inr None \<Rightarrow> reply 400 s
      | Inr (Some request) \<Rightarrow>
          (case verify_post F L ev rq of
             Inl _ \<Rightarrow> reply 401 s
           | Inr _ \<Rightarrow>
               (case access_context_from_exchange L (av_config svc) request of
                  Inl _ \<Rightarrow> reply 400 s
                | Inr ctx \<Rightarrow> finish F (respond_flow (fr_json F)) (access_exchange_token ev svc ctx s))))"

definition access_pending_poll_handler ::
    "('p, 'g) front \<Rightarrow> env \<Rightarrow> ('s, 'e) access_service \<Rightarrow> string \<Rightarrow> 's \<Rightarrow> response option \<times> 's" where
  "access_pending_poll_handler F ev svc pending_id s =
     finish F (respond_poll (fr_json F)) (access_poll_pending ev svc pending_id s)"

definition access_pending_post_handler ::
    "('p, 'g) front \<Rightarrow> env \<Rightarrow> ('s, 'e) access_service \<Rightarrow> string \<Rightarrow> request \<Rightarrow> 's \<Rightarrow> response option \<times> 's" where
  "access_pending_post_handler F ev svc pending_id rq s =
     (case posted_input F rq of
        Inl rejection \<Rightarrow> (Some rejection, s)
      | Inr input \<Rightarrow> finish F (respond_flow (fr_json F)) (access_resume_pending ev svc pending_id input s))"

section \<open>Resource server (\<^verbatim>\<open>resource/routes.rs\<close>)\<close>

definition resource_pending_poll_handler ::
    "('p, 'g) front \<Rightarrow> ('st, 'err) access_iface \<Rightarrow> string \<Rightarrow> 'st \<Rightarrow> response option \<times> 'st" where
  "resource_pending_poll_handler F service pending_id st =
     finish F (respond_poll (fr_json F)) (if_poll service pending_id st)"

definition de_authorization_request :: "json \<Rightarrow> authorization_request option" where
  "de_authorization_request j =
     (case de_struct [''scope''] j of
        Some [v] \<Rightarrow> map_option (\<lambda>scope. \<lparr>az_scope = scope\<rparr>) (req de_str v)
      | _ \<Rightarrow> None)"

definition en_authorization_granted :: "authorization_granted_response \<Rightarrow> json" where
  "en_authorization_granted g = JObj [(''status'', JStr (ag_status g)), (''scope'', JStr (ag_scope g))]"

definition respond_authorize ::
    "serde_json \<Rightarrow> string \<Rightarrow> resource_consent_flow_outcome \<Rightarrow> response option" where
  "respond_authorize sj scope out =
     (case out of
        RCO_GrantOpaque token \<Rightarrow>
          map_option (\<lambda>headers. json_response sj 200 headers
              (en_authorization_granted \<lparr>ag_status = ''authorized'', ag_scope = scope\<rparr>))
            (set_header ''aauth-access'' token [])
      | _ \<Rightarrow> respond_consent sj out)"

definition resource_authorize_handler ::
    "('p, 'g) front \<Rightarrow> 'key jwt_lib \<Rightarrow> env \<Rightarrow> ('st, 'err) access_iface \<Rightarrow> string \<Rightarrow> request \<Rightarrow> 'st \<Rightarrow>
     response option \<times> 'st" where
  "resource_authorize_handler F L ev service resource_url rq st =
     (case optional_json F de_authorization_request rq of
        Inl rejection \<Rightarrow> (Some rejection, st)
      | Inr body \<Rightarrow>
          (case verify_post F L ev rq of
             Inl _ \<Rightarrow> reply 401 st
           | Inr v \<Rightarrow>
               (case vs_jwt v of
                  None \<Rightarrow> reply 401 st
                | Some jwt \<Rightarrow>
                    (case body of
                       None \<Rightarrow> reply 400 st
                     | Some request \<Rightarrow>
                         (case parse_token L jwt of
                            Inr (PT_Agent agent) \<Rightarrow>
                              finish F (respond_authorize (fr_json F) (az_scope request))
                                (if_consent service \<lparr>ra_resource_url = resource_url, ra_agent_claims = agent,
                                   ra_scope = Some (az_scope request)\<rparr> st)
                          | _ \<Rightarrow> reply 401 st)))))"

section \<open>Reading an answer\<close>

lemma finish_state: "finish F respond (m s) = (resp, s') \<Longrightarrow> snd (m s) = s'"
  by (auto simp: finish_def split: prod.splits)

lemma sat_state: "run_sat m s (\<lambda>_. P) \<Longrightarrow> snd (m s) = s' \<Longrightarrow> P s'"
  by (auto simp: run_sat_def split: prod.splits)

lemma created_status: "respond_created sj d = Some resp \<Longrightarrow> rs_status resp \<noteq> 200"
  by (auto simp: respond_created_def json_response_def internal_error_def split: sum.splits option.splits)

lemma finish_200:
  assumes "finish F respond (m s) = (Some resp, s')" "rs_status resp = 200"
  obtains out where "m s = (Ok out, s')" "respond out = Some resp"
  using assms that by (auto simp: finish_def internal_error_def json_response_def split: prod.splits sum.splits)

section \<open>What the token endpoint lets in\<close>

text \<open>The framework's own refusals are no successes.\<close>

definition refuses :: "('p, 'g) front \<Rightarrow> bool" where
  "refuses F \<longleftrightarrow> (\<forall>r. rs_status (fr_reject F r) \<noteq> 200) \<and>
     (\<forall>rq resp. fr_bytes F rq = Inl resp \<longrightarrow> rs_status resp \<noteq> 200)"

lemma bind_res_Err: "bind_res r f = Inl e \<longleftrightarrow> r = Inl e \<or> (\<exists>a. r = Inr a \<and> f a = Inl e)"
  by (cases r) auto

lemma rejected_json:
  "refuses F \<Longrightarrow> optional_json F d rq = Inl resp \<Longrightarrow> rs_status resp \<noteq> 200"
  by (auto simp: optional_json_def refuses_def bind_res_Err split: if_splits option.splits)

lemma token_exchange_cases:
  assumes "refuses F" "token_exchange_handler F ev svc rq s = (Some resp, s')"
    and "rs_status resp = 200 \<or> s' \<noteq> s"
  obtains v jwt request ctx where "verify_post F (pv_lib svc) ev rq = Ok v" "vs_jwt v = Some jwt"
    "optional_json F de_token_exchange rq = Ok (Some request)"
    "verify_token_request (pv_lib svc) (ev_now ev) (pv_config svc) jwt (vs_thumbprint v)
       (tx_resource_token request) request = Ok ctx"
    "finish F (respond_person_flow (fr_json F)) (person_exchange_token ev svc ctx jwt s) = (Some resp, s')"
  using assms rejected_json [OF assms(1)] that
  by (auto simp: token_exchange_handler_def reply_def status_response_def split: sum.splits option.splits)

text \<open>
  C14: the token endpoint serves nobody it has not verified. If a request to it succeeds, or
  changes the store in any way, then its signature authenticates it, by a key that the
  presented agent JWT names as its own, and its body carries a resource token signed by its
  issuer for that agent and that very key.
\<close>
theorem token_endpoint_guarded:
  assumes "decode_agrees (pv_lib svc)" and "refuses F"
    and "token_exchange_handler F ev svc rq s = (Some resp, s')"
    and "rs_status resp = 200 \<or> s' \<noteq> s"
  shows "\<exists>v jwt request ctx.
    authentic (fr_http F) (ev_up ev) (ev_now ev) ''POST'' (host_authority (rq_headers rq)) (rq_path rq)
      (rq_headers rq) verify_options_default v \<and>
    vs_jwt v = Some jwt \<and>
    resolve_public_jwk (fr_http F) (vs_signature_key v) = Ok (vs_public_jwk v, Some jwt) \<and>
    httpsig_thumbprint (pv_lib svc) (vs_public_jwk v) = Ok (vs_thumbprint v) \<and>
    optional_json F de_token_exchange rq = Ok (Some request) \<and>
    token_request_trusted (pv_lib svc) (ev_now ev) (pv_config svc) jwt (vs_thumbprint v)
      (tx_resource_token request) request ctx"
proof -
  obtain v jwt request ctx where h: "verify_post F (pv_lib svc) ev rq = Ok v" "vs_jwt v = Some jwt"
    "optional_json F de_token_exchange rq = Ok (Some request)"
    "verify_token_request (pv_lib svc) (ev_now ev) (pv_config svc) jwt (vs_thumbprint v)
       (tx_resource_token request) request = Ok ctx"
    by (rule token_exchange_cases [OF assms(2-4)])
  note a = verify_authentic [OF h(1) [unfolded verify_post_def]]
  show ?thesis using a h(2,3) verify_token_request_sound [OF assms(1) h(4)] by metis
qed


section \<open>A concrete request\<close>

text \<open>
  A crate that signs and accepts every message with the parameters of time 1000, without and with the
  credential \<^verbatim>\<open>AAuth 07\<close>.
\<close>

definition sample_front :: "(string list \<times> u64 option, string list \<times> u64 option) front" where
  "sample_front =
     \<lparr>fr_http = sample_http\<lparr>hl_build := (\<lambda>ls p sk l.
          if p = sample_params [] \<and> l = ''sig'' then Inr (''i1'', ''s1'')
          else if p = sample_params sample_extras \<and> l = ''sig'' then Inr (''i2'', ''s2'') else Inl ''unknown message''),
        hl_check := (\<lambda>ls p pk sg. sg = p)\<rparr>,
      fr_json = \<lparr>sj_parse = (\<lambda>_. Some (JObj [(''resource_token'', JStr ''resource'')])), sj_print = (\<lambda>_. []),
        sj_error = (\<lambda>_. [])\<rparr>,
      fr_json_type = (\<lambda>_. True), fr_bytes = (\<lambda>rq. Ok (rq_body rq)), fr_reject = (\<lambda>_. status_response 400),
      fr_bad_header = status_response 500\<rparr>"

definition sample_post_headers :: header_map where
  "sample_post_headers = [(''host'', ''r''), (''content-type'', ''application/json'')]"

definition sample_post :: request where
  "sample_post =
     \<lparr>rq_method = ''POST'', rq_host = Some ''r'', rq_port = None, rq_path = ''/aauth/token'',
      rq_headers = sample_post_headers @ sample_signed_headers, rq_body = ''j''\<rparr>"

lemma sample_post_signed:
  "http_sign (fr_http sample_front) id 1000 ''POST'' ''r'' ''/aauth/token'' sample_material [] None sample_post_headers
     = (Ok (), sample_post_headers @ sample_signed_headers)"
proof -
  let ?H = "fr_http sample_front"
  have secret: "secret_key_from_signing_jwk ?H sample_signing_jwk = Ok (''ed25519'', replicate 32 (CHR 0x01))"
    by (simp add: secret_key_from_signing_jwk_def sample_signing_jwk_def sample_http_def sample_front_def)
  have lib: "hl_new_params ?H is = Inr (is, None)" "hl_set_created ?H t (is, c) = (is, Some t)"
    "hl_base ?H ls ps = Inr ()" "hl_build ?H ls (sample_params []) sk ''sig'' = Inr (''i1'', ''s1'')"
    "hl_header_name ?H n = Some n"
    for "is" t c ls ps sk n
    by (simp_all add: sample_http_def sample_front_def)
  have ids: "all_ok (hl_component_id ?H) ns = Ok (map (\<lambda>n. ''\"'' @ n @ ''\"'') ns)"
    "all_ok (hl_component ?H) ls = Ok (map (\<lambda>_. ()) ls)" for ns ls
    by (rule all_ok_Ok, simp add: sample_http_def sample_front_def)+
  have p: "(map (\<lambda>n. ''\"'' @ n @ ''\"'') required_components, Some 1000) = sample_params []"
    by (simp add: sample_params_def)
  show ?thesis
    using p by (simp add: http_sign_def sample_material_def seq_def sk_to_header_def insert_header_def
        Let_def hm_insert_def hm_remove_def quoted_param_def header_value_ok_def byte_def secret ids lib
        sample_post_headers_def sample_signed_headers_def)
qed

lemma sample_post_verifies_by:
  assumes "httpsig_thumbprint L sample_jwk = Ok ''T''"
  shows "verify_post sample_front L sample_env sample_post =
     Ok \<lparr>vs_label = ''sig'', vs_signature_key = SK_Jwt ''agent.p.s'', vs_public_jwk = sample_jwk,
       vs_thumbprint = ''T'', vs_jwt = Some ''agent.p.s''\<rparr>"
proof -
  let ?H = "fr_http sample_front"
  have crate: "crate_agrees ?H 1000 sk pk" for sk pk
    using trim_matches_quoted
    by (auto simp: crate_agrees_def sample_http_def sample_front_def unquote_id_def to_str_ok_def byte_def
        split: if_splits)
  have cnf: "cnf_jwk_from_jwt ?H ''agent.p.s'' = Ok sample_jwk"
    by (simp add: cnf_jwk_from_jwt_def sample_front_def sample_http_def sample_key_json_def from_slice_def
        de_jwt_payload_def field_def en_opt_def de_cnf_def de_public_jwk_def jwk_json_def sample_jwk_def)
  have pk: "public_key_from_jwk ?H sample_jwk = Ok (''ed25519'', replicate 32 (CHR 0x01))"
    by (simp add: public_key_from_jwk_def sample_front_def sample_jwk_def sample_http_def)
  have sk: "secret_key_from_signing_jwk ?H sample_signing_jwk = Ok (''ed25519'', replicate 32 (CHR 0x01))"
    by (simp add: secret_key_from_signing_jwk_def sample_signing_jwk_def sample_http_def sample_front_def)
  have "http_verify ?H L id 1000 ''POST'' ''r'' ''/aauth/token''
      (sample_post_headers @ sample_signed_headers) verify_options_default =
     Ok \<lparr>vs_label = ''sig'', vs_signature_key = SK_Jwt ''agent.p.s'', vs_public_jwk = sample_jwk,
       vs_thumbprint = ''T'', vs_jwt = Some ''agent.p.s''\<rparr>"
    by (rule signed_verifies [OF sample_post_signed _ _ _ cnf assms pk _ crate])
      (simp_all add: sample_material_def clean_def to_str_ok_def byte_def sk)
  moreover have "host_authority (sample_post_headers @ sample_signed_headers) = ''r''"
    by (simp add: host_authority_def sample_post_headers_def header_value_def to_str_ok_def byte_def)
  ultimately show ?thesis
    by (simp add: verify_post_def sample_post_def sample_env_def id_def)
qed

lemmas sample_post_verifies = sample_post_verifies_by [OF sample_httpsig_thumbprint]

lemma sample_post_body:
  "optional_json sample_front de_token_exchange sample_post = Ok (Some sample_exchange)"
  by (simp add: optional_json_def sample_post_def sample_post_headers_def sample_front_def de_token_exchange_def
      field_def sample_exchange_def)

lemma sample_token_exchange:
  "token_exchange_handler sample_front sample_env sample_service sample_post s =
     (Some (json_response (fr_json sample_front) 200 [] (en_token_response sample_body)), s)"
proof -
  have ctx: "verify_token_request sample_lib 1000 sample_config ''agent.p.s'' ''T'' ''resource'' sample_exchange
     = Ok sample_context"
    using sample_request by (simp add: verify_token_request_def sample_tokens)
  have ix: "rc_interaction (pt_resource_claims sample_context) = None" "tx_resource_token sample_exchange = ''resource''"
    by (simp_all add: sample_context_def sample_resource_def sample_exchange_def)
  have env: "ev_now sample_env = 1000" "pv_config sample_service = sample_config"
    by (simp_all add: sample_env_def sample_service_def)
  have run: "person_exchange_token sample_env sample_service sample_context ''agent.p.s'' s = (Ok (PF_Granted sample_body), s)"
    using sample_service_facts(4)
    by (simp add: person_exchange_token_def ix sample_service_facts(3) sample_grant_policy_def
        apply_person_decision_def seq_def)
  show ?thesis
    by (simp add: token_exchange_handler_def sample_post_body sample_service_facts(2) sample_post_verifies ctx ix
        env run finish_def respond_person_flow_def respond_flow_def)
qed

theorem token_endpoint_guarded_witness:
  "\<exists>(v :: verified_http_signature) jwt request ctx.
     authentic (fr_http sample_front) (ev_up sample_env) (ev_now sample_env) ''POST''
       (host_authority (rq_headers sample_post)) (rq_path sample_post) (rq_headers sample_post)
       verify_options_default v \<and>
     optional_json sample_front de_token_exchange sample_post = Ok (Some request) \<and>
     token_request_trusted (pv_lib sample_service) (ev_now sample_env) (pv_config sample_service) jwt
       (vs_thumbprint v) (tx_resource_token request) request ctx"
proof -
  have d: "decode_agrees (pv_lib sample_service)" using sample_decode_agrees by (simp add: sample_service_facts)
  have r: "refuses sample_front" by (simp add: refuses_def sample_front_def status_response_def)
  have "rs_status (json_response (fr_json sample_front) 200 [] (en_token_response sample_body)) = 200"
    by (simp add: json_response_def)
  then show ?thesis
    using token_endpoint_guarded [OF d r sample_token_exchange [of mem_new]] by blast
qed


section \<open>Who completes an interaction\<close>

lemma pending_context [simp]: "context_of (person_pending_from ctx jwt fed ix code) (pt_resource_claims ctx) = ctx"
  by (simp add: context_of_def person_pending_from_def)

text \<open>
  C15: nobody has to interact. With the shipped policy that defers every request to the person's
  interaction, over the shipped policy that then grants, the requester needs no person: an
  empty and unsigned POST to the pending URL it was just given is answered with the token,
  although no code was ever typed.
\<close>
theorem deferred_consent_unsigned:
  assumes store: "pv_pending svc = mem_ops iter"
    and policy: "pv_policy svc = defer_interaction_person_policy buf (always_grant_person_policy low sub) url"
    and ctx: "rc_interaction (pt_resource_claims ctx) = None" "audience_is_person_server low ctx"
    and mint: "mint_person_auth (pv_config svc) (pv_minter svc) sub (rc_scope (pt_resource_claims ctx))
      (pt_agent_claims ctx) = Ok body"
    and live: "ev_now ev \<le> ev_now ev + psc_pending_ttl_secs (pv_config svc)"
    and empty: "fr_bytes F rq = Ok []"
  shows "\<exists>d s1 s2. person_exchange_token ev svc ctx jwt s = (Ok (PF_Deferred d), s1) \<and>
    d = \<lparr>dc_location = pending_url (pv_config svc) (generate_pending_id (ev_id_bytes ev)),
         dc_requirement = DR_Interaction url (generate_code buf)\<rparr> \<and>
    pending_post_handler F ev svc (generate_pending_id (ev_id_bytes ev)) rq s1 =
      (Some (json_response (fr_json F) 200 [] (en_token_response body)), s2)"
proof -
  let ?i = "generate_pending_id (ev_id_bytes ev)" and ?q = "DR_Interaction url (generate_code buf)"
  let ?r = "pending_record_new (ev_now ev) ?i (person_pending_from ctx jwt None None None)
    (snapshot_waiting ?q) (psc_pending_ttl_secs (pv_config svc))"
  let ?s1 = "mem_insert ?i ?r (s\<lparr>last_created := Some ?i\<rparr>)"
  have id: "pr_id ?r = ?i" by (simp add: pending_record_new_def)
  have "person_exchange_token ev svc ctx jwt s = (Ok (PF_Deferred \<lparr>dc_location = pending_url (pv_config svc) ?i,
      dc_requirement = ?q\<rparr>), ?s1)"
    using ctx(1)
    by (simp add: person_exchange_token_def policy defer_interaction_person_policy_def apply_person_decision_def
        create_deferred_person_response_def Let_def store seq_run mem_run id)
  moreover have "\<exists>s2. person_resume_pending ev svc ?i PI_InteractionCompleted ?s1 = (Ok (PF_Granted body), s2)"
  proof -
    obtain s2 where c: "op_complete (pv_pending svc) ?i (PO_AuthToken body) ?s1 = (Ok (), s2)"
      unfolding store using mem_run_complete by blast
    have l: "op_load (pv_pending svc) ?i ?s1 = (Ok (Some ?r), ?s1)"
      by (simp add: store mem_run mem_insert_look)
    have x: "\<not> is_expired (ev_now ev) ?r" "pr_context ?r = person_pending_from ctx jwt None None None"
      using live by (simp_all add: is_expired_def pending_record_new_def)
    have g: "pol_resume (pv_policy svc) ctx PI_InteractionCompleted =
        Ok (PD_Grant \<lparr>gr_sub = sub, gr_scope = rc_scope (pt_resource_claims ctx)\<rparr>)"
      using ctx(2) by (simp add: policy defer_interaction_person_policy_def always_grant_person_policy_def
          always_grant_person_evaluate_def)
    have f: "federation (person_pending_from ctx jwt None None None) = None"
      "pp_resource_claims (person_pending_from ctx jwt None None None) = pt_resource_claims ctx"
      by (simp_all add: person_pending_from_def)
    show ?thesis
      using c l mint by (simp add: person_resume_pending_def with_live_record_def seq_run x f g Let_def
          apply_person_pending_decision_def complete_with_def)
  qed
  ultimately show ?thesis
    using empty
    by (auto simp: pending_post_handler_def posted_input_def pending_resume_input_def parse_pending_post_body_def
        finish_def respond_person_flow_def respond_flow_def)
qed

theorem deferred_consent_unsigned_witness:
  "\<exists>d s1 s2. person_exchange_token sample_env
       (sample_service\<lparr>pv_policy := defer_interaction_person_policy [1] (always_grant_person_policy id ''u'') ''https://p/i''\<rparr>)
       sample_context ''agent'' mem_new = (Ok (PF_Deferred d), s1) \<and>
     pending_post_handler sample_front sample_env
       (sample_service\<lparr>pv_policy := defer_interaction_person_policy [1] (always_grant_person_policy id ''u'') ''https://p/i''\<rparr>)
       (generate_pending_id (ev_id_bytes sample_env)) (sample_post\<lparr>rq_headers := [], rq_body := []\<rparr>) s1 =
       (Some (json_response (fr_json sample_front) 200 [] (en_token_response sample_body)), s2)"
proof -
  let ?svc = "sample_service\<lparr>pv_policy := defer_interaction_person_policy [1] (always_grant_person_policy id ''u'') ''https://p/i''\<rparr>"
  have h: "pv_pending ?svc = mem_ops id" "rc_interaction (pt_resource_claims sample_context) = None"
    "audience_is_person_server id sample_context"
    "mint_person_auth (pv_config ?svc) (pv_minter ?svc) ''u'' (rc_scope (pt_resource_claims sample_context))
       (pt_agent_claims sample_context) = Ok sample_body"
    "ev_now sample_env \<le> ev_now sample_env + psc_pending_ttl_secs (pv_config ?svc)"
    "fr_bytes sample_front (sample_post\<lparr>rq_headers := [], rq_body := []\<rparr>) = Ok []"
    by (simp_all add: sample_service_facts) (simp_all add: sample_context_def sample_resource_def
        audience_is_person_server_def sample_env_def sample_service_def sample_config_def sample_front_def)
  show ?thesis
    using deferred_consent_unsigned [OF h(1) _ h(2-6), where buf = "[1]" and url = "''https://p/i''" and jwt = "''agent''" and s = mem_new]
    by auto
qed

end
