(* ===== verification/Person_Runs.thy ===== *)
theory Person_Runs
  imports Routes
begin

text \<open>
  The Person Server as a whole: its router (\<^verbatim>\<open>person_router\<close> in
  \<^verbatim>\<open>aauth-axum/src/person/routes.rs\<close>) and the runs of a server that starts with an empty
  in-memory store and serves any requests in any order. Between two requests everything but
  the store may change: the clock, the random bytes, the policy's mind, what the network
  answers. The invariants hold in every reachable store.
\<close>

section \<open>What no operation on a pending request changes\<close>

text \<open>
  The request a record was made for: the agent token and the token request's context. An
  interaction callback drops the resource's interaction from the claims; \<open>bare\<close> does too.
\<close>

definition bare :: "person_token_context \<Rightarrow> person_token_context" where
  "bare ctx = ctx\<lparr>pt_resource_claims := (pt_resource_claims ctx)\<lparr>rc_interaction := None\<rparr>\<rparr>"

definition request_of :: "person_pending_context \<Rightarrow> string \<times> person_token_context" where
  "request_of c = (pp_agent_token c, bare (context_of c (pp_resource_claims c)))"

text \<open>The code a record still answers to never comes back.\<close>

definition continues :: "person_pending_context pending_record \<Rightarrow> person_pending_context pending_record \<Rightarrow> bool" where
  "continues r r' \<longleftrightarrow> same_identity r r' \<and>
     request_of (pr_context r') = request_of (pr_context r) \<and>
     (\<forall>code. code_matches code r' \<longrightarrow> code_matches code r)"

definition follows ::
    "(string \<rightharpoonup> person_pending_context pending_record) \<Rightarrow>
     (string \<rightharpoonup> person_pending_context pending_record) \<Rightarrow> bool" where
  "follows m m' \<longleftrightarrow> (\<forall>i r'. m' i = Some r' \<longrightarrow> (\<exists>r. m i = Some r \<and> continues r r'))"

lemma bare_simps [simp]:
  "bare (ctx\<lparr>pt_resource_claims := (pt_resource_claims ctx)\<lparr>rc_interaction := None\<rparr>\<rparr>) = bare ctx"
  "bare (context_of c (claims\<lparr>rc_interaction := None\<rparr>)) = bare (context_of c claims)"
  by (simp_all add: bare_def context_of_def)

lemma request_of_pending [simp]:
  "request_of (person_pending_from ctx jwt fed ix code) = (jwt, bare ctx)"
  by (cases ctx) (simp add: request_of_def person_pending_from_def context_of_def)

lemma request_of_updates [simp]:
  "request_of (c\<lparr>federation := fed\<rparr>) = request_of c"
  "request_of (c\<lparr>interaction_code_consumed := b\<rparr>) = request_of c"
  by (simp_all add: request_of_def context_of_def)

lemma continues_refl [simp]: "continues r r"
  by (simp add: continues_def same_identity_def)

lemma continues_snapshot [simp]: "continues r (set_snapshot snap r)" "continues r (r\<lparr>pr_snapshot := snap\<rparr>)"
  by (simp_all add: continues_def same_identity_def set_snapshot_def code_matches_def)

lemma continues_consumed: "continues r (consume_code r)"
  by (simp add: continues_def same_identity_def consume_code_def code_matches_def)

lemma continues_federation:
  "continues r (r\<lparr>pr_snapshot := snap, pr_context := (pr_context r)\<lparr>federation := fed\<rparr>\<rparr>)"
  by (simp add: continues_def same_identity_def code_matches_def)

lemma continues_deferred:
  "(jwt, bare ctx) = request_of (pr_context r) \<Longrightarrow>
     continues r (r\<lparr>pr_context := person_pending_from ctx jwt fed None None, pr_snapshot := snap\<rparr>)"
  by (simp add: continues_def same_identity_def code_matches_def)
    (simp add: person_pending_from_def)

lemma follows_refl [simp]: "follows m m"
  by (simp add: follows_def)

lemma follows_update: "m i = Some r \<Longrightarrow> continues r r' \<Longrightarrow> follows m (m(i \<mapsto> r'))"
  by (simp add: follows_def)

lemma follows_remove [simp]: "follows m (m(i := None))"
  by (simp add: follows_def)

lemma follows_complete [simp]: "follows m (complete_at i out m)"
  by (auto simp: complete_at_def follows_def split: option.split)

section \<open>Every operation on a pending request keeps it\<close>

context person_store
begin

abbreviation kept :: "(string \<rightharpoonup> person_pending_context pending_record) \<Rightarrow> 's \<Rightarrow> bool" where
  "kept m s' \<equiv> ok s' \<and> follows m (look s')"

lemma remove_kept: "ok s \<Longrightarrow> run_sat (op_remove ops i) s (\<lambda>_. kept (look s))"
  by (rule remove_sat) simp_all

lemma save_kept:
  "\<lbrakk>ok s; look s i = Some r; continues r r'\<rbrakk> \<Longrightarrow> run_sat (op_save ops i r') s (\<lambda>_. kept (look s))"
  by (rule save_sat) (simp_all add: follows_update)

lemma complete_with_kept: "ok s \<Longrightarrow> run_sat (complete_with svc i out res) s (\<lambda>_. kept (look s))"
  unfolding complete_with_def sat_simps uses_store by (rule complete_sat) (simp_all add: sat_simps)

lemma reload_kept:
  assumes "ok s" "\<And>r. look s i = Some r \<Longrightarrow> continues r (f r)"
  shows "run_sat (seq (store_op (op_load ops i)) (\<lambda>found. case found of
        None \<Rightarrow> ret PF_Gone
      | Some r \<Rightarrow> seq (store_op (op_save ops i (f r))) (\<lambda>_. ret out))) s (\<lambda>_. kept (look s))"
  unfolding sat_simps
proof (rule load_sat [OF assms(1)], goal_cases)
  case (1 s1)
  have "run_sat (op_save ops i (f r)) s1 (\<lambda>_. kept (look s))" if "look s i = Some r" for r
    using save_kept [OF 1(1), of i r "f r"] 1 that assms(2) by simp
  then show ?case using 1
    by (auto simp: sat_simps split: option.split elim: sat_mono)
qed simp

lemma apply_pending_kept:
  assumes "ok s" "look s i = Some r" "(jwt, bare ctx) = request_of (pr_context r)"
  shows "run_sat (apply_person_pending_decision ev svc ctx i decision jwt) s (\<lambda>_. kept (look s))"
proof -
  have deferred: "run_sat (update_person_pending_defer svc i q) s (\<lambda>_. kept (look s))" for q
    unfolding update_person_pending_defer_def uses_store by (rule reload_kept [OF assms(1)]) simp
  have federate: "run_sat (create_federated_deferred_response ev svc ctx (Some i) q fed jwt) s
      (\<lambda>_. kept (look s))" for q fed
    unfolding create_federated_deferred_response_def Let_def uses_store option.case if_P [OF option.distinct(2)]
    by (rule reload_kept [OF assms(1)], rule continues_deferred) (use assms in simp)
  show ?thesis
    unfolding apply_person_pending_decision_def
    using assms(1) deferred federate complete_with_kept [OF assms(1)]
    by (auto simp: sat_simps split: person_token_decision.split sum.split federation_outcome.split)
qed

lemma federated_kept:
  assumes "ok s"
  shows "run_sat (handle_federated_pending_post ev svc i fed jwt url input) s (\<lambda>_. kept (look s))"
proof -
  have save: "run_sat (seq (store_op (op_load ops i)) (\<lambda>found. case found of
        None \<Rightarrow> ret PF_Gone
      | Some r \<Rightarrow> seq (store_op (op_save ops i
          (r\<lparr>pr_snapshot := snap, pr_context := (pr_context r)\<lparr>federation := fed'\<rparr>\<rparr>))) (\<lambda>_. ret out))) s
      (\<lambda>_. kept (look s))" for snap fed' out
    by (rule reload_kept [OF assms]) (rule continues_federation)
  have gone: "run_sat (seq (ignore (op_remove ops i)) (\<lambda>_. ret PF_Gone)) s (\<lambda>_. kept (look s))"
    using remove_kept [OF assms] by (simp add: sat_simps)
  show ?thesis
    unfolding handle_federated_pending_post_def Let_def uses_store
    using assms save gone complete_with_kept [OF assms]
    by (auto simp: sat_simps(1) split: sum.split option.split server_poll_outcome.split)
qed

lemma with_live_kept:
  assumes "ok s"
    and "\<And>r s1. ok s1 \<Longrightarrow> look s1 = look s \<Longrightarrow> look s i = Some r \<Longrightarrow> run_sat (k r) s1 (\<lambda>_. kept (look s))"
  shows "run_sat (with_live_record ev svc i k) s (\<lambda>_. kept (look s))"
  unfolding with_live_record_def sat_simps uses_store
proof (rule load_sat [OF assms(1)], goal_cases)
  case (1 s1)
  then show ?case
    using assms(2) [OF 1] remove_kept [OF 1(1), of i]
    by (cases "look s i") (auto simp: sat_simps)
qed simp

lemma resume_kept:
  assumes "ok s"
  shows "run_sat (person_resume_pending ev svc i input) s (\<lambda>_. kept (look s))"
  unfolding person_resume_pending_def Let_def
proof (rule with_live_kept [OF assms])
  fix r s1
  assume h: "ok s1" "look s1 = look s" "look s i = Some r"
  note a = apply_pending_kept [OF h(1), of i r "pp_agent_token (pr_context r)"
      "context_of (pr_context r) (pp_resource_claims (pr_context r))"]
  show "run_sat (case federation (pr_context r) of
        None \<Rightarrow> seq (lift_res (map_err PSE_Policy (pol_resume (pv_policy svc)
              (context_of (pr_context r) (pp_resource_claims (pr_context r))) input)))
            (\<lambda>decision. apply_person_pending_decision ev svc
              (context_of (pr_context r) (pp_resource_claims (pr_context r))) i decision (pp_agent_token (pr_context r)))
      | Some fed \<Rightarrow> handle_federated_pending_post ev svc i fed (pp_agent_token (pr_context r))
            (psc_resource_url (pv_config svc)) input) s1 (\<lambda>_. kept (look s))"
    using a federated_kept [OF h(1)] h
    by (auto simp: sat_simps request_of_def split: option.split)
qed

lemma callback_kept:
  assumes "ok s"
  shows "run_sat (resolve_interaction_callback ev svc i e) s (\<lambda>_. kept (look s))"
  unfolding resolve_interaction_callback_def Let_def
proof (rule with_live_kept [OF assms])
  fix r s1
  assume h: "ok s1" "look s1 = look s" "look s i = Some r"
  let ?ctx = "context_of (pr_context r) ((pp_resource_claims (pr_context r))\<lparr>rc_interaction := None\<rparr>)"
  note a = apply_pending_kept [OF h(1), of i r "pp_agent_token (pr_context r)" ?ctx]
  show "run_sat (case e of
        None \<Rightarrow> if federation (pr_context r) \<noteq> None then ret PF_BadGateway
          else seq (lift_res (map_err PSE_Policy (pol_evaluate (pv_policy svc) ?ctx)))
            (\<lambda>decision. apply_person_pending_decision ev svc ?ctx i decision (pp_agent_token (pr_context r)))
      | Some err \<Rightarrow> complete_with svc i (PO_Error (map_interaction_callback_error err))
          (PF_Denied (map_interaction_callback_error err))) s1 (\<lambda>_. kept (look s))"
    using a complete_with_kept [OF h(1)] h
    by (auto simp: sat_simps request_of_def split: option.split)
qed

lemma poll_kept:
  assumes "ok s"
  shows "run_sat (person_poll_pending ev svc i) s (\<lambda>_. kept (look s))"
  unfolding person_poll_pending_def poll_auth_pending_def sat_simps uses_store
proof (rule load_sat [OF assms], goal_cases)
  case (1 s1)
  then show ?case
    using remove_kept [OF 1(1), of i] by (cases "look s i") (auto simp: sat_simps)
qed simp

end

section \<open>A new request\<close>

text \<open>
  The record a token request creates, whatever the decision: it is stored under the new id
  with the deadline of the configuration, and it answers to a code only when the resource
  token asks for an interaction, and then to the code drawn for this request.
\<close>

definition made_for ::
    "env \<Rightarrow> person_server_config \<Rightarrow> person_token_context \<Rightarrow> string \<Rightarrow>
     person_pending_context pending_record \<Rightarrow> bool" where
  "made_for ev cfg ctx jwt r \<longleftrightarrow>
     pr_id r = generate_pending_id (ev_id_bytes ev) \<and>
     created_at r = ev_now ev \<and> expires_at r = ev_now ev + psc_pending_ttl_secs cfg \<and>
     request_of (pr_context r) = (jwt, bare ctx)"

definition creates ::
    "env \<Rightarrow> person_server_config \<Rightarrow> person_token_context \<Rightarrow> string \<Rightarrow>
     (string \<rightharpoonup> person_pending_context pending_record) \<Rightarrow>
     (string \<rightharpoonup> person_pending_context pending_record) \<Rightarrow> bool" where
  "creates ev cfg ctx jwt m m' \<longleftrightarrow> m' = m \<or>
     (\<exists>r. m' = m(pr_id r \<mapsto> r) \<and> made_for ev cfg ctx jwt r \<and>
        (\<forall>code. code_matches code r \<longrightarrow>
           rc_interaction (pt_resource_claims ctx) \<noteq> None \<and> code = generate_code (ev_code_bytes ev)))"

text \<open>The code that goes into a new record.\<close>

definition drawn_code :: "env \<Rightarrow> person_token_context \<Rightarrow> string option \<Rightarrow> bool" where
  "drawn_code ev ctx code \<longleftrightarrow>
     code = None \<or> rc_interaction (pt_resource_claims ctx) \<noteq> None \<and> code = Some (generate_code (ev_code_bytes ev))"

lemma creates_same [simp]: "creates ev cfg ctx jwt m m"
  by (simp add: creates_def)

lemma creates_record:
  assumes "drawn_code ev ctx code"
  shows "creates ev cfg ctx jwt m (m(generate_pending_id (ev_id_bytes ev) \<mapsto>
      pending_record_new (ev_now ev) (generate_pending_id (ev_id_bytes ev))
        (person_pending_from ctx jwt fed ix code) snap (psc_pending_ttl_secs cfg)))"
proof -
  let ?r = "pending_record_new (ev_now ev) (generate_pending_id (ev_id_bytes ev))
    (person_pending_from ctx jwt fed ix code) snap (psc_pending_ttl_secs cfg)"
  have "made_for ev cfg ctx jwt ?r"
    by (simp add: made_for_def pending_record_new_def)
  moreover have "code_matches c ?r \<Longrightarrow>
      rc_interaction (pt_resource_claims ctx) \<noteq> None \<and> c = generate_code (ev_code_bytes ev)" for c
    using assms by (auto simp: code_matches_def drawn_code_def pending_record_new_def person_pending_from_def)
  moreover have "pr_id ?r = generate_pending_id (ev_id_bytes ev)" by (simp add: pending_record_new_def)
  ultimately show ?thesis unfolding creates_def by metis
qed

context person_store
begin

abbreviation created_by ::
    "env \<Rightarrow> person_token_context \<Rightarrow> string \<Rightarrow> (string \<rightharpoonup> person_pending_context pending_record) \<Rightarrow> 's \<Rightarrow> bool" where
  "created_by ev ctx jwt m s' \<equiv> ok s' \<and> creates ev (pv_config svc) ctx jwt m (look s')"

lemma create_created:
  assumes "ok s" "drawn_code ev ctx code"
  shows "run_sat (op_create ops (pending_record_new (ev_now ev) (generate_pending_id (ev_id_bytes ev))
      (person_pending_from ctx jwt fed ix code) snap (psc_pending_ttl_secs (pv_config svc)))) s
    (\<lambda>_. created_by ev ctx jwt (look s))"
  by (rule create_sat [OF assms(1)])
    (use creates_record [OF assms(2)] in \<open>auto simp: pending_record_new_def\<close>)

lemma exchange_created:
  assumes "ok s"
  shows "run_sat (person_exchange_token ev svc ctx jwt) s (\<lambda>_. created_by ev ctx jwt (look s))"
proof -
  note new = create_created [OF assms, where ev = ev and ctx = ctx and jwt = jwt]
  have deferred: "run_sat (create_deferred_person_response ev svc ctx q jwt) s (\<lambda>_. created_by ev ctx jwt (look s))" for q
    by (auto simp: create_deferred_person_response_def Let_def sat_simps uses_store drawn_code_def intro!: sat_mono [OF new])
  have federate: "run_sat (create_federated_deferred_response ev svc ctx None q fed jwt) s
      (\<lambda>_. created_by ev ctx jwt (look s))" for q fed
    by (auto simp: create_federated_deferred_response_def Let_def sat_simps uses_store drawn_code_def intro!: sat_mono [OF new])
  have applied: "run_sat (apply_person_decision ev svc ctx d jwt) s (\<lambda>_. created_by ev ctx jwt (look s))" for d
    unfolding apply_person_decision_def using assms deferred federate
    by (auto simp: sat_simps split: person_token_decision.split sum.split federation_outcome.split)
  have initiate: "run_sat (create_resource_initiated_deferred_response ev svc ctx jwt) s
      (\<lambda>_. created_by ev ctx jwt (look s))"
    using assms
    by (auto simp: create_resource_initiated_deferred_response_def Let_def sat_simps uses_store
        canonical_generated drawn_code_def intro!: sat_mono [OF new] elim: ok_or.elims)
  show ?thesis
    unfolding person_exchange_token_def using assms applied initiate by (simp add: sat_simps)
qed

end


context person_store
begin

lemma begin_kept:
  assumes "ok s" "begin_interaction ev svc code = Some act"
  shows "run_sat act s (\<lambda>_. kept (look s))"
proof -
  obtain canonical where c: "canonicalize_code (ev_up ev) code = Some canonical"
    using assms(2) by (auto simp: begin_interaction_def)
  show ?thesis
    using assms(2)
    unfolding begin_interaction_def c option.map option.inject uses_store
  proof (elim subst [of _ act], unfold sat_simps, goal_cases)
    case 1
    show ?case
    proof (rule find_sat [OF assms(1)], goal_cases)
      case (2 i r s1)
      have "run_sat (op_save ops i (consume_code r)) s1 (\<lambda>_. kept (look s))"
        using save_kept [OF 2(1) _ continues_consumed, of i r] 2 by simp
      then show ?case
        using 2 remove_kept [OF 2(1), of i]
        by (auto simp: sat_simps Let_def split: option.split pending_snapshot.split elim!: sat_mono)
    qed (simp_all add: sat_simps)
  qed
qed

end

section \<open>The router (\<^verbatim>\<open>person_router\<close>)\<close>

text \<open>One constructor per route; \<open>person_serve\<close> is the route's handler.\<close>

datatype person_call =
    Call_Metadata
  | Call_Token request
  | Call_Poll string
  | Call_Post string request
  | Call_Interact string
  | Call_Callback string "string option"

definition person_serve ::
    "('p, 'g) front \<Rightarrow> env \<Rightarrow> ('key, 's, 'e) person_service \<Rightarrow> person_call \<Rightarrow> 's \<Rightarrow> response option \<times> 's" where
  "person_serve F ev svc c s =
     (case c of
        Call_Metadata \<Rightarrow> (Some (person_metadata_handler F (pv_config svc)), s)
      | Call_Token rq \<Rightarrow> token_exchange_handler F ev svc rq s
      | Call_Poll i \<Rightarrow> pending_poll_handler F ev svc i s
      | Call_Post i rq \<Rightarrow> pending_post_handler F ev svc i rq s
      | Call_Interact code \<Rightarrow> interaction_start_handler F ev svc code s
      | Call_Callback i err \<Rightarrow> interaction_callback_handler F ev svc i err s)"

text \<open>
  An event of a run: the request, the surroundings and the service that met it, and the reply.
\<close>

record ('key, 'e) event =
  at_env :: env
  by_service :: "('key, person_pending_context mem_store, 'e) person_service"
  e_call :: person_call
  e_reply :: "response option"

inductive person_run ::
    "('p, 'g) front \<Rightarrow> 'key jwt_lib \<Rightarrow>
     ((string \<times> person_pending_context pending_record) list \<Rightarrow> (string \<times> person_pending_context pending_record) list) \<Rightarrow>
     ('key, 'e) event list \<Rightarrow> person_pending_context mem_store \<Rightarrow> bool"
  for F L iter where
  started: "person_run F L iter [] mem_new"
| served: "\<lbrakk>person_run F L iter tr s; pv_lib (by_service e) = L; pv_pending (by_service e) = mem_ops iter;
     person_serve F (at_env e) (by_service e) (e_call e) s = (e_reply e, s')\<rbrakk> \<Longrightarrow>
     person_run F L iter (e # tr) s'"

inductive_cases run_served: "person_run F L iter (e # tr) s'"

text \<open>
  \<open>processed\<close>: a token request that passes every check of the handler and reaches the service,
  with the agent token and the context the service then works on. \<open>admitted\<close>: what these
  checks have established (\<open>token_endpoint_guarded\<close>). The HTTP signature is by the key the
  agent token names as its own, and the resource token is signed by its issuer for that agent
  and key; the agent token itself is only parsed, its signature and its expiry are not
  looked at.
\<close>

definition processed ::
    "('p, 'g) front \<Rightarrow> env \<Rightarrow> ('key, 's, 'e) person_service \<Rightarrow> request \<Rightarrow> string \<Rightarrow> person_token_context \<Rightarrow> bool" where
  "processed F ev svc rq jwt ctx \<longleftrightarrow>
     (\<exists>v request. verify_post F (pv_lib svc) ev rq = Ok v \<and> vs_jwt v = Some jwt \<and>
        optional_json F de_token_exchange rq = Ok (Some request) \<and>
        verify_token_request (pv_lib svc) (ev_now ev) (pv_config svc) jwt (vs_thumbprint v)
          (tx_resource_token request) request = Ok ctx)"

definition admitted ::
    "('p, 'g) front \<Rightarrow> env \<Rightarrow> ('key, 's, 'e) person_service \<Rightarrow> request \<Rightarrow> string \<Rightarrow> person_token_context \<Rightarrow> bool" where
  "admitted F ev svc rq jwt ctx \<longleftrightarrow>
     (\<exists>v request.
        authentic (fr_http F) (ev_up ev) (ev_now ev) ''POST'' (host_authority (rq_headers rq)) (rq_path rq)
          (rq_headers rq) verify_options_default v \<and>
        vs_jwt v = Some jwt \<and>
        resolve_public_jwk (fr_http F) (vs_signature_key v) = Ok (vs_public_jwk v, Some jwt) \<and>
        httpsig_thumbprint (pv_lib svc) (vs_public_jwk v) = Ok (vs_thumbprint v) \<and>
        optional_json F de_token_exchange rq = Ok (Some request) \<and>
        token_request_trusted (pv_lib svc) (ev_now ev) (pv_config svc) jwt (vs_thumbprint v)
          (tx_resource_token request) request ctx)"

lemma processed_admitted:
  assumes "decode_agrees (pv_lib svc)" "processed F ev svc rq jwt ctx"
  shows "admitted F ev svc rq jwt ctx"
proof -
  obtain v request where h: "verify_post F (pv_lib svc) ev rq = Ok v" "vs_jwt v = Some jwt"
    "optional_json F de_token_exchange rq = Ok (Some request)"
    "verify_token_request (pv_lib svc) (ev_now ev) (pv_config svc) jwt (vs_thumbprint v)
       (tx_resource_token request) request = Ok ctx"
    using assms(2) by (auto simp: processed_def)
  show ?thesis
    unfolding admitted_def
    using verify_authentic [OF h(1) [unfolded verify_post_def]] h(2,3)
      verify_token_request_sound [OF assms(1) h(4)] by metis
qed

text \<open>What a request does to the store.\<close>

lemma processed_serves:
  "processed F ev svc rq jwt ctx \<Longrightarrow> token_exchange_handler F ev svc rq s =
     finish F (respond_person_flow (fr_json F)) (person_exchange_token ev svc ctx jwt s)"
  by (auto simp: processed_def token_exchange_handler_def)

lemma token_exchange_served:
  assumes "token_exchange_handler F ev svc rq s = (resp, s')"
  obtains "s' = s"
  | jwt ctx where "processed F ev svc rq jwt ctx" "snd (person_exchange_token ev svc ctx jwt s) = s'"
  using assms that
  by (auto simp: token_exchange_handler_def reply_def finish_def processed_def
      split: sum.splits option.splits prod.splits)

lemma serve_store:
  assumes "mem_ok s" "enumerates iter" "pv_pending svc = mem_ops iter"
    and "person_serve F ev svc c s = (resp, s')"
  shows "mem_ok s' \<and> (follows (mem_look s) (mem_look s') \<or>
    (\<exists>rq jwt ctx. c = Call_Token rq \<and> processed F ev svc rq jwt ctx \<and>
       creates ev (pv_config svc) ctx jwt (mem_look s) (mem_look s')))"
proof -
  have svc: "svc\<lparr>pv_pending := mem_ops iter\<rparr> = svc" using assms(3) by simp
  have ok: "mem_ok s \<and> enumerates iter" using assms(1,2) ..
  note keep = sat_state [OF person_mem.poll_kept [OF ok, of ev svc, unfolded svc]]
    sat_state [OF person_mem.resume_kept [OF ok, of ev svc, unfolded svc]]
    sat_state [OF person_mem.callback_kept [OF ok, of ev svc, unfolded svc]]
  show ?thesis
  proof (cases c)
    case Call_Metadata
    then show ?thesis using assms by (simp add: person_serve_def)
  next
    case (Call_Token rq)
    then have t: "token_exchange_handler F ev svc rq s = (resp, s')" using assms(4) by (simp add: person_serve_def)
    show ?thesis
    proof (rule token_exchange_served [OF t])
      fix jwt ctx
      assume a: "processed F ev svc rq jwt ctx" "snd (person_exchange_token ev svc ctx jwt s) = s'"
      show ?thesis
        using sat_state [OF person_mem.exchange_created [OF ok, of ev svc, unfolded svc] a(2)] a(1) Call_Token
        by auto
    qed (use assms(1) in simp)
  next
    case (Call_Poll i)
    then show ?thesis using keep(1) assms(4) by (auto simp: person_serve_def pending_poll_handler_def dest!: finish_state)
  next
    case (Call_Post i rq)
    then show ?thesis using keep(2) assms(1,4)
      by (auto simp: person_serve_def pending_post_handler_def split: sum.splits dest!: finish_state)
  next
    case (Call_Interact code)
    then show ?thesis
      using assms(1,4) sat_state [OF person_mem.begin_kept [OF ok, of ev svc, unfolded svc]]
      by (auto simp: person_serve_def interaction_start_handler_def split: option.splits dest!: finish_state)
  next
    case (Call_Callback i err)
    then show ?thesis using keep(3) assms(4)
      by (auto simp: person_serve_def interaction_callback_handler_def dest!: finish_state)
  qed
qed

section \<open>Where every record comes from\<close>

text \<open>\<open>requested F e i r\<close>: the event \<open>e\<close> is the admitted token request that the record was made for.\<close>

definition requested ::
    "('p, 'g) front \<Rightarrow> ('key, 'e) event \<Rightarrow> string \<Rightarrow> person_pending_context pending_record \<Rightarrow> bool" where
  "requested F e i r \<longleftrightarrow> pr_id r = i \<and>
     (\<exists>rq jwt ctx. e_call e = Call_Token rq \<and> admitted F (at_env e) (by_service e) rq jwt ctx \<and>
        made_for (at_env e) (pv_config (by_service e)) ctx jwt r)"

lemma requested_continues: "requested F e i r \<Longrightarrow> continues r r' \<Longrightarrow> requested F e i r'"
  unfolding requested_def made_for_def continues_def same_identity_def by metis

lemma run_records:
  assumes "person_run F L iter tr s" "decode_agrees L" "enumerates iter"
  shows "mem_ok s \<and> (\<forall>i r. mem_look s i = Some r \<longrightarrow> (\<exists>e\<in>set tr. requested F e i r))"
  using assms(1)
proof induction
  case started
  show ?case by (simp add: mem_new_def mem_ok_def mem_look_def)
next
  case (served tr s e s')
  have step: "mem_ok s'" "follows (mem_look s) (mem_look s') \<or>
    (\<exists>rq jwt ctx. e_call e = Call_Token rq \<and> admitted F (at_env e) (by_service e) rq jwt ctx \<and>
       creates (at_env e) (pv_config (by_service e)) ctx jwt (mem_look s) (mem_look s'))"
    using serve_store [of s iter "by_service e" F "at_env e" "e_call e" "e_reply e" s'] served assms(2,3)
      processed_admitted [of "by_service e" F "at_env e"] by blast+
  have "\<exists>e'\<in>set (e # tr). requested F e' i r" if r: "mem_look s' i = Some r" for i r
    using step(2)
  proof (elim disjE exE conjE)
    assume "follows (mem_look s) (mem_look s')"
    then obtain r0 where "mem_look s i = Some r0" "continues r0 r" using r by (auto simp: follows_def)
    then show ?thesis using served.IH requested_continues [of F _ i r0 r] by (meson list.set_intros(2))
  next
    fix rq jwt ctx
    assume n: "e_call e = Call_Token rq" "admitted F (at_env e) (by_service e) rq jwt ctx"
      "creates (at_env e) (pv_config (by_service e)) ctx jwt (mem_look s) (mem_look s')"
    consider "mem_look s i = Some r" | "pr_id r = i" "made_for (at_env e) (pv_config (by_service e)) ctx jwt r"
      using n(3) r by (auto simp: creates_def split: if_splits)
    then show ?thesis
    proof cases
      case 1
      then show ?thesis using served.IH by (meson list.set_intros(2))
    next
      case 2
      then have "requested F e i r" using n(1,2) unfolding requested_def by blast
      then show ?thesis by simp
    qed
  qed
  with step(1) show ?case by blast
qed

lemma run_lib: "person_run F L iter tr s \<Longrightarrow> e \<in> set tr \<Longrightarrow> pv_lib (by_service e) = L"
  by (induction rule: person_run.induct) auto

lemmas run_ok = run_records [THEN conjunct1]
lemmas run_requested = run_records [THEN conjunct2, rule_format]

text \<open>
  C9: where every pending request comes from. In every store the server can reach from its
  start, under any sequence of requests to any of its endpoints and whatever its policy, its
  clock and the network do in between, each record stems from one earlier token request of
  the run. That request bore a current HTTP signature over its method, authority, path and
  key header by the key its agent token names as its own, and its resource token was signed by
  its issuer for the agent and the very key of that agent token. The record still is filed
  under the id drawn then, with the agent token, claims and deadline of that request, however
  often it was resumed, federated or called back. The agent token is only parsed: neither its
  signature nor its expiry is established.
\<close>
theorem stored_requests_verified:
  assumes "person_run F L iter tr s" and "decode_agrees L" and "enumerates iter"
    and "mem_look s i = Some r"
  shows "\<exists>e\<in>set tr. \<exists>rq jwt v request ctx. e_call e = Call_Token rq \<and>
    authentic (fr_http F) (ev_up (at_env e)) (ev_now (at_env e)) ''POST'' (host_authority (rq_headers rq))
      (rq_path rq) (rq_headers rq) verify_options_default v \<and>
    resolve_public_jwk (fr_http F) (vs_signature_key v) = Ok (vs_public_jwk v, Some jwt) \<and>
    httpsig_thumbprint L (vs_public_jwk v) = Ok (vs_thumbprint v) \<and>
    parse_token L jwt = Ok (PT_Agent (pt_agent_claims ctx)) \<and>
    optional_json F de_token_exchange rq = Ok (Some request) \<and> pt_exchange_request ctx = request \<and>
    signed_by_issuer L (psc_fetcher (pv_config (by_service e))) (ev_now (at_env e)) (tx_resource_token request)
      (PT_Resource (pt_resource_claims ctx)) \<and>
    rc_agent (pt_resource_claims ctx) = ag_sub (pt_agent_claims ctx) \<and>
    rc_agent_jkt (pt_resource_claims ctx) = vs_thumbprint v \<and>
    pr_id r = i \<and> i = generate_pending_id (ev_id_bytes (at_env e)) \<and>
    created_at r = ev_now (at_env e) \<and>
    expires_at r = ev_now (at_env e) + psc_pending_ttl_secs (pv_config (by_service e)) \<and>
    request_of (pr_context r) = (jwt, bare ctx)"
proof -
  obtain e rq jwt ctx where e: "e \<in> set tr" "e_call e = Call_Token rq" "pr_id r = i"
    "admitted F (at_env e) (by_service e) rq jwt ctx" "made_for (at_env e) (pv_config (by_service e)) ctx jwt r"
    using run_requested [OF assms] unfolding requested_def by blast
  have l: "pv_lib (by_service e) = L" by (rule run_lib [OF assms(1) e(1)])
  from e(4) show ?thesis
    unfolding admitted_def token_request_trusted_def l
    using e(1-3) e(5) [unfolded made_for_def] by blast
qed

section \<open>Who is answered\<close>

text \<open>The calls that may answer for a pending request.\<close>

fun answers_for :: "person_call \<Rightarrow> string option" where
  "answers_for (Call_Poll i) = Some i"
| "answers_for (Call_Post i _) = Some i"
| "answers_for (Call_Callback i _) = Some i"
| "answers_for _ = None"

lemma granted_status:
  "respond_person_flow sj out = Some resp \<Longrightarrow> rs_status resp = 200 \<Longrightarrow> \<exists>body. out = PF_Granted body"
  by (auto simp: respond_person_flow_def respond_flow_def status_response_def json_response_def
      split: person_token_flow_outcome.splits dest: created_status)

lemma live_record:
  assumes "pv_pending svc = mem_ops iter" "with_live_record ev svc i k s = (Ok (PF_Granted body), s')"
  shows "\<exists>r. mem_look s i = Some r \<and> \<not> is_expired (ev_now ev) r"
  using assms by (auto simp: with_live_record_def run_Ok mem_run split: option.splits if_splits)

lemma poll_live:
  assumes "pv_pending svc = mem_ops iter" "person_poll_pending ev svc i s = (Ok out, s')" "out \<noteq> AP_Gone"
  shows "\<exists>r. mem_look s i = Some r \<and> \<not> is_expired (ev_now ev) r"
  using assms
  by (auto simp: person_poll_pending_def poll_auth_pending_def run_Ok mem_run split: option.splits if_splits)

lemma answered_live:
  assumes "pv_pending svc = mem_ops iter" "person_serve F ev svc c s = (Some resp, s')"
    and "answers_for c = Some i" "rs_status resp = 200"
  shows "\<exists>r. mem_look s i = Some r \<and> \<not> is_expired (ev_now ev) r"
proof (cases c)
  case (Call_Poll j)
  then have "finish F (respond_poll (fr_json F)) (person_poll_pending ev svc i s) = (Some resp, s')"
    using assms(2,3) by (simp add: person_serve_def pending_poll_handler_def)
  then obtain out where o: "person_poll_pending ev svc i s = (Ok out, s')" "respond_poll (fr_json F) out = Some resp"
    by (rule finish_200 [OF _ assms(4)])
  moreover have "out \<noteq> AP_Gone" using o(2) assms(4) by (auto simp: respond_poll_def status_response_def)
  ultimately show ?thesis using poll_live [OF assms(1)] by blast
next
  case (Call_Post j rq)
  then have "\<exists>input. finish F (respond_person_flow (fr_json F)) (person_resume_pending ev svc i input s) = (Some resp, s')"
    using assms(2-4)
    by (auto simp: person_serve_def pending_post_handler_def posted_input_def pending_resume_input_def
        invalid_request_response_def json_response_def map_err_cases split: sum.splits option.splits)
  then obtain input out where o: "person_resume_pending ev svc i input s = (Ok out, s')"
    "respond_person_flow (fr_json F) out = Some resp"
    using finish_200 [OF _ assms(4)] by metis
  then show ?thesis
    using granted_status [OF o(2) assms(4)] live_record [OF assms(1)]
    unfolding person_resume_pending_def by blast
next
  case (Call_Callback j err)
  then have "finish F (respond_person_flow (fr_json F)) (resolve_interaction_callback ev svc i err s) = (Some resp, s')"
    using assms(2,3) by (simp add: person_serve_def interaction_callback_handler_def)
  then obtain out where o: "resolve_interaction_callback ev svc i err s = (Ok out, s')"
    "respond_person_flow (fr_json F) out = Some resp"
    by (rule finish_200 [OF _ assms(4)])
  then show ?thesis
    using granted_status [OF o(2) assms(4)] live_record [OF assms(1)]
    unfolding resolve_interaction_callback_def by blast
qed (use assms(3) in auto)

text \<open>
  C16: a token is only handed out for a request that was admitted. Whenever a pending URL is
  polled or posted to, or the interaction callback is called, and the answer is a success,
  some earlier token request of the run drew that id, its HTTP signature and its resource
  token were verified (\<open>admitted\<close>; the agent token is only parsed), and its deadline has not
  passed.
\<close>
theorem success_needs_verified_request:
  assumes "person_run F L iter (e # tr) s" and "decode_agrees L" and "enumerates iter"
    and "answers_for (e_call e) = Some i" and "e_reply e = Some resp" and "rs_status resp = 200"
  shows "\<exists>e'\<in>set tr. \<exists>rq jwt ctx. e_call e' = Call_Token rq \<and>
    admitted F (at_env e') (by_service e') rq jwt ctx \<and>
    i = generate_pending_id (ev_id_bytes (at_env e')) \<and>
    ev_now (at_env e) \<le> ev_now (at_env e') + psc_pending_ttl_secs (pv_config (by_service e'))"
proof -
  obtain s0 where r: "person_run F L iter tr s0" "pv_pending (by_service e) = mem_ops iter"
    "person_serve F (at_env e) (by_service e) (e_call e) s0 = (Some resp, s)"
    using run_served [OF assms(1)] assms(5) by metis
  obtain r where l: "mem_look s0 i = Some r" "\<not> is_expired (ev_now (at_env e)) r"
    using answered_live [OF r(2,3) assms(4,6)] by blast
  from run_requested [OF r(1) assms(2,3) l(1)] l(2) show ?thesis
    unfolding requested_def made_for_def is_expired_def not_less by metis
qed


section \<open>How often a code is used\<close>

text \<open>
  \<open>redeems c e\<close>: a code that folds to \<open>c\<close> is typed and accepted (a redirect or the waiting
  page). \<open>issues F c e\<close>: a token request that passes the handler's checks and whose resource
  token asks for an interaction, so that the server draws a code for it, and the code is \<open>c\<close>;
  a record that answers to \<open>c\<close> is then stored (\<open>issued_opens\<close>). Requests that are granted,
  denied, deferred or federated by the policy draw no code and do not count.
\<close>

definition redeems :: "string \<Rightarrow> ('key, 'e) event \<Rightarrow> bool" where
  "redeems c e \<longleftrightarrow>
     (\<exists>code resp. e_call e = Call_Interact code \<and> canonicalize_code (ev_up (at_env e)) code = Some c \<and>
        e_reply e = Some resp \<and> rs_status resp \<in> {200, 302})"

definition issues :: "('p, 'g) front \<Rightarrow> string \<Rightarrow> ('key, 'e) event \<Rightarrow> bool" where
  "issues F c e \<longleftrightarrow>
     (\<exists>rq jwt ctx. e_call e = Call_Token rq \<and> processed F (at_env e) (by_service e) rq jwt ctx \<and>
        rc_interaction (pt_resource_claims ctx) \<noteq> None \<and> generate_code (ev_code_bytes (at_env e)) = c)"

definition open_ids :: "string \<Rightarrow> person_pending_context mem_store \<Rightarrow> string set" where
  "open_ids c s = {i. \<exists>r. mem_look s i = Some r \<and> code_matches c r}"

lemma finite_open_ids: "finite (open_ids c s)"
  by (rule finite_subset [OF _ finite_dom_map_of [of "inner s"]]) (auto simp: open_ids_def mem_look_def)

lemma open_ids_follows: "follows (mem_look s) (mem_look s') \<Longrightarrow> open_ids c s' \<subseteq> open_ids c s"
  unfolding open_ids_def follows_def continues_def by blast

lemma open_ids_creates:
  "creates ev cfg ctx jwt (mem_look s) (mem_look s') \<Longrightarrow>
     \<exists>i. open_ids c s' \<subseteq>
       (if rc_interaction (pt_resource_claims ctx) \<noteq> None \<and> generate_code (ev_code_bytes ev) = c
        then insert i (open_ids c s) else open_ids c s)"
  by (auto simp: creates_def open_ids_def split: if_splits)

lemma issued_opens:
  assumes "pv_pending (by_service e) = mem_ops iter" "issues F c e"
    and "person_serve F (at_env e) (by_service e) (e_call e) s = (resp, s')"
  shows "generate_pending_id (ev_id_bytes (at_env e)) \<in> open_ids c s'"
proof -
  obtain rq jwt ctx ix where h: "e_call e = Call_Token rq" "processed F (at_env e) (by_service e) rq jwt ctx"
    "rc_interaction (pt_resource_claims ctx) = Some ix" "generate_code (ev_code_bytes (at_env e)) = c"
    using assms(2) by (auto simp: issues_def)
  show ?thesis
    using assms(3) initiated_run [OF assms(1) h(3) refl, where s = s and jwt = jwt and ev = "at_env e"]
    by (auto simp: person_serve_def h(1,4) processed_serves [OF h(2)] finish_def open_ids_def mem_insert_look
        initiated_record_def pending_record_new_def person_pending_from_def code_matches_def)
qed

lemma begin_opens:
  assumes "mem_ok s" "enumerates iter" "pv_pending svc = mem_ops iter"
    and "begin_interaction ev svc code = Some act" "act s = (Ok out, s')"
    and "out \<notin> {PIO_InvalidCode, PIO_Expired}" "canonicalize_code (ev_up ev) code = Some c"
  obtains i r where "mem_look s i = Some r" "code_matches c r" "mem_look s' = (mem_look s)(i \<mapsto> consume_code r)"
proof -
  have "\<exists>i r. List.find (\<lambda>(_, r). code_matches c r) (iter (inner s)) = Some (i, r) \<and>
      mem_look s' = (mem_look s)(i \<mapsto> consume_code r)"
    using assms(4-7)
    by (auto simp: begin_interaction_def run_Ok mem_run assms(3) Let_def mem_insert_look
        split: option.splits if_splits pending_snapshot.splits)
  then obtain i r where f: "List.find (\<lambda>(_, r). code_matches c r) (iter (inner s)) = Some (i, r)"
    "mem_look s' = (mem_look s)(i \<mapsto> consume_code r)" by blast
  from mem_find_spec [OF assms(2,1), of "code_matches c"] f(1)
  have "mem_look s i = Some r" "code_matches c r" by simp_all
  then show ?thesis using that f(2) by blast
qed

lemma redeemed_closes:
  assumes "mem_ok s" "enumerates iter" "pv_pending (by_service e) = mem_ops iter" "redeems c e"
    and "person_serve F (at_env e) (by_service e) (e_call e) s = (e_reply e, s')"
  shows "\<exists>i\<in>open_ids c s. open_ids c s' \<subseteq> open_ids c s - {i}"
proof -
  obtain code resp where h: "e_call e = Call_Interact code" "canonicalize_code (ev_up (at_env e)) code = Some c"
    "e_reply e = Some resp" "rs_status resp \<in> {200, 302}"
    using assms(4) by (auto simp: redeems_def)
  then obtain act where act: "begin_interaction (at_env e) (by_service e) code = Some act"
    "finish F (\<lambda>out. Some (respond_interaction (fr_json F) (fr_bad_header F) out)) (act s) = (Some resp, s')"
    using assms(5) by (auto simp: person_serve_def interaction_start_handler_def split: option.splits)
  then obtain out where o: "act s = (Ok out, s')" "respond_interaction (fr_json F) (fr_bad_header F) out = resp"
    using h(4) by (auto simp: finish_def internal_error_def json_response_def split: prod.splits sum.splits)
  have "out \<notin> {PIO_InvalidCode, PIO_Expired}"
    using o(2) h(4) by (auto simp: respond_interaction_def json_response_def polling_status_def pe_new_def)
  from begin_opens [OF assms(1-3) act(1) o(1) this h(2)] obtain i r where r:
    "mem_look s i = Some r" "code_matches c r" "mem_look s' = (mem_look s)(i \<mapsto> consume_code r)" .
  then have "open_ids c s' \<subseteq> open_ids c s - {i}"
    by (auto simp: open_ids_def consumed split: if_splits)
  moreover have "i \<in> open_ids c s" using r by (auto simp: open_ids_def)
  ultimately show ?thesis by blast
qed

lemma not_both: "redeems c e \<Longrightarrow> \<not> issues F c e"
  by (auto simp: redeems_def issues_def)

lemma open_ids_step:
  assumes "mem_ok s" "enumerates iter" "pv_pending (by_service e) = mem_ops iter"
    and "person_serve F (at_env e) (by_service e) (e_call e) s = (e_reply e, s')"
  shows "card (open_ids c s') + (if redeems c e then 1 else 0) \<le>
    card (open_ids c s) + (if issues F c e then 1 else 0)"
proof (cases "redeems c e")
  case True
  then obtain i where i: "i \<in> open_ids c s" "open_ids c s' \<subseteq> open_ids c s - {i}"
    using redeemed_closes [OF assms(1-3) _ assms(4)] by blast
  then have "card (open_ids c s') \<le> card (open_ids c s - {i})"
    by (intro card_mono finite_Diff finite_open_ids)
  also have "Suc \<dots> = card (open_ids c s)" by (rule card_Suc_Diff1 [OF finite_open_ids i(1)])
  finally show ?thesis using True by simp
next
  case False
  have "card (open_ids c s') \<le> card (open_ids c s) + (if issues F c e then 1 else 0)"
    using serve_store [OF assms]
  proof (elim conjE disjE exE)
    assume "follows (mem_look s) (mem_look s')"
    from card_mono [OF finite_open_ids open_ids_follows [OF this]] show ?thesis by (simp add: trans_le_add1)
  next
    fix rq jwt ctx
    assume n: "e_call e = Call_Token rq" "processed F (at_env e) (by_service e) rq jwt ctx"
      "creates (at_env e) (pv_config (by_service e)) ctx jwt (mem_look s) (mem_look s')"
    let ?drawn = "rc_interaction (pt_resource_claims ctx) \<noteq> None \<and> generate_code (ev_code_bytes (at_env e)) = c"
    obtain i where i: "open_ids c s' \<subseteq> (if ?drawn then insert i (open_ids c s) else open_ids c s)"
      using open_ids_creates [OF n(3)] by blast
    show ?thesis
    proof (cases ?drawn)
      case True
      then have "issues F c e" using n(1,2) unfolding issues_def by blast
      then show ?thesis
        using True card_mono [OF _ i] by (simp add: finite_open_ids card_insert_if split: if_splits)
    next
      case False
      then have "open_ids c s' \<subseteq> open_ids c s" using i by (simp only: if_False)
      from card_mono [OF finite_open_ids this] show ?thesis by simp
    qed
  qed
  with False show ?thesis by simp
qed

text \<open>
  C17: an interaction code works once. Over a whole run of the server, whoever types it and in
  whatever spelling, a code is accepted at most as often as it was issued, that is as the
  server drew it for an interaction a resource asked for, stored it and deferred the agent
  with it; issues whose record still waits for the code are left over. So a code drawn once
  is redeemed at most once, whatever is resumed, called back, polled or requested in between.
\<close>
theorem codes_redeemed_once:
  assumes "person_run F L iter tr s" and "decode_agrees L" and "enumerates iter"
  shows "length (filter (redeems c) tr) + card (open_ids c s) \<le> length (filter (issues F c) tr)"
  using assms(1)
proof induction
  case started
  show ?case by (simp add: open_ids_def mem_new_def mem_look_def)
next
  case (served tr s e s')
  have "mem_ok s" using run_ok [OF served(1) assms(2,3)] .
  from open_ids_step [OF this assms(3) served(3,4), of c] served(5) show ?case by (auto split: if_splits)
qed


section \<open>A concrete run\<close>

text \<open>A server whose policy asks for approval first and grants when the agent posts.\<close>

definition sample_deferrer :: "(string, person_pending_context mem_store, unit) person_service" where
  "sample_deferrer = sample_service
     \<lparr>pv_policy := sample_grant_policy\<lparr>pol_evaluate := \<lambda>_. Ok (PD_Defer DR_Approval)\<rparr>\<rparr>"

definition sample_id :: string where
  "sample_id = generate_pending_id (ev_id_bytes sample_env)"

definition sample_deferred :: "person_pending_context pending_record" where
  "sample_deferred = pending_record_new 1000 sample_id
     (person_pending_from sample_context ''agent.p.s'' None None None) (snapshot_waiting DR_Approval) 600"

definition sample_deferral :: "person_pending_context mem_store" where
  "sample_deferral = mem_insert sample_id sample_deferred (mem_new\<lparr>last_created := Some sample_id\<rparr>)"

definition sample_visit :: "person_call \<Rightarrow> response option \<Rightarrow> (string, unit) event" where
  "sample_visit c answer =
     \<lparr>at_env = sample_env, by_service = sample_deferrer, e_call = c, e_reply = answer\<rparr>"

definition sample_asked :: "(string, unit) event" where
  "sample_asked = sample_visit (Call_Token sample_post)
     (respond_created (fr_json sample_front)
        \<lparr>dc_location = pending_url sample_config sample_id, dc_requirement = DR_Approval\<rparr>)"

definition sample_answered :: "(string, unit) event" where
  "sample_answered = sample_visit (Call_Post sample_id (sample_post\<lparr>rq_headers := [], rq_body := []\<rparr>))
     (Some (json_response (fr_json sample_front) 200 [] (en_token_response sample_body)))"

lemma sample_deferrer_facts:
  "pv_lib sample_deferrer = sample_lib" "pv_pending sample_deferrer = mem_ops id"
  "pv_config sample_deferrer = sample_config"
  "pol_evaluate (pv_policy sample_deferrer) ctx = Ok (PD_Defer DR_Approval)"
  "pol_resume (pv_policy sample_deferrer) ctx input = Ok (PD_Grant \<lparr>gr_sub = ''u'', gr_scope = None\<rparr>)"
  "mint_person_auth sample_config (pv_minter sample_deferrer) sub scope a = Ok sample_body"
  by (simp_all add: sample_deferrer_def sample_service_def sample_grant_policy_def mint_person_auth_def sample_body_def)

lemma sample_deferral_run:
  "person_serve sample_front sample_env sample_deferrer (Call_Token sample_post) mem_new =
     (e_reply sample_asked, sample_deferral)"
proof -
  have ctx: "verify_token_request sample_lib 1000 sample_config ''agent.p.s'' ''T'' ''resource'' sample_exchange
     = Ok sample_context"
    using sample_request by (simp add: verify_token_request_def sample_tokens)
  have ix: "rc_interaction (pt_resource_claims sample_context) = None" "tx_resource_token sample_exchange = ''resource''"
    "ev_now sample_env = 1000" "psc_pending_ttl_secs sample_config = 600"
    by (simp_all add: sample_context_def sample_resource_def sample_exchange_def sample_env_def sample_config_def)
  have rec: "pr_id sample_deferred = sample_id" by (simp add: sample_deferred_def pending_record_new_def)
  have create: "op_create (pv_pending sample_deferrer) sample_deferred mem_new = (Ok sample_id, sample_deferral)"
    by (simp add: sample_deferrer_facts(2) mem_run rec sample_deferral_def)
  have run: "person_exchange_token sample_env sample_deferrer sample_context ''agent.p.s'' mem_new =
      (Ok (PF_Deferred \<lparr>dc_location = pending_url sample_config sample_id, dc_requirement = DR_Approval\<rparr>), sample_deferral)"
    using create
    by (simp add: person_exchange_token_def ix sample_deferrer_facts(3-) apply_person_decision_def Let_def
        create_deferred_person_response_def seq_run store_op_run sample_deferred_def flip: sample_id_def)
  show ?thesis
    by (simp add: person_serve_def token_exchange_handler_def sample_post_body sample_deferrer_facts
        sample_post_verifies ctx ix run finish_def respond_person_flow_def respond_flow_def sample_asked_def
        sample_visit_def)
qed

lemma sample_deferred_look: "mem_look sample_deferral sample_id = Some sample_deferred"
  by (simp add: sample_deferral_def mem_insert_look)

lemma sample_grant_run:
  "\<exists>s. person_serve sample_front sample_env sample_deferrer
     (Call_Post sample_id (sample_post\<lparr>rq_headers := [], rq_body := []\<rparr>)) sample_deferral =
     (e_reply sample_answered, s)"
proof -
  obtain s where c: "op_complete (pv_pending sample_deferrer) sample_id (PO_AuthToken sample_body) sample_deferral = (Ok (), s)"
    unfolding sample_deferrer_facts using mem_run_complete by blast
  have l: "op_load (pv_pending sample_deferrer) sample_id sample_deferral = (Ok (Some sample_deferred), sample_deferral)"
    by (simp add: sample_deferrer_facts(2) mem_run sample_deferred_look)
  have r: "\<not> is_expired (ev_now sample_env) sample_deferred" "federation (pr_context sample_deferred) = None"
    by (simp_all add: sample_deferred_def is_expired_def pending_record_new_def sample_env_def person_pending_from_def)
  have run: "person_resume_pending sample_env sample_deferrer sample_id PI_InteractionCompleted sample_deferral
     = (Ok (PF_Granted sample_body), s)"
    using c l by (simp add: person_resume_pending_def with_live_record_def seq_run store_op_run r Let_def
        sample_deferrer_facts(3-) apply_person_pending_decision_def complete_with_def)
  have "fr_bytes sample_front rq = Ok (rq_body rq)" for rq by (simp add: sample_front_def)
  then show ?thesis
    using run by (simp add: person_serve_def pending_post_handler_def posted_input_def pending_resume_input_def
        parse_pending_post_body_def finish_def respond_person_flow_def respond_flow_def sample_answered_def
        sample_visit_def)
qed

lemma sample_person_run:
  "person_run sample_front sample_lib id [sample_asked] sample_deferral"
  "\<exists>s. person_run sample_front sample_lib id [sample_answered, sample_asked] s"
proof -
  note v = sample_asked_def sample_answered_def sample_visit_def sample_deferrer_facts
  show one: "person_run sample_front sample_lib id [sample_asked] sample_deferral"
    using person_run.served [OF person_run.started, of sample_asked sample_lib id sample_front] sample_deferral_run
    by (simp add: v)
  obtain s where "person_serve sample_front sample_env sample_deferrer
     (Call_Post sample_id (sample_post\<lparr>rq_headers := [], rq_body := []\<rparr>)) sample_deferral =
     (e_reply sample_answered, s)" using sample_grant_run by blast
  then have "person_run sample_front sample_lib id [sample_answered, sample_asked] s"
    using person_run.served [OF one, of sample_answered] by (simp add: v)
  then show "\<exists>s. person_run sample_front sample_lib id [sample_answered, sample_asked] s" by blast
qed

theorem stored_requests_verified_witness:
  "\<exists>e\<in>set [sample_asked]. \<exists>rq jwt v (request :: token_exchange_request) ctx. e_call e = Call_Token rq \<and>
     authentic (fr_http sample_front) (ev_up (at_env e)) (ev_now (at_env e)) ''POST'' (host_authority (rq_headers rq))
       (rq_path rq) (rq_headers rq) verify_options_default v \<and>
     signed_by_issuer sample_lib (psc_fetcher (pv_config (by_service e))) (ev_now (at_env e))
       (tx_resource_token request) (PT_Resource (pt_resource_claims ctx)) \<and>
     rc_agent_jkt (pt_resource_claims ctx) = vs_thumbprint v \<and>
     request_of (pr_context sample_deferred) = (jwt, bare ctx)"
  using stored_requests_verified [OF sample_person_run(1) sample_decode_agrees sample_store_facts(3) sample_deferred_look]
  by blast

theorem success_needs_verified_request_witness:
  "\<exists>e'\<in>set [sample_asked]. \<exists>rq jwt ctx. e_call e' = Call_Token rq \<and>
     admitted sample_front (at_env e') (by_service e') rq jwt ctx \<and>
     sample_id = generate_pending_id (ev_id_bytes (at_env e'))"
proof -
  obtain s where r: "person_run sample_front sample_lib id [sample_answered, sample_asked] s"
    using sample_person_run(2) by blast
  have a: "answers_for (e_call sample_answered) = Some sample_id"
    "e_reply sample_answered = Some (json_response (fr_json sample_front) 200 [] (en_token_response sample_body))"
    "rs_status (json_response (fr_json sample_front) 200 [] (en_token_response sample_body)) = 200"
    by (simp_all add: sample_answered_def sample_visit_def json_response_def)
  from success_needs_verified_request [OF r sample_decode_agrees sample_store_facts(3) a] show ?thesis by blast
qed

text \<open>
  A run in which a code is drawn, typed and typed again. The crate reads a resource token that
  asks for an interaction at the resource; the request is the signed sample request.
\<close>

definition asking_lib :: "string jwt_lib" where
  "asking_lib = sample_lib\<lparr>jl_insecure_resource := (\<lambda>_. Ok (pt_resource_claims sample_initiated)),
     jl_decode_resource := (\<lambda>_ key _ _ _.
       if key = ''K'' then Ok (pt_resource_claims sample_initiated) else Err ''bad signature'')\<rparr>"

definition asking_service :: "(string, person_pending_context mem_store, unit) person_service" where
  "asking_service = sample_service\<lparr>pv_lib := asking_lib\<rparr>"

definition asking_visit :: "person_call \<Rightarrow> response option \<Rightarrow> (string, unit) event" where
  "asking_visit c answer =
     \<lparr>at_env = sample_env, by_service = asking_service, e_call = c, e_reply = answer\<rparr>"

definition code_drawn :: "(string, unit) event" where
  "code_drawn = asking_visit (Call_Token sample_post) (respond_created (fr_json sample_front)
     \<lparr>dc_location = pending_url sample_config sample_id,
       dc_requirement = DR_Interaction (psc_interaction_url sample_config) ''0421-BN8F''\<rparr>)"

definition code_typed :: "(string, unit) event" where
  "code_typed = asking_visit (Call_Interact ''o4-2ibn8f'')
     (Some \<lparr>rs_status = 302, rs_headers = [(''location'', ''https://r/i'')], rs_body = []\<rparr>)"

definition code_refused :: "(string, unit) event" where
  "code_refused = asking_visit (Call_Interact ''0421-BN8F'')
     (Some (json_response (fr_json sample_front) 410 [] (en_protocol_error (pe_new EC_InvalidCode))))"

definition drawn_record :: "person_pending_context pending_record" where
  "drawn_record = initiated_record sample_env sample_config sample_initiated ''agent.p.s''
     \<lparr>ri_url = ''https://r/i'', ri_code = ''R1''\<rparr>"

definition drawn_store :: "person_pending_context mem_store" where
  "drawn_store = mem_insert sample_id drawn_record (mem_new\<lparr>last_created := Some sample_id\<rparr>)"

definition used_store :: "person_pending_context mem_store" where
  "used_store = mem_insert sample_id (consume_code drawn_record) drawn_store"

lemma asking_facts:
  "pv_lib asking_service = asking_lib" "pv_pending asking_service = mem_ops id"
  "pv_config asking_service = sample_config" "ev_now sample_env = 1000"
  "tx_resource_token sample_exchange = ''resource''"
  "rc_interaction (pt_resource_claims sample_initiated) = Some \<lparr>ri_url = ''https://r/i'', ri_code = ''R1''\<rparr>"
  "generate_code (ev_code_bytes sample_env) = ''0421-BN8F''"
  using sample_code
  by (simp_all add: asking_service_def sample_service_def sample_env_def sample_exchange_def sample_initiated_def)

lemma asking_decode_agrees: "decode_agrees asking_lib"
  using sample_decode_agrees by (auto simp: decode_agrees_def asking_lib_def split: if_splits)

lemma asking_reads:
  "parse_token asking_lib ''agent.p.s'' = Ok (PT_Agent sample_agent)"
  "parse_token asking_lib ''resource'' = Ok (PT_Resource (pt_resource_claims sample_initiated))"
  "fetch_decoding_key asking_lib sample_fetcher iss dwk jwt = Ok ''K''"
  "verify_with_key asking_lib now ''resource'' ''K'' = Ok (PT_Resource (pt_resource_claims sample_initiated))"
proof -
  have h: "jwt_header asking_lib jwt = jwt_header sample_lib jwt" for jwt
    by (simp add: jwt_header_def asking_lib_def reject_alg_none_def Let_def)
  show "parse_token asking_lib ''agent.p.s'' = Ok (PT_Agent sample_agent)"
    "parse_token asking_lib ''resource'' = Ok (PT_Resource (pt_resource_claims sample_initiated))"
    "verify_with_key asking_lib now ''resource'' ''K'' = Ok (PT_Resource (pt_resource_claims sample_initiated))"
    by (simp_all add: parse_token_def verify_with_key_def h sample_header Let_def jwt_err_def)
      (simp_all add: asking_lib_def sample_lib_def)
  show "fetch_decoding_key asking_lib sample_fetcher iss dwk jwt = Ok ''K''"
    by (simp add: fetch_decoding_key_def h sample_header sample_fetcher_def static_metadata_fetcher_def
        jwk_set_find_def jwt_err_def) (simp add: asking_lib_def sample_lib_def)
qed

lemma asking_processed: "processed sample_front sample_env asking_service sample_post ''agent.p.s'' sample_initiated"
proof -
  have t: "httpsig_thumbprint asking_lib sample_jwk = Ok ''T''"
    using sample_httpsig_thumbprint by (simp add: httpsig_thumbprint_def asking_lib_def)
  have c: "verify_token_request asking_lib 1000 sample_config ''agent.p.s'' ''T'' ''resource'' sample_exchange
     = Ok sample_initiated"
    by (simp add: verify_token_request_def asking_reads verify_resource_token_def sample_config_def)
      (simp add: sample_initiated_def sample_resource_def sample_expired sample_agent_def claims_identifier_def
        sample_context_def)
  show ?thesis
    unfolding processed_def
    by (simp add: asking_facts sample_post_verifies_by [OF t] sample_post_body c)
qed

lemma drawn_store_facts:
  "mem_ok drawn_store" "mem_ok used_store" "mem_look drawn_store = [sample_id \<mapsto> drawn_record]"
  "mem_look used_store = [sample_id \<mapsto> consume_code drawn_record]"
proof -
  let ?new = "mem_new\<lparr>last_created := Some sample_id\<rparr> :: person_pending_context mem_store"
  have "mem_ok ?new" "mem_look ?new = Map.empty"
    by (simp_all add: mem_ok_def mem_look_def mem_new_def fun_eq_iff)
  then show "mem_ok drawn_store" "mem_look drawn_store = [sample_id \<mapsto> drawn_record]"
    unfolding drawn_store_def by (simp_all only: mem_insert_ok mem_insert_look)
  then show "mem_ok used_store" "mem_look used_store = [sample_id \<mapsto> consume_code drawn_record]"
    by (simp_all add: used_store_def mem_insert_ok mem_insert_look)
qed

lemma drawn_record_facts:
  "code_matches ''0421-BN8F'' drawn_record" "\<not> is_expired (ev_now sample_env) drawn_record"
  "resource_interaction (pr_context drawn_record) = Some \<lparr>ri_url = ''https://r/i'', ri_code = ''R1''\<rparr>"
  by (simp_all add: drawn_record_def initiated_record_def pending_record_new_def person_pending_from_def
      code_matches_def asking_facts is_expired_def sample_config_def)

lemma typed_codes: "typed_code ''o4-2ibn8f'' ''0421-BN8F''" "typed_code ''0421-BN8F'' ''0421-BN8F''"
  by (simp_all add: typed_code_def typed_for_def to_ascii_lower_def is_ascii_uppercase_def byte_def char_of_def
      bit_Suc_0_iff)

lemma code_served:
  "person_serve sample_front sample_env asking_service (Call_Token sample_post) mem_new = (e_reply code_drawn, drawn_store)"
  "person_serve sample_front sample_env asking_service (Call_Interact ''o4-2ibn8f'') drawn_store = (e_reply code_typed, used_store)"
  "person_serve sample_front sample_env asking_service (Call_Interact ''0421-BN8F'') used_store = (e_reply code_refused, used_store)"
proof -
  note n = asking_facts code_drawn_def code_typed_def code_refused_def asking_visit_def
  show "person_serve sample_front sample_env asking_service (Call_Token sample_post) mem_new = (e_reply code_drawn, drawn_store)"
    using initiated_run [OF asking_facts(2,6) refl, where s = mem_new and jwt = "''agent.p.s''" and ev = sample_env]
    by (simp add: person_serve_def processed_serves [OF asking_processed] finish_def respond_person_flow_def
        respond_flow_def n drawn_store_def drawn_record_def flip: sample_id_def)
  have p: "ev_parse sample_env (ri_url \<lparr>ri_url = ''https://r/i'', ri_code = ''R1''\<rparr>) =
      Some \<lparr>u_scheme = ''https'', u_username = [], u_password = None, u_host_str = Some ''h'',
       u_port = None, u_path = ''/'', u_query = None, u_fragment = None\<rparr>"
    by (simp add: sample_env_def sample_parse_def)
  have q: "ev_with_query sample_env u x = u" for u x by (simp add: sample_env_def)
  have t: "typed_code ''o4-2ibn8f'' (generate_code (ev_code_bytes sample_env))"
    "typed_code ''0421-BN8F'' (generate_code (ev_code_bytes sample_env))"
    using typed_codes by (simp_all add: asking_facts(7))
  have "\<exists>act. begin_interaction sample_env asking_service ''o4-2ibn8f'' = Some act \<and>
      act drawn_store = (Ok (PIO_Redirect ''https://r/i''), used_store)"
    unfolding used_store_def
    by (rule begin_redirects [OF drawn_store_facts(1) sample_store_facts(3) asking_facts(2) t(1), of sample_id drawn_record,
        OF _ drawn_record_facts(1) [folded asking_facts(7)] _ drawn_record_facts(2,3) p, unfolded q, simplified])
      (auto simp: drawn_store_facts(3) split: if_splits)
  then show "person_serve sample_front sample_env asking_service (Call_Interact ''o4-2ibn8f'') drawn_store = (e_reply code_typed, used_store)"
    by (auto simp: person_serve_def interaction_start_handler_def finish_def respond_interaction_def n
        header_value_ok_def byte_def)
  have "\<exists>act. begin_interaction sample_env asking_service ''0421-BN8F'' = Some act \<and>
      act used_store = (Ok PIO_InvalidCode, used_store)"
    by (rule begin_invalid [OF drawn_store_facts(2) sample_store_facts(3) asking_facts(2) t(2)])
      (auto simp: drawn_store_facts(4) consumed split: if_splits)
  then show "person_serve sample_front sample_env asking_service (Call_Interact ''0421-BN8F'') used_store = (e_reply code_refused, used_store)"
    by (auto simp: person_serve_def interaction_start_handler_def finish_def respond_interaction_def n)
qed

lemma code_run: "person_run sample_front asking_lib id [code_refused, code_typed, code_drawn] used_store"
proof -
  note v = code_drawn_def code_typed_def code_refused_def asking_visit_def asking_facts
  have "person_run sample_front asking_lib id [code_drawn] drawn_store"
    using person_run.served [OF person_run.started, of code_drawn asking_lib id sample_front] code_served(1)
    by (simp add: v)
  then have "person_run sample_front asking_lib id [code_typed, code_drawn] used_store"
    using person_run.served [of sample_front asking_lib id "[code_drawn]" drawn_store code_typed] code_served(2)
    by (simp add: v)
  then show ?thesis
    using person_run.served [of sample_front asking_lib id "[code_typed, code_drawn]" used_store code_refused] code_served(3)
    by (simp add: v)
qed

lemma code_handed_out: "map_option rs_status (e_reply code_drawn) = Some 202"
proof -
  let ?q = "DR_Interaction (psc_interaction_url sample_config) ''0421-BN8F''"
  let ?d = "\<lparr>dc_location = pending_url sample_config sample_id, dc_requirement = ?q\<rparr>"
  have u: "psc_interaction_url sample_config = ''https://p/i''" by (simp add: sample_config_def)
  have b: "for_created ?q = Ok (PB_Status PS_Pending)"
    "header_challenge ?q = Ok (Ch_Interaction (psc_interaction_url sample_config) ''0421-BN8F'')"
    "to_str_ok (ch_to_header (Ch_Interaction (psc_interaction_url sample_config) ''0421-BN8F''))"
    by (simp_all add: for_created_def for_waiting_def u to_str_ok_def byte_def)
  have l: "to_str_ok (pending_url sample_config sample_id)"
    by (simp add: pending_url_def pending_location_def trim_end_matches_def trim_start_matches_def sample_config_def
        sample_id_def sample_env_def generate_pending_id_def hex_digit_def to_str_ok_def byte_def)
  obtain resp where "respond_created (fr_json sample_front) ?d = Some resp" "rs_status resp = 202"
    by (rule created_response [of ?d _ _ "fr_json sample_front", unfolded defer_created.simps, OF b(1,2) l b(3)])
  then show ?thesis by (simp add: code_drawn_def asking_visit_def)
qed

lemma code_counts:
  "filter (redeems ''0421-BN8F'') [code_refused, code_typed, code_drawn] = [code_typed]"
  "filter (issues sample_front ''0421-BN8F'') [code_refused, code_typed, code_drawn] = [code_drawn]"
proof -
  note v = code_drawn_def code_typed_def code_refused_def asking_visit_def json_response_def
  have "canonicalize_code (ev_up sample_env) ''o4-2ibn8f'' = Some ''0421-BN8F''"
    using canonical_typed [OF typed_codes(1) [folded asking_facts(7)], of "ev_up sample_env"] asking_facts(7) by simp
  then have "redeems ''0421-BN8F'' code_typed" by (simp add: redeems_def v)
  moreover have "\<not> redeems ''0421-BN8F'' code_drawn" "\<not> redeems ''0421-BN8F'' code_refused"
    by (simp_all add: redeems_def v)
  ultimately show "filter (redeems ''0421-BN8F'') [code_refused, code_typed, code_drawn] = [code_typed]" by simp
  have "issues sample_front ''0421-BN8F'' code_drawn"
    using asking_processed asking_facts(6,7) by (auto simp: issues_def v)
  moreover have "\<not> issues sample_front ''0421-BN8F'' code_typed" "\<not> issues sample_front ''0421-BN8F'' code_refused"
    by (simp_all add: issues_def v)
  ultimately show "filter (issues sample_front ''0421-BN8F'') [code_refused, code_typed, code_drawn] = [code_drawn]" by simp
qed

theorem codes_redeemed_once_witness:
  "length (filter (redeems ''0421-BN8F'') [code_refused, code_typed, code_drawn]) + card (open_ids ''0421-BN8F'' used_store)
     \<le> length (filter (issues sample_front ''0421-BN8F'') [code_refused, code_typed, code_drawn]) \<and>
   filter (redeems ''0421-BN8F'') [code_refused, code_typed, code_drawn] = [code_typed] \<and>
   filter (issues sample_front ''0421-BN8F'') [code_refused, code_typed, code_drawn] = [code_drawn] \<and>
   open_ids ''0421-BN8F'' used_store = {} \<and> map_option rs_status (e_reply code_drawn) = Some 202"
proof -
  have "open_ids ''0421-BN8F'' used_store = {}"
    by (auto simp: open_ids_def drawn_store_facts(4) consumed split: if_splits)
  then show ?thesis
    using codes_redeemed_once [OF code_run asking_decode_agrees sample_store_facts(3)] code_counts code_handed_out by blast
qed

end
