(* ===== verification/Resource_Runs.thy ===== *)
theory Resource_Runs
  imports Routes
begin

text \<open>
  A resource that manages access itself, as a whole: the guarded routes behind
  \<^verbatim>\<open>ResourceAuthLayer\<close>, the routes of \<^verbatim>\<open>resource_router\<close> (\<^verbatim>\<open>aauth-axum/src/resource/routes.rs\<close>)
  and the operator, who approves pending consents and revokes tokens
  (\<^verbatim>\<open>aauth-axum/examples/resource_managed.rs\<close>). Every opaque token the layer honours is traced
  back to the event that vouched for the agent it is held by.
\<close>

section \<open>The resource and its operator\<close>

text \<open>
  Approval, as the example does it: a token is issued to the agent and becomes the outcome of
  the pending request created last, if there is one.
\<close>

definition approve ::
    "'o opaque_ops \<Rightarrow> ('c mem_store, 'e, 'c) store_ops \<Rightarrow> u8 list \<Rightarrow> string \<Rightarrow> 'c mem_store \<times> 'o \<Rightarrow> 'c mem_store \<times> 'o" where
  "approve tokens_ops pending bytes agent_id st =
     (case oo_issue tokens_ops bytes agent_id (snd st) of (opaque, tokens) \<Rightarrow>
        (case last_created (fst st) of
           None \<Rightarrow> (fst st, tokens)
         | Some i \<Rightarrow> (snd (op_complete pending i (PO_OpaqueAccess opaque) (fst st)), tokens)))"

datatype resource_call =
    RC_Request request
  | RC_Authorize request
  | RC_Poll string
  | RC_Approve string
  | RC_Revoke string

datatype resource_answer =
    RA_Layer layer_outcome
  | RA_Reply "response option"
  | RA_Done

text \<open>
  An event: the call, its surroundings (\<open>re_bytes\<close> are the random bytes of a token issued in
  it), the configuration that met it, and the answer.
\<close>

type_synonym 'o managed_state = "resource_pending_context mem_store \<times> 'o"

record ('key, 'p, 'g, 'e, 'o) resource_event =
  re_env :: env
  re_bytes :: "u8 list"
  re_front :: "('p, 'g) front"
  re_layer :: "('key, 'p, 'g, 'o managed_state, 'e resource_error) resource_layer"
  re_url :: string
  re_service :: "(resource_pending_context mem_store, 'e, 'o) resource_service"
  re_call :: resource_call
  re_answer :: resource_answer

definition event_access ::
    "('key, 'p, 'g, 'e, 'o) resource_event \<Rightarrow> ('o managed_state, 'e resource_error) access_iface" where
  "event_access e = policy_access (re_env e) (re_bytes e) (re_service e)"

definition event_layer ::
    "('key, 'p, 'g, 'e, 'o) resource_event \<Rightarrow>
     ('key, 'p, 'g, 'o managed_state, 'e resource_error) resource_layer" where
  "event_layer e = (re_layer e)\<lparr>rl_mode := RM_ResourceManaged (event_access e)\<rparr>"

definition resource_serve ::
    "('key, 'p, 'g, 'e, 'o) resource_event \<Rightarrow> 'o managed_state \<Rightarrow> resource_answer \<times> 'o managed_state" where
  "resource_serve e st =
     (case re_call e of
        RC_Request rq \<Rightarrow> apfst RA_Layer (layer_call (event_layer e) (ev_now (re_env e)) rq st)
      | RC_Authorize rq \<Rightarrow> apfst RA_Reply (resource_authorize_handler (re_front e) (rl_jwt (re_layer e)) (re_env e)
          (event_access e) (re_url e) rq st)
      | RC_Poll i \<Rightarrow> apfst RA_Reply (resource_pending_poll_handler (re_front e) (event_access e) i st)
      | RC_Approve agent_id \<Rightarrow>
          (RA_Done, approve (rv_opaque (re_service e)) (rv_pending (re_service e)) (re_bytes e) agent_id st)
      | RC_Revoke token \<Rightarrow> (RA_Done, (fst st, oo_revoke (rv_opaque (re_service e)) token (snd st))))"

inductive resource_run ::
    "'key jwt_lib \<Rightarrow> 'o opaque_ops \<Rightarrow> 'o \<Rightarrow> ('key, 'p, 'g, 'e, 'o) resource_event list \<Rightarrow> 'o managed_state \<Rightarrow> bool"
  for L ops tokens0 where
  resource_started: "resource_run L ops tokens0 [] (mem_new, tokens0)"
| resource_served: "\<lbrakk>resource_run L ops tokens0 tr st; rl_jwt (re_layer e) = L; rv_opaque (re_service e) = ops;
     resource_serve e st = (re_answer e, st')\<rbrakk> \<Longrightarrow> resource_run L ops tokens0 (e # tr) st'"

inductive_cases resource_run_served: "resource_run L ops tokens0 (e # tr) st'"

section \<open>Who vouches for the holder of a token\<close>

text \<open>
  The event issued \<open>t\<close> to the agent \<open>a\<close>: the layer had verified the request as that agent's, or
  the authorization endpoint had read that agent's name in the JWT that named the signing key,
  and the policy granted; or the operator approved.
\<close>

definition vouched ::
    "(u8 list \<Rightarrow> string) \<Rightarrow> ('key, 'p, 'g, 'e, 'o) resource_event \<Rightarrow> string \<Rightarrow> string \<Rightarrow> bool" where
  "vouched tok e t a \<longleftrightarrow> t = tok (re_bytes e) \<and>
     (case re_call e of
        RC_Request rq \<Rightarrow> (\<exists>v jwt agent.
          layer_verify (event_layer e) (ev_now (re_env e)) rq = Ok v \<and> vs_jwt v = Some jwt \<and>
          verify_token (rl_jwt (re_layer e)) (rl_parse (re_layer e)) (rl_fetcher (re_layer e)) (ev_now (re_env e))
            jwt (vs_thumbprint v) = Ok (PT_Agent agent) \<and>
          ag_sub agent = a \<and>
          pol_evaluate (rv_policy (re_service e))
            \<lparr>ra_resource_url = rl_resource_url (re_layer e), ra_agent_claims = agent, ra_scope = None\<rparr> = Ok RD_GrantOpaque)
      | RC_Authorize rq \<Rightarrow> (\<exists>v jwt agent request.
          verify_post (re_front e) (rl_jwt (re_layer e)) (re_env e) rq = Ok v \<and> vs_jwt v = Some jwt \<and>
          parse_token (rl_jwt (re_layer e)) jwt = Ok (PT_Agent agent) \<and> ag_sub agent = a \<and>
          optional_json (re_front e) de_authorization_request rq = Ok (Some request) \<and>
          pol_evaluate (rv_policy (re_service e))
            \<lparr>ra_resource_url = re_url e, ra_agent_claims = agent, ra_scope = Some (az_scope request)\<rparr> = Ok RD_GrantOpaque)
      | RC_Approve agent_id \<Rightarrow> agent_id = a
      | _ \<Rightarrow> False)"

text \<open>A call that consults the consent service does so for the agent it has read.\<close>

lemma layer_consents:
  assumes "layer_call rl now rq st = (out, st')" "rl_mode rl = RM_ResourceManaged service"
  obtains "st' = st"
  | v jwt a x where "layer_verify rl now rq = Ok v" "vs_jwt v = Some jwt"
    "verify_token (rl_jwt rl) (rl_parse rl) (rl_fetcher rl) now jwt (vs_thumbprint v) = Ok (PT_Agent a)"
    "if_consent service \<lparr>ra_resource_url = rl_resource_url rl, ra_agent_claims = a, ra_scope = None\<rparr> st = (x, st')"
  using assms that
  by (auto simp: layer_call_eq token_path_def decide_def
      split: sum.splits option.splits parsed_token.splits prod.splits if_splits)

lemma authorize_consents:
  assumes "resource_authorize_handler F L ev service url rq st = (resp, st')"
  obtains "st' = st"
  | v jwt a request x where "verify_post F L ev rq = Ok v" "vs_jwt v = Some jwt"
    "optional_json F de_authorization_request rq = Ok (Some request)" "parse_token L jwt = Ok (PT_Agent a)"
    "if_consent service \<lparr>ra_resource_url = url, ra_agent_claims = a, ra_scope = Some (az_scope request)\<rparr> st = (x, st')"
  using assms that
  by (auto simp: resource_authorize_handler_def reply_def finish_def
      split: sum.splits option.splits parsed_token.splits prod.splits)

context opaque_store
begin

text \<open>What a consent does to the tokens.\<close>

lemma consent_owner:
  assumes "rv_opaque svc = ops" "consent_for_agent ev bytes svc ctx st = (x, st')"
  shows "owner (snd st') = owner (snd st) \<or>
    pol_evaluate (rv_policy svc) ctx = Ok RD_GrantOpaque \<and>
    owner (snd st') = (owner (snd st))(tok bytes \<mapsto> ag_sub (ra_agent_claims ctx))"
proof (cases "pol_evaluate (rv_policy svc) ctx")
  case (Inr d)
  show ?thesis
  proof (cases d)
    case RD_GrantOpaque
    obtain t tokens' where i: "oo_issue ops bytes (ag_sub (ra_agent_claims ctx)) (snd st) = (t, tokens')"
      by (cases "oo_issue ops bytes (ag_sub (ra_agent_claims ctx)) (snd st)")
    then have "snd st' = tokens'"
      using assms Inr RD_GrantOpaque by (cases st) (auto simp: consent_for_agent_def seq_def claims_identifier_def)
    with issue_law [OF i] Inr RD_GrantOpaque show ?thesis by simp
  qed (use assms Inr in \<open>auto simp: consent_for_agent_def seq_def create_deferred_resource_response_def
      on_pending_def Let_def split: prod.splits sum.splits\<close>)
qed (use assms in \<open>auto simp: consent_for_agent_def seq_def\<close>)

lemma approve_owner: "owner (snd (approve ops pending bytes a st)) = (owner (snd st))(tok bytes \<mapsto> a)"
proof -
  obtain t tokens' where i: "oo_issue ops bytes a (snd st) = (t, tokens')" by (cases "oo_issue ops bytes a (snd st)")
  then have "snd (approve ops pending bytes a st) = tokens'" by (simp add: approve_def split: option.split)
  with issue_law [OF i] show ?thesis by simp
qed

lemma poll_owner: "resource_poll_pending ev svc i st = (x, st') \<Longrightarrow> snd st' = snd st"
  by (auto simp: resource_poll_pending_def seq_def on_pending_def ignore_def split: prod.splits sum.splits if_splits)

text \<open>One event: a token the agent holds afterwards was held before, or is vouched for now.\<close>

lemma serve_owner:
  assumes "rv_opaque (re_service e) = ops" "resource_serve e st = (answer, st')" "owner (snd st') t = Some a"
  shows "owner (snd st) t = Some a \<and> re_call e \<noteq> RC_Revoke t \<or> vouched tok e t a"
proof (cases "re_call e")
  case (RC_Request rq)
  then obtain out where c: "layer_call (event_layer e) (ev_now (re_env e)) rq st = (out, st')"
    using assms(2) by (cases "layer_call (event_layer e) (ev_now (re_env e)) rq st") (auto simp: resource_serve_def)
  have m: "rl_mode (event_layer e) = RM_ResourceManaged (event_access e)" by (simp add: event_layer_def)
  show ?thesis using c m
  proof (cases rule: layer_consents)
    case 1
    then show ?thesis using assms(3) RC_Request by simp
  next
    case (2 v jwt ag x)
    let ?ctx = "\<lparr>ra_resource_url = rl_resource_url (re_layer e), ra_agent_claims = ag, ra_scope = None\<rparr>"
    have "consent_for_agent (re_env e) (re_bytes e) (re_service e) ?ctx st = (x, st')"
      using 2(4) by (simp add: event_layer_def event_access_def policy_access_def)
    from consent_owner [OF assms(1) this] show ?thesis
      using assms(3) RC_Request 2(1-3) by (auto simp: vouched_def event_layer_def split: if_splits)
  qed
next
  case (RC_Authorize rq)
  then obtain resp where c: "resource_authorize_handler (re_front e) (rl_jwt (re_layer e)) (re_env e)
      (event_access e) (re_url e) rq st = (resp, st')"
    using assms(2) by (cases "resource_authorize_handler (re_front e) (rl_jwt (re_layer e)) (re_env e)
      (event_access e) (re_url e) rq st") (auto simp: resource_serve_def)
  then show ?thesis
  proof (cases rule: authorize_consents)
    case 1
    then show ?thesis using assms(3) RC_Authorize by simp
  next
    case (2 v jwt ag request x)
    let ?ctx = "\<lparr>ra_resource_url = re_url e, ra_agent_claims = ag, ra_scope = Some (az_scope request)\<rparr>"
    have "consent_for_agent (re_env e) (re_bytes e) (re_service e) ?ctx st = (x, st')"
      using 2(5) by (simp add: event_access_def policy_access_def)
    from consent_owner [OF assms(1) this] show ?thesis
      using assms(3) RC_Authorize 2(1-4) by (auto simp: vouched_def split: if_splits)
  qed
next
  case (RC_Poll i)
  then obtain x where "resource_poll_pending (re_env e) (re_service e) i st = (x, st')"
    using assms(2) by (auto simp: resource_serve_def resource_pending_poll_handler_def finish_def event_access_def
        policy_access_def split: prod.splits)
  from poll_owner [OF this] show ?thesis using assms(3) RC_Poll by simp
next
  case (RC_Approve b)
  then have "st' = approve ops (rv_pending (re_service e)) (re_bytes e) b st"
    using assms(1,2) by (simp add: resource_serve_def)
  then show ?thesis using assms(3) RC_Approve by (auto simp: approve_owner vouched_def split: if_splits)
next
  case (RC_Revoke u)
  then have "snd st' = oo_revoke ops u (snd st)" using assms(1,2) by (auto simp: resource_serve_def)
  then show ?thesis using assms(3) RC_Revoke by (auto simp: revoke_law split: if_splits)
qed

definition traced :: "('key, 'p, 'g, 'e, 'o) resource_event list \<Rightarrow> string \<Rightarrow> string \<Rightarrow> bool" where
  "traced tr t a \<longleftrightarrow> (\<exists>later e earlier. tr = later @ e # earlier \<and> vouched tok e t a \<and>
     (\<forall>x\<in>set later. re_call x \<noteq> RC_Revoke t))"

lemma traced_now: "vouched tok e t a \<Longrightarrow> traced (e # tr) t a"
  unfolding traced_def by (intro exI [of _ "[]"]) auto

lemma traced_later: "traced tr t a \<Longrightarrow> re_call e \<noteq> RC_Revoke t \<Longrightarrow> traced (e # tr) t a"
  unfolding traced_def by (elim exE conjE, rule_tac x = "e # later" in exI) auto

lemma run_traced:
  assumes "resource_run L ops tokens0 tr st" "owner tokens0 = Map.empty" "owner (snd st) t = Some a"
  shows "traced tr t a"
  using assms(1,3)
proof (induction arbitrary: t a)
  case resource_started
  then show ?case using assms(2) by simp
next
  case (resource_served tr st e st')
  from serve_owner [OF resource_served(3,4) resource_served.prems] resource_served.IH
  show ?case using traced_now traced_later by blast
qed

end

lemma honoured_token_held:
  assumes "resource_serve e st = (RA_Layer (LO_Forward p), st')" "re_call e = RC_Request rq"
    and "extract_aauth_access (rq_headers rq) = Ok (Some t)"
  shows "\<exists>a. p = PT_Agent a \<and> oo_validate (rv_opaque (re_service e)) t (ag_sub a) (snd st)"
proof -
  have m: "rl_mode (event_layer e) = RM_ResourceManaged (event_access e)" by (simp add: event_layer_def)
  have "layer_call (event_layer e) (ev_now (re_env e)) rq st = (LO_Forward p, st')"
    using assms(1,2) by (cases "layer_call (event_layer e) (ev_now (re_env e)) rq st") (auto simp: resource_serve_def)
  then obtain jwt where "opaque_path (event_layer e) (event_access e) jwt t st = LO_Forward p"
    using m assms(3) by (auto simp: layer_call_eq split: sum.splits option.splits)
  then show ?thesis
    by (cases st) (auto simp: opaque_path_forward event_access_def policy_access_def service_validate_opaque_def)
qed

text \<open>
  C10: the resource honours a token only for the agent somebody vouched for. Over any run of a
  self-managing resource, in which requests to guarded routes, to the authorization endpoint
  and to pending URLs mix with approvals and revocations in any order and under any policy: if a
  request that presents an opaque token is let through, then it is let through as an agent
  for whom an earlier event of the run had issued that very token, with the policy's grant or
  the operator's approval, and nobody has revoked the token since.
\<close>
theorem honoured_tokens_vouched:
  assumes "resource_run L (opaque_mem_ops b64) opaque_new (e # tr) st"
    and "re_call e = RC_Request rq" and "re_answer e = RA_Layer (LO_Forward p)"
    and "extract_aauth_access (rq_headers rq) = Ok (Some t)"
  shows "\<exists>a later e0 earlier. p = PT_Agent a \<and> tr = later @ e0 # earlier \<and>
    vouched (opaque_token b64) e0 t (ag_sub a) \<and> (\<forall>x\<in>set later. re_call x \<noteq> RC_Revoke t)"
proof -
  obtain st0 where r: "resource_run L (opaque_mem_ops b64) opaque_new tr st0" "rv_opaque (re_service e) = opaque_mem_ops b64"
    "resource_serve e st0 = (RA_Layer (LO_Forward p), st)"
    using resource_run_served [OF assms(1)] assms(3) by metis
  obtain a where a: "p = PT_Agent a" "snd st0 t = Some (ag_sub a)"
    using honoured_token_held [OF r(3) assms(2,4)] r(2) by (auto simp: opaque_mem.validate_law)
  from opaque_mem.run_traced [OF r(1) _ a(2)] a(1) show ?thesis
    by (auto simp: opaque_mem.traced_def opaque_new_def)
qed

section \<open>What the voucher is worth\<close>

lemma token68_header_value: "is_token68 t \<Longrightarrow> header_value_ok t"
  using token68_chars(2) [of t]
  by (auto simp: header_value_ok_def list_all_iff byte_def is_token68_char_def is_ascii_alphanumeric_def
      is_ascii_uppercase_def is_ascii_lowercase_def is_ascii_digit_def)

lemma authorize_grants:
  assumes "optional_json F de_authorization_request rq = Ok (Some \<lparr>az_scope = scope\<rparr>)"
    and "verify_post F L ev rq = Ok v" "vs_jwt v = Some jwt" "parse_token L jwt = Ok (PT_Agent a)"
    and "if_consent service \<lparr>ra_resource_url = url, ra_agent_claims = a, ra_scope = Some scope\<rparr> st
      = (Ok (RCO_GrantOpaque t), st')" "is_token68 t"
  shows "\<exists>resp. resource_authorize_handler F L ev service url rq st = (Some resp, st') \<and>
    rs_status resp = 200 \<and> hm_get (rs_headers resp) ''aauth-access'' = Some t"
  using assms(1-5) token68_header_value [OF assms(6)]
  by (simp add: resource_authorize_handler_def finish_def respond_authorize_def set_header_def json_response_def
      hm_insert_def hm_remove_def)

text \<open>
  C33: at a self-managing resource anybody is any agent. Its authorization endpoint and its
  opaque path both take the agent's name from a JWT that they only parse. So whoever signs
  with a key of his own, and names it by a JWT of his own making that claims to be the agent
  \<open>a\<close>, obtains a token for \<open>a\<close> (if the policy would give \<open>a\<close> one) and is let through as \<open>a\<close>,
  whatever keys the agent's issuer publishes, even none.
\<close>
theorem self_issued_agent_admitted:
  assumes authorize: "optional_json F de_authorization_request rq = Ok (Some \<lparr>az_scope = scope\<rparr>)"
      "verify_post F L ev rq = Ok v" "vs_jwt v = Some jwt" "parse_token L jwt = Ok (PT_Agent a)"
    and service: "rv_opaque svc = opaque_mem_ops b64" "t = opaque_token b64 bytes" "is_token68 t"
      "pol_evaluate (rv_policy svc) \<lparr>ra_resource_url = url, ra_agent_claims = a, ra_scope = Some scope\<rparr> = Ok RD_GrantOpaque"
    and retry: "rl_mode rl = RM_ResourceManaged (policy_access ev' bytes' svc)" "rl_jwt rl = L"
      "hm_get_all (rq_headers rq') ''authorization'' = [''AAuth '' @ t]"
      "layer_verify rl now' rq' = Ok v'" "vs_jwt v' = Some jwt"
  shows "\<exists>resp st'. resource_authorize_handler F L ev (policy_access ev bytes svc) url rq st = (Some resp, st') \<and>
    rs_status resp = 200 \<and> hm_get (rs_headers resp) ''aauth-access'' = Some t \<and>
    (\<forall>fetcher. layer_call (rl\<lparr>rl_fetcher := fetcher\<rparr>) now' rq' st' = (LO_Forward (PT_Agent a), st'))"
proof -
  let ?ctx = "\<lparr>ra_resource_url = url, ra_agent_claims = a, ra_scope = Some scope\<rparr>"
  obtain s tokens where st: "st = (s, tokens)" by (cases st)
  let ?st' = "(s, tokens(t \<mapsto> ag_sub a))"
  have c: "if_consent (policy_access ev bytes svc) ?ctx st = (Ok (RCO_GrantOpaque t), ?st')"
    using service(1,2,4) st by (simp add: policy_access_def consent_for_agent_def seq_def opaque_mem_ops_def
        opaque_issue_def Let_def claims_identifier_def)
  note e = presented_token [OF retry(3) service(3)]
  have "layer_call rl now' rq' ?st' = (LO_Forward (PT_Agent a), ?st')"
    using retry authorize(4) e service(1)
    by (simp add: layer_call_eq opaque_path_def policy_access_def service_validate_opaque_def opaque_mem_ops_def
        opaque_validate_def agent_sub_from_jwt_def claims_identifier_def)
  then have "layer_call (rl\<lparr>rl_fetcher := fetcher\<rparr>) now' rq' ?st' = (LO_Forward (PT_Agent a), ?st')" for fetcher
    using opaque_path_ignores_issuer [OF retry(1) e] by metis
  then show ?thesis using authorize_grants [OF authorize c service(3)] by blast
qed

section \<open>A concrete run\<close>

text \<open>An agent is granted a token at a guarded route and comes back with it.\<close>

type_synonym sample_event = "(string, string list \<times> u64 option, string list \<times> u64 option, unit, opaque_map) resource_event"

definition sample_visited :: "resource_call \<Rightarrow> resource_answer \<Rightarrow> sample_event" where
  "sample_visited c answer =
     \<lparr>re_env = sample_env, re_bytes = [7], re_front = sample_front, re_layer = sample_layer RM_IdentityBased,
      re_url = ''https://r'', re_service = sample_resource_service, re_call = c, re_answer = answer\<rparr>"

definition sample_first :: sample_event where
  "sample_first = sample_visited (RC_Request (sample_get sample_signed_headers)) (RA_Layer (LO_Reply sample_grant_reply))"

definition sample_second :: sample_event where
  "sample_second = sample_visited (RC_Request (sample_get sample_retry_headers))
     (RA_Layer (LO_Forward (PT_Agent sample_agent)))"

lemma sample_event_layer:
  "event_layer (sample_visited c answer) = sample_layer (RM_ResourceManaged sample_managed)"
  by (simp add: event_layer_def event_access_def sample_visited_def sample_managed_def sample_layer_def)

lemma sample_visited_simps [simp]:
  "re_env (sample_visited c answer) = sample_env" "re_call (sample_visited c answer) = c"
  "re_answer (sample_visited c answer) = answer" "re_service (sample_visited c answer) = sample_resource_service"
  "rl_jwt (re_layer (sample_visited c answer)) = sample_lib"
  by (simp_all add: sample_visited_def sample_layer_def)

lemma sample_agent_sub: "ag_sub sample_agent = ''aauth:x@a''"
  by (simp add: sample_agent_def)

lemma sample_now: "ev_now sample_env = 1000"
  by (simp add: sample_env_def)

lemma sample_resource_run:
  "resource_run sample_lib (opaque_mem_ops id) opaque_new [sample_second, sample_first]
     (mem_new, [''07'' \<mapsto> ''aauth:x@a''])"
proof -
  have ops: "rv_opaque sample_resource_service = opaque_mem_ops id" by (simp add: sample_resource_service_def)
  have e: "extract_aauth_access (rq_headers (sample_get sample_retry_headers)) = Ok (Some ''07'')"
    using presented_token [OF sample_access(2) sample_token68] by (simp add: sample_layer_fields)
  have "layer_call (sample_layer (RM_ResourceManaged sample_managed)) 1000
      (sample_get sample_retry_headers) (mem_new, [''07'' \<mapsto> ''aauth:x@a''])
      = (LO_Forward (PT_Agent sample_agent), (mem_new, [''07'' \<mapsto> ''aauth:x@a'']))"
    using trans [OF opaque_path_ignores_issuer [OF sample_layer_fields(1) e, symmetric] opaque_path_ignores_issuer_witness] .
  then have two: "resource_serve sample_second (mem_new, [''07'' \<mapsto> ''aauth:x@a'']) =
      (re_answer sample_second, (mem_new, [''07'' \<mapsto> ''aauth:x@a'']))"
    by (simp add: resource_serve_def sample_second_def sample_event_layer sample_now)
  have one: "resource_serve sample_first (mem_new, opaque_new) =
      (re_answer sample_first, (mem_new, [''07'' \<mapsto> ''aauth:x@a'']))"
    by (simp add: resource_serve_def sample_first_def sample_event_layer sample_now sample_grant_call)
  have "resource_run sample_lib (opaque_mem_ops id) opaque_new [sample_first] (mem_new, [''07'' \<mapsto> ''aauth:x@a''])"
    by (rule resource_served [OF resource_started _ _ one]) (simp_all add: sample_first_def ops)
  then show ?thesis
    by (rule resource_served [OF _ _ _ two]) (simp_all add: sample_second_def ops)
qed

theorem honoured_tokens_vouched_witness:
  "\<exists>e0\<in>set [sample_first]. vouched (opaque_token id) e0 ''07'' ''aauth:x@a''"
proof -
  have h: "re_call sample_second = RC_Request (sample_get sample_retry_headers)"
    "re_answer sample_second = RA_Layer (LO_Forward (PT_Agent sample_agent))"
    "extract_aauth_access (rq_headers (sample_get sample_retry_headers)) = Ok (Some ''07'')"
    using presented_token [OF sample_access(2) sample_token68] by (simp_all add: sample_second_def sample_layer_fields)
  obtain a later e0 earlier where v: "PT_Agent sample_agent = PT_Agent a" "[sample_first] = later @ e0 # earlier"
    "vouched (opaque_token id) e0 ''07'' (ag_sub a)"
    using honoured_tokens_vouched [OF sample_resource_run h] by blast
  have "e0 \<in> set (later @ e0 # earlier)" by simp
  then have "e0 \<in> set [sample_first]" unfolding v(2) .
  moreover have "ag_sub a = ''aauth:x@a''" using v(1) sample_agent_sub by (metis parsed_token.inject(1))
  ultimately show ?thesis using v(3) by auto
qed

text \<open>The front of a server whose requests carry a scope.\<close>

definition sample_scope_front :: "(string list \<times> u64 option, string list \<times> u64 option) front" where
  "sample_scope_front = sample_front\<lparr>fr_json :=
     \<lparr>sj_parse = (\<lambda>_. Some (JObj [(''scope'', JStr ''read'')])), sj_print = (\<lambda>_. []), sj_error = (\<lambda>_. [])\<rparr>\<rparr>"

theorem self_issued_agent_admitted_witness:
  "\<exists>st'. layer_call (sample_layer (RM_ResourceManaged sample_managed)\<lparr>rl_fetcher := absent_metadata_fetcher\<rparr>) 1000
     (sample_get sample_retry_headers) st' = (LO_Forward (PT_Agent sample_agent), st')"
proof -
  have v: "verify_post sample_scope_front sample_lib sample_env sample_post =
     Ok \<lparr>vs_label = ''sig'', vs_signature_key = SK_Jwt ''agent.p.s'', vs_public_jwk = sample_jwk,
       vs_thumbprint = ''T'', vs_jwt = Some ''agent.p.s''\<rparr>"
    using sample_post_verifies by (simp add: verify_post_def sample_scope_front_def)
  have b: "optional_json sample_scope_front de_authorization_request sample_post = Ok (Some \<lparr>az_scope = ''read''\<rparr>)"
    by (simp add: optional_json_def sample_post_def sample_post_headers_def sample_scope_front_def sample_front_def
        de_authorization_request_def field_def)
  have s: "rv_opaque sample_resource_service = opaque_mem_ops id" "''07'' = opaque_token id [7]"
    "pol_evaluate (rv_policy sample_resource_service)
       \<lparr>ra_resource_url = ''https://r'', ra_agent_claims = sample_agent, ra_scope = Some ''read''\<rparr> = Ok RD_GrantOpaque"
    by (simp_all add: sample_resource_service_def opaque_token_def hex_digit_def always_grant_resource_policy_def)
  have m: "rl_mode (sample_layer (RM_ResourceManaged sample_managed)) =
      RM_ResourceManaged (policy_access sample_env [7] sample_resource_service)"
    by (simp add: sample_layer_fields sample_managed_def)
  have j: "rl_jwt (sample_layer (RM_ResourceManaged sample_managed)) = sample_lib" by (simp only: sample_layer_fields)
  have a: "hm_get_all (rq_headers (sample_get sample_retry_headers)) ''authorization'' = [''AAuth '' @ ''07'']"
    by (simp only: sample_layer_fields sample_access)
  from self_issued_agent_admitted [OF b v _ sample_tokens(2) s(1,2) sample_token68 s(3) m j a
      sample_layer_verify(2) sample_layer_fields(8), where st = "(mem_new, opaque_new)"]
  show ?thesis by auto
qed

end
