(* ===== verification/Agent_Auth.thy ===== *)
theory Agent_Auth
  imports Httpsig "HOL-Library.AList"
begin

text \<open>
  The agent's authentication state machine (\<^verbatim>\<open>aauth/src/agent/auth.rs\<close>,
  \<^verbatim>\<open>agent/resolve.rs\<close>): the caches of auth and opaque tokens, the choice of the next
  attempt and the reaction to a response. An \<open>Instant\<close> is a number of milliseconds on the
  monotonic clock. The token cache is an association list; \<open>order\<close> is the order in which
  the hash map yields its keys. Values handed to the opaque token callback are recorded.
\<close>

section \<open>State\<close>

datatype agent_auth_attempt = AA_AuthToken string | AA_OpaqueToken string | AA_AgentSigned

datatype agent_auth_step =
    AS_Finish
  | AS_RetryWithOpaque
  | AS_ExchangeToken string
  | AS_PollDeferred
  | AS_Invalidate agent_auth_attempt

record cached_token =
  ct_auth_token :: string
  ct_expires_at :: nat

record cache_key =
  ck_origin :: string
  ck_person_server :: string

record agent_auth =
  aa_token_cache :: "(cache_key \<times> cached_token) list"
  aa_opaque_cache :: "string \<rightharpoonup> string"
  aa_authorize_tried :: "string set"
  aa_person_server_url :: "string option"
  aa_opaque_seed :: "string option"
  aa_on_opaque_token :: bool
  aa_told :: "string list"

type_synonym key_order = "cache_key list \<Rightarrow> cache_key list"

text \<open>\<open>agent_auth_new\<close> is \<^verbatim>\<open>from_options\<close> on the three options it reads.\<close>

definition agent_auth_new :: "string option \<Rightarrow> string option \<Rightarrow> bool \<Rightarrow> agent_auth" where
  "agent_auth_new person_server_url opaque_seed on_opaque =
     \<lparr>aa_token_cache = [], aa_opaque_cache = Map.empty, aa_authorize_tried = {},
      aa_person_server_url = person_server_url, aa_opaque_seed = opaque_seed,
      aa_on_opaque_token = on_opaque, aa_told = []\<rparr>"

section \<open>Operations\<close>

definition begin_authorize_attempt :: "string \<Rightarrow> agent_auth \<Rightarrow> bool \<times> agent_auth" where
  "begin_authorize_attempt origin a =
     (if aa_opaque_cache a origin \<noteq> None then (False, a)
      else (origin \<notin> aa_authorize_tried a, a\<lparr>aa_authorize_tried := insert origin (aa_authorize_tried a)\<rparr>))"

text \<open>\<open>url_origin\<close> is \<^verbatim>\<open>Url::parse(url)?.origin().ascii_serialization()\<close>.\<close>

definition resource_origin :: "(string \<Rightarrow> string + string) \<Rightarrow> string \<Rightarrow> aauth_error + string" where
  "resource_origin url_origin url = map_err (\<lambda>m. Agent (AE_InvalidOrigin m)) (url_origin url)"

definition seed_opaque :: "string \<Rightarrow> agent_auth \<Rightarrow> agent_auth" where
  "seed_opaque origin a =
     (case aa_opaque_seed a of
        Some seed \<Rightarrow>
          (if aa_opaque_cache a origin = None
           then a\<lparr>aa_opaque_cache := (aa_opaque_cache a)(origin \<mapsto> seed)\<rparr> else a)
      | None \<Rightarrow> a)"

definition find_cached_token_key :: "key_order \<Rightarrow> string \<Rightarrow> agent_auth \<Rightarrow> cache_key option" where
  "find_cached_token_key order origin a =
     List.find (\<lambda>k. ck_origin k = origin) (order (map fst (aa_token_cache a)))"

definition find_cached_token :: "key_order \<Rightarrow> nat \<Rightarrow> string \<Rightarrow> agent_auth \<Rightarrow> cached_token option \<times> agent_auth" where
  "find_cached_token order now origin a =
     (case find_cached_token_key order origin a of
        None \<Rightarrow> (None, a)
      | Some k \<Rightarrow>
          (case map_of (aa_token_cache a) k of
             None \<Rightarrow> (None, a)
           | Some cached \<Rightarrow>
               if ct_expires_at cached > now + 60 * 1000 then (Some cached, a)
               else (None, a\<lparr>aa_token_cache := AList.delete k (aa_token_cache a)\<rparr>)))"

definition next_attempt :: "key_order \<Rightarrow> nat \<Rightarrow> string \<Rightarrow> agent_auth \<Rightarrow> agent_auth_attempt \<times> agent_auth" where
  "next_attempt order now origin a =
     (case find_cached_token order now origin a of
        (Some cached, a') \<Rightarrow> (AA_AuthToken (ct_auth_token cached), a')
      | (None, a') \<Rightarrow>
          (case aa_opaque_cache a' origin of
             Some token \<Rightarrow> (AA_OpaqueToken token, a')
           | None \<Rightarrow> (AA_AgentSigned, a')))"

text \<open>\<open>access_token\<close>: the token of the one readable, well-formed \<^verbatim>\<open>AAuth-Access\<close> header.\<close>

definition access_token :: "header_map \<Rightarrow> string option" where
  "access_token headers =
     (case hm_get_all headers ''aauth-access'' of
        [raw] \<Rightarrow> if to_str_ok raw then res_ok (parse_aauth_access_header raw) else None
      | _ \<Rightarrow> None)"

definition cache_opaque_from_headers :: "string \<Rightarrow> header_map \<Rightarrow> agent_auth \<Rightarrow> bool \<times> agent_auth" where
  "cache_opaque_from_headers origin headers a =
     (case access_token headers of
        None \<Rightarrow> (False, a)
      | Some token \<Rightarrow>
          if aa_opaque_cache a origin = Some token then (False, a)
          else (True, a\<lparr>aa_opaque_cache := (aa_opaque_cache a)(origin \<mapsto> token),
                  aa_told := (if aa_on_opaque_token a then aa_told a @ [token] else aa_told a)\<rparr>))"

text \<open>The reaction to a 401 on an agent-signed attempt.\<close>

definition challenge_step :: "header_map \<Rightarrow> aauth_error + agent_auth_step" where
  "challenge_step headers =
     (case header_value headers ''aauth-requirement'' of
        None \<Rightarrow> Ok AS_Finish
      | Some header \<Rightarrow>
          map_ok (\<lambda>challenge. case challenge of
              Ch_AuthToken resource_token \<Rightarrow> AS_ExchangeToken resource_token
            | _ \<Rightarrow> AS_Finish) (ch_from_header header))"

definition observe_response ::
    "key_order \<Rightarrow> string \<Rightarrow> agent_auth_attempt \<Rightarrow> u16 \<Rightarrow> header_map \<Rightarrow> agent_auth \<Rightarrow>
     (aauth_error + agent_auth_step) \<times> agent_auth" where
  "observe_response order origin attempt status headers a =
     (if status \<noteq> 401 then
        (case cache_opaque_from_headers origin headers a of (cached_opaque, a') \<Rightarrow>
           (Ok (if status = 202 then AS_PollDeferred
                else if cached_opaque \<and> attempt = AA_AgentSigned then AS_RetryWithOpaque
                else AS_Finish), a'))
      else
        (case attempt of
           AA_AuthToken _ \<Rightarrow>
             (Ok (AS_Invalidate attempt),
              case find_cached_token_key order origin a of
                Some k \<Rightarrow> a\<lparr>aa_token_cache := AList.delete k (aa_token_cache a)\<rparr>
              | None \<Rightarrow> a)
         | AA_OpaqueToken _ \<Rightarrow>
             (Ok (AS_Invalidate attempt), a\<lparr>aa_opaque_cache := (aa_opaque_cache a)(origin := None)\<rparr>)
         | AA_AgentSigned \<Rightarrow> (challenge_step headers, a)))"

text \<open>
  An \<^verbatim>\<open>Instant\<close> holds 64-bit seconds; adding past that panics, as \<open>None\<close>. The token and its
  lifetime are also the callback's arguments.
\<close>

definition instant_add_secs :: "nat \<Rightarrow> u64 \<Rightarrow> nat option" where
  "instant_add_secs t secs =
     (let r = t + unat secs * 1000 in if r < 2 ^ 63 * 1000 then Some r else None)"

definition record_auth_token ::
    "nat \<Rightarrow> string \<Rightarrow> string \<Rightarrow> string \<Rightarrow> u64 \<Rightarrow> agent_auth \<Rightarrow> agent_auth option" where
  "record_auth_token now origin person_server token lifetime a =
     map_option (\<lambda>expires_at.
       a\<lparr>aa_token_cache := AList.update \<lparr>ck_origin = origin, ck_person_server = person_server\<rparr>
           \<lparr>ct_auth_token = token, ct_expires_at = expires_at\<rparr> (aa_token_cache a)\<rparr>)
       (instant_add_secs now lifetime)"

section \<open>Person Server resolution (\<^verbatim>\<open>agent/resolve.rs\<close>)\<close>

definition decode_agent_claims_unverified :: "'key jwt_lib \<Rightarrow> string \<Rightarrow> aauth_error + agent_claims" where
  "decode_agent_claims_unverified L jwt =
     bind_res (parse_token L jwt) (\<lambda>p. case p of
         PT_Agent claims \<Rightarrow> Ok claims
       | _ \<Rightarrow> Err (Agent AE_ExpectedAgentJwt))"

definition resolve_person_server_url ::
    "'key jwt_lib \<Rightarrow> string option \<Rightarrow> string \<Rightarrow> aauth_error + string" where
  "resolve_person_server_url L configured agent_jwt =
     (case configured of
        Some url \<Rightarrow> Ok url
      | None \<Rightarrow> bind_res (decode_agent_claims_unverified L agent_jwt) (\<lambda>claims.
          ok_or (ag_ps claims) (Agent AE_PersonServerUnresolved)))"

fun agent_jwt_from_signature_key :: "signature_key \<Rightarrow> aauth_error + string" where
  "agent_jwt_from_signature_key (SK_Jwt j) = Ok j"
| "agent_jwt_from_signature_key _ = Err (Agent AE_HwkUnsupported)"

section \<open>Histories\<close>

text \<open>
  The middleware shares one \<^verbatim>\<open>AgentAuth\<close> between concurrent requests, under a lock held for
  one operation at a time. A history is any interleaving of operations, latest first.
\<close>

datatype agent_event =
    AV_Seed string
  | AV_Authorize string
  | AV_Next nat string
  | AV_Observe string agent_auth_attempt u16 header_map
  | AV_Record nat string string string u64

inductive agent_history :: "key_order \<Rightarrow> agent_auth \<Rightarrow> agent_event list \<Rightarrow> agent_auth \<Rightarrow> bool"
  for order :: key_order and a0 :: agent_auth where
  start: "agent_history order a0 [] a0"
| seed: "agent_history order a0 es a \<Longrightarrow> agent_history order a0 (AV_Seed origin # es) (seed_opaque origin a)"
| authorize: "agent_history order a0 es a \<Longrightarrow> begin_authorize_attempt origin a = (first, a') \<Longrightarrow>
    agent_history order a0 (AV_Authorize origin # es) a'"
| attempt: "agent_history order a0 es a \<Longrightarrow> next_attempt order now origin a = (att, a') \<Longrightarrow>
    agent_history order a0 (AV_Next now origin # es) a'"
| observe: "agent_history order a0 es a \<Longrightarrow> observe_response order origin att status headers a = (r, a') \<Longrightarrow>
    agent_history order a0 (AV_Observe origin att status headers # es) a'"
| recorded: "agent_history order a0 es a \<Longrightarrow> record_auth_token now origin ps token lifetime a = Some a' \<Longrightarrow>
    agent_history order a0 (AV_Record now origin ps token lifetime # es) a'"

inductive_cases agent_history_ConsE: "agent_history order a0 (e # es) a"

text \<open>How the agent came by an auth token, and by an opaque token.\<close>

definition token_earned :: "agent_event list \<Rightarrow> cache_key \<Rightarrow> cached_token \<Rightarrow> bool" where
  "token_earned es k c \<longleftrightarrow>
     (\<exists>now lifetime. AV_Record now (ck_origin k) (ck_person_server k) (ct_auth_token c) lifetime \<in> set es \<and>
        instant_add_secs now lifetime = Some (ct_expires_at c))"

definition opaque_earned :: "agent_auth \<Rightarrow> agent_event list \<Rightarrow> string \<Rightarrow> string \<Rightarrow> bool" where
  "opaque_earned a0 es origin t \<longleftrightarrow>
     (\<exists>att status headers. AV_Observe origin att status headers \<in> set es \<and> status \<noteq> 401 \<and>
        access_token headers = Some t) \<or>
     (AV_Seed origin \<in> set es \<and> aa_opaque_seed a0 = Some t)"

definition earned :: "agent_auth \<Rightarrow> agent_event list \<Rightarrow> agent_auth \<Rightarrow> bool" where
  "earned a0 es a \<longleftrightarrow>
     aa_opaque_seed a = aa_opaque_seed a0 \<and>
     (\<forall>(k, c) \<in> set (aa_token_cache a). token_earned es k c) \<and>
     (\<forall>origin t. aa_opaque_cache a origin = Some t \<longrightarrow> opaque_earned a0 es origin t)"

lemma earned_later:
  "token_earned es k c \<Longrightarrow> token_earned (e # es) k c"
  "opaque_earned a0 es origin t \<Longrightarrow> opaque_earned a0 (e # es) origin t"
  by (auto simp: token_earned_def opaque_earned_def)

lemma set_delete_subset: "set (AList.delete k al) \<subseteq> set al"
  by (auto simp: AList.delete_eq)

lemma set_update_subset: "set (AList.update k v al) \<subseteq> insert (k, v) (set al)"
  by (induction al) auto

lemma earned_weaken:
  assumes "earned a0 es a" "set (aa_token_cache a') \<subseteq> set (aa_token_cache a)"
    and "aa_opaque_seed a' = aa_opaque_seed a"
    and "\<And>origin t. aa_opaque_cache a' origin = Some t \<Longrightarrow> aa_opaque_cache a origin = Some t"
  shows "earned a0 (e # es) a'"
  unfolding earned_def
proof (intro conjI ballI allI impI)
  show "aa_opaque_seed a' = aa_opaque_seed a0" using assms(1,3) by (simp add: earned_def)
  show "case x of (k, c) \<Rightarrow> token_earned (e # es) k c" if "x \<in> set (aa_token_cache a')" for x
    using that assms(1,2) earned_later(1) unfolding earned_def by fast
  show "opaque_earned a0 (e # es) origin t" if "aa_opaque_cache a' origin = Some t" for origin t
    using assms(1) assms(4) [OF that] earned_later(2) unfolding earned_def by blast
qed

lemma find_cached_token_state:
  "find_cached_token order now origin a = (r, a') \<Longrightarrow>
     set (aa_token_cache a') \<subseteq> set (aa_token_cache a) \<and> aa_opaque_seed a' = aa_opaque_seed a \<and>
     aa_opaque_cache a' = aa_opaque_cache a"
  using set_delete_subset by (fastforce simp: find_cached_token_def split: option.splits if_splits)

lemma next_attempt_state:
  "next_attempt order now origin a = (att, a') \<Longrightarrow>
     \<exists>r. find_cached_token order now origin a = (r, a') \<and>
       att = (case r of Some c \<Rightarrow> AA_AuthToken (ct_auth_token c)
              | None \<Rightarrow> (case aa_opaque_cache a origin of Some t \<Rightarrow> AA_OpaqueToken t | None \<Rightarrow> AA_AgentSigned))"
  using find_cached_token_state [of order now origin a]
  by (auto simp: next_attempt_def split: prod.splits option.splits)

lemma history_earned: "agent_history order a0 es a \<Longrightarrow> aa_token_cache a0 = [] \<Longrightarrow> aa_opaque_cache a0 = Map.empty \<Longrightarrow>
  earned a0 es a"
proof (induction rule: agent_history.induct)
  case start
  then show ?case by (simp add: earned_def)
next
  case (seed es a origin)
  show ?case
  proof (cases "aa_opaque_seed a = None \<or> aa_opaque_cache a origin \<noteq> None")
    case True
    then have "seed_opaque origin a = a" by (auto simp: seed_opaque_def split: option.split)
    then show ?thesis using earned_weaken seed by simp
  next
    case False
    then obtain s where s: "aa_opaque_seed a = Some s" "aa_opaque_cache a origin = None" by auto
    then have a': "seed_opaque origin a = a\<lparr>aa_opaque_cache := (aa_opaque_cache a)(origin \<mapsto> s)\<rparr>"
      by (simp add: seed_opaque_def)
    have i: "earned a0 es a" using seed by simp
    have "opaque_earned a0 (AV_Seed origin # es) origin s"
      using i s by (simp add: earned_def opaque_earned_def)
    then show ?thesis using i earned_later unfolding a' earned_def by (auto split: if_splits)
  qed
next
  case (authorize es a origin first a')
  then show ?case
    by (intro earned_weaken [of a0 es a]) (auto simp: begin_authorize_attempt_def split: if_splits)
next
  case (attempt es a now origin att a')
  then obtain r where "find_cached_token order now origin a = (r, a')" using next_attempt_state by blast
  from find_cached_token_state [OF this] show ?case using attempt by (intro earned_weaken [of a0 es a]) auto
next
  case (observe es a origin att status headers r a')
  have i: "earned a0 es a" using observe by simp
  show ?case
  proof (cases "status \<noteq> 401 \<and> fst (cache_opaque_from_headers origin headers a)")
    case True
    then obtain t where t: "access_token headers = Some t"
      and a': "aa_token_cache a' = aa_token_cache a" "aa_opaque_seed a' = aa_opaque_seed a"
        "aa_opaque_cache a' = (aa_opaque_cache a)(origin \<mapsto> t)"
      using observe.hyps(2) by (auto simp: observe_response_def cache_opaque_from_headers_def
          split: option.splits if_splits)
    have "opaque_earned a0 (AV_Observe origin att status headers # es) origin t"
      using True t by (auto simp: opaque_earned_def)
    then show ?thesis using i earned_later unfolding earned_def a' by (auto split: if_splits)
  next
    case False
    then have "set (aa_token_cache a') \<subseteq> set (aa_token_cache a) \<and> aa_opaque_seed a' = aa_opaque_seed a \<and>
        (\<forall>o' t. aa_opaque_cache a' o' = Some t \<longrightarrow> aa_opaque_cache a o' = Some t)"
      using observe.hyps(2) set_delete_subset
      by (fastforce simp: observe_response_def cache_opaque_from_headers_def
          split: option.splits if_splits agent_auth_attempt.splits)
    then show ?thesis using i by (intro earned_weaken [OF i]) auto
  qed
next
  case (recorded es a now origin ps token lifetime a')
  let ?k = "\<lparr>ck_origin = origin, ck_person_server = ps\<rparr>"
  obtain e where e: "instant_add_secs now lifetime = Some e"
    and a': "a' = a\<lparr>aa_token_cache := AList.update ?k \<lparr>ct_auth_token = token, ct_expires_at = e\<rparr> (aa_token_cache a)\<rparr>"
    using recorded.hyps(2) by (auto simp: record_auth_token_def)
  have i: "earned a0 es a" using recorded by simp
  have "token_earned (AV_Record now origin ps token lifetime # es) ?k \<lparr>ct_auth_token = token, ct_expires_at = e\<rparr>"
    using e by (auto simp: token_earned_def)
  then show ?case
    using i earned_later set_update_subset unfolding earned_def a' by fastforce
qed

text \<open>
  C12: a credential is only presented where it was earned. However requests interleave, an auth
  token presented to an origin was obtained by token exchange for that very origin and is at
  least a minute from its expiry; an opaque token presented to an origin came from a response
  of that origin, or is the configured seed.
\<close>
theorem presented_credential_earned:
  assumes "agent_history order (agent_auth_new url oseed told) es a"
    and "next_attempt order now origin a = (att, a')"
  shows "case att of
      AA_AuthToken t \<Rightarrow> \<exists>now' ps lifetime e. AV_Record now' origin ps t lifetime \<in> set es \<and>
        instant_add_secs now' lifetime = Some e \<and> now + 60000 < e
    | AA_OpaqueToken t \<Rightarrow>
        (\<exists>att status headers. AV_Observe origin att status headers \<in> set es \<and> status \<noteq> 401 \<and>
          access_token headers = Some t) \<or> oseed = Some t
    | AA_AgentSigned \<Rightarrow> True"
proof -
  let ?a0 = "agent_auth_new url oseed told"
  have i: "earned ?a0 es a"
    using history_earned [OF assms(1)] by (simp add: agent_auth_new_def)
  obtain r where r: "find_cached_token order now origin a = (r, a')"
    "att = (case r of Some c \<Rightarrow> AA_AuthToken (ct_auth_token c)
       | None \<Rightarrow> (case aa_opaque_cache a origin of Some t \<Rightarrow> AA_OpaqueToken t | None \<Rightarrow> AA_AgentSigned))"
    using next_attempt_state [OF assms(2)] by blast
  show ?thesis
  proof (cases r)
    case (Some c)
    then obtain k where k: "find_cached_token_key order origin a = Some k" "map_of (aa_token_cache a) k = Some c"
      "now + 60000 < ct_expires_at c"
      using r(1) by (auto simp: find_cached_token_def split: option.splits if_splits)
    have o: "ck_origin k = origin" using k(1) by (auto simp: find_cached_token_key_def find_Some_iff)
    have "token_earned es k c" using i map_of_SomeD [OF k(2)] by (auto simp: earned_def)
    then show ?thesis using Some r(2) k(3) o by (auto simp: token_earned_def)
  next
    case None
    then show ?thesis using r(2) i
      by (auto simp: earned_def opaque_earned_def agent_auth_new_def split: option.splits)
  qed
qed

section \<open>Well-formedness\<close>

lemma history_distinct:
  "agent_history order a0 es a \<Longrightarrow> distinct (map fst (aa_token_cache a0)) \<Longrightarrow> distinct (map fst (aa_token_cache a))"
proof (induction rule: agent_history.induct)
  case (seed es a origin)
  then show ?case by (simp add: seed_opaque_def split: option.split)
next
  case (authorize es a origin first a')
  then show ?case by (auto simp: begin_authorize_attempt_def split: if_splits)
next
  case (attempt es a now origin att a')
  then show ?case by (auto simp: next_attempt_def find_cached_token_def distinct_delete
      split: prod.splits option.splits if_splits)
next
  case (observe es a origin att status headers r a')
  then show ?case by (auto simp: observe_response_def cache_opaque_from_headers_def distinct_delete
      split: if_splits option.splits agent_auth_attempt.splits)
next
  case (recorded es a now origin ps token lifetime a')
  then show ?case by (auto simp: record_auth_token_def distinct_update)
qed simp

lemma access_token_token68: "access_token headers = Some t \<Longrightarrow> is_token68 t"
  by (auto simp: access_token_def split: list.splits if_splits)
    (metis access_header_token68 res_ok.elims option.distinct(1) option.inject)

text \<open>
  C40: whatever happened, the caches keep their types: one token per origin and Person Server,
  and, if the configured seed is a \<^verbatim>\<open>token68\<close>, only tokens that can be written into an
  \<^verbatim>\<open>Authorization\<close> header, from which the resource reads them back. So the middleware's
  \<^verbatim>\<open>expect\<close> on that header never fires.
\<close>
theorem presented_opaque_writable:
  assumes "agent_history order (agent_auth_new url oseed told) es a"
    and "next_attempt order now origin a = (AA_OpaqueToken t, a')"
    and "pred_option is_token68 oseed"
  shows "distinct (map fst (aa_token_cache a)) \<and> header_value_ok (''AAuth '' @ t) \<and>
    parse_aauth_credential (''AAuth '' @ t) = Ok t"
proof -
  have i: "earned (agent_auth_new url oseed told) es a"
    using history_earned [OF assms(1)] by (simp add: agent_auth_new_def)
  obtain r where r: "find_cached_token order now origin a = (r, a')"
    "AA_OpaqueToken t = (case r of Some c \<Rightarrow> AA_AuthToken (ct_auth_token c)
       | None \<Rightarrow> (case aa_opaque_cache a origin of Some t \<Rightarrow> AA_OpaqueToken t | None \<Rightarrow> AA_AgentSigned))"
    using next_attempt_state [OF assms(2)] by blast
  have "aa_opaque_cache a origin = Some t" using r(2) by (auto split: option.splits)
  then have "opaque_earned (agent_auth_new url oseed told) es origin t" using i by (simp add: earned_def)
  then have t: "is_token68 t"
    using assms(3) access_token_token68 by (auto simp: opaque_earned_def agent_auth_new_def pred_option_def)
  have "header_value_ok (''AAuth '' @ t)"
    using token68_chars(2) [OF t] by (auto simp: header_value_ok_def list_all_iff byte_def is_token68_char_def
        is_ascii_alphanumeric_def is_ascii_uppercase_def is_ascii_lowercase_def is_ascii_digit_def)
  moreover have "parse_aauth_credential (''AAuth '' @ t) = Ok t"
    unfolding parse_aauth_credential_def token68_trim(2) [OF t] using t by simp
  moreover have "distinct (map fst (aa_token_cache a))"
    using history_distinct [OF assms(1)] by (simp add: agent_auth_new_def)
  ultimately show ?thesis by blast
qed

section \<open>Refused credentials are used up\<close>

definition credentials :: "string \<Rightarrow> agent_auth \<Rightarrow> nat" where
  "credentials origin a =
     length (filter (\<lambda>(k, _). ck_origin k = origin) (aa_token_cache a))
     + (if aa_opaque_cache a origin = None then 0 else 1)"

definition yields_keys :: "key_order \<Rightarrow> bool" where
  "yields_keys order \<longleftrightarrow> (\<forall>ks. set (order ks) = set ks)"

lemma found_key:
  assumes "yields_keys order" "find_cached_token_key order origin a = Some k"
  shows "k \<in> fst ` set (aa_token_cache a)" "ck_origin k = origin"
proof -
  obtain i where "i < length (order (map fst (aa_token_cache a)))" "order (map fst (aa_token_cache a)) ! i = k"
    and o: "ck_origin k = origin"
    using assms(2) by (auto simp: find_cached_token_key_def find_Some_iff)
  then have "k \<in> set (order (map fst (aa_token_cache a)))" using nth_mem by metis
  then show "k \<in> fst ` set (aa_token_cache a)" using assms(1) by (simp add: yields_keys_def)
  show "ck_origin k = origin" by (rule o)
qed

lemma delete_shrinks:
  assumes "k \<in> fst ` set al" "ck_origin k = origin"
  shows "length (filter (\<lambda>(k, _). ck_origin k = origin) (AList.delete k al))
    < length (filter (\<lambda>(k, _). ck_origin k = origin) al)"
  using assms
proof (induction al)
  case (Cons p al)
  have "length (filter (\<lambda>(k, _). ck_origin k = origin) (AList.delete k al))
      \<le> length (filter (\<lambda>(k, _). ck_origin k = origin) al)"
    by (induction al) auto
  then show ?case using Cons by (cases p) (force simp: less_Suc_eq_le Suc_le_eq)
qed simp

lemma delete_credentials:
  assumes "yields_keys order" "find_cached_token_key order origin a = Some k"
  shows "credentials origin (a\<lparr>aa_token_cache := AList.delete k (aa_token_cache a)\<rparr>) < credentials origin a"
  using delete_shrinks [OF found_key [OF assms]] by (simp add: credentials_def)

lemma attempt_credentials:
  assumes "yields_keys order" "next_attempt order now origin a = (att, a')"
  shows "credentials origin a' \<le> credentials origin a \<and>
    (\<forall>t. att = AA_AuthToken t \<longrightarrow> a' = a \<and> find_cached_token_key order origin a \<noteq> None) \<and>
    (\<forall>t. att = AA_OpaqueToken t \<longrightarrow> aa_opaque_cache a' origin = Some t)"
proof -
  have "a' = a \<or> (\<exists>k. find_cached_token_key order origin a = Some k \<and>
      a' = a\<lparr>aa_token_cache := AList.delete k (aa_token_cache a)\<rparr>)"
    using assms(2) by (auto simp: next_attempt_def find_cached_token_def split: prod.splits option.splits if_splits)
  then have "credentials origin a' \<le> credentials origin a"
    using delete_credentials [OF assms(1)] by (auto intro: less_imp_le)
  moreover have "(\<forall>t. att = AA_AuthToken t \<longrightarrow> a' = a \<and> find_cached_token_key order origin a \<noteq> None) \<and>
    (\<forall>t. att = AA_OpaqueToken t \<longrightarrow> aa_opaque_cache a' origin = Some t)"
    using assms(2) by (auto simp: next_attempt_def find_cached_token_def split: prod.splits option.splits if_splits)
  ultimately show ?thesis by blast
qed

lemma challenge_not_invalidate: "challenge_step headers \<noteq> Ok (AS_Invalidate att)"
proof
  assume "challenge_step headers = Ok (AS_Invalidate att)"
  then obtain c where "AS_Invalidate att = (case c of Ch_AuthToken t \<Rightarrow> AS_ExchangeToken t | _ \<Rightarrow> AS_Finish)"
    by (auto simp: challenge_step_def map_ok_Ok split: option.splits)
  then show False by (cases c) simp_all
qed

lemma invalidate_credentials:
  assumes "yields_keys order" "next_attempt order now origin a = (att, a1)"
    and "observe_response order origin att status headers a1 = (Ok (AS_Invalidate att'), a2)"
  shows "credentials origin a2 < credentials origin a"
proof -
  note n = attempt_credentials [OF assms(1,2)]
  show ?thesis
  proof (cases att)
    case (AA_AuthToken t)
    then obtain k where "find_cached_token_key order origin a1 = Some k" "a1 = a" using n by auto
    then show ?thesis using assms(3) AA_AuthToken delete_credentials [OF assms(1)]
      by (auto simp: observe_response_def split: if_splits prod.splits)
  next
    case (AA_OpaqueToken t)
    then show ?thesis using assms(3) n by (auto simp: observe_response_def credentials_def split: if_splits prod.splits)
  next
    case AA_AgentSigned
    then show ?thesis using assms(3) challenge_not_invalidate
      by (auto simp: observe_response_def split: if_splits prod.splits)
  qed
qed

section \<open>Concrete runs\<close>

definition sample_agent_state :: agent_auth where
  "sample_agent_state = agent_auth_new None None False
     \<lparr>aa_token_cache := [(\<lparr>ck_origin = ''https://r'', ck_person_server = ''https://p''\<rparr>,
        \<lparr>ct_auth_token = ''auth'', ct_expires_at = 3600000\<rparr>)]\<rparr>"

lemma sample_agent_history:
  "agent_history id (agent_auth_new None None False) [AV_Record 0 ''https://r'' ''https://p'' ''auth'' 3600]
     sample_agent_state"
  by (rule agent_history.recorded [OF agent_history.start])
    (simp add: record_auth_token_def instant_add_secs_def sample_agent_state_def agent_auth_new_def)

theorem presented_credential_earned_witness:
  "\<exists>now' ps lifetime e.
     AV_Record now' ''https://r'' ps ''auth'' lifetime \<in> set [AV_Record 0 ''https://r'' ''https://p'' ''auth'' 3600] \<and>
     instant_add_secs now' lifetime = Some e \<and> 5000 + 60000 < e"
proof -
  have n: "next_attempt id 5000 ''https://r'' sample_agent_state = (AA_AuthToken ''auth'', sample_agent_state)"
    by (simp add: next_attempt_def find_cached_token_def find_cached_token_key_def sample_agent_state_def)
  from presented_credential_earned [OF sample_agent_history n] show ?thesis by simp
qed

theorem presented_opaque_writable_witness:
  "header_value_ok (''AAuth '' @ ''07'')"
proof -
  let ?a0 = "agent_auth_new None None False" and ?hs = "[(''aauth-access'', ''07'')]"
  have t: "is_token68 ''07''"
    by (simp add: is_token68_def trim_end_matches_def Let_def is_token68_char_def is_ascii_alphanumeric_def
        is_ascii_digit_def byte_def)
  have "parse_aauth_access_header ''07'' = Ok ''07''"
    unfolding parse_aauth_access_header_def token68_trim(1) [OF t] using t by simp
  then have "access_token ?hs = Some ''07''"
    by (simp add: access_token_def hm_get_all_def to_str_ok_def byte_def)
  then have o: "observe_response id ''https://r'' AA_AgentSigned 200 ?hs ?a0 =
      (Ok AS_RetryWithOpaque, ?a0\<lparr>aa_opaque_cache := [''https://r'' \<mapsto> ''07'']\<rparr>)"
    by (simp add: observe_response_def cache_opaque_from_headers_def agent_auth_new_def)
  have n: "next_attempt id 0 ''https://r'' (?a0\<lparr>aa_opaque_cache := [''https://r'' \<mapsto> ''07'']\<rparr>) =
      (AA_OpaqueToken ''07'', ?a0\<lparr>aa_opaque_cache := [''https://r'' \<mapsto> ''07'']\<rparr>)"
    by (simp add: next_attempt_def find_cached_token_def find_cached_token_key_def agent_auth_new_def)
  from presented_opaque_writable [OF agent_history.observe [OF agent_history.start o] n] show ?thesis by simp
qed

end
