(* ===== verification/Agent_Poll.thy ===== *)
theory Agent_Poll
  imports Agent_Auth Deferred
begin

text \<open>
  The agent's transport over \<^verbatim>\<open>reqwest\<close>: signing of outgoing requests
  (\<^verbatim>\<open>aauth-reqwest/src/signed.rs\<close>) and the polling of a deferred response
  (\<^verbatim>\<open>deferred.rs\<close>), with the errors of \<^verbatim>\<open>error.rs\<close>. The world \<open>'w\<close> is the state
  behind the network, the clock (milliseconds) and the callbacks. The polling loop may run for
  ever, so it is a partial function whose \<open>None\<close> is not returning.
\<close>

section \<open>Errors (\<^verbatim>\<open>error.rs\<close>, \<^verbatim>\<open>token_exchange.rs\<close>)\<close>

record token_exchange_error =
  tee_status :: u16
  tee_aauth_error :: "protocol_error option"

datatype agent_error =
    AG_Auth agent_auth_error
  | AG_Exchange token_exchange_error
  | AG_Deferred deferred_error
  | AG_Signature signature_error
  | AG_Jwt jwt_error
  | AG_Metadata metadata_error
  | AG_Aauth aauth_error
  | AG_Middleware "agent_error + string"
  | AG_BodyNotCloneable

text \<open>A run of the client fails with an error or panics.\<close>

datatype failure = AF_Error agent_error | AF_Panic

text \<open>The middleware chain wraps an error of a layer, or reports one of the client.\<close>

datatype middleware_error = MW_Middleware "agent_error + string" | MW_Reqwest string

fun from_middleware_error :: "middleware_error \<Rightarrow> agent_error" where
  "from_middleware_error (MW_Middleware e) = AG_Middleware e"
| "from_middleware_error (MW_Reqwest m) = AG_Metadata (ME_Request ''request'' m)"

definition or_panic :: "'a option \<Rightarrow> failure + 'a" where
  "or_panic x = ok_or x AF_Panic"

section \<open>Requests and responses\<close>

record out_request =
  or_method :: string
  or_url :: url_parts
  or_headers :: header_map
  or_body :: "string option"

text \<open>
  The HTTP crates: \<open>cl_request\<close> is an \<^verbatim>\<open>http\<close> request built for a URI and converted for
  \<^verbatim>\<open>reqwest\<close>, \<open>None\<close> where one of the two is invalid; \<open>cl_body\<close> is \<^verbatim>\<open>Response::bytes\<close>,
  \<open>cl_response_url\<close> the final URL, \<open>cl_join\<close> is \<^verbatim>\<open>Url::parse(base)?.join(rel)?\<close>.
\<close>

record client_lib =
  cl_request :: "string \<Rightarrow> url_parts option"
  cl_parse :: "string \<Rightarrow> string + url_parts"
  cl_origin :: "string \<Rightarrow> string + string"
  cl_url_string :: "url_parts \<Rightarrow> string"
  cl_join :: "string \<Rightarrow> string \<Rightarrow> string option"
  cl_body :: "response \<Rightarrow> string + string"
  cl_response_url :: "response \<Rightarrow> string"
  cl_json :: serde_json

type_synonym 'w sender = "out_request \<Rightarrow> ('w, failure, response) action"

definition is_success :: "u16 \<Rightarrow> bool" where
  "is_success status \<longleftrightarrow> 200 \<le> status \<and> status < 300"

definition headers_contain_json :: "header_map \<Rightarrow> bool" where
  "headers_contain_json headers =
     (case header_value headers ''content-type'' of
        None \<Rightarrow> False | Some v \<Rightarrow> contains ''application/json'' v)"

text \<open>\<^verbatim>\<open>str::parse::<u64>\<close>.\<close>

fun digits_value :: "nat \<Rightarrow> string \<Rightarrow> nat option" where
  "digits_value acc [] = Some acc"
| "digits_value acc (c # cs) =
     (if is_ascii_digit c then digits_value (10 * acc + (byte c - 48)) cs else None)"

definition parse_u64 :: "string \<Rightarrow> u64 option" where
  "parse_u64 s =
     (let ds = (case s of CHR ''+'' # r \<Rightarrow> r | _ \<Rightarrow> s) in
      if ds = [] then None
      else case digits_value 0 ds of
        None \<Rightarrow> None
      | Some n \<Rightarrow> if n < 2 ^ 64 then Some (word_of_nat n) else None)"

section \<open>Signing (\<^verbatim>\<open>signed.rs\<close>)\<close>

record signing_options =
  so_capabilities :: "capability list option"
  so_mission :: "mission option"

definition expect_header :: "string \<Rightarrow> string \<Rightarrow> out_request \<Rightarrow> failure + out_request" where
  "expect_header name v rq =
     (if header_value_ok v then Ok (rq\<lparr>or_headers := hm_insert (or_headers rq) name v\<rparr>) else Err AF_Panic)"

definition signing_apply_to :: "signing_options \<Rightarrow> out_request \<Rightarrow> failure + out_request" where
  "signing_apply_to so rq =
     bind_res (case so_capabilities so of
         Some cs \<Rightarrow> if cs \<noteq> [] then expect_header ''aauth-capabilities'' (join_header cs) rq else Ok rq
       | None \<Rightarrow> Ok rq) (\<lambda>rq.
     case so_mission so of
       Some m \<Rightarrow> expect_header ''aauth-mission'' (mission_to_header m) rq
     | None \<Rightarrow> Ok rq)"

definition apply_opaque_token :: "string \<Rightarrow> out_request \<Rightarrow> failure + out_request" where
  "apply_opaque_token token rq = expect_header ''authorization'' (''AAuth '' @ token) rq"

text \<open>\<^verbatim>\<open>Url::authority\<close>.\<close>

definition url_authority :: "url_parts \<Rightarrow> string" where
  "url_authority u =
     (if u_username u = [] \<and> u_password u = None then []
      else u_username u @ (case u_password u of None \<Rightarrow> [] | Some p \<Rightarrow> '':'' @ p) @ ''@'')
     @ (case u_host_str u of None \<Rightarrow> [] | Some h \<Rightarrow> h)
     @ (case u_port u of None \<Rightarrow> [] | Some p \<Rightarrow> '':'' @ show_nat (unat p))"

definition outgoing_sign ::
    "('p, 's) httpsig_lib \<Rightarrow> (string \<Rightarrow> string) \<Rightarrow> u64 \<Rightarrow> signing_material \<Rightarrow> out_request \<Rightarrow>
     agent_error + out_request" where
  "outgoing_sign H up now material rq =
     (case sm_signature_key material of
        SK_Jwt _ \<Rightarrow>
          (case http_sign H up now (or_method rq) (url_authority (or_url rq)) (u_path (or_url rq)) material
              (aauth_sign_options (or_headers rq)) None (or_headers rq) of
             (Inl e, _) \<Rightarrow> Err (AG_Signature (signature_error_from e))
           | (Inr _, headers) \<Rightarrow> Ok (rq\<lparr>or_headers := headers\<rparr>))
      | _ \<Rightarrow> Err (AG_Signature SE_HwkUnsupported))"

definition outgoing_sign_with_auth_token ::
    "('p, 's) httpsig_lib \<Rightarrow> (string \<Rightarrow> string) \<Rightarrow> u64 \<Rightarrow> signing_material \<Rightarrow> string \<Rightarrow> out_request \<Rightarrow>
     agent_error + out_request" where
  "outgoing_sign_with_auth_token H up now material jwt rq =
     outgoing_sign H up now (material\<lparr>sm_signature_key := SK_Jwt jwt\<rparr>) rq"

section \<open>Polling (\<^verbatim>\<open>deferred.rs\<close>)\<close>

record 'w deferred_options =
  do_location_url :: string
  do_interaction_url :: "string option"
  do_interaction_code :: "string option"
  do_on_interaction :: "(string \<Rightarrow> string \<Rightarrow> 'w \<Rightarrow> 'w) option"
  do_on_clarification :: "(string \<Rightarrow> 'w \<Rightarrow> string \<times> 'w) option"
  do_max_poll_duration_secs :: "u64 option"

definition deferred_options_new :: "string \<Rightarrow> 'w deferred_options" where
  "deferred_options_new location_url =
     \<lparr>do_location_url = location_url, do_interaction_url = None, do_interaction_code = None,
      do_on_interaction = None, do_on_clarification = None, do_max_poll_duration_secs = None\<rparr>"

definition do_interaction :: "string \<Rightarrow> string \<Rightarrow> 'w deferred_options \<Rightarrow> 'w deferred_options" where
  "do_interaction url code opts = opts\<lparr>do_interaction_url := Some url, do_interaction_code := Some code\<rparr>"

record deferred_result =
  dr_response :: response
  dr_error :: "protocol_error option"

record 'w clock =
  ck_now :: "'w \<Rightarrow> nat"
  ck_sleep :: "u64 \<Rightarrow> 'w \<Rightarrow> 'w"

definition DEFAULT_MAX_POLL_DURATION :: u64 where "DEFAULT_MAX_POLL_DURATION = 300"
definition DEFAULT_PREFER_WAIT :: u64 where "DEFAULT_PREFER_WAIT = 45"

text \<open>\<^verbatim>\<open>seconds * 1000\<close> wraps in a release build.\<close>

definition retry_delay_from_secs :: "u64 option \<Rightarrow> u64 \<Rightarrow> u64" where
  "retry_delay_from_secs retry_after fallback_ms =
     (case retry_after of Some seconds \<Rightarrow> seconds * 1000 | None \<Rightarrow> fallback_ms)"

definition body_bytes :: "client_lib \<Rightarrow> response \<Rightarrow> failure + string" where
  "body_bytes C resp =
     map_err (\<lambda>m. AF_Error (AG_Metadata (ME_Request (cl_response_url C resp) m))) (cl_body C resp)"

definition split_error :: "client_lib \<Rightarrow> response \<Rightarrow> failure + deferred_result" where
  "split_error C resp =
     map_ok (\<lambda>bytes. \<lparr>dr_response = resp\<lparr>rs_body := bytes\<rparr>,
         dr_error = (if \<not> is_success (rs_status resp) \<and> headers_contain_json (rs_headers resp)
           then res_ok (from_slice (cl_json C) de_protocol_error bytes) else None)\<rparr>)
       (body_bytes C resp)"

definition json_request ::
    "client_lib \<Rightarrow> string \<Rightarrow> string \<Rightarrow> header_map \<Rightarrow> string \<Rightarrow> failure + out_request" where
  "json_request C meth url headers body =
     map_ok (\<lambda>u. \<lparr>or_method = meth, or_url = u, or_headers = headers, or_body = Some body\<rparr>)
       (or_panic (cl_request C url))"

definition tell_interaction ::
    "(string \<Rightarrow> string \<Rightarrow> 'w \<Rightarrow> 'w) option \<Rightarrow> (string \<times> string) option \<Rightarrow> ('w, failure, unit) action" where
  "tell_interaction on_interaction what w =
     (Ok (), case (on_interaction, what) of (Some f, Some (url, code)) \<Rightarrow> f url code w | _ \<Rightarrow> w)"

text \<open>The \<open>url\<close> and \<open>code\<close> of an interaction requirement.\<close>

definition interaction_header :: "header_map \<Rightarrow> (string \<times> string) option" where
  "interaction_header headers =
     (case header_value headers ''aauth-requirement'' of
        None \<Rightarrow> None
      | Some header \<Rightarrow>
          (case ch_from_header header of Inr (Ch_Interaction url code) \<Rightarrow> Some (url, code) | _ \<Rightarrow> None))"

definition answer_clarification ::
    "client_lib \<Rightarrow> 'w sender \<Rightarrow> 'w deferred_options \<Rightarrow> response \<Rightarrow> ('w, failure, unit) action" where
  "answer_clarification C send opts resp =
     (case (do_on_clarification opts, headers_contain_json (rs_headers resp),
            Option.bind (res_ok (cl_body C resp)) (\<lambda>b. res_ok (from_slice (cl_json C) de_clarification_challenge b))) of
        (Some f, True, Some c) \<Rightarrow>
          (\<lambda>w. case f (cl_clarification c) w of (answer, w') \<Rightarrow>
             seq (lift_res (json_request C ''POST'' (do_location_url opts) [(''content-type'', ''application/json'')]
                   (sj_print (cl_json C) (JObj [(''clarification_response'', JStr answer)])))) (\<lambda>rq.
             seq (send rq) (\<lambda>_. ret ())) w')
      | _ \<Rightarrow> ret ())"

text \<open>One turn of the loop ends the polling or asks for another turn with a new backoff.\<close>

datatype poll_turn = PT_Done deferred_result | PT_Again u64

definition sleep_for :: "'w clock \<Rightarrow> u64 \<Rightarrow> ('w, failure, unit) action" where
  "sleep_for K ms w = (Ok (), ck_sleep K ms w)"

definition poll_turn ::
    "client_lib \<Rightarrow> 'w clock \<Rightarrow> 'w sender \<Rightarrow> 'w deferred_options \<Rightarrow> u64 \<Rightarrow> ('w, failure, poll_turn) action" where
  "poll_turn C K send opts backoff_ms =
     seq (lift_res (json_request C ''GET'' (do_location_url opts)
            [(''prefer'', ''wait='' @ show_nat (unat DEFAULT_PREFER_WAIT))] [])) (\<lambda>rq.
     seq (send rq) (\<lambda>resp.
     let status = rs_status resp;
         retry_after = Option.bind (header_value (rs_headers resp) ''retry-after'') parse_u64;
         wait = sleep_for K (retry_delay_from_secs retry_after backoff_ms)
     in if status \<in> {200, 400, 401, 403, 408, 410, 500} then lift_res (map_ok PT_Done (split_error C resp))
        else if status = 202 then
          seq (answer_clarification C send opts resp) (\<lambda>_.
          seq (tell_interaction (do_on_interaction opts) (interaction_header (rs_headers resp))) (\<lambda>_.
          seq wait (\<lambda>_. ret (PT_Again (min (backoff_ms * 2) 5000)))))
        else if status = 503 then seq wait (\<lambda>_. ret (PT_Again (min (backoff_ms * 2) 30000)))
        else lift_res (map_ok PT_Done (split_error C resp))))"

partial_function (option) poll_loop ::
    "client_lib \<Rightarrow> 'w clock \<Rightarrow> 'w sender \<Rightarrow> 'w deferred_options \<Rightarrow> u64 \<Rightarrow> nat \<Rightarrow> u64 \<Rightarrow> 'w \<Rightarrow>
     ((failure + deferred_result) \<times> 'w) option" where
  "poll_loop C K send opts secs deadline backoff_ms w =
     (if ck_now K w < deadline then
        (case poll_turn C K send opts backoff_ms w of
           (Inl e, w') \<Rightarrow> Some (Err e, w')
         | (Inr (PT_Done r), w') \<Rightarrow> Some (Ok r, w')
         | (Inr (PT_Again b), w') \<Rightarrow> poll_loop C K send opts secs deadline b w')
      else Some (Err (AF_Error (AG_Deferred (DE_TimedOut secs))), w))"

definition poll_deferred_with ::
    "client_lib \<Rightarrow> 'w clock \<Rightarrow> 'w sender \<Rightarrow> 'w deferred_options \<Rightarrow> 'w \<Rightarrow>
     ((failure + deferred_result) \<times> 'w) option" where
  "poll_deferred_with C K send opts w =
     (let secs = (case do_max_poll_duration_secs opts of None \<Rightarrow> DEFAULT_MAX_POLL_DURATION | Some s \<Rightarrow> s) in
      case instant_add_secs (ck_now K w) secs of
        None \<Rightarrow> Some (Err AF_Panic, w)
      | Some deadline \<Rightarrow>
          (case tell_interaction (do_on_interaction opts)
                 (case (do_interaction_url opts, do_interaction_code opts) of
                    (Some url, Some code) \<Rightarrow> Some (url, code) | _ \<Rightarrow> None) w of
             (_, w') \<Rightarrow> poll_loop C K send opts secs deadline 1000 w'))"

section \<open>Polling ends\<close>

text \<open>
  Time does not run backwards: every exchange takes at least a millisecond, waits and
  callbacks take no negative time. A wait may be zero, for the servers of this repository
  ask for \<^verbatim>\<open>Retry-After: 0\<close>.
\<close>

definition time_passes :: "'w clock \<Rightarrow> 'w sender \<Rightarrow> 'w deferred_options \<Rightarrow> bool" where
  "time_passes K send opts \<longleftrightarrow>
     (\<forall>rq w. ck_now K w < ck_now K (snd (send rq w))) \<and>
     (\<forall>ms w. ck_now K w \<le> ck_now K (ck_sleep K ms w)) \<and>
     (\<forall>f url code w. do_on_interaction opts = Some f \<longrightarrow> ck_now K w \<le> ck_now K (f url code w)) \<and>
     (\<forall>f q w. do_on_clarification opts = Some f \<longrightarrow> ck_now K w \<le> ck_now K (snd (f q w)))"

lemma seq_cases:
  assumes "seq m f w = (r, w')"
  obtains e where "m w = (Inl e, w')" "r = Inl e"
  | a w1 where "m w = (Inr a, w1)" "f a w1 = (r, w')"
  using assms by (auto simp: seq_def split: prod.splits sum.splits)

lemma answer_time:
  assumes "time_passes K send opts" "answer_clarification C send opts resp w = (r, w')"
  shows "ck_now K w \<le> ck_now K w'"
proof -
  have s: "ck_now K v < ck_now K v'" if "send rq v = (x, v')" for rq v x v'
    using assms(1) that unfolding time_passes_def by (metis snd_conv)
  have f: "ck_now K v \<le> ck_now K v'" if "do_on_clarification opts = Some g" "g q v = (x, v')" for g q v x v'
    using assms(1) that unfolding time_passes_def by (metis snd_conv)
  show ?thesis using assms(2)
    by (auto simp: answer_clarification_def seq_def split: option.splits bool.splits prod.splits sum.splits
        dest!: s f intro: order_trans less_imp_le)
qed

lemma tell_time:
  "time_passes K send opts \<Longrightarrow> tell_interaction (do_on_interaction opts) what w = (r, w') \<Longrightarrow>
     ck_now K w \<le> ck_now K w' \<and> r = Ok ()"
  by (auto simp: tell_interaction_def time_passes_def split: option.splits)

lemma sleep_time: "time_passes K send opts \<Longrightarrow> sleep_for K ms w = (r, w') \<Longrightarrow> ck_now K w \<le> ck_now K w' \<and> r = Ok ()"
  by (auto simp: sleep_for_def time_passes_def)

lemma turn_time:
  assumes t: "time_passes K send opts" and "poll_turn C K send opts b w = (Ok (PT_Again b'), w')"
  shows "ck_now K w < ck_now K w'"
proof -
  obtain rq resp w1 where s: "send rq w = (Ok resp, w1)"
    and k: "rs_status resp = 202 \<and> (\<exists>w2 w3 w4. answer_clarification C send opts resp w1 = (Ok (), w2) \<and>
          tell_interaction (do_on_interaction opts) (interaction_header (rs_headers resp)) w2 = (Ok (), w3) \<and>
          (\<exists>ms. sleep_for K ms w3 = (Ok (), w4)) \<and> w' = w4) \<or>
        (\<exists>ms. sleep_for K ms w1 = (Ok (), w'))"
    using assms(2)
    by (auto simp: poll_turn_def Let_def map_ok_Ok elim!: seq_cases split: if_splits) blast+
  have l: "ck_now K w < ck_now K w1" using t s unfolding time_passes_def by (metis snd_conv)
  have "ck_now K w1 \<le> ck_now K w'"
    using k answer_time [OF t] tell_time [OF t] sleep_time [OF t] by (meson order_trans)
  with l show ?thesis by simp
qed

lemma turn_done:
  "poll_turn C K send opts b w = (Ok (PT_Done r), w') \<Longrightarrow> rs_status (dr_response r) \<notin> {202, 503}"
  by (auto simp: poll_turn_def Let_def map_ok_Ok split_error_def elim!: seq_cases split: if_splits)

lemma poll_loop_ends:
  assumes t: "time_passes K send opts"
  shows "\<exists>r w'. poll_loop C K send opts secs deadline b w = Some (r, w') \<and>
    (\<forall>d. r = Ok d \<longrightarrow> rs_status (dr_response d) \<notin> {202, 503})"
proof (induction "deadline - ck_now K w" arbitrary: w b rule: less_induct)
  case less
  note loop = poll_loop.simps [of C K send opts secs deadline b w]
  show ?case
  proof (cases "ck_now K w < deadline")
    case False
    then show ?thesis using loop by simp
  next
    case True
    obtain r w1 where p: "poll_turn C K send opts b w = (r, w1)" by (cases "poll_turn C K send opts b w")
    show ?thesis
    proof (cases r)
      case (Inl e)
      then show ?thesis using loop True p by simp
    next
      case (Inr turn)
      show ?thesis
      proof (cases turn)
        case (PT_Done d)
        then show ?thesis using loop True p Inr turn_done by simp
      next
        case (PT_Again b')
        have "ck_now K w < ck_now K w1" using turn_time [OF t] p Inr PT_Again by blast
        then have "\<exists>r w'. poll_loop C K send opts secs deadline b' w1 = Some (r, w') \<and>
            (\<forall>d. r = Ok d \<longrightarrow> rs_status (dr_response d) \<notin> {202, 503})"
          using True by (intro less.hyps) simp
        then show ?thesis using loop True p Inr PT_Again by simp
      qed
    qed
  qed
qed

text \<open>
  C25: polling always ends. If time passes with every exchange, the loop returns, whatever the
  server answers: a result only on a final status, never on 202 or 503, otherwise an error.
\<close>
theorem polling_terminates:
  assumes "time_passes K send opts"
  shows "\<exists>r w'. poll_deferred_with C K send opts w = Some (r, w') \<and>
    (\<forall>d. r = Ok d \<longrightarrow> rs_status (dr_response d) \<notin> {202, 503})"
  using poll_loop_ends [OF assms]
  by (auto simp: poll_deferred_with_def Let_def tell_interaction_def split: option.split)

definition sample_url :: url_parts where
  "sample_url = \<lparr>u_scheme = ''https'', u_username = [], u_password = None, u_host_str = Some ''r'',
     u_port = None, u_path = ''/'', u_query = None, u_fragment = None\<rparr>"

definition sample_client :: client_lib where
  "sample_client =
     \<lparr>cl_request = (\<lambda>_. Some sample_url), cl_parse = (\<lambda>_. Inr sample_url), cl_origin = (\<lambda>_. Inr ''https://r''),
      cl_url_string = (\<lambda>_. ''https://r/''), cl_join = (\<lambda>_ _. None), cl_body = (\<lambda>resp. Inr (rs_body resp)),
      cl_response_url = (\<lambda>_. ''https://p/token''),
      cl_json = \<lparr>sj_parse = (\<lambda>_. Some (JObj [(''auth_token'', JStr ''auth''), (''expires_in'', JInt 3600)])),
        sj_print = (\<lambda>_. []), sj_error = (\<lambda>_. [])\<rparr>\<rparr>"

text \<open>A server that never stops asking the agent to wait, at a millisecond per request.\<close>

definition waiting_server :: "nat sender" where
  "waiting_server rq t = (Ok \<lparr>rs_status = 202, rs_headers = [(''retry-after'', ''0'')], rs_body = []\<rparr>, t + 1)"

definition counting_clock :: "nat clock" where
  "counting_clock = \<lparr>ck_now = (\<lambda>t. t), ck_sleep = (\<lambda>ms t. t + unat ms)\<rparr>"

theorem polling_terminates_witness:
  "\<exists>r t. poll_deferred_with sample_client counting_clock waiting_server (deferred_options_new ''https://p/1'') 0 = Some (r, t) \<and>
     (\<forall>d. r = Ok d \<longrightarrow> rs_status (dr_response d) \<notin> {202, 503})"
  by (rule polling_terminates)
    (simp add: time_passes_def waiting_server_def counting_clock_def deferred_options_new_def)

end
