(* ===== verification/Token_Exchange.thy ===== *)
theory Token_Exchange
  imports Agent_Poll Metadata
begin

text \<open>
  Token exchange with the Person Server (\<^verbatim>\<open>aauth-reqwest/src/token_exchange.rs\<close>): discovery of
  its endpoint, the request, and the polling of a deferred answer.
\<close>

record token_exchange_result =
  ter_auth_token :: string
  ter_expires_in :: u64

record 'w exchange_options =
  teo_person_server_url :: string
  teo_person_server_metadata :: "person_server_metadata option"
  teo_on_metadata :: "(person_server_metadata \<Rightarrow> 'w \<Rightarrow> 'w) option"
  teo_resource_token :: string
  teo_justification :: "string option"
  teo_login_hint :: "string option"
  teo_tenant :: "string option"
  teo_domain_hint :: "string option"
  teo_capabilities :: "capability list option"
  teo_prompt :: "string option"
  teo_on_interaction :: "(string \<Rightarrow> string \<Rightarrow> 'w \<Rightarrow> 'w) option"
  teo_on_clarification :: "(string \<Rightarrow> 'w \<Rightarrow> string \<times> 'w) option"
  teo_max_poll_duration_secs :: "u64 option"

abbreviation metadata_failure :: "metadata_error \<Rightarrow> failure" where
  "metadata_failure e \<equiv> AF_Error (AG_Metadata e)"

abbreviation deferred_failure :: "deferred_error \<Rightarrow> failure" where
  "deferred_failure e \<equiv> AF_Error (AG_Deferred e)"

text \<open>The text of a \<open>TokenExchangeError\<close>.\<close>

definition exchange_error_msg :: "token_exchange_error \<Rightarrow> string" where
  "exchange_error_msg e =
     (case tee_aauth_error e of
        Some err \<Rightarrow> (case error_description err of Some d \<Rightarrow> d | None \<Rightarrow> ec_as_str (pe_error err))
      | None \<Rightarrow> ''Token exchange failed with status '' @ show_nat (unat (tee_status e)))"

definition fetch_person_metadata ::
    "client_lib \<Rightarrow> 'w sender \<Rightarrow> string \<Rightarrow> ('w, failure, person_server_metadata) action" where
  "fetch_person_metadata C send person_server_url =
     (let url = trim_end_matches (CHR ''/'') person_server_url @ ''/.well-known/aauth-person.json'' in
      seq (lift_res (json_request C ''GET'' url [] [])) (\<lambda>rq.
      seq (send rq) (\<lambda>resp.
      if \<not> is_success (rs_status resp) then fail (metadata_failure (ME_HttpStatus url (rs_status resp)))
      else lift_res
        (bind_res (map_err (\<lambda>m. metadata_failure (ME_Request url m)) (cl_body C resp)) (\<lambda>bytes.
         bind_res (map_err (\<lambda>m. metadata_failure (ME_Decode url m)) (from_slice (cl_json C) de_person_metadata bytes)) (\<lambda>metadata.
         map_ok (\<lambda>_. metadata) (map_err metadata_failure (person_metadata_validate metadata))))))))"

definition resolve_url :: "client_lib \<Rightarrow> string \<Rightarrow> string \<Rightarrow> string" where
  "resolve_url C base url =
     (if starts_with ''http://'' url \<or> starts_with ''https://'' url then url
      else case cl_join C base url of Some u \<Rightarrow> u | None \<Rightarrow> url)"

definition exchange_body :: "'w exchange_options \<Rightarrow> token_exchange_request" where
  "exchange_body opts =
     \<lparr>tx_resource_token = teo_resource_token opts, tx_upstream_token = None, tx_subagent_token = None,
      tx_justification = teo_justification opts, tx_login_hint = teo_login_hint opts,
      tx_tenant = teo_tenant opts, tx_domain_hint = teo_domain_hint opts,
      tx_capabilities = teo_capabilities opts, tx_prompt = teo_prompt opts, tx_platform = None,
      tx_device = None\<rparr>"

definition exchange_metadata ::
    "client_lib \<Rightarrow> 'w sender \<Rightarrow> 'w exchange_options \<Rightarrow> ('w, failure, person_server_metadata) action" where
  "exchange_metadata C send opts =
     (case teo_person_server_metadata opts of
        Some metadata \<Rightarrow> ret metadata
      | None \<Rightarrow>
          seq (fetch_person_metadata C send (teo_person_server_url opts)) (\<lambda>metadata w.
            (Ok metadata, case teo_on_metadata opts of None \<Rightarrow> w | Some f \<Rightarrow> f metadata w)))"

text \<open>The request for the token.\<close>

definition exchange_post ::
    "client_lib \<Rightarrow> 'w sender \<Rightarrow> 'w exchange_options \<Rightarrow> ('w, failure, response) action" where
  "exchange_post C send opts =
     seq (exchange_metadata C send opts) (\<lambda>metadata.
     seq (lift_res (json_request C ''POST'' (psm_token_endpoint metadata)
            [(''content-type'', ''application/json''), (''prefer'', ''wait=45'')]
            (sj_print (cl_json C) (en_token_exchange (exchange_body opts))))) send)"

definition read_token_result :: "client_lib \<Rightarrow> response \<Rightarrow> failure + token_exchange_result" where
  "read_token_result C resp =
     bind_res (body_bytes C resp) (\<lambda>bytes.
     map_ok (\<lambda>b. \<lparr>ter_auth_token = auth_token b, ter_expires_in = expires_in b\<rparr>)
       (map_err (\<lambda>m. metadata_failure (ME_Decode (cl_response_url C resp) m))
         (from_slice (cl_json C) de_token_response bytes)))"

definition parse_protocol_error :: "client_lib \<Rightarrow> response \<Rightarrow> protocol_error option" where
  "parse_protocol_error C resp =
     (if \<not> headers_contain_json (rs_headers resp) then None
      else Option.bind (res_ok (cl_body C resp)) (\<lambda>b. res_ok (from_slice (cl_json C) de_protocol_error b)))"

text \<open>A final answer, with the error that goes with it.\<close>

definition exchange_answer ::
    "client_lib \<Rightarrow> response \<Rightarrow> protocol_error option \<Rightarrow> failure + token_exchange_result" where
  "exchange_answer C resp err =
     (if is_success (rs_status resp) then read_token_result C resp
      else Err (AF_Error (AG_Exchange \<lparr>tee_status = rs_status resp, tee_aauth_error = err\<rparr>)))"

definition exchange_deferred_options ::
    "client_lib \<Rightarrow> 'w exchange_options \<Rightarrow> response \<Rightarrow> string \<Rightarrow> 'w deferred_options" where
  "exchange_deferred_options C opts resp location =
     (let base = deferred_options_new (resolve_url C (teo_person_server_url opts) location);
          opts' = (case interaction_header (rs_headers resp) of
             Some (url, code) \<Rightarrow> do_interaction url code base | None \<Rightarrow> base)
      in opts'\<lparr>do_on_interaction := teo_on_interaction opts, do_on_clarification := teo_on_clarification opts,
           do_max_poll_duration_secs := teo_max_poll_duration_secs opts\<rparr>)"

definition exchange_token_with ::
    "client_lib \<Rightarrow> 'w clock \<Rightarrow> 'w sender \<Rightarrow> 'w exchange_options \<Rightarrow> 'w \<Rightarrow>
     ((failure + token_exchange_result) \<times> 'w) option" where
  "exchange_token_with C K send opts w =
     (case exchange_post C send opts w of
        (Inl e, w') \<Rightarrow> Some (Err e, w')
      | (Inr resp, w') \<Rightarrow>
          if rs_status resp = 202 then
            (case header_value (rs_headers resp) ''location'' of
               None \<Rightarrow> Some (Err (deferred_failure DE_MissingLocation), w')
             | Some location \<Rightarrow>
                 map_option (\<lambda>(r, w''). (bind_res r (\<lambda>d. exchange_answer C (dr_response d) (dr_error d)), w''))
                   (poll_deferred_with C K send (exchange_deferred_options C opts resp location) w'))
          else Some (exchange_answer C resp (parse_protocol_error C resp), w'))"

section \<open>What an exchange returns\<close>

text \<open>
  Exchange returns as polling does, and a token it returns was read from the body of a
  successful response.
\<close>

lemma exchange_returns:
  assumes "\<And>opts. do_on_interaction opts = teo_on_interaction x \<Longrightarrow>
      do_on_clarification opts = teo_on_clarification x \<Longrightarrow> time_passes K send opts"
  shows "\<exists>r w'. exchange_token_with C K send x w = Some (r, w')"
proof -
  have p: "\<exists>r w'. poll_deferred_with C K send (exchange_deferred_options C x resp location) v = Some (r, w')"
    for resp location v
  proof -
    have "time_passes K send (exchange_deferred_options C x resp location)"
      by (rule assms) (simp_all add: exchange_deferred_options_def Let_def)
    from poll_loop_ends [OF this] show ?thesis
      by (fastforce simp: poll_deferred_with_def Let_def tell_interaction_def split: option.split)
  qed
  obtain r v where "exchange_post C send x w = (r, v)" by (cases "exchange_post C send x w")
  then show ?thesis using p by (fastforce simp: exchange_token_with_def split: sum.splits option.splits)
qed

lemma exchange_answer_ok:
  assumes "exchange_answer C resp err = Ok t"
  shows "is_success (rs_status resp) \<and>
    (\<exists>bytes b. cl_body C resp = Inr bytes \<and> from_slice (cl_json C) de_token_response bytes = Inr b \<and>
       ter_auth_token t = auth_token b \<and> ter_expires_in t = expires_in b)"
  using assms
  by (auto simp: exchange_answer_def read_token_result_def body_bytes_def bind_res_Ok map_ok_Ok map_err_Ok
      split: if_splits)

end
