(* ===== verification/Agent_Options.thy ===== *)
theory Agent_Options
  imports Token_Exchange
begin

text \<open>
  The agent's configuration (\<^verbatim>\<open>AgentOptions\<close> and its builder in \<^verbatim>\<open>aauth/src/agent/auth.rs\<close>). A
  setter of the builder is a constructor of \<open>agent_setting\<close>; a chain of calls is a list of
  settings, applied in order. Of the callback for opaque tokens only its presence matters.
\<close>

section \<open>Options\<close>

record 'w agent_options =
  ao_provider :: "'w \<Rightarrow> (aauth_error + signing_material) \<times> 'w"
  ao_person_server_url :: "string option"
  ao_person_server_metadata :: "person_server_metadata option"
  ao_opaque_token :: "string option"
  ao_scope :: "string option"
  ao_capabilities :: "capability list option"
  ao_mission :: "mission option"
  ao_justification :: "string option"
  ao_login_hint :: "string option"
  ao_tenant :: "string option"
  ao_domain_hint :: "string option"
  ao_prompt :: "string option"
  ao_on_metadata :: "(person_server_metadata \<Rightarrow> 'w \<Rightarrow> 'w) option"
  ao_on_auth_token :: "(string \<Rightarrow> u64 \<Rightarrow> 'w \<Rightarrow> 'w) option"
  ao_on_opaque_token :: bool
  ao_on_interaction :: "(string \<Rightarrow> string \<Rightarrow> 'w \<Rightarrow> 'w) option"
  ao_on_clarification :: "(string \<Rightarrow> 'w \<Rightarrow> string \<times> 'w) option"
  ao_max_poll_duration_secs :: "u64 option"
  ao_metadata_fetcher :: fetcher
  ao_verify_auth_signature :: bool

section \<open>The builder\<close>

record 'w agent_options_builder =
  ab_provider :: "'w \<Rightarrow> (aauth_error + signing_material) \<times> 'w"
  ab_person_server_url :: "string option"
  ab_person_server_metadata :: "person_server_metadata option"
  ab_opaque_token :: "string option"
  ab_scope :: "string option"
  ab_capabilities :: "capability list option"
  ab_mission :: "mission option"
  ab_justification :: "string option"
  ab_login_hint :: "string option"
  ab_tenant :: "string option"
  ab_domain_hint :: "string option"
  ab_prompt :: "string option"
  ab_on_metadata :: "(person_server_metadata \<Rightarrow> 'w \<Rightarrow> 'w) option"
  ab_on_auth_token :: "(string \<Rightarrow> u64 \<Rightarrow> 'w \<Rightarrow> 'w) option"
  ab_on_opaque_token :: bool
  ab_on_interaction :: "(string \<Rightarrow> string \<Rightarrow> 'w \<Rightarrow> 'w) option"
  ab_on_clarification :: "(string \<Rightarrow> 'w \<Rightarrow> string \<times> 'w) option"
  ab_max_poll_duration_secs :: "u64 option"
  ab_metadata_fetcher :: fetcher
  ab_verify_auth_signature :: bool

definition agent_options_builder_new ::
    "('w \<Rightarrow> (aauth_error + signing_material) \<times> 'w) \<Rightarrow> 'w agent_options_builder" where
  "agent_options_builder_new provider =
     \<lparr>ab_provider = provider, ab_person_server_url = None, ab_person_server_metadata = None,
      ab_opaque_token = None, ab_scope = None, ab_capabilities = None, ab_mission = None,
      ab_justification = None, ab_login_hint = None, ab_tenant = None, ab_domain_hint = None,
      ab_prompt = None, ab_on_metadata = None, ab_on_auth_token = None, ab_on_opaque_token = False,
      ab_on_interaction = None, ab_on_clarification = None, ab_max_poll_duration_secs = None,
      ab_metadata_fetcher = absent_metadata_fetcher, ab_verify_auth_signature = True\<rparr>"

datatype 'w agent_setting =
    Set_Person_Server_Url string
  | Set_Person_Server_Metadata person_server_metadata
  | Set_Opaque_Token string
  | Set_Scope string
  | Set_Capabilities "capability list"
  | Set_Mission mission
  | Set_Justification string
  | Set_Login_Hint string
  | Set_Tenant string
  | Set_Domain_Hint string
  | Set_Prompt string
  | Set_On_Metadata "person_server_metadata \<Rightarrow> 'w \<Rightarrow> 'w"
  | Set_On_Auth_Token "string \<Rightarrow> u64 \<Rightarrow> 'w \<Rightarrow> 'w"
  | Set_On_Opaque_Token
  | Set_On_Interaction "string \<Rightarrow> string \<Rightarrow> 'w \<Rightarrow> 'w"
  | Set_On_Clarification "string \<Rightarrow> 'w \<Rightarrow> string \<times> 'w"
  | Set_Max_Poll_Duration_Secs u64
  | Set_Verify_Auth_Signature bool
  | Set_Metadata_Fetcher fetcher

fun set_agent_option :: "'w agent_setting \<Rightarrow> 'w agent_options_builder \<Rightarrow> 'w agent_options_builder" where
  "set_agent_option (Set_Person_Server_Url url) b = b\<lparr>ab_person_server_url := Some url\<rparr>"
| "set_agent_option (Set_Person_Server_Metadata metadata) b = b\<lparr>ab_person_server_metadata := Some metadata\<rparr>"
| "set_agent_option (Set_Opaque_Token token) b = b\<lparr>ab_opaque_token := Some token\<rparr>"
| "set_agent_option (Set_Scope scope) b = b\<lparr>ab_scope := Some scope\<rparr>"
| "set_agent_option (Set_Capabilities capabilities) b = b\<lparr>ab_capabilities := Some capabilities\<rparr>"
| "set_agent_option (Set_Mission mission) b = b\<lparr>ab_mission := Some mission\<rparr>"
| "set_agent_option (Set_Justification justification) b = b\<lparr>ab_justification := Some justification\<rparr>"
| "set_agent_option (Set_Login_Hint login_hint) b = b\<lparr>ab_login_hint := Some login_hint\<rparr>"
| "set_agent_option (Set_Tenant tenant) b = b\<lparr>ab_tenant := Some tenant\<rparr>"
| "set_agent_option (Set_Domain_Hint domain_hint) b = b\<lparr>ab_domain_hint := Some domain_hint\<rparr>"
| "set_agent_option (Set_Prompt prompt) b = b\<lparr>ab_prompt := Some prompt\<rparr>"
| "set_agent_option (Set_On_Metadata callback) b = b\<lparr>ab_on_metadata := Some callback\<rparr>"
| "set_agent_option (Set_On_Auth_Token callback) b = b\<lparr>ab_on_auth_token := Some callback\<rparr>"
| "set_agent_option Set_On_Opaque_Token b = b\<lparr>ab_on_opaque_token := True\<rparr>"
| "set_agent_option (Set_On_Interaction callback) b = b\<lparr>ab_on_interaction := Some callback\<rparr>"
| "set_agent_option (Set_On_Clarification callback) b = b\<lparr>ab_on_clarification := Some callback\<rparr>"
| "set_agent_option (Set_Max_Poll_Duration_Secs secs) b = b\<lparr>ab_max_poll_duration_secs := Some secs\<rparr>"
| "set_agent_option (Set_Verify_Auth_Signature enabled) b = b\<lparr>ab_verify_auth_signature := enabled\<rparr>"
| "set_agent_option (Set_Metadata_Fetcher fetcher) b = b\<lparr>ab_metadata_fetcher := fetcher\<rparr>"

definition build_agent_options :: "'w agent_options_builder \<Rightarrow> 'w agent_options" where
  "build_agent_options b =
     \<lparr>ao_provider = ab_provider b, ao_person_server_url = ab_person_server_url b,
      ao_person_server_metadata = ab_person_server_metadata b, ao_opaque_token = ab_opaque_token b,
      ao_scope = ab_scope b, ao_capabilities = ab_capabilities b, ao_mission = ab_mission b,
      ao_justification = ab_justification b, ao_login_hint = ab_login_hint b,
      ao_tenant = ab_tenant b, ao_domain_hint = ab_domain_hint b, ao_prompt = ab_prompt b,
      ao_on_metadata = ab_on_metadata b, ao_on_auth_token = ab_on_auth_token b,
      ao_on_opaque_token = ab_on_opaque_token b, ao_on_interaction = ab_on_interaction b,
      ao_on_clarification = ab_on_clarification b,
      ao_max_poll_duration_secs = ab_max_poll_duration_secs b,
      ao_metadata_fetcher = ab_metadata_fetcher b,
      ao_verify_auth_signature = ab_verify_auth_signature b\<rparr>"

text \<open>\<^verbatim>\<open>AgentOptions::builder(provider)\<close>, the calls of its setters, and \<^verbatim>\<open>build()\<close>.\<close>

definition configured_agent ::
    "('w \<Rightarrow> (aauth_error + signing_material) \<times> 'w) \<Rightarrow> 'w agent_setting list \<Rightarrow> 'w agent_options" where
  "configured_agent provider settings =
     build_agent_options (fold set_agent_option settings (agent_options_builder_new provider))"

end
