(* ===== verification/Exchange_Options.thy ===== *)
theory Exchange_Options
  imports Agent_Options
begin

text \<open>
  The options of a token exchange and their builder (\<^verbatim>\<open>TokenExchangeOptions\<close> in
  \<^verbatim>\<open>aauth-reqwest/src/token_exchange.rs\<close>): a setter of the builder is a constructor of
  \<open>exchange_setting\<close>, and the options an agent exchanges with are built setter by setter.
\<close>

section \<open>The builder\<close>

record 'w exchange_options_builder =
  xb_person_server_url :: string
  xb_resource_token :: string
  xb_person_server_metadata :: "person_server_metadata option"
  xb_on_metadata :: "(person_server_metadata \<Rightarrow> 'w \<Rightarrow> 'w) option"
  xb_justification :: "string option"
  xb_login_hint :: "string option"
  xb_tenant :: "string option"
  xb_domain_hint :: "string option"
  xb_capabilities :: "capability list option"
  xb_prompt :: "string option"
  xb_on_interaction :: "(string \<Rightarrow> string \<Rightarrow> 'w \<Rightarrow> 'w) option"
  xb_on_clarification :: "(string \<Rightarrow> 'w \<Rightarrow> string \<times> 'w) option"
  xb_max_poll_duration_secs :: "u64 option"

definition exchange_options_builder_new :: "string \<Rightarrow> string \<Rightarrow> 'w exchange_options_builder" where
  "exchange_options_builder_new person_server_url resource_token =
     \<lparr>xb_person_server_url = person_server_url, xb_resource_token = resource_token,
      xb_person_server_metadata = None, xb_on_metadata = None, xb_justification = None, xb_login_hint = None,
      xb_tenant = None, xb_domain_hint = None, xb_capabilities = None, xb_prompt = None,
      xb_on_interaction = None, xb_on_clarification = None, xb_max_poll_duration_secs = None\<rparr>"

datatype 'w exchange_setting =
    Exchange_Metadata person_server_metadata
  | Exchange_On_Metadata "person_server_metadata \<Rightarrow> 'w \<Rightarrow> 'w"
  | Exchange_Justification string
  | Exchange_Login_Hint string
  | Exchange_Tenant string
  | Exchange_Domain_Hint string
  | Exchange_Capabilities "capability list"
  | Exchange_Prompt string
  | Exchange_On_Interaction "string \<Rightarrow> string \<Rightarrow> 'w \<Rightarrow> 'w"
  | Exchange_On_Clarification "string \<Rightarrow> 'w \<Rightarrow> string \<times> 'w"
  | Exchange_Max_Poll_Duration_Secs u64

fun set_exchange_option :: "'w exchange_setting \<Rightarrow> 'w exchange_options_builder \<Rightarrow> 'w exchange_options_builder" where
  "set_exchange_option (Exchange_Metadata metadata) b = b\<lparr>xb_person_server_metadata := Some metadata\<rparr>"
| "set_exchange_option (Exchange_On_Metadata callback) b = b\<lparr>xb_on_metadata := Some callback\<rparr>"
| "set_exchange_option (Exchange_Justification justification) b = b\<lparr>xb_justification := Some justification\<rparr>"
| "set_exchange_option (Exchange_Login_Hint login_hint) b = b\<lparr>xb_login_hint := Some login_hint\<rparr>"
| "set_exchange_option (Exchange_Tenant tenant) b = b\<lparr>xb_tenant := Some tenant\<rparr>"
| "set_exchange_option (Exchange_Domain_Hint domain_hint) b = b\<lparr>xb_domain_hint := Some domain_hint\<rparr>"
| "set_exchange_option (Exchange_Capabilities capabilities) b = b\<lparr>xb_capabilities := Some capabilities\<rparr>"
| "set_exchange_option (Exchange_Prompt prompt) b = b\<lparr>xb_prompt := Some prompt\<rparr>"
| "set_exchange_option (Exchange_On_Interaction callback) b = b\<lparr>xb_on_interaction := Some callback\<rparr>"
| "set_exchange_option (Exchange_On_Clarification callback) b = b\<lparr>xb_on_clarification := Some callback\<rparr>"
| "set_exchange_option (Exchange_Max_Poll_Duration_Secs secs) b = b\<lparr>xb_max_poll_duration_secs := Some secs\<rparr>"

definition build_exchange_options :: "'w exchange_options_builder \<Rightarrow> 'w exchange_options" where
  "build_exchange_options b =
     \<lparr>teo_person_server_url = xb_person_server_url b, teo_person_server_metadata = xb_person_server_metadata b,
      teo_on_metadata = xb_on_metadata b, teo_resource_token = xb_resource_token b,
      teo_justification = xb_justification b, teo_login_hint = xb_login_hint b, teo_tenant = xb_tenant b,
      teo_domain_hint = xb_domain_hint b, teo_capabilities = xb_capabilities b, teo_prompt = xb_prompt b,
      teo_on_interaction = xb_on_interaction b, teo_on_clarification = xb_on_clarification b,
      teo_max_poll_duration_secs = xb_max_poll_duration_secs b\<rparr>"

section \<open>The options of an agent\<close>

text \<open>A setter is called only for what the agent's options hold.\<close>

definition set_if :: "('a \<Rightarrow> 'w exchange_setting) \<Rightarrow> 'a option \<Rightarrow> 'w exchange_options_builder \<Rightarrow> 'w exchange_options_builder" where
  "set_if setting value builder = (case value of None \<Rightarrow> builder | Some v \<Rightarrow> set_exchange_option (setting v) builder)"

definition agent_exchange_options :: "'w agent_options \<Rightarrow> string \<Rightarrow> string \<Rightarrow> 'w exchange_options" where
  "agent_exchange_options opts person_server_url resource_token =
     (let builder = exchange_options_builder_new person_server_url resource_token;
          builder = set_if Exchange_Metadata (ao_person_server_metadata opts) builder;
          builder = set_if Exchange_On_Metadata (ao_on_metadata opts) builder;
          builder = set_if Exchange_Justification (ao_justification opts) builder;
          builder = set_if Exchange_Login_Hint (ao_login_hint opts) builder;
          builder = set_if Exchange_Tenant (ao_tenant opts) builder;
          builder = set_if Exchange_Domain_Hint (ao_domain_hint opts) builder;
          builder = set_if Exchange_Capabilities (ao_capabilities opts) builder;
          builder = set_if Exchange_Prompt (ao_prompt opts) builder;
          builder = set_if Exchange_On_Interaction (ao_on_interaction opts) builder;
          builder = set_if Exchange_On_Clarification (ao_on_clarification opts) builder;
          builder = set_if Exchange_Max_Poll_Duration_Secs (ao_max_poll_duration_secs opts) builder
      in build_exchange_options builder)"

lemma set_if_simps:
  "xb_person_server_metadata b = None \<Longrightarrow> set_if Exchange_Metadata x1 b = b\<lparr>xb_person_server_metadata := x1\<rparr>"
  "xb_on_metadata b = None \<Longrightarrow> set_if Exchange_On_Metadata x2 b = b\<lparr>xb_on_metadata := x2\<rparr>"
  "xb_justification b = None \<Longrightarrow> set_if Exchange_Justification x3 b = b\<lparr>xb_justification := x3\<rparr>"
  "xb_login_hint b = None \<Longrightarrow> set_if Exchange_Login_Hint x4 b = b\<lparr>xb_login_hint := x4\<rparr>"
  "xb_tenant b = None \<Longrightarrow> set_if Exchange_Tenant x5 b = b\<lparr>xb_tenant := x5\<rparr>"
  "xb_domain_hint b = None \<Longrightarrow> set_if Exchange_Domain_Hint x6 b = b\<lparr>xb_domain_hint := x6\<rparr>"
  "xb_capabilities b = None \<Longrightarrow> set_if Exchange_Capabilities x7 b = b\<lparr>xb_capabilities := x7\<rparr>"
  "xb_prompt b = None \<Longrightarrow> set_if Exchange_Prompt x8 b = b\<lparr>xb_prompt := x8\<rparr>"
  "xb_on_interaction b = None \<Longrightarrow> set_if Exchange_On_Interaction x9 b = b\<lparr>xb_on_interaction := x9\<rparr>"
  "xb_on_clarification b = None \<Longrightarrow> set_if Exchange_On_Clarification x10 b = b\<lparr>xb_on_clarification := x10\<rparr>"
  "xb_max_poll_duration_secs b = None \<Longrightarrow>
     set_if Exchange_Max_Poll_Duration_Secs x11 b = b\<lparr>xb_max_poll_duration_secs := x11\<rparr>"
  by (simp_all add: set_if_def split: option.split)

text \<open>Every option of the agent arrives in the exchange under its own name.\<close>

lemma agent_exchange_options_eq:
  "agent_exchange_options opts person_server_url resource_token =
     \<lparr>teo_person_server_url = person_server_url,
      teo_person_server_metadata = ao_person_server_metadata opts, teo_on_metadata = ao_on_metadata opts,
      teo_resource_token = resource_token, teo_justification = ao_justification opts,
      teo_login_hint = ao_login_hint opts, teo_tenant = ao_tenant opts, teo_domain_hint = ao_domain_hint opts,
      teo_capabilities = ao_capabilities opts, teo_prompt = ao_prompt opts,
      teo_on_interaction = ao_on_interaction opts, teo_on_clarification = ao_on_clarification opts,
      teo_max_poll_duration_secs = ao_max_poll_duration_secs opts\<rparr>"
  by (simp add: agent_exchange_options_def Let_def exchange_options_builder_new_def set_if_simps build_exchange_options_def)

end
