(* ===== verification/Agent_Middleware.thy ===== *)
theory Agent_Middleware
  imports Exchange_Options
begin

text \<open>
  The agent's middleware (\<^verbatim>\<open>aauth-reqwest/src/middleware\<close>): signing of an attempt, proactive
  authorization, and the loop that retries a request until the state machine of \<open>Agent_Auth\<close>
  is finished with it. The state is the pair of the world and the shared \<^verbatim>\<open>AgentAuth\<close>; a run
  that does not return is \<open>None\<close>.
\<close>

section \<open>The agent\<close>

definition static_provider :: "signing_material \<Rightarrow> 'w \<Rightarrow> (aauth_error + signing_material) \<times> 'w" where
  "static_provider material w = (Ok material, w)"

definition agent_auth_from_options :: "'w agent_options \<Rightarrow> agent_auth" where
  "agent_auth_from_options opts =
     agent_auth_new (ao_person_server_url opts) (ao_opaque_token opts) (ao_on_opaque_token opts)"

text \<open>
  \<open>ag_next\<close> is the rest of the middleware chain and the network, \<open>ag_get\<close> the unsigned GET of
  the middleware's own client, \<open>ag_unix\<close> the system clock in seconds.
\<close>

record ('w, 'p, 's, 'key) agent =
  ag_opts :: "'w agent_options"
  ag_client :: client_lib
  ag_clock :: "'w clock"
  ag_http :: "('p, 's) httpsig_lib"
  ag_jwt :: "'key jwt_lib"
  ag_up :: "string \<Rightarrow> string"
  ag_low :: "string \<Rightarrow> string"
  ag_unix :: "'w \<Rightarrow> u64"
  ag_order :: key_order
  ag_next :: "agent_auth_attempt \<Rightarrow> out_request \<Rightarrow> 'w \<Rightarrow> (middleware_error + response) \<times> 'w"
  ag_get :: "string \<Rightarrow> 'w \<Rightarrow> (string + response) \<times> 'w"

section \<open>Signing an attempt (\<^verbatim>\<open>middleware/signing.rs\<close>)\<close>

definition layer_failure :: "agent_error \<Rightarrow> failure" where
  "layer_failure e = AF_Error (from_middleware_error (MW_Middleware (Inl e)))"

definition signed_attempt ::
    "('w, 'p, 's, 'key) agent \<Rightarrow> u64 \<Rightarrow> signing_material \<Rightarrow> agent_auth_attempt \<Rightarrow> out_request \<Rightarrow>
     failure + out_request" where
  "signed_attempt A now material attempt rq =
     (case attempt of
        AA_AuthToken token \<Rightarrow>
          map_err layer_failure (outgoing_sign_with_auth_token (ag_http A) (ag_up A) now material token rq)
      | AA_OpaqueToken token \<Rightarrow>
          bind_res (apply_opaque_token token rq) (\<lambda>rq.
          map_err layer_failure (outgoing_sign (ag_http A) (ag_up A) now material rq))
      | AA_AgentSigned \<Rightarrow> map_err layer_failure (outgoing_sign (ag_http A) (ag_up A) now material rq))"

definition sign_and_run ::
    "('w, 'p, 's, 'key) agent \<Rightarrow> agent_auth_attempt \<Rightarrow> out_request \<Rightarrow> ('w, failure, response) action" where
  "sign_and_run A attempt rq =
     seq (err_as (\<lambda>e. layer_failure (AG_Aauth e)) (ao_provider (ag_opts A))) (\<lambda>material.
     seq (lift_res (signing_apply_to
            \<lparr>so_capabilities = ao_capabilities (ag_opts A), so_mission = ao_mission (ag_opts A)\<rparr> rq)) (\<lambda>rq.
     seq (\<lambda>w. lift_res (signed_attempt A (ag_unix A w) material attempt rq) w) (\<lambda>rq.
     err_as (\<lambda>e. AF_Error (from_middleware_error e)) (ag_next A attempt rq))))"

text \<open>The layer on its own takes the attempt from the request's extensions.\<close>

definition signing_handle ::
    "('w, 'p, 's, 'key) agent \<Rightarrow> agent_auth_attempt option \<Rightarrow> out_request \<Rightarrow> ('w, failure, response) action" where
  "signing_handle A extension rq =
     sign_and_run A (case extension of None \<Rightarrow> AA_AgentSigned | Some attempt \<Rightarrow> attempt) rq"

definition agent_send :: "('w, 'p, 's, 'key) agent \<Rightarrow> 'w sender" where
  "agent_send A rq = sign_and_run A AA_AgentSigned rq"

section \<open>Deferred answers (\<^verbatim>\<open>middleware/agent.rs\<close>)\<close>

definition agent_deferred_options ::
    "'w agent_options \<Rightarrow> string \<Rightarrow> (string \<times> string) option \<Rightarrow> 'w deferred_options" where
  "agent_deferred_options opts location_url interaction =
     (let base = deferred_options_new location_url;
          with_interaction = (case interaction of Some (url, code) \<Rightarrow> do_interaction url code base | None \<Rightarrow> base)
      in with_interaction\<lparr>do_on_interaction := ao_on_interaction opts,
           do_on_clarification := ao_on_clarification opts,
           do_max_poll_duration_secs := ao_max_poll_duration_secs opts\<rparr>)"

definition location_header :: "response \<Rightarrow> failure + string" where
  "location_header resp =
     ok_or (header_value (rs_headers resp) ''location'') (deferred_failure DE_MissingLocation)"

text \<open>Polling on behalf of the middleware; the state machine is shared, not held.\<close>

definition poll_for ::
    "('w, 'p, 's, 'key) agent \<Rightarrow> response \<Rightarrow> 'w \<Rightarrow> ((failure + deferred_result) \<times> 'w) option" where
  "poll_for A resp w =
     (case location_header resp of
        Inl e \<Rightarrow> Some (Err e, w)
      | Inr location \<Rightarrow>
          poll_deferred_with (ag_client A) (ag_clock A) (agent_send A)
            (agent_deferred_options (ag_opts A) location (interaction_header (rs_headers resp))) w)"

definition agent_observe ::
    "('w, 'p, 's, 'key) agent \<Rightarrow> string \<Rightarrow> agent_auth_attempt \<Rightarrow> response \<Rightarrow>
     ('w \<times> agent_auth, failure, agent_auth_step) action" where
  "agent_observe A origin attempt resp = (\<lambda>(w, a).
     case observe_response (ag_order A) origin attempt (rs_status resp) (rs_headers resp) a of
       (r, a') \<Rightarrow> (map_err (\<lambda>e. AF_Error (AG_Aauth e)) r, (w, a')))"

definition on_world :: "('w, 'e, 'a) action \<Rightarrow> ('w \<times> 'm, 'e, 'a) action" where
  "on_world m = (\<lambda>(w, a). case m w of (r, w') \<Rightarrow> (r, (w', a)))"

section \<open>Proactive authorization\<close>

text \<open>
  \<open>authorize_endpoint\<close>: the endpoint the resource advertises, or nothing; a document that
  cannot be had is ignored.
\<close>

definition authorize_endpoint ::
    "('w, 'p, 's, 'key) agent \<Rightarrow> string \<Rightarrow> 'w \<Rightarrow> string option \<times> 'w" where
  "authorize_endpoint A origin w =
     (case ag_get A (trim_end_matches (CHR ''/'') origin @ ''/.well-known/aauth-resource.json'') w of
        (Inl _, w') \<Rightarrow> (None, w')
      | (Inr resp, w') \<Rightarrow>
          (if is_success (rs_status resp)
           then Option.bind (Option.bind (res_ok (cl_body (ag_client A) resp)) (\<lambda>b.
                  res_ok (from_slice (cl_json (ag_client A)) de_resource_metadata b))) rsm_authorization_endpoint
           else None, w'))"

definition authorize_request :: "('w, 'p, 's, 'key) agent \<Rightarrow> string \<Rightarrow> failure + out_request" where
  "authorize_request A endpoint =
     map_ok (\<lambda>u. \<lparr>or_method = ''POST'', or_url = u, or_headers = [(''content-type'', ''application/json'')],
         or_body = Some (sj_print (cl_json (ag_client A))
           (JObj [(''scope'', JStr (case ao_scope (ag_opts A) of None \<Rightarrow> [] | Some s \<Rightarrow> s))]))\<rparr>)
       (map_err (\<lambda>m. AF_Error (AG_Auth (AE_InvalidOrigin m))) (cl_parse (ag_client A) endpoint))"

definition try_proactive_authorize ::
    "('w, 'p, 's, 'key) agent \<Rightarrow> string \<Rightarrow> 'w \<times> agent_auth \<Rightarrow> ((failure + unit) \<times> ('w \<times> agent_auth)) option" where
  "try_proactive_authorize A origin = (\<lambda>(w, a).
     case begin_authorize_attempt origin a of
       (False, a') \<Rightarrow> Some (Ok (), (w, a'))
     | (True, a') \<Rightarrow>
         (case authorize_endpoint A origin w of
            (None, w') \<Rightarrow> Some (Ok (), (w', a'))
          | (Some endpoint, w') \<Rightarrow>
              (case seq (lift_res (authorize_request A endpoint)) (\<lambda>rq.
                    seq (on_world (agent_send A rq)) (\<lambda>resp.
                    seq (agent_observe A origin AA_AgentSigned resp) (\<lambda>step. ret (resp, step)))) (w', a') of
                 (Inl e, s) \<Rightarrow> Some (Err e, s)
               | (Inr (resp, step), (w'', a'')) \<Rightarrow>
                   if step = AS_PollDeferred then
                     map_option (\<lambda>(r, w3).
                       case r of
                         Inl e \<Rightarrow> (Err e, (w3, a''))
                       | Inr d \<Rightarrow> seq (agent_observe A origin AA_AgentSigned (dr_response d)) (\<lambda>_. ret ()) (w3, a''))
                       (poll_for A resp w'')
                   else Some (Ok (), (w'', a'')))))"

section \<open>Exchange\<close>

abbreviation aauth_failure :: "aauth_error \<Rightarrow> failure" where
  "aauth_failure e \<equiv> AF_Error (AG_Aauth e)"

record challenge_facts =
  cf_agent_sub :: string
  cf_agent_jkt :: string
  cf_claims :: resource_claims
  cf_person_server_url :: string

text \<open>What is checked before the challenge is taken to the Person Server.\<close>

definition accept_challenge ::
    "('w, 'p, 's, 'key) agent \<Rightarrow> string \<Rightarrow> u64 \<Rightarrow> string \<Rightarrow> signing_material \<Rightarrow> failure + challenge_facts" where
  "accept_challenge A origin now resource_token material =
     bind_res (map_err aauth_failure (agent_jwt_from_signature_key (sm_signature_key material))) (\<lambda>agent_jwt.
     bind_res (map_err aauth_failure (parse_token (ag_jwt A) agent_jwt)) (\<lambda>p.
     bind_res (case p of PT_Agent agent \<Rightarrow> Ok (claims_identifier agent)
               | _ \<Rightarrow> Err (AF_Error (AG_Auth AE_ExpectedAgentJwt))) (\<lambda>agent_sub.
     bind_res (map_err aauth_failure
                (jwk_thumbprint (ag_jwt A) (signing_public_jwk (sm_signing_jwk material)))) (\<lambda>agent_jkt.
     bind_res (map_err aauth_failure (verify_resource_challenge (ag_jwt A) (ag_low A)
                (ao_metadata_fetcher (ag_opts A)) now resource_token origin agent_sub agent_jkt)) (\<lambda>claims.
     bind_res (map_err aauth_failure
                (resolve_person_server_url (ag_jwt A) (ao_person_server_url (ag_opts A)) agent_jwt)) (\<lambda>url.
     Ok \<lparr>cf_agent_sub = agent_sub, cf_agent_jkt = agent_jkt, cf_claims = claims,
         cf_person_server_url = url\<rparr>))))))"

text \<open>The token of an exchange is checked, cached and told to the callback.\<close>

definition accept_token ::
    "('w, 'p, 's, 'key) agent \<Rightarrow> string \<Rightarrow> challenge_facts \<Rightarrow> token_exchange_result \<Rightarrow>
     ('w \<times> agent_auth, failure, unit) action" where
  "accept_token A origin cf result = (\<lambda>(w, a).
     case verify_client_auth_token (ag_jwt A) (ag_low A) (ao_metadata_fetcher (ag_opts A)) (ag_unix A w)
            (ter_auth_token result) origin (rc_aud (cf_claims cf)) (cf_agent_sub cf) (cf_agent_jkt cf)
            (ao_verify_auth_signature (ag_opts A)) of
       Inl e \<Rightarrow> (Err (aauth_failure e), (w, a))
     | Inr _ \<Rightarrow>
         (case record_auth_token (ck_now (ag_clock A) w) origin (cf_person_server_url cf)
                 (ter_auth_token result) (ter_expires_in result) a of
            None \<Rightarrow> (Err AF_Panic, (w, a))
          | Some a' \<Rightarrow>
              (Ok (), (case ao_on_auth_token (ag_opts A) of
                  None \<Rightarrow> w | Some f \<Rightarrow> f (ter_auth_token result) (ter_expires_in result) w, a'))))"

definition exchange_step ::
    "('w, 'p, 's, 'key) agent \<Rightarrow> string \<Rightarrow> string \<Rightarrow> 'w \<times> agent_auth \<Rightarrow>
     ((failure + unit) \<times> ('w \<times> agent_auth)) option" where
  "exchange_step A origin resource_token = (\<lambda>(w, a).
     case seq (err_as aauth_failure (ao_provider (ag_opts A))) (\<lambda>material w'.
            lift_res (accept_challenge A origin (ag_unix A w') resource_token material) w') w of
       (Inl e, w') \<Rightarrow> Some (Err e, (w', a))
     | (Inr cf, w') \<Rightarrow>
         map_option (\<lambda>(r, w'').
           case r of Inl e \<Rightarrow> (Err e, (w'', a)) | Inr result \<Rightarrow> accept_token A origin cf result (w'', a))
           (exchange_token_with (ag_client A) (ag_clock A) (agent_send A)
             (agent_exchange_options (ag_opts A) (cf_person_server_url cf) resource_token) w'))"

section \<open>The retry loop\<close>

text \<open>One turn returns a response or asks for another attempt.\<close>

datatype agent_turn = AT_Return response | AT_Retry

definition react ::
    "('w, 'p, 's, 'key) agent \<Rightarrow> string \<Rightarrow> agent_auth_attempt \<Rightarrow> response \<Rightarrow> agent_auth_step \<Rightarrow>
     'w \<times> agent_auth \<Rightarrow> ((failure + agent_turn) \<times> ('w \<times> agent_auth)) option" where
  "react A origin attempt resp step = (\<lambda>(w, a).
     case step of
       AS_Finish \<Rightarrow> Some (Ok (AT_Return resp), (w, a))
     | AS_RetryWithOpaque \<Rightarrow> Some (Ok AT_Retry, (w, a))
     | AS_Invalidate _ \<Rightarrow> Some (Ok AT_Retry, (w, a))
     | AS_PollDeferred \<Rightarrow>
         map_option (\<lambda>(r, w').
           case r of
             Inl e \<Rightarrow> (Err e, (w', a))
           | Inr d \<Rightarrow>
               seq (agent_observe A origin attempt (dr_response d)) (\<lambda>step'.
                 ret (if step' = AS_Finish \<or> step' = AS_RetryWithOpaque then AT_Retry
                      else AT_Return (dr_response d))) (w', a))
           (poll_for A resp w)
     | AS_ExchangeToken resource_token \<Rightarrow>
         map_option (\<lambda>(r, s). (map_ok (\<lambda>_. AT_Retry) r, s)) (exchange_step A origin resource_token (w, a)))"

definition agent_attempt ::
    "('w, 'p, 's, 'key) agent \<Rightarrow> string \<Rightarrow> out_request \<Rightarrow>
     ('w \<times> agent_auth, failure, agent_auth_attempt \<times> response \<times> agent_auth_step) action" where
  "agent_attempt A origin rq = (\<lambda>(w, a).
     case next_attempt (ag_order A) (ck_now (ag_clock A) w) origin a of
       (attempt, a') \<Rightarrow>
         seq (on_world (sign_and_run A attempt rq)) (\<lambda>resp.
         seq (agent_observe A origin attempt resp) (\<lambda>step. ret (attempt, resp, step))) (w, a'))"

text \<open>A body that streams cannot be cloned for the attempt.\<close>

definition agent_turn ::
    "('w, 'p, 's, 'key) agent \<Rightarrow> bool \<Rightarrow> string \<Rightarrow> out_request \<Rightarrow> 'w \<times> agent_auth \<Rightarrow>
     ((failure + agent_turn) \<times> ('w \<times> agent_auth)) option" where
  "agent_turn A streaming origin rq s =
     (if streaming
      then Some (Err (AF_Error AG_BodyNotCloneable),
        (fst s, snd (next_attempt (ag_order A) (ck_now (ag_clock A) (fst s)) origin (snd s))))
      else case agent_attempt A origin rq s of
        (Inl e, s') \<Rightarrow> Some (Err e, s')
      | (Inr (attempt, resp, step), s') \<Rightarrow> react A origin attempt resp step s')"

partial_function (option) agent_loop ::
    "('w, 'p, 's, 'key) agent \<Rightarrow> bool \<Rightarrow> string \<Rightarrow> out_request \<Rightarrow> 'w \<times> agent_auth \<Rightarrow>
     ((failure + response) \<times> ('w \<times> agent_auth)) option" where
  "agent_loop A streaming origin rq s =
     Option.bind (agent_turn A streaming origin rq s) (\<lambda>(r, s').
       case r of
         Inl e \<Rightarrow> Some (Err e, s')
       | Inr (AT_Return resp) \<Rightarrow> Some (Ok resp, s')
       | Inr AT_Retry \<Rightarrow> agent_loop A streaming origin rq s')"

definition handle_inner ::
    "('w, 'p, 's, 'key) agent \<Rightarrow> bool \<Rightarrow> out_request \<Rightarrow> 'w \<times> agent_auth \<Rightarrow>
     ((failure + response) \<times> ('w \<times> agent_auth)) option" where
  "handle_inner A streaming rq = (\<lambda>(w, a).
     case resource_origin (cl_origin (ag_client A)) (cl_url_string (ag_client A) (or_url rq)) of
       Inl e \<Rightarrow> Some (Err (aauth_failure e), (w, a))
     | Inr origin \<Rightarrow>
         Option.bind (try_proactive_authorize A origin (w, seed_opaque origin a)) (\<lambda>(r, s).
           case r of
             Inl e \<Rightarrow> Some (Err e, s)
           | Inr _ \<Rightarrow> agent_loop A streaming origin rq s))"

section \<open>An exchanged token is a verified one\<close>

lemma accept_challenge_Ok:
  assumes "accept_challenge A origin now resource_token material = Ok cf"
  obtains jwt agent where "sm_signature_key material = SK_Jwt jwt" "parse_token (ag_jwt A) jwt = Ok (PT_Agent agent)"
    "cf_agent_sub cf = ag_sub agent"
    "jwk_thumbprint (ag_jwt A) (signing_public_jwk (sm_signing_jwk material)) = Ok (cf_agent_jkt cf)"
    "verify_resource_challenge (ag_jwt A) (ag_low A) (ao_metadata_fetcher (ag_opts A)) now resource_token origin
       (cf_agent_sub cf) (cf_agent_jkt cf) = Ok (cf_claims cf)"
proof -
  obtain jwt p sub jkt claims url where c:
    "agent_jwt_from_signature_key (sm_signature_key material) = Ok jwt" "parse_token (ag_jwt A) jwt = Ok p"
    "(case p of PT_Agent agent \<Rightarrow> Ok (claims_identifier agent) | _ \<Rightarrow> Err (AF_Error (AG_Auth AE_ExpectedAgentJwt))) = Ok sub"
    "jwk_thumbprint (ag_jwt A) (signing_public_jwk (sm_signing_jwk material)) = Ok jkt"
    "verify_resource_challenge (ag_jwt A) (ag_low A) (ao_metadata_fetcher (ag_opts A)) now resource_token origin
       sub jkt = Ok claims"
    "cf = \<lparr>cf_agent_sub = sub, cf_agent_jkt = jkt, cf_claims = claims, cf_person_server_url = url\<rparr>"
    using assms unfolding accept_challenge_def by (clarsimp simp: bind_res_Ok map_err_Ok)
  obtain agent where "p = PT_Agent agent" "sub = ag_sub agent"
    using c(3) by (cases p) (simp_all add: claims_identifier_def)
  moreover have "sm_signature_key material = SK_Jwt jwt"
    using c(1) by (cases "sm_signature_key material") simp_all
  ultimately show ?thesis using that c by simp
qed

lemma accept_token_Ok:
  assumes "accept_token A origin cf result (w, a) = (Ok (), (w', a'))"
  obtains auth where
    "verify_client_auth_token (ag_jwt A) (ag_low A) (ao_metadata_fetcher (ag_opts A)) (ag_unix A w)
       (ter_auth_token result) origin (rc_aud (cf_claims cf)) (cf_agent_sub cf) (cf_agent_jkt cf)
       (ao_verify_auth_signature (ag_opts A)) = Ok auth"
    "record_auth_token (ck_now (ag_clock A) w) origin (cf_person_server_url cf) (ter_auth_token result)
       (ter_expires_in result) a = Some a'"
  using assms that by (auto simp: accept_token_def split: sum.splits option.splits)

text \<open>
  C11: the agent caches a token only after it verified both ends of the exchange. If the
  exchange step succeeds, then with the signing material its provider gave at the start the
  challenge was checked to be signed by the resource that was called, for the identity in this
  material's agent token and the key of this material; and the one token that is cached is the
  answer of the exchange with the Person Server, was checked at its arrival against the
  audience the challenge names, this agent and this key (\<open>auth_token_bound\<close>: identifiers of
  servers up to normalisation), and is cached under that Person Server.
\<close>
theorem exchanged_token_verified:
  assumes "decode_agrees (ag_jwt A)"
    and "exchange_step A origin resource_token (w, a) = Some (Ok (), (w', a'))"
  shows "\<exists>(material :: signing_material) w1 jwt agent jkt claims ps result w2 auth.
    ao_provider (ag_opts A) w = (Ok material, w1) \<and>
    sm_signature_key material = SK_Jwt jwt \<and> parse_token (ag_jwt A) jwt = Ok (PT_Agent agent) \<and>
    jwk_thumbprint (ag_jwt A) (signing_public_jwk (sm_signing_jwk material)) = Ok jkt \<and>
    challenge_trusted (ag_jwt A) (ag_low A) (ao_metadata_fetcher (ag_opts A)) (ag_unix A w1) resource_token origin
      (ag_sub agent) jkt claims \<and>
    exchange_token_with (ag_client A) (ag_clock A) (agent_send A)
      (agent_exchange_options (ag_opts A) ps resource_token) w1 = Some (Ok result, w2) \<and>
    auth_token_bound (ag_jwt A) (ag_low A) (ao_metadata_fetcher (ag_opts A)) (ag_unix A w2) (ter_auth_token result)
      origin (rc_aud claims) (ag_sub agent) jkt (ao_verify_auth_signature (ag_opts A)) auth \<and>
    record_auth_token (ck_now (ag_clock A) w2) origin ps (ter_auth_token result) (ter_expires_in result) a = Some a'"
proof -
  obtain r v where s: "seq (err_as aauth_failure (ao_provider (ag_opts A))) (\<lambda>material w'.
      lift_res (accept_challenge A origin (ag_unix A w') resource_token material) w') w = (r, v)" by fastforce
  obtain cf where r: "r = Ok cf"
    using assms(2) s by (cases r) (auto simp: exchange_step_def)
  obtain material where m: "ao_provider (ag_opts A) w = (Ok material, v)"
    "accept_challenge A origin (ag_unix A v) resource_token material = Ok cf"
    using s r by (auto simp: err_as_def elim!: seq_cases split: prod.splits)
  obtain result v2 where x: "exchange_token_with (ag_client A) (ag_clock A) (agent_send A)
      (agent_exchange_options (ag_opts A) (cf_person_server_url cf) resource_token) v = Some (Ok result, v2)"
    "accept_token A origin cf result (v2, a) = (Ok (), (w', a'))"
  proof -
    obtain y v2 where y: "exchange_token_with (ag_client A) (ag_clock A) (agent_send A)
        (agent_exchange_options (ag_opts A) (cf_person_server_url cf) resource_token) v = Some (y, v2)"
      "(case y of Inl e \<Rightarrow> (Err e, (v2, a)) | Inr result \<Rightarrow> accept_token A origin cf result (v2, a)) = (Ok (), (w', a'))"
      using assms(2) s r by (auto simp: exchange_step_def)
    then show ?thesis using that by (cases y) simp_all
  qed
  obtain jwt agent where c: "sm_signature_key material = SK_Jwt jwt"
    "parse_token (ag_jwt A) jwt = Ok (PT_Agent agent)" "cf_agent_sub cf = ag_sub agent"
    "jwk_thumbprint (ag_jwt A) (signing_public_jwk (sm_signing_jwk material)) = Ok (cf_agent_jkt cf)"
    "verify_resource_challenge (ag_jwt A) (ag_low A) (ao_metadata_fetcher (ag_opts A)) (ag_unix A v) resource_token
       origin (cf_agent_sub cf) (cf_agent_jkt cf) = Ok (cf_claims cf)"
    by (rule accept_challenge_Ok [OF m(2)])
  obtain auth where t: "verify_client_auth_token (ag_jwt A) (ag_low A) (ao_metadata_fetcher (ag_opts A)) (ag_unix A v2)
       (ter_auth_token result) origin (rc_aud (cf_claims cf)) (cf_agent_sub cf) (cf_agent_jkt cf)
       (ao_verify_auth_signature (ag_opts A)) = Ok auth"
    "record_auth_token (ck_now (ag_clock A) v2) origin (cf_person_server_url cf) (ter_auth_token result)
       (ter_expires_in result) a = Some a'"
    by (rule accept_token_Ok [OF x(2)])
  note ch = verify_resource_challenge_sound [OF assms(1) c(5)]
  note au = verify_client_auth_token_sound [OF assms(1) t(1)]
  show ?thesis using m(1) c(1,2,4) ch x(1) au t(2) unfolding c(3) by blast
qed

section \<open>Retries\<close>

text \<open>
  \<open>gives_nothing\<close>: no answer of the resource hands the agent anything to go on with: no opaque
  token, no deferral, no challenge that asks for an exchange.
\<close>

definition gives_nothing :: "('w, 'p, 's, 'key) agent \<Rightarrow> out_request \<Rightarrow> bool" where
  "gives_nothing A rq \<longleftrightarrow>
     (\<forall>attempt w resp w'. sign_and_run A attempt rq w = (Ok resp, w') \<longrightarrow>
        access_token (rs_headers resp) = None \<and> rs_status resp \<noteq> 202 \<and>
        (\<forall>t. challenge_step (rs_headers resp) \<noteq> Ok (AS_ExchangeToken t)))"

lemma attempt_cases:
  assumes "agent_attempt A origin rq (w, a) = (Ok (attempt, resp, step), (w', a'))"
  obtains a1 where "next_attempt (ag_order A) (ck_now (ag_clock A) w) origin a = (attempt, a1)"
    "sign_and_run A attempt rq w = (Ok resp, w')"
    "observe_response (ag_order A) origin attempt (rs_status resp) (rs_headers resp) a1 = (Ok step, a')"
  using assms
  by (auto simp: agent_attempt_def on_world_def agent_observe_def map_err_Ok elim!: seq_cases split: prod.splits)

lemma nothing_step:
  assumes "gives_nothing A rq" "agent_attempt A origin rq (w, a) = (Ok (attempt, resp, step), (w', a'))"
    and "yields_keys (ag_order A)"
  shows "step = AS_Finish \<or> (\<exists>att. step = AS_Invalidate att) \<and> credentials origin a' < credentials origin a"
proof -
  obtain a1 where n: "next_attempt (ag_order A) (ck_now (ag_clock A) w) origin a = (attempt, a1)"
    "sign_and_run A attempt rq w = (Ok resp, w')"
    "observe_response (ag_order A) origin attempt (rs_status resp) (rs_headers resp) a1 = (Ok step, a')"
    using attempt_cases [OF assms(2)] .
  have g: "access_token (rs_headers resp) = None" "rs_status resp \<noteq> 202"
    "\<And>t. challenge_step (rs_headers resp) \<noteq> Ok (AS_ExchangeToken t)"
    using assms(1) n(2) unfolding gives_nothing_def by blast+
  have c: "challenge_step (rs_headers resp) = Ok s \<Longrightarrow> s = AS_Finish" for s
    using g(3) by (auto simp: challenge_step_def map_ok_Ok split: option.splits)
      (auto split: aauth_challenge.splits)
  have "step = AS_Finish \<or> (\<exists>att. step = AS_Invalidate att)"
    using n(3) g c by (auto simp: observe_response_def cache_opaque_from_headers_def
        split: if_splits agent_auth_attempt.splits)
  then show ?thesis using invalidate_credentials [OF assms(3) n(1)] n(3) by blast
qed

text \<open>
  C26: refusals are final after finitely many attempts. Against a resource that gives the agent
  nothing to go on with, the retry loop returns, for every cached credential is used up by
  being refused.
\<close>
theorem refused_request_returns:
  assumes "yields_keys (ag_order A)" and "gives_nothing A rq"
  shows "\<exists>r s'. agent_loop A streaming origin rq (w, a) = Some (r, s')"
proof (induction "credentials origin a" arbitrary: w a rule: less_induct)
  case less
  note loop = agent_loop.simps [of A streaming origin rq "(w, a)"]
  show ?case
  proof (cases streaming)
    case True
    then show ?thesis using loop by (simp add: agent_turn_def)
  next
    case False
    obtain r w1 a1 where t: "agent_attempt A origin rq (w, a) = (r, (w1, a1))"
      by (cases "agent_attempt A origin rq (w, a)") auto
    show ?thesis
    proof (cases r)
      case (Inl e)
      then show ?thesis using loop False t by (simp add: agent_turn_def)
    next
      case (Inr x)
      obtain attempt resp step where x: "x = (attempt, resp, step)" by (cases x)
      from nothing_step [OF assms(2) t [unfolded Inr x] assms(1)] show ?thesis
      proof
        assume "step = AS_Finish"
        then show ?thesis using loop False t Inr x by (simp add: agent_turn_def react_def)
      next
        assume i: "(\<exists>att. step = AS_Invalidate att) \<and> credentials origin a1 < credentials origin a"
        then have "agent_loop A streaming origin rq (w, a) = agent_loop A streaming origin rq (w1, a1)"
          using loop False t Inr x by (auto simp: agent_turn_def react_def)
        then show ?thesis using less.hyps i by simp
      qed
    qed
  qed
qed

text \<open>
  \<open>takes_back A rq t\<close>: the resource answers every agent-signed attempt with success and the
  opaque token \<open>t\<close>, and refuses \<open>t\<close> when it is presented.
\<close>

definition takes_back :: "('w, 'p, 's, 'key) agent \<Rightarrow> out_request \<Rightarrow> string \<Rightarrow> bool" where
  "takes_back A rq t \<longleftrightarrow>
     (\<forall>w. \<exists>resp w'. sign_and_run A AA_AgentSigned rq w = (Ok resp, w') \<and> rs_status resp \<notin> {202, 401} \<and>
        access_token (rs_headers resp) = Some t) \<and>
     (\<forall>w. \<exists>resp w'. sign_and_run A (AA_OpaqueToken t) rq w = (Ok resp, w') \<and> rs_status resp = 401)"

definition only_opaque :: "('w, 'p, 's, 'key) agent \<Rightarrow> string \<Rightarrow> string \<Rightarrow> agent_auth \<Rightarrow> bool" where
  "only_opaque A origin t a \<longleftrightarrow>
     find_cached_token_key (ag_order A) origin a = None \<and> aa_opaque_cache a origin \<in> {None, Some t}"

lemma takes_back_turn:
  assumes "takes_back A rq t" "only_opaque A origin t a"
  shows "\<exists>w' a'. agent_turn A False origin rq (w, a) = Some (Ok AT_Retry, (w', a')) \<and> only_opaque A origin t a'"
proof (cases "aa_opaque_cache a origin")
  case None
  then have n: "next_attempt (ag_order A) (ck_now (ag_clock A) w) origin a = (AA_AgentSigned, a)"
    using assms(2) by (simp add: only_opaque_def next_attempt_def find_cached_token_def)
  obtain resp w' where s: "sign_and_run A AA_AgentSigned rq w = (Ok resp, w')" "rs_status resp \<notin> {202, 401}"
    "access_token (rs_headers resp) = Some t"
    using assms(1) unfolding takes_back_def by meson
  show ?thesis using n s None assms(2)
    by (simp add: agent_turn_def agent_attempt_def on_world_def agent_observe_def observe_response_def
        cache_opaque_from_headers_def react_def seq_def find_cached_token_key_def only_opaque_def)
next
  case (Some u)
  then have n: "next_attempt (ag_order A) (ck_now (ag_clock A) w) origin a = (AA_OpaqueToken t, a)"
    using assms(2) by (simp add: only_opaque_def next_attempt_def find_cached_token_def)
  obtain resp w' where s: "sign_and_run A (AA_OpaqueToken t) rq w = (Ok resp, w')" "rs_status resp = 401"
    using assms(1) unfolding takes_back_def by meson
  show ?thesis using n s assms(2)
    by (simp add: agent_turn_def agent_attempt_def on_world_def agent_observe_def observe_response_def
        react_def seq_def find_cached_token_key_def only_opaque_def)
qed

text \<open>
  C27: nothing bounds the retries as long as the resource keeps giving. A resource that grants an
  opaque token to every agent-signed request and refuses it when presented keeps the agent in
  its loop for ever: the call never returns.
\<close>
theorem revoked_grant_never_returns:
  fixes A :: "('w, 'p, 's, 'key) agent" and w :: 'w
  assumes "takes_back A rq t" and "only_opaque A origin t a"
  shows "agent_loop A False origin rq (w, a) = None"
proof -
  define P where "P A' st o' r' s y \<longleftrightarrow>
    \<not> (A' = A \<and> \<not> st \<and> o' = origin \<and> r' = rq \<and> only_opaque A origin t (snd s))"
    for A' st o' r' and s :: "'w \<times> agent_auth" and y :: "(failure + response) \<times> 'w \<times> agent_auth"
  have "P A False origin rq (w, a) y" if "agent_loop A False origin rq (w, a) = Some y" for y
  proof (rule agent_loop.raw_induct [of P, OF _ that])
    fix loop A' st o' r' s z
    assume ih: "\<And>A' st o' r' s z. loop A' st o' r' s = Some z \<Longrightarrow> P A' st o' r' s z"
      and body: "Option.bind (agent_turn A' st o' r' s) (\<lambda>(r, s'). case r of Inl e \<Rightarrow> Some (Err e, s')
        | Inr (AT_Return resp) \<Rightarrow> Some (Ok resp, s') | Inr AT_Retry \<Rightarrow> loop A' st o' r' s') = Some z"
    show "P A' st o' r' s z"
      unfolding P_def
    proof
      assume i: "A' = A \<and> \<not> st \<and> o' = origin \<and> r' = rq \<and> only_opaque A origin t (snd s)"
      then have k: "only_opaque A origin t (snd s)" by simp
      obtain w' a' where n: "agent_turn A False origin rq (fst s, snd s) = Some (Ok AT_Retry, (w', a'))"
        "only_opaque A origin t a'"
        using takes_back_turn [OF assms(1) k, of "fst s"] by (elim exE conjE)
      then have "loop A False origin rq (w', a') = Some z" using body i by simp
      from ih [OF this] show False using n(2) by (simp add: P_def)
    qed
  qed
  then show ?thesis using assms(2) by (cases "agent_loop A False origin rq (w, a)") (auto simp: P_def)
qed


section \<open>Concrete runs\<close>

text \<open>
  An agent whose crate signs everything and whose resource and Person Server answer by the
  kind of attempt alone; the world is the clock, a second per answer.
\<close>

definition lax_http :: "(string list \<times> u64 option, string list \<times> u64 option) httpsig_lib" where
  "lax_http = sample_http\<lparr>hl_build := (\<lambda>_ _ _ _. Inr (''i'', ''s''))\<rparr>"

definition sample_out :: out_request where
  "sample_out = \<lparr>or_method = ''GET'', or_url = sample_url, or_headers = [], or_body = None\<rparr>"

definition sample_options :: "nat agent_options" where
  "sample_options = configured_agent (static_provider sample_material)
     [Set_Person_Server_Url ''https://p'',
      Set_Person_Server_Metadata (person_metadata_default\<lparr>psm_token_endpoint := ''https://p/token''\<rparr>),
      Set_Metadata_Fetcher sample_fetcher]"

definition sample_client_agent ::
    "(agent_auth_attempt \<Rightarrow> response) \<Rightarrow> (nat, string list \<times> u64 option, string list \<times> u64 option, string) agent" where
  "sample_client_agent answer =
     \<lparr>ag_opts = sample_options, ag_client = sample_client, ag_clock = counting_clock, ag_http = lax_http,
      ag_jwt = sample_lib, ag_up = id, ag_low = id, ag_unix = (\<lambda>_. 1000), ag_order = id,
      ag_next = (\<lambda>attempt _ t. (Inr (answer attempt), t + 1000)), ag_get = (\<lambda>_ t. (Inl ''down'', t))\<rparr>"

lemma sample_client_agent_simps [simp]:
  "ag_opts (sample_client_agent f) = sample_options" "ag_client (sample_client_agent f) = sample_client"
  "ag_clock (sample_client_agent f) = counting_clock" "ag_http (sample_client_agent f) = lax_http"
  "ag_jwt (sample_client_agent f) = sample_lib" "ag_up (sample_client_agent f) = id"
  "ag_low (sample_client_agent f) = id" "ag_unix (sample_client_agent f) t = 1000"
  "ag_order (sample_client_agent f) = id"
  "ag_next (sample_client_agent f) attempt rq t = (Inr (f attempt), t + 1000)"
  by (simp_all add: sample_client_agent_def)

lemma sample_options_simps [simp]:
  "ao_provider sample_options = static_provider sample_material" "ao_capabilities sample_options = None"
  "ao_mission sample_options = None" "ao_metadata_fetcher sample_options = sample_fetcher"
  "ao_person_server_url sample_options = Some ''https://p''" "ao_verify_auth_signature sample_options"
  "ao_on_auth_token sample_options = None"
  "ao_person_server_metadata sample_options =
     Some (person_metadata_default\<lparr>psm_token_endpoint := ''https://p/token''\<rparr>)"
  by (simp_all add: sample_options_def configured_agent_def agent_options_builder_new_def build_agent_options_def)

lemma lax_signs:
  "\<exists>h. outgoing_sign lax_http id now (sample_material\<lparr>sm_signature_key := SK_Jwt ''agent.p.s''\<rparr>) rq = Ok (rq\<lparr>or_headers := h\<rparr>)"
  "sample_material\<lparr>sm_signature_key := SK_Jwt ''agent.p.s''\<rparr> = sample_material"
proof -
  have secret: "secret_key_from_signing_jwk lax_http sample_signing_jwk = Ok (''ed25519'', replicate 32 (CHR 0x01))"
    by (simp add: secret_key_from_signing_jwk_def sample_signing_jwk_def sample_http_def lax_http_def)
  have lib: "hl_new_params lax_http is = Inr (is, None)" "hl_set_created lax_http t (is, c) = (is, Some t)"
    "hl_base lax_http ls ps = Inr ()" "hl_build lax_http ls ps sk l = Inr (''i'', ''s'')" for "is" t c ls ps sk l
    by (simp_all add: sample_http_def lax_http_def)
  have ids: "all_ok (hl_component_id lax_http) ns = Ok (map (\<lambda>n. ''\"'' @ n @ ''\"'') ns)"
    "all_ok (hl_component lax_http) ls = Ok (map (\<lambda>_. ()) ls)" for ns ls
    by (rule all_ok_Ok, simp add: sample_http_def lax_http_def)+
  show "\<exists>h. outgoing_sign lax_http id now (sample_material\<lparr>sm_signature_key := SK_Jwt ''agent.p.s''\<rparr>) rq = Ok (rq\<lparr>or_headers := h\<rparr>)"
    by (simp add: outgoing_sign_def http_sign_def sample_material_def seq_def sk_to_header_def insert_header_def
        Let_def hm_insert_def hm_remove_def quoted_param_def header_value_ok_def byte_def secret ids lib) (rule exI, rule refl)
qed (simp add: sample_material_def)

lemma sample_runs:
  "sign_and_run (sample_client_agent f) AA_AgentSigned rq t = (Ok (f AA_AgentSigned), t + 1000)"
  "header_value_ok (''AAuth '' @ u) \<Longrightarrow>
     sign_and_run (sample_client_agent f) (AA_OpaqueToken u) rq t = (Ok (f (AA_OpaqueToken u)), t + 1000)"
proof -
  have s: "\<exists>h. outgoing_sign lax_http id 1000 sample_material rq = Ok (rq\<lparr>or_headers := h\<rparr>)" for rq
    using lax_signs by simp
  show "sign_and_run (sample_client_agent f) AA_AgentSigned rq t = (Ok (f AA_AgentSigned), t + 1000)"
    using s [of rq] by (auto simp: sign_and_run_def static_provider_def signing_apply_to_def signed_attempt_def seq_def)
  show "sign_and_run (sample_client_agent f) (AA_OpaqueToken u) rq t = (Ok (f (AA_OpaqueToken u)), t + 1000)"
    if "header_value_ok (''AAuth '' @ u)"
    using that s [of "rq\<lparr>or_headers := hm_insert (or_headers rq) ''authorization'' (''AAuth '' @ u)\<rparr>"]
    by (auto simp: sign_and_run_def static_provider_def signing_apply_to_def signed_attempt_def seq_def
        apply_opaque_token_def expect_header_def)
qed

text \<open>A resource with nothing to say.\<close>

definition silent_agent :: "(nat, string list \<times> u64 option, string list \<times> u64 option, string) agent" where
  "silent_agent = sample_client_agent (\<lambda>_. \<lparr>rs_status = 401, rs_headers = [], rs_body = []\<rparr>)"

lemma run_next:
  "sign_and_run (sample_client_agent f) attempt rq t = (Ok resp, t') \<Longrightarrow> resp = f attempt"
  by (auto simp: sign_and_run_def err_as_def elim!: seq_cases)

theorem refused_request_returns_witness:
  "\<exists>r s'. agent_loop silent_agent False ''https://r'' sample_out (0, sample_agent_state) = Some (r, s')"
proof (rule refused_request_returns)
  show "yields_keys (ag_order silent_agent)" by (simp add: silent_agent_def yields_keys_def)
  show "gives_nothing silent_agent sample_out"
    by (auto simp: gives_nothing_def silent_agent_def access_token_def hm_get_all_def challenge_step_def
        header_value_def dest!: run_next)
qed

text \<open>A resource that grants the token \<^verbatim>\<open>07\<close> and never honours it.\<close>

definition teasing_agent :: "(nat, string list \<times> u64 option, string list \<times> u64 option, string) agent" where
  "teasing_agent = sample_client_agent (\<lambda>attempt.
     if attempt = AA_AgentSigned then \<lparr>rs_status = 200, rs_headers = [(''aauth-access'', ''07'')], rs_body = []\<rparr>
     else \<lparr>rs_status = 401, rs_headers = [], rs_body = []\<rparr>)"

lemma access_07: "access_token [(''aauth-access'', ''07'')] = Some ''07''"
proof -
  have t: "is_token68 ''07''"
    by (simp add: is_token68_def trim_end_matches_def Let_def is_token68_char_def is_ascii_alphanumeric_def
        is_ascii_digit_def byte_def)
  have "parse_aauth_access_header ''07'' = Ok ''07''"
    unfolding parse_aauth_access_header_def token68_trim(1) [OF t] using t by simp
  then show ?thesis by (simp add: access_token_def hm_get_all_def to_str_ok_def byte_def)
qed

theorem revoked_grant_never_returns_witness:
  "agent_loop teasing_agent False ''https://r'' sample_out (0, agent_auth_new None None False) = None"
proof (rule revoked_grant_never_returns)
  show "takes_back teasing_agent sample_out ''07''"
    by (simp add: takes_back_def teasing_agent_def sample_runs access_07 header_value_ok_def byte_def)
  show "only_opaque teasing_agent ''https://r'' ''07'' (agent_auth_new None None False)"
    by (simp add: only_opaque_def teasing_agent_def agent_auth_new_def find_cached_token_key_def)
qed

text \<open>A Person Server that answers with the token \<^verbatim>\<open>auth\<close>.\<close>

definition served_agent :: "(nat, string list \<times> u64 option, string list \<times> u64 option, string) agent" where
  "served_agent = sample_client_agent (\<lambda>_. \<lparr>rs_status = 200, rs_headers = [], rs_body = ''t''\<rparr>)"

lemma served_exchange:
  "exchange_step served_agent ''https://r'' ''resource'' (0, agent_auth_new None None False) =
     Some (Ok (), 1000, agent_auth_new None None False
       \<lparr>aa_token_cache := [(\<lparr>ck_origin = ''https://r'', ck_person_server = ''https://p''\<rparr>,
          \<lparr>ct_auth_token = ''auth'', ct_expires_at = 3601000\<rparr>)]\<rparr>)"
proof -
  let ?facts = "\<lparr>cf_agent_sub = ''aauth:x@a'', cf_agent_jkt = ''T'', cf_claims = sample_resource,
        cf_person_server_url = ''https://p''\<rparr>"
  let ?token = "\<lparr>ter_auth_token = ''auth'', ter_expires_in = 3600\<rparr>"
  have key: "signing_public_jwk sample_signing_jwk = sample_jwk"
    by (simp add: signing_public_jwk_def sample_signing_jwk_def sample_jwk_def)
  have c: "verify_resource_challenge sample_lib id sample_fetcher 1000 ''resource'' ''https://r'' ''aauth:x@a'' ''T''
     = Ok sample_resource"
    by (simp add: verify_resource_challenge_def verify_resource_token_def sample_tokens sample_key)
      (simp add: sample_resource_def sample_expired normalize_server_url_def to_lowercase_def
        trim_end_matches_def is_ascii_def byte_def)
  have ch: "accept_challenge served_agent ''https://r'' 1000 ''resource'' sample_material = Ok ?facts"
    by (simp add: accept_challenge_def served_agent_def sample_material_def sample_tokens key sample_thumbprint
        claims_identifier_def resolve_person_server_url_def) (simp add: sample_agent_def c)
  have ex: "exchange_token_with sample_client counting_clock (agent_send served_agent)
      (agent_exchange_options sample_options ''https://p'' ''resource'') 0 = Some (Ok ?token, 1000)"
    by (simp add: exchange_token_with_def exchange_post_def exchange_metadata_def agent_exchange_options_eq seq_def
        ret_def json_request_def agent_send_def served_agent_def sample_runs)
      (simp add: sample_client_def or_panic_def exchange_answer_def is_success_def read_token_result_def
        body_bytes_def from_slice_def de_token_response_def field_def agent_send_def sample_runs)
  have tk: "accept_token served_agent ''https://r'' ?facts ?token (1000, agent_auth_new None None False) =
      (Ok (), 1000, agent_auth_new None None False
       \<lparr>aa_token_cache := [(\<lparr>ck_origin = ''https://r'', ck_person_server = ''https://p''\<rparr>,
          \<lparr>ct_auth_token = ''auth'', ct_expires_at = 3601000\<rparr>)]\<rparr>)"
    by (simp add: accept_token_def served_agent_def sample_resource_def sample_client_auth)
      (simp add: record_auth_token_def instant_add_secs_def counting_clock_def agent_auth_new_def)
  have sv: "ag_opts served_agent = sample_options" "ag_client served_agent = sample_client"
    "ag_clock served_agent = counting_clock" "ag_unix served_agent = (\<lambda>_. 1000)"
    by (simp_all add: served_agent_def sample_client_agent_def)
  show ?thesis
    by (simp add: exchange_step_def sv seq_def err_as_def static_provider_def ch ex tk)
qed

theorem exchanged_token_verified_witness:
  "\<exists>(agent :: agent_claims) jkt (claims :: resource_claims) (result :: token_exchange_result) (auth :: auth_claims) now now'.
     parse_token sample_lib ''agent.p.s'' = Ok (PT_Agent agent) \<and>
     jwk_thumbprint sample_lib (signing_public_jwk (sm_signing_jwk sample_material)) = Ok jkt \<and>
     challenge_trusted sample_lib id sample_fetcher now ''resource'' ''https://r'' (ag_sub agent) jkt claims \<and>
     auth_token_bound sample_lib id sample_fetcher now' (ter_auth_token result) ''https://r'' (rc_aud claims)
       (ag_sub agent) jkt True auth"
proof -
  have d: "decode_agrees (ag_jwt served_agent)" using sample_decode_agrees by (simp add: served_agent_def)
  have l: "ag_jwt served_agent = sample_lib" "ag_low served_agent = id" "ag_opts served_agent = sample_options"
    by (simp_all add: served_agent_def)
  have m: "ao_provider sample_options w = (Ok material, w1) \<Longrightarrow> material = sample_material" for material w w1
    by (simp add: static_provider_def)
  have k: "sm_signature_key sample_material = SK_Jwt ''agent.p.s''" by (simp add: sample_material_def)
  obtain material :: signing_material and w1 jwt and agent :: agent_claims and jkt and claims :: resource_claims
    and result :: token_exchange_result and w2 and auth :: auth_claims where h:
    "ao_provider sample_options 0 = (Ok material, w1)" "sm_signature_key material = SK_Jwt jwt"
    "parse_token sample_lib jwt = Ok (PT_Agent agent)"
    "jwk_thumbprint sample_lib (signing_public_jwk (sm_signing_jwk material)) = Ok jkt"
    "challenge_trusted sample_lib id sample_fetcher (ag_unix served_agent w1) ''resource'' ''https://r'' (ag_sub agent) jkt claims"
    "auth_token_bound sample_lib id sample_fetcher (ag_unix served_agent w2) (ter_auth_token result) ''https://r''
       (rc_aud claims) (ag_sub agent) jkt True auth"
    using exchanged_token_verified [OF d served_exchange] unfolding l by simp blast
  have "material = sample_material" using m [OF h(1)] .
  moreover have "jwt = ''agent.p.s''" using h(2) k calculation by simp
  ultimately show ?thesis using h(3-6) by blast
qed

end
