(* ===== verification/Handshake.thy ===== *)
theory Handshake
  imports Routes Agent_Auth
begin

text \<open>
  From the challenge to the exchange: the challenge a resource issues
  (\<^verbatim>\<open>aauth-axum/src/resource/layer.rs\<close>) is read by the agent's state machine
  (\<^verbatim>\<open>aauth/src/agent/auth.rs\<close>) and its token accepted by both the agent and the Person
  Server (\<^verbatim>\<open>aauth/src/resource_verify\<close>, \<^verbatim>\<open>aauth/src/person_server\<close>).
\<close>

section \<open>From the challenge to the exchange\<close>

text \<open>
  \<open>attests L F sign\<close>: a resource token made by \<open>sign\<close> can be written into the challenge header,
  and a verifier with crate \<open>L\<close> that fetches keys by \<open>F\<close> reads its claims back and finds the key
  that verifies it.
\<close>

definition attests ::
    "'key jwt_lib \<Rightarrow> fetcher \<Rightarrow> (string \<Rightarrow> resource_claims \<Rightarrow> resource_token_error + string) \<Rightarrow> bool" where
  "attests L F sign \<longleftrightarrow>
     (\<forall>claims t. sign (typ_as_str Typ_Resource) claims = Ok t \<longrightarrow>
        to_str_ok t \<and> unquoted t \<and>
        parse_token L t = Ok (PT_Resource claims) \<and>
        (\<exists>key. fetch_decoding_key L F (rc_iss claims) (rc_dwk claims) t = Ok key \<and>
           (\<forall>now. \<not> expired_at now (rc_exp claims) \<longrightarrow> verify_with_key L now t key = Ok (PT_Resource claims))))"

lemma attested_token_verifies:
  assumes "attests L F sign" "sign (typ_as_str Typ_Resource) claims = Ok t"
    and "\<not> expired_at now (rc_exp claims)" "rc_dwk claims = ''aauth-resource.json''"
  shows "verify_resource_token L F now t
      \<lparr>rt_expected_agent = Some (rc_agent claims), rt_expected_agent_jkt = Some (rc_agent_jkt claims)\<rparr> = Ok claims"
proof -
  obtain key where k: "parse_token L t = Ok (PT_Resource claims)"
    "fetch_decoding_key L F (rc_iss claims) (rc_dwk claims) t = Ok key"
    "verify_with_key L now t key = Ok (PT_Resource claims)"
    using assms(1-3) unfolding attests_def by blast
  then show ?thesis using assms(3,4) by (simp add: verify_resource_token_def)
qed

lemma challenge_header_ok: "to_str_ok t \<Longrightarrow> to_str_ok (ch_to_header (Ch_AuthToken t))"
  by (simp add: to_str_ok_def byte_def)

definition challenge_claims ::
    "('key, 'p, 'g, 'st, 'err) resource_layer \<Rightarrow> u64 \<Rightarrow> string \<Rightarrow> agent_claims \<Rightarrow> string \<Rightarrow> resource_claims" where
  "challenge_claims rl now thumbprint agent audience =
     resource_token_claims now (rl_jti rl)
       \<lparr>ro_resource = rl_resource_url rl, ro_audience = audience, ro_agent = claims_identifier agent,
        ro_agent_jkt = thumbprint, ro_scope = None, ro_mission = None, ro_lifetime = None,
        ro_interaction = rl_interaction rl \<lparr>rx_resource_url = rl_resource_url rl, rx_agent = agent,
          rx_agent_jkt = thumbprint\<rparr>\<rparr>"

lemma challenge_claims_fields:
  "rc_iss (challenge_claims rl now tp agent aud) = rl_resource_url rl"
  "rc_dwk (challenge_claims rl now tp agent aud) = ''aauth-resource.json''"
  "rc_aud (challenge_claims rl now tp agent aud) = aud"
  "rc_agent (challenge_claims rl now tp agent aud) = ag_sub agent"
  "rc_agent_jkt (challenge_claims rl now tp agent aud) = tp"
  "rc_exp (challenge_claims rl now tp agent aud) = now + 300"
  by (simp_all add: challenge_claims_def resource_token_claims_def Let_def claims_identifier_def)

lemma issued_challenge:
  assumes "resolve_resource_token_audience agent server fallback = Some aud"
    and "rl_sign rl (typ_as_str Typ_Resource) (challenge_claims rl now tp agent aud) = Ok t"
    and "header_value_ok (ch_to_header (Ch_AuthToken t))"
  shows "issue_challenge rl now tp agent server fallback =
     LO_Reply (text_response [(''aauth-requirement'', ch_to_header (Ch_AuthToken t))] ''Auth token required'')"
  using assms by (simp add: issue_challenge_def resource_token_sign_def challenge_claims_def Let_def)

lemma read_challenge:
  assumes "to_str_ok (ch_to_header (Ch_AuthToken t))" "unquoted t"
  shows "challenge_step [(''aauth-requirement'', ch_to_header (Ch_AuthToken t))] = Ok (AS_ExchangeToken t)"
proof -
  have "ch_from_header (ch_to_header (Ch_AuthToken t)) = Ok (Ch_AuthToken t)"
    using assms(2) by (intro ch_read_back) simp_all
  then show ?thesis using assms(1)
    by (simp add: challenge_step_def header_value_def del: ch_to_header.simps)
qed

text \<open>
  The handshake works. A resource that asserts Person Server tokens answers a verified agent
  token with a challenge; the agent's state machine reads that answer as a token exchange; and
  for the whole lifetime of the resource token in it, the agent accepts the challenge as the
  resource's, and the Person Server accepts the token request that carries it. This holds
  whatever access server or fallback names the audience, and whichever fetchers the two use.
\<close>
theorem issued_challenge_accepted:
  assumes mode: "rl_mode rl = RM_PsAsserted True server fallback"
    and aud: "resolve_resource_token_audience agent server fallback = Some aud"
    and sign: "rl_sign rl (typ_as_str Typ_Resource) (challenge_claims rl now tp agent aud) = Ok t"
    and agent_side: "attests L F (rl_sign rl)"
    and person_side: "attests L' (psc_fetcher cfg) (rl_sign rl)" "parse_token L' jwt = Ok (PT_Agent agent)"
    and origin: "normalize_server_url low (rl_resource_url rl) = normalize_server_url low origin"
    and live: "\<not> expired_at now' (now + 300)"
  shows "\<exists>resp. decide rl now tp (PT_Agent agent) st = (LO_Reply resp, st) \<and>
    observe_response order origin AA_AgentSigned (rs_status resp) (rs_headers resp) a = (Ok (AS_ExchangeToken t), a) \<and>
    verify_resource_challenge L low F now' t origin (ag_sub agent) tp = Ok (challenge_claims rl now tp agent aud) \<and>
    (\<exists>ctx. verify_token_request L' now' cfg jwt tp t exchange = Ok ctx \<and>
       pt_resource_claims ctx = challenge_claims rl now tp agent aud)"
proof -
  let ?c = "challenge_claims rl now tp agent aud"
  have t: "to_str_ok (ch_to_header (Ch_AuthToken t))" "unquoted t"
    using agent_side sign by (auto simp only: attests_def intro: challenge_header_ok)
  have v: "verify_resource_token L F now' t \<lparr>rt_expected_agent = Some (ag_sub agent), rt_expected_agent_jkt = Some tp\<rparr> = Ok ?c"
    "verify_resource_token L' (psc_fetcher cfg) now' t
       \<lparr>rt_expected_agent = Some (ag_sub agent), rt_expected_agent_jkt = Some tp\<rparr> = Ok ?c"
    using attested_token_verifies [OF agent_side sign] attested_token_verifies [OF person_side(1) sign] live
    by (simp_all add: challenge_claims_fields)
  let ?resp = "text_response [(''aauth-requirement'', ch_to_header (Ch_AuthToken t))] ''Auth token required''"
  have "decide rl now tp (PT_Agent agent) st = (LO_Reply ?resp, st)"
    using issued_challenge [OF aud sign to_str_header_ok [OF t(1)]] mode by (simp add: decide_def)
  moreover have "observe_response order origin AA_AgentSigned (rs_status ?resp) (rs_headers ?resp) a =
      (Ok (AS_ExchangeToken t), a)"
    using read_challenge [OF t] by (simp add: observe_response_def text_response_def del: ch_to_header.simps)
  moreover have "verify_resource_challenge L low F now' t origin (ag_sub agent) tp = Ok ?c"
    using v(1) origin by (simp add: verify_resource_challenge_def challenge_claims_fields)
  moreover have "\<exists>ctx. verify_token_request L' now' cfg jwt tp t exchange = Ok ctx \<and> pt_resource_claims ctx = ?c"
    using v(2) person_side(2) by (simp add: verify_token_request_def claims_identifier_def)
  ultimately show ?thesis by blast
qed

text \<open>The sample resource, whose token \<^verbatim>\<open>resource\<close> carries the claims of this challenge.\<close>

definition sample_challenger :: "(string, string list \<times> u64 option, string list \<times> u64 option, unit, unit) resource_layer" where
  "sample_challenger = sample_layer (RM_PsAsserted True (Some ''https://p'') None)"

definition sample_claims :: resource_claims where
  "sample_claims = challenge_claims sample_challenger 1000 ''T'' sample_agent ''https://p''"

definition sample_signer :: "(string, string list \<times> u64 option, string list \<times> u64 option, unit, unit) resource_layer" where
  "sample_signer = sample_challenger\<lparr>rl_sign := (\<lambda>_ c. if c = sample_claims then Ok ''resource'' else Err (RTE_Encode []))\<rparr>"

definition sample_reader :: "string jwt_lib" where
  "sample_reader = sample_lib\<lparr>jl_insecure_resource := (\<lambda>_. Ok sample_claims),
     jl_decode_resource := (\<lambda>_ key _ _ _. if key = ''K'' then Ok sample_claims else Err ''bad signature'')\<rparr>"

lemma sample_reads:
  "parse_token sample_reader ''resource'' = Ok (PT_Resource sample_claims)"
  "parse_token sample_reader ''agent'' = Ok (PT_Agent sample_agent)"
  "fetch_decoding_key sample_reader sample_fetcher iss dwk ''resource'' = Ok ''K''"
  "verify_with_key sample_reader now ''resource'' ''K'' = Ok (PT_Resource sample_claims)"
proof -
  have h: "jwt_header sample_reader jwt = jwt_header sample_lib jwt" for jwt
    by (simp add: jwt_header_def sample_reader_def reject_alg_none_def Let_def)
  show "parse_token sample_reader ''resource'' = Ok (PT_Resource sample_claims)"
    "parse_token sample_reader ''agent'' = Ok (PT_Agent sample_agent)"
    "verify_with_key sample_reader now ''resource'' ''K'' = Ok (PT_Resource sample_claims)"
    by (simp_all add: parse_token_def verify_with_key_def h sample_header Let_def jwt_err_def)
      (simp_all add: sample_reader_def sample_lib_def)
  show "fetch_decoding_key sample_reader sample_fetcher iss dwk ''resource'' = Ok ''K''"
    by (simp add: fetch_decoding_key_def h sample_header sample_fetcher_def static_metadata_fetcher_def
        jwk_set_find_def jwt_err_def) (simp add: sample_reader_def sample_lib_def)
qed

lemma sample_attests: "attests sample_reader sample_fetcher (rl_sign sample_signer)"
  by (auto simp: attests_def sample_signer_def sample_reads to_str_ok_def byte_def unquoted_def split: if_splits)

theorem issued_challenge_accepted_witness:
  "\<exists>resp. decide sample_signer 1000 ''T'' (PT_Agent sample_agent) () = (LO_Reply resp, ()) \<and>
    observe_response id ''https://r'' AA_AgentSigned (rs_status resp) (rs_headers resp) (agent_auth_new None None False)
      = (Ok (AS_ExchangeToken ''resource''), agent_auth_new None None False) \<and>
    verify_resource_challenge sample_reader id sample_fetcher 1300 ''resource'' ''https://r'' (ag_sub sample_agent) ''T''
      = Ok sample_claims"
proof -
  have c: "challenge_claims sample_signer 1000 ''T'' sample_agent ''https://p'' = sample_claims"
    by (simp add: sample_claims_def sample_signer_def challenge_claims_def)
  have m: "rl_mode sample_signer = RM_PsAsserted True (Some ''https://p'') None"
    by (simp add: sample_signer_def sample_challenger_def sample_layer_def)
  have a: "resolve_resource_token_audience sample_agent (Some ''https://p'') None = Some ''https://p''"
    by (simp add: resolve_resource_token_audience_def)
  have s: "rl_sign sample_signer (typ_as_str Typ_Resource) (challenge_claims sample_signer 1000 ''T'' sample_agent ''https://p'')
      = Ok ''resource''"
    unfolding c by (simp add: sample_signer_def)
  have p: "attests sample_reader (psc_fetcher sample_config) (rl_sign sample_signer)"
    using sample_attests by (simp add: sample_config_def)
  have o: "normalize_server_url id (rl_resource_url sample_signer) = normalize_server_url id ''https://r''"
    by (simp add: sample_signer_def sample_challenger_def sample_layer_def)
  have l: "\<not> expired_at 1300 (1000 + 300)" by (simp add: expired_at_def i64_less_def CLOCK_SKEW_def)
  show ?thesis
    using issued_challenge_accepted [OF m a s sample_attests p sample_reads(2) o l] unfolding c by blast
qed

end
