(* ===== verification/Keys.thy ===== *)
theory Keys
  imports Httpsig
begin

text \<open>
  Key pairs and the tokens they sign (\<^verbatim>\<open>aauth/src/keys.rs\<close>, \<^verbatim>\<open>agent/keys.rs\<close>,
  \<^verbatim>\<open>person_server/keys.rs\<close>, \<^verbatim>\<open>access_server/keys.rs\<close>, \<^verbatim>\<open>resource/keys.rs\<close>): key sets,
  thumbprints, the minters of agent and auth tokens and the signer of resource tokens. The
  theorems close the loop with the verifiers: what a party signs and publishes its key for
  is accepted by the verifiers of the others.
\<close>

section \<open>The crates\<close>

text \<open>
  \<open>kl_verifying\<close> and \<open>kl_bytes\<close> are \<^verbatim>\<open>ed25519_dalek\<close> (the 32 bytes of the verifying and of the
  signing key); \<open>kl_encoding_key\<close> is \<^verbatim>\<open>EncodingKey::from_ed_der\<close> of the PKCS#8 form, which
  exists for every key; \<open>kl_jwk\<close> reads a key of \<^verbatim>\<open>jsonwebtoken::jwk\<close> from JSON; \<open>kl_encode_*\<close>
  is \<^verbatim>\<open>jsonwebtoken::encode\<close>.
\<close>

record ('sk, 'ek) key_lib =
  kl_verifying :: "'sk \<Rightarrow> string"
  kl_bytes :: "'sk \<Rightarrow> string"
  kl_encoding_key :: "'sk \<Rightarrow> 'ek"
  kl_jwk :: "json \<Rightarrow> string + jwk_entry"
  kl_encode_agent :: "raw_header \<Rightarrow> agent_claims \<Rightarrow> 'ek \<Rightarrow> string + string"
  kl_encode_auth :: "raw_header \<Rightarrow> auth_claims \<Rightarrow> 'ek \<Rightarrow> string + string"
  kl_encode_resource :: "raw_header \<Rightarrow> resource_claims \<Rightarrow> 'ek \<Rightarrow> string + string"

section \<open>Key pairs (\<^verbatim>\<open>keys.rs\<close>)\<close>

record 'sk key_pair =
  kp_signing :: 'sk
  kp_verifying :: string
  kp_kid :: "string option"
  kp_thumbprint :: string

definition public_jwk_for :: "'key jwt_lib \<Rightarrow> string \<Rightarrow> string option \<Rightarrow> public_jwk" where
  "public_jwk_for L verifying kid =
     \<lparr>kty = ''OKP'', crv = ''Ed25519'', jwk_x = jl_b64_encode L verifying, jwk_y = None, jwk_kid = kid\<rparr>"

text \<open>\<open>secret\<close> is the fresh key of the system's random source; \<open>None\<close> is a failing \<^verbatim>\<open>expect\<close>.\<close>

definition generate_inner ::
    "'key jwt_lib \<Rightarrow> ('sk, 'ek) key_lib \<Rightarrow> 'sk \<Rightarrow> string option \<Rightarrow> 'sk key_pair option" where
  "generate_inner L K secret kid =
     (let verifying = kl_verifying K secret; public = public_jwk_for L verifying kid in
      map_option (\<lambda>tp. \<lparr>kp_signing = secret, kp_verifying = verifying, kp_kid = kid, kp_thumbprint = tp\<rparr>)
        (res_ok (jwk_thumbprint L public)))"

definition generate_key :: "'key jwt_lib \<Rightarrow> ('sk, 'ek) key_lib \<Rightarrow> 'sk \<Rightarrow> 'sk key_pair option" where
  "generate_key L K secret = generate_inner L K secret None"

definition generate_with_kid ::
    "'key jwt_lib \<Rightarrow> ('sk, 'ek) key_lib \<Rightarrow> 'sk \<Rightarrow> string \<Rightarrow> 'sk key_pair option" where
  "generate_with_kid L K secret kid = generate_inner L K secret (Some kid)"

definition generate_with_thumbprint_kid ::
    "'key jwt_lib \<Rightarrow> ('sk, 'ek) key_lib \<Rightarrow> 'sk \<Rightarrow> 'sk key_pair option" where
  "generate_with_thumbprint_kid L K secret =
     (let verifying = kl_verifying K secret; public = public_jwk_for L verifying None in
      map_option (\<lambda>tp. \<lparr>kp_signing = secret, kp_verifying = verifying, kp_kid = Some tp, kp_thumbprint = tp\<rparr>)
        (res_ok (jwk_thumbprint L public)))"

definition kp_public_jwk :: "'key jwt_lib \<Rightarrow> 'sk key_pair \<Rightarrow> public_jwk" where
  "kp_public_jwk L kp = public_jwk_for L (kp_verifying kp) (kp_kid kp)"

definition kp_signing_jwk :: "'key jwt_lib \<Rightarrow> ('sk, 'ek) key_lib \<Rightarrow> 'sk key_pair \<Rightarrow> signing_jwk" where
  "kp_signing_jwk L K kp =
     \<lparr>s_kty = ''OKP'', s_crv = ''Ed25519'', s_x = jl_b64_encode L (kp_verifying kp), s_y = None,
      s_d = jl_b64_encode L (kl_bytes K (kp_signing kp)), s_kid = kp_kid kp\<rparr>"

definition kp_encoding_key :: "('sk, 'ek) key_lib \<Rightarrow> 'sk key_pair \<Rightarrow> 'ek" where
  "kp_encoding_key K kp = kl_encoding_key K (kp_signing kp)"

text \<open>\<^verbatim>\<open>jwk_set_from_public\<close> (\<^verbatim>\<open>jwt/mod.rs\<close>) stops at the first key that is not read.\<close>

fun jwk_set_from_public :: "('sk, 'ek) key_lib \<Rightarrow> public_jwk list \<Rightarrow> aauth_error + jwk_set" where
  "jwk_set_from_public K [] = Ok []"
| "jwk_set_from_public K (k # ks) =
     bind_res (map_err (\<lambda>m. Jwt (JE_JwkSet m)) (kl_jwk K (JObj (jwk_json k)))) (\<lambda>e.
     map_ok ((#) e) (jwk_set_from_public K ks))"

definition kp_jwk_set :: "'key jwt_lib \<Rightarrow> ('sk, 'ek) key_lib \<Rightarrow> 'sk key_pair \<Rightarrow> jwk_set option" where
  "kp_jwk_set L K kp = res_ok (jwk_set_from_public K [kp_public_jwk L kp])"

record 'sk test_keys =
  tk_agent_root :: "'sk key_pair"
  tk_agent_ephemeral :: "'sk key_pair"
  tk_person_server :: "'sk key_pair"
  tk_access_server :: "'sk key_pair"
  tk_resource :: "'sk key_pair"

definition test_keys_generate ::
    "'key jwt_lib \<Rightarrow> ('sk, 'ek) key_lib \<Rightarrow> 'sk \<Rightarrow> 'sk \<Rightarrow> 'sk \<Rightarrow> 'sk \<Rightarrow> 'sk \<Rightarrow> 'sk test_keys option" where
  "test_keys_generate L K s1 s2 s3 s4 s5 =
     (case (generate_with_thumbprint_kid L K s1, generate_key L K s2, generate_with_thumbprint_kid L K s3,
            generate_with_thumbprint_kid L K s4, generate_with_thumbprint_kid L K s5) of
        (Some root, Some ephemeral, Some person, Some access, Some resource) \<Rightarrow>
          Some \<lparr>tk_agent_root = root, tk_agent_ephemeral = ephemeral, tk_person_server = person,
            tk_access_server = access, tk_resource = resource\<rparr>
      | _ \<Rightarrow> None)"

definition key_fetcher ::
    "'key jwt_lib \<Rightarrow> ('sk, 'ek) key_lib \<Rightarrow> 'sk key_pair \<Rightarrow> string \<Rightarrow> fetcher option" where
  "key_fetcher L K kp url = map_option (static_metadata_fetcher (url @ ''/jwks'')) (kp_jwk_set L K kp)"

definition agent_metadata_fetcher ::
    "'key jwt_lib \<Rightarrow> ('sk, 'ek) key_lib \<Rightarrow> 'sk test_keys \<Rightarrow> string \<Rightarrow> fetcher option" where
  "agent_metadata_fetcher L K keys agent_url = key_fetcher L K (tk_agent_root keys) agent_url"

definition person_metadata_fetcher ::
    "'key jwt_lib \<Rightarrow> ('sk, 'ek) key_lib \<Rightarrow> 'sk test_keys \<Rightarrow> string \<Rightarrow> fetcher option" where
  "person_metadata_fetcher L K keys person_server_url = key_fetcher L K (tk_person_server keys) person_server_url"

definition access_metadata_fetcher ::
    "'key jwt_lib \<Rightarrow> ('sk, 'ek) key_lib \<Rightarrow> 'sk test_keys \<Rightarrow> string \<Rightarrow> fetcher option" where
  "access_metadata_fetcher L K keys access_server_url = key_fetcher L K (tk_access_server keys) access_server_url"

definition resource_metadata_fetcher ::
    "'key jwt_lib \<Rightarrow> ('sk, 'ek) key_lib \<Rightarrow> 'sk test_keys \<Rightarrow> string \<Rightarrow> fetcher option" where
  "resource_metadata_fetcher L K keys resource_url = key_fetcher L K (tk_resource keys) resource_url"

section \<open>Tokens\<close>

definition eddsa_header :: "jwt_typ \<Rightarrow> string option \<Rightarrow> raw_header" where
  "eddsa_header t kid = \<lparr>rh_typ = Some (typ_as_str t), rh_alg = ''EdDSA'', rh_kid = kid\<rparr>"

text \<open>Agent tokens (\<^verbatim>\<open>agent/keys.rs\<close>): the root key signs for the ephemeral key.\<close>

definition mint_agent_claims ::
    "i64 \<Rightarrow> string \<Rightarrow> public_jwk \<Rightarrow> string \<Rightarrow> string \<Rightarrow> string option \<Rightarrow> agent_claims" where
  "mint_agent_claims now jti jwk agent_url sub ps =
     \<lparr>ag_iss = agent_url, ag_dwk = ''aauth-agent.json'', ag_sub = sub, ag_jti = jti,
      ag_cnf = \<lparr>cnf_jwk = jwk\<rparr>, ag_iat = now, ag_exp = now + 3600, ag_ps = ps, parent_agent = None\<rparr>"

definition mint_agent_jwt ::
    "'key jwt_lib \<Rightarrow> ('sk, 'ek) key_lib \<Rightarrow> 'sk test_keys \<Rightarrow> i64 \<Rightarrow> string \<Rightarrow> string \<Rightarrow> string \<Rightarrow> string option \<Rightarrow>
     string option" where
  "mint_agent_jwt L K keys now jti agent_url sub ps =
     res_ok (kl_encode_agent K (eddsa_header Typ_Agent (kp_kid (tk_agent_root keys)))
       (mint_agent_claims now jti (kp_public_jwk L (tk_agent_ephemeral keys)) agent_url sub ps)
       (kp_encoding_key K (tk_agent_root keys)))"

definition test_key_material :: "'key jwt_lib \<Rightarrow> ('sk, 'ek) key_lib \<Rightarrow> 'sk test_keys \<Rightarrow> string \<Rightarrow> signing_material" where
  "test_key_material L K keys agent_jwt =
     \<lparr>sm_signing_jwk = kp_signing_jwk L K (tk_agent_ephemeral keys), sm_signature_key = SK_Jwt agent_jwt\<rparr>"

text \<open>The Person Server's own token for federated requests (\<^verbatim>\<open>person_server/keys.rs\<close>).\<close>

definition mint_person_server_signature_jwt ::
    "'key jwt_lib \<Rightarrow> ('sk, 'ek) key_lib \<Rightarrow> 'sk test_keys \<Rightarrow> i64 \<Rightarrow> string \<Rightarrow> string \<Rightarrow> string option" where
  "mint_person_server_signature_jwt L K keys now jti person_server_url =
     res_ok (kl_encode_agent K (eddsa_header Typ_Agent (kp_kid (tk_person_server keys)))
       \<lparr>ag_iss = person_server_url, ag_dwk = ''aauth-person.json'', ag_sub = person_server_url, ag_jti = jti,
        ag_cnf = \<lparr>cnf_jwk = kp_public_jwk L (tk_person_server keys)\<rparr>, ag_iat = now, ag_exp = now + 3600,
        ag_ps = None, parent_agent = None\<rparr>
       (kp_encoding_key K (tk_person_server keys)))"

record 'sk outbound_signer =
  os_person_server_url :: string
  os_signing_jwk :: signing_jwk
  os_keys :: "'sk test_keys"

definition outbound_signer_new ::
    "'key jwt_lib \<Rightarrow> ('sk, 'ek) key_lib \<Rightarrow> 'sk test_keys \<Rightarrow> string \<Rightarrow> 'sk outbound_signer" where
  "outbound_signer_new L K keys person_server_url =
     \<lparr>os_person_server_url = person_server_url, os_signing_jwk = kp_signing_jwk L K (tk_person_server keys),
      os_keys = keys\<rparr>"

definition outbound_signature_jwt ::
    "'key jwt_lib \<Rightarrow> ('sk, 'ek) key_lib \<Rightarrow> 'sk outbound_signer \<Rightarrow> i64 \<Rightarrow> string \<Rightarrow> string option" where
  "outbound_signature_jwt L K os now jti =
     mint_person_server_signature_jwt L K (os_keys os) now jti (os_person_server_url os)"

text \<open>The minters of the two servers; \<open>now\<close> and \<open>jti\<close> are the clock and the fresh UUID of the call.\<close>

definition auth_encoder :: "('sk, 'ek) key_lib \<Rightarrow> 'sk key_pair \<Rightarrow> jwt_encode" where
  "auth_encoder K kp = (\<lambda>typ kid claims.
     kl_encode_auth K \<lparr>rh_typ = Some typ, rh_alg = ''EdDSA'', rh_kid = kid\<rparr> claims (kp_encoding_key K kp))"

definition person_minter ::
    "('sk, 'ek) key_lib \<Rightarrow> 'sk test_keys \<Rightarrow> i64 \<Rightarrow> string \<Rightarrow> string \<Rightarrow> string \<Rightarrow> string \<Rightarrow> public_jwk \<Rightarrow>
     string option \<Rightarrow> string option \<Rightarrow> aauth_error + string" where
  "person_minter K keys now jti iss aud agent agent_jwk sub scope =
     mint_person_auth_jwt (auth_encoder K (tk_person_server keys)) now jti (kp_kid (tk_person_server keys))
       iss aud agent agent_jwk sub scope"

definition access_minter ::
    "('sk, 'ek) key_lib \<Rightarrow> 'sk test_keys \<Rightarrow> i64 \<Rightarrow> string \<Rightarrow> string \<Rightarrow> string \<Rightarrow> string \<Rightarrow> public_jwk \<Rightarrow>
     string option \<Rightarrow> string option \<Rightarrow> aauth_error + string" where
  "access_minter K keys now jti iss aud agent agent_jwk sub scope =
     mint_access_auth_jwt (auth_encoder K (tk_access_server keys)) now jti (kp_kid (tk_access_server keys))
       iss aud agent agent_jwk sub scope"

definition test_mint_person_auth_jwt ::
    "'key jwt_lib \<Rightarrow> ('sk, 'ek) key_lib \<Rightarrow> 'sk test_keys \<Rightarrow> i64 \<Rightarrow> string \<Rightarrow> string \<Rightarrow> string \<Rightarrow> string \<Rightarrow>
     string option \<Rightarrow> string option \<Rightarrow> string option" where
  "test_mint_person_auth_jwt L K keys now jti iss aud agent sub scope =
     res_ok (person_minter K keys now jti iss aud agent (kp_public_jwk L (tk_agent_ephemeral keys)) sub scope)"

definition test_mint_access_auth_jwt ::
    "'key jwt_lib \<Rightarrow> ('sk, 'ek) key_lib \<Rightarrow> 'sk test_keys \<Rightarrow> i64 \<Rightarrow> string \<Rightarrow> string \<Rightarrow> string \<Rightarrow> string \<Rightarrow>
     string option \<Rightarrow> string option \<Rightarrow> string option" where
  "test_mint_access_auth_jwt L K keys now jti iss aud agent sub scope =
     res_ok (access_minter K keys now jti iss aud agent (kp_public_jwk L (tk_agent_ephemeral keys)) sub scope)"

text \<open>The signer of resource tokens (\<^verbatim>\<open>resource/keys.rs\<close>) fills in its own key id.\<close>

definition sign_resource_token ::
    "('sk, 'ek) key_lib \<Rightarrow> 'sk key_pair \<Rightarrow> raw_header \<Rightarrow> resource_claims \<Rightarrow> resource_token_error + string" where
  "sign_resource_token K kp header claims =
     (let header = (if rh_kid header = None then header\<lparr>rh_kid := kp_kid kp\<rparr> else header) in
      map_err RTE_Encode (kl_encode_resource K header claims (kp_encoding_key K kp)))"

definition resource_signer ::
    "('sk, 'ek) key_lib \<Rightarrow> 'sk test_keys \<Rightarrow> string \<Rightarrow> resource_claims \<Rightarrow> resource_token_error + string" where
  "resource_signer K keys typ claims =
     sign_resource_token K (tk_resource keys) \<lparr>rh_typ = Some typ, rh_alg = ''EdDSA'', rh_kid = None\<rparr> claims"

section \<open>Key pairs as the code makes them\<close>

lemma res_ok_Some [simp]: "res_ok r = Some a \<longleftrightarrow> r = Inr a"
  by (cases r) auto

text \<open>
  \<open>well_kept\<close>: a key pair that \<^verbatim>\<open>generate\<close> made. Generating never panics, the thumbprint does
  not depend on the key id, and signing and verifying JWK agree.
\<close>

definition well_kept :: "'key jwt_lib \<Rightarrow> ('sk, 'ek) key_lib \<Rightarrow> 'sk key_pair \<Rightarrow> bool" where
  "well_kept L K kp \<longleftrightarrow> kp_verifying kp = kl_verifying K (kp_signing kp) \<and>
     jwk_thumbprint L (kp_public_jwk L kp) = Ok (kp_thumbprint kp)"

lemma thumbprint_ignores_kid:
  "jwk_thumbprint L (public_jwk_for L v kid) = jwk_thumbprint L (public_jwk_for L v kid')"
  by (simp add: jwk_thumbprint_def httpsig_thumbprint_def thumbprint_members_def public_jwk_for_def
      jwk_json_def en_opt_def List.map_filter_simps split: option.split)

lemma thumbprint_exists: "\<exists>tp. jwk_thumbprint L (public_jwk_for L v kid) = Ok tp"
  by (simp add: jwk_thumbprint_def httpsig_thumbprint_def thumbprint_members_def public_jwk_for_def)

lemma generated_kept:
  "generate_inner L K s kid = Some kp \<Longrightarrow> well_kept L K kp \<and> kp_kid kp = kid"
  "generate_with_thumbprint_kid L K s = Some kp \<Longrightarrow> well_kept L K kp \<and> kp_kid kp = Some (kp_thumbprint kp)"
  by (auto simp: generate_inner_def generate_with_thumbprint_kid_def Let_def well_kept_def kp_public_jwk_def)
    (simp add: thumbprint_ignores_kid [of L "kl_verifying K s" "Some _" None])

lemma generates:
  "\<exists>kp. generate_inner L K s kid = Some kp" "\<exists>kp. generate_with_thumbprint_kid L K s = Some kp"
  using thumbprint_exists [of L "kl_verifying K s" kid] thumbprint_exists [of L "kl_verifying K s" None]
  by (auto simp: generate_inner_def generate_with_thumbprint_kid_def Let_def)

section \<open>What the crates promise\<close>

text \<open>
  \<open>codec_for\<close> is documented of \<^verbatim>\<open>jsonwebtoken\<close>: a token made by \<^verbatim>\<open>encode\<close> is three base64url
  segments, the first of which is the header; both decoders return the claims it was made of,
  the verifying one under the JWK of the signing key and until the token expires.
  \<open>reads_jwk\<close>: an Ed25519 key is read as it was written.
\<close>

definition same_key :: "'key jwt_lib \<Rightarrow> string \<Rightarrow> public_jwk \<Rightarrow> bool" where
  "same_key L verifying k \<longleftrightarrow> kty k = ''OKP'' \<and> crv k = ''Ed25519'' \<and> jwk_x k = jl_b64_encode L verifying"

definition header_segment :: "'key jwt_lib \<Rightarrow> raw_header \<Rightarrow> string \<Rightarrow> bool" where
  "header_segment L h t \<longleftrightarrow> to_str_ok t \<and> unquoted t \<and> jl_header L t = Ok h \<and>
     (\<exists>bytes v. jl_b64 L (hd (split_on (CHR ''.'') t)) = Some bytes \<and>
        sj_parse (jl_json L) bytes = Some v \<and> Option.bind (json_get v ''alg'') de_str = Some (rh_alg h))"

definition codec_for ::
    "'key jwt_lib \<Rightarrow> ('sk, 'ek) key_lib \<Rightarrow> (raw_header \<Rightarrow> 'c \<Rightarrow> 'ek \<Rightarrow> string + string) \<Rightarrow>
     (string \<Rightarrow> string + 'c) \<Rightarrow> (string \<Rightarrow> 'key \<Rightarrow> string \<Rightarrow> u64 \<Rightarrow> i64 \<Rightarrow> string + 'c) \<Rightarrow> ('c \<Rightarrow> i64) \<Rightarrow> bool" where
  "codec_for L K enc insecure dec expiry \<longleftrightarrow>
     (\<forall>h c sk t. rh_alg h = ''EdDSA'' \<longrightarrow> enc h c (kl_encoding_key K sk) = Ok t \<longrightarrow>
        header_segment L h t \<and> insecure t = Ok c \<and>
        (\<forall>e. same_key L (kl_verifying K sk) (je_jwk e) \<longrightarrow>
           (\<exists>key. jl_from_jwk L e = Ok key \<and>
              (\<forall>now. \<not> expired_at now (expiry c) \<longrightarrow> dec t key ''EdDSA'' JWT_CLOCK_SKEW now = Ok c))))"

definition key_codec :: "'key jwt_lib \<Rightarrow> ('sk, 'ek) key_lib \<Rightarrow> bool" where
  "key_codec L K \<longleftrightarrow>
     codec_for L K (kl_encode_agent K) (jl_insecure_agent L) (jl_decode_agent L) ag_exp \<and>
     codec_for L K (kl_encode_auth K) (jl_insecure_auth L) (jl_decode_auth L) au_exp \<and>
     codec_for L K (kl_encode_resource K) (jl_insecure_resource L) (jl_decode_resource L) rc_exp"

definition reads_jwk :: "('sk, 'ek) key_lib \<Rightarrow> bool" where
  "reads_jwk K \<longleftrightarrow> (\<forall>k. kty k = ''OKP'' \<and> crv k = ''Ed25519'' \<and> jwk_y k = None \<longrightarrow>
     (\<exists>e. kl_jwk K (JObj (jwk_json k)) = Ok e \<and> je_kid e = jwk_kid k \<and> je_jwk e = k))"

text \<open>The fetcher finds the pair's key under its id in the set of this issuer.\<close>

definition publishes :: "'key jwt_lib \<Rightarrow> fetcher \<Rightarrow> string \<Rightarrow> string \<Rightarrow> 'sk key_pair \<Rightarrow> bool" where
  "publishes L F iss dwk kp \<longleftrightarrow>
     (\<exists>uri ks kid e. mf_resolve_jwks_uri F iss dwk = Ok uri \<and> mf_fetch_jwks F uri = Ok ks \<and>
        kp_kid kp = Some kid \<and> jwk_set_find ks kid = Some e \<and> je_jwk e = kp_public_jwk L kp)"

lemma key_fetcher_publishes:
  assumes "reads_jwk K" "kp_kid kp = Some kid"
  shows "\<exists>F. key_fetcher L K kp url = Some F \<and> (\<forall>iss dwk. publishes L F iss dwk kp)"
proof -
  obtain e where e: "kl_jwk K (JObj (jwk_json (kp_public_jwk L kp))) = Ok e" "je_kid e = Some kid"
    "je_jwk e = kp_public_jwk L kp"
    using assms(1)[unfolded reads_jwk_def, rule_format, of "kp_public_jwk L kp"] assms(2)
    by (auto simp: kp_public_jwk_def public_jwk_for_def)
  then have "kp_jwk_set L K kp = Some [e]" by (simp add: kp_jwk_set_def)
  then show ?thesis using e assms(2)
    by (auto simp: key_fetcher_def publishes_def static_metadata_fetcher_def jwk_set_find_def)
qed

section \<open>What is signed is accepted\<close>

lemma typ_round: "typ_from_str (typ_as_str t) = Some t"
  by (cases t) (simp_all add: typ_from_str_def)

lemma eddsa_ok: "header_segment L (eddsa_header ty kid) t \<Longrightarrow>
    jwt_header L t = Ok \<lparr>jh_typ = ty, jh_alg = ''EdDSA'', jh_kid = kid\<rparr>"
  by (auto simp: header_segment_def eddsa_header_def jwt_header_def reject_alg_none_def Let_def not_none typ_round)

lemma codec_header:
  assumes "codec_for L K enc insecure dec expiry" "enc (eddsa_header ty kid) c (kp_encoding_key K kp) = Ok t"
  shows "jwt_header L t = Ok \<lparr>jh_typ = ty, jh_alg = ''EdDSA'', jh_kid = kid\<rparr>" "insecure t = Ok c"
    "to_str_ok t" "unquoted t"
proof -
  have "header_segment L (eddsa_header ty kid) t \<and> insecure t = Ok c"
    using assms unfolding codec_for_def kp_encoding_key_def
    by (metis eddsa_header_def raw_header.select_convs(2))
  then show "jwt_header L t = Ok \<lparr>jh_typ = ty, jh_alg = ''EdDSA'', jh_kid = kid\<rparr>" "insecure t = Ok c"
    "to_str_ok t" "unquoted t"
    by (auto intro: eddsa_ok simp: header_segment_def)
qed

lemma codec_key:
  assumes "codec_for L K enc insecure dec expiry"
    and "enc (eddsa_header ty (kp_kid kp)) c (kp_encoding_key K kp) = Ok t"
    and "well_kept L K kp" "publishes L F iss dwk kp"
  obtains key where "fetch_decoding_key L F iss dwk t = Ok key"
    "\<And>now. \<not> expired_at now (expiry c) \<Longrightarrow> dec t key ''EdDSA'' JWT_CLOCK_SKEW now = Ok c"
proof -
  obtain uri ks kid e where f: "mf_resolve_jwks_uri F iss dwk = Ok uri" "mf_fetch_jwks F uri = Ok ks"
    "kp_kid kp = Some kid" "jwk_set_find ks kid = Some e" "je_jwk e = kp_public_jwk L kp"
    using assms(4) by (auto simp: publishes_def)
  have "same_key L (kl_verifying K (kp_signing kp)) (je_jwk e)"
    using assms(3) f(5) by (simp add: same_key_def well_kept_def kp_public_jwk_def public_jwk_for_def)
  then obtain key where k: "jl_from_jwk L e = Ok key"
    "\<forall>now. \<not> expired_at now (expiry c) \<longrightarrow> dec t key ''EdDSA'' JWT_CLOCK_SKEW now = Ok c"
    using assms(1,2) unfolding codec_for_def kp_encoding_key_def
    by (metis eddsa_header_def raw_header.select_convs(2))
  have "fetch_decoding_key L F iss dwk t = Ok key"
    using f k(1) codec_header(1) [OF assms(1,2)] by (simp add: fetch_decoding_key_def jwt_err_def)
  with k(2) that show thesis by blast
qed

text \<open>The same for a whole token of each kind.\<close>

lemma agent_token_reads:
  assumes "key_codec L K" "kl_encode_agent K (eddsa_header Typ_Agent (kp_kid kp)) c (kp_encoding_key K kp) = Ok t"
  shows "parse_token L t = Ok (PT_Agent c)"
proof -
  have codec: "codec_for L K (kl_encode_agent K) (jl_insecure_agent L) (jl_decode_agent L) ag_exp"
    using assms(1) by (simp add: key_codec_def)
  show ?thesis using codec_header(1,2) [OF codec assms(2)]
    by (auto simp: parse_token_def Let_def jwt_err_def)
qed

lemma agent_token_verifies:
  assumes "key_codec L K" "kl_encode_agent K (eddsa_header Typ_Agent (kp_kid kp)) c (kp_encoding_key K kp) = Ok t"
    and "well_kept L K kp" "publishes L F (ag_iss c) (ag_dwk c) kp"
  obtains key where "fetch_decoding_key L F (ag_iss c) (ag_dwk c) t = Ok key"
    "\<And>now. \<not> expired_at now (ag_exp c) \<Longrightarrow> verify_with_key L now t key = Ok (PT_Agent c)"
proof -
  have codec: "codec_for L K (kl_encode_agent K) (jl_insecure_agent L) (jl_decode_agent L) ag_exp"
    using assms(1) by (simp add: key_codec_def)
  obtain key where k: "fetch_decoding_key L F (ag_iss c) (ag_dwk c) t = Ok key"
    "\<And>now. \<not> expired_at now (ag_exp c) \<Longrightarrow> jl_decode_agent L t key ''EdDSA'' JWT_CLOCK_SKEW now = Ok c"
    using codec_key [OF codec assms(2-4)] by blast
  have "verify_with_key L now t key = Ok (PT_Agent c)" if "\<not> expired_at now (ag_exp c)" for now
    using k(2) [OF that] codec_header(1) [OF codec assms(2)]
    by (simp add: verify_with_key_def Let_def jwt_err_def)
  with k(1) that show thesis by blast
qed

lemma auth_token_reads:
  assumes "key_codec L K" "kl_encode_auth K (eddsa_header Typ_Auth (kp_kid kp)) c (kp_encoding_key K kp) = Ok t"
    and "au_sub c \<noteq> None \<or> au_scope c \<noteq> None"
  shows "parse_token L t = Ok (PT_Auth c)"
proof -
  have codec: "codec_for L K (kl_encode_auth K) (jl_insecure_auth L) (jl_decode_auth L) au_exp"
    using assms(1) by (simp add: key_codec_def)
  show ?thesis using codec_header(1,2) [OF codec assms(2)] assms(3)
    by (auto simp: parse_token_def Let_def jwt_err_def auth_claims_validate_def)
qed

lemma auth_token_verifies:
  assumes "key_codec L K" "kl_encode_auth K (eddsa_header Typ_Auth (kp_kid kp)) c (kp_encoding_key K kp) = Ok t"
    and "au_sub c \<noteq> None \<or> au_scope c \<noteq> None" "well_kept L K kp" "publishes L F (au_iss c) (au_dwk c) kp"
  obtains key where "fetch_decoding_key L F (au_iss c) (au_dwk c) t = Ok key"
    "\<And>now. \<not> expired_at now (au_exp c) \<Longrightarrow> verify_with_key L now t key = Ok (PT_Auth c)"
proof -
  have codec: "codec_for L K (kl_encode_auth K) (jl_insecure_auth L) (jl_decode_auth L) au_exp"
    using assms(1) by (simp add: key_codec_def)
  obtain key where k: "fetch_decoding_key L F (au_iss c) (au_dwk c) t = Ok key"
    "\<And>now. \<not> expired_at now (au_exp c) \<Longrightarrow> jl_decode_auth L t key ''EdDSA'' JWT_CLOCK_SKEW now = Ok c"
    using codec_key [OF codec assms(2,4,5)] by blast
  have "verify_with_key L now t key = Ok (PT_Auth c)" if "\<not> expired_at now (au_exp c)" for now
    using k(2) [OF that] codec_header(1) [OF codec assms(2)] assms(3)
    by (auto simp: verify_with_key_def Let_def jwt_err_def auth_claims_validate_def)
  with k(1) that show thesis by blast
qed

lemma resource_token_reads:
  assumes "key_codec L K"
    and "kl_encode_resource K (eddsa_header Typ_Resource (kp_kid kp)) c (kp_encoding_key K kp) = Ok t"
  shows "parse_token L t = Ok (PT_Resource c)"
proof -
  have codec: "codec_for L K (kl_encode_resource K) (jl_insecure_resource L) (jl_decode_resource L) rc_exp"
    using assms(1) by (simp add: key_codec_def)
  show ?thesis using codec_header(1,2) [OF codec assms(2)]
    by (auto simp: parse_token_def Let_def jwt_err_def)
qed

lemma resource_token_verifies:
  assumes "key_codec L K"
    and "kl_encode_resource K (eddsa_header Typ_Resource (kp_kid kp)) c (kp_encoding_key K kp) = Ok t"
    and "well_kept L K kp" "publishes L F (rc_iss c) (rc_dwk c) kp"
  obtains key where "fetch_decoding_key L F (rc_iss c) (rc_dwk c) t = Ok key"
    "\<And>now. \<not> expired_at now (rc_exp c) \<Longrightarrow> verify_with_key L now t key = Ok (PT_Resource c)"
proof -
  have codec: "codec_for L K (kl_encode_resource K) (jl_insecure_resource L) (jl_decode_resource L) rc_exp"
    using assms(1) by (simp add: key_codec_def)
  obtain key where k: "fetch_decoding_key L F (rc_iss c) (rc_dwk c) t = Ok key"
    "\<And>now. \<not> expired_at now (rc_exp c) \<Longrightarrow> jl_decode_resource L t key ''EdDSA'' JWT_CLOCK_SKEW now = Ok c"
    using codec_key [OF codec assms(2-4)] by blast
  have "verify_with_key L now t key = Ok (PT_Resource c)" if "\<not> expired_at now (rc_exp c)" for now
    using k(2) [OF that] codec_header(1) [OF codec assms(2)]
    by (simp add: verify_with_key_def Let_def jwt_err_def)
  with k(1) that show thesis by blast
qed

definition keys_kept :: "'key jwt_lib \<Rightarrow> ('sk, 'ek) key_lib \<Rightarrow> 'sk test_keys \<Rightarrow> bool" where
  "keys_kept L K keys \<longleftrightarrow> well_kept L K (tk_agent_ephemeral keys) \<and>
     (\<forall>kp \<in> {tk_agent_root keys, tk_person_server keys, tk_access_server keys, tk_resource keys}.
        well_kept L K kp \<and> kp_kid kp = Some (kp_thumbprint kp))"

lemma test_keys_kept: "test_keys_generate L K s1 s2 s3 s4 s5 = Some keys \<Longrightarrow> keys_kept L K keys"
  by (auto simp: test_keys_generate_def keys_kept_def generate_key_def split: option.splits dest!: generated_kept)

text \<open>Generating keys never panics.\<close>

lemma test_keys_exist: "\<exists>keys. test_keys_generate L K s1 s2 s3 s4 s5 = Some keys"
  using generates(1) [of L K s2 None] generates(2) [of L K s1] generates(2) [of L K s3]
    generates(2) [of L K s4] generates(2) [of L K s5]
  by (auto simp: test_keys_generate_def generate_key_def)

lemma agent_jwt_accepted:
  assumes "key_codec L K" "keys_kept L K keys" "mint_agent_jwt L K keys t0 jti url sub ps = Some aj"
    and "publishes L F url ''aauth-agent.json'' (tk_agent_root keys)"
    and "is_valid_server_identifier parse url" "\<forall>p. ps = Some p \<longrightarrow> is_valid_server_identifier parse p"
    and "\<not> i64_less (now + CLOCK_SKEW) t0" "\<not> expired_at now (t0 + 3600)"
  shows "verify_token L parse F now aj (kp_thumbprint (tk_agent_ephemeral keys)) =
    Ok (PT_Agent (mint_agent_claims t0 jti (kp_public_jwk L (tk_agent_ephemeral keys)) url sub ps))"
proof -
  let ?c = "mint_agent_claims t0 jti (kp_public_jwk L (tk_agent_ephemeral keys)) url sub ps"
  have enc: "kl_encode_agent K (eddsa_header Typ_Agent (kp_kid (tk_agent_root keys))) ?c
      (kp_encoding_key K (tk_agent_root keys)) = Ok aj"
    using assms(3) by (simp add: mint_agent_jwt_def)
  have f: "ag_iss ?c = url" "ag_dwk ?c = ''aauth-agent.json''" "ag_iat ?c = t0" "ag_exp ?c = t0 + 3600"
    "ag_ps ?c = ps" "parent_agent ?c = None" "cnf_jwk (ag_cnf ?c) = kp_public_jwk L (tk_agent_ephemeral keys)"
    by (simp_all add: mint_agent_claims_def)
  have kept: "well_kept L K (tk_agent_root keys)"
    "jwk_thumbprint L (kp_public_jwk L (tk_agent_ephemeral keys)) = Ok (kp_thumbprint (tk_agent_ephemeral keys))"
    using assms(2) by (auto simp: keys_kept_def well_kept_def)
  have "publishes L F (ag_iss ?c) (ag_dwk ?c) (tk_agent_root keys)" using assms(4) f by simp
  then obtain key where k: "fetch_decoding_key L F url ''aauth-agent.json'' aj = Ok key"
    "verify_with_key L now aj key = Ok (PT_Agent ?c)"
    using agent_token_verifies [OF assms(1) enc kept(1)] assms(8) f by metis
  have v: "validate_agent_token_claims parse now ?c = Ok ()"
    using assms(5-7) f by (auto simp: validate_agent_token_claims_def split: option.split)
  show ?thesis
    using agent_token_reads [OF assms(1) enc] v k kept(2) assms(8) f
    by (simp add: verify_token_def)
qed

lemma auth_jwt_accepted:
  assumes "key_codec L K" "well_kept L K kp"
    and "encode_auth_jwt (auth_encoder K kp) t0 jti (kp_kid kp) dwk iss aud agent jwk sub scope = Ok t"
    and "publishes L F iss dwk kp" "sub \<noteq> None \<or> scope \<noteq> None"
    and "jwk_thumbprint L jwk = Ok tp" "\<not> expired_at now (t0 + 3600)"
  shows "verify_token L parse F now t tp =
      Ok (PT_Auth (mint_auth_claims t0 jti dwk iss aud agent jwk sub scope))"
    and "\<lbrakk>normalize_server_url low aud = normalize_server_url low resource_url;
        normalize_server_url low iss = normalize_server_url low asserted\<rbrakk> \<Longrightarrow>
      verify_client_auth_token L low F now t resource_url asserted agent tp check =
      Ok (mint_auth_claims t0 jti dwk iss aud agent jwk sub scope)"
proof -
  let ?c = "mint_auth_claims t0 jti dwk iss aud agent jwk sub scope"
  have enc: "kl_encode_auth K (eddsa_header Typ_Auth (kp_kid kp)) ?c (kp_encoding_key K kp) = Ok t"
    using assms(3) by (simp add: encode_auth_jwt_def auth_encoder_def eddsa_header_def res_simps)
  have f: "au_iss ?c = iss" "au_dwk ?c = dwk" "au_aud ?c = aud" "au_agent ?c = agent" "au_act ?c = None"
    "au_exp ?c = t0 + 3600" "cnf_jwk (au_cnf ?c) = jwk" "au_sub ?c \<noteq> None \<or> au_scope ?c \<noteq> None"
    using assms(5) by (simp_all add: mint_auth_claims_def)
  have "publishes L F (au_iss ?c) (au_dwk ?c) kp" using assms(4) f by simp
  then obtain key where k: "fetch_decoding_key L F iss dwk t = Ok key"
    "verify_with_key L now t key = Ok (PT_Auth ?c)"
    using auth_token_verifies [OF assms(1) enc f(8) assms(2)] assms(7) f by metis
  have r: "parse_token L t = Ok (PT_Auth ?c)" using auth_token_reads [OF assms(1) enc f(8)] .
  show "verify_token L parse F now t tp = Ok (PT_Auth ?c)"
    using r k assms(6,7) f by (simp add: verify_token_def)
  assume "normalize_server_url low aud = normalize_server_url low resource_url"
    "normalize_server_url low iss = normalize_server_url low asserted"
  then show "verify_client_auth_token L low F now t resource_url asserted agent tp check = Ok ?c"
    using r k assms(6,7) f
    by (simp add: verify_client_auth_token_def verify_client_auth_token_claims_def verify_auth_token_binding_def)
qed

text \<open>
  C20: what the two servers mint is accepted. With freshly generated keys, an auth token of the
  Person Server or of the Access Server, for any issuer, audience, agent and key, is accepted
  by the verifier of a resource that fetches that server's published keys, on a request
  signed by the agent's key and until the token's expiry plus the clock skew; the verifier
  returns exactly the claims that were asked for.
\<close>
theorem minted_tokens_accepted:
  assumes "key_codec L K" "reads_jwk K" "test_keys_generate L K s1 s2 s3 s4 s5 = Some keys"
    and "(minter, dwk, fetcher) \<in>
      {(person_minter K keys t0 jti, ''aauth-person.json'', person_metadata_fetcher L K keys iss),
       (access_minter K keys t0 jti, ''aauth-access.json'', access_metadata_fetcher L K keys iss)}"
    and "minter iss aud agent jwk sub scope = Ok t" "sub \<noteq> None \<or> scope \<noteq> None"
    and "jwk_thumbprint L jwk = Ok tp" "\<not> expired_at now (t0 + 3600)"
  shows "\<exists>F. fetcher = Some F \<and>
    verify_token L parse F now t tp = Ok (PT_Auth (mint_auth_claims t0 jti dwk iss aud agent jwk sub scope))"
proof -
  have kept: "keys_kept L K keys" using test_keys_kept [OF assms(3)] .
  obtain kp where kp: "kp \<in> {tk_person_server keys, tk_access_server keys}" "fetcher = key_fetcher L K kp iss"
    "encode_auth_jwt (auth_encoder K kp) t0 jti (kp_kid kp) dwk iss aud agent jwk sub scope = Ok t"
    using assms(4,5) that [of "tk_person_server keys"] that [of "tk_access_server keys"]
    by (auto simp: person_minter_def access_minter_def mint_person_auth_jwt_def mint_access_auth_jwt_def
        person_metadata_fetcher_def access_metadata_fetcher_def)
  have w: "well_kept L K kp" "kp_kid kp = Some (kp_thumbprint kp)" using kept kp(1) by (auto simp: keys_kept_def)
  obtain F where F: "key_fetcher L K kp iss = Some F" "\<forall>iss dwk. publishes L F iss dwk kp"
    using key_fetcher_publishes [OF assms(2) w(2)] by blast
  show ?thesis
    using auth_jwt_accepted(1) [OF assms(1) w(1) kp(3) F(2) [rule_format] assms(6-8)] F(1) kp(2) by blast
qed

section \<open>A concrete key set\<close>

text \<open>
  Sample crates: each kind of token has one text, which is read back as the claims it was made
  of; any key is the one key \<^verbatim>\<open>K\<close>, whose base64 form and thumbprint are \<^verbatim>\<open>T\<close>.
\<close>

definition minted_agent :: agent_claims where
  "minted_agent = mint_agent_claims 1000 ''j1'' (public_jwk_for sample_lib [] None) ''https://a''
     ''aauth:me@a.com'' (Some ''https://p'')"

definition minted_auth :: auth_claims where
  "minted_auth = mint_auth_claims 1000 ''j2'' ''aauth-person.json'' ''https://p'' ''https://r''
     ''aauth:me@a.com'' (public_jwk_for sample_lib [] None) (Some ''u'') None"

definition minted_lib :: "auth_claims \<Rightarrow> resource_claims \<Rightarrow> string jwt_lib" where
  "minted_lib au rc = sample_lib
     \<lparr>jl_header := (\<lambda>t. Ok (eddsa_header (if starts_with ''agent'' t then Typ_Agent
        else if starts_with ''auth'' t then Typ_Auth else Typ_Resource) (Some ''T''))),
      jl_insecure_agent := (\<lambda>_. Ok minted_agent), jl_insecure_auth := (\<lambda>_. Ok au),
      jl_insecure_resource := (\<lambda>_. Ok rc),
      jl_decode_agent := (\<lambda>_ _ _ _ _. Ok minted_agent), jl_decode_auth := (\<lambda>_ _ _ _ _. Ok au),
      jl_decode_resource := (\<lambda>_ _ _ _ _. Ok rc)\<rparr>"

definition minted_keys_lib :: "auth_claims \<Rightarrow> resource_claims \<Rightarrow> (unit, unit) key_lib" where
  "minted_keys_lib au rc =
     \<lparr>kl_verifying = (\<lambda>_. []), kl_bytes = (\<lambda>_. []), kl_encoding_key = (\<lambda>_. ()),
      kl_jwk = (\<lambda>j. case de_public_jwk j of Some k \<Rightarrow> Ok \<lparr>je_kid = jwk_kid k, je_jwk = k\<rparr>
         | None \<Rightarrow> Err ''no key''),
      kl_encode_agent = (\<lambda>h c _. if h = eddsa_header Typ_Agent (Some ''T'') \<and> c = minted_agent
         then Ok ''agent.p.s'' else Err ''other''),
      kl_encode_auth = (\<lambda>h c _. if h = eddsa_header Typ_Auth (Some ''T'') \<and> c = au
         then Ok ''auth.p.s'' else Err ''other''),
      kl_encode_resource = (\<lambda>h c _. if h = eddsa_header Typ_Resource (Some ''T'') \<and> c = rc
         then Ok ''resource.p.s'' else Err ''other'')\<rparr>"

lemma public_jwk_rt: "de_public_jwk (JObj (jwk_json k)) = Some k"
  by (cases k; cases "jwk_y k"; cases "jwk_kid k")
    (simp_all add: de_public_jwk_def jwk_json_def field_def en_opt_def)

lemma minted_reads_jwk: "reads_jwk (minted_keys_lib au rc)"
  by (simp add: reads_jwk_def minted_keys_lib_def public_jwk_rt)

lemma minted_codec: "key_codec (minted_lib au rc) (minted_keys_lib au rc)"
  by (auto simp: key_codec_def codec_for_def minted_lib_def minted_keys_lib_def sample_lib_def header_segment_def
      eddsa_header_def to_str_ok_def byte_def unquoted_def json_get_def split: if_splits)

lemma minted_thumbprint: "jwk_thumbprint (minted_lib au rc) (public_jwk_for sample_lib [] kid) = Ok ''T''"
  by (simp add: jwk_thumbprint_def httpsig_thumbprint_def thumbprint_members_def public_jwk_for_def
      minted_lib_def sample_lib_def)

definition minted_pair :: "string option \<Rightarrow> unit key_pair" where
  "minted_pair kid = \<lparr>kp_signing = (), kp_verifying = [], kp_kid = kid, kp_thumbprint = ''T''\<rparr>"

definition minted_test_keys :: "unit test_keys" where
  "minted_test_keys =
     \<lparr>tk_agent_root = minted_pair (Some ''T''), tk_agent_ephemeral = minted_pair None,
      tk_person_server = minted_pair (Some ''T''), tk_access_server = minted_pair (Some ''T''),
      tk_resource = minted_pair (Some ''T'')\<rparr>"

lemma minted_public: "public_jwk_for (minted_lib au rc) v kid = public_jwk_for sample_lib [] kid"
  by (simp add: public_jwk_for_def minted_lib_def sample_lib_def)

lemma minted_generate:
  "test_keys_generate (minted_lib au rc) (minted_keys_lib au rc) () () () () () = Some minted_test_keys"
  by (simp add: test_keys_generate_def generate_with_thumbprint_kid_def generate_key_def generate_inner_def
      Let_def minted_public minted_thumbprint minted_test_keys_def minted_pair_def)
    (simp add: minted_keys_lib_def)

lemma minted_person_token:
  "person_minter (minted_keys_lib minted_auth rc) minted_test_keys 1000 ''j2'' ''https://p'' ''https://r'' ''aauth:me@a.com''
     (public_jwk_for sample_lib [] None) (Some ''u'') None = Ok ''auth.p.s''"
  by (simp add: person_minter_def mint_person_auth_jwt_def encode_auth_jwt_def auth_encoder_def jwt_err_def)
    (simp add: minted_keys_lib_def minted_auth_def eddsa_header_def minted_test_keys_def minted_pair_def)

theorem minted_tokens_accepted_witness:
  "\<exists>F. person_metadata_fetcher (minted_lib minted_auth sample_resource) (minted_keys_lib minted_auth sample_resource) minted_test_keys
       ''https://p'' = Some F \<and>
     verify_token (minted_lib minted_auth sample_resource) sample_parse F 4600 ''auth.p.s'' ''T'' = Ok (PT_Auth minted_auth)"
  unfolding minted_auth_def
  by (rule minted_tokens_accepted [where minter =
        "person_minter (minted_keys_lib minted_auth sample_resource) minted_test_keys 1000 ''j2''",
        OF minted_codec minted_reads_jwk minted_generate _ minted_person_token _ minted_thumbprint])
    (simp_all add: minted_auth_def expired_at_def i64_less_def CLOCK_SKEW_def)

end
