(* ===== verification/Access_Client.thy ===== *)
theory Access_Client
  imports Agent_Poll Federation Respond
begin

text \<open>
  The Person Server's client of an Access Server over HTTP
  (\<^verbatim>\<open>aauth-reqwest/src/access_client.rs\<close>): signing with the server's own key, token exchange,
  resumption and polling, and how it reads the answers of the Access Server of this
  repository (\<open>Respond\<close>).
\<close>

section \<open>The wire\<close>

record wire_request =
  wr_method :: string
  wr_url :: string
  wr_headers :: header_map
  wr_body :: string

text \<open>
  \<open>xc_send\<close> is \<^verbatim>\<open>reqwest\<close>'s \<^verbatim>\<open>send\<close>, its \<open>Inl\<close> the text of a transport error;
  \<open>xc_signature_jwt\<close> mints the JWT the Person Server presents; \<open>xc_members\<close> is the iteration
  order of a \<^verbatim>\<open>HashMap\<close>.
\<close>

record ('w, 'p, 's) as_client =
  xc_http :: "('p, 's) httpsig_lib"
  xc_up :: "string \<Rightarrow> string"
  xc_unix :: "'w \<Rightarrow> u64"
  xc_client :: client_lib
  xc_clock :: "'w clock"
  xc_signing_jwk :: signing_jwk
  xc_signature_jwt :: "'w \<Rightarrow> string"
  xc_members :: "(string \<rightharpoonup> json) \<Rightarrow> (string \<times> json) list"
  xc_send :: "wire_request \<Rightarrow> 'w \<Rightarrow> (string + response) \<times> 'w"

abbreviation xc_json :: "('w, 'p, 's) as_client \<Rightarrow> serde_json" where
  "xc_json C \<equiv> cl_json (xc_client C)"

definition xc_get :: "string \<Rightarrow> header_map \<Rightarrow> wire_request" where
  "xc_get url headers = \<lparr>wr_method = ''GET'', wr_url = url, wr_headers = headers, wr_body = []\<rparr>"

definition xc_post :: "string \<Rightarrow> header_map \<Rightarrow> string \<Rightarrow> wire_request" where
  "xc_post url headers body = \<lparr>wr_method = ''POST'', wr_url = url, wr_headers = headers, wr_body = body\<rparr>"

section \<open>URLs and headers\<close>

definition host_with_port :: "url_parts \<Rightarrow> string \<Rightarrow> string" where
  "host_with_port u host = host @ (case u_port u of None \<Rightarrow> [] | Some p \<Rightarrow> '':'' @ show_nat (unat p))"

definition url_authority_path :: "client_lib \<Rightarrow> string \<Rightarrow> aauth_error + (string \<times> string)" where
  "url_authority_path CL url =
     bind_res (map_err (\<lambda>m. Deferred (DE_InvalidUrl m)) (cl_parse CL url)) (\<lambda>u.
     bind_res (ok_or (u_host_str u) (Deferred DE_MissingHost)) (\<lambda>host.
     Ok (host_with_port u host, u_path u)))"

definition origin_of :: "client_lib \<Rightarrow> string \<Rightarrow> aauth_error + string" where
  "origin_of CL url =
     bind_res (map_err (\<lambda>m. Deferred (DE_InvalidUrl m)) (cl_parse CL url)) (\<lambda>u.
     bind_res (ok_or (u_host_str u) (Deferred DE_MissingHost)) (\<lambda>host.
     Ok (u_scheme u @ ''://'' @ host_with_port u host)))"

text \<open>The last of several values of a header survives the copy.\<close>

definition response_headers_to_http :: "header_map \<Rightarrow> header_map" where
  "response_headers_to_http headers = fold (\<lambda>(n, v) hs. hm_insert hs n v) headers []"

definition parse_retry_after :: "header_map \<Rightarrow> u64 option" where
  "parse_retry_after headers = Option.bind (header_value headers ''retry-after'') parse_u64"

section \<open>Signing\<close>

definition xc_signing_material :: "('w, 'p, 's) as_client \<Rightarrow> 'w \<Rightarrow> signing_material" where
  "xc_signing_material C w =
     \<lparr>sm_signing_jwk = xc_signing_jwk C, sm_signature_key = SK_Jwt (xc_signature_jwt C w)\<rparr>"

definition sign_headers :: "('w, 'p, 's) as_client \<Rightarrow> string \<Rightarrow> string \<Rightarrow> ('w, aauth_error, header_map) action" where
  "sign_headers C meth url w =
     (bind_res (url_authority_path (xc_client C) url) (\<lambda>(authority, path).
        case http_sign (xc_http C) (xc_up C) (xc_unix C w) meth authority path (xc_signing_material C w) [] None [] of
          (Inl e, _) \<Rightarrow> Err (Signature (signature_error_from e))
        | (Inr _, headers) \<Rightarrow> Ok headers), w)"

section \<open>Metadata and exchange\<close>

abbreviation request_failed :: "string \<Rightarrow> string \<Rightarrow> aauth_error" where
  "request_failed url m \<equiv> Metadata (ME_Request url m)"

abbreviation transport_failed :: "string \<Rightarrow> aauth_error" where
  "transport_failed m \<equiv> Deferred (DE_Transport m)"

text \<open>\<^verbatim>\<open>Response::json\<close>: one error for a body that cannot be read and one that cannot be decoded.\<close>

definition response_json :: "client_lib \<Rightarrow> (json \<Rightarrow> 'a option) \<Rightarrow> response \<Rightarrow> string + 'a" where
  "response_json CL d resp = bind_res (cl_body CL resp) (from_slice (cl_json CL) d)"

definition xc_fetch_metadata ::
    "('w, 'p, 's) as_client \<Rightarrow> string \<Rightarrow> ('w, aauth_error, access_server_metadata) action" where
  "xc_fetch_metadata C access_server_url =
     (let url = trim_end_matches (CHR ''/'') access_server_url @ ''/.well-known/aauth-access.json'' in
      seq (err_as (request_failed url) (xc_send C (xc_get url []))) (\<lambda>resp.
      lift_res (if \<not> is_success (rs_status resp) then Err (Metadata (ME_HttpStatus url (rs_status resp)))
        else map_err (request_failed url) (response_json (xc_client C) de_access_metadata resp))))"

text \<open>What an answer of the token endpoint means.\<close>

definition exchange_outcome ::
    "client_lib \<Rightarrow> string \<Rightarrow> response \<Rightarrow> aauth_error + access_exchange_outcome" where
  "exchange_outcome CL token_endpoint resp =
     bind_res (origin_of CL token_endpoint) (\<lambda>access_server_url.
     if rs_status resp = 402 then Err (Deferred DE_PaymentNotRequirement)
     else if rs_status resp = 202 then
       bind_res (map_err (request_failed token_endpoint) (cl_body CL resp)) (\<lambda>body.
       map_ok (\<lambda>p. AX_Deferred (pd_requirement p) (pd_location p))
         (parse_deferred_response (cl_json CL) (cl_join CL) 202 (response_headers_to_http (rs_headers resp))
            body access_server_url))
     else if \<not> is_success (rs_status resp) then Err (Metadata (ME_HttpStatus token_endpoint (rs_status resp)))
     else map_ok AX_Complete
       (map_err (request_failed token_endpoint) (response_json CL de_token_response resp)))"

definition xc_exchange_token ::
    "('w, 'p, 's) as_client \<Rightarrow> string \<Rightarrow> access_token_exchange_request \<Rightarrow>
     ('w, aauth_error, access_exchange_outcome) action" where
  "xc_exchange_token C token_endpoint request =
     seq (sign_headers C ''POST'' token_endpoint) (\<lambda>headers.
     seq (err_as (request_failed token_endpoint) (xc_send C (xc_post token_endpoint
            (hm_insert headers ''content-type'' ''application/json'')
            (sj_print (xc_json C) (en_access_exchange request))))) (\<lambda>resp.
     lift_res (exchange_outcome (xc_client C) token_endpoint resp)))"

section \<open>Resumption\<close>

definition en_claims_submission ::
    "((string \<rightharpoonup> json) \<Rightarrow> (string \<times> json) list) \<Rightarrow> claims_submission \<Rightarrow> json" where
  "en_claims_submission members c =
     JObj ([(''sub'', JStr (cs_sub c))] @ en_opt ''email'' JStr (cs_email c) @ en_opt ''tenant'' JStr (cs_tenant c)
       @ members (cs_extra c))"

definition en_updated_token :: "updated_token_request \<Rightarrow> json" where
  "en_updated_token r =
     JObj ([(''resource_token'', JStr (ut_resource_token r))] @ en_opt ''justification'' JStr (ut_justification r))"

definition resume_body :: "('w, 'p, 's) as_client \<Rightarrow> pending_input \<Rightarrow> string" where
  "resume_body C input =
     (case input of
        PI_ClarificationResponse answer \<Rightarrow> sj_print (xc_json C) (JObj [(''clarification_response'', JStr answer)])
      | PI_ClaimsSubmission claims \<Rightarrow> sj_print (xc_json C) (en_claims_submission (xc_members C) claims)
      | PI_InteractionCompleted \<Rightarrow> ''{}''
      | PI_Cancelled \<Rightarrow> ''{}''
      | PI_UpdatedToken updated \<Rightarrow> sj_print (xc_json C) (en_updated_token updated))"

definition resume_outcome :: "serde_json \<Rightarrow> u16 \<Rightarrow> string \<Rightarrow> aauth_error + token_response_body option" where
  "resume_outcome sj status body =
     (if status = 200 then map_ok Some (parse_auth_token_response sj status body)
      else if status \<in> {202, 403, 410} then Ok None
      else Err (Deferred (DE_PostFailed status)))"

definition xc_resume_pending ::
    "('w, 'p, 's) as_client \<Rightarrow> string \<Rightarrow> pending_input \<Rightarrow> ('w, aauth_error, token_response_body option) action" where
  "xc_resume_pending C pending_url input =
     seq (sign_headers C ''POST'' pending_url) (\<lambda>signed.
     seq (err_as transport_failed (xc_send C (xc_post pending_url
            ((''content-type'', ''application/json'') # signed) (resume_body C input)))) (\<lambda>resp.
     lift_res (bind_res (map_err transport_failed (cl_body (xc_client C) resp)) (resume_outcome (xc_json C) (rs_status resp)))))"

section \<open>Polling\<close>

text \<open>\<open>poll_answer\<close>: what one answer means; \<open>None\<close> asks for another poll.\<close>

definition poll_answer ::
    "client_lib \<Rightarrow> string \<Rightarrow> response \<Rightarrow> string \<Rightarrow> aauth_error + server_poll_outcome option" where
  "poll_answer CL access_server_url resp body =
     (let status = rs_status resp in
      if status = 200 then
        (case parse_auth_token_response (cl_json CL) status body of
           Inr token \<Rightarrow> Ok (Some (SP_AuthToken token))
         | Inl _ \<Rightarrow> Err (Deferred DE_MissingAuthTokenBody))
      else if status = 410 then Ok (Some SP_Gone)
      else if status = 403 then
        Ok (Some (SP_Error (case from_slice (cl_json CL) de_protocol_error body of
             Inr err \<Rightarrow> err | Inl _ \<Rightarrow> pe_with_description EC_AccessDenied ''Access denied'')))
      else if status = 202 then
        map_ok (\<lambda>p. Some (SP_Deferred (pd_requirement p) (pd_location p)))
          (parse_deferred_response (cl_json CL) (cl_join CL) status (response_headers_to_http (rs_headers resp))
             body access_server_url)
      else if status = 503 then Ok None
      else Err (Deferred (DE_UnexpectedStatus 200 status)))"

datatype access_poll_turn = AT_Answer server_poll_outcome | AT_Again u64

definition access_poll_turn ::
    "('w, 'p, 's) as_client \<Rightarrow> string \<Rightarrow> string \<Rightarrow> u64 \<Rightarrow> u64 \<Rightarrow> ('w, aauth_error, access_poll_turn) action" where
  "access_poll_turn C access_server_url url wait_pref backoff_ms =
     seq (err_as transport_failed (xc_send C (xc_get url [(''prefer'', ''wait='' @ show_nat (unat wait_pref))]))) (\<lambda>resp.
     seq (lift_res (map_err transport_failed (cl_body (xc_client C) resp))) (\<lambda>body.
     seq (lift_res (poll_answer (xc_client C) access_server_url resp body)) (\<lambda>answer w.
       case answer of
         Some out \<Rightarrow> (Ok (AT_Answer out), w)
       | None \<Rightarrow>
           (Ok (AT_Again (min (backoff_ms * 2) 30000)),
            ck_sleep (xc_clock C)
              (retry_delay_from_secs (parse_retry_after (response_headers_to_http (rs_headers resp))) backoff_ms) w))))"

partial_function (option) access_poll_loop ::
    "('w, 'p, 's) as_client \<Rightarrow> string \<Rightarrow> string \<Rightarrow> u64 \<Rightarrow> u64 \<Rightarrow> nat \<Rightarrow> u64 \<Rightarrow> 'w \<Rightarrow>
     ((aauth_error + server_poll_outcome) \<times> 'w) option" where
  "access_poll_loop C access_server_url url wait_pref secs deadline backoff_ms w =
     (if ck_now (xc_clock C) w < deadline then
        (case access_poll_turn C access_server_url url wait_pref backoff_ms w of
           (Inl e, w') \<Rightarrow> Some (Err e, w')
         | (Inr (AT_Answer out), w') \<Rightarrow> Some (Ok out, w')
         | (Inr (AT_Again b), w') \<Rightarrow> access_poll_loop C access_server_url url wait_pref secs deadline b w')
      else Some (Err (Deferred (DE_TimedOut secs)), w))"

text \<open>\<open>None\<close> is also the panic of \<^verbatim>\<open>Instant::now() + Duration\<close> on a huge configured limit.\<close>

definition xc_poll_pending ::
    "('w, 'p, 's) as_client \<Rightarrow> string \<Rightarrow> server_poll_options \<Rightarrow> 'w \<Rightarrow>
     ((aauth_error + server_poll_outcome) \<times> 'w) option" where
  "xc_poll_pending C access_server_url options w =
     (let secs = (case max_poll_duration_secs options of None \<Rightarrow> SERVER_POLL_DEFAULT_MAX_SECS | Some s \<Rightarrow> s);
          wait_pref = (case prefer_wait options of None \<Rightarrow> SERVER_POLL_DEFAULT_PREFER_WAIT | Some s \<Rightarrow> s) in
      Option.bind (instant_add_secs (ck_now (xc_clock C) w) secs) (\<lambda>deadline.
      access_poll_loop C access_server_url (sp_location_url options) wait_pref secs deadline 1000 w))"

section \<open>Polling ends\<close>

definition answers_take_time :: "('w, 'p, 's) as_client \<Rightarrow> bool" where
  "answers_take_time C \<longleftrightarrow>
     (\<forall>rq w. ck_now (xc_clock C) w < ck_now (xc_clock C) (snd (xc_send C rq w))) \<and>
     (\<forall>ms w. ck_now (xc_clock C) w \<le> ck_now (xc_clock C) (ck_sleep (xc_clock C) ms w))"

lemma access_turn_time:
  assumes "answers_take_time C" "access_poll_turn C base url wait_pref b w = (Ok (AT_Again b'), w')"
  shows "ck_now (xc_clock C) w < ck_now (xc_clock C) w'"
proof -
  obtain resp w1 ms where s: "xc_send C (xc_get url [(''prefer'', ''wait='' @ show_nat (unat wait_pref))]) w = (Inr resp, w1)"
    "w' = ck_sleep (xc_clock C) ms w1"
    using assms(2)
    by (auto simp: access_poll_turn_def err_as_def elim!: seq_cases split: prod.splits option.splits)
  then have "ck_now (xc_clock C) w < ck_now (xc_clock C) w1" "ck_now (xc_clock C) w1 \<le> ck_now (xc_clock C) w'"
    using assms(1) unfolding answers_take_time_def by (metis snd_conv)+
  then show ?thesis by simp
qed

lemma access_polling_ends:
  assumes "answers_take_time C"
  shows "\<exists>r w'. access_poll_loop C base url wait_pref secs deadline b w = Some (r, w')"
proof (induction "deadline - ck_now (xc_clock C) w" arbitrary: w b rule: less_induct)
  case less
  note loop = access_poll_loop.simps [of C base url wait_pref secs deadline b w]
  show ?case
  proof (cases "ck_now (xc_clock C) w < deadline")
    case True
    obtain r w1 where t: "access_poll_turn C base url wait_pref b w = (r, w1)" by fastforce
    have "\<exists>r w'. access_poll_loop C base url wait_pref secs deadline b' w1 = Some (r, w')" if "r = Ok (AT_Again b')" for b'
      using access_turn_time [OF assms] t that True by (intro less.hyps) (simp add: diff_less_mono2)
    then show ?thesis using loop True t by (auto split: sum.splits access_poll_turn.splits)
  qed (use loop in simp)
qed

section \<open>Reading the answers of an Access Server\<close>

lemma hm_get_none: "n \<notin> fst ` set headers \<Longrightarrow> hm_get headers n = None"
  by (induction headers n rule: hm_get.induct) auto

lemma hm_insert_distinct:
  "distinct (map fst headers) \<Longrightarrow> distinct (map fst (hm_insert headers n v))"
  by (auto simp: hm_insert_def hm_remove_def distinct_map_filter)

lemma copied_headers:
  assumes "distinct (map fst headers)"
  shows "header_value (response_headers_to_http headers) n = header_value headers n"
proof -
  have "hm_get (fold (\<lambda>(n, v) hs. hm_insert hs n v) headers acc) n =
      (case hm_get headers n of None \<Rightarrow> hm_get acc n | Some v \<Rightarrow> Some v)" for acc
    using assms
  proof (induction headers arbitrary: acc)
    case (Cons h headers)
    have "hm_get headers (fst h) = None"
      using Cons.prems by (intro hm_get_none) auto
    then show ?case using Cons by (cases h) (auto split: option.split)
  qed simp
  from this [of "[]"] show ?thesis
    by (auto simp: header_value_def response_headers_to_http_def split: option.splits)
qed

lemma json_response_distinct: "distinct (map fst (rs_headers (json_response sj status headers j)))"
proof -
  have "distinct (map fst acc) \<Longrightarrow> distinct (map fst (fold (\<lambda>(n, v) hs. hm_insert hs n v) headers acc))" for acc
    by (induction headers arbitrary: acc) (auto simp: hm_insert_distinct)
  then show ?thesis by (simp add: json_response_def)
qed

text \<open>
  What the client makes of each outcome of an Access Server: a refusal loses its error body.
\<close>

fun relayed :: "string \<Rightarrow> auth_token_flow_outcome \<Rightarrow> aauth_error + access_exchange_outcome" where
  "relayed url (FO_Granted body) = Ok (AX_Complete body)"
| "relayed url (FO_Deferred d) = Ok (AX_Deferred (dc_requirement d) (dc_location d))"
| "relayed url (FO_Denied err) = Err (Metadata (ME_HttpStatus url 403))"
| "relayed url FO_Gone = Err (Metadata (ME_HttpStatus url 410))"

text \<open>\<open>expressible\<close>: the outcome can be written into a response and read from one.\<close>

definition expressible :: "serde_json \<Rightarrow> auth_token_flow_outcome \<Rightarrow> bool" where
  "expressible sj out \<longleftrightarrow>
     (case out of
        FO_Granted body \<Rightarrow> reads_back sj (en_token_response body)
      | FO_Deferred d \<Rightarrow>
          (\<exists>body c. for_created (dc_requirement d) = Ok body \<and> header_challenge (dc_requirement d) = Ok c \<and>
             reads_back sj (en_pending_body body) \<and> absolute (dc_location d) \<and> to_str_ok (dc_location d) \<and>
             to_str_ok (ch_to_header c) \<and> list_all unquoted (ch_values c) \<and> unshadowed c)
      | _ \<Rightarrow> True)"

lemma created_exchange:
  assumes "expressible (cl_json CL) (FO_Deferred d)" "\<And>resp. cl_body CL resp = Inr (rs_body resp)"
  obtains resp where "respond_created (cl_json CL) d = Some resp" "rs_status resp = 202"
    "parse_deferred_response (cl_json CL) (cl_join CL) 202 (response_headers_to_http (rs_headers resp)) (rs_body resp) base
      = Ok \<lparr>pd_location = dc_location d, pd_requirement = dc_requirement d\<rparr>"
proof -
  obtain body c where e: "for_created (dc_requirement d) = Ok body" "header_challenge (dc_requirement d) = Ok c"
    "reads_back (cl_json CL) (en_pending_body body)" "absolute (dc_location d)" "to_str_ok (dc_location d)"
    "to_str_ok (ch_to_header c)" "\<forall>v \<in> set (ch_values c). unquoted v" "unshadowed c"
    using assms(1) by (auto simp: expressible_def list_all_iff)
  obtain resp where r: "respond_created (cl_json CL) d = Some resp" "rs_status resp = 202"
    "header_value (rs_headers resp) ''location'' = Some (dc_location d)"
    "header_value (rs_headers resp) ''aauth-requirement'' = Some (ch_to_header c)"
    "rs_body resp = sj_print (cl_json CL) (en_pending_body body)"
    using created_response [OF e(1,2,5,6), of "cl_json CL"] by metis
  have "distinct (map fst (rs_headers resp))"
    using r(1) e(1) by (auto simp: respond_created_def json_response_distinct)
  note h = copied_headers [OF this]
  show ?thesis
    by (rule that [OF r(1,2)])
      (simp only: r(5), rule parse_created [OF e(1-4,7,8)], simp_all only: h r(3,4))
qed

text \<open>
  C39: what an Access Server of this repository answers, the Person Server's client reads. A
  granted token and a deferral arrive as they were sent, the deferral with its requirement and
  its pending URL; a refusal arrives as a mere HTTP error, its protocol error lost. \<open>expressible\<close>
  leaves out payment deferrals, relative pending URLs, values that a header cannot carry, and
  interaction urls that end in \<^verbatim>\<open>code=\<close>.
\<close>
theorem federated_answer_relayed:
  assumes "expressible (cl_json CL) out" and "origin_of CL url = Ok base"
    and "\<And>resp. cl_body CL resp = Inr (rs_body resp)"
  shows "\<exists>resp. respond_flow (cl_json CL) out = Some resp \<and> exchange_outcome CL url resp = relayed url out"
proof (cases out)
  case (FO_Granted body)
  then show ?thesis using assms
    by (simp add: respond_flow_def exchange_outcome_def json_response_def is_success_def response_json_def
        from_slice_def expressible_def reads_back_def)
next
  case (FO_Deferred d)
  obtain resp where "respond_created (cl_json CL) d = Some resp" "rs_status resp = 202"
    "parse_deferred_response (cl_json CL) (cl_join CL) 202 (response_headers_to_http (rs_headers resp)) (rs_body resp) base
      = Ok \<lparr>pd_location = dc_location d, pd_requirement = dc_requirement d\<rparr>"
    using created_exchange [OF assms(1) [unfolded FO_Deferred] assms(3)] .
  then show ?thesis using assms(2,3) FO_Deferred by (simp add: respond_flow_def exchange_outcome_def)
qed (use assms in \<open>simp_all add: respond_flow_def exchange_outcome_def json_response_def status_response_def
  is_success_def\<close>)

lemma waiting_location:
  assumes "respond_waiting sj waiting = Some resp" "rs_status resp = 202"
  shows "header_value (response_headers_to_http (rs_headers resp)) ''location'' = None"
proof -
  have d: "distinct (map fst (rs_headers resp))"
    using assms(1,2) by (auto simp: respond_waiting_def json_response_distinct internal_error_def split: sum.splits)
  obtain hs body where h: "insert_poll_headers (dw_requirement waiting) [] = Some hs"
    "resp = json_response sj 202 (hm_insert hs ''content-type'' ''application/json'') (en_pending_body body)"
    using assms by (auto simp: respond_waiting_def internal_error_def json_response_def split: sum.splits)
  have "hm_get (rs_headers resp) ''location'' = None"
    using h by (auto simp: insert_poll_headers_def set_header_def hm_insert_def hm_remove_def json_response_def
        Let_def split: sum.splits if_splits)
  then show ?thesis by (simp only: copied_headers [OF d]) (simp add: header_value_def)
qed

text \<open>
  C28: a pending request of an Access Server of this repository cannot be polled by the client.
  Its answer while it waits carries no \<^verbatim>\<open>Location\<close>, which the client demands of every 202; so the
  first poll of a waiting request ends the polling with an error, whatever it waits for.
\<close>
theorem pending_poll_unreadable:
  assumes "respond_poll (cl_json (xc_client C)) (AP_Pending waiting) = Some resp" and "rs_status resp = 202"
    and "\<And>rq. xc_send C rq w = (Inr resp, w')" and "cl_body (xc_client C) resp = Inr body"
    and "instant_add_secs (ck_now (xc_clock C) w)
      (case max_poll_duration_secs opts of None \<Rightarrow> SERVER_POLL_DEFAULT_MAX_SECS | Some s \<Rightarrow> s) = Some deadline"
    and "ck_now (xc_clock C) w < deadline"
  shows "xc_poll_pending C base opts w = Some (Err (Deferred DE_MissingLocation), w')"
proof -
  have "header_value (response_headers_to_http (rs_headers resp)) ''location'' = None"
    using assms(1,2) by (intro waiting_location) (simp_all add: respond_poll_def)
  then have "poll_answer (xc_client C) base resp body = Err (Deferred DE_MissingLocation)"
    using assms(2) by (simp add: poll_answer_def parse_deferred_response_def)
  then have "access_poll_turn C base url wait_pref b w = (Err (Deferred DE_MissingLocation), w')" for url wait_pref b
    using assms(3,4) by (simp add: access_poll_turn_def err_as_def seq_def)
  then show ?thesis using assms(5,6) by (simp add: xc_poll_pending_def Let_def access_poll_loop.simps)
qed

text \<open>An Access Server that is asked at time zero and waits for approval.\<close>

definition sample_answer :: response where
  "sample_answer = the (respond_poll (cl_json sample_client) (AP_Pending \<lparr>dw_status = PS_Pending, dw_requirement = DR_Approval\<rparr>))"

definition sample_as_client :: "(nat, string list \<times> u64 option, string list \<times> u64 option) as_client" where
  "sample_as_client =
     \<lparr>xc_http = sample_http, xc_up = id, xc_unix = (\<lambda>_. 1000), xc_client = sample_client, xc_clock = counting_clock,
      xc_signing_jwk = sample_signing_jwk, xc_signature_jwt = (\<lambda>_. ''agent.p.s''), xc_members = (\<lambda>_. []),
      xc_send = (\<lambda>_ t. (Inr sample_answer, t + 1))\<rparr>"

lemma sample_as_client_simps [simp]:
  "xc_client sample_as_client = sample_client" "xc_clock sample_as_client = counting_clock"
  "xc_send sample_as_client rq t = (Inr sample_answer, t + 1)"
  by (simp_all add: sample_as_client_def)

theorem pending_poll_unreadable_witness:
  "xc_poll_pending sample_as_client ''https://a'' (server_poll_options_new ''https://a/pending/1'') 0 =
     Some (Err (Deferred DE_MissingLocation), 1)"
proof (rule pending_poll_unreadable)
  show "respond_poll (cl_json (xc_client sample_as_client)) (AP_Pending \<lparr>dw_status = PS_Pending, dw_requirement = DR_Approval\<rparr>)
      = Some sample_answer" "rs_status sample_answer = 202"
    by (simp_all add: sample_answer_def respond_poll_def respond_waiting_def for_waiting_def insert_poll_headers_def
        set_header_def header_value_ok_def byte_def json_response_def Let_def)
  show "cl_body (xc_client sample_as_client) sample_answer = Inr (rs_body sample_answer)"
    by (simp add: sample_client_def)
  show "instant_add_secs (ck_now (xc_clock sample_as_client) 0)
      (case max_poll_duration_secs (server_poll_options_new ''https://a/pending/1'') of
         None \<Rightarrow> SERVER_POLL_DEFAULT_MAX_SECS | Some s \<Rightarrow> s) = Some 300000"
    by (simp add: server_poll_options_new_def SERVER_POLL_DEFAULT_MAX_SECS_def instant_add_secs_def counting_clock_def)
qed (simp_all add: counting_clock_def)

definition sample_deferral :: defer_created where
  "sample_deferral = \<lparr>dc_location = ''https://a/pending/1'', dc_requirement = DR_Interaction ''https://a/i'' ''AB''\<rparr>"

theorem federated_answer_relayed_witness:
  "\<exists>resp. respond_flow (sample_json (JObj [(''status'', JStr ''pending'')])) (FO_Deferred sample_deferral) = Some resp \<and>
     exchange_outcome (sample_client\<lparr>cl_json := sample_json (JObj [(''status'', JStr ''pending'')])\<rparr>) ''https://a/token'' resp
       = Ok (AX_Deferred (DR_Interaction ''https://a/i'' ''AB'') ''https://a/pending/1'')"
proof -
  let ?CL = "sample_client\<lparr>cl_json := sample_json (JObj [(''status'', JStr ''pending'')])\<rparr>"
  have o: "origin_of ?CL ''https://a/token'' = Ok ''https://r''"
    by (simp add: origin_of_def sample_client_def sample_url_def host_with_port_def)
  have e: "expressible (cl_json ?CL) (FO_Deferred sample_deferral)"
    by (simp add: expressible_def sample_deferral_def for_created_def for_waiting_def reads_back_def sample_json_def
        absolute_def to_str_ok_def byte_def unquoted_def ends_with_def strip_suffix_def)
  have b: "cl_body ?CL resp = Inr (rs_body resp)" for resp by (simp add: sample_client_def)
  show ?thesis using federated_answer_relayed [OF e o b] by (simp add: sample_deferral_def)
qed

end
