(* ===== verification/Access_Runs.thy ===== *)
theory Access_Runs
  imports Routes
begin

text \<open>
  The Access Server as a whole: its router (\<^verbatim>\<open>access_router\<close> in
  \<^verbatim>\<open>aauth-axum/src/access/routes.rs\<close>) and the runs of a server that starts with an empty
  in-memory store. Between two requests everything but the store may change. Every token the
  server hands out is traced back to the request it was minted for.
\<close>

section \<open>The router (\<^verbatim>\<open>access_router\<close>)\<close>

datatype access_call =
    AC_Metadata
  | AC_Token request
  | AC_Poll string
  | AC_Post string request

definition access_serve ::
    "('p, 'g) front \<Rightarrow> 'key jwt_lib \<Rightarrow> env \<Rightarrow> ('s, 'e) access_service \<Rightarrow> access_call \<Rightarrow> 's \<Rightarrow>
     response option \<times> 's" where
  "access_serve F L ev svc c s =
     (case c of
        AC_Metadata \<Rightarrow> (Some (access_metadata_handler F (av_config svc)), s)
      | AC_Token rq \<Rightarrow> access_token_exchange_handler F L ev svc rq s
      | AC_Poll i \<Rightarrow> access_pending_poll_handler F ev svc i s
      | AC_Post i rq \<Rightarrow> access_pending_post_handler F ev svc i rq s)"

record 'e access_event =
  ae_env :: env
  ae_service :: "(access_pending_context mem_store, 'e) access_service"
  ae_call :: access_call
  ae_reply :: "response option"

inductive access_run ::
    "('p, 'g) front \<Rightarrow> 'key jwt_lib \<Rightarrow>
     ((string \<times> access_pending_context pending_record) list \<Rightarrow> (string \<times> access_pending_context pending_record) list) \<Rightarrow>
     'e access_event list \<Rightarrow> access_pending_context mem_store \<Rightarrow> bool"
  for F L iter where
  access_started: "access_run F L iter [] mem_new"
| access_served: "\<lbrakk>access_run F L iter tr s; av_pending (ae_service e) = mem_ops iter;
     access_serve F L (ae_env e) (ae_service e) (ae_call e) s = (ae_reply e, s')\<rbrakk> \<Longrightarrow>
     access_run F L iter (e # tr) s'"

inductive_cases access_run_served: "access_run F L iter (e # tr) s'"

section \<open>What a post does to a pending request\<close>

text \<open>The policy grants the request on the agent's input, and this is the token minted.\<close>

definition resume_grants ::
    "('s, 'e) access_service \<Rightarrow> access_token_context \<Rightarrow> pending_input \<Rightarrow> token_response_body \<Rightarrow> bool" where
  "resume_grants svc ctx input body \<longleftrightarrow>
     (\<exists>grant. pol_resume (av_policy svc) ctx input = Ok (AD_Grant grant) \<and> mint_access_auth svc grant ctx = Ok body)"

text \<open>\<open>settled P snap\<close>: the snapshot is open, an error, or an auth token with \<open>P\<close>.\<close>

definition settled :: "(token_response_body \<Rightarrow> bool) \<Rightarrow> pending_snapshot \<Rightarrow> bool" where
  "settled P snap \<longleftrightarrow> (\<forall>out. snap = PSn_Complete out \<longrightarrow>
     (\<exists>err. out = PO_Error err) \<or> (\<exists>body. out = PO_AuthToken body \<and> P body))"

lemma settled_simps [simp]:
  "settled P (snapshot_waiting q)" "settled P (snapshot_complete (PO_Error err))"
  "settled P (snapshot_complete (PO_AuthToken body)) \<longleftrightarrow> P body"
  by (simp_all add: settled_def snapshot_waiting_def snapshot_complete_def)

lemma settled_mono: "settled P snap \<Longrightarrow> (\<And>body. P body \<Longrightarrow> Q body) \<Longrightarrow> settled Q snap"
  unfolding settled_def by blast

definition moved ::
    "('s, 'e) access_service \<Rightarrow> pending_input \<Rightarrow> (string \<rightharpoonup> access_pending_context pending_record) \<Rightarrow>
     (string \<rightharpoonup> access_pending_context pending_record) \<Rightarrow> bool" where
  "moved svc input m m' \<longleftrightarrow> (\<forall>j r'. m' j = Some r' \<longrightarrow> (\<exists>r. m j = Some r \<and>
     same_identity r r' \<and> pr_context r' = pr_context r \<and>
     (pr_snapshot r' = pr_snapshot r \<or>
      settled (resume_grants svc (access_context_of (pr_context r)) input) (pr_snapshot r'))))"

lemma same_identity_refl [simp]: "same_identity r r"
  by (simp add: same_identity_def)

lemma moved_refl [simp]: "moved svc input m m"
  by (simp add: moved_def)

lemma moved_remove [simp]: "moved svc input m (m(i := None))"
  by (simp add: moved_def)

lemma moved_snapshot:
  "m i = Some r \<Longrightarrow> settled (resume_grants svc (access_context_of (pr_context r)) input) snap \<Longrightarrow>
     moved svc input m (m(i \<mapsto> r\<lparr>pr_snapshot := snap\<rparr>))"
  by (auto simp: moved_def same_identity_def)

lemma moved_complete:
  "m i = Some r \<Longrightarrow>
     settled (resume_grants svc (access_context_of (pr_context r)) input) (snapshot_complete out) \<Longrightarrow>
     moved svc input m (complete_at i out m)"
  using moved_snapshot [of m i r svc input "snapshot_complete out"]
  by (simp add: complete_at_def set_snapshot_def)

context access_store
begin

abbreviation answered ::
    "env \<Rightarrow> string \<Rightarrow> pending_input \<Rightarrow> (string \<rightharpoonup> access_pending_context pending_record) \<Rightarrow>
     'e access_error + auth_token_flow_outcome \<Rightarrow> 's \<Rightarrow> bool" where
  "answered ev i input m x s' \<equiv> ok s' \<and> moved svc input m (look s') \<and>
     (\<forall>body. x = Inr (FO_Granted body) \<longrightarrow> (\<exists>r. m i = Some r \<and> \<not> is_expired (ev_now ev) r \<and>
        resume_grants svc (access_context_of (pr_context r)) input body))"

lemma decision_answered:
  assumes "ok s" "look s i = Some r" "\<not> is_expired (ev_now ev) r"
    and "pol_resume (av_policy svc) (access_context_of (pr_context r)) input = Ok decision"
  shows "run_sat (apply_access_pending_decision svc (access_context_of (pr_context r)) i decision) s
    (answered ev i input (look s))"
proof (cases decision)
  case (AD_Grant g)
  show ?thesis
  proof (cases "mint_access_auth svc g (access_context_of (pr_context r))")
    case (Inr body)
    then have "resume_grants svc (access_context_of (pr_context r)) input body"
      using assms(4) AD_Grant by (auto simp: resume_grants_def)
    then have "run_sat (op_complete ops i (PO_AuthToken body)) s (\<lambda>x s'.
        ok s' \<and> moved svc input (look s) (look s') \<and> resume_grants svc (access_context_of (pr_context r)) input body)"
      by (intro complete_sat [OF assms(1)]) (simp_all add: moved_complete [of "look s" i r, OF assms(2)])
    then show ?thesis
      unfolding AD_Grant apply_access_pending_decision_def access_token_decision.case sat_simps uses_store Inr
      using assms(2,3) by (auto simp: sat_simps elim!: sat_mono)
  qed (use assms(1) in \<open>simp add: AD_Grant apply_access_pending_decision_def sat_simps\<close>)
next
  case (AD_Deny err)
  have "run_sat (op_complete ops i (PO_Error err)) s (\<lambda>x s'. ok s' \<and> moved svc input (look s) (look s'))"
    by (intro complete_sat [OF assms(1)]) (simp_all add: moved_complete [of "look s" i r, OF assms(2)])
  then show ?thesis
    unfolding AD_Deny apply_access_pending_decision_def access_token_decision.case sat_simps uses_store
    by (auto simp: sat_simps elim!: sat_mono)
next
  case (AD_Defer q)
  have "run_sat (op_save ops i (r\<lparr>pr_snapshot := snapshot_waiting q\<rparr>)) s1 (\<lambda>x s'.
      (\<forall>e. x = Inl e \<longrightarrow> answered ev i input (look s) (Inl (ASE_Store e)) s') \<and>
      (\<forall>a. x = Inr a \<longrightarrow> answered ev i input (look s) (Inr (FO_Deferred
        \<lparr>dc_location = access_pending_url (av_config svc) i, dc_requirement = q\<rparr>)) s'))"
    if "ok s1" "look s1 = look s" for s1
    by (intro save_sat [OF that(1)]) (simp_all add: that moved_snapshot [of "look s" i r, OF assms(2)])
  then have "run_sat (update_access_pending_defer svc i q) s (answered ev i input (look s))"
    unfolding update_access_pending_defer_def sat_simps uses_store
    by (intro load_sat [OF assms(1)]) (auto simp: assms(2) sat_simps)
  then show ?thesis by (simp add: AD_Defer apply_access_pending_decision_def)
qed

lemma resume_answered:
  assumes "ok s"
  shows "run_sat (access_resume_pending ev svc i input) s (answered ev i input (look s))"
  unfolding access_resume_pending_def Let_def sat_simps uses_store
proof (rule load_sat [OF assms], goal_cases)
  case (1 s1)
  have gone: "run_sat (op_remove ops i) s1 (\<lambda>_ s'. ok s' \<and> moved svc input (look s) (look s'))"
    by (rule remove_sat [OF 1(1)]) (simp_all add: 1)
  show ?case
  proof (cases "look s i")
    case None
    then show ?thesis using 1 by (simp add: sat_simps)
  next
    case (Some r)
    then have l: "look s1 i = Some r" using 1 by simp
    show ?thesis
    proof (cases "is_expired (ev_now ev) r")
      case True
      then show ?thesis using Some gone by (auto simp: sat_simps elim!: sat_mono)
    next
      case False
      show ?thesis
        using decision_answered [OF 1(1) l False] Some False 1
        by (cases "pol_resume (av_policy svc) (access_context_of (pr_context r)) input") (auto simp: sat_simps)
    qed
  qed
qed simp

lemma poll_moved:
  assumes "ok s"
  shows "run_sat (access_poll_pending ev svc i) s (\<lambda>_ s'. ok s' \<and> (look s' = look s \<or> look s' = (look s)(i := None)))"
  unfolding access_poll_pending_def poll_auth_pending_def sat_simps uses_store
proof (rule load_sat [OF assms], goal_cases)
  case (1 s1)
  have "run_sat (op_remove ops i) s1 (\<lambda>_ s'. ok s' \<and> (look s' = look s \<or> look s' = (look s)(i := None)))"
    by (rule remove_sat [OF 1(1)]) (simp_all add: 1)
  then show ?case using 1 by (cases "look s i") (auto simp: sat_simps)
qed simp

end

section \<open>A new request\<close>

text \<open>
  A token request the server answers: its signature verifies, and its two tokens parse. Nothing
  more is checked (\<open>access_exchange_unverified\<close>).
\<close>

definition exchanged ::
    "('p, 'g) front \<Rightarrow> 'key jwt_lib \<Rightarrow> env \<Rightarrow> ('s, 'e) access_service \<Rightarrow> request \<Rightarrow> access_token_context \<Rightarrow> bool" where
  "exchanged F L ev svc rq ctx \<longleftrightarrow>
     (\<exists>v request.
        authentic (fr_http F) (ev_up ev) (ev_now ev) ''POST'' (host_authority (rq_headers rq)) (rq_path rq)
          (rq_headers rq) verify_options_default v \<and>
        optional_json F de_access_exchange rq = Ok (Some request) \<and>
        access_context_from_exchange L (av_config svc) request = Ok ctx)"

lemma exchange_served:
  assumes "access_token_exchange_handler F L ev svc rq s = (resp, s')"
  obtains "s' = s" "\<And>r. refuses F \<Longrightarrow> resp = Some r \<Longrightarrow> rs_status r \<noteq> 200"
  | ctx where "exchanged F L ev svc rq ctx"
    "finish F (respond_flow (fr_json F)) (access_exchange_token ev svc ctx s) = (resp, s')"
proof (cases "\<exists>ctx. exchanged F L ev svc rq ctx \<and>
    finish F (respond_flow (fr_json F)) (access_exchange_token ev svc ctx s) = (resp, s')")
  case False
  have k: "exchanged F L ev svc rq ctx" if "optional_json F de_access_exchange rq = Ok (Some request)"
    "verify_post F L ev rq = Ok v" "access_context_from_exchange L (av_config svc) request = Ok ctx" for v request ctx
    unfolding exchanged_def using that verify_authentic [OF that(2) [unfolded verify_post_def]] by blast
  have "s' = s \<and> (\<forall>r. refuses F \<longrightarrow> resp = Some r \<longrightarrow> rs_status r \<noteq> 200)"
    using assms False
    by (auto simp: access_token_exchange_handler_def reply_def status_response_def
        split: sum.splits option.splits dest: rejected_json k)
  then show ?thesis using that(1) by blast
qed (use that(2) in blast)

definition access_record :: "env \<Rightarrow> access_server_config \<Rightarrow> access_token_context \<Rightarrow> defer_requirement \<Rightarrow>
    access_pending_context pending_record" where
  "access_record ev cfg ctx requirement =
     pending_record_new (ev_now ev) (generate_pending_id (ev_id_bytes ev)) (access_pending_from ctx)
       (snapshot_waiting requirement) (asc_pending_ttl_secs cfg)"

lemma access_record_simps [simp]:
  "pr_id (access_record ev cfg ctx q) = generate_pending_id (ev_id_bytes ev)"
  "expires_at (access_record ev cfg ctx q) = ev_now ev + asc_pending_ttl_secs cfg"
  "access_context_of (pr_context (access_record ev cfg ctx q)) = ctx"
  "pr_snapshot (access_record ev cfg ctx q) = snapshot_waiting q"
  by (simp_all add: access_record_def pending_record_new_def access_pending_from_def access_context_of_def)

context access_store
begin

lemma exchange_created:
  assumes "ok s"
  shows "run_sat (access_exchange_token ev svc ctx) s (\<lambda>x s'. ok s' \<and>
    (look s' = look s \<or> (\<exists>q. look s' = (look s)(generate_pending_id (ev_id_bytes ev) \<mapsto>
        access_record ev (av_config svc) ctx q))) \<and>
    (\<forall>body. x = Inr (FO_Granted body) \<longrightarrow> (\<exists>grant.
        pol_evaluate (av_policy svc) ctx = Ok (AD_Grant grant) \<and> mint_access_auth svc grant ctx = Ok body)))"
proof -
  have new: "run_sat (op_create ops (access_record ev (av_config svc) ctx q)) s (\<lambda>_ s'. ok s' \<and>
    (look s' = look s \<or> (\<exists>q. look s' = (look s)(generate_pending_id (ev_id_bytes ev) \<mapsto>
        access_record ev (av_config svc) ctx q))))" for q
    by (rule create_sat [OF assms]) auto
  have "run_sat (create_deferred_access_response ev svc ctx q) s (\<lambda>x s'. ok s' \<and>
    (look s' = look s \<or> (\<exists>q. look s' = (look s)(generate_pending_id (ev_id_bytes ev) \<mapsto>
        access_record ev (av_config svc) ctx q))) \<and> (\<forall>body. x \<noteq> Inr (FO_Granted body)))" for q
    unfolding create_deferred_access_response_def Let_def sat_simps uses_store access_record_def [symmetric]
    by (rule sat_mono [OF new]) simp
  then have d: "run_sat (create_deferred_access_response ev svc ctx q) s (\<lambda>x s'. ok s' \<and>
    (look s' = look s \<or> (\<exists>q. look s' = (look s)(generate_pending_id (ev_id_bytes ev) \<mapsto>
        access_record ev (av_config svc) ctx q))) \<and>
    (\<forall>body. x = Inr (FO_Granted body) \<longrightarrow> (\<exists>grant.
        pol_evaluate (av_policy svc) ctx = Ok (AD_Grant grant) \<and> mint_access_auth svc grant ctx = Ok body)))" for q
    by (rule sat_mono) simp
  show ?thesis
  proof (cases "pol_evaluate (av_policy svc) ctx")
    case (Inr decision)
    then show ?thesis
      unfolding access_exchange_token_def apply_access_decision_def
      using assms d
      by (cases decision; cases "\<exists>grant body. decision = AD_Grant grant \<and> mint_access_auth svc grant ctx = Ok body")
        (auto simp: sat_simps)
  qed (use assms in \<open>simp add: access_exchange_token_def sat_simps\<close>)
qed

end

section \<open>What is in the store\<close>

text \<open>
  \<open>drawn F L e i r\<close>: the event \<open>e\<close> is the exchange that the record was made for;
  \<open>access_decides e ctx body\<close>: in it the policy grants the request \<open>ctx\<close>, and \<open>body\<close> is minted.
\<close>

definition drawn ::
    "('p, 'g) front \<Rightarrow> 'key jwt_lib \<Rightarrow> 'e access_event \<Rightarrow> string \<Rightarrow> access_pending_context pending_record \<Rightarrow> bool" where
  "drawn F L e i r \<longleftrightarrow> pr_id r = i \<and> i = generate_pending_id (ev_id_bytes (ae_env e)) \<and>
     expires_at r = ev_now (ae_env e) + asc_pending_ttl_secs (av_config (ae_service e)) \<and>
     (\<exists>rq. ae_call e = AC_Token rq \<and>
        exchanged F L (ae_env e) (ae_service e) rq (access_context_of (pr_context r)))"

definition access_decides :: "'e access_event \<Rightarrow> access_token_context \<Rightarrow> token_response_body \<Rightarrow> bool" where
  "access_decides e ctx body \<longleftrightarrow>
     (\<exists>grant. mint_access_auth (ae_service e) grant ctx = Ok body \<and>
        (case ae_call e of
           AC_Token _ \<Rightarrow> pol_evaluate (av_policy (ae_service e)) ctx = Ok (AD_Grant grant)
         | AC_Post _ _ \<Rightarrow> (\<exists>input. pol_resume (av_policy (ae_service e)) ctx input = Ok (AD_Grant grant))
         | _ \<Rightarrow> False))"

definition accounted ::
    "('p, 'g) front \<Rightarrow> 'key jwt_lib \<Rightarrow> 'e access_event list \<Rightarrow>
     (string \<rightharpoonup> access_pending_context pending_record) \<Rightarrow> bool" where
  "accounted F L tr m \<longleftrightarrow> (\<forall>i r. m i = Some r \<longrightarrow> (\<exists>e\<in>set tr. drawn F L e i r) \<and>
     settled (\<lambda>body. \<exists>e\<in>set tr. access_decides e (access_context_of (pr_context r)) body) (pr_snapshot r))"

lemma accounted_later:
  assumes "accounted F L tr m"
  shows "accounted F L (e # tr) m"
  unfolding accounted_def
proof (intro allI impI conjI)
  fix i r assume r: "m i = Some r"
  show "\<exists>e'\<in>set (e # tr). drawn F L e' i r" using assms r unfolding accounted_def by auto
  show "settled (\<lambda>body. \<exists>e'\<in>set (e # tr). access_decides e' (access_context_of (pr_context r)) body) (pr_snapshot r)"
    by (rule settled_mono [of "\<lambda>body. \<exists>e\<in>set tr. access_decides e (access_context_of (pr_context r)) body"])
      (use assms r in \<open>auto simp: accounted_def\<close>)
qed

lemma accounted_remove: "accounted F L tr m \<Longrightarrow> accounted F L tr (m(i := None))"
  by (simp add: accounted_def)

lemma accounted_moved:
  assumes "accounted F L tr m" "moved (ae_service e) input m m'" "ae_call e = AC_Post k rq"
  shows "accounted F L (e # tr) m'"
  unfolding accounted_def
proof (intro allI impI)
  fix i r' assume "m' i = Some r'"
  with assms(2) obtain r where r: "m i = Some r" "same_identity r r'" "pr_context r' = pr_context r"
    "pr_snapshot r' = pr_snapshot r \<or>
     settled (resume_grants (ae_service e) (access_context_of (pr_context r)) input) (pr_snapshot r')"
    unfolding moved_def by blast
  obtain e0 where e0: "e0 \<in> set tr" "drawn F L e0 i r" using assms(1) r(1) unfolding accounted_def by blast
  have "drawn F L e0 i r'" using e0(2) r(2,3) by (auto simp: drawn_def same_identity_def)
  then have d: "\<exists>e'\<in>set (e # tr). drawn F L e' i r'" using e0(1) by auto
  have [simp]: "access_decides e (access_context_of (pr_context r)) body"
    if "resume_grants (ae_service e) (access_context_of (pr_context r)) input body" for body
    using that assms(3) by (auto simp: resume_grants_def access_decides_def)
  have "settled (\<lambda>body. \<exists>e'\<in>set (e # tr). access_decides e' (access_context_of (pr_context r)) body) (pr_snapshot r')"
    using r(4)
  proof
    assume "pr_snapshot r' = pr_snapshot r"
    then show ?thesis using accounted_later [OF assms(1), of e] r(1) by (simp add: accounted_def)
  qed (rule settled_mono, assumption, simp)
  with d r(3) show "(\<exists>e'\<in>set (e # tr). drawn F L e' i r') \<and>
      settled (\<lambda>body. \<exists>e'\<in>set (e # tr). access_decides e' (access_context_of (pr_context r')) body) (pr_snapshot r')"
    by simp
qed

lemma accounted_new:
  assumes "accounted F L tr m" "ae_call e = AC_Token rq" "exchanged F L (ae_env e) (ae_service e) rq ctx"
  shows "accounted F L (e # tr)
    (m(generate_pending_id (ev_id_bytes (ae_env e)) \<mapsto> access_record (ae_env e) (av_config (ae_service e)) ctx q))"
proof -
  have "drawn F L e (generate_pending_id (ev_id_bytes (ae_env e)))
      (access_record (ae_env e) (av_config (ae_service e)) ctx q)"
    using assms(2,3) by (simp add: drawn_def)
  then show ?thesis
    using accounted_later [OF assms(1), of e] by (auto simp: accounted_def)
qed

text \<open>A reply of 200 at a pending URL.\<close>

fun access_answers_for :: "access_call \<Rightarrow> string option" where
  "access_answers_for (AC_Poll i) = Some i"
| "access_answers_for (AC_Post i _) = Some i"
| "access_answers_for _ = None"

lemma flow_200:
  "respond_flow sj out = Some resp \<Longrightarrow> rs_status resp = 200 \<Longrightarrow>
     \<exists>body. out = FO_Granted body \<and> resp = json_response sj 200 [] (en_token_response body)"
  by (auto simp: respond_flow_def status_response_def json_response_def
      split: auth_token_flow_outcome.splits dest: created_status)

lemma exchange_step:
  assumes "mem_ok s" "enumerates iter" "av_pending (ae_service e) = mem_ops iter"
    and "accounted F L tr (mem_look s)" "ae_call e = AC_Token rq"
    and "access_token_exchange_handler F L (ae_env e) (ae_service e) rq s = (ae_reply e, s')"
  shows "mem_ok s' \<and> accounted F L (e # tr) (mem_look s') \<and>
    (\<forall>resp. refuses F \<longrightarrow> ae_reply e = Some resp \<longrightarrow> rs_status resp = 200 \<longrightarrow>
       (\<exists>ctx body. exchanged F L (ae_env e) (ae_service e) rq ctx \<and> access_decides e ctx body \<and>
          resp = json_response (fr_json F) 200 [] (en_token_response body)))"
  using assms(6)
proof (cases rule: exchange_served)
  case 1
  then show ?thesis using accounted_later [OF assms(4)] assms(1) by auto
next
  case (2 ctx)
  have svc: "(ae_service e)\<lparr>av_pending := mem_ops iter\<rparr> = ae_service e" using assms(3) by simp
  have ok: "mem_ok s \<and> enumerates iter" using assms(1,2) ..
  obtain x where x: "access_exchange_token (ae_env e) (ae_service e) ctx s = (x, s')"
    using 2(2) by (auto simp: finish_def split: prod.splits)
  from sat_result [OF access_mem.exchange_created [OF ok, where svc = "ae_service e" and ev = "ae_env e" and ctx = ctx,
      unfolded svc] x]
  have c: "mem_ok s'" "mem_look s' = mem_look s \<or> (\<exists>q. mem_look s' = (mem_look s)
        (generate_pending_id (ev_id_bytes (ae_env e)) \<mapsto> access_record (ae_env e) (av_config (ae_service e)) ctx q))"
    "\<And>body. x = Inr (FO_Granted body) \<Longrightarrow> \<exists>grant. pol_evaluate (av_policy (ae_service e)) ctx = Ok (AD_Grant grant) \<and>
        mint_access_auth (ae_service e) grant ctx = Ok body"
    by auto
  have "accounted F L (e # tr) (mem_look s')"
    using c(2) accounted_later [OF assms(4)] accounted_new [OF assms(4,5) 2(1)] by auto
  moreover have "\<exists>body. access_decides e ctx body \<and> resp = json_response (fr_json F) 200 [] (en_token_response body)"
    if h: "ae_reply e = Some resp" "rs_status resp = 200" for resp
  proof -
    obtain out where o: "x = Ok out" "respond_flow (fr_json F) out = Some resp"
      using finish_200 [where m = "access_exchange_token (ae_env e) (ae_service e) ctx", OF 2(2) [unfolded h(1)] h(2)] x by auto
    obtain body where b: "out = FO_Granted body" "resp = json_response (fr_json F) 200 [] (en_token_response body)"
      using flow_200 [OF o(2) h(2)] by blast
    then show ?thesis using c(3) [of body] o(1) assms(5) by (auto simp: access_decides_def)
  qed
  ultimately show ?thesis using c(1) 2(1) by blast
qed

lemma poll_answer:
  assumes "av_pending svc = mem_ops iter" "access_poll_pending ev svc i s = (Ok out, s')"
    and "respond_poll sj out = Some resp" "rs_status resp = 200"
  obtains r where "mem_look s i = Some r" "\<not> is_expired (ev_now ev) r" "out = poll_outcome_from_snapshot (pr_snapshot r)"
proof -
  have "out \<noteq> AP_Gone" using assms(3,4) by (auto simp: respond_poll_def status_response_def)
  then show ?thesis using assms(1,2) that
    by (auto simp: access_poll_pending_def poll_auth_pending_def run_Ok mem_run split: option.splits if_splits)
qed

lemma polling_status_error: "polling_status err \<noteq> 200"
  by (simp add: polling_status_def split: aauth_error_code.split)

lemma settled_poll_200:
  assumes "settled P snap" "respond_poll sj (poll_outcome_from_snapshot snap) = Some resp" "rs_status resp = 200"
  shows "\<exists>body. P body \<and> resp = json_response sj 200 [] (en_token_response body)"
proof (cases snap)
  case (PSn_Waiting status requirement)
  then show ?thesis using assms(2,3)
    by (auto simp: respond_poll_def respond_waiting_def json_response_def internal_error_def
        split: sum.splits option.splits)
next
  case (PSn_Complete out)
  then show ?thesis using assms
    by (auto simp: settled_def respond_poll_def respond_pending_outcome_def json_response_def polling_status_error)
qed

lemma poll_step:
  assumes "mem_ok s" "enumerates iter" "av_pending (ae_service e) = mem_ops iter"
    and "accounted F L tr (mem_look s)"
    and "access_pending_poll_handler F (ae_env e) (ae_service e) i s = (ae_reply e, s')"
  shows "mem_ok s' \<and> accounted F L (e # tr) (mem_look s') \<and>
    (\<forall>resp. ae_reply e = Some resp \<longrightarrow> rs_status resp = 200 \<longrightarrow>
       (\<exists>e0\<in>set tr. \<exists>e1\<in>set tr. \<exists>r body. drawn F L e0 i r \<and> \<not> is_expired (ev_now (ae_env e)) r \<and>
          access_decides e1 (access_context_of (pr_context r)) body \<and>
          resp = json_response (fr_json F) 200 [] (en_token_response body)))"
proof -
  have svc: "(ae_service e)\<lparr>av_pending := mem_ops iter\<rparr> = ae_service e" using assms(3) by simp
  have ok: "mem_ok s \<and> enumerates iter" using assms(1,2) ..
  have "snd (access_poll_pending (ae_env e) (ae_service e) i s) = s'"
    using assms(5) unfolding access_pending_poll_handler_def by (rule finish_state)
  from sat_state [OF access_mem.poll_moved [OF ok, where svc = "ae_service e" and ev = "ae_env e" and i = i, unfolded svc] this]
  have k: "mem_ok s'" "mem_look s' = mem_look s \<or> mem_look s' = (mem_look s)(i := None)" by auto
  moreover have "accounted F L (e # tr) (mem_look s')"
    using k(2) accounted_later [OF assms(4), of e] accounted_remove by auto
  moreover have "\<exists>e0\<in>set tr. \<exists>e1\<in>set tr. \<exists>r body. drawn F L e0 i r \<and> \<not> is_expired (ev_now (ae_env e)) r \<and>
      access_decides e1 (access_context_of (pr_context r)) body \<and>
      resp = json_response (fr_json F) 200 [] (en_token_response body)"
    if h: "ae_reply e = Some resp" "rs_status resp = 200" for resp
  proof -
    obtain out where o: "access_poll_pending (ae_env e) (ae_service e) i s = (Ok out, s')"
      "respond_poll (fr_json F) out = Some resp"
      using finish_200 [where m = "access_poll_pending (ae_env e) (ae_service e) i", OF assms(5) [unfolded access_pending_poll_handler_def h(1)] h(2)] by blast
    obtain r where r: "mem_look s i = Some r" "\<not> is_expired (ev_now (ae_env e)) r"
      "out = poll_outcome_from_snapshot (pr_snapshot r)"
      by (rule poll_answer [OF assms(3) o h(2)])
    from assms(4) r(1) have a: "\<exists>e\<in>set tr. drawn F L e i r"
      "settled (\<lambda>body. \<exists>e\<in>set tr. access_decides e (access_context_of (pr_context r)) body) (pr_snapshot r)"
      by (auto simp: accounted_def)
    from settled_poll_200 [OF a(2) o(2) [unfolded r(3)] h(2)] a(1) r(2) show ?thesis by blast
  qed
  ultimately show ?thesis by blast
qed

lemma post_step:
  assumes "mem_ok s" "enumerates iter" "av_pending (ae_service e) = mem_ops iter"
    and "accounted F L tr (mem_look s)" "ae_call e = AC_Post i rq"
    and "access_pending_post_handler F (ae_env e) (ae_service e) i rq s = (ae_reply e, s')"
  shows "mem_ok s' \<and> accounted F L (e # tr) (mem_look s') \<and>
    (\<forall>resp. ae_reply e = Some resp \<longrightarrow> rs_status resp = 200 \<longrightarrow>
       (\<exists>e0\<in>set tr. \<exists>r body. drawn F L e0 i r \<and> \<not> is_expired (ev_now (ae_env e)) r \<and>
          access_decides e (access_context_of (pr_context r)) body \<and>
          resp = json_response (fr_json F) 200 [] (en_token_response body)))"
proof (cases "posted_input F rq")
  case (Inl rejection)
  then have "s' = s" "ae_reply e = Some rejection" "rs_status rejection \<noteq> 200"
    using assms(6)
    by (auto simp: access_pending_post_handler_def posted_input_def pending_resume_input_def
        invalid_request_response_def json_response_def map_err_cases split: sum.splits option.splits)
  then show ?thesis using accounted_later [OF assms(4)] assms(1) by auto
next
  case (Inr input)
  have svc: "(ae_service e)\<lparr>av_pending := mem_ops iter\<rparr> = ae_service e" using assms(3) by simp
  have ok: "mem_ok s \<and> enumerates iter" using assms(1,2) ..
  have f: "finish F (respond_flow (fr_json F)) (access_resume_pending (ae_env e) (ae_service e) i input s) = (ae_reply e, s')"
    using assms(6) Inr by (simp add: access_pending_post_handler_def)
  obtain x where x: "access_resume_pending (ae_env e) (ae_service e) i input s = (x, s')"
    using f by (auto simp: finish_def split: prod.splits)
  from sat_result [OF access_mem.resume_answered [OF ok, where svc = "ae_service e" and ev = "ae_env e" and i = i and
      input = input, unfolded svc] x]
  have k: "mem_ok s'" "moved (ae_service e) input (mem_look s) (mem_look s')"
    "\<And>body. x = Inr (FO_Granted body) \<Longrightarrow> \<exists>r. mem_look s i = Some r \<and> \<not> is_expired (ev_now (ae_env e)) r \<and>
        resume_grants (ae_service e) (access_context_of (pr_context r)) input body" by auto
  moreover have "accounted F L (e # tr) (mem_look s')" by (rule accounted_moved [OF assms(4) k(2) assms(5)])
  moreover have "\<exists>e0\<in>set tr. \<exists>r body. drawn F L e0 i r \<and> \<not> is_expired (ev_now (ae_env e)) r \<and>
      access_decides e (access_context_of (pr_context r)) body \<and>
      resp = json_response (fr_json F) 200 [] (en_token_response body)"
    if h: "ae_reply e = Some resp" "rs_status resp = 200" for resp
  proof -
    obtain out where o: "x = Ok out" "respond_flow (fr_json F) out = Some resp"
      using finish_200 [where m = "access_resume_pending (ae_env e) (ae_service e) i input", OF f [unfolded h(1)] h(2)] x by auto
    obtain body where b: "out = FO_Granted body" "resp = json_response (fr_json F) 200 [] (en_token_response body)"
      using flow_200 [OF o(2) h(2)] by blast
    obtain r where r: "mem_look s i = Some r" "\<not> is_expired (ev_now (ae_env e)) r"
      "resume_grants (ae_service e) (access_context_of (pr_context r)) input body"
      using k(3) o(1) b(1) by blast
    have "access_decides e (access_context_of (pr_context r)) body"
      using r(3) assms(5) by (auto simp: resume_grants_def access_decides_def)
    moreover obtain e0 where "e0 \<in> set tr" "drawn F L e0 i r" using assms(4) r(1) by (auto simp: accounted_def)
    ultimately show ?thesis using r(2) b(2) by blast
  qed
  ultimately show ?thesis by blast
qed

lemma access_run_inv:
  assumes "access_run F L iter tr s" "enumerates iter"
  shows "mem_ok s \<and> accounted F L tr (mem_look s)"
  using assms(1)
proof induction
  case access_started
  show ?case by (simp add: mem_new_def mem_ok_def mem_look_def accounted_def)
next
  case (access_served tr s e s')
  note h = access_served.IH [THEN conjunct1] assms(2) access_served(2) access_served.IH [THEN conjunct2]
  show ?case
  proof (cases "ae_call e")
    case AC_Metadata
    then show ?thesis using access_served(3) h accounted_later by (auto simp: access_serve_def)
  qed (use access_served(3) exchange_step [OF h] poll_step [OF h] post_step [OF h] in \<open>auto simp: access_serve_def\<close>)
qed

text \<open>
  C18: the Access Server hands out no token without having decided to. Whenever it answers a
  request with success (its metadata apart), at its token endpoint or at a pending URL, the
  answer is a token it minted itself, in this or an earlier event of the run, upon the grant
  of its policy for one token request of the run: a signed one, with an agent token that parses
  and names the agent and the key that the answer was minted for. At a pending URL that
  request drew the id, and its deadline has not passed.
\<close>
theorem access_tokens_decided:
  assumes "access_run F L iter (e # tr) s" and "enumerates iter" and "refuses F"
    and "ae_call e \<noteq> AC_Metadata" and "ae_reply e = Some resp" and "rs_status resp = 200"
  shows "\<exists>e0\<in>set (e # tr). \<exists>e1\<in>set (e # tr). \<exists>rq ctx body.
    ae_call e0 = AC_Token rq \<and> exchanged F L (ae_env e0) (ae_service e0) rq ctx \<and>
    access_decides e1 ctx body \<and> resp = json_response (fr_json F) 200 [] (en_token_response body) \<and>
    (case access_answers_for (ae_call e) of
       None \<Rightarrow> e0 = e \<and> e1 = e
     | Some i \<Rightarrow> i = generate_pending_id (ev_id_bytes (ae_env e0)) \<and>
         ev_now (ae_env e) \<le> ev_now (ae_env e0) + asc_pending_ttl_secs (av_config (ae_service e0)))"
proof -
  obtain s0 where r: "access_run F L iter tr s0" "av_pending (ae_service e) = mem_ops iter"
    "access_serve F L (ae_env e) (ae_service e) (ae_call e) s0 = (ae_reply e, s)"
    using access_run_served [OF assms(1)] by metis
  note h = access_run_inv [OF r(1) assms(2), THEN conjunct1] assms(2) r(2) access_run_inv [OF r(1) assms(2), THEN conjunct2]
  have pending: ?thesis if p: "access_answers_for (ae_call e) = Some i" "e0 \<in> set tr" "e1 \<in> set (e # tr)"
    "drawn F L e0 i q" "\<not> is_expired (ev_now (ae_env e)) q" "access_decides e1 (access_context_of (pr_context q)) body"
    "resp = json_response (fr_json F) 200 [] (en_token_response body)" for i e0 e1 q body
  proof -
    obtain rq where q: "ae_call e0 = AC_Token rq"
      "exchanged F L (ae_env e0) (ae_service e0) rq (access_context_of (pr_context q))"
      "i = generate_pending_id (ev_id_bytes (ae_env e0))"
      "ev_now (ae_env e) \<le> ev_now (ae_env e0) + asc_pending_ttl_secs (av_config (ae_service e0))"
      using p(4,5) unfolding drawn_def is_expired_def not_less by metis
    show ?thesis
      by (rule bexI [of _ e0], rule bexI [of _ e1], intro exI [of _ rq] exI [of _ "access_context_of (pr_context q)"]
          exI [of _ body]) (use p q in simp_all)
  qed
  show ?thesis
  proof (cases "ae_call e")
    case (AC_Token rq)
    then show ?thesis using exchange_step [OF h AC_Token] r(3) assms(3,5,6) by (auto simp: access_serve_def)
  next
    case (AC_Poll i)
    then obtain e0 e1 q body where "e0 \<in> set tr" "e1 \<in> set tr" "drawn F L e0 i q" "\<not> is_expired (ev_now (ae_env e)) q"
      "access_decides e1 (access_context_of (pr_context q)) body" "resp = json_response (fr_json F) 200 [] (en_token_response body)"
      using poll_step [OF h, of i s] r(3) assms(5,6) by (auto simp: access_serve_def)
    then show ?thesis using AC_Poll by (intro pending [of i e0 e1 q body]) simp_all
  next
    case (AC_Post i rq)
    then obtain e0 q body where "e0 \<in> set tr" "drawn F L e0 i q" "\<not> is_expired (ev_now (ae_env e)) q"
      "access_decides e (access_context_of (pr_context q)) body" "resp = json_response (fr_json F) 200 [] (en_token_response body)"
      using post_step [OF h AC_Post] r(3) assms(5,6) by (auto simp: access_serve_def)
    then show ?thesis using AC_Post by (intro pending [of i e0 e q body]) simp_all
  qed (use assms(4) in simp)
qed

section \<open>A concrete run\<close>

text \<open>A server whose policy asks for approval first and grants when the agent posts.\<close>

definition sample_access_front :: "(string list \<times> u64 option, string list \<times> u64 option) front" where
  "sample_access_front = sample_front\<lparr>fr_json :=
     \<lparr>sj_parse = (\<lambda>_. Some (JObj [(''resource_token'', JStr ''resource''), (''agent_token'', JStr ''agent'')])),
      sj_print = (\<lambda>_. []), sj_error = (\<lambda>_. [])\<rparr>\<rparr>"

definition sample_access_deferrer :: "(access_pending_context mem_store, unit) access_service" where
  "sample_access_deferrer = sample_access_service\<lparr>av_policy :=
     (always_grant_access_policy ''u'')\<lparr>pol_evaluate := \<lambda>_. Ok (AD_Defer DR_Approval)\<rparr>\<rparr>"

definition sample_access_ctx :: access_token_context where
  "sample_access_ctx =
     \<lparr>at_access_server_url = ''https://s'', at_resource_url = ''https://r'', at_person_server_url = ''https://p'',
      at_agent_claims = sample_agent, at_resource_claims = sample_resource, at_resource_token = ''resource'',
      at_agent_token = ''agent''\<rparr>"

definition sample_access_id :: string where
  "sample_access_id = generate_pending_id (ev_id_bytes sample_env)"

definition sample_access_record :: "access_pending_context pending_record" where
  "sample_access_record = access_record sample_env sample_access_config sample_access_ctx DR_Approval"

definition sample_access_deferral :: "access_pending_context mem_store" where
  "sample_access_deferral =
     mem_insert sample_access_id sample_access_record (mem_new\<lparr>last_created := Some sample_access_id\<rparr>)"

definition sample_access_visit :: "access_call \<Rightarrow> response option \<Rightarrow> unit access_event" where
  "sample_access_visit c answer =
     \<lparr>ae_env = sample_env, ae_service = sample_access_deferrer, ae_call = c, ae_reply = answer\<rparr>"

definition sample_access_asked :: "unit access_event" where
  "sample_access_asked = sample_access_visit (AC_Token sample_post)
     (respond_created (fr_json sample_access_front)
        \<lparr>dc_location = access_pending_url sample_access_config sample_access_id, dc_requirement = DR_Approval\<rparr>)"

definition sample_access_body :: token_response_body where
  "sample_access_body = \<lparr>auth_token = ''auth'', expires_in = 3600\<rparr>"

definition sample_access_granted :: "unit access_event" where
  "sample_access_granted = sample_access_visit
     (AC_Post sample_access_id (sample_post\<lparr>rq_headers := [], rq_body := []\<rparr>))
     (Some (json_response (fr_json sample_access_front) 200 [] (en_token_response sample_access_body)))"

lemma sample_access_facts:
  "av_pending sample_access_deferrer = mem_ops id" "av_config sample_access_deferrer = sample_access_config"
  "pol_evaluate (av_policy sample_access_deferrer) ctx = Ok (AD_Defer DR_Approval)"
  "pol_resume (av_policy sample_access_deferrer) ctx PI_InteractionCompleted = Ok (access_grant ''u'' ctx)"
  "mint_access_auth sample_access_deferrer g ctx = Ok sample_access_body"
  by (simp_all add: sample_access_deferrer_def sample_access_service_def always_grant_access_policy_def
      mint_access_auth_def sample_access_body_def)

lemma sample_access_reads:
  "verify_post sample_access_front sample_lib sample_env sample_post = verify_post sample_front sample_lib sample_env sample_post"
  "optional_json sample_access_front de_access_exchange sample_post = Ok (Some sample_access_request)"
  "access_context_from_exchange sample_lib sample_access_config sample_access_request = Ok sample_access_ctx"
  by (simp_all add: verify_post_def sample_access_front_def optional_json_def sample_front_def sample_post_def
      sample_post_headers_def de_access_exchange_def field_def sample_access_request_def access_context_from_exchange_def
      sample_tokens sample_access_config_def sample_access_ctx_def)

lemma sample_access_deferral_run:
  "access_serve sample_access_front sample_lib sample_env sample_access_deferrer (AC_Token sample_post) mem_new =
     (ae_reply sample_access_asked, sample_access_deferral)"
proof -
  have create: "op_create (av_pending sample_access_deferrer) sample_access_record mem_new =
      (Ok sample_access_id, sample_access_deferral)"
    by (simp add: sample_access_facts(1) mem_run sample_access_record_def sample_access_deferral_def sample_access_id_def)
  have "access_exchange_token sample_env sample_access_deferrer sample_access_ctx mem_new =
      (Ok (FO_Deferred \<lparr>dc_location = access_pending_url sample_access_config sample_access_id, dc_requirement = DR_Approval\<rparr>),
       sample_access_deferral)"
    using create by (simp add: access_exchange_token_def sample_access_facts(2-) apply_access_decision_def
        create_deferred_access_response_def seq_run store_op_run sample_access_record_def access_record_def Let_def
        flip: sample_access_id_def)
  then show ?thesis
    by (simp add: access_serve_def access_token_exchange_handler_def sample_access_reads sample_post_verifies
        sample_access_facts finish_def respond_flow_def sample_access_asked_def sample_access_visit_def)
qed

lemma sample_access_grant_run:
  "\<exists>s. access_serve sample_access_front sample_lib sample_env sample_access_deferrer
     (AC_Post sample_access_id (sample_post\<lparr>rq_headers := [], rq_body := []\<rparr>)) sample_access_deferral =
     (ae_reply sample_access_granted, s)"
proof -
  obtain s where c: "op_complete (av_pending sample_access_deferrer) sample_access_id (PO_AuthToken sample_access_body)
      sample_access_deferral = (Ok (), s)"
    unfolding sample_access_facts using mem_run_complete by blast
  have l: "op_load (av_pending sample_access_deferrer) sample_access_id sample_access_deferral
      = (Ok (Some sample_access_record), sample_access_deferral)"
    by (simp add: sample_access_facts(1) mem_run sample_access_deferral_def mem_insert_look)
  have r: "\<not> is_expired (ev_now sample_env) sample_access_record"
    by (simp add: sample_access_record_def is_expired_def sample_env_def sample_access_config_def)
  have "access_resume_pending sample_env sample_access_deferrer sample_access_id PI_InteractionCompleted sample_access_deferral
     = (Ok (FO_Granted sample_access_body), s)"
    using c l by (simp add: access_resume_pending_def seq_run store_op_run r Let_def sample_access_facts(2-) access_grant_def
        apply_access_pending_decision_def)
  moreover have "fr_bytes sample_access_front rq = Ok (rq_body rq)" for rq
    by (simp add: sample_access_front_def sample_front_def)
  ultimately show ?thesis
    by (simp add: access_serve_def access_pending_post_handler_def posted_input_def pending_resume_input_def
        parse_pending_post_body_def finish_def respond_flow_def sample_access_granted_def sample_access_visit_def)
qed

theorem access_tokens_decided_witness:
  "\<exists>e0\<in>set [sample_access_granted, sample_access_asked]. \<exists>e1\<in>set [sample_access_granted, sample_access_asked]. \<exists>rq ctx body.
     ae_call e0 = AC_Token rq \<and> exchanged sample_access_front sample_lib (ae_env e0) (ae_service e0) rq ctx \<and>
     access_decides e1 ctx body \<and> sample_access_id = generate_pending_id (ev_id_bytes (ae_env e0))"
proof -
  note v = sample_access_asked_def sample_access_granted_def sample_access_visit_def sample_access_facts
  have one: "access_run sample_access_front sample_lib id [sample_access_asked] sample_access_deferral"
    using access_served [OF access_started, of sample_access_asked id sample_access_front sample_lib]
      sample_access_deferral_run by (simp add: v)
  obtain s where "access_serve sample_access_front sample_lib sample_env sample_access_deferrer
     (AC_Post sample_access_id (sample_post\<lparr>rq_headers := [], rq_body := []\<rparr>)) sample_access_deferral =
     (ae_reply sample_access_granted, s)" using sample_access_grant_run by blast
  then have two: "access_run sample_access_front sample_lib id [sample_access_granted, sample_access_asked] s"
    using access_served [OF one, of sample_access_granted] by (simp add: v)
  have f: "refuses sample_access_front"
    by (simp add: refuses_def sample_access_front_def sample_front_def status_response_def)
  have a: "ae_call sample_access_granted \<noteq> AC_Metadata"
    "ae_reply sample_access_granted = Some (json_response (fr_json sample_access_front) 200 [] (en_token_response sample_access_body))"
    "rs_status (json_response (fr_json sample_access_front) 200 [] (en_token_response sample_access_body)) = 200"
    "access_answers_for (ae_call sample_access_granted) = Some sample_access_id"
    by (simp_all add: sample_access_granted_def sample_access_visit_def json_response_def)
  from access_tokens_decided [OF two sample_store_facts(3) f a(1-3)] show ?thesis
    unfolding a(4) option.case by blast
qed

end
