(* ===== verification/Flows.thy ===== *)
theory Flows
  imports Handshake Keys Access_Client Access_Runs
begin

text \<open>
  The steps of a flow through all parties: from an agent's first request to the token request
  (\<open>wired\<close>, whether the resource names a Person Server or an Access Server), the Person Server's
  own grant, and from the auth token to the retried request.
\<close>

section \<open>The parties\<close>

text \<open>
  \<open>wired\<close>: the resource asks for an auth token of a Person Server or of the Access Server it
  names, its own challenges are addressed to \<open>aud\<close>; the agent's issuer and the resource publish
  the keys that \<^verbatim>\<open>TestKeys::generate\<close> made, where the resource, the Person Server (with
  configuration \<open>cfg\<close>) and the agent (fetcher \<open>F\<close>) look for them.
\<close>

definition wired ::
    "('sk, 'ek) key_lib \<Rightarrow> 'sk test_keys \<Rightarrow> string \<Rightarrow> string \<Rightarrow> string \<Rightarrow>
     ('key, 'p, 'g, 'st, 'err) resource_layer \<Rightarrow> person_server_config \<Rightarrow> fetcher \<Rightarrow> bool" where
  "wired K keys agent_url ps aud rl cfg F \<longleftrightarrow>
     (let L = rl_jwt rl; resource = rl_resource_url rl in
      key_codec L K \<and> keys_kept L K keys \<and>
      is_valid_server_identifier (rl_parse rl) agent_url \<and> is_valid_server_identifier (rl_parse rl) ps \<and>
      (\<exists>server fallback. rl_mode rl = RM_PsAsserted True server fallback \<and>
         (case server of None \<Rightarrow> ps | Some url \<Rightarrow> url) = aud) \<and>
      rl_sign rl = resource_signer K keys \<and> (\<forall>x. rl_interaction rl x = None) \<and>
      publishes L (rl_fetcher rl) agent_url ''aauth-agent.json'' (tk_agent_root keys) \<and>
      psc_resource_url cfg = resource \<and>
      publishes L (psc_fetcher cfg) resource ''aauth-resource.json'' (tk_resource keys) \<and>
      publishes L F resource ''aauth-resource.json'' (tk_resource keys))"

lemma wiredD:
  assumes "wired K keys agent_url ps aud rl cfg F"
  shows "key_codec (rl_jwt rl) K" "keys_kept (rl_jwt rl) K keys"
    "is_valid_server_identifier (rl_parse rl) agent_url" "is_valid_server_identifier (rl_parse rl) ps"
    "rl_sign rl = resource_signer K keys" "rl_interaction rl x = None"
    "publishes (rl_jwt rl) (rl_fetcher rl) agent_url ''aauth-agent.json'' (tk_agent_root keys)"
    "psc_resource_url cfg = rl_resource_url rl"
    "publishes (rl_jwt rl) (psc_fetcher cfg) (rl_resource_url rl) ''aauth-resource.json'' (tk_resource keys)"
    "publishes (rl_jwt rl) F (rl_resource_url rl) ''aauth-resource.json'' (tk_resource keys)"
    "well_kept (rl_jwt rl) K (tk_resource keys)"
    "jwk_thumbprint (rl_jwt rl) (kp_public_jwk (rl_jwt rl) (tk_agent_ephemeral keys)) =
       Ok (kp_thumbprint (tk_agent_ephemeral keys))"
  using assms by (simp_all add: wired_def Let_def keys_kept_def well_kept_def)

lemma wired_mode:
  assumes "wired K keys agent_url ps aud rl cfg F"
  obtains server fallback where "rl_mode rl = RM_PsAsserted True server fallback"
    "\<And>agent. ag_ps agent = Some ps \<Longrightarrow> resolve_resource_token_audience agent server fallback = Some aud"
proof -
  obtain server fallback where m: "rl_mode rl = RM_PsAsserted True server fallback"
    "(case server of None \<Rightarrow> ps | Some url \<Rightarrow> url) = aud"
    using assms by (auto simp: wired_def Let_def)
  then have "resolve_resource_token_audience agent server fallback = Some aud" if "ag_ps agent = Some ps" for agent
    using that by (cases server) (simp_all add: resolve_resource_token_audience_def)
  with m(1) that show ?thesis by blast
qed

lemma asserted_call:
  assumes "rl_mode rl = RM_PsAsserted required server fallback" "layer_verify rl now rq = Ok v" "vs_jwt v = Some jwt"
  shows "layer_call rl now rq st = token_path rl now jwt (vs_thumbprint v) st"
  using assms by (simp add: layer_call_eq)

section \<open>From the first request to the token request\<close>

definition flow_agent ::
    "'key jwt_lib \<Rightarrow> 'sk test_keys \<Rightarrow> i64 \<Rightarrow> string \<Rightarrow> string \<Rightarrow> string \<Rightarrow> string \<Rightarrow> agent_claims" where
  "flow_agent L keys t0 jti agent_url sub ps =
     mint_agent_claims t0 jti (kp_public_jwk L (tk_agent_ephemeral keys)) agent_url sub (Some ps)"

lemma flow_agent_fields:
  "ag_sub (flow_agent L keys t0 jti agent_url sub ps) = sub" "ag_ps (flow_agent L keys t0 jti agent_url sub ps) = Some ps"
  "cnf_jwk (ag_cnf (flow_agent L keys t0 jti agent_url sub ps)) = kp_public_jwk L (tk_agent_ephemeral keys)"
  by (simp_all add: flow_agent_def mint_agent_claims_def)

lemma signed_resource_token:
  assumes "key_codec L K" "well_kept L K (tk_resource keys)"
    and "resource_signer K keys (typ_as_str Typ_Resource) c = Ok t"
  shows "\<lbrakk>publishes L F (rc_iss c) (rc_dwk c) (tk_resource keys); rc_dwk c = ''aauth-resource.json'';
      \<not> expired_at now (rc_exp c)\<rbrakk> \<Longrightarrow> verify_resource_token L F now t
      \<lparr>rt_expected_agent = Some (rc_agent c), rt_expected_agent_jkt = Some (rc_agent_jkt c)\<rparr> = Ok c"
    and "to_str_ok t" "unquoted t" "parse_token L t = Ok (PT_Resource c)"
proof -
  have enc: "kl_encode_resource K (eddsa_header Typ_Resource (kp_kid (tk_resource keys))) c
      (kp_encoding_key K (tk_resource keys)) = Ok t"
    using assms(3) by (simp add: resource_signer_def sign_resource_token_def eddsa_header_def)
  show r: "parse_token L t = Ok (PT_Resource c)" using resource_token_reads [OF assms(1) enc] .
  have codec: "codec_for L K (kl_encode_resource K) (jl_insecure_resource L) (jl_decode_resource L) rc_exp"
    using assms(1) by (simp add: key_codec_def)
  show "to_str_ok t" "unquoted t" using codec_header(3,4) [OF codec enc] .
  assume p: "publishes L F (rc_iss c) (rc_dwk c) (tk_resource keys)" "rc_dwk c = ''aauth-resource.json''"
    "\<not> expired_at now (rc_exp c)"
  obtain key where "fetch_decoding_key L F (rc_iss c) (rc_dwk c) t = Ok key"
    "verify_with_key L now t key = Ok (PT_Resource c)"
    using resource_token_verifies [OF assms(1) enc assms(2) p(1)] p(3) by metis
  then show "verify_resource_token L F now t
      \<lparr>rt_expected_agent = Some (rc_agent c), rt_expected_agent_jkt = Some (rc_agent_jkt c)\<rparr> = Ok c"
    using r p(2,3) by (simp add: verify_resource_token_def)
qed

lemma wired_agent_token:
  assumes "wired K keys agent_url ps aud rl cfg F"
    and "mint_agent_jwt (rl_jwt rl) K keys t0 j0 agent_url sub (Some ps) = Some aj"
  shows "\<lbrakk>\<not> i64_less (now + CLOCK_SKEW) t0; \<not> expired_at now (t0 + 3600)\<rbrakk> \<Longrightarrow>
      verify_token (rl_jwt rl) (rl_parse rl) (rl_fetcher rl) now aj (kp_thumbprint (tk_agent_ephemeral keys)) =
      Ok (PT_Agent (flow_agent (rl_jwt rl) keys t0 j0 agent_url sub ps))"
    and "parse_token (rl_jwt rl) aj = Ok (PT_Agent (flow_agent (rl_jwt rl) keys t0 j0 agent_url sub ps))"
proof -
  note h = wiredD [OF assms(1)]
  show "parse_token (rl_jwt rl) aj = Ok (PT_Agent (flow_agent (rl_jwt rl) keys t0 j0 agent_url sub ps))"
    using agent_token_reads [OF h(1)] assms(2) by (simp add: mint_agent_jwt_def flow_agent_def)
  show "verify_token (rl_jwt rl) (rl_parse rl) (rl_fetcher rl) now aj (kp_thumbprint (tk_agent_ephemeral keys)) =
      Ok (PT_Agent (flow_agent (rl_jwt rl) keys t0 j0 agent_url sub ps))"
    if "\<not> i64_less (now + CLOCK_SKEW) t0" "\<not> expired_at now (t0 + 3600)"
    unfolding flow_agent_def
    by (rule agent_jwt_accepted [OF h(1,2) assms(2) h(7,3) _ that]) (use h(4) in simp)
qed

text \<open>The token the challenge carries, as the agent and the Person Server read it.\<close>

lemma wired_challenge_token:
  assumes w: "wired K keys agent_url ps aud rl cfg F"
    and c: "c = challenge_claims rl t1 tp A aud" "rl_sign rl (typ_as_str Typ_Resource) c = Ok rt"
  shows "\<not> expired_at now (t1 + 300) \<Longrightarrow> G = F \<or> G = psc_fetcher cfg \<Longrightarrow> verify_resource_token (rl_jwt rl) G now rt
      \<lparr>rt_expected_agent = Some (ag_sub A), rt_expected_agent_jkt = Some tp\<rparr> = Ok c"
    and "to_str_ok rt" "unquoted rt" "parse_token (rl_jwt rl) rt = Ok (PT_Resource c)"
    and "rc_interaction c = None" "rc_scope c = None"
proof -
  note h = wiredD [OF w]
  note s = signed_resource_token [OF h(1,11) c(2) [unfolded h(5)]]
  show "to_str_ok rt" "unquoted rt" "parse_token (rl_jwt rl) rt = Ok (PT_Resource c)" using s(2-4) .
  show "rc_interaction c = None" "rc_scope c = None"
    using h(6) c(1) by (simp_all add: challenge_claims_def resource_token_claims_def Let_def)
  show "verify_resource_token (rl_jwt rl) G now rt
      \<lparr>rt_expected_agent = Some (ag_sub A), rt_expected_agent_jkt = Some tp\<rparr> = Ok c"
    if "\<not> expired_at now (t1 + 300)" "G = F \<or> G = psc_fetcher cfg"
    using s(1) [of G now] that h(9,10) c(1) by (auto simp: challenge_claims_fields)
qed

text \<open>What the resource answers, what the agent makes of it, and what the Person Server reads.\<close>

lemma wired_challenge:
  assumes w: "wired K keys agent_url ps aud rl cfg F"
    and agent: "mint_agent_jwt (rl_jwt rl) K keys t0 j0 agent_url sub (Some ps) = Some aj"
      "A = flow_agent (rl_jwt rl) keys t0 j0 agent_url sub ps" "tp = kp_thumbprint (tk_agent_ephemeral keys)"
    and c: "c = challenge_claims rl t1 tp A aud" "rl_sign rl (typ_as_str Typ_Resource) c = Ok rt"
    and resp: "resp = text_response [(''aauth-requirement'', ch_to_header (Ch_AuthToken rt))] ''Auth token required''"
  shows "\<lbrakk>layer_verify rl t1 rq = Ok v; vs_jwt v = Some aj; vs_thumbprint v = tp;
      \<not> i64_less (t1 + CLOCK_SKEW) t0; \<not> expired_at t1 (t0 + 3600)\<rbrakk> \<Longrightarrow> layer_call rl t1 rq st = (LO_Reply resp, st)"
    and "observe_response order origin AA_AgentSigned (rs_status resp) (rs_headers resp) a = (Ok (AS_ExchangeToken rt), a)"
    and "\<lbrakk>\<not> expired_at now (t1 + 300); normalize_server_url clow (rl_resource_url rl) = normalize_server_url clow origin\<rbrakk> \<Longrightarrow>
      verify_resource_challenge (rl_jwt rl) clow F now rt origin sub tp = Ok c"
    and "\<not> expired_at now (t1 + 300) \<Longrightarrow> verify_token_request (rl_jwt rl) now cfg aj tp rt exchange =
      Ok \<lparr>pt_person_server_url = psc_person_server_url cfg, pt_resource_url = psc_resource_url cfg,
          pt_agent_claims = A, pt_resource_claims = c, pt_exchange_request = exchange\<rparr>"
proof -
  note tok = wired_challenge_token [OF w c]
  have f: "ag_sub A = sub" "ag_ps A = Some ps" using agent(2) by (simp_all add: flow_agent_fields)
  obtain server fallback where m: "rl_mode rl = RM_PsAsserted True server fallback"
    "\<And>agent. ag_ps agent = Some ps \<Longrightarrow> resolve_resource_token_audience agent server fallback = Some aud"
    using wired_mode [OF w] by metis
  have reply: "decide rl t1 tp (PT_Agent A) st = (LO_Reply resp, st)"
    using issued_challenge [OF m(2) [OF f(2)] c(2) [unfolded c(1)] to_str_header_ok [OF challenge_header_ok [OF tok(2)]]] m(1) resp
    by (simp add: decide_def del: ch_to_header.simps)
  show "layer_call rl t1 rq st = (LO_Reply resp, st)"
    if "layer_verify rl t1 rq = Ok v" "vs_jwt v = Some aj" "vs_thumbprint v = tp"
      "\<not> i64_less (t1 + CLOCK_SKEW) t0" "\<not> expired_at t1 (t0 + 3600)"
    using asserted_call [OF m(1) that(1,2), of st] wired_agent_token(1) [OF w agent(1) that(4,5)] that(3) agent(2,3) reply
    by (simp add: token_path_def)
  show "observe_response order origin AA_AgentSigned (rs_status resp) (rs_headers resp) a = (Ok (AS_ExchangeToken rt), a)"
    using read_challenge [OF challenge_header_ok [OF tok(2)] tok(3)] resp
    by (simp add: observe_response_def text_response_def del: ch_to_header.simps)
  show "verify_resource_challenge (rl_jwt rl) clow F now rt origin sub tp = Ok c"
    if "\<not> expired_at now (t1 + 300)" "normalize_server_url clow (rl_resource_url rl) = normalize_server_url clow origin"
    using tok(1) [OF that(1), of F] that(2) f(1) c(1) by (simp add: verify_resource_challenge_def challenge_claims_fields)
  show "verify_token_request (rl_jwt rl) now cfg aj tp rt exchange =
      Ok \<lparr>pt_person_server_url = psc_person_server_url cfg, pt_resource_url = psc_resource_url cfg,
          pt_agent_claims = A, pt_resource_claims = c, pt_exchange_request = exchange\<rparr>"
    if "\<not> expired_at now (t1 + 300)"
    using tok(1) [OF that, of "psc_fetcher cfg"] wired_agent_token(2) [OF w agent(1)] agent(2)
    by (simp add: verify_token_request_def claims_identifier_def)
qed

section \<open>From the auth token to the retried request\<close>

definition flow_auth ::
    "('key, 'p, 'g, 'st, 'err) resource_layer \<Rightarrow> 'sk test_keys \<Rightarrow> i64 \<Rightarrow> string \<Rightarrow> string \<Rightarrow> string \<Rightarrow> string \<Rightarrow> string \<Rightarrow>
     auth_claims" where
  "flow_auth rl keys t2 jti dwk iss sub user =
     mint_auth_claims t2 jti dwk iss (rl_resource_url rl) sub
       (kp_public_jwk (rl_jwt rl) (tk_agent_ephemeral keys)) (Some user) None"

lemma flow_auth_fields:
  "au_sub (flow_auth rl keys t2 jti dwk iss sub user) = Some user" "au_agent (flow_auth rl keys t2 jti dwk iss sub user) = sub"
  "au_iss (flow_auth rl keys t2 jti dwk iss sub user) = iss" "au_aud (flow_auth rl keys t2 jti dwk iss sub user) = rl_resource_url rl"
  by (simp_all add: flow_auth_def mint_auth_claims_def)

lemma wired_auth_token:
  assumes w: "wired K keys agent_url ps aud rl cfg F"
    and minted: "encode_auth_jwt (auth_encoder K kp) t2 jti (kp_kid kp) dwk iss (rl_resource_url rl) sub
        (kp_public_jwk (rl_jwt rl) (tk_agent_ephemeral keys)) (Some user) None = Ok token" "well_kept (rl_jwt rl) K kp"
    and tp: "tp = kp_thumbprint (tk_agent_ephemeral keys)"
  shows "\<lbrakk>publishes (rl_jwt rl) G iss dwk kp; \<not> expired_at now (t2 + 3600)\<rbrakk> \<Longrightarrow>
      verify_token (rl_jwt rl) parse G now token tp = Ok (PT_Auth (flow_auth rl keys t2 jti dwk iss sub user))"
    and "\<lbrakk>publishes (rl_jwt rl) F iss dwk kp; \<not> expired_at now (t2 + 3600);
        normalize_server_url clow (rl_resource_url rl) = normalize_server_url clow origin\<rbrakk> \<Longrightarrow>
      verify_client_auth_token (rl_jwt rl) clow F now token origin iss sub tp check =
        Ok (flow_auth rl keys t2 jti dwk iss sub user)"
    and "\<lbrakk>publishes (rl_jwt rl) (rl_fetcher rl) iss dwk kp; \<not> expired_at now (t2 + 3600);
        layer_verify rl now rq = Ok v; vs_jwt v = Some token; vs_thumbprint v = tp\<rbrakk> \<Longrightarrow>
      layer_call rl now rq st = (LO_Forward (PT_Auth (flow_auth rl keys t2 jti dwk iss sub user)), st)"
proof -
  note h = wiredD [OF w]
  have subject: "Some user \<noteq> None \<or> None \<noteq> (None :: string option)" by simp
  note acc = auth_jwt_accepted [OF h(1) minted(2,1) _ subject h(12) [folded tp]]
  show v: "verify_token (rl_jwt rl) parse G now token tp = Ok (PT_Auth (flow_auth rl keys t2 jti dwk iss sub user))"
    if "publishes (rl_jwt rl) G iss dwk kp" "\<not> expired_at now (t2 + 3600)" for parse G
    unfolding flow_auth_def by (rule acc(1) [OF that])
  show "verify_client_auth_token (rl_jwt rl) clow F now token origin iss sub tp check =
      Ok (flow_auth rl keys t2 jti dwk iss sub user)"
    if "publishes (rl_jwt rl) F iss dwk kp" "\<not> expired_at now (t2 + 3600)"
      "normalize_server_url clow (rl_resource_url rl) = normalize_server_url clow origin"
    unfolding flow_auth_def by (rule acc(2) [OF that]) simp
  show "layer_call rl now rq st = (LO_Forward (PT_Auth (flow_auth rl keys t2 jti dwk iss sub user)), st)"
    if l: "publishes (rl_jwt rl) (rl_fetcher rl) iss dwk kp" "\<not> expired_at now (t2 + 3600)"
      "layer_verify rl now rq = Ok v" "vs_jwt v = Some token" "vs_thumbprint v = tp"
  proof -
    obtain server fallback where m: "rl_mode rl = RM_PsAsserted True server fallback" using wired_mode [OF w] by metis
    have "token_path rl now token tp st = (LO_Forward (PT_Auth (flow_auth rl keys t2 jti dwk iss sub user)), st)"
      using v [OF l(1,2), of "rl_parse rl"] m flow_auth_fields(4) [of rl keys t2 jti dwk iss sub user]
      by (simp add: token_path_def verify_auth_token_binding_def decide_def)
    then show ?thesis using asserted_call [OF m l(3,4), of st] l(5) by simp
  qed
qed

section \<open>The resource and the agent\<close>

text \<open>
  All that the resource and the agent see of a flow: the issuer \<open>aud\<close>, whom the challenge is
  addressed to, has minted \<open>token\<close> with a key that both can look up.
\<close>

lemma wired_flow:
  assumes w: "wired K keys agent_url ps aud rl cfg F"
    and agent: "mint_agent_jwt (rl_jwt rl) K keys t0 j0 agent_url sub (Some ps) = Some aj"
      "A = flow_agent (rl_jwt rl) keys t0 j0 agent_url sub ps" "tp = kp_thumbprint (tk_agent_ephemeral keys)"
    and asked: "layer_verify rl t1 rq1 = Ok v1" "vs_jwt v1 = Some aj" "vs_thumbprint v1 = tp"
      "\<not> i64_less (t1 + CLOCK_SKEW) t0" "\<not> expired_at t1 (t0 + 3600)"
    and challenge: "rl_sign rl (typ_as_str Typ_Resource) (challenge_claims rl t1 tp A aud) = Ok rt"
    and client: "\<not> expired_at ca (t1 + 300)" "\<not> expired_at cb (t2 + 3600)"
      "normalize_server_url clow (rl_resource_url rl) = normalize_server_url clow origin"
    and minted: "encode_auth_jwt (auth_encoder K kp) t2 j2 (kp_kid kp) dwk aud (rl_resource_url rl) sub
        (kp_public_jwk (rl_jwt rl) (tk_agent_ephemeral keys)) (Some user) None = Ok token" "well_kept (rl_jwt rl) K kp"
      "publishes (rl_jwt rl) (rl_fetcher rl) aud dwk kp" "publishes (rl_jwt rl) F aud dwk kp"
    and retried: "layer_verify rl t3 rq3 = Ok v3" "vs_jwt v3 = Some token" "vs_thumbprint v3 = tp"
      "\<not> expired_at t3 (t2 + 3600)"
  shows "\<exists>resp auth.
    layer_call rl t1 rq1 st = (LO_Reply resp, st) \<and>
    observe_response order origin AA_AgentSigned (rs_status resp) (rs_headers resp) a = (Ok (AS_ExchangeToken rt), a) \<and>
    verify_resource_challenge (rl_jwt rl) clow F ca rt origin sub tp = Ok (challenge_claims rl t1 tp A aud) \<and>
    verify_client_auth_token (rl_jwt rl) clow F cb token origin aud sub tp check = Ok auth \<and>
    layer_call rl t3 rq3 st = (LO_Forward (PT_Auth auth), st) \<and>
    au_sub auth = Some user \<and> au_agent auth = sub \<and> au_iss auth = aud \<and> au_aud auth = rl_resource_url rl"
proof -
  let ?resp = "text_response [(''aauth-requirement'', ch_to_header (Ch_AuthToken rt))] ''Auth token required''"
  let ?auth = "flow_auth rl keys t2 j2 dwk aud sub user"
  note c = wired_challenge [OF w agent refl challenge refl]
  note t = wired_auth_token [OF w minted(1,2) agent(3)]
  have "layer_call rl t1 rq1 st = (LO_Reply ?resp, st)" using c(1) [OF asked] .
  moreover have "observe_response order origin AA_AgentSigned (rs_status ?resp) (rs_headers ?resp) a =
      (Ok (AS_ExchangeToken rt), a)" using c(2) .
  moreover have "verify_resource_challenge (rl_jwt rl) clow F ca rt origin sub tp = Ok (challenge_claims rl t1 tp A aud)"
    using c(3) [OF client(1,3)] .
  moreover have "verify_client_auth_token (rl_jwt rl) clow F cb token origin aud sub tp check = Ok ?auth"
    using t(2) [OF minted(4) client(2,3)] .
  moreover have "layer_call rl t3 rq3 st = (LO_Forward (PT_Auth ?auth), st)" using t(3) [OF minted(3) retried(4,1-3)] .
  ultimately show ?thesis using flow_auth_fields [of rl keys t2 j2 dwk aud sub user] by blast
qed

section \<open>The Person Server grants\<close>

text \<open>
  \<open>managed_setup\<close>: moreover the resource asserts tokens of the agent's own Person Server, which
  grants everything it is the audience of and mints with its own key, a key that the resource
  and the agent's fetcher know.
\<close>

definition managed_setup ::
    "('sk, 'ek) key_lib \<Rightarrow> 'sk test_keys \<Rightarrow> string \<Rightarrow> string \<Rightarrow> ('key, 'p, 'g, 'st, 'err) resource_layer \<Rightarrow>
     ('key, 's, 'e) person_service \<Rightarrow> fetcher \<Rightarrow> (string \<Rightarrow> string) \<Rightarrow> string \<Rightarrow> i64 \<Rightarrow> string \<Rightarrow> bool" where
  "managed_setup K keys agent_url ps rl svc F low user t2 jti \<longleftrightarrow>
     (let L = rl_jwt rl in
      wired K keys agent_url ps ps rl (pv_config svc) F \<and>
      pv_lib svc = L \<and> pv_policy svc = always_grant_person_policy low user \<and>
      pv_minter svc = person_minter K keys t2 jti \<and> psc_person_server_url (pv_config svc) = ps \<and>
      publishes L (rl_fetcher rl) ps ''aauth-person.json'' (tk_person_server keys) \<and>
      publishes L F ps ''aauth-person.json'' (tk_person_server keys))"

lemma managed_grant:
  assumes "managed_setup K keys agent_url ps rl svc F low user t2 j2"
    and "pt_person_server_url ctx = ps" "rc_interaction (pt_resource_claims ctx) = None" "rc_aud (pt_resource_claims ctx) = ps"
    and "person_minter K keys t2 j2 ps (rl_resource_url rl) (ag_sub (pt_agent_claims ctx))
        (cnf_jwk (ag_cnf (pt_agent_claims ctx))) (Some user) (rc_scope (pt_resource_claims ctx)) = Ok token"
  shows "person_exchange_token ev svc ctx aj s = (Ok (PF_Granted \<lparr>auth_token = token, expires_in = 3600\<rparr>), s)"
proof -
  have h: "pv_policy svc = always_grant_person_policy low user" "pv_minter svc = person_minter K keys t2 j2"
    "psc_person_server_url (pv_config svc) = ps" "psc_resource_url (pv_config svc) = rl_resource_url rl"
    using assms(1) wiredD(8) by (auto simp: managed_setup_def Let_def)
  have g: "pol_evaluate (pv_policy svc) ctx = Ok (PD_Grant \<lparr>gr_sub = user, gr_scope = rc_scope (pt_resource_claims ctx)\<rparr>)"
    using assms(2,4) h(1)
    by (simp add: always_grant_person_policy_def always_grant_person_evaluate_def audience_is_person_server_def)
  have m: "mint_person_auth (pv_config svc) (pv_minter svc) user (rc_scope (pt_resource_claims ctx)) (pt_agent_claims ctx)
      = Ok \<lparr>auth_token = token, expires_in = 3600\<rparr>"
    using assms(5) h by (simp add: mint_person_auth_def claims_identifier_def)
  show ?thesis
    using assms(3) g m by (simp add: person_exchange_token_def apply_person_decision_def seq_def)
qed

text \<open>The token endpoint's answer, once the request is read and the service has granted.\<close>

lemma granted_answer:
  assumes "optional_json Fr de_token_exchange rq = Ok (Some body)" "verify_post Fr (pv_lib svc) ev rq = Ok v"
    and "vs_jwt v = Some aj"
    and "verify_token_request (pv_lib svc) (ev_now ev) (pv_config svc) aj (vs_thumbprint v) (tx_resource_token body) body = Ok ctx"
    and "person_exchange_token ev svc ctx aj s = (Ok (PF_Granted granted), s)"
  shows "token_exchange_handler Fr ev svc rq s =
    (Some (json_response (fr_json Fr) 200 [] (en_token_response granted)), s)"
  using assms by (simp add: token_exchange_handler_def finish_def respond_person_flow_def respond_flow_def)

end
