(* ===== verification/Federated.thy ===== *)
theory Federated
  imports Flows
begin

text \<open>
  A Person Server and an Access Server over HTTP: the client of \<open>Access_Client\<close> on one side, the
  router of \<open>Access_Runs\<close> on the other, the network between them as a contract. A token request
  for a resource that trusts an Access Server ends in that server's grant.
\<close>

section \<open>What the verifier reads of the headers\<close>

definition carries :: "header_map \<Rightarrow> header_map \<Rightarrow> bool" where
  "carries hs' hs \<longleftrightarrow> (\<forall>n v. header_value hs n = Some v \<longrightarrow> header_value hs' n = Some v)"

lemma carriesD: "carries hs' hs \<Longrightarrow> header_value hs n = Some v \<Longrightarrow> header_value hs' n = Some v"
  by (simp add: carries_def)

lemma component_lines_more:
  assumes "carries hs' hs" "component_lines H up (sp\<lparr>sp_headers := hs\<rparr>) is = Ok ls"
  shows "component_lines H up (sp\<lparr>sp_headers := hs'\<rparr>) is = Ok ls"
  using assms(2)
proof (induction "is" arbitrary: ls)
  case (Cons i "is")
  have "component_value H up (sp\<lparr>sp_headers := hs'\<rparr>) n = Ok v" if "component_value H up (sp\<lparr>sp_headers := hs\<rparr>) n = Ok v" for n v
    using that carriesD [OF assms(1)] by (auto simp: component_value_def res_simps split: if_splits)
  then show ?case using Cons by (auto simp: res_simps Let_def)
qed simp

text \<open>Further headers, as a client and the network add them, do not change the verdict.\<close>

lemma http_verify_more:
  assumes "carries hs' hs" "http_verify H L up now meth authority path hs vo = Ok v"
  shows "http_verify H L up now meth authority path hs' vo = Ok v"
proof -
  note more = carriesD [OF assms(1)]
  have lines: "component_lines H up \<lparr>sp_method = meth, sp_authority = authority, sp_path = path,
      sp_key_header = kh, sp_headers = hs'\<rparr> is = Ok ls"
    if "component_lines H up \<lparr>sp_method = meth, sp_authority = authority, sp_path = path,
      sp_key_header = kh, sp_headers = hs\<rparr> is = Ok ls" for kh "is" ls
    using component_lines_more [OF assms(1), of H up "\<lparr>sp_method = meth, sp_authority = authority, sp_path = path,
      sp_key_header = kh, sp_headers = hs\<rparr>" "is" ls] that by simp
  show ?thesis
    using assms(2) unfolding http_verify_def Let_def
    by (clarsimp simp: bind_res_Ok ok_or_Ok map_err_Ok more lines split: if_splits) blast
qed

section \<open>The network\<close>

text \<open>
  \<open>arrives\<close>: a request as the Access Server's framework sees it. HTTP delivers the body and the
  headers the client set; others, such as \<^verbatim>\<open>Host\<close>, are added. \<open>answers\<close>: what the server replies
  to the call comes back. \<open>hosts\<close>: at its address the client, which sets no \<^verbatim>\<open>Host\<close> itself,
  reaches this server.
\<close>

definition arrives :: "('p, 'g) front \<Rightarrow> wire_request \<Rightarrow> string \<Rightarrow> string \<Rightarrow> request \<Rightarrow> bool" where
  "arrives F wr authority path rq \<longleftrightarrow> rq_path rq = path \<and> host_authority (rq_headers rq) = authority \<and>
     carries (rq_headers rq) (wr_headers wr) \<and> fr_bytes F rq = Ok (wr_body wr)"

definition answers ::
    "('w, 'p, 'g) as_client \<Rightarrow> ('p, 'g) front \<Rightarrow> 'key jwt_lib \<Rightarrow> env \<Rightarrow> ('t, 'e) access_service \<Rightarrow> ('w \<Rightarrow> 't) \<Rightarrow>
     wire_request \<Rightarrow> access_call \<Rightarrow> bool" where
  "answers C F L ev svc state wr call \<longleftrightarrow>
     (\<forall>w resp t. access_serve F L ev svc call (state w) = (Some resp, t) \<longrightarrow>
        (\<exists>w'. xc_send C wr w = (Ok resp, w') \<and> state w' = t \<and> cl_body (xc_client C) resp = Ok (rs_body resp)))"

definition access_token_url :: "access_server_config \<Rightarrow> string" where
  "access_token_url cfg = asc_access_server_url cfg @ ''/access/aauth/token''"

definition hosts ::
    "('w, 'p, 'g) as_client \<Rightarrow> ('p, 'g) front \<Rightarrow> 'key jwt_lib \<Rightarrow> env \<Rightarrow> ('t, 'e) access_service \<Rightarrow> ('w \<Rightarrow> 't) \<Rightarrow> bool" where
  "hosts C F L ev svc state \<longleftrightarrow>
     answers C F L ev svc state (xc_get
       (trim_end_matches (CHR ''/'') (asc_access_server_url (av_config svc)) @ ''/.well-known/aauth-access.json'') []) AC_Metadata \<and>
     (\<forall>headers body authority path. hm_get headers ''host'' = None \<longrightarrow>
        url_authority_path (xc_client C) (access_token_url (av_config svc)) = Ok (authority, path) \<longrightarrow>
        (\<exists>rq. arrives F (xc_post (access_token_url (av_config svc)) headers body) authority path rq \<and>
           answers C F L ev svc state (xc_post (access_token_url (av_config svc)) headers body) (AC_Token rq)))"

text \<open>\<open>speaks_json\<close>: both sides use the same crate, which reads these documents as it wrote them.\<close>

definition speaks_json :: "('w, 'p, 'g) as_client \<Rightarrow> ('p, 'g) front \<Rightarrow> json set \<Rightarrow> bool" where
  "speaks_json C F js \<longleftrightarrow> xc_json C = fr_json F \<and> (\<forall>j \<in> js. reads_back (fr_json F) j) \<and>
     (\<forall>hs. header_value hs ''content-type'' = Some ''application/json'' \<longrightarrow> fr_json_type F hs)"

lemma speaks_jsonD:
  "speaks_json C F js \<Longrightarrow> j \<in> js \<Longrightarrow> sj_parse (fr_json F) (sj_print (fr_json F) j) = Some j"
  "speaks_json C F js \<Longrightarrow> xc_json C = fr_json F"
  by (auto simp: speaks_json_def reads_back_def)

section \<open>Metadata\<close>

definition served_metadata :: "access_server_config \<Rightarrow> access_server_metadata" where
  "served_metadata cfg = access_metadata_default
     \<lparr>asm_issuer := Some (asc_access_server_url cfg), asm_token_endpoint := access_token_url cfg,
      asm_jwks_uri := Some (asc_access_jwks_uri cfg)\<rparr>"

lemma served_metadata_rt: "de_access_metadata (en_access_metadata (served_metadata cfg)) = Some (served_metadata cfg)"
  by (simp add: served_metadata_def access_metadata_default_def en_access_metadata_def de_access_metadata_def asm_names_def
      field_def en_opt_def)

lemma access_exchange_rt: "de_access_exchange (en_access_exchange r) = Some r"
  by (cases r; cases "ax_upstream_token r"; cases "ax_subagent_token r")
    (simp_all add: de_access_exchange_def en_access_exchange_def field_def en_opt_def)

lemma metadata_fetched:
  assumes "hosts C F L ev svc state" "speaks_json C F js" "en_access_metadata (served_metadata (av_config svc)) \<in> js"
    and "trim_end_matches (CHR ''/'') url = trim_end_matches (CHR ''/'') (asc_access_server_url (av_config svc))"
  obtains w' where "xc_fetch_metadata C url w = (Ok (served_metadata (av_config svc)), w')" "state w' = state w"
proof -
  let ?resp = "json_response (fr_json F) 200 [] (en_access_metadata (served_metadata (av_config svc)))"
  have "access_serve F L ev svc AC_Metadata (state w) = (Some ?resp, state w)"
    by (simp add: access_serve_def access_metadata_handler_def served_metadata_def access_token_url_def)
  then obtain w' where "xc_send C (xc_get (trim_end_matches (CHR ''/'') url @ ''/.well-known/aauth-access.json'') []) w = (Ok ?resp, w')"
    "state w' = state w" "cl_body (xc_client C) ?resp = Ok (rs_body ?resp)"
    using assms(1,4) unfolding hosts_def answers_def by fastforce
  moreover have "rs_body ?resp = sj_print (fr_json F) (en_access_metadata (served_metadata (av_config svc)))" "rs_status ?resp = 200"
    by (simp_all add: json_response_def)
  ultimately show ?thesis
    using that speaks_jsonD [OF assms(2)] assms(3)
    by (simp add: xc_fetch_metadata_def Let_def seq_def err_as_def is_success_def response_json_def from_slice_def served_metadata_rt)
qed

section \<open>The exchange\<close>

text \<open>
  \<open>signs_to\<close>: the Person Server's key and JWT sign a request to the URL so that the Access Server
  can verify it: the crate signs and honours RFC 9421, the JWT names the key, the clocks agree
  up to two minutes.
\<close>

definition signs_to ::
    "('w, 'p, 'g) as_client \<Rightarrow> ('p, 'g) front \<Rightarrow> 'key jwt_lib \<Rightarrow> env \<Rightarrow> string \<Rightarrow> 'w \<Rightarrow> bool" where
  "signs_to C F L ev url w \<longleftrightarrow>
     fr_http F = xc_http C \<and> ev_up ev = xc_up C \<and>
     xc_unix C w \<le> ev_now ev \<and> ev_now ev - xc_unix C w \<le> 120 \<and> ev_now ev \<le> ev_now ev + 60 \<and>
     clean (xc_signature_jwt C w) \<and> to_str_ok (xc_signature_jwt C w) \<and>
     (\<exists>authority path headers jwk tp pk sk.
        url_authority_path (xc_client C) url = Ok (authority, path) \<and>
        http_sign (xc_http C) (xc_up C) (xc_unix C w) ''POST'' authority path (xc_signing_material C w) [] None []
          = (Ok (), headers) \<and>
        cnf_jwk_from_jwt (xc_http C) (xc_signature_jwt C w) = Ok jwk \<and> httpsig_thumbprint L jwk = Ok tp \<and>
        public_key_from_jwk (xc_http C) jwk = Ok pk \<and>
        secret_key_from_signing_jwk (xc_http C) (xc_signing_jwk C) = Ok sk \<and>
        crate_agrees (xc_http C) (xc_unix C w) sk pk)"

lemma signed_request_arrives:
  assumes "signs_to C F L ev url w"
  obtains authority path headers v where "url_authority_path (xc_client C) url = Ok (authority, path)"
    "sign_headers C ''POST'' url w = (Ok headers, w)" "hm_get headers ''content-type'' = None" "hm_get headers ''host'' = None"
    "http_verify (fr_http F) L (ev_up ev) (ev_now ev) ''POST'' authority path headers verify_options_default = Ok v"
proof -
  obtain authority path headers jwk tp pk sk where s: "url_authority_path (xc_client C) url = Ok (authority, path)"
    "http_sign (xc_http C) (xc_up C) (xc_unix C w) ''POST'' authority path (xc_signing_material C w) [] None [] = (Ok (), headers)"
    "cnf_jwk_from_jwt (xc_http C) (xc_signature_jwt C w) = Ok jwk" "httpsig_thumbprint L jwk = Ok tp"
    "public_key_from_jwk (xc_http C) jwk = Ok pk" "secret_key_from_signing_jwk (xc_http C) (xc_signing_jwk C) = Ok sk"
    "crate_agrees (xc_http C) (xc_unix C w) sk pk"
    using assms unfolding signs_to_def by blast
  have m: "sm_signature_key (xc_signing_material C w) = SK_Jwt (xc_signature_jwt C w)"
    "sm_signing_jwk (xc_signing_material C w) = xc_signing_jwk C"
    by (simp_all add: xc_signing_material_def)
  have t: "fr_http F = xc_http C" "ev_up ev = xc_up C" "xc_unix C w \<le> ev_now ev" "ev_now ev - xc_unix C w \<le> 120"
    "ev_now ev \<le> ev_now ev + 60" "clean (xc_signature_jwt C w)" "to_str_ok (xc_signature_jwt C w)"
    using assms unfolding signs_to_def by blast+
  obtain v where v: "http_verify (fr_http F) L (ev_up ev) (ev_now ev) ''POST'' authority path headers verify_options_default = Ok v"
    using signed_verifies [OF s(2) m(1) t(6,7) s(3-5) s(6) [folded m(2)] s(7) _ t(3-5), where
        vo = verify_options_default] t(1,2)
    by auto
  obtain kh input sg where "headers = hm_insert (hm_insert (hm_insert [] ''signature-key'' kh) ''signature-input'' input) ''signature'' sg"
    using sign_steps [OF s(2) m(1)] by metis
  then have "hm_get headers ''content-type'' = None" "hm_get headers ''host'' = None" by simp_all
  moreover have "sign_headers C ''POST'' url w = (Ok headers, w)"
    using s(1,2) by (simp add: sign_headers_def)
  ultimately show ?thesis using that s(1) v by blast
qed

lemma exchange_granted:
  assumes "hosts C F L ev svc state" "speaks_json C F js" "en_access_exchange request \<in> js" "en_token_response body \<in> js"
    and "signs_to C F L ev (access_token_url (av_config svc)) w" "origin_of (xc_client C) (access_token_url (av_config svc)) = Ok base"
    and "access_context_from_exchange L (av_config svc) request = Ok ctx"
    and "pol_evaluate (av_policy svc) ctx = Ok (AD_Grant grant)" "mint_access_auth svc grant ctx = Ok body"
  obtains w' where "xc_exchange_token C (access_token_url (av_config svc)) request w = (Ok (AX_Complete body), w')"
    "state w' = state w"
proof -
  let ?url = "access_token_url (av_config svc)" and ?text = "sj_print (fr_json F) (en_access_exchange request)"
  let ?resp = "json_response (fr_json F) 200 [] (en_token_response body)"
  obtain authority path headers v where s: "url_authority_path (xc_client C) ?url = Ok (authority, path)"
    "sign_headers C ''POST'' ?url w = (Ok headers, w)" "hm_get headers ''content-type'' = None" "hm_get headers ''host'' = None"
    "http_verify (fr_http F) L (ev_up ev) (ev_now ev) ''POST'' authority path headers verify_options_default = Ok v"
    by (rule signed_request_arrives [OF assms(5)])
  let ?hs = "hm_insert headers ''content-type'' ''application/json''"
  have none: "hm_get headers ''content-type'' = None" "hm_get ?hs ''host'' = None"
    using s(3,4) by simp_all
  obtain rq where rq: "arrives F (xc_post ?url ?hs ?text) authority path rq"
    "answers C F L ev svc state (xc_post ?url ?hs ?text) (AC_Token rq)"
    using assms(1) s(1) none(2) unfolding hosts_def by blast
  have a: "rq_path rq = path" "host_authority (rq_headers rq) = authority" "carries (rq_headers rq) ?hs"
    "fr_bytes F rq = Ok ?text"
    using rq(1) by (simp_all add: arrives_def xc_post_def)
  have "carries ?hs headers"
    using none(1) by (simp add: carries_def header_value_def)
  then have "carries (rq_headers rq) headers"
    using a(3) by (simp add: carries_def)
  then have verified: "verify_post F L ev rq = Ok v"
    using http_verify_more s(5) a(1,2) by (simp add: verify_post_def)
  have ct: "header_value (rq_headers rq) ''content-type'' = Some ''application/json''"
    by (rule carriesD [OF a(3)]) (simp add: header_value_def to_str_ok_def byte_def)
  then have "hm_get (rq_headers rq) ''content-type'' \<noteq> None"
    by (auto simp: header_value_def split: option.splits)
  then have read: "optional_json F de_access_exchange rq = Ok (Some request)"
    using ct assms(2) a(4) speaks_jsonD(1) [OF assms(2,3)]
    by (simp add: optional_json_def speaks_json_def access_exchange_rt)
  have "access_exchange_token ev svc ctx s = (Ok (FO_Granted body), s)" for s
    using assms(8,9) by (simp add: access_exchange_token_def apply_access_decision_def seq_def)
  then have "access_serve F L ev svc (AC_Token rq) (state w) = (Some ?resp, state w)"
    using read verified assms(7)
    by (simp add: access_serve_def access_token_exchange_handler_def finish_def respond_flow_def)
  then obtain w' where w': "xc_send C (xc_post ?url ?hs ?text) w = (Ok ?resp, w')" "state w' = state w"
    "cl_body (xc_client C) ?resp = Ok (rs_body ?resp)"
    using rq(2) unfolding answers_def by blast
  have "exchange_outcome (xc_client C) ?url ?resp = Ok (AX_Complete body)"
    using w'(3) assms(6) speaks_jsonD(1) [OF assms(2,4)] speaks_jsonD(2) [OF assms(2)]
    by (simp add: exchange_outcome_def json_response_def is_success_def response_json_def from_slice_def)
  then show ?thesis
    using that w' s(2) speaks_jsonD(2) [OF assms(2)]
    by (simp add: xc_exchange_token_def seq_def err_as_def)
qed

section \<open>The Person Server federates\<close>

text \<open>
  \<open>uses_client\<close>: the Person Server's access client is this HTTP client, in the world \<open>w\<close> of its
  first request.
\<close>

definition uses_client :: "access_client \<Rightarrow> ('w, 'p, 'g) as_client \<Rightarrow> string \<Rightarrow> 'w \<Rightarrow> bool" where
  "uses_client A C url w \<longleftrightarrow> ac_fetch_metadata A url = fst (xc_fetch_metadata C url w) \<and>
     (\<forall>endpoint request. ac_exchange_token A endpoint request =
        fst (xc_exchange_token C endpoint request (snd (xc_fetch_metadata C url w))))"

text \<open>
  \<open>federated_setup\<close>: the resource asserts tokens of the Access Server \<open>as\<close>, which grants
  everything and mints with its own key, a key that the Person Server, the resource and the
  agent's fetcher know; the Person Server federates what it is not the audience of.
\<close>

definition federated_setup ::
    "('sk, 'ek) key_lib \<Rightarrow> 'sk test_keys \<Rightarrow> string \<Rightarrow> string \<Rightarrow> string \<Rightarrow> ('key, 'p, 'g, 'st, 'err) resource_layer \<Rightarrow>
     ('key, 's, 'e) person_service \<Rightarrow> fetcher \<Rightarrow> ('t, 'e2) access_service \<Rightarrow> (string \<Rightarrow> string) \<Rightarrow> string \<Rightarrow>
     string \<Rightarrow> i64 \<Rightarrow> string \<Rightarrow> bool" where
  "federated_setup K keys agent_url ps as rl svc F asvc low consented user t2 jti \<longleftrightarrow>
     (let L = rl_jwt rl in
      wired K keys agent_url ps as rl (pv_config svc) F \<and>
      pv_lib svc = L \<and> pv_policy svc = always_grant_person_policy low consented \<and>
      psc_person_server_url (pv_config svc) = ps \<and> normalize_server_url low as \<noteq> normalize_server_url low ps \<and>
      av_policy asvc = always_grant_access_policy user \<and> av_minter asvc = access_minter K keys t2 jti \<and>
      asc_access_server_url (av_config asvc) = as \<and> asc_resource_url (av_config asvc) = rl_resource_url rl \<and>
      publishes L (psc_fetcher (pv_config svc)) as ''aauth-access.json'' (tk_access_server keys) \<and>
      publishes L (rl_fetcher rl) as ''aauth-access.json'' (tk_access_server keys) \<and>
      publishes L F as ''aauth-access.json'' (tk_access_server keys))"

abbreviation minted_answer :: "string \<Rightarrow> token_response_body" where
  "minted_answer token \<equiv> \<lparr>auth_token = token, expires_in = 3600\<rparr>"

abbreviation federated_request :: "string \<Rightarrow> string \<Rightarrow> access_token_exchange_request" where
  "federated_request rt aj \<equiv>
     \<lparr>ax_resource_token = rt, ax_agent_token = aj, ax_upstream_token = None, ax_subagent_token = None\<rparr>"

text \<open>
  \<open>reaches\<close>: between the Person Server's client and the Access Server there is a network, a common
  JSON crate and a signature the server can verify.
\<close>

definition reaches ::
    "access_client \<Rightarrow> ('w, 'p, 'g) as_client \<Rightarrow> 'w \<Rightarrow> ('p, 'g) front \<Rightarrow> 'key jwt_lib \<Rightarrow> env \<Rightarrow> ('t, 'e) access_service \<Rightarrow>
     ('w \<Rightarrow> 't) \<Rightarrow> json set \<Rightarrow> bool" where
  "reaches A C w AF L aev asvc state js \<longleftrightarrow>
     (let base = trim_end_matches (CHR ''/'') (asc_access_server_url (av_config asvc));
          endpoint = access_token_url (av_config asvc) in
      uses_client A C base w \<and> hosts C AF L aev asvc state \<and> speaks_json C AF js \<and>
      signs_to C AF L aev endpoint (snd (xc_fetch_metadata C base w)) \<and>
      (\<exists>origin. origin_of (xc_client C) endpoint = Ok origin))"

text \<open>What the two servers say to each other in one exchange.\<close>

definition federation_documents :: "access_server_config \<Rightarrow> access_token_exchange_request \<Rightarrow> token_response_body \<Rightarrow> json set" where
  "federation_documents cfg request body =
     {en_access_metadata (served_metadata cfg), en_access_exchange request, en_token_response body}"

lemma federated_answer:
  assumes "reaches A C w AF L aev asvc state (federation_documents (av_config asvc) request body)"
    and "access_context_from_exchange L (av_config asvc) request = Ok ctx"
    and "pol_evaluate (av_policy asvc) ctx = Ok (AD_Grant grant)" "mint_access_auth asvc grant ctx = Ok body"
  shows "ac_fetch_metadata A (trim_end_matches (CHR ''/'') (asc_access_server_url (av_config asvc))) =
      Ok (served_metadata (av_config asvc))"
    and "ac_exchange_token A (access_token_url (av_config asvc)) request = Ok (AX_Complete body)"
proof -
  let ?base = "trim_end_matches (CHR ''/'') (asc_access_server_url (av_config asvc))"
  let ?js = "federation_documents (av_config asvc) request body"
  obtain origin where h: "uses_client A C ?base w" "hosts C AF L aev asvc state" "speaks_json C AF ?js"
    "signs_to C AF L aev (access_token_url (av_config asvc)) (snd (xc_fetch_metadata C ?base w))"
    "origin_of (xc_client C) (access_token_url (av_config asvc)) = Ok origin"
    using assms(1) unfolding reaches_def Let_def by blast
  have js: "en_access_metadata (served_metadata (av_config asvc)) \<in> ?js" "en_access_exchange request \<in> ?js"
    "en_token_response body \<in> ?js"
    by (simp_all add: federation_documents_def)
  obtain w' where m: "xc_fetch_metadata C ?base w = (Ok (served_metadata (av_config asvc)), w')"
    using metadata_fetched [OF h(2,3) js(1), of ?base w] by (auto simp: trim_end_matches_idem)
  then show "ac_fetch_metadata A ?base = Ok (served_metadata (av_config asvc))"
    using h(1) by (simp add: uses_client_def)
  have "signs_to C AF L aev (access_token_url (av_config asvc)) w'" using h(4) m by simp
  then obtain w'' where "xc_exchange_token C (access_token_url (av_config asvc)) request w' = (Ok (AX_Complete body), w'')"
    using exchange_granted [OF h(2,3) js(2,3) _ h(5) assms(2-4)] by blast
  then show "ac_exchange_token A (access_token_url (av_config asvc)) request = Ok (AX_Complete body)"
    using h(1) m by (simp add: uses_client_def)
qed

lemma federated_exchange:
  assumes setup_ok: "federated_setup K keys agent_url ps as rl svc F asvc low consented user t2 j2"
    and tokens: "parse_token (rl_jwt rl) rt = Ok (PT_Resource c)" "parse_token (rl_jwt rl) aj = Ok (PT_Agent A)"
      "rc_aud c = as" "rc_scope c = None" "ag_sub A = sub"
      "cnf_jwk (ag_cnf A) = kp_public_jwk (rl_jwt rl) (tk_agent_ephemeral keys)"
    and minted: "access_minter K keys t2 j2 as (rl_resource_url rl) sub
        (kp_public_jwk (rl_jwt rl) (tk_agent_ephemeral keys)) (Some user) None = Ok token"
    and net: "reaches (psc_access_server (pv_config svc)) C w AF (rl_jwt rl) aev asvc state
        (federation_documents (av_config asvc) (federated_request rt aj) (minted_answer token))"
    and fresh: "\<not> expired_at now (t2 + 3600)"
  shows "federate_to_access_server (rl_jwt rl) parse now (pv_config svc) rt aj = Ok (FedComplete (minted_answer token))"
proof -
  let ?L = "rl_jwt rl" and ?jwk = "kp_public_jwk (rl_jwt rl) (tk_agent_ephemeral keys)"
  have w: "wired K keys agent_url ps as rl (pv_config svc) F" and h: "av_policy asvc = always_grant_access_policy user"
    "av_minter asvc = access_minter K keys t2 j2" "asc_access_server_url (av_config asvc) = as"
    "asc_resource_url (av_config asvc) = rl_resource_url rl"
    "publishes ?L (psc_fetcher (pv_config svc)) as ''aauth-access.json'' (tk_access_server keys)"
    using setup_ok by (simp_all add: federated_setup_def Let_def)
  obtain ctx where ctx: "access_context_from_exchange ?L (av_config asvc) (federated_request rt aj) = Ok ctx"
    "at_agent_claims ctx = A" "at_resource_claims ctx = c"
    using tokens(1,2) by (simp add: access_context_from_exchange_def)
  let ?grant = "\<lparr>gr_sub = user, gr_scope = None\<rparr>"
  have pol: "pol_evaluate (av_policy asvc) ctx = Ok (AD_Grant ?grant)"
    using h(1) ctx(3) tokens(4) by (simp add: always_grant_access_policy_def access_grant_def)
  have mint: "mint_access_auth asvc ?grant ctx = Ok (minted_answer token)"
    using h(2-4) ctx(2,3) tokens(4-6) minted by (simp add: mint_access_auth_def claims_identifier_def)
  note said = federated_answer [OF net ctx(1) pol mint, unfolded h(3)]
  have e: "encode_auth_jwt (auth_encoder K (tk_access_server keys)) t2 j2 (kp_kid (tk_access_server keys))
      ''aauth-access.json'' as (rl_resource_url rl) sub ?jwk (Some user) None = Ok token"
    "well_kept ?L K (tk_access_server keys)"
    using minted wiredD(2) [OF w] by (simp_all add: access_minter_def mint_access_auth_jwt_def keys_kept_def)
  have v: "verify_token ?L parse (psc_fetcher (pv_config svc)) now token (kp_thumbprint (tk_agent_ephemeral keys)) =
      Ok (PT_Auth (flow_auth rl keys t2 j2 ''aauth-access.json'' as sub user))"
    by (rule wired_auth_token(1) [OF w e refl h(5) fresh])
  have "verify_federated_auth_token ?L parse (psc_fetcher (pv_config svc)) now token (trim_end_matches (CHR ''/'') as)
      (psc_resource_url (pv_config svc)) aj = Ok ()"
    using v tokens(2,5,6) wiredD(8,12) [OF w]
    by (simp add: verify_federated_auth_token_def flow_auth_fields trim_end_matches_idem claims_identifier_def)
  moreover have "access_metadata_validate (served_metadata (av_config asvc)) = Ok ()"
    by (simp add: access_metadata_validate_def served_metadata_def access_token_url_def)
  moreover have "asm_token_endpoint (served_metadata (av_config asvc)) = access_token_url (av_config asvc)"
    by (simp add: served_metadata_def)
  ultimately show ?thesis
    using tokens(1,3) said by (simp add: federate_to_access_server_def Let_def)
qed

lemma federated_token_grant:
  assumes "federated_setup K keys agent_url ps as rl svc F asvc low consented user t2 j2"
    and "rc_interaction (pt_resource_claims ctx) = None" "rc_aud (pt_resource_claims ctx) = as"
    and "pt_person_server_url ctx = ps" "tx_resource_token (pt_exchange_request ctx) = rt"
    and "federate_to_access_server (rl_jwt rl) (ev_parse ev) (ev_now ev) (pv_config svc) rt aj = Ok (FedComplete body)"
  shows "person_exchange_token ev svc ctx aj s = (Ok (PF_Granted body), s)"
proof -
  have h: "pv_policy svc = always_grant_person_policy low consented" "pv_lib svc = rl_jwt rl"
    "normalize_server_url low as \<noteq> normalize_server_url low ps"
    using assms(1) by (simp_all add: federated_setup_def Let_def)
  then have "pol_evaluate (pv_policy svc) ctx = Ok PD_Federate"
    using assms(3,4) by (simp add: always_grant_person_policy_def always_grant_person_evaluate_def audience_is_person_server_def)
  then show ?thesis
    using assms(2,5,6) h(2) by (simp add: person_exchange_token_def apply_person_decision_def seq_def)
qed

end
