(* ===== verification/Flow_Samples.thy ===== *)
theory Flow_Samples
  imports Federated
begin

text \<open>
  Concrete parties for the flows: one key, one text per token, a resource that names the Access
  Server \<open>srv\<close> or none, an issuer that mints \<open>au\<close>; and an Access Server whose client is connected to
  it directly.
\<close>

section \<open>The resource, the Person Server and the agent\<close>

definition flow_aud :: "string option \<Rightarrow> string" where
  "flow_aud srv = (case srv of None \<Rightarrow> ''https://p'' | Some url \<Rightarrow> url)"

definition flow_rc :: "string option \<Rightarrow> resource_claims" where
  "flow_rc srv = challenge_claims (sample_layer (RM_PsAsserted True None None) ::
      (string, string list \<times> u64 option, string list \<times> u64 option, unit, unit) resource_layer)
      1000 ''T'' minted_agent (flow_aud srv)"

definition flow_fetcher :: fetcher where
  "flow_fetcher = static_metadata_fetcher ''https://x/jwks''
     [\<lparr>je_kid = Some ''T'', je_jwk = public_jwk_for sample_lib [] (Some ''T'')\<rparr>]"

abbreviation flow_lib :: "auth_claims \<Rightarrow> string option \<Rightarrow> string jwt_lib" where
  "flow_lib au srv \<equiv> minted_lib au (flow_rc srv)"
abbreviation flow_keys_lib :: "auth_claims \<Rightarrow> string option \<Rightarrow> (unit, unit) key_lib" where
  "flow_keys_lib au srv \<equiv> minted_keys_lib au (flow_rc srv)"

definition flow_layer ::
    "auth_claims \<Rightarrow> string option \<Rightarrow> (string, string list \<times> u64 option, string list \<times> u64 option, unit, unit) resource_layer" where
  "flow_layer au srv = (sample_layer (RM_PsAsserted True srv None))
     \<lparr>rl_http := fr_http sample_front, rl_jwt := flow_lib au srv, rl_fetcher := flow_fetcher,
      rl_sign := resource_signer (flow_keys_lib au srv) minted_test_keys\<rparr>"

definition flow_service ::
    "auth_claims \<Rightarrow> string option \<Rightarrow> access_client \<Rightarrow> (string, person_pending_context mem_store, unit) person_service" where
  "flow_service au srv A = sample_service
     \<lparr>pv_lib := flow_lib au srv, pv_policy := always_grant_person_policy id ''u'',
      pv_minter := person_minter (flow_keys_lib au srv) minted_test_keys 1000 ''j2'',
      pv_config := sample_config\<lparr>psc_fetcher := flow_fetcher, psc_access_server := A\<rparr>\<rparr>"

definition flow_front :: "(string list \<times> u64 option, string list \<times> u64 option) front" where
  "flow_front = sample_front
     \<lparr>fr_json := (fr_json sample_front)\<lparr>sj_parse := (\<lambda>_. Some (JObj [(''resource_token'', JStr ''resource.p.s'')]))\<rparr>\<rparr>"

definition flow_headers :: "string \<Rightarrow> header_map" where
  "flow_headers tok = [(''signature-key'', ''sig=jwt;jwt=\"'' @ tok @ ''\"''), (''signature-input'', ''i1''), (''signature'', ''s1'')]"

definition flow_verified :: "string \<Rightarrow> verified_http_signature" where
  "flow_verified tok = \<lparr>vs_label = ''sig'', vs_signature_key = SK_Jwt tok, vs_public_jwk = sample_jwk,
     vs_thumbprint = ''T'', vs_jwt = Some tok\<rparr>"

definition flow_post :: request where
  "flow_post = sample_post\<lparr>rq_headers := sample_post_headers @ flow_headers ''agent.p.s''\<rparr>"

lemma flow_secret_key:
  "secret_key_from_signing_jwk (fr_http sample_front) sample_signing_jwk = Ok (''ed25519'', replicate 32 (CHR 0x01))"
  by (simp add: secret_key_from_signing_jwk_def sample_signing_jwk_def sample_http_def sample_front_def)

lemma flow_signed:
  assumes "tok \<in> {''agent.p.s'', ''auth.p.s''}" "hs \<in> {[], sample_post_headers}"
  shows "http_sign (fr_http sample_front) id 1000 meth ''r'' path (sample_material\<lparr>sm_signature_key := SK_Jwt tok\<rparr>)
      [] None hs = (Ok (), hs @ flow_headers tok)"
proof -
  let ?H = "fr_http sample_front"
  have lib: "hl_new_params ?H is = Inr (is, None)" "hl_set_created ?H t (is, c) = (is, Some t)"
    "hl_base ?H ls ps = Inr ()" "hl_build ?H ls (sample_params []) sk ''sig'' = Inr (''i1'', ''s1'')"
    "hl_header_name ?H n = Some n"
    for "is" t c ls ps sk n
    by (simp_all add: sample_http_def sample_front_def)
  have ids: "all_ok (hl_component_id ?H) ns = Ok (map (\<lambda>n. ''\"'' @ n @ ''\"'') ns)"
    "all_ok (hl_component ?H) ls = Ok (map (\<lambda>_. ()) ls)" for ns ls
    by (rule all_ok_Ok, simp add: sample_http_def sample_front_def)+
  have p: "(map (\<lambda>n. ''\"'' @ n @ ''\"'') required_components, Some 1000) = sample_params []"
    by (simp add: sample_params_def)
  show ?thesis
    using p assms by (auto simp: http_sign_def sample_material_def seq_def sk_to_header_def insert_header_def
        Let_def hm_insert_def hm_remove_def quoted_param_def header_value_ok_def byte_def flow_secret_key ids lib
        sample_post_headers_def flow_headers_def)
qed

lemma flow_crate: "crate_agrees (fr_http sample_front) 1000 sk pk"
  using trim_matches_quoted sample_params_distinct
  by (auto simp: crate_agrees_def sample_http_def sample_front_def unquote_id_def to_str_ok_def byte_def
      split: if_splits)

lemma flow_cnf: "tok \<in> {''agent.p.s'', ''auth.p.s''} \<Longrightarrow> cnf_jwk_from_jwt (fr_http sample_front) tok = Ok sample_jwk"
  by (auto simp: cnf_jwk_from_jwt_def sample_front_def sample_http_def sample_key_json_def from_slice_def
      de_jwt_payload_def field_def en_opt_def de_cnf_def de_public_jwk_def jwk_json_def sample_jwk_def)

lemma flow_public_key: "public_key_from_jwk (fr_http sample_front) sample_jwk = Ok (''ed25519'', replicate 32 (CHR 0x01))"
  by (simp add: public_key_from_jwk_def sample_front_def sample_jwk_def sample_http_def)

lemma flow_thumbprint: "httpsig_thumbprint (flow_lib au srv) sample_jwk = Ok ''T''"
  by (simp add: httpsig_thumbprint_def thumbprint_members_def sample_jwk_def minted_lib_def sample_lib_def)

lemma flow_verifies:
  assumes "tok \<in> {''agent.p.s'', ''auth.p.s''}" "hs \<in> {[], sample_post_headers}"
  shows "http_verify (fr_http sample_front) (flow_lib au srv) id 1000 meth ''r'' path (hs @ flow_headers tok)
      verify_options_default = Ok (flow_verified tok)"
  unfolding flow_verified_def
  by (rule signed_verifies [OF flow_signed [OF assms] _ _ _ flow_cnf [OF assms(1)] flow_thumbprint flow_public_key _ flow_crate])
    (use assms in \<open>auto simp: sample_material_def clean_def to_str_ok_def byte_def flow_secret_key\<close>)

lemma flow_kept: "keys_kept (flow_lib au srv) (flow_keys_lib au srv) minted_test_keys"
  using test_keys_kept [OF minted_generate] .

lemma flow_publishes: "kp_kid kp = Some ''T'' \<Longrightarrow> publishes (flow_lib au srv) flow_fetcher iss dwk kp"
  by (simp add: publishes_def flow_fetcher_def static_metadata_fetcher_def jwk_set_find_def kp_public_jwk_def
      minted_public)

lemma flow_layer_simps [simp]:
  "rl_jwt (flow_layer au srv) = flow_lib au srv" "rl_http (flow_layer au srv) = fr_http sample_front"
  "rl_fetcher (flow_layer au srv) = flow_fetcher" "rl_sign (flow_layer au srv) = resource_signer (flow_keys_lib au srv) minted_test_keys"
  "rl_parse (flow_layer au srv) = sample_parse" "rl_mode (flow_layer au srv) = RM_PsAsserted True srv None"
  "rl_resource_url (flow_layer au srv) = ''https://r''" "rl_interaction (flow_layer au srv) = no_resource_interaction"
  "rl_up (flow_layer au srv) = id" "rl_jti (flow_layer au srv) = ''j''"
  by (simp_all add: flow_layer_def sample_layer_def)

lemma flow_service_simps [simp]:
  "pv_lib (flow_service au srv A) = flow_lib au srv" "pv_policy (flow_service au srv A) = always_grant_person_policy id ''u''"
  "pv_minter (flow_service au srv A) = person_minter (flow_keys_lib au srv) minted_test_keys 1000 ''j2''"
  "psc_fetcher (pv_config (flow_service au srv A)) = flow_fetcher" "psc_person_server_url (pv_config (flow_service au srv A)) = ''https://p''"
  "psc_resource_url (pv_config (flow_service au srv A)) = ''https://r''" "psc_access_server (pv_config (flow_service au srv A)) = A"
  by (simp_all add: flow_service_def sample_config_def)

lemma flow_keys_simps [simp]:
  "kp_kid (tk_agent_root minted_test_keys) = Some ''T''" "kp_kid (tk_person_server minted_test_keys) = Some ''T''"
  "kp_kid (tk_access_server minted_test_keys) = Some ''T''"
  "kp_kid (tk_resource minted_test_keys) = Some ''T''" "kp_thumbprint (tk_agent_ephemeral minted_test_keys) = ''T''"
  "kp_public_jwk (minted_lib au rc) (tk_agent_ephemeral minted_test_keys) = public_jwk_for sample_lib [] None"
  by (simp_all add: minted_test_keys_def minted_pair_def kp_public_jwk_def minted_public)

lemma flow_wired:
  "wired (flow_keys_lib au srv) minted_test_keys ''https://a'' ''https://p'' (flow_aud srv) (flow_layer au srv)
     (pv_config (flow_service au srv A)) flow_fetcher"
proof -
  have "is_valid_server_identifier sample_parse ''https://a''" "is_valid_server_identifier sample_parse ''https://p''"
    by (simp_all add: is_valid_server_identifier_def is_loopback_http_identifier_def sample_parse_def ends_with_single
        is_ascii_uppercase_def byte_def)
  then show ?thesis
    by (simp add: wired_def minted_codec flow_kept flow_publishes no_resource_interaction_def flow_aud_def)
qed

lemma flow_agent_minted:
  "mint_agent_jwt (flow_lib au srv) (flow_keys_lib au srv) minted_test_keys 1000 ''j1'' ''https://a'' ''aauth:me@a.com'' (Some ''https://p'')
     = Some ''agent.p.s''"
  "minted_agent = flow_agent (flow_lib au srv) minted_test_keys 1000 ''j1'' ''https://a'' ''aauth:me@a.com'' ''https://p''"
  by (simp_all add: mint_agent_jwt_def flow_agent_def minted_agent_def) (simp add: minted_keys_lib_def minted_agent_def)

lemma flow_challenge:
  "challenge_claims (flow_layer au srv) 1000 ''T'' minted_agent (flow_aud srv) = flow_rc srv"
  "resource_signer (flow_keys_lib au srv) minted_test_keys (typ_as_str Typ_Resource) (flow_rc srv) = Ok ''resource.p.s''"
proof -
  show "challenge_claims (flow_layer au srv) 1000 ''T'' minted_agent (flow_aud srv) = flow_rc srv"
    by (simp add: flow_rc_def challenge_claims_def sample_layer_def)
  show "resource_signer (flow_keys_lib au srv) minted_test_keys (typ_as_str Typ_Resource) (flow_rc srv) = Ok ''resource.p.s''"
    by (simp add: resource_signer_def sign_resource_token_def)
      (simp add: minted_keys_lib_def eddsa_header_def)
qed

lemma flow_layer_verify:
  assumes "tok \<in> {''agent.p.s'', ''auth.p.s''}"
  shows "layer_verify (flow_layer au srv) 1000 (sample_get (flow_headers tok)) = Ok (flow_verified tok)"
proof -
  have "layer_options (flow_layer au srv) (sample_get (flow_headers tok)) = verify_options_default"
    by (simp add: layer_options_def verify_options_default_def)
  moreover have "signature_parts (sample_get (flow_headers tok)) = (''GET'', ''r'', ''/'')"
    by (simp add: signature_parts_def sample_get_def flow_headers_def header_value_def)
  ultimately show ?thesis
    using flow_verifies [OF assms, of "[]"] by (simp add: layer_verify_def) (simp add: sample_get_def)
qed

lemma flow_post_reads:
  "verify_post flow_front (flow_lib au srv) sample_env flow_post = Ok (flow_verified ''agent.p.s'')"
  "optional_json flow_front de_token_exchange flow_post = Ok (Some (sample_exchange\<lparr>tx_resource_token := ''resource.p.s''\<rparr>))"
proof -
  have "host_authority (sample_post_headers @ flow_headers ''agent.p.s'') = ''r''"
    by (simp add: host_authority_def sample_post_headers_def header_value_def to_str_ok_def byte_def)
  then show "verify_post flow_front (flow_lib au srv) sample_env flow_post = Ok (flow_verified ''agent.p.s'')"
    using flow_verifies [of "''agent.p.s''" sample_post_headers]
    by (simp add: verify_post_def flow_post_def sample_post_def sample_env_def flow_front_def id_def)
  show "optional_json flow_front de_token_exchange flow_post = Ok (Some (sample_exchange\<lparr>tx_resource_token := ''resource.p.s''\<rparr>))"
    by (simp add: optional_json_def flow_post_def sample_post_def sample_post_headers_def flow_front_def
        sample_front_def de_token_exchange_def field_def sample_exchange_def)
qed

text \<open>Time 1000 is in the lifetime of everything.\<close>

lemma flow_now:
  "\<not> expired_at 1000 (1000 + 300)" "\<not> expired_at 1000 (1000 + 3600)" "\<not> i64_less (1000 + CLOCK_SKEW) 1000"
  "ev_now sample_env = 1000"
  by (simp_all add: expired_at_def i64_less_def CLOCK_SKEW_def sample_env_def)

lemma flow_verified_simps [simp]: "vs_jwt (flow_verified tok) = Some tok" "vs_thumbprint (flow_verified tok) = ''T''"
  by (simp_all add: flow_verified_def)

section \<open>The Access Server and its client\<close>

abbreviation flow_as :: "string option" where "flow_as \<equiv> Some ''https://s''"

definition access_auth :: auth_claims where
  "access_auth = mint_auth_claims 1000 ''j2'' ''aauth-access.json'' ''https://s'' ''https://r''
     ''aauth:me@a.com'' (public_jwk_for sample_lib [] None) (Some ''u'') None"

definition flow_access :: "(access_pending_context mem_store, unit) access_service" where
  "flow_access = sample_access_service\<lparr>av_minter := access_minter (flow_keys_lib access_auth flow_as) minted_test_keys 1000 ''j2''\<rparr>"

definition flow_documents :: "json list" where
  "flow_documents = [en_access_metadata (served_metadata sample_access_config),
     en_access_exchange (federated_request ''resource.p.s'' ''agent.p.s''), en_token_response (minted_answer ''auth.p.s'')]"

definition flow_json :: serde_json where
  "flow_json =
     \<lparr>sj_parse = (\<lambda>s. if s = ''m'' then Some (flow_documents ! 0) else if s = ''r'' then Some (flow_documents ! 1)
        else Some (flow_documents ! 2)),
      sj_print = (\<lambda>j. if j = flow_documents ! 0 then ''m'' else if j = flow_documents ! 1 then ''r'' else ''t''),
      sj_error = (\<lambda>_. [])\<rparr>"

definition flow_access_front :: "(string list \<times> u64 option, string list \<times> u64 option) front" where
  "flow_access_front = sample_front\<lparr>fr_json := flow_json\<rparr>"

definition flow_delivered :: "wire_request \<Rightarrow> request" where
  "flow_delivered wr = \<lparr>rq_method = wr_method wr, rq_host = None, rq_port = None, rq_path = ''/'',
     rq_headers = wr_headers wr @ [(''host'', ''r'')], rq_body = wr_body wr\<rparr>"

definition flow_send :: "wire_request \<Rightarrow> access_pending_context mem_store \<Rightarrow> (string + response) \<times> access_pending_context mem_store" where
  "flow_send wr s =
     (case access_serve flow_access_front (flow_lib access_auth flow_as) sample_env flow_access
         (if wr_method wr = ''GET'' then AC_Metadata else AC_Token (flow_delivered wr)) s of
        (None, t) \<Rightarrow> (Err ''connection closed'', t)
      | (Some resp, t) \<Rightarrow> (Ok resp, t))"

definition flow_client ::
    "(access_pending_context mem_store, string list \<times> u64 option, string list \<times> u64 option) as_client" where
  "flow_client =
     \<lparr>xc_http = fr_http sample_front, xc_up = id, xc_unix = (\<lambda>_. 1000), xc_client = sample_client\<lparr>cl_json := flow_json\<rparr>,
      xc_clock = \<lparr>ck_now = (\<lambda>_. 0), ck_sleep = (\<lambda>_ s. s)\<rparr>, xc_signing_jwk = sample_signing_jwk,
      xc_signature_jwt = (\<lambda>_. ''agent.p.s''), xc_members = (\<lambda>_. []), xc_send = flow_send\<rparr>"

definition flow_access_client :: access_client where
  "flow_access_client = absent_access_client
     \<lparr>ac_fetch_metadata := (\<lambda>url. fst (xc_fetch_metadata flow_client url mem_new)),
      ac_exchange_token := (\<lambda>url rq. fst (xc_exchange_token flow_client url rq
        (snd (xc_fetch_metadata flow_client ''https://s'' mem_new))))\<rparr>"

lemma flow_client_simps [simp]:
  "xc_http flow_client = fr_http sample_front" "xc_up flow_client = id" "xc_unix flow_client w = 1000"
  "xc_client flow_client = sample_client\<lparr>cl_json := flow_json\<rparr>" "xc_signing_jwk flow_client = sample_signing_jwk"
  "xc_signature_jwt flow_client w = ''agent.p.s''" "xc_send flow_client = flow_send"
  "av_config flow_access = sample_access_config" "asc_access_server_url sample_access_config = ''https://s''"
  "asc_resource_url sample_access_config = ''https://r''"
  "fr_http flow_access_front = fr_http sample_front" "fr_json flow_access_front = flow_json"
  "fr_json_type flow_access_front hs = True" "fr_bytes flow_access_front rq = Ok (rq_body rq)"
  "trim_end_matches (CHR ''/'') ''https://s'' = ''https://s''"
  by (simp_all add: flow_client_def flow_access_def sample_access_service_def sample_access_config_def
      flow_access_front_def sample_front_def trim_end_matches_id)

lemma flow_answers:
  assumes "call = (if wr_method wr = ''GET'' then AC_Metadata else AC_Token (flow_delivered wr))"
  shows "answers flow_client flow_access_front (flow_lib access_auth flow_as) sample_env flow_access id wr call"
  using assms by (auto simp: answers_def flow_send_def sample_client_def split: option.splits)

lemma flow_hosts: "hosts flow_client flow_access_front (flow_lib access_auth flow_as) sample_env flow_access id"
proof -
  have "arrives flow_access_front (xc_post url headers body) ''r'' ''/'' (flow_delivered (xc_post url headers body))"
    if "hm_get headers ''host'' = None" for url headers body
    using that by (auto simp: arrives_def flow_delivered_def xc_post_def host_authority_def carries_def header_value_def
        hm_get_append to_str_ok_def byte_def split: option.splits)
  moreover have "answers flow_client flow_access_front (flow_lib access_auth flow_as) sample_env flow_access id
      (xc_post url headers body) (AC_Token (flow_delivered (xc_post url headers body)))" for url headers body
    by (rule flow_answers) (simp add: xc_post_def)
  moreover have "answers flow_client flow_access_front (flow_lib access_auth flow_as) sample_env flow_access id
      (xc_get url []) AC_Metadata" for url
    by (rule flow_answers) (simp add: xc_get_def)
  moreover have "url_authority_path (xc_client flow_client) url = Ok (''r'', ''/'')" for url
    by (simp add: url_authority_path_def sample_client_def sample_url_def host_with_port_def)
  ultimately show ?thesis unfolding hosts_def by auto blast
qed

lemma flow_speaks:
  "speaks_json flow_client flow_access_front (federation_documents sample_access_config
     (federated_request ''resource.p.s'' ''agent.p.s'') (minted_answer ''auth.p.s''))"
proof -
  have d: "flow_documents ! 0 \<noteq> flow_documents ! 1" "flow_documents ! 0 \<noteq> flow_documents ! 2"
    "flow_documents ! 1 \<noteq> flow_documents ! 2"
    by (simp_all add: flow_documents_def en_access_metadata_def en_access_exchange_def en_token_response_def
        served_metadata_def access_metadata_default_def en_opt_def)
  have e: "federation_documents sample_access_config (federated_request ''resource.p.s'' ''agent.p.s'')
      (minted_answer ''auth.p.s'') = {flow_documents ! 0, flow_documents ! 1, flow_documents ! 2}"
    by (simp add: federation_documents_def flow_documents_def)
  have "reads_back flow_json j" if "j \<in> {flow_documents ! 0, flow_documents ! 1, flow_documents ! 2}" for j
    using that d by (auto simp: reads_back_def flow_json_def)
  then show ?thesis unfolding e by (simp add: speaks_json_def)
qed

lemma flow_signs: "signs_to flow_client flow_access_front (flow_lib access_auth flow_as) sample_env url w"
proof -
  let ?H = "fr_http sample_front"
  have "http_sign ?H id 1000 ''POST'' ''r'' ''/'' (xc_signing_material flow_client w) [] None [] = (Ok (), flow_headers ''agent.p.s'')"
    using flow_signed [of "''agent.p.s''" "[]" "''POST''" "''/''"]
    by (simp add: xc_signing_material_def sample_material_def)
  moreover have "url_authority_path (sample_client\<lparr>cl_json := flow_json\<rparr>) url = Ok (''r'', ''/'')"
    by (simp add: url_authority_path_def sample_client_def sample_url_def host_with_port_def)
  moreover have "(1000::u64) \<le> 1000 + 60" by simp
  ultimately show ?thesis
    using flow_crate flow_cnf [of "''agent.p.s''"] flow_thumbprint flow_public_key flow_secret_key
    unfolding signs_to_def by (simp add: flow_now sample_env_def clean_def to_str_ok_def byte_def id_def)
qed

lemma flow_reaches:
  "reaches flow_access_client flow_client mem_new flow_access_front (flow_lib access_auth flow_as) sample_env flow_access id
     (federation_documents sample_access_config (federated_request ''resource.p.s'' ''agent.p.s'') (minted_answer ''auth.p.s''))"
proof -
  have "uses_client flow_access_client flow_client ''https://s'' mem_new"
    by (simp add: uses_client_def flow_access_client_def)
  moreover have "origin_of (sample_client\<lparr>cl_json := flow_json\<rparr>) url = Ok ''https://r''" for url
    by (simp add: origin_of_def sample_client_def sample_url_def host_with_port_def)
  ultimately show ?thesis
    using flow_hosts flow_speaks flow_signs by (simp add: reaches_def Let_def)
qed

lemma flow_access_token:
  "access_minter (flow_keys_lib access_auth flow_as) minted_test_keys 1000 ''j2'' ''https://s'' ''https://r'' ''aauth:me@a.com''
     (public_jwk_for sample_lib [] None) (Some ''u'') None = Ok ''auth.p.s''"
  by (simp add: access_minter_def mint_access_auth_jwt_def encode_auth_jwt_def auth_encoder_def jwt_err_def)
    (simp add: minted_keys_lib_def access_auth_def eddsa_header_def)

lemma flow_federated:
  "federated_setup (flow_keys_lib access_auth flow_as) minted_test_keys ''https://a'' ''https://p'' ''https://s''
     (flow_layer access_auth flow_as) (flow_service access_auth flow_as flow_access_client) flow_fetcher flow_access
     id ''u'' ''u'' 1000 ''j2''"
proof -
  have "normalize_server_url id ''https://s'' \<noteq> normalize_server_url id ''https://p''"
    by (simp add: normalize_server_url_def trim_end_matches_id to_lowercase_def is_ascii_def to_ascii_lower_def is_ascii_uppercase_def byte_def)
  moreover have "av_policy flow_access = always_grant_access_policy ''u''"
    "av_minter flow_access = access_minter (flow_keys_lib access_auth flow_as) minted_test_keys 1000 ''j2''"
    by (simp_all add: flow_access_def sample_access_service_def)
  ultimately show ?thesis
    using flow_wired [of access_auth flow_as flow_access_client]
    by (simp add: federated_setup_def flow_publishes flow_aud_def)
qed

end
