(* ===== verification/Setup.thy ===== *)
theory Setup
  imports Flows Agent_Middleware
begin

text \<open>
  The constructors an application starts from: the resource layer, the two servers from a policy,
  and the support code of the examples, a fetcher that serves the keys of all local parties and the
  builder of an agent client (\<^verbatim>\<open>aauth-axum/tests/support\<close>).
\<close>

section \<open>Crates\<close>

text \<open>The crates an application links, which every constructor passes on.\<close>

record ('key, 'sk, 'ek, 'p, 'g) crates =
  cr_http :: "('p, 'g) httpsig_lib"
  cr_jwt :: "'key jwt_lib"
  cr_keys :: "('sk, 'ek) key_lib"
  cr_up :: "string \<Rightarrow> string"
  cr_low :: "string \<Rightarrow> string"
  cr_parse :: url_parser
  cr_json :: serde_json

section \<open>Servers and layers\<close>

text \<open>\<^verbatim>\<open>ResourceAuthLayer::new\<close> and \<^verbatim>\<open>with_interaction_provider\<close>; \<open>jti\<close> is the UUID of a call.\<close>

definition resource_auth_layer_new ::
    "('key, 'sk, 'ek, 'p, 'g) crates \<Rightarrow> string \<Rightarrow> fetcher \<Rightarrow> string \<Rightarrow> ('st, 'err) access_iface resource_access_mode \<Rightarrow>
     (string \<Rightarrow> resource_claims \<Rightarrow> resource_token_error + string) \<Rightarrow> ('key, 'p, 'g, 'st, 'err) resource_layer" where
  "resource_auth_layer_new X jti fetcher resource_url mode sign =
     \<lparr>rl_http = cr_http X, rl_jwt = cr_jwt X, rl_up = cr_up X, rl_low = cr_low X, rl_parse = cr_parse X,
      rl_json = cr_json X, rl_fetcher = fetcher, rl_resource_url = resource_url, rl_mode = mode,
      rl_sign = sign, rl_jti = jti, rl_interaction = no_resource_interaction\<rparr>"

definition with_interaction_provider ::
    "(resource_interaction_context \<Rightarrow> resource_interaction_claim option) \<Rightarrow>
     ('key, 'p, 'g, 'st, 'err) resource_layer \<Rightarrow> ('key, 'p, 'g, 'st, 'err) resource_layer" where
  "with_interaction_provider provider rl = rl\<lparr>rl_interaction := provider\<rparr>"

text \<open>\<^verbatim>\<open>from_policy\<close> of the two servers: a service and its configuration.\<close>

definition person_server_from_policy ::
    "('key, 'sk, 'ek, 'p, 'g) crates \<Rightarrow> (person_token_context, person_token_decision) policy \<Rightarrow>
     ('s, 'e, person_pending_context) store_ops \<Rightarrow> minter \<Rightarrow> person_server_config \<Rightarrow> ('key, 's, 'e) person_service" where
  "person_server_from_policy X policy pending minter config =
     \<lparr>pv_lib = cr_jwt X, pv_policy = policy, pv_pending = pending, pv_minter = minter, pv_config = config\<rparr>"

definition access_server_from_policy ::
    "(access_token_context, access_token_decision) policy \<Rightarrow> ('s, 'e, access_pending_context) store_ops \<Rightarrow>
     minter \<Rightarrow> access_server_config \<Rightarrow> ('s, 'e) access_service" where
  "access_server_from_policy policy pending minter config =
     \<lparr>av_policy = policy, av_pending = pending, av_minter = minter, av_config = config\<rparr>"

section \<open>The fetcher of the local parties (\<^verbatim>\<open>support/metadata.rs\<close>)\<close>

definition same_origin :: "string \<Rightarrow> string \<Rightarrow> bool" where
  "same_origin configured iss =
     eq_ignore_ascii_case (trim_end_matches (CHR ''/'') configured) (trim_end_matches (CHR ''/'') iss)"

record multi_party =
  mp_agent :: fetcher
  mp_person :: "fetcher option"
  mp_access :: "fetcher option"
  mp_resource :: fetcher
  mp_agent_url :: string
  mp_agent_jwks_uri :: string
  mp_person_jwks_uri :: "string option"
  mp_access_jwks_uri :: "string option"
  mp_resource_jwks_uri :: string
  mp_http :: "fetcher option"

record 'sk multi_party_builder =
  mb_keys :: "'sk test_keys"
  mb_agent_url :: string
  mb_resource_url :: string
  mb_person_server_url :: "string option"
  mb_access_server_url :: "string option"
  mb_with_http_fallback :: bool

definition mb_new :: "'sk test_keys \<Rightarrow> string \<Rightarrow> string \<Rightarrow> 'sk multi_party_builder" where
  "mb_new keys agent_url resource_url =
     \<lparr>mb_keys = keys, mb_agent_url = agent_url, mb_resource_url = resource_url, mb_person_server_url = None,
      mb_access_server_url = None, mb_with_http_fallback = False\<rparr>"

definition mb_person_server :: "string \<Rightarrow> 'sk multi_party_builder \<Rightarrow> 'sk multi_party_builder" where
  "mb_person_server url b = b\<lparr>mb_person_server_url := Some url\<rparr>"

definition mb_access_server :: "string \<Rightarrow> 'sk multi_party_builder \<Rightarrow> 'sk multi_party_builder" where
  "mb_access_server url b = b\<lparr>mb_access_server_url := Some url\<rparr>"

definition mb_http_fallback :: "'sk multi_party_builder \<Rightarrow> 'sk multi_party_builder" where
  "mb_http_fallback b = b\<lparr>mb_with_http_fallback := True\<rparr>"

text \<open>\<open>http\<close> is the caching fetcher of \<open>Metadata\<close>; \<open>None\<close> is a failing \<^verbatim>\<open>jwk_set\<close>.\<close>

definition static_keys ::
    "'key jwt_lib \<Rightarrow> ('sk, 'ek) key_lib \<Rightarrow> 'sk key_pair \<Rightarrow> string \<Rightarrow> fetcher option" where
  "static_keys L K kp uri = map_option (static_metadata_fetcher uri) (kp_jwk_set L K kp)"

definition static_keys_if ::
    "'key jwt_lib \<Rightarrow> ('sk, 'ek) key_lib \<Rightarrow> 'sk key_pair \<Rightarrow> string option \<Rightarrow> fetcher option option" where
  "static_keys_if L K kp uri =
     (case uri of None \<Rightarrow> Some None | Some uri \<Rightarrow> map_option Some (static_keys L K kp uri))"

definition multi_party_build ::
    "'key jwt_lib \<Rightarrow> ('sk, 'ek) key_lib \<Rightarrow> fetcher \<Rightarrow> 'sk multi_party_builder \<Rightarrow> multi_party option" where
  "multi_party_build L K http b =
     (let base = trim_end_matches (CHR ''/'');
          agent_jwks_uri = base (mb_agent_url b) @ ''/jwks'';
          resource_jwks_uri = base (mb_resource_url b) @ ''/jwks'';
          person_jwks_uri = map_option (\<lambda>url. base url @ ''/auth/jwks'') (mb_person_server_url b);
          access_jwks_uri = map_option (\<lambda>url. base url @ ''/access/jwks'') (mb_access_server_url b)
      in Option.bind (static_keys_if L K (tk_person_server (mb_keys b)) person_jwks_uri) (\<lambda>person.
         Option.bind (static_keys_if L K (tk_access_server (mb_keys b)) access_jwks_uri) (\<lambda>access.
         Option.bind (static_keys L K (tk_agent_root (mb_keys b)) agent_jwks_uri) (\<lambda>agent.
         Option.bind (static_keys L K (tk_resource (mb_keys b)) resource_jwks_uri) (\<lambda>resource.
         Some \<lparr>mp_agent = agent, mp_person = person, mp_access = access, mp_resource = resource,
           mp_agent_url = mb_agent_url b, mp_agent_jwks_uri = agent_jwks_uri,
           mp_person_jwks_uri = person_jwks_uri, mp_access_jwks_uri = access_jwks_uri,
           mp_resource_jwks_uri = resource_jwks_uri,
           mp_http = (if mb_with_http_fallback b then Some http else None)\<rparr>)))))"

definition multi_party_resolve :: "multi_party \<Rightarrow> string \<Rightarrow> string \<Rightarrow> aauth_error + string" where
  "multi_party_resolve mp iss dwk =
     (if dwk = ''aauth-agent.json'' then
        (case mp_http mp of
           Some http \<Rightarrow>
             if \<not> same_origin (mp_agent_url mp) iss then mf_resolve_jwks_uri http iss dwk
             else mf_resolve_jwks_uri (mp_agent mp) iss dwk
         | None \<Rightarrow> mf_resolve_jwks_uri (mp_agent mp) iss dwk)
      else if dwk = ''aauth-person.json'' then
        (case (mp_person mp, mp_http mp) of
           (Some person, _) \<Rightarrow> mf_resolve_jwks_uri person iss dwk
         | (None, Some http) \<Rightarrow> mf_resolve_jwks_uri http iss dwk
         | (None, None) \<Rightarrow> Err (Metadata (ME_UnknownJwksUri (''no person JWKS configured for '' @ iss))))
      else if dwk = ''aauth-access.json'' then
        (case (mp_access mp, mp_http mp) of
           (Some access, _) \<Rightarrow> mf_resolve_jwks_uri access iss dwk
         | (None, Some http) \<Rightarrow> mf_resolve_jwks_uri http iss dwk
         | (None, None) \<Rightarrow> Err (Metadata (ME_UnknownJwksUri (''no access JWKS configured for '' @ iss))))
      else if dwk = ''aauth-resource.json'' then mf_resolve_jwks_uri (mp_resource mp) iss dwk
      else (case mp_http mp of
          Some http \<Rightarrow> mf_resolve_jwks_uri http iss dwk
        | None \<Rightarrow> Err (Metadata (ME_UnknownJwksUri (''unknown dwk: '' @ dwk)))))"

text \<open>\<open>the\<close> is the code's \<^verbatim>\<open>expect\<close>: the two options are built together.\<close>

definition multi_party_fetch :: "multi_party \<Rightarrow> string \<Rightarrow> aauth_error + jwk_set" where
  "multi_party_fetch mp jwks_uri =
     (if jwks_uri = mp_agent_jwks_uri mp then mf_fetch_jwks (mp_agent mp) jwks_uri
      else if jwks_uri = mp_resource_jwks_uri mp then mf_fetch_jwks (mp_resource mp) jwks_uri
      else if mp_person_jwks_uri mp = Some jwks_uri then mf_fetch_jwks (the (mp_person mp)) jwks_uri
      else if mp_access_jwks_uri mp = Some jwks_uri then mf_fetch_jwks (the (mp_access mp)) jwks_uri
      else (case mp_http mp of
          Some http \<Rightarrow> mf_fetch_jwks http jwks_uri
        | None \<Rightarrow> Err (Metadata (ME_UnknownJwksUri jwks_uri))))"

definition multi_party_fetcher :: "multi_party \<Rightarrow> fetcher" where
  "multi_party_fetcher mp = \<lparr>mf_resolve_jwks_uri = multi_party_resolve mp, mf_fetch_jwks = multi_party_fetch mp\<rparr>"

section \<open>The agent client (\<^verbatim>\<open>support/client.rs\<close>, \<^verbatim>\<open>constants.rs\<close>, \<^verbatim>\<open>timeout.rs\<close>)\<close>

definition AGENT_ID :: string where "AGENT_ID = ''aauth:test@example.com''"

definition AGENT_ISSUER :: string where "AGENT_ISSUER = ''https://example.com''"

definition TEST_POLL_MAX_SECS :: u64 where "TEST_POLL_MAX_SECS = 5"

record ('w, 'sk) client_builder =
  cb_keys :: "'sk test_keys"
  cb_metadata_fetcher :: fetcher
  cb_person_server_url :: "string option"
  cb_agent_ps_claim :: "string option"
  cb_on_interaction :: "(string \<Rightarrow> string \<Rightarrow> 'w \<Rightarrow> 'w) option"
  cb_on_clarification :: "(string \<Rightarrow> 'w \<Rightarrow> string \<times> 'w) option"
  cb_provider :: "('w \<Rightarrow> (aauth_error + signing_material) \<times> 'w) option"

definition client_builder_new :: "'sk test_keys \<Rightarrow> fetcher \<Rightarrow> ('w, 'sk) client_builder" where
  "client_builder_new keys metadata_fetcher =
     \<lparr>cb_keys = keys, cb_metadata_fetcher = metadata_fetcher, cb_person_server_url = None,
      cb_agent_ps_claim = None, cb_on_interaction = None, cb_on_clarification = None, cb_provider = None\<rparr>"

definition cb_person_server :: "string \<Rightarrow> ('w, 'sk) client_builder \<Rightarrow> ('w, 'sk) client_builder" where
  "cb_person_server url b = b\<lparr>cb_person_server_url := Some url\<rparr>"

definition cb_ps_claim :: "string \<Rightarrow> ('w, 'sk) client_builder \<Rightarrow> ('w, 'sk) client_builder" where
  "cb_ps_claim ps b = b\<lparr>cb_agent_ps_claim := Some ps\<rparr>"

definition cb_with_person_server :: "string \<Rightarrow> ('w, 'sk) client_builder \<Rightarrow> ('w, 'sk) client_builder" where
  "cb_with_person_server url b = cb_ps_claim url (cb_person_server url b)"

definition cb_interaction :: "(string \<Rightarrow> string \<Rightarrow> 'w \<Rightarrow> 'w) \<Rightarrow> ('w, 'sk) client_builder \<Rightarrow> ('w, 'sk) client_builder" where
  "cb_interaction cb b = b\<lparr>cb_on_interaction := Some cb\<rparr>"

definition cb_clarification :: "(string \<Rightarrow> 'w \<Rightarrow> string \<times> 'w) \<Rightarrow> ('w, 'sk) client_builder \<Rightarrow> ('w, 'sk) client_builder" where
  "cb_clarification cb b = b\<lparr>cb_on_clarification := Some cb\<rparr>"

definition cb_with_provider ::
    "('w \<Rightarrow> (aauth_error + signing_material) \<times> 'w) \<Rightarrow> ('w, 'sk) client_builder \<Rightarrow> ('w, 'sk) client_builder" where
  "cb_with_provider provider b = b\<lparr>cb_provider := Some provider\<rparr>"

text \<open>\<open>now\<close> and \<open>jti\<close> go into the agent JWT; the result is the configuration of the middleware.\<close>

definition client_build ::
    "'key jwt_lib \<Rightarrow> ('sk, 'ek) key_lib \<Rightarrow> i64 \<Rightarrow> string \<Rightarrow> ('w, 'sk) client_builder \<Rightarrow> 'w agent_options option" where
  "client_build L K now jti b =
     Option.bind (mint_agent_jwt L K (cb_keys b) now jti AGENT_ISSUER AGENT_ID (cb_agent_ps_claim b)) (\<lambda>agent_jwt.
       let provider = (case cb_provider b of
             Some provider \<Rightarrow> provider
           | None \<Rightarrow> static_provider (test_key_material L K (cb_keys b) agent_jwt))
       in Some (configured_agent provider
            ([Set_Max_Poll_Duration_Secs TEST_POLL_MAX_SECS, Set_Metadata_Fetcher (cb_metadata_fetcher b)]
             @ (case cb_person_server_url b of None \<Rightarrow> [] | Some url \<Rightarrow> [Set_Person_Server_Url url])
             @ (case cb_on_interaction b of None \<Rightarrow> [] | Some cb \<Rightarrow> [Set_On_Interaction cb])
             @ (case cb_on_clarification b of None \<Rightarrow> [] | Some cb \<Rightarrow> [Set_On_Clarification cb]))))"

section \<open>Local addresses (\<^verbatim>\<open>support/listen.rs\<close>)\<close>

text \<open>The address that \<^verbatim>\<open>bind_ephemeral\<close> advertises for a port; it has no trailing slash.\<close>

definition local_url :: "u16 \<Rightarrow> string" where
  "local_url port = ''http://127.0.0.1:'' @ show_nat (unat port)"

lemma byte_digit [simp]: "d < 10 \<Longrightarrow> byte (char_of (48 + d :: nat)) = 48 + d"
  by (simp add: byte_def take_bit_eq_mod)

lemma show_nat_small: "n < 10 \<Longrightarrow> show_nat n = [char_of (48 + n)]"
  by (simp add: show_nat.simps [of n])

lemma show_nat_large: "\<not> n < 10 \<Longrightarrow> show_nat n = show_nat (n div 10) @ [char_of (48 + n mod 10)]"
  by (simp add: show_nat.simps [of n])

lemma show_nat_nonempty [simp]: "show_nat n \<noteq> []" "[] \<noteq> show_nat n"
  by (cases "n < 10"; simp add: show_nat_small show_nat_large)+

lemma digit_inj: "a < 10 \<Longrightarrow> b < 10 \<Longrightarrow> char_of (48 + a :: nat) = (char_of (48 + b) :: char) \<Longrightarrow> a = b"
  by (metis byte_digit add_left_cancel)

lemma show_nat_inj: "show_nat n = show_nat m \<Longrightarrow> n = m"
proof (induction n arbitrary: m rule: show_nat.induct)
  case (1 n)
  consider "n < 10" "m < 10" | "\<not> n < 10" "\<not> m < 10" | "n < 10 \<longleftrightarrow> \<not> m < 10" by blast
  then show ?case
  proof cases
    case 1
    then show ?thesis using "1.prems" digit_inj [of n m] by (simp add: show_nat_small)
  next
    case 2
    then have "show_nat (n div 10) = show_nat (m div 10)" "char_of (48 + n mod 10) = (char_of (48 + m mod 10) :: char)"
      using "1.prems" by (simp_all add: show_nat_large)
    then have "n div 10 = m div 10" "n mod 10 = m mod 10"
      using "1.IH" 2(1) digit_inj [of "n mod 10" "m mod 10"] by simp_all
    then show ?thesis by (metis div_mult_mod_eq)
  next
    case 3
    then have "length (show_nat n) = 1 \<longleftrightarrow> length (show_nat m) \<noteq> 1"
      by (cases "n < 10") (simp_all add: show_nat_small show_nat_large)
    then show ?thesis using "1.prems" by simp
  qed
qed

definition digit :: "char \<Rightarrow> bool" where
  "digit c \<longleftrightarrow> 48 \<le> byte c \<and> byte c \<le> 57"

lemma show_nat_digits: "list_all digit (show_nat n)"
proof (induction n rule: show_nat.induct)
  case (1 n)
  have "n mod 10 < 10" by simp
  then show ?case using 1 byte_digit [of "n mod 10"] by (cases "n < 10") (simp_all add: show_nat_small show_nat_large digit_def)
qed

lemma digit_facts:
  assumes "digit c"
  shows "c \<noteq> CHR ''/''" "is_ascii c" "to_ascii_lower c = c"
  using assms by (auto simp: digit_def is_ascii_def to_ascii_lower_def is_ascii_uppercase_def byte_def)

text \<open>The address, the paths under it, and its normal form.\<close>

lemma local_url_last [simp]: "local_url port \<noteq> []" "last (local_url port) \<noteq> CHR ''/''"
proof -
  have "digit (last (show_nat (unat port)))"
    using show_nat_digits [of "unat port"] by (simp add: list_all_iff)
  then have "last (show_nat (unat port)) \<noteq> CHR ''/''" by (rule digit_facts)
  moreover have "last (local_url port) = last (show_nat (unat port))"
    by (simp only: local_url_def last_appendR [OF show_nat_nonempty(1)])
  ultimately show "local_url port \<noteq> []" "last (local_url port) \<noteq> CHR ''/''" by (simp_all add: local_url_def)
qed

lemma show_nat_slash:
  assumes "show_nat n @ CHR ''/'' # s = show_nat m @ CHR ''/'' # t"
  shows "n = m \<and> s = t"
proof -
  have t: "takeWhile (\<lambda>c. c \<noteq> CHR ''/'') (show_nat k @ CHR ''/'' # u) = show_nat k" for k u
    using show_nat_digits [of k] by (subst takeWhile_append2) (auto simp: list_all_iff dest: digit_facts(1))
  have "show_nat n = show_nat m" using t [of n s] t [of m t] assms by simp
  then show ?thesis using assms show_nat_inj by auto
qed

lemma local_url_paths: "local_url p @ CHR ''/'' # s = local_url q @ CHR ''/'' # t \<longleftrightarrow> p = q \<and> s = t"
  unfolding local_url_def append_assoc same_append_eq by (auto dest!: show_nat_slash intro: unsigned_word_eqI)

lemma local_url_inj: "local_url p = local_url q \<longleftrightarrow> p = q"
  using local_url_paths [of p "[]" q "[]"] by auto

lemma local_url_normal: "normalize_server_url low (local_url port) = local_url port"
proof -
  have d: "list_all is_ascii (show_nat n)" "map to_ascii_lower (show_nat n) = show_nat n" for n
    using show_nat_digits [of n] by (auto simp: list_all_iff dest: digit_facts intro!: map_idI)
  have "list_all is_ascii ''http://127.0.0.1:''" "map to_ascii_lower ''http://127.0.0.1:'' = ''http://127.0.0.1:''"
    by (simp_all add: is_ascii_def to_ascii_lower_def is_ascii_uppercase_def byte_def)
  then have "list_all is_ascii (local_url port)" "map to_ascii_lower (local_url port) = local_url port"
    unfolding local_url_def list_all_append map_append using d by metis+
  then show ?thesis by (simp add: normalize_server_url_def to_lowercase_def)
qed

end
