(* ===== verification/Examples.thy ===== *)
theory Examples
  imports Setup Federated Resource_Runs
begin

text \<open>
  The example applications (\<^verbatim>\<open>aauth-axum/examples\<close>): the servers they start, wired from the
  library's constructors, the handler behind the resource layer, and the agent that calls it.
  An application is a function of the keys, the addresses of the parties and the shared fetcher;
  the clock and the UUID of a call are its arguments where the code reads them.
\<close>

section \<open>The guarded route\<close>

text \<open>\<^verbatim>\<open>api_data\<close> answers what the layer verified; \<^verbatim>\<open>json!\<close> sorts the members of an object.\<close>

definition api_data :: "parsed_token \<Rightarrow> json" where
  "api_data token =
     (case token of
        PT_Auth auth \<Rightarrow> JObj [(''status'', JStr ''ok''),
          (''user'', case au_sub auth of None \<Rightarrow> JNull | Some sub \<Rightarrow> JStr sub)]
      | PT_Agent agent \<Rightarrow> JObj [(''agent'', JStr (claims_identifier agent)), (''status'', JStr ''ok'')]
      | PT_Resource _ \<Rightarrow> JObj [(''error'', JStr ''unexpected_resource_token''), (''status'', JStr ''error'')])"

text \<open>\<^verbatim>\<open>GET /api/data\<close> behind its \<^verbatim>\<open>route_layer\<close>; \<open>None\<close> is a panic.\<close>

definition data_route ::
    "('key, 'p, 'g, 'st, 'err) resource_layer \<Rightarrow> u64 \<Rightarrow> request \<Rightarrow> 'st \<Rightarrow> response option \<times> 'st" where
  "data_route rl now rq st =
     (case layer_call rl now rq st of
        (LO_Forward token, st') \<Rightarrow>
          (Some (case verified_token_extension (Some token) of
             Inr token \<Rightarrow> json_response (rl_json rl) 200 [] (api_data token)
           | Inl (status, text) \<Rightarrow> \<lparr>rs_status = status,
               rs_headers = [(''content-type'', ''text/plain; charset=utf-8'')], rs_body = text\<rparr>), st')
      | (LO_Reply resp, st') \<Rightarrow> (Some resp, st')
      | (LO_Panic, st') \<Rightarrow> (None, st'))"

section \<open>Resource metadata\<close>

definition example_metadata :: "string \<Rightarrow> resource_access_mode_wire option \<Rightarrow> resource_server_metadata" where
  "example_metadata resource_url mode =
     \<lparr>rsm_issuer = Some resource_url, rsm_jwks_uri = Some (trim_end_matches (CHR ''/'') resource_url @ ''/jwks''),
      rsm_access_mode = mode, rsm_name = Some ''aauth-rs example resource'', rsm_description = None,
      rsm_logo_uri = None, rsm_logo_dark_uri = None, rsm_documentation_uri = None, rsm_tos_uri = None,
      rsm_policy_uri = None, rsm_authorization_endpoint = None, rsm_login_endpoint = None,
      rsm_scope_descriptions = None, rsm_signature_window = None,
      rsm_additional_signature_components = None, rsm_revocation_endpoint = None, rsm_r3_vocabularies = None\<rparr>"

definition identity_resource_metadata :: "string \<Rightarrow> resource_server_metadata" where
  "identity_resource_metadata resource_url = example_metadata resource_url (Some RW_AgentToken)"

definition person_managed_resource_metadata :: "string \<Rightarrow> resource_server_metadata" where
  "person_managed_resource_metadata resource_url = example_metadata resource_url None"

definition federated_resource_metadata :: "string \<Rightarrow> resource_server_metadata" where
  "federated_resource_metadata resource_url = example_metadata resource_url None"

definition resource_managed_metadata :: "string \<Rightarrow> resource_server_metadata" where
  "resource_managed_metadata resource_url = (example_metadata resource_url (Some RW_AauthAccessToken))
     \<lparr>rsm_authorization_endpoint := Some (trim_end_matches (CHR ''/'') resource_url @ ''/resource/authorize'')\<rparr>"

text \<open>
  What is written: options that are \<open>None\<close> are left out; \<open>members\<close> is the iteration order of the
  hash map of scope descriptions.
\<close>

fun en_access_mode :: "resource_access_mode_wire \<Rightarrow> json" where
  "en_access_mode RW_AgentToken = JStr ''agent-token''"
| "en_access_mode RW_AauthAccessToken = JStr ''aauth-access-token''"
| "en_access_mode RW_AuthToken = JStr ''auth-token''"

definition en_resource_metadata ::
    "((string \<rightharpoonup> string) \<Rightarrow> (string \<times> string) list) \<Rightarrow> resource_server_metadata \<Rightarrow> json" where
  "en_resource_metadata members m =
     JObj (en_opt ''issuer'' JStr (rsm_issuer m)
       @ en_opt ''jwks_uri'' JStr (rsm_jwks_uri m)
       @ en_opt ''access_mode'' en_access_mode (rsm_access_mode m)
       @ en_opt ''name'' JStr (rsm_name m)
       @ en_opt ''description'' JStr (rsm_description m)
       @ en_opt ''logo_uri'' JStr (rsm_logo_uri m)
       @ en_opt ''logo_dark_uri'' JStr (rsm_logo_dark_uri m)
       @ en_opt ''documentation_uri'' JStr (rsm_documentation_uri m)
       @ en_opt ''tos_uri'' JStr (rsm_tos_uri m)
       @ en_opt ''policy_uri'' JStr (rsm_policy_uri m)
       @ en_opt ''authorization_endpoint'' JStr (rsm_authorization_endpoint m)
       @ en_opt ''login_endpoint'' JStr (rsm_login_endpoint m)
       @ en_opt ''scope_descriptions'' (\<lambda>d. JObj (map (\<lambda>(k, v). (k, JStr v)) (members d))) (rsm_scope_descriptions m)
       @ en_opt ''signature_window'' en_u64 (rsm_signature_window m)
       @ en_opt ''additional_signature_components'' (\<lambda>xs. JArr (map JStr xs)) (rsm_additional_signature_components m)
       @ en_opt ''revocation_endpoint'' JStr (rsm_revocation_endpoint m)
       @ en_opt ''r3_vocabularies'' (\<lambda>xs. JArr (map JStr xs)) (rsm_r3_vocabularies m))"

definition resource_metadata_handler ::
    "serde_json \<Rightarrow> ((string \<rightharpoonup> string) \<Rightarrow> (string \<times> string) list) \<Rightarrow> resource_server_metadata \<Rightarrow> response" where
  "resource_metadata_handler sj members m = json_response sj 200 [] (en_resource_metadata members m)"

lemma example_metadata_rt:
  assumes "m = (example_metadata url mode)\<lparr>rsm_authorization_endpoint := endpoint\<rparr>"
  shows "de_resource_metadata (en_resource_metadata members m) = Some m"
proof -
  have fields: "de_struct rsm_names (en_resource_metadata members m) =
      Some [Some (JStr url), Some (JStr (trim_end_matches (CHR ''/'') url @ ''/jwks'')), map_option en_access_mode mode,
        Some (JStr ''aauth-rs example resource''), None, None, None, None, None, None, map_option JStr endpoint,
        None, None, None, None, None, None]"
    by (cases mode; cases endpoint)
      (simp_all add: assms example_metadata_def en_resource_metadata_def rsm_names_def field_def en_opt_def)
  have "opt de_access_mode (map_option en_access_mode mode) = Some mode" "opt de_str (map_option JStr endpoint) = Some endpoint"
    by (cases mode, simp, case_tac a, simp_all add: de_access_mode_def) (cases endpoint, simp_all)
  then show ?thesis unfolding de_resource_metadata_def fields by (simp add: assms example_metadata_def)
qed

section \<open>Identity based\<close>

definition identity_resource_app ::
    "('key, 'sk, 'ek, 'p, 'g) crates \<Rightarrow> string \<Rightarrow> 'sk test_keys \<Rightarrow> string \<Rightarrow> fetcher \<Rightarrow>
     ('key, 'p, 'g, 'st, 'err) resource_layer" where
  "identity_resource_app X jti keys resource_url fetcher =
     resource_auth_layer_new X jti fetcher resource_url RM_IdentityBased (resource_signer (cr_keys X) keys)"

text \<open>\<^verbatim>\<open>main\<close>: what the agent is configured with; the fetcher is shared by all parties.\<close>

record 'w example =
  ex_fetcher :: fetcher
  ex_agent :: "'w agent_options"

definition identity_main ::
    "('key, 'sk, 'ek, 'p, 'g) crates \<Rightarrow> i64 \<Rightarrow> string \<Rightarrow> 'sk test_keys \<Rightarrow> string \<Rightarrow> string \<Rightarrow> 'w example option" where
  "identity_main X now jti keys agent_url resource_url =
     Option.bind (multi_party_build (cr_jwt X) (cr_keys X) absent_metadata_fetcher
         (mb_new keys agent_url resource_url)) (\<lambda>mp.
     map_option (\<lambda>options. \<lparr>ex_fetcher = multi_party_fetcher mp, ex_agent = options\<rparr>)
       (client_build (cr_jwt X) (cr_keys X) now jti (client_builder_new keys (multi_party_fetcher mp))))"

section \<open>Person Server managed\<close>

definition managed_person_server ::
    "('key, 'sk, 'ek, 'p, 'g) crates \<Rightarrow> ((string \<times> person_pending_context pending_record) list \<Rightarrow>
       (string \<times> person_pending_context pending_record) list) \<Rightarrow> i64 \<Rightarrow> string \<Rightarrow> 'sk test_keys \<Rightarrow>
     string \<Rightarrow> string \<Rightarrow> fetcher \<Rightarrow> ('key, person_pending_context mem_store, 'e) person_service" where
  "managed_person_server X iter now jti keys person_server_url resource_url fetcher =
     person_server_from_policy X (always_grant_person_policy (cr_low X) ''user-123'') (mem_ops iter)
       (person_minter (cr_keys X) keys now jti)
       \<lparr>psc_person_server_url = person_server_url, psc_resource_url = resource_url,
        psc_person_jwks_uri = trim_end_matches (CHR ''/'') person_server_url @ ''/auth/jwks'',
        psc_interaction_url = trim_end_matches (CHR ''/'') person_server_url @ ''/interact'',
        psc_pending_base_url = person_server_url, psc_pending_path = ''/pending'',
        psc_pending_ttl_secs = DEFAULT_PENDING_TTL_SECS, psc_fetcher = fetcher,
        psc_access_server = absent_access_client, psc_federation_poll_max_secs = Some TEST_POLL_MAX_SECS\<rparr>"

definition managed_resource_app ::
    "('key, 'sk, 'ek, 'p, 'g) crates \<Rightarrow> string \<Rightarrow> 'sk test_keys \<Rightarrow> string \<Rightarrow> string \<Rightarrow> fetcher \<Rightarrow>
     ('key, 'p, 'g, 'st, 'err) resource_layer" where
  "managed_resource_app X jti keys resource_url person_server_url fetcher =
     resource_auth_layer_new X jti fetcher resource_url (RM_PsAsserted True None (Some person_server_url))
       (resource_signer (cr_keys X) keys)"

definition managed_main ::
    "('key, 'sk, 'ek, 'p, 'g) crates \<Rightarrow> i64 \<Rightarrow> string \<Rightarrow> 'sk test_keys \<Rightarrow> string \<Rightarrow> string \<Rightarrow> string \<Rightarrow> 'w example option" where
  "managed_main X now jti keys agent_url person_url resource_url =
     Option.bind (multi_party_build (cr_jwt X) (cr_keys X) absent_metadata_fetcher
         (mb_person_server person_url (mb_new keys agent_url resource_url))) (\<lambda>mp.
     map_option (\<lambda>options. \<lparr>ex_fetcher = multi_party_fetcher mp, ex_agent = options\<rparr>)
       (client_build (cr_jwt X) (cr_keys X) now jti
         (cb_with_person_server person_url (client_builder_new keys (multi_party_fetcher mp)))))"

section \<open>Federated\<close>

text \<open>
  \<open>client\<close> is the Person Server's \<^verbatim>\<open>ReqwestAccessServerClient\<close>; it signs with \<open>federated_signer\<close>.
\<close>

definition federated_signer ::
    "('key, 'sk, 'ek, 'p, 'g) crates \<Rightarrow> 'sk test_keys \<Rightarrow> string \<Rightarrow> 'sk outbound_signer" where
  "federated_signer X keys person_server_url = outbound_signer_new (cr_jwt X) (cr_keys X) keys person_server_url"

definition federated_person_server ::
    "('key, 'sk, 'ek, 'p, 'g) crates \<Rightarrow> ((string \<times> person_pending_context pending_record) list \<Rightarrow>
       (string \<times> person_pending_context pending_record) list) \<Rightarrow> access_client \<Rightarrow> i64 \<Rightarrow> string \<Rightarrow> 'sk test_keys \<Rightarrow>
     string \<Rightarrow> string \<Rightarrow> fetcher \<Rightarrow> ('key, person_pending_context mem_store, 'e) person_service" where
  "federated_person_server X iter client now jti keys person_server_url resource_url fetcher =
     person_server_from_policy X (always_grant_person_policy (cr_low X) ''user-federated'') (mem_ops iter)
       (person_minter (cr_keys X) keys now jti)
       \<lparr>psc_person_server_url = person_server_url, psc_resource_url = resource_url,
        psc_person_jwks_uri = trim_end_matches (CHR ''/'') person_server_url @ ''/auth/jwks'',
        psc_interaction_url = trim_end_matches (CHR ''/'') person_server_url @ ''/interact'',
        psc_pending_base_url = person_server_url, psc_pending_path = ''/pending'',
        psc_pending_ttl_secs = DEFAULT_PENDING_TTL_SECS, psc_fetcher = fetcher,
        psc_access_server = client, psc_federation_poll_max_secs = Some TEST_POLL_MAX_SECS\<rparr>"

definition federated_access_server ::
    "('key, 'sk, 'ek, 'p, 'g) crates \<Rightarrow> ((string \<times> access_pending_context pending_record) list \<Rightarrow>
       (string \<times> access_pending_context pending_record) list) \<Rightarrow> i64 \<Rightarrow> string \<Rightarrow> 'sk test_keys \<Rightarrow>
     string \<Rightarrow> string \<Rightarrow> string \<Rightarrow> (access_pending_context mem_store, 'e) access_service" where
  "federated_access_server X iter now jti keys access_server_url person_server_url resource_url =
     access_server_from_policy (always_grant_access_policy ''user-federated'') (mem_ops iter)
       (access_minter (cr_keys X) keys now jti)
       \<lparr>asc_access_server_url = access_server_url, asc_resource_url = resource_url,
        asc_person_server_url = person_server_url,
        asc_access_jwks_uri = trim_end_matches (CHR ''/'') access_server_url @ ''/access/jwks'',
        asc_pending_base_url = access_server_url, asc_pending_path = ''/access/pending'',
        asc_pending_ttl_secs = DEFAULT_PENDING_TTL_SECS\<rparr>"

definition federated_resource_app ::
    "('key, 'sk, 'ek, 'p, 'g) crates \<Rightarrow> string \<Rightarrow> 'sk test_keys \<Rightarrow> string \<Rightarrow> string \<Rightarrow> string \<Rightarrow> fetcher \<Rightarrow>
     ('key, 'p, 'g, 'st, 'err) resource_layer" where
  "federated_resource_app X jti keys resource_url person_server_url access_server_url fetcher =
     resource_auth_layer_new X jti fetcher resource_url
       (RM_PsAsserted True (Some access_server_url) (Some person_server_url)) (resource_signer (cr_keys X) keys)"

definition federated_main ::
    "('key, 'sk, 'ek, 'p, 'g) crates \<Rightarrow> i64 \<Rightarrow> string \<Rightarrow> 'sk test_keys \<Rightarrow> string \<Rightarrow> string \<Rightarrow> string \<Rightarrow> string \<Rightarrow>
     'w example option" where
  "federated_main X now jti keys agent_url person_url access_url resource_url =
     Option.bind (multi_party_build (cr_jwt X) (cr_keys X) absent_metadata_fetcher
         (mb_access_server access_url (mb_person_server person_url (mb_new keys agent_url resource_url))))
       (\<lambda>mp. map_option (\<lambda>options. \<lparr>ex_fetcher = multi_party_fetcher mp, ex_agent = options\<rparr>)
       (client_build (cr_jwt X) (cr_keys X) now jti
         (cb_with_person_server person_url (client_builder_new keys (multi_party_fetcher mp)))))"

section \<open>Resource managed\<close>

definition managed_access_config :: "string \<Rightarrow> resource_access_config" where
  "managed_access_config resource_url =
     \<lparr>rac_interaction_url = trim_end_matches (CHR ''/'') resource_url @ ''/interact'',
      rac_pending_base_url = resource_url, rac_pending_path = ''/resource/pending'',
      rac_pending_ttl_secs = DEFAULT_PENDING_TTL_SECS\<rparr>"

text \<open>The service, and the layer over it; \<open>code\<close> are the random bytes of an interaction code.\<close>

definition resource_managed_service ::
    "((string \<times> resource_pending_context pending_record) list \<Rightarrow>
       (string \<times> resource_pending_context pending_record) list) \<Rightarrow> (string \<Rightarrow> string) \<Rightarrow> u8 list \<Rightarrow> string \<Rightarrow>
     (resource_pending_context mem_store, 'e, opaque_map) resource_service" where
  "resource_managed_service iter b64 code resource_url =
     \<lparr>rv_policy = defer_interaction_resource_policy code (trim_end_matches (CHR ''/'') resource_url @ ''/interact''),
      rv_pending = mem_ops iter, rv_opaque = opaque_mem_ops b64, rv_config = managed_access_config resource_url\<rparr>"

definition resource_managed_layer ::
    "('key, 'sk, 'ek, 'p, 'g) crates \<Rightarrow> string \<Rightarrow> 'sk test_keys \<Rightarrow> string \<Rightarrow> ('st, 'err) access_iface \<Rightarrow> fetcher \<Rightarrow>
     ('key, 'p, 'g, 'st, 'err) resource_layer" where
  "resource_managed_layer X jti keys resource_url service fetcher =
     resource_auth_layer_new X jti fetcher resource_url (RM_ResourceManaged service) (resource_signer (cr_keys X) keys)"

text \<open>
  \<open>on_interaction\<close> is the callback that approves; the agent holds no Person Server.
\<close>

definition resource_managed_main ::
    "('key, 'sk, 'ek, 'p, 'g) crates \<Rightarrow> i64 \<Rightarrow> string \<Rightarrow> 'sk test_keys \<Rightarrow> (string \<Rightarrow> string \<Rightarrow> 'w \<Rightarrow> 'w) \<Rightarrow> string \<Rightarrow> string \<Rightarrow>
     'w example option" where
  "resource_managed_main X now jti keys on_interaction agent_url resource_url =
     Option.bind (multi_party_build (cr_jwt X) (cr_keys X) absent_metadata_fetcher
         (mb_new keys agent_url resource_url)) (\<lambda>mp.
     map_option (\<lambda>options. \<lparr>ex_fetcher = multi_party_fetcher mp, ex_agent = options\<rparr>)
       (client_build (cr_jwt X) (cr_keys X) now jti
         (cb_interaction on_interaction (client_builder_new keys (multi_party_fetcher mp)))))"

section \<open>What the shared fetcher knows\<close>

text \<open>
  \<open>reads_urls\<close>: how the URL crate reads the addresses of an example, \<open>sound_crates\<close>: what the
  examples rely on of the crates.
\<close>

definition reads_urls :: "url_parser \<Rightarrow> bool" where
  "reads_urls parse \<longleftrightarrow>
     parse AGENT_ISSUER = Some \<lparr>u_scheme = ''https'', u_username = [], u_password = None,
       u_host_str = Some ''example.com'', u_port = None, u_path = ''/'', u_query = None, u_fragment = None\<rparr> \<and>
     (\<forall>port. parse (local_url port) = Some \<lparr>u_scheme = ''http'', u_username = [], u_password = None,
       u_host_str = Some ''127.0.0.1'', u_port = (if port = 80 then None else Some port), u_path = ''/'',
       u_query = None, u_fragment = None\<rparr>)"

definition sound_crates :: "('key, 'sk, 'ek, 'p, 'g) crates \<Rightarrow> bool" where
  "sound_crates X \<longleftrightarrow> key_codec (cr_jwt X) (cr_keys X) \<and> reads_jwk (cr_keys X) \<and> reads_urls (cr_parse X)"

lemma example_identifiers:
  assumes "reads_urls parse"
  shows "is_valid_server_identifier parse AGENT_ISSUER" "is_valid_server_identifier parse (local_url port)"
proof -
  have s: "\<not> ends_with ''/'' (local_url port)"
    by (simp add: ends_with_single)
  show "is_valid_server_identifier parse (local_url port)"
    using assms s by (simp add: reads_urls_def is_valid_server_identifier_def is_loopback_http_identifier_def)
  have i: "\<not> ends_with ''/'' AGENT_ISSUER" "AGENT_ISSUER \<noteq> []" "\<not> list_ex is_ascii_uppercase AGENT_ISSUER"
    by (simp_all add: AGENT_ISSUER_def ends_with_single is_ascii_uppercase_def byte_def)
  show "is_valid_server_identifier parse AGENT_ISSUER"
    using assms i by (simp add: reads_urls_def is_valid_server_identifier_def is_loopback_http_identifier_def)
qed

lemma keys_in_set:
  assumes "reads_jwk K" "kp_kid kp = Some kid"
  obtains ks where "kp_jwk_set L K kp = Some ks"
    "\<And>F iss dwk uri. mf_resolve_jwks_uri F iss dwk = Ok uri \<Longrightarrow> mf_fetch_jwks F uri = Ok ks \<Longrightarrow> publishes L F iss dwk kp"
proof -
  obtain F where "key_fetcher L K kp [] = Some F" "publishes L F [] [] kp"
    using key_fetcher_publishes [OF assms] by blast
  then obtain ks e where ks: "kp_jwk_set L K kp = Some ks" "jwk_set_find ks kid = Some e" "je_jwk e = kp_public_jwk L kp"
    using assms(2) by (auto simp: key_fetcher_def publishes_def static_metadata_fetcher_def split: if_splits)
  show ?thesis by (rule that [OF ks(1)]) (use ks(2,3) assms(2) in \<open>auto simp: publishes_def\<close>)
qed

text \<open>The parties of an example at their ports, with or without an Access Server.\<close>

lemma multi_party_publishes:
  assumes "reads_jwk K" "keys_kept L K keys" "agent_port \<noteq> resource_port"
    and "multi_party_build L K http \<lparr>mb_keys = keys, mb_agent_url = local_url agent_port,
      mb_resource_url = local_url resource_port, mb_person_server_url = map_option local_url person,
      mb_access_server_url = map_option local_url access, mb_with_http_fallback = False\<rparr> = Some mp"
  shows "publishes L (multi_party_fetcher mp) iss ''aauth-agent.json'' (tk_agent_root keys)"
    and "publishes L (multi_party_fetcher mp) iss ''aauth-resource.json'' (tk_resource keys)"
    and "person \<noteq> None \<Longrightarrow> publishes L (multi_party_fetcher mp) iss ''aauth-person.json'' (tk_person_server keys)"
    and "access \<noteq> None \<Longrightarrow> publishes L (multi_party_fetcher mp) iss ''aauth-access.json'' (tk_access_server keys)"
proof -
  have kid: "kp_kid (tk_agent_root keys) = Some (kp_thumbprint (tk_agent_root keys))"
    "kp_kid (tk_resource keys) = Some (kp_thumbprint (tk_resource keys))"
    "kp_kid (tk_person_server keys) = Some (kp_thumbprint (tk_person_server keys))"
    "kp_kid (tk_access_server keys) = Some (kp_thumbprint (tk_access_server keys))"
    using assms(2) by (simp_all add: keys_kept_def)
  obtain agent resource where s: "kp_jwk_set L K (tk_agent_root keys) = Some agent" "kp_jwk_set L K (tk_resource keys) = Some resource"
    using keys_in_set [OF assms(1) kid(1)] keys_in_set [OF assms(1) kid(2)] by metis
  obtain person_keys access_keys where t: "kp_jwk_set L K (tk_person_server keys) = Some person_keys"
    "kp_jwk_set L K (tk_access_server keys) = Some access_keys"
    using keys_in_set [OF assms(1) kid(3)] keys_in_set [OF assms(1) kid(4)] by metis
  have mp: "mp = \<lparr>mp_agent = static_metadata_fetcher (local_url agent_port @ ''/jwks'') agent,
      mp_person = map_option (\<lambda>p. static_metadata_fetcher (local_url p @ ''/auth/jwks'') person_keys) person,
      mp_access = map_option (\<lambda>p. static_metadata_fetcher (local_url p @ ''/access/jwks'') access_keys) access,
      mp_resource = static_metadata_fetcher (local_url resource_port @ ''/jwks'') resource,
      mp_agent_url = local_url agent_port, mp_agent_jwks_uri = local_url agent_port @ ''/jwks'',
      mp_person_jwks_uri = map_option (\<lambda>p. local_url p @ ''/auth/jwks'') person,
      mp_access_jwks_uri = map_option (\<lambda>p. local_url p @ ''/access/jwks'') access,
      mp_resource_jwks_uri = local_url resource_port @ ''/jwks'', mp_http = None\<rparr>"
    using assms(4) s t
    by (cases person; cases access) (simp_all add: multi_party_build_def Let_def static_keys_def static_keys_if_def)
  have p: "publishes L (multi_party_fetcher mp) iss dwk kp"
    if "kp_kid kp = Some kid'" "kp_jwk_set L K kp = Some ks" "multi_party_resolve mp iss dwk = Ok uri" "multi_party_fetch mp uri = Ok ks"
    for dwk kp kid' ks uri
    using keys_in_set [OF assms(1) that(1), of L] that(2-4) by (metis multi_party_fetcher_def fetcher.select_convs option.inject)
  note d = mp multi_party_resolve_def multi_party_fetch_def static_metadata_fetcher_def local_url_paths local_url_inj
  show "publishes L (multi_party_fetcher mp) iss ''aauth-agent.json'' (tk_agent_root keys)"
    by (rule p [OF kid(1) s(1), where uri = "local_url agent_port @ ''/jwks''"]) (simp_all add: d)
  show "publishes L (multi_party_fetcher mp) iss ''aauth-resource.json'' (tk_resource keys)"
    by (rule p [OF kid(2) s(2), where uri = "local_url resource_port @ ''/jwks''"]) (use assms(3) in \<open>simp_all add: d\<close>)
  show "publishes L (multi_party_fetcher mp) iss ''aauth-person.json'' (tk_person_server keys)" if "person \<noteq> None"
    by (rule p [OF kid(3) t(1), where uri = "local_url (the person) @ ''/auth/jwks''"]) (use that in \<open>auto simp: d\<close>)
  show "publishes L (multi_party_fetcher mp) iss ''aauth-access.json'' (tk_access_server keys)" if "access \<noteq> None"
    by (rule p [OF kid(4) t(2), where uri = "local_url (the access) @ ''/access/jwks''"]) (use that in \<open>auto simp: d\<close>)
qed

section \<open>The parties of the examples are wired\<close>

lemma managed_main_fetcher:
  assumes "managed_main X now jti keys agent_url person_url resource_url = Some ex"
  obtains mp where "multi_party_build (cr_jwt X) (cr_keys X) absent_metadata_fetcher
      (mb_person_server person_url (mb_new keys agent_url resource_url)) = Some mp"
    "ex_fetcher ex = multi_party_fetcher mp"
    "client_build (cr_jwt X) (cr_keys X) now jti
      (cb_with_person_server person_url (client_builder_new keys (multi_party_fetcher mp))) = Some (ex_agent ex)"
  using assms by (auto simp: managed_main_def bind_eq_Some_conv)

lemma federated_main_fetcher:
  assumes "federated_main X now jti keys agent_url person_url access_url resource_url = Some ex"
  obtains mp where "multi_party_build (cr_jwt X) (cr_keys X) absent_metadata_fetcher
      (mb_access_server access_url (mb_person_server person_url (mb_new keys agent_url resource_url))) = Some mp"
    "ex_fetcher ex = multi_party_fetcher mp"
    "client_build (cr_jwt X) (cr_keys X) now jti
      (cb_with_person_server person_url (client_builder_new keys (multi_party_fetcher mp))) = Some (ex_agent ex)"
  using assms by (auto simp: federated_main_def bind_eq_Some_conv)

lemma layer_new_simps [simp]:
  "rl_http (resource_auth_layer_new X jti F url mode sign) = cr_http X"
  "rl_jwt (resource_auth_layer_new X jti F url mode sign) = cr_jwt X"
  "rl_up (resource_auth_layer_new X jti F url mode sign) = cr_up X"
  "rl_low (resource_auth_layer_new X jti F url mode sign) = cr_low X"
  "rl_parse (resource_auth_layer_new X jti F url mode sign) = cr_parse X"
  "rl_json (resource_auth_layer_new X jti F url mode sign) = cr_json X"
  "rl_fetcher (resource_auth_layer_new X jti F url mode sign) = F"
  "rl_resource_url (resource_auth_layer_new X jti F url mode sign) = url"
  "rl_mode (resource_auth_layer_new X jti F url mode sign) = mode"
  "rl_sign (resource_auth_layer_new X jti F url mode sign) = sign"
  "rl_jti (resource_auth_layer_new X jti F url mode sign) = jti"
  "rl_interaction (resource_auth_layer_new X jti F url mode sign) = no_resource_interaction"
  by (simp_all add: resource_auth_layer_new_def)

lemma managed_example_setup:
  assumes "sound_crates X" "keys_kept (cr_jwt X) (cr_keys X) keys" "agent_port \<noteq> resource_port"
    and "managed_main X t0 j0 keys (local_url agent_port) (local_url person_port) (local_url resource_port) = Some ex"
  shows "managed_setup (cr_keys X) keys AGENT_ISSUER (local_url person_port)
      (managed_resource_app X jti keys (local_url resource_port) (local_url person_port) (ex_fetcher ex))
      (managed_person_server X iter t2 j2 keys (local_url person_port) (local_url resource_port) (ex_fetcher ex))
      (ex_fetcher ex) (cr_low X) ''user-123'' t2 j2"
proof -
  obtain mp where "multi_party_build (cr_jwt X) (cr_keys X) absent_metadata_fetcher
      (mb_person_server (local_url person_port) (mb_new keys (local_url agent_port) (local_url resource_port))) = Some mp"
    and ex: "ex_fetcher ex = multi_party_fetcher mp"
    using managed_main_fetcher [OF assms(4)] .
  then have "multi_party_build (cr_jwt X) (cr_keys X) absent_metadata_fetcher \<lparr>mb_keys = keys, mb_agent_url = local_url agent_port,
      mb_resource_url = local_url resource_port, mb_person_server_url = map_option local_url (Some person_port),
      mb_access_server_url = map_option local_url None, mb_with_http_fallback = False\<rparr> = Some mp"
    by (simp add: mb_new_def mb_person_server_def)
  note p = multi_party_publishes [OF _ assms(2,3) this]
  show ?thesis
    using assms(1,2) p(1-3) example_identifiers [of "cr_parse X"]
    by (simp add: managed_setup_def wired_def sound_crates_def ex managed_resource_app_def managed_person_server_def
        person_server_from_policy_def no_resource_interaction_def)
qed

lemma federated_example_setup:
  assumes "sound_crates X" "keys_kept (cr_jwt X) (cr_keys X) keys" "agent_port \<noteq> resource_port" "person_port \<noteq> access_port"
    and "federated_main X t0 j0 keys (local_url agent_port) (local_url person_port) (local_url access_port)
      (local_url resource_port) = Some ex"
  shows "federated_setup (cr_keys X) keys AGENT_ISSUER (local_url person_port) (local_url access_port)
      (federated_resource_app X jti keys (local_url resource_port) (local_url person_port) (local_url access_port) (ex_fetcher ex))
      (federated_person_server X iter client t1 j1 keys (local_url person_port) (local_url resource_port) (ex_fetcher ex))
      (ex_fetcher ex)
      (federated_access_server X iter' t2 j2 keys (local_url access_port) (local_url person_port) (local_url resource_port))
      (cr_low X) ''user-federated'' ''user-federated'' t2 j2"
proof -
  obtain mp where "multi_party_build (cr_jwt X) (cr_keys X) absent_metadata_fetcher
      (mb_access_server (local_url access_port)
        (mb_person_server (local_url person_port) (mb_new keys (local_url agent_port) (local_url resource_port)))) = Some mp"
    and ex: "ex_fetcher ex = multi_party_fetcher mp"
    using federated_main_fetcher [OF assms(5)] .
  then have "multi_party_build (cr_jwt X) (cr_keys X) absent_metadata_fetcher \<lparr>mb_keys = keys, mb_agent_url = local_url agent_port,
      mb_resource_url = local_url resource_port, mb_person_server_url = map_option local_url (Some person_port),
      mb_access_server_url = map_option local_url (Some access_port), mb_with_http_fallback = False\<rparr> = Some mp"
    by (simp add: mb_new_def mb_person_server_def mb_access_server_def)
  note p = multi_party_publishes [OF _ assms(2,3) this]
  show ?thesis
    using assms(1,2,4) p(1-4) example_identifiers [of "cr_parse X"]
    by (simp add: federated_setup_def wired_def sound_crates_def ex federated_resource_app_def federated_person_server_def
        federated_access_server_def access_server_from_policy_def local_url_normal local_url_inj
        person_server_from_policy_def no_resource_interaction_def)
qed

end
