(* ===== verification/Sessions.thy ===== *)
theory Sessions
  imports Examples
begin

text \<open>
  An agent and the local servers it calls over HTTP: what the network, the clocks and the
  signature crate contribute to a session, and what a server then sees of a signed request.
\<close>

section \<open>The network\<close>

text \<open>
  \<open>local_parts\<close> is the URL of a path at a local port; \<open>on_wire\<close> a request as the server's
  framework sees it: body and headers as the client set them, the \<^verbatim>\<open>Host\<close> of the URL, and
  whatever else the client adds, but no \<^verbatim>\<open>Authorization\<close>. \<open>connects\<close>: a request reaches the server at its port, and what
  that replies comes back; \<open>discovers\<close>: so does the middleware's own, unsigned request for the
  metadata of a resource. \<open>serve\<close> is the servers, in the world that a request meets.
\<close>

definition local_parts :: "u16 \<Rightarrow> string \<Rightarrow> url_parts" where
  "local_parts port path =
     \<lparr>u_scheme = ''http'', u_username = [], u_password = None, u_host_str = Some ''127.0.0.1'',
      u_port = Some port, u_path = path, u_query = None, u_fragment = None\<rparr>"

definition on_wire :: "out_request \<Rightarrow> request \<Rightarrow> bool" where
  "on_wire out rq \<longleftrightarrow> rq_method rq = or_method out \<and> rq_path rq = u_path (or_url out) \<and>
     header_value (rq_headers rq) ''host'' = Some (url_authority (or_url out)) \<and>
     carries (rq_headers rq) (or_headers out) \<and>
     hm_get_all (rq_headers rq) ''authorization'' = hm_get_all (or_headers out) ''authorization'' \<and>
     rq_body rq = (case or_body out of None \<Rightarrow> [] | Some body \<Rightarrow> body)"

type_synonym ('w, 'st) servers = "'w \<Rightarrow> u16 \<Rightarrow> request \<Rightarrow> 'st \<Rightarrow> response option \<times> 'st"

definition answers_to ::
    "('w, 'p, 'g, 'key) agent \<Rightarrow> ('w, 'st) servers \<Rightarrow> ('w \<Rightarrow> 'st) \<Rightarrow> u16 \<Rightarrow> request \<Rightarrow> 'w \<Rightarrow>
     ((response \<Rightarrow> 'w \<Rightarrow> bool) \<Rightarrow> bool)" where
  "answers_to A serve state port rq w received \<longleftrightarrow>
     (\<forall>resp st. serve w port rq (state w) = (Some resp, st) \<longrightarrow>
        (\<exists>w'. received resp w' \<and> state w' = st \<and> cl_body (ag_client A) resp = Ok (rs_body resp)))"

definition connects ::
    "('w, 'p, 'g, 'key) agent \<Rightarrow> ('w, 'st) servers \<Rightarrow> ('w \<Rightarrow> 'st) \<Rightarrow> bool" where
  "connects A serve state \<longleftrightarrow>
     (\<forall>attempt out port path w. or_url out = local_parts port path \<longrightarrow> hm_get (or_headers out) ''host'' = None \<longrightarrow>
        (\<exists>rq. on_wire out rq \<and>
           answers_to A serve state port rq w (\<lambda>resp w'. ag_next A attempt out w = (Ok resp, w'))))"

definition discovers ::
    "('w, 'p, 'g, 'key) agent \<Rightarrow> ('w, 'st) servers \<Rightarrow> ('w \<Rightarrow> 'st) \<Rightarrow> u16 \<Rightarrow> bool" where
  "discovers A serve state port \<longleftrightarrow>
     (\<forall>w. \<exists>rq. rq_method rq = ''GET'' \<and> rq_path rq = ''/.well-known/aauth-resource.json'' \<and>
        answers_to A serve state port rq w
          (\<lambda>resp w'. ag_get A (local_url port @ ''/.well-known/aauth-resource.json'') w = (Ok resp, w')))"

lemma answers_toD:
  "answers_to A serve state port rq w received \<Longrightarrow> serve w port rq (state w) = (Some resp, st) \<Longrightarrow>
   \<exists>w'. received resp w' \<and> state w' = st \<and> cl_body (ag_client A) resp = Ok (rs_body resp)"
  by (simp add: answers_to_def)

lemma connectsD:
  "\<lbrakk>connects A serve state; or_url out = local_parts port path; hm_get (or_headers out) ''host'' = None\<rbrakk> \<Longrightarrow>
   \<exists>rq. on_wire out rq \<and> answers_to A serve state port rq w (\<lambda>resp w'. ag_next A attempt out w = (Ok resp, w'))"
  unfolding connects_def by blast

section \<open>The clocks\<close>

text \<open>
  \<open>timely\<close>: a session takes less than a minute, and no server is behind the agent.
\<close>

definition within :: "int \<Rightarrow> 64 word \<Rightarrow> bool" where
  "within start t \<longleftrightarrow> start < 2 ^ 62 \<and> start \<le> uint t \<and> uint t \<le> start + 60"

definition timely :: "('w, 'p, 'g, 'key) agent \<Rightarrow> ('w \<Rightarrow> env) \<Rightarrow> int \<Rightarrow> bool" where
  "timely A ev start \<longleftrightarrow>
     (\<forall>w. within start (ag_unix A w) \<and> within start (ev_now (ev w)) \<and> ag_unix A w \<le> ev_now (ev w)) \<and>
     (\<exists>began < 2 ^ 62. \<forall>w. began \<le> ck_now (ag_clock A) w \<and> ck_now (ag_clock A) w \<le> began + 60000)"

lemma sint_small: "- (2 ^ 63) \<le> i \<Longrightarrow> i < 2 ^ 63 \<Longrightarrow> sint (word_of_int i :: 64 word) = i"
  by (simp only: sint_sbintrunc') (simp add: signed_take_bit_int_eq_self)

lemma sint_uint_small: "uint (t :: 64 word) < 2 ^ 63 \<Longrightarrow> sint t = uint t"
proof -
  assume a: "uint t < 2 ^ 63"
  have "- (2 ^ 63) \<le> uint t" by (rule order_trans [of _ 0]) simp_all
  then show ?thesis using sint_small [of "uint t"] a by simp
qed

lemma sint_plus: "uint (t :: 64 word) + uint k < 2 ^ 63 \<Longrightarrow> sint (t + k) = uint t + uint k"
proof -
  assume a: "uint t + uint k < 2 ^ 63"
  have "- (2 ^ 63) \<le> uint t + uint k" by (rule order_trans [of _ 0]) simp_all
  then show ?thesis using sint_small [of "uint t + uint k"] a by (simp only: word_add_def)
qed

lemma sint_minus: "uint (t :: 64 word) < 2 ^ 63 \<Longrightarrow> uint k < 2 ^ 63 \<Longrightarrow> sint (t - k) = uint t - uint k"
proof -
  assume a: "uint t < 2 ^ 63" "uint k < 2 ^ 63"
  have "0 \<le> uint t" "0 \<le> uint k" by simp_all
  then have "- (2 ^ 63) \<le> uint t - uint k" "uint t - uint k < 2 ^ 63" using a by linarith+
  then show ?thesis using sint_small [of "uint t - uint k"] by (simp only: word_sub_wi)
qed

lemma within_alive:
  assumes "within start now" "within start t"
  shows "\<not> i64_less (now + CLOCK_SKEW) t" "\<not> expired_at now (t + 300)" "\<not> expired_at now (t + 3600)"
    "now \<le> t + DEFAULT_PENDING_TTL_SECS"
proof -
  have b: "uint now < 2 ^ 62 + 61" "uint t < 2 ^ 62 + 61" "uint now \<le> uint t + 60" "uint t \<le> uint now + 60"
    using assms by (auto simp: within_def)
  show "\<not> i64_less (now + CLOCK_SKEW) t"
    using b sint_plus [of now 60] sint_uint_small [of t] by (simp add: i64_less_def CLOCK_SKEW_def)
  show "\<not> expired_at now (t + 300)"
    using b sint_plus [of t 300] sint_minus [of now 60] by (simp add: expired_at_def i64_less_def CLOCK_SKEW_def)
  show "\<not> expired_at now (t + 3600)"
    using b sint_plus [of t 3600] sint_minus [of now 60] by (simp add: expired_at_def i64_less_def CLOCK_SKEW_def)
  have "uint (t + 600) = uint t + 600" using b by (subst uint_plus_if') simp
  then show "now \<le> t + DEFAULT_PENDING_TTL_SECS" using b by (simp add: word_le_def DEFAULT_PENDING_TTL_SECS_def)
qed

lemma within_fresh:
  assumes "within start t" "within start now" "t \<le> now"
  shows "now - t \<le> 120" "now \<le> now + 60"
proof -
  have b: "uint now < 2 ^ 62 + 61" "uint t < 2 ^ 62 + 61" "uint now \<le> uint t + 60" "uint t \<le> uint now"
    using assms by (auto simp: within_def word_le_def)
  have "uint (now - t) = uint now - uint t" using assms(3) by (subst uint_sub_if') (simp add: word_le_def)
  then show "now - t \<le> 120" using b by (simp add: word_le_def)
  have "uint (now + 60) = uint now + 60" using b by (subst uint_plus_if') simp
  then show "now \<le> now + 60" by (simp add: word_le_def)
qed

section \<open>Signed requests\<close>

text \<open>
  \<open>signs_tokens\<close>: at this time the agent can sign a request to one of these paths under the
  token, with these further components; the crate reads the token's confirmation key, which has
  the thumbprint of the agent's ephemeral key and is the public half of the key it signs with.
  \<open>linked_with\<close>: an agent linked with these crates; \<open>runs_on\<close>: moreover its key provider hands out
  the test keys and this agent token.
\<close>

definition signs_tokens ::
    "('key, 'sk, 'ek, 'p, 'g) crates \<Rightarrow> 'sk test_keys \<Rightarrow> string set \<Rightarrow> sign_options \<Rightarrow> u64 \<Rightarrow> string \<Rightarrow> bool" where
  "signs_tokens X keys paths extras now jwt \<longleftrightarrow>
     (let H = cr_http X; L = cr_jwt X; kp = tk_agent_ephemeral keys; signing = kp_signing_jwk L (cr_keys X) kp in
      clean jwt \<and> to_str_ok jwt \<and>
      (\<exists>jwk sk pk. cnf_jwk_from_jwt H jwt = Ok jwk \<and> httpsig_thumbprint L jwk = Ok (kp_thumbprint kp) \<and>
         secret_key_from_signing_jwk H signing = Ok sk \<and> public_key_from_jwk H jwk = Ok pk \<and> crate_agrees H now sk pk) \<and>
      (\<forall>meth port path headers. path \<in> paths \<longrightarrow>
         (\<exists>headers'. http_sign H (cr_up X) now meth (url_authority (local_parts port path)) path
            \<lparr>sm_signing_jwk = signing, sm_signature_key = SK_Jwt jwt\<rparr> extras None headers = (Ok (), headers'))))"

definition linked_with :: "('w, 'p, 'g, 'key) agent \<Rightarrow> ('key, 'sk, 'ek, 'p, 'g) crates \<Rightarrow> bool" where
  "linked_with A X \<longleftrightarrow>
     ag_http A = cr_http X \<and> ag_jwt A = cr_jwt X \<and> ag_up A = cr_up X \<and> cl_json (ag_client A) = cr_json X"

definition runs_on ::
    "('w, 'p, 'g, 'key) agent \<Rightarrow> ('key, 'sk, 'ek, 'p, 'g) crates \<Rightarrow> 'sk test_keys \<Rightarrow> string \<Rightarrow> bool" where
  "runs_on A X keys agent_jwt \<longleftrightarrow> linked_with A X \<and>
     ao_provider (ag_opts A) = static_provider (test_key_material (cr_jwt X) (cr_keys X) keys agent_jwt) \<and>
     ao_capabilities (ag_opts A) = None \<and> ao_mission (ag_opts A) = None"

definition unsigned_headers :: "header_map \<Rightarrow> bool" where
  "unsigned_headers hs \<longleftrightarrow> (\<forall>n \<in> {''host'', ''signature-key'', ''signature-input'', ''signature''}. hm_get hs n = None)"

definition plain_headers :: "header_map \<Rightarrow> bool" where
  "plain_headers hs \<longleftrightarrow> aauth_sign_options hs = [] \<and> unsigned_headers hs"

text \<open>
  \<open>arrived\<close>: what the server makes of a request that is sent in the world \<open>w\<close>; \<open>sent\<close>: moreover the
  server at the port gets it from the agent's attempt, and its answer is what the agent then gets.
\<close>

definition arrived ::
    "('key, 'sk, 'ek, 'p, 'g) crates \<Rightarrow> ('w \<Rightarrow> env) \<Rightarrow> string \<Rightarrow> string \<Rightarrow> verify_options \<Rightarrow> out_request \<Rightarrow> 'w \<Rightarrow> request \<Rightarrow> bool" where
  "arrived X ev jwt tp vo out w rq \<longleftrightarrow> on_wire out rq \<and>
     (\<exists>v. http_verify (cr_http X) (cr_jwt X) (cr_up X) (ev_now (ev w)) (or_method out) (url_authority (or_url out))
         (u_path (or_url out)) (rq_headers rq) vo = Ok v \<and> vs_jwt v = Some jwt \<and> vs_thumbprint v = tp)"

definition sent ::
    "('w, 'p, 'g, 'key) agent \<Rightarrow> ('key, 'sk, 'ek, 'p, 'g) crates \<Rightarrow> ('w, 'st) servers \<Rightarrow> ('w \<Rightarrow> 'st) \<Rightarrow> ('w \<Rightarrow> env) \<Rightarrow>
     u16 \<Rightarrow> string \<Rightarrow> string \<Rightarrow> agent_auth_attempt \<Rightarrow> out_request \<Rightarrow> 'w \<Rightarrow> request \<Rightarrow> bool" where
  "sent A X serve state ev port jwt tp attempt out w rq \<longleftrightarrow>
     arrived X ev jwt tp verify_options_default out w rq \<and>
     answers_to A serve state port rq w (\<lambda>resp w'. sign_and_run A attempt out w = (Ok resp, w'))"

lemma hm_get_all_insert: "m \<noteq> n \<Longrightarrow> hm_get_all (hm_insert hs n v) m = hm_get_all hs m"
  by (induction hs) (auto simp: hm_insert_def hm_remove_def hm_get_all_def)

lemma signed_arrives:
  assumes net: "connects A serve state" "timely A ev start"
    and crate: "linked_with A X" "signs_tokens X keys paths extras (ag_unix A w) jwt" "tp = kp_thumbprint (tk_agent_ephemeral keys)"
    and out: "or_url out = local_parts port path" "path \<in> paths" "aauth_sign_options (or_headers out) = extras"
      "unsigned_headers (or_headers out)" "\<forall>e \<in> set extras. extra_ok (cr_http X) (or_headers out) e"
    and vo: "vo \<in> {verify_options_default, verify_options_default
      \<lparr>vo_require_authorization := ''authorization'' \<in> set (map fst extras)\<rparr>}"
  shows "\<exists>headers' rq. arrived X ev jwt tp vo out w rq \<and>
    outgoing_sign (ag_http A) (ag_up A) (ag_unix A w)
      \<lparr>sm_signing_jwk = kp_signing_jwk (cr_jwt X) (cr_keys X) (tk_agent_ephemeral keys), sm_signature_key = SK_Jwt jwt\<rparr> out
      = Ok (out\<lparr>or_headers := headers'\<rparr>) \<and>
    answers_to A serve state port rq w (\<lambda>resp w'. ag_next A attempt (out\<lparr>or_headers := headers'\<rparr>) w = (Ok resp, w'))"
proof -
  let ?H = "cr_http X" and ?L = "cr_jwt X" and ?kp = "tk_agent_ephemeral keys"
  let ?material = "\<lparr>sm_signing_jwk = kp_signing_jwk ?L (cr_keys X) ?kp, sm_signature_key = SK_Jwt jwt\<rparr>"
  have c: "clean jwt" "to_str_ok jwt"
    using crate(2) by (simp_all add: signs_tokens_def Let_def)
  obtain jwk sk pk where key: "secret_key_from_signing_jwk ?H (kp_signing_jwk ?L (cr_keys X) ?kp) = Ok sk"
    "public_key_from_jwk ?H jwk = Ok pk" "crate_agrees ?H (ag_unix A w) sk pk"
    "cnf_jwk_from_jwt ?H jwt = Ok jwk" "httpsig_thumbprint ?L jwk = Ok tp"
    using crate(2,3) by (auto simp: signs_tokens_def Let_def)
  obtain headers' where signed: "http_sign ?H (cr_up X) (ag_unix A w) (or_method out) (url_authority (or_url out)) path
      ?material extras None (or_headers out) = (Ok (), headers')"
    using crate(2) out(1,2) unfolding signs_tokens_def Let_def by metis
  have t: "within start (ag_unix A w)" "within start (ev_now (ev w))" "ag_unix A w \<le> ev_now (ev w)"
    using net(2) by (simp_all add: timely_def)
  obtain v where v: "http_verify ?H ?L (cr_up X) (ev_now (ev w)) (or_method out) (url_authority (or_url out)) path headers' vo = Ok v"
    "vs_jwt v = Some jwt" "vs_thumbprint v = tp"
    using signed_verifies [OF signed _ c key(4,5,2) _ key(3) out(5) t(3) within_fresh [OF t] vo] key(1) by auto
  obtain kh input sg where hs: "headers' = hm_insert (hm_insert (hm_insert (or_headers out) ''signature-key'' kh) ''signature-input'' input) ''signature'' sg"
    using sign_steps [OF signed] by (metis signing_material.select_convs(2))
  have host: "hm_get headers' ''host'' = None" using out(4) by (simp add: hs unsigned_headers_def)
  have more: "carries headers' (or_headers out)"
    using out(4) by (auto simp: carries_def hs header_value_def unsigned_headers_def split: option.splits if_splits)
  have same: "hm_get_all headers' ''authorization'' = hm_get_all (or_headers out) ''authorization''"
    by (simp add: hs hm_get_all_insert)
  have "\<exists>rq. on_wire (out\<lparr>or_headers := headers'\<rparr>) rq \<and>
      answers_to A serve state port rq w (\<lambda>resp w'. ag_next A attempt (out\<lparr>or_headers := headers'\<rparr>) w = (Ok resp, w'))"
    using connectsD [OF net(1)] out(1) host by simp
  then obtain rq where rq: "on_wire (out\<lparr>or_headers := headers'\<rparr>) rq"
    "answers_to A serve state port rq w (\<lambda>resp w'. ag_next A attempt (out\<lparr>or_headers := headers'\<rparr>) w = (Ok resp, w'))"
    by blast
  have carried: "carries (rq_headers rq) headers'" using rq(1) by (simp add: on_wire_def)
  then have "on_wire out rq" using rq(1) more same by (simp add: on_wire_def carries_def)
  then have "arrived X ev jwt tp vo out w rq"
    using http_verify_more [OF carried v(1)] v(2,3) out(1) by (simp add: arrived_def local_parts_def)
  moreover have "outgoing_sign (ag_http A) (ag_up A) (ag_unix A w) ?material out = Ok (out\<lparr>or_headers := headers'\<rparr>)"
    using signed out(1,3) crate(1) by (simp add: outgoing_sign_def local_parts_def linked_with_def)
  ultimately show ?thesis using rq(2) by blast
qed

lemma signed_sent:
  assumes net: "connects A serve state" "timely A ev start"
    and agent: "runs_on A X keys agent_jwt"
      "attempt = AA_AgentSigned \<and> jwt = agent_jwt \<or> attempt = AA_AuthToken jwt"
    and crate: "signs_tokens X keys paths [] (ag_unix A w) jwt" "tp = kp_thumbprint (tk_agent_ephemeral keys)"
    and out: "or_url out = local_parts port path" "path \<in> paths" "plain_headers (or_headers out)"
  shows "\<exists>rq. sent A X serve state ev port jwt tp attempt out w rq"
proof -
  have l: "linked_with A X" using agent(1) by (simp add: runs_on_def)
  have h: "aauth_sign_options (or_headers out) = []" "unsigned_headers (or_headers out)"
    using out(3) by (simp_all add: plain_headers_def)
  obtain headers' rq where rq: "arrived X ev jwt tp verify_options_default out w rq"
    "outgoing_sign (ag_http A) (ag_up A) (ag_unix A w)
      \<lparr>sm_signing_jwk = kp_signing_jwk (cr_jwt X) (cr_keys X) (tk_agent_ephemeral keys), sm_signature_key = SK_Jwt jwt\<rparr> out
      = Ok (out\<lparr>or_headers := headers'\<rparr>)"
    "answers_to A serve state port rq w (\<lambda>resp w'. ag_next A attempt (out\<lparr>or_headers := headers'\<rparr>) w = (Ok resp, w'))"
    using signed_arrives [OF net l crate out(1,2) h, of verify_options_default attempt] by auto
  have "signed_attempt A (ag_unix A w) (test_key_material (cr_jwt X) (cr_keys X) keys agent_jwt) attempt out = Ok (out\<lparr>or_headers := headers'\<rparr>)"
    using rq(2) agent(2) by (auto simp: signed_attempt_def test_key_material_def outgoing_sign_with_auth_token_def)
  then have "sign_and_run A attempt out w = (Ok resp, w')" if "ag_next A attempt (out\<lparr>or_headers := headers'\<rparr>) w = (Ok resp, w')" for resp w'
    using that agent(1) by (simp add: sign_and_run_def runs_on_def static_provider_def signing_apply_to_def seq_def err_as_def)
  then have "answers_to A serve state port rq w (\<lambda>resp w'. sign_and_run A attempt out w = (Ok resp, w'))"
    using rq(3) unfolding answers_to_def by blast
  then show ?thesis using rq(1) by (auto simp: sent_def)
qed

section \<open>The servers of an example\<close>

text \<open>
  \<open>site\<close>: a resource as it runs, and everything else. The layer carries the clock and the UUID
  that a call reads, so it depends on the world; \<open>si_other\<close> is the remaining routes and servers.
  \<open>person_routes\<close> adds those routes of a Person Server that an exchange needs.
\<close>

record ('w, 'key, 'p, 'g, 'err, 's) site =
  si_layer :: "'w \<Rightarrow> ('key, 'p, 'g, 's, 'err) resource_layer"
  si_metadata :: resource_server_metadata
  si_front :: "('p, 'g) front"
  si_env :: "'w \<Rightarrow> env"
  si_members :: "(string \<rightharpoonup> string) \<Rightarrow> (string \<times> string) list"
  si_resource_port :: u16
  si_other :: "('w, 's) servers"

definition asks :: "string \<Rightarrow> string \<Rightarrow> request \<Rightarrow> bool" where
  "asks meth path rq \<longleftrightarrow> rq_method rq = meth \<and> rq_path rq = path"

definition site_serve :: "('w, 'key, 'p, 'g, 'err, 's) site \<Rightarrow> ('w, 's) servers" where
  "site_serve S w port rq st =
     (if port = si_resource_port S \<and> asks ''GET'' ''/api/data'' rq
      then data_route (si_layer S w) (ev_now (si_env S w)) rq st
      else if port = si_resource_port S \<and> asks ''GET'' ''/.well-known/aauth-resource.json'' rq
      then (Some (resource_metadata_handler (fr_json (si_front S)) (si_members S) (si_metadata S)), st)
      else si_other S w port rq st)"

definition person_routes ::
    "('p, 'g) front \<Rightarrow> ('w \<Rightarrow> env) \<Rightarrow> ('w \<Rightarrow> ('key, 's, 'e) person_service) \<Rightarrow> u16 \<Rightarrow> ('w, 's) servers \<Rightarrow> ('w, 's) servers" where
  "person_routes F ev svc person_port other w port rq st =
     (if port = person_port \<and> asks ''GET'' ''/.well-known/aauth-person.json'' rq
      then (Some (person_metadata_handler F (pv_config (svc w))), st)
      else if port = person_port \<and> asks ''POST'' ''/aauth/token'' rq
      then token_exchange_handler F (ev w) (svc w) rq st
      else other w port rq st)"

lemma site_routes:
  "asks ''GET'' ''/api/data'' rq \<Longrightarrow> port = si_resource_port S \<Longrightarrow>
     site_serve S w port rq st = data_route (si_layer S w) (ev_now (si_env S w)) rq st"
  "asks ''GET'' ''/.well-known/aauth-resource.json'' rq \<Longrightarrow> port = si_resource_port S \<Longrightarrow>
     site_serve S w port rq st =
       (Some (resource_metadata_handler (fr_json (si_front S)) (si_members S) (si_metadata S)), st)"
  by (simp_all add: site_serve_def asks_def)

lemma person_site_routes:
  assumes "si_other S = person_routes F ev svc person_port other"
  shows "asks ''GET'' ''/.well-known/aauth-person.json'' rq \<Longrightarrow>
      site_serve S w person_port rq st = (Some (person_metadata_handler F (pv_config (svc w))), st)"
    "asks ''POST'' ''/aauth/token'' rq \<Longrightarrow>
      site_serve S w person_port rq st = token_exchange_handler F (ev w) (svc w) rq st"
  by (simp_all add: assms site_serve_def person_routes_def asks_def)

definition session_paths :: "string set" where
  "session_paths = {''/api/data'', ''/.well-known/aauth-person.json'', ''/aauth/token'', ''/resource/authorize''}
     \<union> range (\<lambda>i. ''/resource/pending/'' @ i)"

text \<open>The client library reads local URLs.\<close>

definition reads_local :: "client_lib \<Rightarrow> u16 \<Rightarrow> string \<Rightarrow> bool" where
  "reads_local C port path \<longleftrightarrow> port \<noteq> 80 \<and> cl_request C (local_url port @ path) = Some (local_parts port path) \<and>
     cl_origin C (cl_url_string C (local_parts port path)) = Ok (local_url port)"

text \<open>
  \<open>surrounded\<close>: the site and the agent are built with the same crates and connected, and the
  crate signs under these tokens; \<open>linked\<close>: the agent signs with its own token or with one that
  was minted for it.
\<close>

definition surrounded ::
    "('w, 'p, 'g, 'key) agent \<Rightarrow> ('key, 'sk, 'ek, 'p, 'g) crates \<Rightarrow> 'sk test_keys \<Rightarrow>
     ('w, 'key, 'p, 'g, 'err, 's) site \<Rightarrow> ('w \<Rightarrow> 's) \<Rightarrow> int \<Rightarrow> string set \<Rightarrow> bool" where
  "surrounded A X keys S state start tokens \<longleftrightarrow>
     connects A (site_serve S) state \<and> discovers A (site_serve S) state (si_resource_port S) \<and>
     timely A (si_env S) start \<and> linked_with A X \<and>
     (\<forall>w. \<forall>jwt \<in> tokens. signs_tokens X keys session_paths [] (ag_unix A w) jwt) \<and>
     fr_http (si_front S) = cr_http X \<and> fr_json (si_front S) = cr_json X \<and>
     (\<forall>w. ev_up (si_env S w) = cr_up X) \<and> (\<forall>rq. fr_bytes (si_front S) rq = Ok (rq_body rq)) \<and>
     (\<forall>hs. header_value hs ''content-type'' = Some ''application/json'' \<longrightarrow> fr_json_type (si_front S) hs) \<and>
     reads_back (cr_json X) (en_resource_metadata (si_members S) (si_metadata S))"

definition linked ::
    "('w, 'p, 'g, 'key) agent \<Rightarrow> ('key, 'sk, 'ek, 'p, 'g) crates \<Rightarrow> 'sk test_keys \<Rightarrow>
     ('w, 'key, 'p, 'g, 'err, 's) site \<Rightarrow> ('w \<Rightarrow> 's) \<Rightarrow> int \<Rightarrow> string \<Rightarrow> string set \<Rightarrow> bool" where
  "linked A X keys S state start agent_jwt tokens \<longleftrightarrow>
     surrounded A X keys S state start (insert agent_jwt tokens) \<and> runs_on A X keys agent_jwt"

lemma linkedD:
  assumes "linked A X keys S state start agent_jwt tokens"
  shows "connects A (site_serve S) state" "timely A (si_env S) start" "runs_on A X keys agent_jwt"
    "jwt \<in> insert agent_jwt tokens \<Longrightarrow> signs_tokens X keys session_paths [] (ag_unix A w) jwt"
    "fr_http (si_front S) = cr_http X" "fr_json (si_front S) = cr_json X" "ev_up (si_env S w) = cr_up X"
    "fr_bytes (si_front S) rq = Ok (rq_body rq)"
    "header_value hs ''content-type'' = Some ''application/json'' \<Longrightarrow> fr_json_type (si_front S) hs"
    "sj_parse (cr_json X) (sj_print (cr_json X) (en_resource_metadata (si_members S) (si_metadata S))) =
       Some (en_resource_metadata (si_members S) (si_metadata S))"
    "cl_json (ag_client A) = cr_json X" "discovers A (site_serve S) state (si_resource_port S)"
  using assms by (auto simp: linked_def surrounded_def runs_on_def linked_with_def reads_back_def)

lemma linked_sent:
  assumes "linked A X keys S state start agent_jwt tokens"
    and "attempt = AA_AgentSigned \<and> jwt = agent_jwt \<or> attempt = AA_AuthToken jwt \<and> jwt \<in> tokens"
    and "or_url out = local_parts port path" "path \<in> session_paths" "plain_headers (or_headers out)"
  shows "\<exists>rq. sent A X (site_serve S) state (si_env S) port jwt (kp_thumbprint (tk_agent_ephemeral keys)) attempt out w rq"
proof -
  have "signs_tokens X keys session_paths [] (ag_unix A w) jwt"
    using linkedD(4) [OF assms(1)] assms(2) by blast
  then show ?thesis
    using signed_sent [OF linkedD(1-3) [OF assms(1)] _ _ refl assms(3-5), of attempt jwt w] assms(2) by blast
qed

lemma linked_times:
  assumes "linked A X keys S state start agent_jwt tokens"
  shows "within start (ag_unix A w)" "within start (ev_now (si_env S w))"
    "ck_now (ag_clock A) w + 3600 * 1000 < 2 ^ 63 * 1000"
    "ck_now (ag_clock A) w' + 60 * 1000 < ck_now (ag_clock A) w + 3600 * 1000"
proof -
  obtain began where b: "began < 2 ^ 62" "\<And>w. began \<le> ck_now (ag_clock A) w \<and> ck_now (ag_clock A) w \<le> began + 60000"
    using linkedD(2) [OF assms] by (auto simp: timely_def)
  have "began \<le> ck_now (ag_clock A) w" "ck_now (ag_clock A) w \<le> began + 60000" "ck_now (ag_clock A) w' \<le> began + 60000"
    using b(2) by simp_all
  then show "ck_now (ag_clock A) w + 3600 * 1000 < 2 ^ 63 * 1000"
    "ck_now (ag_clock A) w' + 60 * 1000 < ck_now (ag_clock A) w + 3600 * 1000"
    using b(1) by simp_all
qed (use linkedD(2) [OF assms] in \<open>simp_all add: timely_def\<close>)

section \<open>Before the first request\<close>

lemma metadata_discovered:
  assumes "linked A X keys S state start agent_jwt tokens" "origin = local_url (si_resource_port S)"
    and "de_resource_metadata (en_resource_metadata (si_members S) (si_metadata S)) = Some (si_metadata S)"
  obtains w' where "state w' = state w" "authorize_endpoint A origin w = (rsm_authorization_endpoint (si_metadata S), w')"
proof -
  let ?resp = "resource_metadata_handler (fr_json (si_front S)) (si_members S) (si_metadata S)"
  obtain rq where rq: "asks ''GET'' ''/.well-known/aauth-resource.json'' rq"
    "answers_to A (site_serve S) state (si_resource_port S) rq w
       (\<lambda>resp w'. ag_get A (origin @ ''/.well-known/aauth-resource.json'') w = (Ok resp, w'))"
    using linkedD(12) [OF assms(1)] assms(2) by (auto simp: discovers_def asks_def)
  then obtain w' where w': "ag_get A (origin @ ''/.well-known/aauth-resource.json'') w = (Ok ?resp, w')" "state w' = state w"
    "cl_body (ag_client A) ?resp = Ok (rs_body ?resp)"
    using answers_toD [OF rq(2) site_routes(2) [OF rq(1) refl]] by blast
  have "trim_end_matches (CHR ''/'') origin = origin" using assms(2) by simp
  moreover have "from_slice (cl_json (ag_client A)) de_resource_metadata (rs_body ?resp) = Ok (si_metadata S)"
    using assms(3) linkedD(6,10,11) [OF assms(1)] unfolding resource_metadata_handler_def json_response_def from_slice_def by simp
  moreover have "rs_status ?resp = 200" by (simp add: resource_metadata_handler_def json_response_def)
  ultimately have "authorize_endpoint A origin w = (rsm_authorization_endpoint (si_metadata S), w')"
    unfolding authorize_endpoint_def using w'(1,3) by (simp add: is_success_def)
  with that w'(2) show ?thesis by blast
qed

lemma no_proactive_authorization:
  assumes "linked A X keys S state start agent_jwt tokens" "rsm_authorization_endpoint (si_metadata S) = None"
    and "de_resource_metadata (en_resource_metadata (si_members S) (si_metadata S)) = Some (si_metadata S)"
    and "aa_opaque_cache a origin = None" "origin = local_url (si_resource_port S)"
  shows "\<exists>w'. state w' = state w \<and>
    try_proactive_authorize A origin (w, a) = Some (Ok (), (w', a\<lparr>aa_authorize_tried := insert origin (aa_authorize_tried a)\<rparr>))"
proof (cases "origin \<in> aa_authorize_tried a")
  case True
  then show ?thesis using assms(4) by (auto simp: try_proactive_authorize_def begin_authorize_attempt_def insert_absorb)
next
  case False
  obtain w' where "state w' = state w" "authorize_endpoint A origin w = (None, w')"
    using metadata_discovered [OF assms(1,5,3), of w] assms(2) by auto
  then show ?thesis using False assms(4) by (intro exI [of _ w']) (simp add: try_proactive_authorize_def begin_authorize_attempt_def)
qed

section \<open>Turns of the retry loop\<close>

lemma json_answer [simp]:
  "rs_status (json_response sj status [] j) = status" "rs_body (json_response sj status [] j) = sj_print sj j"
  "rs_headers (json_response sj status [] j) = [(''content-type'', ''application/json'')]"
  by (simp_all add: json_response_def)

lemma finishing_turn:
  assumes "next_attempt (ag_order A) (ck_now (ag_clock A) w) origin a = (attempt, a1)"
    and "sign_and_run A attempt rq w = (Ok resp, w')" "resp = json_response sj 200 [] j"
  shows "agent_loop A False origin rq (w, a) = Some (Ok resp, (w', a1))"
proof -
  have "observe_response (ag_order A) origin attempt (rs_status resp) (rs_headers resp) a1 = (Ok AS_Finish, a1)"
    using assms(3) by (simp add: observe_response_def cache_opaque_from_headers_def access_token_def hm_get_all_def)
  then have "agent_attempt A origin rq (w, a) = (Ok (attempt, resp, AS_Finish), (w', a1))"
    using assms(1,2) by (simp add: agent_attempt_def seq_def on_world_def agent_observe_def)
  then show ?thesis by (subst agent_loop.simps) (simp add: agent_turn_def react_def)
qed

lemma exchanging_turn:
  assumes "next_attempt (ag_order A) (ck_now (ag_clock A) w) origin a = (AA_AgentSigned, a)"
    and "sign_and_run A AA_AgentSigned rq w = (Ok resp, w')"
    and "observe_response (ag_order A) origin AA_AgentSigned (rs_status resp) (rs_headers resp) a = (Ok (AS_ExchangeToken rt), a)"
    and "exchange_step A origin rt (w', a) = Some (Ok (), s)"
  shows "agent_loop A False origin rq (w, a) = agent_loop A False origin rq s"
proof -
  have "agent_attempt A origin rq (w, a) = (Ok (AA_AgentSigned, resp, AS_ExchangeToken rt), (w', a))"
    using assms(1-3) by (simp add: agent_attempt_def seq_def on_world_def agent_observe_def)
  then show ?thesis using assms(4) by (subst agent_loop.simps) (simp add: agent_turn_def react_def)
qed

section \<open>At the resource\<close>

definition built_with :: "('key, 'p, 'g, 'st, 'err) resource_layer \<Rightarrow> ('key, 'sk, 'ek, 'p, 'g) crates \<Rightarrow> bool" where
  "built_with rl X \<longleftrightarrow> rl_http rl = cr_http X \<and> rl_jwt rl = cr_jwt X \<and> rl_up rl = cr_up X \<and> rl_json rl = cr_json X"

lemma sent_verified:
  assumes "sent A X serve state ev port jwt tp attempt out w rq" "built_with rl X"
    and "\<And>service. rl_mode rl \<noteq> RM_ResourceManaged service"
  obtains v where "layer_verify rl (ev_now (ev w)) rq = Ok v" "vs_jwt v = Some jwt" "vs_thumbprint v = tp"
proof -
  have "layer_options rl rq = verify_options_default"
    using assms(3) by (cases "rl_mode rl") (auto simp: layer_options_def verify_options_default_def)
  then show ?thesis
    using assms(1,2) that by (auto simp: sent_def arrived_def on_wire_def built_with_def layer_verify_def signature_parts_def)
qed

lemma sent_posted:
  assumes "sent A X serve state ev port jwt tp attempt out w rq" "or_method out = ''POST''"
    and "fr_http Fr = cr_http X" "ev_up (ev w) = cr_up X"
  obtains v where "verify_post Fr (cr_jwt X) (ev w) rq = Ok v" "vs_jwt v = Some jwt" "vs_thumbprint v = tp"
  using assms that by (auto simp: sent_def arrived_def on_wire_def verify_post_def host_authority_def)

lemma sent_answer:
  assumes "sent A X serve state ev port jwt tp attempt out w rq" "serve w port rq (state w) = (Some resp, st)"
  obtains w' where "sign_and_run A attempt out w = (Ok resp, w')" "state w' = st" "cl_body (ag_client A) resp = Ok (rs_body resp)"
proof -
  have "answers_to A serve state port rq w (\<lambda>resp w'. sign_and_run A attempt out w = (Ok resp, w'))"
    using assms(1) by (simp add: sent_def)
  from answers_toD [OF this assms(2)] that show ?thesis by blast
qed

lemma data_route_json:
  assumes "layer_call rl now rq st = (LO_Forward token, st)" "rl_json rl = sj"
  shows "data_route rl now rq st = (Some (json_response sj 200 [] (api_data token)), st)"
  using assms by (simp add: data_route_def verified_token_extension_def)

text \<open>
  \<open>data_request\<close>: what \<^verbatim>\<open>client.get(format!("{}/api/data", url)).send()\<close> hands to the middleware.
  A fresh agent makes its first attempt with its own token.
\<close>

definition data_request :: "u16 \<Rightarrow> out_request" where
  "data_request port = \<lparr>or_method = ''GET'', or_url = local_parts port ''/api/data'', or_headers = [], or_body = None\<rparr>"

lemma session_start:
  assumes "linked A X keys S state start agent_jwt tokens" "rsm_authorization_endpoint (si_metadata S) = None"
    and "de_resource_metadata (en_resource_metadata (si_members S) (si_metadata S)) = Some (si_metadata S)"
    and "yields_keys (ag_order A)" "reads_local (ag_client A) (si_resource_port S) ''/api/data''" "ao_opaque_token (ag_opts A) = None"
  defines "origin \<equiv> local_url (si_resource_port S)" and "rq \<equiv> data_request (si_resource_port S)"
  shows "\<exists>w' a. handle_inner A False rq (w, agent_auth_from_options (ag_opts A)) = agent_loop A False origin rq (w', a) \<and>
    aa_token_cache a = [] \<and> next_attempt (ag_order A) (ck_now (ag_clock A) w') origin a = (AA_AgentSigned, a)"
proof -
  let ?fresh = "agent_auth_from_options (ag_opts A)"
  let ?a = "?fresh\<lparr>aa_authorize_tried := insert origin (aa_authorize_tried ?fresh)\<rparr>"
  have a: "aa_opaque_cache ?a origin = None" "aa_token_cache ?a = []" "seed_opaque origin ?fresh = ?fresh" "aa_opaque_cache ?fresh origin = None"
    using assms(6) by (simp_all add: agent_auth_from_options_def agent_auth_new_def seed_opaque_def)
  obtain w' where "try_proactive_authorize A origin (w, ?fresh) = Some (Ok (), (w', ?a))"
    using no_proactive_authorization [OF assms(1-3) a(4), of w] by (auto simp: origin_def)
  then have "handle_inner A False rq (w, ?fresh) = agent_loop A False origin rq (w', ?a)"
    using assms(5) a(3) by (simp add: handle_inner_def resource_origin_def origin_def rq_def data_request_def reads_local_def)
  moreover have "set (ag_order A []) = {}" using assms(4) by (simp add: yields_keys_def)
  then have "next_attempt (ag_order A) (ck_now (ag_clock A) w') origin ?a = (AA_AgentSigned, ?a)"
    using a(1,2) by (simp add: next_attempt_def find_cached_token_def find_cached_token_key_def)
  ultimately show ?thesis using a(2) by blast
qed

lemma data_sent:
  assumes "linked A X keys S state start agent_jwt tokens"
    and "attempt = AA_AgentSigned \<and> jwt = agent_jwt \<or> attempt = AA_AuthToken jwt \<and> jwt \<in> tokens"
    and "built_with (si_layer S w) X" "\<And>service. rl_mode (si_layer S w) \<noteq> RM_ResourceManaged service"
  shows "\<exists>rq v. layer_verify (si_layer S w) (ev_now (si_env S w)) rq = Ok v \<and> vs_jwt v = Some jwt \<and>
    vs_thumbprint v = kp_thumbprint (tk_agent_ephemeral keys) \<and>
    (\<forall>resp st. data_route (si_layer S w) (ev_now (si_env S w)) rq (state w) = (Some resp, st) \<longrightarrow>
      (\<exists>w'. sign_and_run A attempt (data_request (si_resource_port S)) w = (Ok resp, w') \<and> state w' = st))"
proof -
  have o: "or_url (data_request (si_resource_port S)) = local_parts (si_resource_port S) ''/api/data''"
    "''/api/data'' \<in> session_paths" "plain_headers (or_headers (data_request (si_resource_port S)))"
    by (simp_all add: data_request_def session_paths_def plain_headers_def unsigned_headers_def aauth_sign_options_def header_value_def)
  obtain rq where rq: "sent A X (site_serve S) state (si_env S) (si_resource_port S) jwt (kp_thumbprint (tk_agent_ephemeral keys))
      attempt (data_request (si_resource_port S)) w rq"
    using linked_sent [OF assms(1,2) o] by blast
  obtain v where v: "layer_verify (si_layer S w) (ev_now (si_env S w)) rq = Ok v" "vs_jwt v = Some jwt"
    "vs_thumbprint v = kp_thumbprint (tk_agent_ephemeral keys)"
    using sent_verified [OF rq assms(3,4)] .
  have m: "asks ''GET'' ''/api/data'' rq"
    using rq by (simp add: sent_def arrived_def on_wire_def data_request_def local_parts_def asks_def)
  have "\<exists>w'. sign_and_run A attempt (data_request (si_resource_port S)) w = (Ok resp, w') \<and> state w' = st"
    if "data_route (si_layer S w) (ev_now (si_env S w)) rq (state w) = (Some resp, st)" for resp st
    using sent_answer [OF rq, of resp st] site_routes(1) [OF m refl, of S w "state w"] that by metis
  then show ?thesis using v by blast
qed

end
