(* ===== verification/Asserted_Sessions.thy ===== *)
theory Asserted_Sessions
  imports Sessions
begin

text \<open>
  A session of an agent with a resource that wants an auth token: the first request is challenged,
  the agent discovers its Person Server, exchanges the challenge for a token, verifies and caches
  it, and the retried request is answered. \<open>svc\<close> is the Person Server at the port \<open>pp\<close>.
\<close>

section \<open>At the Person Server\<close>

definition served_person_metadata :: "person_server_config \<Rightarrow> person_server_metadata" where
  "served_person_metadata cfg = person_metadata_default
     \<lparr>psm_issuer := Some (psc_person_server_url cfg),
      psm_token_endpoint := path_of (psc_pending_base_url cfg) ''/aauth/token'',
      psm_jwks_uri := Some (psc_person_jwks_uri cfg),
      psm_interaction_endpoint := Some (psc_interaction_url cfg)\<rparr>"

lemma person_metadata_rt:
  "de_person_metadata (en_person_metadata (served_person_metadata cfg)) = Some (served_person_metadata cfg)"
proof -
  have "de_struct psm_names (en_person_metadata (served_person_metadata cfg)) =
      Some [Some (JStr (psc_person_server_url cfg)), Some (JStr (path_of (psc_pending_base_url cfg) ''/aauth/token'')),
        Some (JStr (psc_person_jwks_uri cfg)), None, None, None, None, None, None, None, None, None, None,
        Some (JStr (psc_interaction_url cfg)), None, None, None, None]"
    by (simp add: served_person_metadata_def person_metadata_default_def en_person_metadata_def psm_names_def field_def en_opt_def)
  then show ?thesis
    by (simp add: de_person_metadata_def served_person_metadata_def person_metadata_default_def)
qed

definition plain_exchange :: "string \<Rightarrow> token_exchange_request" where
  "plain_exchange resource_token =
     \<lparr>tx_resource_token = resource_token, tx_upstream_token = None, tx_subagent_token = None, tx_justification = None,
      tx_login_hint = None, tx_tenant = None, tx_domain_hint = None, tx_capabilities = None, tx_prompt = None,
      tx_platform = None, tx_device = None\<rparr>"

lemma plain_exchange_rt: "de_token_exchange (en_token_exchange (plain_exchange rt)) = Some (plain_exchange rt)"
  by (simp add: plain_exchange_def en_token_exchange_def de_token_exchange_def field_def en_opt_def)

text \<open>\<open>plain_agent\<close>: an agent with no option set that shapes the exchange.\<close>

definition plain_agent :: "'w agent_options \<Rightarrow> bool" where
  "plain_agent opts \<longleftrightarrow> ao_person_server_metadata opts = None \<and> ao_on_metadata opts = None \<and> ao_justification opts = None \<and>
     ao_login_hint opts = None \<and> ao_tenant opts = None \<and> ao_domain_hint opts = None \<and> ao_capabilities opts = None \<and>
     ao_prompt opts = None \<and> ao_on_auth_token opts = None \<and> ao_opaque_token opts = None"

lemma plain_options:
  assumes "plain_agent opts"
  shows "exchange_body (agent_exchange_options opts url rt) = plain_exchange rt"
    "teo_person_server_metadata (agent_exchange_options opts url rt) = None"
    "teo_on_metadata (agent_exchange_options opts url rt) = None"
    "teo_person_server_url (agent_exchange_options opts url rt) = url"
  using assms by (simp_all add: agent_exchange_options_eq plain_agent_def exchange_body_def plain_exchange_def)

text \<open>Discovery: the agent learns the token endpoint from the Person Server.\<close>

lemma person_metadata_fetched:
  assumes l: "linked A X keys S state start agent_jwt tokens"
    and served: "si_other S = person_routes (si_front S) (si_env S) svc pp other"
    and c: "reads_local (ag_client A) pp ''/.well-known/aauth-person.json''"
      "reads_back (cr_json X) (en_person_metadata (served_person_metadata (pv_config (svc w))))"
  obtains w' where "state w' = state w"
    "fetch_person_metadata (ag_client A) (agent_send A) (local_url pp) w =
       (Ok (served_person_metadata (pv_config (svc w))), w')"
proof -
  let ?out = "\<lparr>or_method = ''GET'', or_url = local_parts pp ''/.well-known/aauth-person.json'', or_headers = [],
    or_body = Some []\<rparr>"
  let ?m = "served_person_metadata (pv_config (svc w))"
  let ?resp = "json_response (cr_json X) 200 [] (en_person_metadata ?m)"
  have o: "or_url ?out = local_parts pp ''/.well-known/aauth-person.json''"
    "''/.well-known/aauth-person.json'' \<in> session_paths" "plain_headers (or_headers ?out)"
    by (simp_all add: session_paths_def plain_headers_def unsigned_headers_def aauth_sign_options_def header_value_def)
  obtain rq where rq: "sent A X (site_serve S) state (si_env S) pp agent_jwt
      (kp_thumbprint (tk_agent_ephemeral keys)) AA_AgentSigned ?out w rq"
    using linked_sent [OF l _ o, of AA_AgentSigned agent_jwt] by blast
  have m: "asks ''GET'' ''/.well-known/aauth-person.json'' rq"
    using rq by (simp add: sent_def arrived_def on_wire_def local_parts_def asks_def)
  have "person_metadata_handler (si_front S) (pv_config (svc w)) = ?resp"
    using linkedD(6) [OF l] by (simp add: person_metadata_handler_def served_person_metadata_def)
  then have "site_serve S w pp rq (state w) = (Some ?resp, state w)"
    using person_site_routes(1) [OF served m, of w "state w"] by simp
  then obtain w' where w': "sign_and_run A AA_AgentSigned ?out w = (Ok ?resp, w')" "state w' = state w"
    "cl_body (ag_client A) ?resp = Ok (rs_body ?resp)"
    using sent_answer [OF rq] by metis
  have url: "json_request (ag_client A) ''GET'' (local_url pp @ ''/.well-known/aauth-person.json'') [] [] = Ok ?out"
    using c(1) by (simp add: json_request_def reads_local_def or_panic_def)
  have read: "from_slice (cl_json (ag_client A)) de_person_metadata (rs_body ?resp) = Ok ?m"
    using c(2) linkedD(11) [OF l] by (simp add: from_slice_def reads_back_def person_metadata_rt)
  have valid: "person_metadata_validate ?m = Ok ()"
    by (simp add: person_metadata_validate_def served_person_metadata_def path_of_def)
  have "fetch_person_metadata (ag_client A) (agent_send A) (local_url pp) w = (Ok ?m, w')"
    using url read valid w'(1,3)
    by (simp add: fetch_person_metadata_def Let_def seq_def agent_send_def is_success_def)
  with that w'(2) show ?thesis by blast
qed

text \<open>The exchange: the Person Server reads the agent's request as it was meant and grants.\<close>

lemma token_obtained:
  assumes l: "linked A X keys S state start agent_jwt tokens"
    and served: "si_other S = person_routes (si_front S) (si_env S) svc pp other"
    and agent: "plain_agent (ag_opts A)" "reads_local (ag_client A) pp ''/.well-known/aauth-person.json''"
      "reads_local (ag_client A) pp ''/aauth/token''"
    and docs: "\<And>w. reads_back (cr_json X) (en_person_metadata (served_person_metadata (pv_config (svc w))))"
      "reads_back (cr_json X) (en_token_exchange (plain_exchange rt))"
      "\<And>w. reads_back (cr_json X) (en_token_response (minted_answer (tok w)))"
    and server: "\<And>w. psc_pending_base_url (pv_config (svc w)) = local_url pp"
      "\<And>w. pv_lib (svc w) = cr_jwt X"
      "\<And>w. verify_token_request (cr_jwt X) (ev_now (si_env S w)) (pv_config (svc w)) agent_jwt
         (kp_thumbprint (tk_agent_ephemeral keys)) rt (plain_exchange rt) = Ok (ctx w)"
      "\<And>w s. person_exchange_token (si_env S w) (svc w) (ctx w) agent_jwt s = (Ok (PF_Granted (minted_answer (tok w))), s)"
  obtains w' minted_at where "state w' = state w"
    "exchange_token_with (ag_client A) (ag_clock A) (agent_send A)
       (agent_exchange_options (ag_opts A) (local_url pp) rt) w =
     Some (Ok \<lparr>ter_auth_token = tok minted_at, ter_expires_in = 3600\<rparr>, w')"
proof -
  let ?opts = "agent_exchange_options (ag_opts A) (local_url pp) rt"
  obtain w1 where w1: "state w1 = state w" "fetch_person_metadata (ag_client A) (agent_send A) (local_url pp) w =
       (Ok (served_person_metadata (pv_config (svc w))), w1)"
    by (rule person_metadata_fetched [OF l served agent(2) docs(1)])
  have meta: "exchange_metadata (ag_client A) (agent_send A) ?opts w = (Ok (served_person_metadata (pv_config (svc w))), w1)"
    using w1(2) plain_options [OF agent(1)] by (simp add: exchange_metadata_def seq_def)
  have endpoint: "psm_token_endpoint (served_person_metadata (pv_config (svc w))) = local_url pp @ ''/aauth/token''"
    using server(1) by (simp add: served_person_metadata_def path_of_def)
  let ?body = "sj_print (cr_json X) (en_token_exchange (plain_exchange rt))"
  let ?out = "\<lparr>or_method = ''POST'', or_url = local_parts pp ''/aauth/token'',
    or_headers = [(''content-type'', ''application/json''), (''prefer'', ''wait=45'')], or_body = Some ?body\<rparr>"
  let ?resp = "json_response (cr_json X) 200 [] (en_token_response (minted_answer (tok w1)))"
  have o: "or_url ?out = local_parts pp ''/aauth/token''" "''/aauth/token'' \<in> session_paths"
    "plain_headers (or_headers ?out)"
    by (simp_all add: session_paths_def plain_headers_def unsigned_headers_def aauth_sign_options_def header_value_def)
  obtain rq where rq: "sent A X (site_serve S) state (si_env S) pp agent_jwt
      (kp_thumbprint (tk_agent_ephemeral keys)) AA_AgentSigned ?out w1 rq"
    using linked_sent [OF l _ o, of AA_AgentSigned agent_jwt] by blast
  have m: "asks ''POST'' ''/aauth/token'' rq" "rq_body rq = ?body" "carries (rq_headers rq) (or_headers ?out)"
    using rq by (simp_all add: sent_def arrived_def on_wire_def local_parts_def asks_def)
  obtain v where v: "verify_post (si_front S) (cr_jwt X) (si_env S w1) rq = Ok v" "vs_jwt v = Some agent_jwt"
    "vs_thumbprint v = kp_thumbprint (tk_agent_ephemeral keys)"
    by (rule sent_posted [OF rq _ linkedD(5) [OF l] linkedD(7) [OF l]]) simp_all
  have ct: "header_value (rq_headers rq) ''content-type'' = Some ''application/json''"
    by (rule carriesD [OF m(3)]) (simp add: header_value_def to_str_ok_def byte_def)
  then have "hm_get (rq_headers rq) ''content-type'' \<noteq> None" by (auto simp: header_value_def split: option.splits)
  then have read: "optional_json (si_front S) de_token_exchange rq = Ok (Some (plain_exchange rt))"
    using linkedD(6,8) [OF l] linkedD(9) [OF l ct] docs(2) m(2)
    by (simp add: optional_json_def reads_back_def plain_exchange_rt)
  have "tx_resource_token (plain_exchange rt) = rt" by (simp add: plain_exchange_def)
  then have "token_exchange_handler (si_front S) (si_env S w1) (svc w1) rq (state w1) = (Some ?resp, state w1)"
    using granted_answer [OF read _ v(2), where svc = "svc w1" and ev = "si_env S w1" and ctx = "ctx w1"
        and granted = "minted_answer (tok w1)" and s = "state w1"]
      v(1,3) server(2,3,4) linkedD(6) [OF l] by simp
  then have "site_serve S w1 pp rq (state w1) = (Some ?resp, state w1)"
    using person_site_routes(2) [OF served m(1), of w1 "state w1"] by simp
  then obtain w2 where w2: "sign_and_run A AA_AgentSigned ?out w1 = (Ok ?resp, w2)" "state w2 = state w1"
    "cl_body (ag_client A) ?resp = Ok (rs_body ?resp)"
    using sent_answer [OF rq] by metis
  have url: "json_request (ag_client A) ''POST'' (local_url pp @ ''/aauth/token'')
      [(''content-type'', ''application/json''), (''prefer'', ''wait=45'')] ?body = Ok ?out"
    using agent(3) by (simp add: json_request_def reads_local_def or_panic_def)
  have "exchange_post (ag_client A) (agent_send A) ?opts w = (Ok ?resp, w2)"
    using meta endpoint url w2(1) plain_options(1) [OF agent(1)] linkedD(11) [OF l]
    by (simp add: exchange_post_def seq_def agent_send_def)
  moreover have "read_token_result (ag_client A) ?resp = Ok \<lparr>ter_auth_token = tok w1, ter_expires_in = 3600\<rparr>"
    using w2(3) docs(3) [of w1] linkedD(11) [OF l]
    by (simp add: read_token_result_def body_bytes_def from_slice_def reads_back_def)
  ultimately have "exchange_token_with (ag_client A) (ag_clock A) (agent_send A) ?opts w =
      Some (Ok \<lparr>ter_auth_token = tok w1, ter_expires_in = 3600\<rparr>, w2)"
    by (simp add: exchange_token_with_def exchange_answer_def is_success_def)
  with that w2(2) w1(1) show ?thesis by metis
qed

section \<open>A session with a resource that asserts tokens\<close>

text \<open>
  \<open>asserting\<close>: the parties of the site are wired for the issuer \<open>aud\<close>, whose key \<open>kp\<close> mints for
  \<open>user\<close>, and the Person Server grants what such a challenge asks for. \<open>rt\<close> and \<open>tok\<close> are the
  texts of the tokens that the resource and the issuer make in a world.
\<close>

definition asserting ::
    "('key, 'sk, 'ek, 'p, 'g) crates \<Rightarrow> 'sk test_keys \<Rightarrow> ('w, 'key, 'p, 'g, 'err, 's) site \<Rightarrow>
     ('w \<Rightarrow> ('key, 's, 'e) person_service) \<Rightarrow> u16 \<Rightarrow> fetcher \<Rightarrow> string \<Rightarrow> agent_claims \<Rightarrow> string \<Rightarrow> string \<Rightarrow> 'sk key_pair \<Rightarrow> string \<Rightarrow> ('w \<Rightarrow> string) \<Rightarrow> ('w \<Rightarrow> string) \<Rightarrow> ('w \<Rightarrow> string) \<Rightarrow> bool" where
  "asserting X keys S svc pp F agent_jwt agent aud dwk kp user uuid rt tok \<longleftrightarrow>
     (let L = cr_jwt X; K = cr_keys X; ps = local_url pp; resource = local_url (si_resource_port S);
          tp = kp_thumbprint (tk_agent_ephemeral keys);
          challenge = (\<lambda>w. challenge_claims (si_layer S w) (ev_now (si_env S w)) tp agent aud) in
      (\<exists>other. si_other S = person_routes (si_front S) (si_env S) svc pp other) \<and>
      well_kept L K kp \<and> publishes L F aud dwk kp \<and>
      (\<forall>w. built_with (si_layer S w) X \<and> rl_resource_url (si_layer S w) = resource \<and> pv_lib (svc w) = L \<and>
         psc_person_server_url (pv_config (svc w)) = ps \<and> psc_pending_base_url (pv_config (svc w)) = ps \<and>
         (\<forall>w'. wired K keys AGENT_ISSUER ps aud (si_layer S w) (pv_config (svc w')) F) \<and>
         publishes L (rl_fetcher (si_layer S w)) aud dwk kp \<and>
         rl_sign (si_layer S w) (typ_as_str Typ_Resource) (challenge w) = Ok (rt w) \<and>
         encode_auth_jwt (auth_encoder K kp) (ev_now (si_env S w)) (uuid w) (kp_kid kp) dwk aud resource AGENT_ID
           (kp_public_jwk L (tk_agent_ephemeral keys)) (Some user) None = Ok (tok w) \<and>
         (\<forall>w' s. person_exchange_token (si_env S w) (svc w)
            \<lparr>pt_person_server_url = ps, pt_resource_url = resource, pt_agent_claims = agent,
             pt_resource_claims = challenge w', pt_exchange_request = plain_exchange (rt w')\<rparr> agent_jwt s =
            (Ok (PF_Granted (minted_answer (tok w))), s))))"

lemma assertingD:
  fixes S :: "('w, 'key, 'p, 'g, 'err, 's) site" and svc :: "'w \<Rightarrow> ('key, 's, 'e) person_service"
  assumes "asserting X keys S svc pp F agent_jwt agent aud dwk kp user uuid rt tok"
  shows "well_kept (cr_jwt X) (cr_keys X) kp" "publishes (cr_jwt X) F aud dwk kp"
    "built_with (si_layer S w) X" "rl_jwt (si_layer S w) = cr_jwt X"
    "rl_resource_url (si_layer S w) = local_url (si_resource_port S)" "pv_lib (svc w) = cr_jwt X"
    "psc_person_server_url (pv_config (svc w)) = local_url pp"
    "psc_pending_base_url (pv_config (svc w)) = local_url pp"
    "wired (cr_keys X) keys AGENT_ISSUER (local_url pp) aud (si_layer S w) (pv_config (svc w')) F"
    "publishes (cr_jwt X) (rl_fetcher (si_layer S w)) aud dwk kp"
    "rl_sign (si_layer S w) (typ_as_str Typ_Resource) (challenge_claims (si_layer S w) (ev_now (si_env S w))
       (kp_thumbprint (tk_agent_ephemeral keys)) agent aud) = Ok (rt w)"
    "encode_auth_jwt (auth_encoder (cr_keys X) kp) (ev_now (si_env S w)) (uuid w) (kp_kid kp) dwk aud
       (local_url (si_resource_port S)) AGENT_ID (kp_public_jwk (cr_jwt X) (tk_agent_ephemeral keys)) (Some user) None = Ok (tok w)"
    "person_exchange_token (si_env S w) (svc w)
       \<lparr>pt_person_server_url = local_url pp, pt_resource_url = local_url (si_resource_port S),
        pt_agent_claims = agent, pt_resource_claims = challenge_claims (si_layer S w') (ev_now (si_env S w'))
          (kp_thumbprint (tk_agent_ephemeral keys)) agent aud,
        pt_exchange_request = plain_exchange (rt w')\<rparr> agent_jwt s = (Ok (PF_Granted (minted_answer (tok w))), s)"
    "\<exists>other. si_other S = person_routes (si_front S) (si_env S) svc pp other"
  using assms by (simp_all add: asserting_def Let_def built_with_def)

text \<open>
  \<open>documents_read\<close>: the URLs and the documents of an exchange are read as they were meant;
  \<open>exchanges\<close>: and the agent asks its Person Server and trusts the shared fetcher.
\<close>

definition documents_read ::
    "('w, 'p, 'g, 'key) agent \<Rightarrow> ('key, 'sk, 'ek, 'p, 'g) crates \<Rightarrow> ('w, 'key, 'p, 'g, 'err, 's) site \<Rightarrow>
     ('w \<Rightarrow> ('key, 's, 'e) person_service) \<Rightarrow> u16 \<Rightarrow> ('w \<Rightarrow> string) \<Rightarrow> ('w \<Rightarrow> string) \<Rightarrow> bool" where
  "documents_read A X S svc pp rt tok \<longleftrightarrow>
     yields_keys (ag_order A) \<and>
     reads_local (ag_client A) (si_resource_port S) ''/api/data'' \<and>
     reads_local (ag_client A) pp ''/.well-known/aauth-person.json'' \<and>
     reads_local (ag_client A) pp ''/aauth/token'' \<and>
     (\<forall>w. reads_back (cr_json X) (en_person_metadata (served_person_metadata (pv_config (svc w)))) \<and>
        reads_back (cr_json X) (en_token_exchange (plain_exchange (rt w))) \<and>
        reads_back (cr_json X) (en_token_response (minted_answer (tok w))))"

definition exchanges ::
    "('w, 'p, 'g, 'key) agent \<Rightarrow> ('key, 'sk, 'ek, 'p, 'g) crates \<Rightarrow> ('w, 'key, 'p, 'g, 'err, 's) site \<Rightarrow>
     ('w \<Rightarrow> ('key, 's, 'e) person_service) \<Rightarrow> u16 \<Rightarrow> fetcher \<Rightarrow> ('w \<Rightarrow> string) \<Rightarrow> ('w \<Rightarrow> string) \<Rightarrow> bool" where
  "exchanges A X S svc pp F rt tok \<longleftrightarrow>
     plain_agent (ag_opts A) \<and> ao_metadata_fetcher (ag_opts A) = F \<and>
     ao_person_server_url (ag_opts A) = Some (local_url pp) \<and> documents_read A X S svc pp rt tok"

lemma signing_public: "signing_public_jwk (kp_signing_jwk L K kp) = kp_public_jwk L kp"
  by (simp add: signing_public_jwk_def kp_signing_jwk_def kp_public_jwk_def public_jwk_for_def)

text \<open>The first turn: the agent is challenged and takes the challenge to its Person Server.\<close>

lemma challenge_taken:
  assumes l: "linked A X keys S state start agent_jwt (range tok)" "keys_kept (cr_jwt X) (cr_keys X) keys"
    and p: "asserting X keys S svc pp F agent_jwt agent aud dwk kp user uuid rt tok" "exchanges A X S svc pp F rt tok"
    and agent: "mint_agent_jwt (cr_jwt X) (cr_keys X) keys t0 j0 AGENT_ISSUER AGENT_ID (Some (local_url pp)) = Some agent_jwt"
      "agent = flow_agent (cr_jwt X) keys t0 j0 AGENT_ISSUER AGENT_ID (local_url pp)" "within start t0"
    and origin: "origin = local_url (si_resource_port S)"
  shows "\<exists>w' minted_at recorded. exchange_step A origin (rt w0) (w, a) = Some (Ok (), (w',
    a\<lparr>aa_token_cache := AList.update \<lparr>ck_origin = origin, ck_person_server = local_url pp\<rparr>
       \<lparr>ct_auth_token = tok minted_at, ct_expires_at = ck_now (ag_clock A) recorded + 3600 * 1000\<rparr> (aa_token_cache a)\<rparr>))"
proof -
  let ?tp = "kp_thumbprint (tk_agent_ephemeral keys)" and ?ps = "local_url pp"
  let ?c = "challenge_claims (si_layer S w0) (ev_now (si_env S w0)) ?tp agent aud"
  note d = assertingD [OF p(1)]
  obtain other where served: "si_other S = person_routes (si_front S) (si_env S) svc pp other" using d(14) by blast
  have r: "runs_on A X keys agent_jwt" "ag_jwt A = cr_jwt X" using linkedD(3) [OF l(1)] by (simp_all add: runs_on_def linked_with_def)
  have x: "plain_agent (ag_opts A)" "ao_metadata_fetcher (ag_opts A) = F" "ao_person_server_url (ag_opts A) = Some ?ps"
    using p(2) by (simp_all add: exchanges_def documents_read_def)
  note t = linked_times [OF l(1)]
  have am: "mint_agent_jwt (rl_jwt (si_layer S v)) (cr_keys X) keys t0 j0 AGENT_ISSUER AGENT_ID (Some ?ps) = Some agent_jwt"
    "agent = flow_agent (rl_jwt (si_layer S v)) keys t0 j0 AGENT_ISSUER AGENT_ID ?ps" for v
    using agent(1,2) d(4) [of v] by simp_all
  note ch = wired_challenge [OF d(9) [where w = w0] am refl refl d(11) [where w = w0] refl]
  have accept: "accept_challenge A origin (ag_unix A w) (rt w0) (test_key_material (cr_jwt X) (cr_keys X) keys agent_jwt) =
      Ok \<lparr>cf_agent_sub = AGENT_ID, cf_agent_jkt = ?tp, cf_claims = ?c, cf_person_server_url = ?ps\<rparr>"
  proof -
    have "parse_token (cr_jwt X) agent_jwt = Ok (PT_Agent agent)"
      using wired_agent_token(2) [OF d(9) am(1)] agent(2) by (simp add: d(4))
    moreover have "jwk_thumbprint (cr_jwt X) (kp_public_jwk (cr_jwt X) (tk_agent_ephemeral keys)) = Ok ?tp"
      using l(2) by (simp add: keys_kept_def well_kept_def)
    moreover have "verify_resource_challenge (cr_jwt X) (ag_low A) F (ag_unix A w) (rt w0) origin AGENT_ID ?tp = Ok ?c"
      using ch(3) [where now = "ag_unix A w" and clow = "ag_low A" and origin = origin] within_alive(2) [OF t(1,2)] by (simp add: d(4,5) origin)
    moreover have "claims_identifier agent = AGENT_ID" by (simp add: agent(2) flow_agent_fields claims_identifier_def)
    ultimately show ?thesis
      using r(2) x(2,3) by (simp add: accept_challenge_def test_key_material_def signing_public resolve_person_server_url_def)
  qed
  have ctx: "verify_token_request (cr_jwt X) (ev_now (si_env S w1)) (pv_config (svc w1)) agent_jwt ?tp (rt w0)
      (plain_exchange (rt w0)) = Ok \<lparr>pt_person_server_url = ?ps, pt_resource_url = local_url (si_resource_port S),
        pt_agent_claims = agent, pt_resource_claims = ?c, pt_exchange_request = plain_exchange (rt w0)\<rparr>" for w1
    using wired_challenge(4) [OF d(9) [where w = w0 and w' = w1] am refl refl d(11) [where w = w0] refl,
        where now = "ev_now (si_env S w1)" and exchange = "plain_exchange (rt w0)"] within_alive(2) [OF t(2,2)] wiredD(8) [OF d(9)] by (simp add: d(4,5,7))
  have e: "reads_local (ag_client A) pp ''/.well-known/aauth-person.json''"
    "reads_local (ag_client A) pp ''/aauth/token''"
    "\<And>w. reads_back (cr_json X) (en_person_metadata (served_person_metadata (pv_config (svc w))))"
    "\<And>w. reads_back (cr_json X) (en_token_exchange (plain_exchange (rt w)))"
    "\<And>w. reads_back (cr_json X) (en_token_response (minted_answer (tok w)))"
    using p(2) by (simp_all add: exchanges_def documents_read_def)
  obtain w' minted_at where w': "state w' = state w"
    "exchange_token_with (ag_client A) (ag_clock A) (agent_send A) (agent_exchange_options (ag_opts A) ?ps (rt w0)) w =
     Some (Ok \<lparr>ter_auth_token = tok minted_at, ter_expires_in = 3600\<rparr>, w')"
    by (rule token_obtained [OF l(1) served x(1) e(1,2) e(3) e(4) e(5) d(8) d(6) ctx d(13)])
  have verified: "verify_client_auth_token (cr_jwt X) (ag_low A) F (ag_unix A w') (tok minted_at) origin aud AGENT_ID ?tp check =
      Ok (flow_auth (si_layer S minted_at) keys (ev_now (si_env S minted_at)) (uuid minted_at) dwk aud AGENT_ID user)" for check
    using wired_auth_token(2) [OF d(9) [where w = minted_at] _ _ refl, where kp = kp and ?t2.0 = "ev_now (si_env S minted_at)" and jti = "uuid minted_at"
        and dwk = dwk and iss = aud and sub = AGENT_ID and user = user and token = "tok minted_at" and now = "ag_unix A w'"
        and clow = "ag_low A" and origin = origin and check = check] within_alive(3) [OF t(1,2)] d(1,2) d(12) [of minted_at]
    by (simp add: d(4,5) origin)
  let ?cache = "a\<lparr>aa_token_cache := AList.update \<lparr>ck_origin = origin, ck_person_server = ?ps\<rparr>
       \<lparr>ct_auth_token = tok minted_at, ct_expires_at = ck_now (ag_clock A) w' + 3600 * 1000\<rparr> (aa_token_cache a)\<rparr>"
  have recorded: "record_auth_token (ck_now (ag_clock A) w') origin ?ps (tok minted_at) 3600 a = Some ?cache"
    using t(3) by (simp add: record_auth_token_def instant_add_secs_def Let_def)
  have "accept_token A origin \<lparr>cf_agent_sub = AGENT_ID, cf_agent_jkt = ?tp, cf_claims = ?c, cf_person_server_url = ?ps\<rparr>
      \<lparr>ter_auth_token = tok minted_at, ter_expires_in = 3600\<rparr> (w', a) = (Ok (), (w', ?cache))"
    using verified recorded r(2) x by (simp add: accept_token_def challenge_claims_fields plain_agent_def)
  moreover have "seq (err_as aauth_failure (ao_provider (ag_opts A))) (\<lambda>material w'.
      lift_res (accept_challenge A origin (ag_unix A w') (rt w0) material) w') w =
      (Ok \<lparr>cf_agent_sub = AGENT_ID, cf_agent_jkt = ?tp, cf_claims = ?c, cf_person_server_url = ?ps\<rparr>, w)"
    using r(1) accept by (simp add: runs_on_def static_provider_def seq_def err_as_def)
  ultimately have "exchange_step A origin (rt w0) (w, a) = Some (Ok (), (w', ?cache))"
    using w'(2) by (simp add: exchange_step_def)
  then show ?thesis by blast
qed

text \<open>The second turn: the one token in the cache is presented.\<close>

lemma cached_token_next:
  assumes "yields_keys order" "aa_token_cache a = [(\<lparr>ck_origin = origin, ck_person_server = ps\<rparr>, c)]"
    and "now + 60 * 1000 < ct_expires_at c"
  shows "next_attempt order now origin a = (AA_AuthToken (ct_auth_token c), a)"
proof -
  let ?k = "\<lparr>ck_origin = origin, ck_person_server = ps\<rparr>"
  have k: "set (order [?k]) = {?k}" using assms(1) by (simp add: yields_keys_def)
  then obtain j where j: "List.find (\<lambda>k. ck_origin k = origin) (order [?k]) = Some j"
    by (cases "List.find (\<lambda>k. ck_origin k = origin) (order [?k])") (auto simp: find_None_iff)
  then have "j \<in> set (order [?k])" by (auto simp: find_Some_iff)
  then have "find_cached_token_key order origin a = Some ?k"
    using assms(2) j k by (simp add: find_cached_token_key_def)
  then show ?thesis using assms(2,3) by (simp add: next_attempt_def find_cached_token_def)
qed

lemma asserted_session:
  assumes l: "linked A X keys S state start agent_jwt (range tok)" "keys_kept (cr_jwt X) (cr_keys X) keys"
    and p: "asserting X keys S svc pp F agent_jwt agent aud dwk kp user uuid rt tok" "exchanges A X S svc pp F rt tok"
    and agent: "mint_agent_jwt (cr_jwt X) (cr_keys X) keys t0 j0 AGENT_ISSUER AGENT_ID (Some (local_url pp)) = Some agent_jwt"
      "agent = flow_agent (cr_jwt X) keys t0 j0 AGENT_ISSUER AGENT_ID (local_url pp)" "within start t0"
    and metadata: "rsm_authorization_endpoint (si_metadata S) = None"
      "de_resource_metadata (en_resource_metadata (si_members S) (si_metadata S)) = Some (si_metadata S)"
  shows "\<exists>s. handle_inner A False (data_request (si_resource_port S)) (w, agent_auth_from_options (ag_opts A)) =
    Some (Ok (json_response (cr_json X) 200 [] (JObj [(''status'', JStr ''ok''), (''user'', JStr user)])), s)"
proof -
  let ?tp = "kp_thumbprint (tk_agent_ephemeral keys)" and ?ps = "local_url pp"
  let ?origin = "local_url (si_resource_port S)" and ?rq = "data_request (si_resource_port S)"
  note d = assertingD [OF p(1)]
  note t = linked_times [OF l(1)]
  have x: "yields_keys (ag_order A)" "reads_local (ag_client A) (si_resource_port S) ''/api/data''" "ao_opaque_token (ag_opts A) = None"
    using p(2) by (simp_all add: exchanges_def documents_read_def plain_agent_def)
  have am: "mint_agent_jwt (rl_jwt (si_layer S v)) (cr_keys X) keys t0 j0 AGENT_ISSUER AGENT_ID (Some ?ps) = Some agent_jwt"
    "agent = flow_agent (rl_jwt (si_layer S v)) keys t0 j0 AGENT_ISSUER AGENT_ID ?ps" for v
    using agent(1,2) d(4) [of v] by simp_all
  have mode: "rl_mode (si_layer S v) \<noteq> RM_ResourceManaged service" for v service
    using wired_mode [OF d(9) [of v v]] by (metis resource_access_mode.distinct(5))
  obtain w1 a where start: "handle_inner A False ?rq (w, agent_auth_from_options (ag_opts A)) = agent_loop A False ?origin ?rq (w1, a)"
    "aa_token_cache a = []" "next_attempt (ag_order A) (ck_now (ag_clock A) w1) ?origin a = (AA_AgentSigned, a)"
    using session_start [OF l(1) metadata x] by blast
  \<comment> \<open>challenged\<close>
  let ?resp = "text_response [(''aauth-requirement'', ch_to_header (Ch_AuthToken (rt w1)))] ''Auth token required''"
  note ch = wired_challenge [OF d(9) [where w = w1] am refl refl d(11) [where w = w1] refl]
  obtain rq v where q: "layer_verify (si_layer S w1) (ev_now (si_env S w1)) rq = Ok v" "vs_jwt v = Some agent_jwt"
    "vs_thumbprint v = ?tp"
    "\<forall>resp st. data_route (si_layer S w1) (ev_now (si_env S w1)) rq (state w1) = (Some resp, st) \<longrightarrow>
      (\<exists>w'. sign_and_run A AA_AgentSigned ?rq w1 = (Ok resp, w') \<and> state w' = st)"
    using data_sent [OF l(1) _ d(3) mode, of AA_AgentSigned agent_jwt w1] by blast
  have "data_route (si_layer S w1) (ev_now (si_env S w1)) rq (state w1) = (Some ?resp, state w1)"
    using ch(1) [OF q(1-3) within_alive(1,3) [OF t(2) agent(3)]] by (simp add: data_route_def)
  then obtain w2 where w2: "sign_and_run A AA_AgentSigned ?rq w1 = (Ok ?resp, w2)" using q(4) by blast
  obtain w3 minted_at recorded where taken: "exchange_step A ?origin (rt w1) (w2, a) = Some (Ok (), (w3,
     a\<lparr>aa_token_cache := AList.update \<lparr>ck_origin = ?origin, ck_person_server = ?ps\<rparr>
       \<lparr>ct_auth_token = tok minted_at, ct_expires_at = ck_now (ag_clock A) recorded + 3600 * 1000\<rparr> (aa_token_cache a)\<rparr>))"
    using challenge_taken [OF l p agent refl, of w1 w2 a] by blast
  define b where "b = a\<lparr>aa_token_cache := AList.update \<lparr>ck_origin = ?origin, ck_person_server = ?ps\<rparr>
       \<lparr>ct_auth_token = tok minted_at, ct_expires_at = ck_now (ag_clock A) recorded + 3600 * 1000\<rparr> (aa_token_cache a)\<rparr>"
  have e: "exchange_step A ?origin (rt w1) (w2, a) = Some (Ok (), (w3, b))" using taken unfolding b_def .
  have turn1: "agent_loop A False ?origin ?rq (w1, a) = agent_loop A False ?origin ?rq (w3, b)"
    by (rule exchanging_turn [OF start(3) w2 ch(2) e])
  \<comment> \<open>retried\<close>
  let ?auth = "flow_auth (si_layer S minted_at) keys (ev_now (si_env S minted_at)) (uuid minted_at) dwk aud AGENT_ID user"
  have "aa_token_cache b = [(\<lparr>ck_origin = ?origin, ck_person_server = ?ps\<rparr>,
       \<lparr>ct_auth_token = tok minted_at, ct_expires_at = ck_now (ag_clock A) recorded + 3600 * 1000\<rparr>)]"
    using start(2) by (simp add: b_def)
  then have n2: "next_attempt (ag_order A) (ck_now (ag_clock A) w3) ?origin b = (AA_AuthToken (tok minted_at), b)"
    using cached_token_next [OF x(1)] t(4) [of w3 recorded] by fastforce
  obtain rq' v' where q': "layer_verify (si_layer S w3) (ev_now (si_env S w3)) rq' = Ok v'" "vs_jwt v' = Some (tok minted_at)"
    "vs_thumbprint v' = ?tp"
    "\<forall>resp st. data_route (si_layer S w3) (ev_now (si_env S w3)) rq' (state w3) = (Some resp, st) \<longrightarrow>
      (\<exists>w'. sign_and_run A (AA_AuthToken (tok minted_at)) ?rq w3 = (Ok resp, w') \<and> state w' = st)"
    using data_sent [OF l(1) _ d(3) mode, of "AA_AuthToken (tok minted_at)" "tok minted_at" w3] by blast
  have "layer_call (si_layer S w3) (ev_now (si_env S w3)) rq' (state w3) = (LO_Forward (PT_Auth (flow_auth (si_layer S w3) keys
      (ev_now (si_env S minted_at)) (uuid minted_at) dwk aud AGENT_ID user)), state w3)"
    using wired_auth_token(3) [OF d(9) [where w = w3] _ _ refl, where kp = kp and ?t2.0 = "ev_now (si_env S minted_at)"
        and jti = "uuid minted_at" and dwk = dwk and iss = aud and sub = AGENT_ID and user = user and token = "tok minted_at"
        and now = "ev_now (si_env S w3)" and rq = rq' and v = v'] q'(1-3) within_alive(3) [OF t(2,2)] d(1) d(10) [of w3] d(12) [of minted_at]
    by (simp add: d(4,5))
  from data_route_json [OF this] have "data_route (si_layer S w3) (ev_now (si_env S w3)) rq' (state w3) =
      (Some (json_response (cr_json X) 200 [] (JObj [(''status'', JStr ''ok''), (''user'', JStr user)])), state w3)"
    using d(3) [of w3] by (simp add: built_with_def api_data_def flow_auth_fields)
  then obtain w4 where "sign_and_run A (AA_AuthToken (tok minted_at)) ?rq w3 =
      (Ok (json_response (cr_json X) 200 [] (JObj [(''status'', JStr ''ok''), (''user'', JStr user)])), w4)"
    using q'(4) by blast
  from finishing_turn [OF n2 this refl] start(1) turn1 show ?thesis by simp
qed

end
