(* ===== verification/Managed_Sessions.thy ===== *)
theory Managed_Sessions
  imports Sessions
begin

text \<open>
  A session of an agent with a resource that manages access itself: the agent finds the
  authorization endpoint, its request is deferred, the callback has the operator approve, polling
  hands out the opaque token, and the guarded route honours it.
\<close>

section \<open>At the resource\<close>

text \<open>\<open>resource_routes\<close>: the routes of \<^verbatim>\<open>resource_router\<close>; a path parameter is one segment.\<close>

definition resource_routes ::
    "('p, 'g) front \<Rightarrow> 'key jwt_lib \<Rightarrow> ('w \<Rightarrow> env) \<Rightarrow> ('w \<Rightarrow> ('s, 'err) access_iface) \<Rightarrow> string \<Rightarrow> u16 \<Rightarrow>
     ('w, 's) servers \<Rightarrow> ('w, 's) servers" where
  "resource_routes F L ev service resource_url resource_port other w port rq st =
     (if port = resource_port \<and> asks ''POST'' ''/resource/authorize'' rq
      then resource_authorize_handler F L (ev w) (service w) resource_url rq st
      else case (if port = resource_port \<and> rq_method rq = ''GET'' then strip_prefix ''/resource/pending/'' (rq_path rq) else None) of
        Some i \<Rightarrow> (if i \<noteq> [] \<and> CHR ''/'' \<notin> set i then resource_pending_poll_handler F (service w) i st
          else other w port rq st)
      | None \<Rightarrow> other w port rq st)"

lemma resource_site_routes:
  assumes "si_other S = resource_routes F L ev service url (si_resource_port S) other"
  shows "asks ''POST'' ''/resource/authorize'' rq \<Longrightarrow>
      site_serve S w (si_resource_port S) rq st = resource_authorize_handler F L (ev w) (service w) url rq st"
    "asks ''GET'' (''/resource/pending/'' @ i) rq \<Longrightarrow> i \<noteq> [] \<Longrightarrow> CHR ''/'' \<notin> set i \<Longrightarrow>
      site_serve S w (si_resource_port S) rq st = resource_pending_poll_handler F (service w) i st"
  by (auto simp: assms site_serve_def resource_routes_def asks_def)

lemma hex_digit_slash: "n < 16 \<Longrightarrow> hex_digit n \<noteq> CHR ''/'' \<and> (32 \<le> byte (hex_digit n) \<and> byte (hex_digit n) < 127)"
proof -
  assume "n < 16"
  then have "hex_digit n \<in> set ''0123456789abcdef''" unfolding hex_digit_def by (intro nth_mem) simp
  then show ?thesis by (auto simp: byte_def)
qed

lemma pending_id_segment:
  "CHR ''/'' \<notin> set (generate_pending_id bytes)" "to_str_ok (generate_pending_id bytes)"
  "bytes \<noteq> [] \<Longrightarrow> generate_pending_id bytes \<noteq> []"
proof -
  have d: "unat b div 16 < 16" "unat b mod 16 < 16" for b :: u8
    using unat_u8 [of b] by (simp_all add: less_mult_imp_div_less)
  show "CHR ''/'' \<notin> set (generate_pending_id bytes)" "to_str_ok (generate_pending_id bytes)"
    using hex_digit_slash [OF d(1)] hex_digit_slash [OF d(2)]
    by (induction bytes) (simp_all add: generate_pending_id_def eq_commute [of "CHR ''/''"])
  show "bytes \<noteq> [] \<Longrightarrow> generate_pending_id bytes \<noteq> []"
    by (cases bytes) (simp_all add: generate_pending_id_def)
qed

text \<open>The deferral, as a reply and in the store.\<close>

definition consent_record :: "env \<Rightarrow> string \<Rightarrow> agent_claims \<Rightarrow> string \<Rightarrow> string \<Rightarrow> resource_pending_context pending_record" where
  "consent_record ev resource_url agent scope code =
     pending_record_new (ev_now ev) (generate_pending_id (ev_id_bytes ev))
       \<lparr>rp_resource_url = resource_url, rp_agent_claims = agent, rp_scope = Some scope\<rparr>
       (snapshot_waiting (DR_Interaction (resource_url @ ''/interact'') code)) DEFAULT_PENDING_TTL_SECS"

definition deferral :: "serde_json \<Rightarrow> string \<Rightarrow> string \<Rightarrow> string \<Rightarrow> response" where
  "deferral sj location url code =
     json_response sj 202 [(''location'', location), (''retry-after'', ''0''), (''cache-control'', ''no-store''),
       (''aauth-requirement'', ch_to_header (Ch_Interaction url code)), (''content-type'', ''application/json'')]
       (JObj [(''status'', JStr ''pending'')])"

lemma respond_deferral:
  assumes "to_str_ok location" "to_str_ok url" "to_str_ok code"
  shows "respond_created sj \<lparr>dc_location = location, dc_requirement = DR_Interaction url code\<rparr> = Some (deferral sj location url code)"
  using assms
  by (simp add: respond_created_def for_created_def for_waiting_def insert_defer_created_headers_def insert_poll_headers_def
      set_header_def to_str_header_ok byte_def hm_insert_def hm_remove_def deferral_def Let_def)

lemma deferral_silent: "rs_status (deferral sj location url code) = 202" "access_token (rs_headers (deferral sj location url code)) = None"
  by (simp_all add: deferral_def json_response_def access_token_def hm_get_all_def hm_insert_def hm_remove_def)

lemma deferral_read:
  assumes "to_str_ok location" "to_str_ok url" "to_str_ok code" "unquoted url" "unquoted code" "\<not> ends_with ''code='' url"
  shows "header_value (rs_headers (deferral sj location url code)) ''location'' = Some location"
    "interaction_header (rs_headers (deferral sj location url code)) = Some (url, code)"
proof -
  have h: "hm_get (rs_headers (deferral sj location url code)) ''aauth-requirement'' = Some (ch_to_header (Ch_Interaction url code))"
    "hm_get (rs_headers (deferral sj location url code)) ''location'' = Some location"
    by (simp_all add: deferral_def json_response_def hm_insert_def hm_remove_def)
  have "to_str_ok (ch_to_header (Ch_Interaction url code))" using assms(2,3) by (simp add: byte_def)
  then show "interaction_header (rs_headers (deferral sj location url code)) = Some (url, code)"
    using h(1) ch_read_back [of "Ch_Interaction url code"] assms(4-6)
    by (simp add: interaction_header_def header_value_def del: ch_to_header.simps)
  show "header_value (rs_headers (deferral sj location url code)) ''location'' = Some location"
    using h(2) assms(1) by (simp add: header_value_def)
qed

lemma generate_code_text: "generate_code buf \<noteq> []" "to_str_ok (generate_code buf)" "unquoted (generate_code buf)"
proof -
  have "list_all (\<lambda>c. 32 \<le> byte c \<and> byte c < 127 \<and> c \<noteq> CHR 0x22) CROCKFORD32" by (simp add: CROCKFORD32_def byte_def)
  then have d: "32 \<le> byte c \<and> byte c < 127 \<and> c \<noteq> CHR 0x22" if "c \<in> set CROCKFORD32" for c
    using that by (auto simp: list_all_iff)
  have "\<forall>c \<in> set (generate_code buf). 32 \<le> byte c \<and> byte c < 127 \<and> c \<noteq> CHR 0x22"
    using d crockford_nth by (auto simp: generate_code_form Let_def byte_def)
  then show "to_str_ok (generate_code buf)" "unquoted (generate_code buf)"
    by (auto simp: to_str_ok_def unquoted_def list_all_iff)
qed (simp add: generate_code_form Let_def)

lemma local_url_text: "to_str_ok (local_url port)" "unquoted (local_url port)"
proof -
  have d: "\<forall>c \<in> set (show_nat n). 48 \<le> byte c \<and> byte c \<le> 57" for n
    using show_nat_digits [of n] by (auto simp: list_all_iff digit_def)
  then have "to_str_ok (show_nat n)" "unquoted (show_nat n)" for n
    by (force simp: to_str_ok_def list_all_iff) (use d [of n] in \<open>force simp: unquoted_def byte_def\<close>)
  then show "to_str_ok (local_url port)" "unquoted (local_url port)"
    by (simp_all add: local_url_def byte_def unquoted_def)
qed

text \<open>The authorization endpoint defers, and stores the request that polling will ask for.\<close>

lemma consent_deferred:
  assumes "optional_json F de_authorization_request rq = Ok (Some \<lparr>az_scope = scope\<rparr>)"
    and "verify_post F L ev rq = Ok v" "vs_jwt v = Some jwt" "parse_token L jwt = Ok (PT_Agent a)"
    and "url = local_url port" "i = generate_pending_id (ev_id_bytes ev)" "access = policy_access ev bytes (resource_managed_service iter b64 code url)"
  shows "resource_authorize_handler F L ev access url rq (s, tokens) =
    (Some (deferral (fr_json F) (url @ ''/resource/pending/'' @ i) (url @ ''/interact'') (generate_code code)),
     (mem_insert i (consent_record ev url a scope (generate_code code)) (s\<lparr>last_created := Some i\<rparr>), tokens))"
proof -
  let ?ctx = "\<lparr>ra_resource_url = url, ra_agent_claims = a, ra_scope = Some scope\<rparr>"
  let ?d = "\<lparr>dc_location = url @ ''/resource/pending/'' @ i, dc_requirement = DR_Interaction (url @ ''/interact'') (generate_code code)\<rparr>"
  let ?r = "consent_record ev url a scope (generate_code code)"
  have trim: "trim_end_matches (CHR ''/'') url = url" using assms(5) by simp
  have "if_consent access ?ctx (s, tokens) = (Ok (RCO_Deferred ?d), (mem_insert i ?r (s\<lparr>last_created := Some i\<rparr>), tokens))"
    using trim generate_code_text(1) [of code]
    by (simp add: assms(6,7) policy_access_def consent_for_agent_def resource_managed_service_def
        defer_interaction_resource_policy_def create_deferred_resource_response_def managed_access_config_def
        consent_record_def pending_location_def on_pending_def mem_ops_def mem_create_def pending_record_new_def Let_def seq_def
        trim_start_matches_def)
  moreover have "respond_created (fr_json F) ?d =
      Some (deferral (fr_json F) (url @ ''/resource/pending/'' @ i) (url @ ''/interact'') (generate_code code))"
    by (rule respond_deferral) (simp_all add: assms(5,6) local_url_text pending_id_segment generate_code_text byte_def)
  ultimately show ?thesis
    using assms(1-4) by (simp add: resource_authorize_handler_def finish_def respond_authorize_def respond_consent_def)
qed

text \<open>Once the operator has approved it, the request is answered with the token, and forgotten.\<close>

definition opaque_answer :: "string \<Rightarrow> response" where
  "opaque_answer t = \<lparr>rs_status = 200, rs_headers = [(''aauth-access'', t)], rs_body = []\<rparr>"

lemma opaque_answer_read:
  "is_token68 t \<Longrightarrow> access_token (rs_headers (opaque_answer t)) = Some t" "rs_status (opaque_answer t) = 200"
  using token68_to_str [of t] by (simp_all add: opaque_answer_def access_token_def hm_get_all_def parse_aauth_access_header_def Let_def token68_trim)

lemma approved_consent_polled:
  assumes "st = approve (opaque_mem_ops b64) (mem_ops iter :: (resource_pending_context mem_store, 'e, resource_pending_context) store_ops) bytes a
      (mem_insert i r (s\<lparr>last_created := Some i\<rparr>), tokens)"
    and "access = policy_access ev bytes' svc" "rv_pending svc = mem_ops iter'" "\<not> is_expired (ev_now ev) r"
    and "t = opaque_token b64 bytes" "is_token68 t"
  shows "\<exists>s'. resource_pending_poll_handler F access i st = (Some (opaque_answer t), (s', tokens(t \<mapsto> a)))"
proof -
  let ?r = "set_snapshot (snapshot_complete (PO_OpaqueAccess t)) r"
  obtain s1 where st: "st = (s1, tokens(t \<mapsto> a))" "map_of (inner s1) i = Some ?r"
    using assms(1,5) by (simp add: approve_def opaque_mem_ops_def opaque_issue_def Let_def mem_ops_def mem_complete_def mem_insert_def)
  have "poll_auth_pending (rv_pending svc) (ev_now ev) i s1 = (Ok (AP_Complete (PO_OpaqueAccess t)), s1)"
    using st(2) assms(3,4)
    by (simp add: poll_auth_pending_def seq_def mem_ops_def mem_load_def is_expired_def set_snapshot_def snapshot_complete_def)
  then have "\<exists>s'. if_poll access i st = (Ok (AP_Complete (PO_OpaqueAccess t)), (s', tokens(t \<mapsto> a)))"
    using assms(2,3) st(1) by (auto simp: policy_access_def resource_poll_pending_def seq_def ignore_def on_pending_def mem_ops_def mem_remove_def)
  moreover have "opaque_response t = Some (opaque_answer t)"
    using token68_header_value [OF assms(6)]
    by (simp add: opaque_response_def set_header_def hm_insert_def hm_remove_def opaque_answer_def)
  ultimately show ?thesis
    by (auto simp: resource_pending_poll_handler_def finish_def respond_poll_def respond_pending_outcome_def)
qed

section \<open>The consent of the operator\<close>

text \<open>
  \<open>self_managed\<close>: the site is the example's resource; \<open>iter\<close> is the iteration order of its hash map,
  \<open>code\<close> and \<open>bytes\<close> the random bytes of an interaction code and of an opaque token. \<open>operated\<close>: the
  agent tells a callback of an interaction, which approves as \<^verbatim>\<open>main\<close> does and is done, with the
  task it spawns, before the agent polls. \<open>consent_read\<close>: what the session needs of the crates.
\<close>

type_synonym managed_store = "resource_pending_context mem_store \<times> opaque_map"

definition managed_access ::
    "('w \<Rightarrow> env) \<Rightarrow> ((string \<times> resource_pending_context pending_record) list \<Rightarrow>
       (string \<times> resource_pending_context pending_record) list) \<Rightarrow> (string \<Rightarrow> string) \<Rightarrow> ('w \<Rightarrow> u8 list) \<Rightarrow> ('w \<Rightarrow> u8 list) \<Rightarrow> u16 \<Rightarrow>
     'w \<Rightarrow> (managed_store, 'e resource_error) access_iface" where
  "managed_access ev iter b64 code bytes rp w =
     policy_access (ev w) (bytes w) (resource_managed_service iter b64 (code w) (local_url rp))"

definition self_managed ::
    "('key, 'sk, 'ek, 'p, 'g) crates \<Rightarrow> ('w, 'key, 'p, 'g, 'e resource_error, managed_store) site \<Rightarrow>
     ((string \<times> resource_pending_context pending_record) list \<Rightarrow>
       (string \<times> resource_pending_context pending_record) list) \<Rightarrow> (string \<Rightarrow> string) \<Rightarrow> ('w \<Rightarrow> u8 list) \<Rightarrow> ('w \<Rightarrow> u8 list) \<Rightarrow> bool" where
  "self_managed X S iter b64 code bytes \<longleftrightarrow>
     (let url = local_url (si_resource_port S); access = managed_access (si_env S) iter b64 code bytes (si_resource_port S) in
      (\<exists>other. si_other S = resource_routes (si_front S) (cr_jwt X) (si_env S) access url (si_resource_port S) other) \<and>
      (\<forall>w. built_with (si_layer S w) X \<and> rl_mode (si_layer S w) = RM_ResourceManaged (access w)) \<and>
      rsm_authorization_endpoint (si_metadata S) = Some (url @ ''/resource/authorize'') \<and>
      de_resource_metadata (en_resource_metadata (si_members S) (si_metadata S)) = Some (si_metadata S))"

definition operated ::
    "('w, 'p, 'g, 'key) agent \<Rightarrow> ('w \<Rightarrow> managed_store) \<Rightarrow> ((string \<times> resource_pending_context pending_record) list \<Rightarrow>
       (string \<times> resource_pending_context pending_record) list) \<Rightarrow> (string \<Rightarrow> string) \<Rightarrow> ('w \<Rightarrow> u8 list) \<Rightarrow> bool" where
  "operated A state iter b64 bytes \<longleftrightarrow>
     (\<exists>on_interaction. ao_on_interaction (ag_opts A) = Some on_interaction \<and>
        (\<forall>url code w. ck_now (ag_clock A) (on_interaction url code w) < ck_now (ag_clock A) w + 5000 \<and>
           state (on_interaction url code w) = approve (opaque_mem_ops b64)
             (mem_ops iter :: (resource_pending_context mem_store, unit, resource_pending_context) store_ops)
             (bytes w) AGENT_ID (state w)))"

definition consent_read ::
    "('w, 'p, 'g, 'key) agent \<Rightarrow> ('key, 'sk, 'ek, 'p, 'g) crates \<Rightarrow> 'sk test_keys \<Rightarrow> ('w \<Rightarrow> env) \<Rightarrow> u16 \<Rightarrow> (string \<Rightarrow> string) \<Rightarrow>
     ('w \<Rightarrow> u8 list) \<Rightarrow> string \<Rightarrow> bool" where
  "consent_read A X keys ev rp b64 bytes agent_jwt \<longleftrightarrow>
     cl_parse (ag_client A) (local_url rp @ ''/resource/authorize'') = Ok (local_parts rp ''/resource/authorize'') \<and>
     reads_local (ag_client A) rp ''/api/data'' \<and> reads_back (cr_json X) (JObj [(''scope'', JStr [])]) \<and>
     hl_header_name (cr_http X) ''authorization'' = Some ''authorization'' \<and>
     (\<forall>w. is_token68 (opaque_token b64 (bytes w)) \<and> ev_id_bytes (ev w) \<noteq> [] \<and>
        reads_local (ag_client A) rp (''/resource/pending/'' @ generate_pending_id (ev_id_bytes (ev w))) \<and>
        (\<forall>w'. signs_tokens X keys {''/api/data''} [(''authorization'', ''AAuth '' @ opaque_token b64 (bytes w'))]
           (ag_unix A w) agent_jwt))"

lemma self_managedD:
  fixes S :: "('w, 'key, 'p, 'g, 'e resource_error, managed_store) site"
  assumes "self_managed X S iter b64 code bytes" "rp = si_resource_port S"
  shows "\<exists>other. si_other S = resource_routes (si_front S) (cr_jwt X) (si_env S)
      (managed_access (si_env S) iter b64 code bytes rp :: 'w \<Rightarrow> (managed_store, 'e resource_error) access_iface) (local_url rp) rp other"
    "built_with (si_layer S w) X" "rl_mode (si_layer S w) = RM_ResourceManaged (managed_access (si_env S) iter b64 code bytes rp w)"
    "rsm_authorization_endpoint (si_metadata S) = Some (local_url rp @ ''/resource/authorize'')"
    "de_resource_metadata (en_resource_metadata (si_members S) (si_metadata S)) = Some (si_metadata S)"
  using assms by (auto simp: self_managed_def Let_def)

definition authorize_post :: "serde_json \<Rightarrow> u16 \<Rightarrow> out_request" where
  "authorize_post sj rp = \<lparr>or_method = ''POST'', or_url = local_parts rp ''/resource/authorize'',
     or_headers = [(''content-type'', ''application/json'')], or_body = Some (sj_print sj (JObj [(''scope'', JStr [])]))\<rparr>"

lemma authorize_answered:
  fixes S :: "('w, 'key, 'p, 'g, 'e resource_error, managed_store) site"
  assumes l: "linked A X keys S state start agent_jwt tokens" "rp = si_resource_port S"
    and m: "self_managed X S iter b64 code bytes" "consent_read A X keys (si_env S) rp b64 bytes agent_jwt"
    and token: "parse_token (cr_jwt X) agent_jwt = Ok (PT_Agent a)"
    and i: "i = generate_pending_id (ev_id_bytes (si_env S w))"
      "r = consent_record (si_env S w) (local_url rp) a [] (generate_code (code w))"
  obtains w' where "sign_and_run A AA_AgentSigned (authorize_post (cr_json X) rp) w =
      (Ok (deferral (cr_json X) (local_url rp @ ''/resource/pending/'' @ i) (local_url rp @ ''/interact'') (generate_code (code w))), w')"
    "state w' = (mem_insert i r (fst (state w)\<lparr>last_created := Some i\<rparr>), snd (state w))"
proof -
  let ?out = "authorize_post (cr_json X) rp"
  have o: "or_url ?out = local_parts rp ''/resource/authorize''" "''/resource/authorize'' \<in> session_paths" "plain_headers (or_headers ?out)"
    by (simp_all add: authorize_post_def session_paths_def plain_headers_def unsigned_headers_def aauth_sign_options_def header_value_def)
  obtain rq where rq: "sent A X (site_serve S) state (si_env S) rp agent_jwt (kp_thumbprint (tk_agent_ephemeral keys)) AA_AgentSigned ?out w rq"
    using linked_sent [OF l(1) _ o, of AA_AgentSigned agent_jwt] by blast
  have q: "asks ''POST'' ''/resource/authorize'' rq" "rq_body rq = sj_print (cr_json X) (JObj [(''scope'', JStr [])])"
    "carries (rq_headers rq) (or_headers ?out)"
    using rq by (simp_all add: sent_def arrived_def on_wire_def local_parts_def asks_def authorize_post_def)
  obtain v where v: "verify_post (si_front S) (cr_jwt X) (si_env S w) rq = Ok v" "vs_jwt v = Some agent_jwt"
    by (rule sent_posted [OF rq _ linkedD(5) [OF l(1)] linkedD(7) [OF l(1)]]) (simp_all add: authorize_post_def)
  have ct: "header_value (rq_headers rq) ''content-type'' = Some ''application/json''"
    by (rule carriesD [OF q(3)]) (simp add: authorize_post_def header_value_def byte_def)
  then have "hm_get (rq_headers rq) ''content-type'' \<noteq> None" by (auto simp: header_value_def split: option.splits)
  then have read: "optional_json (si_front S) de_authorization_request rq = Ok (Some \<lparr>az_scope = []\<rparr>)"
    using linkedD(6,8) [OF l(1)] linkedD(9) [OF l(1) ct] m(2) q(2)
    by (simp add: optional_json_def reads_back_def consent_read_def de_authorization_request_def field_def)
  obtain other where other: "si_other S = resource_routes (si_front S) (cr_jwt X) (si_env S)
      (managed_access (si_env S) iter b64 code bytes rp :: 'w \<Rightarrow> (managed_store, 'e resource_error) access_iface) (local_url rp) (si_resource_port S) other"
    using self_managedD(1) [OF m(1) l(2)] l(2) by blast
  have "resource_authorize_handler (si_front S) (cr_jwt X) (si_env S w)
      (managed_access (si_env S) iter b64 code bytes rp w :: (managed_store, 'e resource_error) access_iface) (local_url rp) rq (state w) =
    (Some (deferral (fr_json (si_front S)) (local_url rp @ ''/resource/pending/'' @ i) (local_url rp @ ''/interact'') (generate_code (code w))),
     (mem_insert i r (fst (state w)\<lparr>last_created := Some i\<rparr>), snd (state w)))"
    using consent_deferred [OF read v token refl i(1) managed_access_def [of "si_env S"], where s = "fst (state w)" and tokens = "snd (state w)"] i(2) by simp
  then have "site_serve S w rp rq (state w) =
    (Some (deferral (cr_json X) (local_url rp @ ''/resource/pending/'' @ i) (local_url rp @ ''/interact'') (generate_code (code w))),
     (mem_insert i r (fst (state w)\<lparr>last_created := Some i\<rparr>), snd (state w)))"
    using resource_site_routes(1) [OF other q(1), of w "state w"] l(2) linkedD(6) [OF l(1)] by simp
  from sent_answer [OF rq this] that show ?thesis by metis
qed

lemma answered_poll_turn:
  assumes "json_request C ''GET'' (do_location_url opts) [(''prefer'', ''wait=45'')] [] = Ok rq"
    and "send rq w = (Ok resp, w')" "rs_status resp = 200" "cl_body C resp = Ok (rs_body resp)"
  shows "poll_turn C K send opts backoff w = (Ok (PT_Done \<lparr>dr_response = resp, dr_error = None\<rparr>), w')"
proof -
  have "show_nat (unat DEFAULT_PREFER_WAIT) = ''45''"
    by (simp add: DEFAULT_PREFER_WAIT_def show_nat_small show_nat_large char_of_def bit_0)
  then show ?thesis
    using assms by (simp add: poll_turn_def seq_def split_error_def body_bytes_def is_success_def Let_def)
qed

lemma pending_answered:
  fixes S :: "('w, 'key, 'p, 'g, 'e resource_error, managed_store) site"
  assumes l: "linked A X keys S state start agent_jwt tokens" "rp = si_resource_port S"
    and m: "self_managed X S iter b64 code bytes" "consent_read A X keys (si_env S) rp b64 bytes agent_jwt"
    and i: "i = generate_pending_id (ev_id_bytes (si_env S w0))" "r = consent_record (si_env S w0) url a scope c"
    and w: "state w = approve (opaque_mem_ops b64) (mem_ops iter' :: (resource_pending_context mem_store, 'x, resource_pending_context) store_ops)
      (bytes w1) AGENT_ID (mem_insert i r (s\<lparr>last_created := Some i\<rparr>), opaques)"
    and t: "t = opaque_token b64 (bytes w1)"
    and out: "out = \<lparr>or_method = ''GET'', or_url = local_parts rp (''/resource/pending/'' @ i), or_headers = [(''prefer'', ''wait=45'')],
      or_body = Some []\<rparr>"
  obtains w' s' where "agent_send A out w = (Ok (opaque_answer t), w')" "state w' = (s', opaques(t \<mapsto> AGENT_ID))"
    "cl_body (ag_client A) (opaque_answer t) = Ok (rs_body (opaque_answer t))"
proof -
  have c: "is_token68 t" "ev_id_bytes (si_env S w0) \<noteq> []"
    using m(2) by (simp_all add: consent_read_def t)
  have o: "or_url out = local_parts rp (''/resource/pending/'' @ i)" "''/resource/pending/'' @ i \<in> session_paths" "plain_headers (or_headers out)"
    by (simp_all add: out session_paths_def plain_headers_def unsigned_headers_def aauth_sign_options_def header_value_def)
  obtain rq where rq: "sent A X (site_serve S) state (si_env S) rp agent_jwt (kp_thumbprint (tk_agent_ephemeral keys)) AA_AgentSigned out w rq"
    using linked_sent [OF l(1) _ o, of AA_AgentSigned agent_jwt] by blast
  have q: "asks ''GET'' (''/resource/pending/'' @ i) rq"
    using rq by (simp add: sent_def arrived_def on_wire_def local_parts_def asks_def out)
  obtain other where other: "si_other S = resource_routes (si_front S) (cr_jwt X) (si_env S)
      (managed_access (si_env S) iter b64 code bytes rp :: 'w \<Rightarrow> (managed_store, 'e resource_error) access_iface) (local_url rp) (si_resource_port S) other"
    using self_managedD(1) [OF m(1) l(2)] l(2) by blast
  have "\<not> is_expired (ev_now (si_env S w)) r"
    using within_alive(4) [OF linked_times(2) [OF l(1)] linked_times(2) [OF l(1)]]
    by (simp add: is_expired_def i(2) consent_record_def pending_record_new_def not_less)
  from approved_consent_polled [OF w managed_access_def [of "si_env S" iter b64 code bytes rp] _ this t c(1), where iter' = iter and F = "si_front S"]
  obtain s' where "resource_pending_poll_handler (si_front S)
      (managed_access (si_env S) iter b64 code bytes rp w :: (managed_store, 'e resource_error) access_iface) i (state w) =
      (Some (opaque_answer t), (s', opaques(t \<mapsto> AGENT_ID)))"
    by (auto simp: resource_managed_service_def)
  then have served: "site_serve S w rp rq (state w) = (Some (opaque_answer t), (s', opaques(t \<mapsto> AGENT_ID)))"
    using resource_site_routes(2) [OF other q, of w "state w"] l(2) pending_id_segment c(2) by (simp add: i(1))
  note answered = sent_answer [OF rq]
  from answered [OF served] that show ?thesis by (metis agent_send_def)
qed

text \<open>The agent tells the callback, and polls until it has the token.\<close>

lemma consent_polled:
  fixes S :: "('w, 'key, 'p, 'g, 'e resource_error, managed_store) site"
  assumes l: "linked A X keys S state start agent_jwt tokens" "rp = si_resource_port S"
    and m: "self_managed X S iter b64 code bytes" "consent_read A X keys (si_env S) rp b64 bytes agent_jwt"
    and op: "operated A state iter b64 bytes" "ao_max_poll_duration_secs (ag_opts A) = Some TEST_POLL_MAX_SECS"
    and i: "i = generate_pending_id (ev_id_bytes (si_env S w0))" "r = consent_record (si_env S w0) url a scope c"
    and w: "state w = (mem_insert i r (s\<lparr>last_created := Some i\<rparr>), opaques)"
    and resp: "resp = deferral sj (local_url rp @ ''/resource/pending/'' @ i) (local_url rp @ ''/interact'') (generate_code buf)"
    and t: "t = opaque_token b64 (bytes w)"
  obtains w' s' where "poll_for A resp w = Some (Ok \<lparr>dr_response = opaque_answer t, dr_error = None\<rparr>, w')"
    "state w' = (s', opaques(t \<mapsto> AGENT_ID))"
proof -
  let ?loc = "local_url rp @ ''/resource/pending/'' @ i" and ?url = "local_url rp @ ''/interact''" and ?code = "generate_code buf"
  let ?opts = "agent_deferred_options (ag_opts A) ?loc (Some (?url, ?code))"
  let ?out = "\<lparr>or_method = ''GET'', or_url = local_parts rp (''/resource/pending/'' @ i), or_headers = [(''prefer'', ''wait=45'')],
    or_body = Some []\<rparr>"
  obtain f where f: "ao_on_interaction (ag_opts A) = Some f" "\<And>v. ck_now (ag_clock A) (f ?url ?code v) < ck_now (ag_clock A) v + 5000"
    "\<And>v. state (f ?url ?code v) = approve (opaque_mem_ops b64)
       (mem_ops iter :: (resource_pending_context mem_store, unit, resource_pending_context) store_ops) (bytes v) AGENT_ID (state v)"
    using op(1) by (auto simp: operated_def)
  have readable: "to_str_ok ?loc" "to_str_ok ?url" "to_str_ok ?code" "unquoted ?url" "unquoted ?code" "\<not> ends_with ''code='' ?url"
    using local_url_text [of rp] pending_id_segment(2) generate_code_text [of buf]
    by (simp_all add: i(1) byte_def unquoted_def ends_with_iff append_eq_append_conv2)
  have start: "poll_for A resp w = poll_deferred_with (ag_client A) (ag_clock A) (agent_send A) ?opts w"
    using deferral_read [OF readable] by (simp add: poll_for_def location_header_def resp)
  have opts: "do_location_url ?opts = ?loc" "do_on_interaction ?opts = Some f" "do_interaction_url ?opts = Some ?url"
    "do_interaction_code ?opts = Some ?code" "do_max_poll_duration_secs ?opts = Some 5"
    by (simp_all add: agent_deferred_options_def Let_def f(1) op(2) do_interaction_def deferred_options_new_def TEST_POLL_MAX_SECS_def)
  note answered = pending_answered [OF l m i, where out = ?out and ?w1.0 = w and w = "f ?url ?code w" and t = t and opaques = opaques and s = s,
      OF f(3) [of w, unfolded w] t refl]
  obtain w' s' where w': "agent_send A ?out (f ?url ?code w) = (Ok (opaque_answer t), w')" "state w' = (s', opaques(t \<mapsto> AGENT_ID))"
    "cl_body (ag_client A) (opaque_answer t) = Ok (rs_body (opaque_answer t))"
    by (rule answered)
  have "reads_local (ag_client A) rp (''/resource/pending/'' @ i)"
    using m(2) by (simp add: consent_read_def i(1))
  then have "cl_request (ag_client A) ?loc = Some (local_parts rp (''/resource/pending/'' @ i))"
    by (simp only: reads_local_def)
  then have "json_request (ag_client A) ''GET'' (do_location_url ?opts) [(''prefer'', ''wait=45'')] [] = Ok ?out"
    unfolding opts(1) json_request_def or_panic_def by simp
  note turn = answered_poll_turn [where send = "agent_send A" and rq = ?out and w = "f ?url ?code w" and opts = ?opts,
      OF this w'(1) opaque_answer_read(2) w'(3)]
  have "instant_add_secs (ck_now (ag_clock A) w) 5 = Some (ck_now (ag_clock A) w + 5000)"
    using linked_times(3) [OF l(1), of w] by (simp add: instant_add_secs_def)
  then have "poll_for A resp w = Some (Ok \<lparr>dr_response = opaque_answer t, dr_error = None\<rparr>, w')"
    using f(2) [of w] turn opts
    by (simp add: start poll_deferred_with_def tell_interaction_def poll_loop.simps [where w = "f ?url ?code w"])
  with that w'(2) show ?thesis by blast
qed

section \<open>The session\<close>

text \<open>Before the first request of a fresh agent, the middleware obtains and caches the token.\<close>

lemma proactively_authorized:
  fixes S :: "('w, 'key, 'p, 'g, 'e resource_error, managed_store) site"
  assumes l: "linked A X keys S state start agent_jwt tokens" "rp = si_resource_port S"
    and m: "self_managed X S iter b64 code bytes" "consent_read A X keys (si_env S) rp b64 bytes agent_jwt"
    and op: "operated A state iter b64 bytes" "ao_max_poll_duration_secs (ag_opts A) = Some TEST_POLL_MAX_SECS"
      "ao_scope (ag_opts A) = None"
    and token: "parse_token (cr_jwt X) agent_jwt = Ok (PT_Agent agent)"
    and a: "origin \<notin> aa_authorize_tried a" "aa_opaque_cache a origin = None" "origin = local_url rp"
  obtains w' a' s' t asked where "try_proactive_authorize A origin (w, a) = Some (Ok (), (w', a'))"
    "aa_opaque_cache a' origin = Some t" "aa_token_cache a' = aa_token_cache a" "state w' = (s', (snd (state w))(t \<mapsto> AGENT_ID))"
    "t = opaque_token b64 (bytes asked)"
proof -
  let ?endpoint = "origin @ ''/resource/authorize''"
  obtain w1 where w1: "state w1 = state w" "authorize_endpoint A origin w = (Some ?endpoint, w1)"
    using metadata_discovered [OF l(1), of origin w] self_managedD(4,5) [OF m(1) l(2)] a(3) l(2) by metis
  let ?i = "generate_pending_id (ev_id_bytes (si_env S w1))"
  let ?r = "consent_record (si_env S w1) (local_url rp) agent [] (generate_code (code w1))"
  let ?resp = "deferral (cr_json X) (local_url rp @ ''/resource/pending/'' @ ?i) (local_url rp @ ''/interact'') (generate_code (code w1))"
  let ?a = "a\<lparr>aa_authorize_tried := insert origin (aa_authorize_tried a)\<rparr>"
  obtain w2 where w2: "sign_and_run A AA_AgentSigned (authorize_post (cr_json X) rp) w1 = (Ok ?resp, w2)"
    "state w2 = (mem_insert ?i ?r (fst (state w)\<lparr>last_created := Some ?i\<rparr>), snd (state w))"
    by (rule authorize_answered [OF l m token refl refl, of w1, unfolded w1(1)])
  let ?t = "opaque_token b64 (bytes w2)"
  obtain w3 s' where w3: "poll_for A ?resp w2 = Some (Ok \<lparr>dr_response = opaque_answer ?t, dr_error = None\<rparr>, w3)"
    "state w3 = (s', (snd (state w))(?t \<mapsto> AGENT_ID))"
    by (rule consent_polled [OF l m op(1,2) refl refl w2(2) refl refl])
  have request: "authorize_request A ?endpoint = Ok (authorize_post (cr_json X) rp)"
    using m(2) op(3) a(3) linkedD(11) [OF l(1)] by (simp add: authorize_request_def consent_read_def authorize_post_def)
  have t: "is_token68 ?t" using m(2) by (simp add: consent_read_def)
  have deferred: "observe_response (ag_order A) origin AA_AgentSigned (rs_status ?resp) (rs_headers ?resp) ?a = (Ok AS_PollDeferred, ?a)"
    by (simp add: observe_response_def cache_opaque_from_headers_def deferral_silent)
  let ?a' = "?a\<lparr>aa_opaque_cache := (aa_opaque_cache a)(origin \<mapsto> ?t),
      aa_told := (if aa_on_opaque_token a then aa_told a @ [?t] else aa_told a)\<rparr>"
  have granted: "observe_response (ag_order A) origin AA_AgentSigned (rs_status (opaque_answer ?t)) (rs_headers (opaque_answer ?t)) ?a =
      (Ok AS_RetryWithOpaque, ?a')"
    using a(2) by (simp add: observe_response_def cache_opaque_from_headers_def opaque_answer_read t)
  have "try_proactive_authorize A origin (w, a) = Some (Ok (), (w3, ?a'))"
    using a(1,2) w1(2) w2(1) w3(1) request deferred granted
    by (simp add: try_proactive_authorize_def begin_authorize_attempt_def seq_def on_world_def agent_send_def agent_observe_def)
  from that [OF this _ _ w3(2) refl] show ?thesis by simp
qed

text \<open>A request with the token is signed over it, and the layer reads both.\<close>

lemma opaque_sent:
  assumes l: "linked A X keys S state start agent_jwt tokens" "rp = si_resource_port S"
    and m: "rl_mode (si_layer S w) = RM_ResourceManaged access" "built_with (si_layer S w) X"
      "consent_read A X keys (si_env S) rp b64 bytes agent_jwt"
    and t: "t = opaque_token b64 (bytes asked)"
  obtains rq v where "layer_verify (si_layer S w) (ev_now (si_env S w)) rq = Ok v" "vs_jwt v = Some agent_jwt"
    "extract_aauth_access (rq_headers rq) = Ok (Some t)" "asks ''GET'' ''/api/data'' rq"
    "answers_to A (site_serve S) state rp rq w (\<lambda>resp w'. sign_and_run A (AA_OpaqueToken t) (data_request rp) w = (Ok resp, w'))"
proof -
  let ?hs = "[(''authorization'', ''AAuth '' @ t)]"
  let ?out = "(data_request rp)\<lparr>or_headers := ?hs\<rparr>" and ?vo = "verify_options_default\<lparr>vo_require_authorization := True\<rparr>"
  let ?material = "\<lparr>sm_signing_jwk = kp_signing_jwk (cr_jwt X) (cr_keys X) (tk_agent_ephemeral keys), sm_signature_key = SK_Jwt agent_jwt\<rparr>"
  have t68: "is_token68 t" and signs: "signs_tokens X keys {''/api/data''} ?hs (ag_unix A w) agent_jwt"
    "hl_header_name (cr_http X) ''authorization'' = Some ''authorization''"
    using m(3) by (simp_all add: consent_read_def t)
  have written: "to_str_ok (''AAuth '' @ t)" "header_value_ok (''AAuth '' @ t)"
    using token68_to_str [OF t68] to_str_header_ok by blast+
  have o: "or_url ?out = local_parts rp ''/api/data''" "aauth_sign_options (or_headers ?out) = ?hs" "unsigned_headers (or_headers ?out)"
    "\<forall>e \<in> set ?hs. extra_ok (cr_http X) (or_headers ?out) e"
    using written(1) signs(2)
    by (simp_all add: data_request_def aauth_sign_options_def header_value_def unsigned_headers_def extra_ok_def starts_with_def)
  have link: "linked_with A X" using linkedD(3) [OF l(1)] by (simp add: runs_on_def)
  obtain headers' rq where rq: "arrived X (si_env S) agent_jwt (kp_thumbprint (tk_agent_ephemeral keys)) ?vo ?out w rq"
    "outgoing_sign (ag_http A) (ag_up A) (ag_unix A w) ?material ?out = Ok (?out\<lparr>or_headers := headers'\<rparr>)"
    "answers_to A (site_serve S) state rp rq w (\<lambda>resp w'. ag_next A (AA_OpaqueToken t) (?out\<lparr>or_headers := headers'\<rparr>) w = (Ok resp, w'))"
    using signed_arrives [OF linkedD(1,2) [OF l(1)] link signs(1) refl o(1) _ o(2-4), of ?vo "AA_OpaqueToken t"] by auto
  have auth: "hm_get_all (rq_headers rq) ''authorization'' = [''AAuth '' @ t]"
    using rq(1) by (simp add: arrived_def on_wire_def hm_get_all_def)
  note x = presented_token [OF auth t68]
  have "layer_options (si_layer S w) rq = ?vo" using m(1) x by (simp add: layer_options_def)
  then obtain v where v: "layer_verify (si_layer S w) (ev_now (si_env S w)) rq = Ok v" "vs_jwt v = Some agent_jwt"
    using rq(1) m(2) by (auto simp: arrived_def on_wire_def built_with_def layer_verify_def signature_parts_def)
  have a: "asks ''GET'' ''/api/data'' rq"
    using rq(1) by (simp add: arrived_def on_wire_def data_request_def local_parts_def asks_def)
  have "apply_opaque_token t (data_request rp) = Ok ?out"
    using written(2) by (simp add: apply_opaque_token_def expect_header_def data_request_def hm_insert_def hm_remove_def)
  then have "signed_attempt A (ag_unix A w) ?material (AA_OpaqueToken t) (data_request rp) = Ok (?out\<lparr>or_headers := headers'\<rparr>)"
    using rq(2) by (simp add: signed_attempt_def)
  then have "sign_and_run A (AA_OpaqueToken t) (data_request rp) w = (Ok resp, w')"
    if "ag_next A (AA_OpaqueToken t) (?out\<lparr>or_headers := headers'\<rparr>) w = (Ok resp, w')" for resp w'
    using that linkedD(3) [OF l(1)]
    by (simp add: sign_and_run_def runs_on_def static_provider_def test_key_material_def signing_apply_to_def seq_def err_as_def)
  then have "answers_to A (site_serve S) state rp rq w (\<lambda>resp w'. sign_and_run A (AA_OpaqueToken t) (data_request rp) w = (Ok resp, w'))"
    using rq(3) unfolding answers_to_def by blast
  from that [OF v x a this] show ?thesis .
qed

lemma self_managed_session:
  fixes S :: "('w, 'key, 'p, 'g, 'e resource_error, managed_store) site"
  assumes l: "linked A X keys S state start agent_jwt tokens" "rp = si_resource_port S"
    and m: "self_managed X S iter b64 code bytes" "consent_read A X keys (si_env S) rp b64 bytes agent_jwt"
    and op: "operated A state iter b64 bytes" "ao_max_poll_duration_secs (ag_opts A) = Some TEST_POLL_MAX_SECS"
      "ao_scope (ag_opts A) = None" "ao_opaque_token (ag_opts A) = None" "yields_keys (ag_order A)"
    and token: "parse_token (cr_jwt X) agent_jwt = Ok (PT_Agent agent)" "ag_sub agent = AGENT_ID"
  shows "\<exists>s. handle_inner A False (data_request rp) (w, agent_auth_from_options (ag_opts A)) =
    Some (Ok (json_response (cr_json X) 200 [] (JObj [(''agent'', JStr AGENT_ID), (''status'', JStr ''ok'')])), s)"
proof -
  let ?origin = "local_url rp" and ?fresh = "agent_auth_from_options (ag_opts A)" and ?rq = "data_request rp"
  let ?answer = "json_response (cr_json X) 200 [] (JObj [(''agent'', JStr AGENT_ID), (''status'', JStr ''ok'')])"
  have fresh: "aa_opaque_cache ?fresh ?origin = None" "aa_token_cache ?fresh = []" "?origin \<notin> aa_authorize_tried ?fresh"
    "seed_opaque ?origin ?fresh = ?fresh"
    using op(4) by (simp_all add: agent_auth_from_options_def agent_auth_new_def seed_opaque_def)
  obtain w1 a1 s1 t asked where p: "try_proactive_authorize A ?origin (w, ?fresh) = Some (Ok (), (w1, a1))"
    "aa_opaque_cache a1 ?origin = Some t" "aa_token_cache a1 = []" "state w1 = (s1, (snd (state w))(t \<mapsto> AGENT_ID))"
    "t = opaque_token b64 (bytes asked)"
    using proactively_authorized [OF l m op(1-3) token(1) fresh(3,1) refl, of w] fresh(2) by metis
  have "reads_local (ag_client A) rp ''/api/data''" using m(2) by (simp add: consent_read_def)
  then have start: "handle_inner A False ?rq (w, ?fresh) = agent_loop A False ?origin ?rq (w1, a1)"
    using p(1) fresh(4) by (simp add: handle_inner_def resource_origin_def data_request_def reads_local_def)
  have "set (ag_order A []) = {}" using op(5) by (simp add: yields_keys_def)
  then have next_one: "next_attempt (ag_order A) (ck_now (ag_clock A) w1) ?origin a1 = (AA_OpaqueToken t, a1)"
    using p(2,3) by (simp add: next_attempt_def find_cached_token_def find_cached_token_key_def)
  let ?rl = "si_layer S w1" and ?access = "managed_access (si_env S) iter b64 code bytes rp w1 :: (managed_store, 'e resource_error) access_iface"
  note s = self_managedD(2,3) [OF m(1) l(2), of w1]
  obtain rq v where q: "layer_verify ?rl (ev_now (si_env S w1)) rq = Ok v" "vs_jwt v = Some agent_jwt"
    "extract_aauth_access (rq_headers rq) = Ok (Some t)" "asks ''GET'' ''/api/data'' rq"
    "answers_to A (site_serve S) state rp rq w1 (\<lambda>resp w'. sign_and_run A (AA_OpaqueToken t) ?rq w1 = (Ok resp, w'))"
    by (rule opaque_sent [OF l s(2,1) m(2) p(5)])
  have "if_validate ?access t AGENT_ID (state w1)"
    by (simp add: p(4) managed_access_def policy_access_def service_validate_opaque_def resource_managed_service_def
        opaque_mem_ops_def opaque_validate_def)
  then have "opaque_path ?rl ?access agent_jwt t (state w1) = LO_Forward (PT_Agent agent)"
    using token s(1) by (simp add: opaque_path_forward built_with_def)
  then have "layer_call ?rl (ev_now (si_env S w1)) rq (state w1) = (LO_Forward (PT_Agent agent), state w1)"
    using q(1-3) s(2) by (simp add: layer_call_eq)
  from data_route_json [OF this, of "cr_json X"] have "data_route ?rl (ev_now (si_env S w1)) rq (state w1) = (Some ?answer, state w1)"
    using s(1) token(2) by (simp add: built_with_def api_data_def claims_identifier_def)
  then have "site_serve S w1 rp rq (state w1) = (Some ?answer, state w1)"
    using site_routes(1) [OF q(4), of rp S w1 "state w1"] l(2) by simp
  then obtain w2 where "sign_and_run A (AA_OpaqueToken t) ?rq w1 = (Ok ?answer, w2)"
    using answers_toD [OF q(5)] by blast
  from finishing_turn [OF next_one this refl] start show ?thesis by simp
qed

end
