(* ===== verification/Example_Runs.thy ===== *)
theory Example_Runs
  imports Asserted_Sessions Managed_Sessions
begin

text \<open>
  The examples run to their end: the agent that \<^verbatim>\<open>main\<close> builds calls \<^verbatim>\<open>/api/data\<close> once, and is
  answered with the claims that the servers of the example established.
\<close>

section \<open>The agent of an example\<close>

lemma client_built:
  assumes "client_build L K t0 j0 b = Some opts" "cb_provider b = None"
    and "mint_agent_jwt L K (cb_keys b) t0 j0 AGENT_ISSUER AGENT_ID (cb_agent_ps_claim b) = Some agent_jwt"
  shows "ao_provider opts = static_provider (test_key_material L K (cb_keys b) agent_jwt)" "plain_agent opts"
    "ao_metadata_fetcher opts = cb_metadata_fetcher b" "ao_person_server_url opts = cb_person_server_url b"
    "ao_mission opts = None" "ao_capabilities opts = None" "ao_opaque_token opts = None"
    "ao_scope opts = None" "ao_max_poll_duration_secs opts = Some TEST_POLL_MAX_SECS" "ao_on_interaction opts = cb_on_interaction b"
  using assms
  by (cases "cb_on_clarification b"; cases "cb_on_interaction b"; cases "cb_person_server_url b";
      auto simp: client_build_def configured_agent_def agent_options_builder_new_def build_agent_options_def plain_agent_def Let_def)+

lemma client_builders:
  "cb_keys (client_builder_new keys F) = keys" "cb_metadata_fetcher (client_builder_new keys F) = F"
  "cb_person_server_url (client_builder_new keys F) = None" "cb_agent_ps_claim (client_builder_new keys F) = None"
  "cb_provider (client_builder_new keys F) = None"
  "cb_keys (cb_with_person_server ps b) = cb_keys b" "cb_metadata_fetcher (cb_with_person_server ps b) = cb_metadata_fetcher b"
  "cb_person_server_url (cb_with_person_server ps b) = Some ps" "cb_agent_ps_claim (cb_with_person_server ps b) = Some ps"
  "cb_provider (cb_with_person_server ps b) = cb_provider b"
  "cb_keys (cb_interaction f b) = cb_keys b" "cb_metadata_fetcher (cb_interaction f b) = cb_metadata_fetcher b"
  "cb_on_interaction (cb_interaction f b) = Some f" "cb_agent_ps_claim (cb_interaction f b) = cb_agent_ps_claim b"
  "cb_provider (cb_interaction f b) = cb_provider b"
  by (simp_all add: client_builder_new_def cb_with_person_server_def cb_ps_claim_def cb_person_server_def cb_interaction_def)

section \<open>Identity based\<close>

definition identity_site ::
    "('key, 'sk, 'ek, 'p, 'g) crates \<Rightarrow> 'sk test_keys \<Rightarrow> ('p, 'g) front \<Rightarrow> ('w \<Rightarrow> env) \<Rightarrow> ('w \<Rightarrow> string) \<Rightarrow>
     ((string \<rightharpoonup> string) \<Rightarrow> (string \<times> string) list) \<Rightarrow> fetcher \<Rightarrow> u16 \<Rightarrow> ('w, 's) servers \<Rightarrow>
     ('w, 'key, 'p, 'g, 'err, 's) site" where
  "identity_site X keys Fr ev uuid members F rp others =
     \<lparr>si_layer = (\<lambda>w. identity_resource_app X (uuid w) keys (local_url rp) F),
      si_metadata = identity_resource_metadata (local_url rp), si_front = Fr, si_env = ev,
      si_members = members, si_resource_port = rp, si_other = others\<rparr>"

lemma identity_admitted:
  assumes crates: "sound_crates X" "keys_kept (cr_jwt X) (cr_keys X) keys"
    and main: "identity_main X t0 j0 keys (local_url ap) (local_url rp) = Some ex" "ap \<noteq> rp"
      "mint_agent_jwt (cr_jwt X) (cr_keys X) keys t0 j0 AGENT_ISSUER AGENT_ID None = Some agent_jwt"
    and times: "within start t0" "within start now"
    and rq: "rl = identity_resource_app X jti keys (local_url rp) (ex_fetcher ex)" "layer_verify rl now rq = Ok v"
      "vs_jwt v = Some agent_jwt" "vs_thumbprint v = kp_thumbprint (tk_agent_ephemeral keys)"
  shows "data_route rl now rq st =
    (Some (json_response (cr_json X) 200 [] (JObj [(''agent'', JStr AGENT_ID), (''status'', JStr ''ok'')])), st)"
proof -
  let ?L = "cr_jwt X" and ?K = "cr_keys X"
  let ?agent = "mint_agent_claims t0 j0 (kp_public_jwk ?L (tk_agent_ephemeral keys)) AGENT_ISSUER AGENT_ID None"
  obtain mp where mp: "multi_party_build ?L ?K absent_metadata_fetcher (mb_new keys (local_url ap) (local_url rp)) = Some mp"
    "ex_fetcher ex = multi_party_fetcher mp"
    using main(1) by (auto simp: identity_main_def bind_eq_Some_conv)
  then have "multi_party_build ?L ?K absent_metadata_fetcher \<lparr>mb_keys = keys, mb_agent_url = local_url ap, mb_resource_url = local_url rp,
      mb_person_server_url = map_option local_url None, mb_access_server_url = map_option local_url None,
      mb_with_http_fallback = False\<rparr> = Some mp"
    by (simp add: mb_new_def)
  then have "publishes ?L (ex_fetcher ex) AGENT_ISSUER ''aauth-agent.json'' (tk_agent_root keys)"
    using multi_party_publishes(1) crates main(2) unfolding mp(2) sound_crates_def by blast
  then have "verify_token ?L (cr_parse X) (ex_fetcher ex) now agent_jwt (kp_thumbprint (tk_agent_ephemeral keys)) = Ok (PT_Agent ?agent)"
    using agent_jwt_accepted [OF _ crates(2) main(3)] crates(1) example_identifiers(1) within_alive(1,3) [OF times(2,1)]
    by (simp add: sound_crates_def)
  then have "layer_call rl now rq st = (LO_Forward (PT_Agent ?agent), st)"
    using rq(2-4) by (simp add: rq(1) layer_call_eq identity_resource_app_def token_path_def decide_def)
  from data_route_json [OF this, of "cr_json X"] show ?thesis
    by (simp add: rq(1) identity_resource_app_def api_data_def claims_identifier_def mint_agent_claims_def)
qed

text \<open>
  C5: the \<^verbatim>\<open>identity_based\<close> example runs. The client that \<^verbatim>\<open>main\<close> builds, which has no Person Server,
  calls \<^verbatim>\<open>/api/data\<close> with its agent token; the resource verifies the signature, finds the agent
  provider's key at the shared fetcher, and the call returns its answer, which names the agent.
\<close>
theorem identity_example_runs:
  assumes crates: "sound_crates X" "test_keys_generate (cr_jwt X) (cr_keys X) k1 k2 k3 k4 k5 = Some keys"
    and main: "identity_main X t0 j0 keys (local_url ap) (local_url rp) = Some ex" "ap \<noteq> rp"
      "mint_agent_jwt (cr_jwt X) (cr_keys X) keys t0 j0 AGENT_ISSUER AGENT_ID None = Some agent_jwt"
      "within start t0" "ag_opts A = ex_agent ex"
    and S: "S = identity_site X keys Fr ev uuid members (ex_fetcher ex) rp others"
    and world: "surrounded A X keys S state start {agent_jwt}" "yields_keys (ag_order A)" "reads_local (ag_client A) rp ''/api/data''"
  shows "\<exists>s. handle_inner A False (data_request rp) (w, agent_auth_from_options (ag_opts A)) =
    Some (Ok (json_response (cr_json X) 200 [] (JObj [(''agent'', JStr AGENT_ID), (''status'', JStr ''ok'')])), s)"
proof -
  let ?L = "cr_jwt X" and ?K = "cr_keys X"
  obtain mp where mp: "ex_fetcher ex = multi_party_fetcher mp"
    "client_build ?L ?K t0 j0 (client_builder_new keys (multi_party_fetcher mp)) = Some (ex_agent ex)"
    using main(1) by (auto simp: identity_main_def bind_eq_Some_conv)
  note built = client_built [OF mp(2), unfolded client_builders, OF refl main(3), folded main(5)]
  have agent: "runs_on A X keys agent_jwt" "ao_opaque_token (ag_opts A) = None"
    using built world(1) by (simp_all add: runs_on_def surrounded_def)
  have l: "linked A X keys S state start agent_jwt {}" using world(1) agent(1) by (simp add: linked_def)
  have s: "si_layer S w = identity_resource_app X (uuid w) keys (local_url rp) (ex_fetcher ex)" "si_resource_port S = rp"
    "built_with (si_layer S w) X" "rl_mode (si_layer S w) = RM_IdentityBased" for w
    by (simp_all add: S identity_site_def identity_resource_app_def built_with_def)
  have m: "rsm_authorization_endpoint (si_metadata S) = None"
    "de_resource_metadata (en_resource_metadata (si_members S) (si_metadata S)) = Some (si_metadata S)"
    using example_metadata_rt [where m = "si_metadata S" and url = "local_url rp" and mode = "Some RW_AgentToken" and endpoint = None]
    by (simp_all add: S identity_site_def identity_resource_metadata_def example_metadata_def)
  obtain w1 a where begun: "handle_inner A False (data_request rp) (w, agent_auth_from_options (ag_opts A)) =
      agent_loop A False (local_url rp) (data_request rp) (w1, a)"
    "next_attempt (ag_order A) (ck_now (ag_clock A) w1) (local_url rp) a = (AA_AgentSigned, a)"
    using session_start [OF l m world(2) _ agent(2), of w] world(3) s(2) by auto
  obtain rq v where q: "layer_verify (si_layer S w1) (ev_now (si_env S w1)) rq = Ok v" "vs_jwt v = Some agent_jwt"
    "vs_thumbprint v = kp_thumbprint (tk_agent_ephemeral keys)"
    "\<forall>resp st. data_route (si_layer S w1) (ev_now (si_env S w1)) rq (state w1) = (Some resp, st) \<longrightarrow>
      (\<exists>w'. sign_and_run A AA_AgentSigned (data_request rp) w1 = (Ok resp, w') \<and> state w' = st)"
    using data_sent [OF l _ s(3), of AA_AgentSigned agent_jwt w1] s(2,4) by auto
  obtain w2 where "sign_and_run A AA_AgentSigned (data_request rp) w1 =
      (Ok (json_response (cr_json X) 200 [] (JObj [(''agent'', JStr AGENT_ID), (''status'', JStr ''ok'')])), w2)"
    using q(4) identity_admitted [OF crates(1) test_keys_kept [OF crates(2)] main(1-4) linked_times(2) [OF l] s(1) q(1-3)] by metis
  from finishing_turn [OF begun(2) this refl] begun(1) show ?thesis by simp
qed

section \<open>Person Server managed\<close>

text \<open>
  \<open>managed_site\<close>: the resource and the Person Server of the example at their ports; \<open>uuid\<close> is the
  UUID that a call draws, \<open>members\<close> and \<open>iter\<close> are the iteration orders of the hash maps.
\<close>

definition managed_site ::
    "('key, 'sk, 'ek, 'p, 'g) crates \<Rightarrow> 'sk test_keys \<Rightarrow> ('p, 'g) front \<Rightarrow> ('w \<Rightarrow> env) \<Rightarrow> ('w \<Rightarrow> string) \<Rightarrow>
     ((string \<rightharpoonup> string) \<Rightarrow> (string \<times> string) list) \<Rightarrow> fetcher \<Rightarrow> u16 \<Rightarrow> u16 \<Rightarrow> ('w, 's) servers \<Rightarrow>
     ('w, 'key, 'p, 'g, 'err, 's) site" where
  "managed_site X keys Fr ev uuid members F pp rp others =
     \<lparr>si_layer = (\<lambda>w. managed_resource_app X (uuid w) keys (local_url rp) (local_url pp) F),
      si_metadata = person_managed_resource_metadata (local_url rp), si_front = Fr, si_env = ev,
      si_members = members, si_resource_port = rp, si_other = others\<rparr>"

definition managed_person ::
    "('key, 'sk, 'ek, 'p, 'g) crates \<Rightarrow> 'sk test_keys \<Rightarrow> ('w \<Rightarrow> env) \<Rightarrow> ('w \<Rightarrow> string) \<Rightarrow>
     ((string \<times> person_pending_context pending_record) list \<Rightarrow> (string \<times> person_pending_context pending_record) list) \<Rightarrow>
     fetcher \<Rightarrow> u16 \<Rightarrow> u16 \<Rightarrow> 'w \<Rightarrow> ('key, person_pending_context mem_store, 'e) person_service" where
  "managed_person X keys ev uuid iter F pp rp w =
     managed_person_server X iter (ev_now (ev w)) (uuid w) keys (local_url pp) (local_url rp) F"

text \<open>\<open>resource_tokens\<close>, \<open>person_tokens\<close>: the texts of the tokens that the two parties make in each world.\<close>

definition resource_tokens ::
    "('key, 'sk, 'ek, 'p, 'g) crates \<Rightarrow> 'sk test_keys \<Rightarrow> ('w, 'key, 'p, 'g, 'err, 's) site \<Rightarrow> i64 \<Rightarrow> string \<Rightarrow> string \<Rightarrow>
     string \<Rightarrow> ('w \<Rightarrow> string) \<Rightarrow> bool" where
  "resource_tokens X keys S t0 j0 ps aud rt \<longleftrightarrow>
     (\<forall>w. resource_signer (cr_keys X) keys (typ_as_str Typ_Resource) (challenge_claims (si_layer S w) (ev_now (si_env S w))
        (kp_thumbprint (tk_agent_ephemeral keys)) (flow_agent (cr_jwt X) keys t0 j0 AGENT_ISSUER AGENT_ID ps) aud) = Ok (rt w))"

definition minted_tokens ::
    "(i64 \<Rightarrow> string \<Rightarrow> minter) \<Rightarrow> 'key jwt_lib \<Rightarrow> 'sk test_keys \<Rightarrow> ('w \<Rightarrow> env) \<Rightarrow> ('w \<Rightarrow> string) \<Rightarrow> string \<Rightarrow> string \<Rightarrow> string \<Rightarrow>
     ('w \<Rightarrow> string) \<Rightarrow> bool" where
  "minted_tokens minter L keys ev uuid iss resource user tok \<longleftrightarrow>
     (\<forall>w. minter (ev_now (ev w)) (uuid w) iss resource AGENT_ID (kp_public_jwk L (tk_agent_ephemeral keys)) (Some user) None = Ok (tok w))"

lemma managed_asserting:
  assumes crates: "sound_crates X" "keys_kept (cr_jwt X) (cr_keys X) keys"
    and main: "managed_main X t0 j0 keys (local_url ap) (local_url pp) (local_url rp) = Some ex" "ap \<noteq> rp"
    and S: "S = managed_site X keys Fr ev uuid members (ex_fetcher ex) pp rp (person_routes Fr ev svc pp other)"
      "svc = managed_person X keys ev uuid iter (ex_fetcher ex) pp rp"
    and tokens: "resource_tokens X keys S t0 j0 (local_url pp) (local_url pp) rt"
      "minted_tokens (person_minter (cr_keys X) keys) (cr_jwt X) keys ev uuid (local_url pp) (local_url rp) ''user-123'' tok"
  shows "asserting X keys S svc pp (ex_fetcher ex) agent_jwt
    (flow_agent (cr_jwt X) keys t0 j0 AGENT_ISSUER AGENT_ID (local_url pp)) (local_url pp) ''aauth-person.json'' (tk_person_server keys)
    ''user-123'' uuid rt tok"
proof -
  let ?L = "cr_jwt X" and ?K = "cr_keys X" and ?F = "ex_fetcher ex" and ?ps = "local_url pp" and ?resource = "local_url rp"
  let ?agent = "flow_agent ?L keys t0 j0 AGENT_ISSUER AGENT_ID ?ps" and ?tp = "kp_thumbprint (tk_agent_ephemeral keys)"
  have set: "managed_setup ?K keys AGENT_ISSUER ?ps (si_layer S w) (svc w') ?F (cr_low X) ''user-123'' (ev_now (ev w')) (uuid w')" for w w'
    using managed_example_setup [OF crates main(2,1)] by (simp add: S managed_site_def managed_person_def)
  have l: "built_with (si_layer S w) X" "rl_resource_url (si_layer S w) = ?resource" "rl_fetcher (si_layer S w) = ?F"
    "rl_sign (si_layer S w) = resource_signer ?K keys" "rl_jwt (si_layer S w) = ?L" "si_resource_port S = rp"
    "si_env S = ev" "si_front S = Fr" "si_other S = person_routes Fr ev svc pp other" for w
    by (simp_all add: S managed_site_def managed_resource_app_def built_with_def)
  have p: "pv_lib (svc w) = ?L" "psc_person_server_url (pv_config (svc w)) = ?ps" "psc_pending_base_url (pv_config (svc w)) = ?ps" for w
    by (simp_all add: S managed_person_def managed_person_server_def person_server_from_policy_def)
  have w: "wired ?K keys AGENT_ISSUER ?ps ?ps (si_layer S w) (pv_config (svc w')) ?F"
    "publishes ?L ?F ?ps ''aauth-person.json'' (tk_person_server keys)" for w w'
    using set [of w w'] by (simp_all add: managed_setup_def l Let_def)
  have grant: "person_exchange_token (ev w) (svc w)
      \<lparr>pt_person_server_url = ?ps, pt_resource_url = ?resource, pt_agent_claims = ?agent,
       pt_resource_claims = challenge_claims (si_layer S w') (ev_now (ev w')) ?tp ?agent ?ps,
       pt_exchange_request = plain_exchange (rt w')\<rparr> agent_jwt s = (Ok (PF_Granted (minted_answer (tok w))), s)" for w w' s
    by (rule managed_grant [OF set [of w w]])
      (use tokens(2) wiredD(6) [OF w(1)] in \<open>simp_all add: challenge_claims_def resource_token_claims_def flow_agent_fields l minted_tokens_def\<close>)
  show ?thesis
    unfolding asserting_def Let_def
    using crates(2) tokens w grant l p
    by (auto simp: keys_kept_def resource_tokens_def minted_tokens_def person_minter_def mint_person_auth_jwt_def)
qed

text \<open>
  C3: the \<^verbatim>\<open>person_server_managed\<close> example runs. With sound crates, the keys that were generated, and
  the parties that \<^verbatim>\<open>main\<close> wires at their local ports, the client it builds calls \<^verbatim>\<open>/api/data\<close> in any
  world: the middleware looks for an authorization endpoint and finds none, is challenged, fetches
  the Person Server's metadata, posts the token exchange, verifies and caches the token, retries,
  and returns the answer \<^verbatim>\<open>{"status":"ok","user":"user-123"}\<close> to the caller. The network, the clocks
  and the JSON and URL crates are \<open>surrounded\<close> and \<open>documents_read\<close>.
\<close>
theorem managed_example_runs:
  assumes crates: "sound_crates X" "test_keys_generate (cr_jwt X) (cr_keys X) k1 k2 k3 k4 k5 = Some keys"
    and main: "managed_main X t0 j0 keys (local_url ap) (local_url pp) (local_url rp) = Some ex" "ap \<noteq> rp"
      "mint_agent_jwt (cr_jwt X) (cr_keys X) keys t0 j0 AGENT_ISSUER AGENT_ID (Some (local_url pp)) = Some agent_jwt"
      "within start t0" "ag_opts A = ex_agent ex"
    and S: "S = managed_site X keys Fr ev uuid members (ex_fetcher ex) pp rp (person_routes Fr ev svc pp other)"
      "svc = managed_person X keys ev uuid iter (ex_fetcher ex) pp rp"
    and tokens: "resource_tokens X keys S t0 j0 (local_url pp) (local_url pp) rt"
      "minted_tokens (person_minter (cr_keys X) keys) (cr_jwt X) keys ev uuid (local_url pp) (local_url rp) ''user-123'' tok"
    and world: "surrounded A X keys S state start (insert agent_jwt (range tok))" "documents_read A X S svc pp rt tok"
  shows "\<exists>s. handle_inner A False (data_request rp) (w, agent_auth_from_options (ag_opts A)) =
    Some (Ok (json_response (cr_json X) 200 [] (JObj [(''status'', JStr ''ok''), (''user'', JStr ''user-123'')])), s)"
proof -
  have kept: "keys_kept (cr_jwt X) (cr_keys X) keys" by (rule test_keys_kept [OF crates(2)])
  obtain mp where mp: "ex_fetcher ex = multi_party_fetcher mp" "client_build (cr_jwt X) (cr_keys X) t0 j0
      (cb_with_person_server (local_url pp) (client_builder_new keys (multi_party_fetcher mp))) = Some (ex_agent ex)"
    using managed_main_fetcher [OF main(1)] .
  note agent = client_built [OF mp(2), unfolded client_builders, OF refl main(3), folded mp(1) main(5)]
  have "linked A X keys S state start agent_jwt (range tok)"
    using world(1) agent by (simp add: linked_def runs_on_def surrounded_def)
  moreover have "exchanges A X S svc pp (ex_fetcher ex) rt tok"
    using world(2) agent by (simp add: exchanges_def)
  moreover have "si_resource_port S = rp" "rsm_authorization_endpoint (si_metadata S) = None"
    "de_resource_metadata (en_resource_metadata (si_members S) (si_metadata S)) = Some (si_metadata S)"
    using example_metadata_rt [where m = "si_metadata S" and url = "local_url rp" and mode = None and endpoint = None]
    by (simp_all add: S managed_site_def person_managed_resource_metadata_def example_metadata_def)
  ultimately show ?thesis
    using asserted_session [OF _ kept managed_asserting [OF crates(1) kept main(1,2) S tokens, of agent_jwt] _ main(3) refl main(4)]
    by simp
qed

section \<open>Federated\<close>

definition federated_site ::
    "('key, 'sk, 'ek, 'p, 'g) crates \<Rightarrow> 'sk test_keys \<Rightarrow> ('p, 'g) front \<Rightarrow> ('w \<Rightarrow> env) \<Rightarrow> ('w \<Rightarrow> string) \<Rightarrow>
     ((string \<rightharpoonup> string) \<Rightarrow> (string \<times> string) list) \<Rightarrow> fetcher \<Rightarrow> u16 \<Rightarrow> u16 \<Rightarrow> u16 \<Rightarrow> ('w, 's) servers \<Rightarrow>
     ('w, 'key, 'p, 'g, 'err, 's) site" where
  "federated_site X keys Fr ev uuid members F pp ap rp others =
     \<lparr>si_layer = (\<lambda>w. federated_resource_app X (uuid w) keys (local_url rp) (local_url pp) (local_url ap) F),
      si_metadata = federated_resource_metadata (local_url rp), si_front = Fr, si_env = ev,
      si_members = members, si_resource_port = rp, si_other = others\<rparr>"

text \<open>
  The servers of one process read one clock: what the Person Server starts in a world, the Access
  Server answers there. \<open>client w\<close> is what the Person Server's access client returns when it is
  used in the world \<open>w\<close>.
\<close>

definition federated_person ::
    "('key, 'sk, 'ek, 'p, 'g) crates \<Rightarrow> 'sk test_keys \<Rightarrow> ('w \<Rightarrow> env) \<Rightarrow> ('w \<Rightarrow> string) \<Rightarrow>
     ((string \<times> person_pending_context pending_record) list \<Rightarrow> (string \<times> person_pending_context pending_record) list) \<Rightarrow>
     ('w \<Rightarrow> access_client) \<Rightarrow> fetcher \<Rightarrow> u16 \<Rightarrow> u16 \<Rightarrow> 'w \<Rightarrow> ('key, person_pending_context mem_store, 'e) person_service" where
  "federated_person X keys ev uuid iter client F pp rp w =
     federated_person_server X iter (client w) (ev_now (ev w)) (uuid w) keys (local_url pp) (local_url rp) F"

definition federated_access ::
    "('key, 'sk, 'ek, 'p, 'g) crates \<Rightarrow> 'sk test_keys \<Rightarrow> ('w \<Rightarrow> env) \<Rightarrow> ('w \<Rightarrow> string) \<Rightarrow>
     ((string \<times> access_pending_context pending_record) list \<Rightarrow> (string \<times> access_pending_context pending_record) list) \<Rightarrow>
     u16 \<Rightarrow> u16 \<Rightarrow> u16 \<Rightarrow> 'w \<Rightarrow> (access_pending_context mem_store, 'e) access_service" where
  "federated_access X keys ev uuid iter ap pp rp w =
     federated_access_server X iter (ev_now (ev w)) (uuid w) keys (local_url ap) (local_url pp) (local_url rp)"

definition federates ::
    "('w \<Rightarrow> access_client) \<Rightarrow> ('w \<Rightarrow> ('v, 'p, 'g) as_client) \<Rightarrow> ('w \<Rightarrow> 'v) \<Rightarrow> ('p, 'g) front \<Rightarrow> 'key jwt_lib \<Rightarrow> ('w \<Rightarrow> env) \<Rightarrow>
     ('w \<Rightarrow> ('t, 'e) access_service) \<Rightarrow> ('v \<Rightarrow> 't) \<Rightarrow> string \<Rightarrow> ('w \<Rightarrow> string) \<Rightarrow> ('w \<Rightarrow> string) \<Rightarrow> bool" where
  "federates client C v AF L ev asvc stored agent_jwt rt tok \<longleftrightarrow>
     (\<forall>w w'. reaches (client w) (C w) (v w) AF L (ev w) (asvc w) stored
        (federation_documents (av_config (asvc w)) (federated_request (rt w') agent_jwt) (minted_answer (tok w))))"

lemma federated_asserting:
  assumes crates: "sound_crates X" "keys_kept (cr_jwt X) (cr_keys X) keys"
    and main: "federated_main X t0 j0 keys (local_url ap) (local_url pp) (local_url sp) (local_url rp) = Some ex" "ap \<noteq> rp" "pp \<noteq> sp"
      "mint_agent_jwt (cr_jwt X) (cr_keys X) keys t0 j0 AGENT_ISSUER AGENT_ID (Some (local_url pp)) = Some agent_jwt"
    and S: "S = federated_site X keys Fr ev uuid members (ex_fetcher ex) pp sp rp (person_routes Fr ev svc pp other)"
      "svc = federated_person X keys ev uuid iter client (ex_fetcher ex) pp rp"
      "asvc = federated_access X keys ev uuid iter' sp pp rp"
    and tokens: "resource_tokens X keys S t0 j0 (local_url pp) (local_url sp) rt"
      "minted_tokens (access_minter (cr_keys X) keys) (cr_jwt X) keys ev uuid (local_url sp) (local_url rp) ''user-federated'' tok"
    and net: "federates client C v AF (cr_jwt X) ev asvc stored agent_jwt rt tok" "\<And>w. within start (ev_now (ev w))"
  shows "asserting X keys S svc pp (ex_fetcher ex) agent_jwt
    (flow_agent (cr_jwt X) keys t0 j0 AGENT_ISSUER AGENT_ID (local_url pp)) (local_url sp) ''aauth-access.json'' (tk_access_server keys)
    ''user-federated'' uuid rt tok"
proof -
  let ?L = "cr_jwt X" and ?K = "cr_keys X" and ?F = "ex_fetcher ex" and ?ps = "local_url pp" and ?resource = "local_url rp"
  let ?as = "local_url sp"
  let ?agent = "flow_agent ?L keys t0 j0 AGENT_ISSUER AGENT_ID ?ps" and ?tp = "kp_thumbprint (tk_agent_ephemeral keys)"
  have set: "federated_setup ?K keys AGENT_ISSUER ?ps ?as (si_layer S w) (svc w') ?F (asvc w') (cr_low X) ''user-federated'' ''user-federated''
      (ev_now (ev w')) (uuid w')" for w w'
    using federated_example_setup [OF crates main(2,3,1)] by (simp add: S federated_site_def federated_person_def federated_access_def)
  have l: "built_with (si_layer S w) X" "rl_resource_url (si_layer S w) = ?resource" "rl_fetcher (si_layer S w) = ?F"
    "rl_sign (si_layer S w) = resource_signer ?K keys" "rl_jwt (si_layer S w) = ?L" "si_resource_port S = rp"
    "si_env S = ev" "si_front S = Fr" "si_other S = person_routes Fr ev svc pp other" for w
    by (simp_all add: S federated_site_def federated_resource_app_def built_with_def)
  have p: "pv_lib (svc w) = ?L" "psc_person_server_url (pv_config (svc w)) = ?ps" "psc_pending_base_url (pv_config (svc w)) = ?ps"
    "psc_access_server (pv_config (svc w)) = client w" for w
    by (simp_all add: S federated_person_def federated_person_server_def person_server_from_policy_def)
  have w: "wired ?K keys AGENT_ISSUER ?ps ?as (si_layer S w) (pv_config (svc w')) ?F"
    "publishes ?L ?F ?as ''aauth-access.json'' (tk_access_server keys)" for w w'
    using set [of w w'] by (simp_all add: federated_setup_def l Let_def)
  have grant: "person_exchange_token (ev w) (svc w)
      \<lparr>pt_person_server_url = ?ps, pt_resource_url = ?resource, pt_agent_claims = ?agent,
       pt_resource_claims = challenge_claims (si_layer S w') (ev_now (ev w')) ?tp ?agent ?as,
       pt_exchange_request = plain_exchange (rt w')\<rparr> agent_jwt s = (Ok (PF_Granted (minted_answer (tok w))), s)" for w w' s
  proof -
    have c: "rl_sign (si_layer S w') (typ_as_str Typ_Resource) (challenge_claims (si_layer S w') (ev_now (ev w')) ?tp ?agent ?as) = Ok (rt w')"
      using tokens(1) by (simp add: resource_tokens_def l)
    note t = wired_challenge_token(4-6) [OF w(1) [where w = w'] refl c]
    have "federate_to_access_server (rl_jwt (si_layer S w)) (ev_parse (ev w)) (ev_now (ev w)) (pv_config (svc w)) (rt w') agent_jwt =
        Ok (FedComplete (minted_answer (tok w)))"
    proof (rule federated_exchange [OF set [of w w]])
      show "parse_token (rl_jwt (si_layer S w)) (rt w') = Ok (PT_Resource (challenge_claims (si_layer S w') (ev_now (ev w')) ?tp ?agent ?as))"
        using t(1) by (simp add: l)
      show "parse_token (rl_jwt (si_layer S w)) agent_jwt = Ok (PT_Agent ?agent)"
        using wired_agent_token(2) [OF w(1) [where w = w]] main(4) by (simp add: l)
      show "access_minter ?K keys (ev_now (ev w)) (uuid w) ?as (rl_resource_url (si_layer S w)) AGENT_ID
          (kp_public_jwk (rl_jwt (si_layer S w)) (tk_agent_ephemeral keys)) (Some ''user-federated'') None = Ok (tok w)"
        using tokens(2) by (simp add: minted_tokens_def l)
      show "reaches (psc_access_server (pv_config (svc w))) (C w) (v w) AF (rl_jwt (si_layer S w)) (ev w) (asvc w) stored
          (federation_documents (av_config (asvc w)) (federated_request (rt w') agent_jwt) (minted_answer (tok w)))"
        using net(1) by (simp add: federates_def l p)
      show "\<not> expired_at (ev_now (ev w)) (ev_now (ev w) + 3600)" by (rule within_alive(3) [OF net(2) net(2)])
    qed (simp_all add: challenge_claims_fields flow_agent_fields l t)
    then show ?thesis
      by (intro federated_token_grant [OF set [of w w]]) (simp_all add: t challenge_claims_fields plain_exchange_def)
  qed
  show ?thesis
    unfolding asserting_def Let_def
    using crates(2) tokens w grant l p
    by (auto simp: keys_kept_def resource_tokens_def minted_tokens_def access_minter_def mint_access_auth_jwt_def)
qed

text \<open>
  C4: the \<^verbatim>\<open>federated\<close> example runs. As \<open>managed_example_runs\<close>, but the resource names an Access Server
  in its challenges: the Person Server takes the exchange there, over the network that \<open>federates\<close>
  describes, verifies the token that comes back and relays it, and the client's answer is
  \<^verbatim>\<open>{"status":"ok","user":"user-federated"}\<close>.
\<close>
theorem federated_example_runs:
  assumes crates: "sound_crates X" "test_keys_generate (cr_jwt X) (cr_keys X) k1 k2 k3 k4 k5 = Some keys"
    and main: "federated_main X t0 j0 keys (local_url ap) (local_url pp) (local_url sp) (local_url rp) = Some ex" "ap \<noteq> rp" "pp \<noteq> sp"
      "mint_agent_jwt (cr_jwt X) (cr_keys X) keys t0 j0 AGENT_ISSUER AGENT_ID (Some (local_url pp)) = Some agent_jwt"
      "within start t0" "ag_opts A = ex_agent ex"
    and S: "S = federated_site X keys Fr ev uuid members (ex_fetcher ex) pp sp rp (person_routes Fr ev svc pp other)"
      "svc = federated_person X keys ev uuid iter client (ex_fetcher ex) pp rp"
      "asvc = federated_access X keys ev uuid iter' sp pp rp"
    and tokens: "resource_tokens X keys S t0 j0 (local_url pp) (local_url sp) rt"
      "minted_tokens (access_minter (cr_keys X) keys) (cr_jwt X) keys ev uuid (local_url sp) (local_url rp) ''user-federated'' tok"
    and world: "surrounded A X keys S state start (insert agent_jwt (range tok))" "documents_read A X S svc pp rt tok"
      "federates client C v AF (cr_jwt X) ev asvc stored agent_jwt rt tok"
  shows "\<exists>s. handle_inner A False (data_request rp) (w, agent_auth_from_options (ag_opts A)) =
    Some (Ok (json_response (cr_json X) 200 [] (JObj [(''status'', JStr ''ok''), (''user'', JStr ''user-federated'')])), s)"
proof -
  have kept: "keys_kept (cr_jwt X) (cr_keys X) keys" by (rule test_keys_kept [OF crates(2)])
  obtain mp where mp: "ex_fetcher ex = multi_party_fetcher mp" "client_build (cr_jwt X) (cr_keys X) t0 j0
      (cb_with_person_server (local_url pp) (client_builder_new keys (multi_party_fetcher mp))) = Some (ex_agent ex)"
    using federated_main_fetcher [OF main(1)] .
  note agent = client_built [OF mp(2), unfolded client_builders, OF refl main(4), folded mp(1) main(6)]
  have l: "linked A X keys S state start agent_jwt (range tok)"
    using world(1) agent by (simp add: linked_def runs_on_def surrounded_def)
  have s: "si_env S = ev" "si_resource_port S = rp" by (simp_all add: S federated_site_def)
  have "exchanges A X S svc pp (ex_fetcher ex) rt tok"
    using world(2) agent by (simp add: exchanges_def)
  moreover have "rsm_authorization_endpoint (si_metadata S) = None"
    "de_resource_metadata (en_resource_metadata (si_members S) (si_metadata S)) = Some (si_metadata S)"
    using example_metadata_rt [where m = "si_metadata S" and url = "local_url rp" and mode = None and endpoint = None]
    by (simp_all add: S federated_site_def federated_resource_metadata_def example_metadata_def)
  ultimately show ?thesis
    using asserted_session [OF l kept federated_asserting [OF crates(1) kept main(1-4) S tokens world(3) linked_times(2) [OF l, unfolded s(1)]]
        _ main(4) refl main(5)] s(2)
    by simp
qed

section \<open>Resource managed\<close>

text \<open>\<open>code\<close> and \<open>bytes\<close> are the random bytes that a call draws for an interaction code and an opaque token.\<close>

definition resource_managed_site ::
    "('key, 'sk, 'ek, 'p, 'g) crates \<Rightarrow> 'sk test_keys \<Rightarrow> ('p, 'g) front \<Rightarrow> ('w \<Rightarrow> env) \<Rightarrow> ('w \<Rightarrow> string) \<Rightarrow>
     ((string \<rightharpoonup> string) \<Rightarrow> (string \<times> string) list) \<Rightarrow> ((string \<times> resource_pending_context pending_record) list \<Rightarrow>
       (string \<times> resource_pending_context pending_record) list) \<Rightarrow> (string \<Rightarrow> string) \<Rightarrow> ('w \<Rightarrow> u8 list) \<Rightarrow> ('w \<Rightarrow> u8 list) \<Rightarrow>
     fetcher \<Rightarrow> u16 \<Rightarrow> ('w, managed_store) servers \<Rightarrow> ('w, 'key, 'p, 'g, 'e resource_error, managed_store) site" where
  "resource_managed_site X keys Fr ev uuid members iter b64 code bytes F rp other =
     (let access = managed_access ev iter b64 code bytes rp in
      \<lparr>si_layer = (\<lambda>w. resource_managed_layer X (uuid w) keys (local_url rp) (access w) F),
       si_metadata = resource_managed_metadata (local_url rp), si_front = Fr, si_env = ev, si_members = members,
       si_resource_port = rp, si_other = resource_routes Fr (cr_jwt X) ev access (local_url rp) rp other\<rparr>)"

lemma resource_managed_site_self:
  "self_managed X (resource_managed_site X keys Fr ev uuid members iter b64 code bytes F rp other) iter b64 code bytes"
  using example_metadata_rt [where m = "resource_managed_metadata (local_url rp)" and url = "local_url rp" and members = members
      and mode = "Some RW_AauthAccessToken" and endpoint = "Some (local_url rp @ ''/resource/authorize'')"]
  by (auto simp: self_managed_def resource_managed_site_def Let_def resource_managed_layer_def built_with_def resource_managed_metadata_def)

text \<open>
  C6: the \<^verbatim>\<open>resource_managed\<close> example runs. The client that \<^verbatim>\<open>main\<close> builds calls \<^verbatim>\<open>/api/data\<close>: the
  middleware finds the authorization endpoint in the metadata and posts to it, the policy defers the
  request to an interaction, the callback approves it, polling returns the opaque token once, and
  the first attempt, signed over that token, is answered with the agent's identity. No key of the
  agent's issuer is needed for it.
\<close>
theorem resource_managed_example_runs:
  assumes main: "sound_crates X" "resource_managed_main X t0 j0 keys on_interaction (local_url ap) (local_url rp) = Some ex"
      "mint_agent_jwt (cr_jwt X) (cr_keys X) keys t0 j0 AGENT_ISSUER AGENT_ID None = Some agent_jwt" "ag_opts A = ex_agent ex"
    and S: "S = resource_managed_site X keys Fr ev uuid members iter b64 code bytes (ex_fetcher ex) rp other"
    and world: "surrounded A X keys S state start {agent_jwt}" "operated A state iter b64 bytes"
      "consent_read A X keys ev rp b64 bytes agent_jwt" "yields_keys (ag_order A)"
  shows "\<exists>s. handle_inner A False (data_request rp) (w, agent_auth_from_options (ag_opts A)) =
    Some (Ok (json_response (cr_json X) 200 [] (JObj [(''agent'', JStr AGENT_ID), (''status'', JStr ''ok'')])), s)"
proof -
  obtain mp where mp: "client_build (cr_jwt X) (cr_keys X) t0 j0
      (cb_interaction on_interaction (client_builder_new keys (multi_party_fetcher mp))) = Some (ex_agent ex)"
    using main(2) by (auto simp: resource_managed_main_def bind_eq_Some_conv)
  note built = client_built [OF mp, unfolded client_builders, OF refl main(3), folded main(4)]
  have l: "linked A X keys S state start agent_jwt {}"
    using world(1) built by (simp add: linked_def runs_on_def surrounded_def)
  have s: "rp = si_resource_port S" "si_env S = ev" "self_managed X S iter b64 code bytes"
    using resource_managed_site_self by (simp_all add: S) (simp_all add: resource_managed_site_def Let_def)
  have "parse_token (cr_jwt X) agent_jwt =
      Ok (PT_Agent (mint_agent_claims t0 j0 (kp_public_jwk (cr_jwt X) (tk_agent_ephemeral keys)) AGENT_ISSUER AGENT_ID None))"
    using agent_token_reads main(1,3) by (auto simp: sound_crates_def mint_agent_jwt_def)
  then show ?thesis
    using self_managed_session [OF l s(1,3) _ world(2), unfolded s(2), OF world(3) _ _ _ world(4)] built
    by (simp add: mint_agent_claims_def)
qed

end
