(* ===== verification/Example_Samples.thy ===== *)
theory Example_Samples
  imports Example_Runs Flow_Samples
begin

text \<open>
  A concrete machine for the examples: one key, one text per kind of token, three ports, a JSON
  crate that knows the documents of a run, and a network that hands every request to the servers
  of the site and their answer back. The examples run on it.
\<close>

section \<open>The crates\<close>

definition local_claims :: "string option \<Rightarrow> agent_claims" where
  "local_claims ps = mint_agent_claims 1000 ''j1'' (public_jwk_for sample_lib [] None) AGENT_ISSUER AGENT_ID ps"

definition local_lib :: "agent_claims \<Rightarrow> auth_claims \<Rightarrow> resource_claims \<Rightarrow> string jwt_lib" where
  "local_lib ag au rc = (minted_lib au rc)\<lparr>jl_insecure_agent := (\<lambda>_. Ok ag), jl_decode_agent := (\<lambda>_ _ _ _ _. Ok ag)\<rparr>"

definition local_keys_lib :: "agent_claims \<Rightarrow> auth_claims \<Rightarrow> resource_claims \<Rightarrow> (unit, unit) key_lib" where
  "local_keys_lib ag au rc = (minted_keys_lib au rc)
     \<lparr>kl_encode_agent := (\<lambda>h c _. if h = eddsa_header Typ_Agent (Some ''T'') \<and> c = ag then Ok ''agent.p.s'' else Err ''other'')\<rparr>"

definition port_of :: "string \<Rightarrow> u16 option" where
  "port_of s = List.find (\<lambda>port. local_url port = s) (map of_nat [0..<65536])"

definition local_parse :: url_parser where
  "local_parse s =
     (if s = AGENT_ISSUER
      then Some \<lparr>u_scheme = ''https'', u_username = [], u_password = None, u_host_str = Some ''example.com'', u_port = None,
        u_path = ''/'', u_query = None, u_fragment = None\<rparr>
      else map_option (\<lambda>port. \<lparr>u_scheme = ''http'', u_username = [], u_password = None, u_host_str = Some ''127.0.0.1'',
        u_port = (if port = 80 then None else Some port), u_path = ''/'', u_query = None, u_fragment = None\<rparr>) (port_of s))"

text \<open>The crate writes the i-th document as i letters.\<close>

definition document_json :: "json list \<Rightarrow> serde_json" where
  "document_json js =
     \<lparr>sj_parse = (\<lambda>s. if 0 < length s \<and> length s \<le> length js then Some (js ! (length s - 1)) else None),
      sj_print = (\<lambda>j. case List.find (\<lambda>i. js ! i = j) [0..<length js] of
        Some i \<Rightarrow> replicate (Suc i) (CHR ''x'') | None \<Rightarrow> []),
      sj_error = (\<lambda>_. [])\<rparr>"

definition local_crates ::
    "agent_claims \<Rightarrow> auth_claims \<Rightarrow> resource_claims \<Rightarrow> json list \<Rightarrow>
     (string, unit, unit, string list \<times> u64 option, string list \<times> u64 option) crates" where
  "local_crates ag au rc js =
     \<lparr>cr_http = fr_http sample_front, cr_jwt = local_lib ag au rc, cr_keys = local_keys_lib ag au rc, cr_up = id, cr_low = id,
      cr_parse = local_parse, cr_json = document_json js\<rparr>"

lemma local_codec: "key_codec (local_lib ag au rc) (local_keys_lib ag au rc)"
  by (auto simp: key_codec_def codec_for_def local_lib_def local_keys_lib_def minted_lib_def minted_keys_lib_def sample_lib_def
      header_segment_def eddsa_header_def to_str_ok_def byte_def unquoted_def json_get_def split: if_splits)

lemma local_reads_jwk: "reads_jwk (local_keys_lib ag au rc)"
  by (simp add: reads_jwk_def local_keys_lib_def minted_keys_lib_def public_jwk_rt)

lemma local_public: "public_jwk_for (local_lib ag au rc) v kid = public_jwk_for sample_lib [] kid"
  by (simp add: public_jwk_for_def local_lib_def minted_lib_def sample_lib_def)

lemma local_thumbprint:
  "jwk_thumbprint (local_lib ag au rc) (public_jwk_for sample_lib [] kid) = Ok ''T''"
  "httpsig_thumbprint (local_lib ag au rc) sample_jwk = Ok ''T''"
  by (simp_all add: jwk_thumbprint_def httpsig_thumbprint_def thumbprint_members_def public_jwk_for_def
      local_lib_def minted_lib_def sample_lib_def sample_jwk_def)

lemma local_generate:
  "test_keys_generate (local_lib ag au rc) (local_keys_lib ag au rc) () () () () () = Some minted_test_keys"
  by (simp add: test_keys_generate_def generate_with_thumbprint_kid_def generate_key_def generate_inner_def
      Let_def local_public local_thumbprint minted_test_keys_def minted_pair_def)
    (simp add: local_keys_lib_def minted_keys_lib_def)

lemma port_of_local: "port_of (local_url port) = Some port"
proof -
  let ?ports = "map of_nat [0..<65536] :: u16 list"
  have "port = of_nat (unat port)" "unat port < 65536" using unsigned_less [of port] by simp_all
  then have m: "port \<in> set ?ports" by (metis atLeast0LessThan image_eqI lessThan_iff set_map set_upt)
  then have "List.find (\<lambda>q. local_url q = local_url port) ?ports \<noteq> None"
    by (auto simp: find_None_iff)
  then obtain q where "List.find (\<lambda>q. local_url q = local_url port) ?ports = Some q" by blast
  then show ?thesis by (auto simp: port_of_def find_Some_iff local_url_inj)
qed

lemma local_sound: "sound_crates (local_crates ag au rc js)"
proof -
  have "local_url port \<noteq> AGENT_ISSUER" for port by (simp add: local_url_def AGENT_ISSUER_def)
  then show ?thesis
    by (simp add: sound_crates_def local_crates_def local_codec local_reads_jwk reads_urls_def local_parse_def port_of_local)
qed

lemma document_read: "j \<in> set js \<Longrightarrow> reads_back (document_json js) j"
proof -
  assume "j \<in> set js"
  then have "List.find (\<lambda>i. js ! i = j) [0..<length js] \<noteq> None"
    by (auto simp: find_None_iff in_set_conv_nth)
  then obtain i where i: "List.find (\<lambda>i. js ! i = j) [0..<length js] = Some i" by blast
  then have "i < length js" "js ! i = j" by (auto simp: find_Some_iff)
  with i show ?thesis by (simp add: reads_back_def document_json_def)
qed

section \<open>The network\<close>

text \<open>Servers that listen at local ports; the world of the agent is the state of the servers.\<close>

definition local_client :: "serde_json \<Rightarrow> (u16 \<times> string) list \<Rightarrow> client_lib" where
  "local_client sj urls = sample_client
     \<lparr>cl_request := map_of (map (\<lambda>(port, path). (local_url port @ path, local_parts port path)) urls),
      cl_url_string := (\<lambda>u. case u_port u of None \<Rightarrow> [] | Some port \<Rightarrow> local_url port), cl_origin := Ok, cl_json := sj,
      cl_parse := (\<lambda>s. ok_or (map_of (map (\<lambda>(port, path). (local_url port @ path, local_parts port path)) urls) s) [])\<rparr>"

definition local_delivered :: "out_request \<Rightarrow> request" where
  "local_delivered out =
     \<lparr>rq_method = or_method out, rq_host = None, rq_port = None, rq_path = u_path (or_url out),
      rq_headers = or_headers out @ [(''host'', url_authority (or_url out))],
      rq_body = (case or_body out of None \<Rightarrow> [] | Some body \<Rightarrow> body)\<rparr>"

definition local_discovery :: request where
  "local_discovery =
     \<lparr>rq_method = ''GET'', rq_host = None, rq_port = None, rq_path = ''/.well-known/aauth-resource.json'', rq_headers = [], rq_body = []\<rparr>"

definition local_answer :: "'e \<Rightarrow> response option \<times> 'w \<Rightarrow> ('e + response) \<times> 'w" where
  "local_answer closed r = (case r of (Some resp, w) \<Rightarrow> (Ok resp, w) | (None, w) \<Rightarrow> (Err closed, w))"

definition local_agent ::
    "(string, 'sk, 'ek, 'p, 'g) crates \<Rightarrow> (u16 \<times> string) list \<Rightarrow> u16 \<Rightarrow> ('w, 'w) servers \<Rightarrow> 'w agent_options \<Rightarrow>
     ('w, 'p, 'g, string) agent" where
  "local_agent X urls rp serve opts =
     \<lparr>ag_opts = opts, ag_client = local_client (cr_json X) urls, ag_clock = \<lparr>ck_now = (\<lambda>_. 0), ck_sleep = (\<lambda>_ w. w)\<rparr>,
      ag_http = cr_http X, ag_jwt = cr_jwt X, ag_up = cr_up X, ag_low = id, ag_unix = (\<lambda>_. 1000), ag_order = id,
      ag_next = (\<lambda>_ out w. case u_port (or_url out) of
          None \<Rightarrow> (Err (MW_Reqwest ''no port''), w)
        | Some port \<Rightarrow> local_answer (MW_Reqwest ''closed'') (serve w port (local_delivered out) w)),
      ag_get = (\<lambda>url w. if url = local_url rp @ ''/.well-known/aauth-resource.json''
        then local_answer ''closed'' (serve w rp local_discovery w) else (Err ''no such server'', w))\<rparr>"

definition local_front :: "json list \<Rightarrow> (string list \<times> u64 option, string list \<times> u64 option) front" where
  "local_front js = sample_front\<lparr>fr_json := document_json js\<rparr>"

lemma local_agent_simps [simp]:
  "ag_opts (local_agent X urls rp serve opts) = opts" "ag_client (local_agent X urls rp serve opts) = local_client (cr_json X) urls"
  "ag_clock (local_agent X urls rp serve opts) = \<lparr>ck_now = (\<lambda>_. 0), ck_sleep = (\<lambda>_ w. w)\<rparr>"
  "ag_unix (local_agent X urls rp serve opts) w = 1000" "ag_order (local_agent X urls rp serve opts) = id"
  "linked_with (local_agent X urls rp serve opts) X" "cl_body (local_client sj urls) resp = Ok (rs_body resp)"
  by (simp_all add: local_agent_def linked_with_def local_client_def sample_client_def)

lemma local_authority: "url_authority (local_parts port path) = ''127.0.0.1:'' @ show_nat (unat port)"
  by (simp add: url_authority_def local_parts_def)

lemma local_authority_str: "to_str_ok (url_authority (local_parts port path))"
proof -
  have d: "list_all (\<lambda>c. (32 \<le> byte c \<and> byte c < 127) \<or> byte c = 9) (show_nat n)" for n
    using show_nat_digits [of n] by (auto simp: list_all_iff digit_def)
  then show ?thesis unfolding local_authority to_str_ok_def list_all_append by (simp add: byte_def)
qed

lemma local_connects:
  fixes serve :: "('w, 'w) servers" and opts :: "'w agent_options"
  shows "connects (local_agent X urls rp serve opts) serve (\<lambda>w. w)"
  unfolding connects_def
proof (intro allI impI)
  fix attempt port path and out :: out_request and w :: 'w
  assume o: "or_url out = local_parts port path" "hm_get (or_headers out) ''host'' = None"
  have "on_wire out (local_delivered out)"
    using o local_authority_str [of port path]
    by (auto simp: on_wire_def local_delivered_def carries_def header_value_def hm_get_append hm_get_all_def split: option.splits)
  moreover have "answers_to (local_agent X urls rp serve opts) serve (\<lambda>w. w) port (local_delivered out) w
      (\<lambda>resp w'. ag_next (local_agent X urls rp serve opts) attempt out w = (Ok resp, w'))"
    using o(1) by (simp add: answers_to_def) (simp add: local_agent_def local_answer_def local_parts_def)
  ultimately show "\<exists>rq. on_wire out rq \<and> answers_to (local_agent X urls rp serve opts) serve (\<lambda>w. w) port rq w
      (\<lambda>resp w'. ag_next (local_agent X urls rp serve opts) attempt out w = (Ok resp, w'))" by blast
qed

lemma local_discovers:
  fixes serve :: "('w, 'w) servers" and opts :: "'w agent_options"
  shows "discovers (local_agent X urls rp serve opts) serve (\<lambda>w. w) rp"
  unfolding discovers_def
proof (intro allI exI conjI)
  fix w :: 'w
  show "rq_method local_discovery = ''GET''" "rq_path local_discovery = ''/.well-known/aauth-resource.json''"
    by (simp_all add: local_discovery_def)
  show "answers_to (local_agent X urls rp serve opts) serve (\<lambda>w. w) rp local_discovery w
      (\<lambda>resp w'. ag_get (local_agent X urls rp serve opts) (local_url rp @ ''/.well-known/aauth-resource.json'') w = (Ok resp, w'))"
    by (simp add: answers_to_def) (simp add: local_agent_def local_answer_def)
qed

lemma local_signs:
  assumes "jwt \<in> {''agent.p.s'', ''auth.p.s''}" "extras \<in> {[], sample_extras}"
  shows "signs_tokens (local_crates ag au rc js) minted_test_keys paths extras 1000 jwt"
proof -
  let ?H = "fr_http sample_front" and ?L = "local_lib ag au rc" and ?K = "local_keys_lib ag au rc"
  let ?signing = "kp_signing_jwk ?L ?K (tk_agent_ephemeral minted_test_keys)"
  have secret: "secret_key_from_signing_jwk ?H ?signing = Ok (''ed25519'', replicate 32 (CHR 0x01))"
    by (simp add: secret_key_from_signing_jwk_def kp_signing_jwk_def sample_http_def sample_front_def)
  have lib: "hl_new_params ?H is = Inr (is, None)" "hl_set_created ?H t (is, c) = (is, Some t)"
    "hl_base ?H ls ps = Inr ()" "hl_header_name ?H n = Some n" for "is" t c ls ps n
    by (simp_all add: sample_http_def sample_front_def)
  obtain input sg where built: "\<And>ls sk. hl_build ?H ls (sample_params extras) sk ''sig'' = Inr (input, sg)"
    "header_value_ok input" "header_value_ok sg"
  proof (cases extras)
    case Nil
    then show ?thesis using that [of "''i1''" "''s1''"] by (simp add: sample_front_def header_value_ok_def byte_def)
  next
    case (Cons e es)
    then have "extras = sample_extras" using assms(2) by simp
    then show ?thesis
      using that [of "''i2''" "''s2''"] sample_params_distinct by (auto simp: sample_front_def header_value_ok_def byte_def)
  qed
  have ids: "all_ok (hl_component_id ?H) ns = Ok (map (\<lambda>n. ''\"'' @ n @ ''\"'') ns)"
    "all_ok (hl_component ?H) ls = Ok (map (\<lambda>_. ()) ls)" for ns ls
    by (rule all_ok_Ok, simp add: sample_http_def sample_front_def)+
  have p: "(map (\<lambda>n. ''\"'' @ n @ ''\"'') (required_components @ map fst extras), Some 1000) = sample_params extras"
    by (simp add: sample_params_def)
  have header_ok: "header_value_ok (''sig=jwt;'' @ quoted_param ''jwt'' jwt)"
    using assms(1) by (auto simp: quoted_param_def header_value_ok_def byte_def)
  have signed: "\<exists>headers'. http_sign ?H id 1000 meth authority path
      \<lparr>sm_signing_jwk = ?signing, sm_signature_key = SK_Jwt jwt\<rparr> extras None headers = (Ok (), headers')" for meth authority path headers
    using p header_ok by (simp add: http_sign_def seq_def sk_to_header_def insert_header_def Let_def secret ids lib built)
  have jwt: "clean jwt" "to_str_ok jwt" using assms by (auto simp: clean_def to_str_ok_def byte_def)
  have crates: "cr_http (local_crates ag au rc js) = ?H" "cr_jwt (local_crates ag au rc js) = ?L" "cr_keys (local_crates ag au rc js) = ?K"
    "cr_up (local_crates ag au rc js) = id"
    by (simp_all add: local_crates_def)
  show ?thesis
    unfolding signs_tokens_def Let_def crates
    using jwt flow_cnf [OF assms(1)] local_thumbprint(2) secret flow_public_key flow_crate signed by auto
qed

lemma local_timely: "timely (local_agent X urls rp serve opts) (\<lambda>_. sample_env) 1000" "within 1000 1000"
  by (auto simp: timely_def within_def sample_env_def intro!: exI [of _ 0])

lemma local_surrounded:
  fixes S :: "('w, string, string list \<times> u64 option, string list \<times> u64 option, 'err, 'w) site"
  assumes "si_env S = (\<lambda>_. sample_env)" "si_front S = local_front js"
    and "en_resource_metadata (si_members S) (si_metadata S) \<in> set js" "tokens \<subseteq> {''agent.p.s'', ''auth.p.s''}"
    and "X = local_crates ag au rc js" "A = local_agent X urls (si_resource_port S) (site_serve S) opts"
  shows "surrounded A X minted_test_keys S (\<lambda>w. w) 1000 tokens"
proof -
  have "signs_tokens X minted_test_keys session_paths [] (ag_unix A w) jwt" if "jwt \<in> tokens" for w jwt
    using that assms(4,5,6) local_signs [of jwt "[]"] by auto
  moreover have "ev_up (si_env S w) = cr_up X" "cr_http X = fr_http sample_front" "cr_json X = document_json js" for w
    using assms(1,5) by (simp_all add: sample_env_def local_crates_def id_def)
  moreover have "fr_http (local_front js) = fr_http sample_front" "fr_json (local_front js) = document_json js"
    "fr_bytes (local_front js) rq = Ok (rq_body rq)" "fr_json_type (local_front js) hs" for rq hs
    by (simp_all add: local_front_def sample_front_def)
  moreover have "reads_back (document_json js) (en_resource_metadata (si_members S) (si_metadata S))"
    by (rule document_read [OF assms(3)])
  ultimately show ?thesis
    unfolding surrounded_def using assms(1,2,6) local_connects local_discovers local_timely(1) by auto
qed

section \<open>The parties at their ports\<close>

text \<open>The agent provider is at port 5001, the Person Server at 5002, the resource at 5003.\<close>

definition local_challenge :: "string \<Rightarrow> resource_claims" where
  "local_challenge aud = resource_token_claims 1000 ''j''
     \<lparr>ro_resource = local_url 5003, ro_audience = aud, ro_agent = AGENT_ID, ro_agent_jkt = ''T'', ro_scope = None,
      ro_mission = None, ro_lifetime = None, ro_interaction = None\<rparr>"

definition local_auth :: "string \<Rightarrow> string \<Rightarrow> string \<Rightarrow> auth_claims" where
  "local_auth dwk iss user = mint_auth_claims 1000 ''j'' dwk iss (local_url 5003) AGENT_ID (public_jwk_for sample_lib [] None) (Some user) None"

definition local_documents :: "resource_server_metadata \<Rightarrow> json list" where
  "local_documents m =
     [en_resource_metadata (\<lambda>_. []) m,
      en_person_metadata (served_person_metadata (sample_config
        \<lparr>psc_person_server_url := local_url 5002, psc_person_jwks_uri := local_url 5002 @ ''/auth/jwks'',
         psc_interaction_url := local_url 5002 @ ''/interact'', psc_pending_base_url := local_url 5002\<rparr>)),
      en_token_exchange (plain_exchange ''resource.p.s''), en_token_response (minted_answer ''auth.p.s'')]"

definition local_urls :: "(u16 \<times> string) list" where
  "local_urls = [(5003, ''/api/data''), (5002, ''/.well-known/aauth-person.json''), (5002, ''/aauth/token''),
     (5003, ''/resource/authorize''), (5003, ''/resource/pending/0102'')]"

lemma local_reads:
  "reads_local (local_client sj local_urls) 5003 ''/api/data''"
  "reads_local (local_client sj local_urls) 5002 ''/.well-known/aauth-person.json''"
  "reads_local (local_client sj local_urls) 5002 ''/aauth/token''"
  by (simp_all add: reads_local_def local_client_def local_urls_def local_url_paths local_parts_def)

lemma local_mint:
  "mint_agent_jwt (local_lib (local_claims ps) au rc) (local_keys_lib (local_claims ps) au rc) minted_test_keys 1000 ''j1''
     AGENT_ISSUER AGENT_ID ps = Some ''agent.p.s''"
  by (simp add: mint_agent_jwt_def local_claims_def minted_test_keys_def minted_pair_def kp_public_jwk_def local_public)
    (simp add: local_keys_lib_def)

lemma builder_keys:
  "mb_keys (mb_new keys agent_url resource_url) = keys"
  "mb_keys (mb_person_server url b) = mb_keys b" "mb_keys (mb_access_server url b) = mb_keys b"
  by (simp_all add: mb_new_def mb_person_server_def mb_access_server_def)

lemma local_parties:
  assumes "mb_keys b = minted_test_keys"
  shows "\<exists>mp. multi_party_build (local_lib ag au rc) (local_keys_lib ag au rc) F b = Some mp"
proof -
  have "\<exists>ks. kp_jwk_set (local_lib ag au rc) (local_keys_lib ag au rc) kp = Some ks" if "kp_kid kp = Some ''T''" for kp :: "unit key_pair"
    by (rule keys_in_set [OF local_reads_jwk [of ag au rc] that, of "local_lib ag au rc"]) blast
  then have ks: "\<exists>ks. kp_jwk_set (local_lib ag au rc) (local_keys_lib ag au rc) (kp minted_test_keys) = Some ks"
    if "kp \<in> {tk_agent_root, tk_resource, tk_person_server, tk_access_server}" for kp
    using that by auto
  show ?thesis
    using ks [of tk_agent_root] ks [of tk_resource] ks [of tk_person_server] ks [of tk_access_server] assms
    by (cases "mb_person_server_url b"; cases "mb_access_server_url b")
      (auto simp: multi_party_build_def Let_def static_keys_def static_keys_if_def)
qed

lemma local_client_built:
  "client_build (local_lib (local_claims ps) au rc) (local_keys_lib (local_claims ps) au rc) 1000 ''j1'' b \<noteq> None"
  if "cb_keys b = minted_test_keys" "cb_agent_ps_claim b = ps"
  using that by (simp add: client_build_def local_mint)

section \<open>Identity based\<close>

definition identity_crates :: "(string, unit, unit, string list \<times> u64 option, string list \<times> u64 option) crates" where
  "identity_crates = local_crates (local_claims None) minted_auth (local_challenge []) (local_documents (identity_resource_metadata (local_url 5003)))"

definition local_identity ::
    "fetcher \<Rightarrow> (unit, string, string list \<times> u64 option, string list \<times> u64 option, unit, unit) site" where
  "local_identity F = identity_site identity_crates minted_test_keys
     (local_front (local_documents (identity_resource_metadata (local_url 5003)))) (\<lambda>_. sample_env) (\<lambda>_. ''j'') (\<lambda>_. []) F 5003
     (\<lambda>_ _ _ st. (None, st))"

theorem identity_example_runs_witness:
  "\<exists>ex s. identity_main identity_crates 1000 ''j1'' minted_test_keys (local_url 5001) (local_url 5003) = Some ex \<and>
     handle_inner (local_agent identity_crates local_urls 5003 (site_serve (local_identity (ex_fetcher ex))) (ex_agent ex)) False
       (data_request 5003) ((), agent_auth_from_options (ex_agent ex)) =
     Some (Ok (json_response (cr_json identity_crates) 200 [] (JObj [(''agent'', JStr AGENT_ID), (''status'', JStr ''ok'')])), s)"
proof -
  let ?X = identity_crates
  have X: "cr_jwt ?X = local_lib (local_claims None) minted_auth (local_challenge [])"
    "cr_keys ?X = local_keys_lib (local_claims None) minted_auth (local_challenge [])"
    by (simp_all add: identity_crates_def local_crates_def)
  obtain mp where mp: "multi_party_build (cr_jwt ?X) (cr_keys ?X) absent_metadata_fetcher
      (mb_new minted_test_keys (local_url 5001) (local_url 5003)) = Some mp"
    unfolding X using local_parties [OF builder_keys(1)] by blast
  obtain opts :: "unit agent_options" where opts: "client_build (cr_jwt ?X) (cr_keys ?X) 1000 ''j1''
      (client_builder_new minted_test_keys (multi_party_fetcher mp)) = Some opts"
    unfolding X using local_client_built [of "client_builder_new minted_test_keys (multi_party_fetcher mp)" None]
    by (auto simp: client_builders)
  obtain ex :: "unit example" where ex: "identity_main ?X 1000 ''j1'' minted_test_keys (local_url 5001) (local_url 5003) = Some ex"
    using mp opts by (simp add: identity_main_def)
  let ?S = "local_identity (ex_fetcher ex)"
  let ?A = "local_agent ?X local_urls 5003 (site_serve ?S) (ex_agent ex)"
  have s: "surrounded ?A ?X minted_test_keys ?S (\<lambda>w. w) 1000 {''agent.p.s''}"
    by (rule local_surrounded [OF _ _ _ _ identity_crates_def])
      (simp_all add: local_identity_def identity_site_def local_documents_def)
  have c: "sound_crates ?X" "test_keys_generate (cr_jwt ?X) (cr_keys ?X) () () () () () = Some minted_test_keys"
    "mint_agent_jwt (cr_jwt ?X) (cr_keys ?X) minted_test_keys 1000 ''j1'' AGENT_ISSUER AGENT_ID None = Some ''agent.p.s''"
    unfolding X by (simp_all add: local_generate local_mint) (simp add: identity_crates_def local_sound)
  have "\<exists>s. handle_inner ?A False (data_request 5003) ((), agent_auth_from_options (ag_opts ?A)) =
     Some (Ok (json_response (cr_json ?X) 200 [] (JObj [(''agent'', JStr AGENT_ID), (''status'', JStr ''ok'')])), s)"
    by (rule identity_example_runs [OF c(1,2) ex _ c(3) local_timely(2) _ local_identity_def s])
      (simp_all add: yields_keys_def local_reads)
  then show ?thesis using ex by simp
qed

section \<open>Person Server managed\<close>

abbreviation managed_documents :: "json list" where
  "managed_documents \<equiv> local_documents (person_managed_resource_metadata (local_url 5003))"

definition managed_crates :: "(string, unit, unit, string list \<times> u64 option, string list \<times> u64 option) crates" where
  "managed_crates = local_crates (local_claims (Some (local_url 5002))) (local_auth ''aauth-person.json'' (local_url 5002) ''user-123'')
     (local_challenge (local_url 5002)) managed_documents"

definition local_person :: "fetcher \<Rightarrow> 'w \<Rightarrow> (string, person_pending_context mem_store, unit) person_service" where
  "local_person F = managed_person managed_crates minted_test_keys (\<lambda>_. sample_env) (\<lambda>_. ''j'') id F 5002 5003"

definition local_managed ::
    "fetcher \<Rightarrow> (person_pending_context mem_store, string, string list \<times> u64 option, string list \<times> u64 option, unit,
       person_pending_context mem_store) site" where
  "local_managed F = managed_site managed_crates minted_test_keys (local_front managed_documents) (\<lambda>_. sample_env) (\<lambda>_. ''j'')
     (\<lambda>_. []) F 5002 5003 (person_routes (local_front managed_documents) (\<lambda>_. sample_env) (local_person F) 5002 (\<lambda>_ _ _ st. (None, st)))"

lemma local_resource_token:
  assumes "rl_resource_url rl = local_url 5003" "rl_jti rl = ''j''" "\<And>x. rl_interaction rl x = None"
  shows "resource_signer (local_keys_lib ag au (local_challenge aud)) minted_test_keys (typ_as_str Typ_Resource)
    (challenge_claims rl (ev_now sample_env) (kp_thumbprint (tk_agent_ephemeral minted_test_keys))
      (flow_agent L minted_test_keys t0 j0 AGENT_ISSUER AGENT_ID ps) aud) = Ok ''resource.p.s''"
proof -
  have "challenge_claims rl (ev_now sample_env) (kp_thumbprint (tk_agent_ephemeral minted_test_keys))
      (flow_agent L minted_test_keys t0 j0 AGENT_ISSUER AGENT_ID ps) aud = local_challenge aud"
    using assms by (simp add: challenge_claims_def local_challenge_def sample_env_def claims_identifier_def flow_agent_fields)
  then show ?thesis
    by (simp add: resource_signer_def sign_resource_token_def) (simp add: local_keys_lib_def minted_keys_lib_def eddsa_header_def)
qed

theorem managed_example_runs_witness:
  "\<exists>ex s. managed_main managed_crates 1000 ''j1'' minted_test_keys (local_url 5001) (local_url 5002) (local_url 5003) = Some ex \<and>
     handle_inner (local_agent managed_crates local_urls 5003 (site_serve (local_managed (ex_fetcher ex))) (ex_agent ex)) False
       (data_request 5003) (mem_new, agent_auth_from_options (ex_agent ex)) =
     Some (Ok (json_response (cr_json managed_crates) 200 [] (JObj [(''status'', JStr ''ok''), (''user'', JStr ''user-123'')])), s)"
proof -
  let ?X = managed_crates and ?ps = "local_url 5002"
  have X: "cr_jwt ?X = local_lib (local_claims (Some ?ps)) (local_auth ''aauth-person.json'' ?ps ''user-123'') (local_challenge ?ps)"
    "cr_keys ?X = local_keys_lib (local_claims (Some ?ps)) (local_auth ''aauth-person.json'' ?ps ''user-123'') (local_challenge ?ps)"
    by (simp_all add: managed_crates_def local_crates_def)
  let ?b = "mb_person_server ?ps (mb_new minted_test_keys (local_url 5001) (local_url 5003))"
  have "mb_keys ?b = minted_test_keys" by (simp add: builder_keys)
  then obtain mp where mp: "multi_party_build (cr_jwt ?X) (cr_keys ?X) absent_metadata_fetcher ?b = Some mp"
    unfolding X using local_parties by blast
  obtain opts :: "person_pending_context mem_store agent_options" where opts: "client_build (cr_jwt ?X) (cr_keys ?X) 1000 ''j1''
      (cb_with_person_server ?ps (client_builder_new minted_test_keys (multi_party_fetcher mp))) = Some opts"
    unfolding X using local_client_built [of "cb_with_person_server ?ps (client_builder_new minted_test_keys (multi_party_fetcher mp))" "Some ?ps"]
    by (auto simp: client_builders)
  obtain ex :: "person_pending_context mem_store example" where ex: "managed_main ?X 1000 ''j1'' minted_test_keys (local_url 5001) ?ps (local_url 5003) = Some ex"
    using mp opts by (simp add: managed_main_def)
  let ?S = "local_managed (ex_fetcher ex)" and ?svc = "local_person (ex_fetcher ex)"
  let ?A = "local_agent ?X local_urls 5003 (site_serve ?S) (ex_agent ex)"
  have c: "sound_crates ?X" "test_keys_generate (cr_jwt ?X) (cr_keys ?X) () () () () () = Some minted_test_keys"
    "mint_agent_jwt (cr_jwt ?X) (cr_keys ?X) minted_test_keys 1000 ''j1'' AGENT_ISSUER AGENT_ID (Some ?ps) = Some ''agent.p.s''"
    unfolding X by (simp_all add: local_generate local_mint) (simp add: managed_crates_def local_sound)
  have s: "surrounded ?A ?X minted_test_keys ?S (\<lambda>w. w) 1000 (insert ''agent.p.s'' (range (\<lambda>_. ''auth.p.s'')))"
    by (rule local_surrounded [OF _ _ _ _ managed_crates_def])
      (auto simp: local_managed_def managed_site_def local_documents_def)
  have e: "si_env ?S w = sample_env" for w by (simp add: local_managed_def managed_site_def)
  have rt: "resource_tokens ?X minted_test_keys ?S 1000 ''j1'' ?ps ?ps (\<lambda>_. ''resource.p.s'')"
    unfolding resource_tokens_def X e
    by (intro allI local_resource_token) (simp_all add: local_managed_def managed_site_def managed_resource_app_def no_resource_interaction_def)
  have tok: "minted_tokens (person_minter (cr_keys ?X) minted_test_keys) (cr_jwt ?X) minted_test_keys (\<lambda>_. sample_env) (\<lambda>_. ''j'') ?ps
      (local_url 5003) ''user-123'' (\<lambda>_. ''auth.p.s'')"
    unfolding minted_tokens_def X
    by (simp add: person_minter_def mint_person_auth_jwt_def encode_auth_jwt_def auth_encoder_def jwt_err_def kp_public_jwk_def local_public)
      (simp add: local_keys_lib_def minted_keys_lib_def local_auth_def eddsa_header_def minted_test_keys_def minted_pair_def sample_env_def)
  have docs: "documents_read ?A ?X ?S ?svc 5002 (\<lambda>_. ''resource.p.s'') (\<lambda>_. ''auth.p.s'')"
  proof -
    have d: "cr_json ?X = document_json managed_documents" by (simp add: managed_crates_def local_crates_def)
    have m: "en_person_metadata (served_person_metadata (pv_config (?svc w))) \<in> set managed_documents" for w :: "person_pending_context mem_store"
      by (simp add: local_person_def managed_person_def managed_person_server_def person_server_from_policy_def
          served_person_metadata_def local_documents_def)
    have "en_token_exchange (plain_exchange ''resource.p.s'') \<in> set managed_documents"
      "en_token_response (minted_answer ''auth.p.s'') \<in> set managed_documents"
      by (simp_all add: local_documents_def)
    then show ?thesis
      using document_read [OF m] document_read local_reads
      by (simp add: documents_read_def yields_keys_def d local_managed_def managed_site_def)
  qed
  have "\<exists>s. handle_inner ?A False (data_request 5003) (mem_new, agent_auth_from_options (ag_opts ?A)) =
     Some (Ok (json_response (cr_json ?X) 200 [] (JObj [(''status'', JStr ''ok''), (''user'', JStr ''user-123'')])), s)"
    by (rule managed_example_runs [OF c(1,2) ex _ c(3) local_timely(2) _ local_managed_def local_person_def rt tok s docs]) simp_all
  then show ?thesis using ex by simp
qed

section \<open>Federated\<close>

text \<open>The Access Server is at port 5004, and the Person Server's client is connected to it directly.\<close>

definition local_access_config :: access_server_config where
  "local_access_config =
     \<lparr>asc_access_server_url = local_url 5004, asc_resource_url = local_url 5003, asc_person_server_url = local_url 5002,
      asc_access_jwks_uri = local_url 5004 @ ''/access/jwks'', asc_pending_base_url = local_url 5004,
      asc_pending_path = ''/access/pending'', asc_pending_ttl_secs = DEFAULT_PENDING_TTL_SECS\<rparr>"

definition federated_documents :: "json list" where
  "federated_documents = local_documents (federated_resource_metadata (local_url 5003)) @
     [en_access_metadata (served_metadata local_access_config), en_access_exchange (federated_request ''resource.p.s'' ''agent.p.s'')]"

definition federated_crates :: "(string, unit, unit, string list \<times> u64 option, string list \<times> u64 option) crates" where
  "federated_crates = local_crates (local_claims (Some (local_url 5002))) (local_auth ''aauth-access.json'' (local_url 5004) ''user-federated'')
     (local_challenge (local_url 5004)) federated_documents"

definition local_access :: "(access_pending_context mem_store, unit) access_service" where
  "local_access = federated_access federated_crates minted_test_keys (\<lambda>_. sample_env) (\<lambda>_. ''j'') id 5004 5002 5003 ()"

definition local_access_client ::
    "(access_pending_context mem_store, string list \<times> u64 option, string list \<times> u64 option) as_client" where
  "local_access_client =
     \<lparr>xc_http = fr_http sample_front, xc_up = id, xc_unix = (\<lambda>_. 1000),
      xc_client = sample_client\<lparr>cl_json := document_json federated_documents\<rparr>,
      xc_clock = \<lparr>ck_now = (\<lambda>_. 0), ck_sleep = (\<lambda>_ s. s)\<rparr>, xc_signing_jwk = sample_signing_jwk,
      xc_signature_jwt = (\<lambda>_. ''agent.p.s''), xc_members = (\<lambda>_. []),
      xc_send = (\<lambda>wr s. local_answer ''closed'' (access_serve (local_front federated_documents) (cr_jwt federated_crates) sample_env
        local_access (if wr_method wr = ''GET'' then AC_Metadata else AC_Token (flow_delivered wr)) s))\<rparr>"

definition local_federation :: access_client where
  "local_federation = absent_access_client
     \<lparr>ac_fetch_metadata := (\<lambda>url. fst (xc_fetch_metadata local_access_client url mem_new)),
      ac_exchange_token := (\<lambda>url rq. fst (xc_exchange_token local_access_client url rq
        (snd (xc_fetch_metadata local_access_client (local_url 5004) mem_new))))\<rparr>"

definition local_federated_person :: "fetcher \<Rightarrow> 'w \<Rightarrow> (string, person_pending_context mem_store, unit) person_service" where
  "local_federated_person F = federated_person federated_crates minted_test_keys (\<lambda>_. sample_env) (\<lambda>_. ''j'') id (\<lambda>_. local_federation)
     F 5002 5003"

definition local_federated ::
    "fetcher \<Rightarrow> (person_pending_context mem_store, string, string list \<times> u64 option, string list \<times> u64 option, unit,
       person_pending_context mem_store) site" where
  "local_federated F = federated_site federated_crates minted_test_keys (local_front federated_documents) (\<lambda>_. sample_env)
     (\<lambda>_. ''j'') (\<lambda>_. []) F 5002 5004 5003
     (person_routes (local_front federated_documents) (\<lambda>_. sample_env) (local_federated_person F) 5002 (\<lambda>_ _ _ st. (None, st)))"

lemma federated_crates_simps:
  "cr_jwt federated_crates = local_lib (local_claims (Some (local_url 5002)))
     (local_auth ''aauth-access.json'' (local_url 5004) ''user-federated'') (local_challenge (local_url 5004))"
  "cr_keys federated_crates = local_keys_lib (local_claims (Some (local_url 5002)))
     (local_auth ''aauth-access.json'' (local_url 5004) ''user-federated'') (local_challenge (local_url 5004))"
  "cr_json federated_crates = document_json federated_documents"
  by (simp_all add: federated_crates_def local_crates_def)

lemma local_access_simps [simp]:
  "av_config local_access = local_access_config"
  "xc_http local_access_client = fr_http sample_front" "xc_up local_access_client = id" "xc_unix local_access_client w = 1000"
  "xc_client local_access_client = sample_client\<lparr>cl_json := document_json federated_documents\<rparr>"
  "xc_signing_jwk local_access_client = sample_signing_jwk" "xc_signature_jwt local_access_client w = ''agent.p.s''"
  "fr_http (local_front js) = fr_http sample_front" "fr_json (local_front js) = document_json js"
  "fr_json_type (local_front js) hs = True" "fr_bytes (local_front js) rq = Ok (rq_body rq)"
  "asc_access_server_url local_access_config = local_url 5004"
  by (simp_all add: local_access_def federated_access_def federated_access_server_def access_server_from_policy_def
      local_access_config_def local_access_client_def local_front_def sample_front_def)

lemma local_access_url: "url_authority_path (sample_client\<lparr>cl_json := sj\<rparr>) url = Ok (''r'', ''/'')"
  "origin_of (sample_client\<lparr>cl_json := sj\<rparr>) url = Ok ''https://r''"
  by (simp_all add: url_authority_path_def origin_of_def sample_client_def sample_url_def host_with_port_def)

lemma local_hosts:
  "hosts local_access_client (local_front federated_documents) (cr_jwt federated_crates) sample_env local_access (\<lambda>w. w)"
proof -
  have ans: "answers local_access_client (local_front federated_documents) (cr_jwt federated_crates) sample_env local_access (\<lambda>w. w) wr call"
    if "call = (if wr_method wr = ''GET'' then AC_Metadata else AC_Token (flow_delivered wr))" for wr call
    using that by (auto simp: answers_def local_answer_def sample_client_def local_access_client_def split: option.splits)
  have "arrives (local_front federated_documents) (xc_post url headers body) ''r'' ''/'' (flow_delivered (xc_post url headers body))"
    if "hm_get headers ''host'' = None" for url headers body
    using that by (auto simp: arrives_def flow_delivered_def xc_post_def host_authority_def carries_def header_value_def
        hm_get_append to_str_ok_def byte_def split: option.splits)
  moreover have "answers local_access_client (local_front federated_documents) (cr_jwt federated_crates) sample_env local_access (\<lambda>w. w)
      (xc_post url headers body) (AC_Token (flow_delivered (xc_post url headers body)))" for url headers body
    by (rule ans) (simp add: xc_post_def)
  moreover have "answers local_access_client (local_front federated_documents) (cr_jwt federated_crates) sample_env local_access (\<lambda>w. w)
      (xc_get url []) AC_Metadata" for url
    by (rule ans) (simp add: xc_get_def)
  ultimately show ?thesis unfolding hosts_def local_access_simps by (auto simp: local_access_url) blast
qed

lemma local_signs_to:
  "signs_to local_access_client (local_front federated_documents) (cr_jwt federated_crates) sample_env url w"
proof -
  let ?H = "fr_http sample_front"
  have "http_sign ?H id 1000 ''POST'' ''r'' ''/'' (xc_signing_material local_access_client w) [] None [] = (Ok (), flow_headers ''agent.p.s'')"
    using flow_signed [of "''agent.p.s''" "[]" "''POST''" "''/''"]
    by (simp add: xc_signing_material_def sample_material_def)
  moreover have "(1000::u64) \<le> 1000 + 60" by simp
  ultimately show ?thesis
    using flow_crate flow_cnf [of "''agent.p.s''"] local_thumbprint(2) flow_public_key flow_secret_key
    unfolding signs_to_def federated_crates_simps
    by (simp add: flow_now sample_env_def clean_def to_str_ok_def byte_def id_def local_access_url)
qed

lemma local_federates:
  "federates (\<lambda>_. local_federation) (\<lambda>_. local_access_client) (\<lambda>_. mem_new) (local_front federated_documents) (cr_jwt federated_crates)
     (\<lambda>_. sample_env) (\<lambda>_. local_access) (\<lambda>w. w) ''agent.p.s'' (\<lambda>_. ''resource.p.s'') (\<lambda>_. ''auth.p.s'')"
proof -
  have "uses_client local_federation local_access_client (local_url 5004) mem_new"
    by (simp add: uses_client_def local_federation_def)
  moreover have "federation_documents local_access_config (federated_request ''resource.p.s'' ''agent.p.s'') (minted_answer ''auth.p.s'')
      \<subseteq> set federated_documents"
    by (simp add: federation_documents_def federated_documents_def local_documents_def)
  then have "speaks_json local_access_client (local_front federated_documents)
      (federation_documents local_access_config (federated_request ''resource.p.s'' ''agent.p.s'') (minted_answer ''auth.p.s''))"
    using document_read by (auto simp: speaks_json_def)
  ultimately show ?thesis
    using local_hosts local_signs_to by (simp add: federates_def reaches_def Let_def local_access_url)
qed

theorem federated_example_runs_witness:
  "\<exists>ex s. federated_main federated_crates 1000 ''j1'' minted_test_keys (local_url 5001) (local_url 5002) (local_url 5004) (local_url 5003)
       = Some ex \<and>
     handle_inner (local_agent federated_crates local_urls 5003 (site_serve (local_federated (ex_fetcher ex))) (ex_agent ex)) False
       (data_request 5003) (mem_new, agent_auth_from_options (ex_agent ex)) =
     Some (Ok (json_response (cr_json federated_crates) 200 [] (JObj [(''status'', JStr ''ok''), (''user'', JStr ''user-federated'')])), s)"
proof -
  let ?X = federated_crates and ?ps = "local_url 5002" and ?as = "local_url 5004"
  note X = federated_crates_simps
  let ?b = "mb_access_server ?as (mb_person_server ?ps (mb_new minted_test_keys (local_url 5001) (local_url 5003)))"
  have "mb_keys ?b = minted_test_keys" by (simp add: builder_keys)
  then obtain mp where mp: "multi_party_build (cr_jwt ?X) (cr_keys ?X) absent_metadata_fetcher ?b = Some mp"
    unfolding X using local_parties by blast
  obtain opts :: "person_pending_context mem_store agent_options" where opts: "client_build (cr_jwt ?X) (cr_keys ?X) 1000 ''j1''
      (cb_with_person_server ?ps (client_builder_new minted_test_keys (multi_party_fetcher mp))) = Some opts"
    unfolding X using local_client_built [of "cb_with_person_server ?ps (client_builder_new minted_test_keys (multi_party_fetcher mp))" "Some ?ps"]
    by (auto simp: client_builders)
  obtain ex :: "person_pending_context mem_store example" where ex: "federated_main ?X 1000 ''j1'' minted_test_keys (local_url 5001) ?ps ?as
      (local_url 5003) = Some ex"
    using mp opts by (simp add: federated_main_def)
  let ?S = "local_federated (ex_fetcher ex)" and ?svc = "local_federated_person (ex_fetcher ex)"
  let ?A = "local_agent ?X local_urls 5003 (site_serve ?S) (ex_agent ex)"
  have c: "sound_crates ?X" "test_keys_generate (cr_jwt ?X) (cr_keys ?X) () () () () () = Some minted_test_keys"
    "mint_agent_jwt (cr_jwt ?X) (cr_keys ?X) minted_test_keys 1000 ''j1'' AGENT_ISSUER AGENT_ID (Some ?ps) = Some ''agent.p.s''"
    unfolding X by (simp_all add: local_generate local_mint) (simp add: federated_crates_def local_sound)
  have s: "surrounded ?A ?X minted_test_keys ?S (\<lambda>w. w) 1000 (insert ''agent.p.s'' (range (\<lambda>_. ''auth.p.s'')))"
    by (rule local_surrounded [OF _ _ _ _ federated_crates_def])
      (auto simp: local_federated_def federated_site_def federated_documents_def local_documents_def)
  have e: "si_env ?S w = sample_env" for w by (simp add: local_federated_def federated_site_def)
  have rt: "resource_tokens ?X minted_test_keys ?S 1000 ''j1'' ?ps ?as (\<lambda>_. ''resource.p.s'')"
    unfolding resource_tokens_def X e
    by (intro allI local_resource_token) (simp_all add: local_federated_def federated_site_def federated_resource_app_def no_resource_interaction_def)
  have tok: "minted_tokens (access_minter (cr_keys ?X) minted_test_keys) (cr_jwt ?X) minted_test_keys (\<lambda>_. sample_env) (\<lambda>_. ''j'') ?as
      (local_url 5003) ''user-federated'' (\<lambda>_. ''auth.p.s'')"
    unfolding minted_tokens_def X
    by (simp add: access_minter_def mint_access_auth_jwt_def encode_auth_jwt_def auth_encoder_def jwt_err_def kp_public_jwk_def local_public)
      (simp add: local_keys_lib_def minted_keys_lib_def local_auth_def eddsa_header_def minted_test_keys_def minted_pair_def sample_env_def)
  have docs: "documents_read ?A ?X ?S ?svc 5002 (\<lambda>_. ''resource.p.s'') (\<lambda>_. ''auth.p.s'')"
  proof -
    have m: "en_person_metadata (served_person_metadata (pv_config (?svc w))) \<in> set federated_documents" for w :: "person_pending_context mem_store"
      by (simp add: local_federated_person_def federated_person_def federated_person_server_def person_server_from_policy_def
          served_person_metadata_def local_documents_def federated_documents_def)
    have "en_token_exchange (plain_exchange ''resource.p.s'') \<in> set federated_documents"
      "en_token_response (minted_answer ''auth.p.s'') \<in> set federated_documents"
      by (simp_all add: local_documents_def federated_documents_def)
    then show ?thesis
      using document_read [OF m] document_read local_reads
      by (simp add: documents_read_def yields_keys_def X(3) local_federated_def federated_site_def)
  qed
  have access: "(\<lambda>_. local_access) = federated_access ?X minted_test_keys (\<lambda>_. sample_env) (\<lambda>_. ''j'') id 5004 5002 5003"
    by (simp add: local_access_def federated_access_def fun_eq_iff)
  have "\<exists>s. handle_inner ?A False (data_request 5003) (mem_new, agent_auth_from_options (ag_opts ?A)) =
     Some (Ok (json_response (cr_json ?X) 200 [] (JObj [(''status'', JStr ''ok''), (''user'', JStr ''user-federated'')])), s)"
    by (rule federated_example_runs [OF c(1,2) ex _ _ c(3) local_timely(2) _ local_federated_def local_federated_person_def access rt tok s docs
          local_federates]) simp_all
  then show ?thesis using ex by simp
qed

section \<open>Resource managed\<close>

text \<open>The world is the state of the resource, which the callback changes directly; the token is \<^verbatim>\<open>07\<close>.\<close>

definition consent_documents :: "json list" where
  "consent_documents = [en_resource_metadata (\<lambda>_. []) (resource_managed_metadata (local_url 5003)), JObj [(''scope'', JStr [])]]"

definition consent_crates :: "(string, unit, unit, string list \<times> u64 option, string list \<times> u64 option) crates" where
  "consent_crates = local_crates (local_claims None) minted_auth (local_challenge []) consent_documents"

definition local_consent ::
    "fetcher \<Rightarrow> (managed_store, string, string list \<times> u64 option, string list \<times> u64 option, unit resource_error, managed_store) site" where
  "local_consent F = resource_managed_site consent_crates minted_test_keys (local_front consent_documents) (\<lambda>_. sample_env) (\<lambda>_. ''j'')
     (\<lambda>_. []) id id (\<lambda>_. [1, 4, 21, 213, 15]) (\<lambda>_. [7]) F 5003 (\<lambda>_ _ _ st. (None, st))"

definition local_operator :: "string \<Rightarrow> string \<Rightarrow> managed_store \<Rightarrow> managed_store" where
  "local_operator url code = approve (opaque_mem_ops id)
     (mem_ops id :: (resource_pending_context mem_store, unit, resource_pending_context) store_ops) [7] AGENT_ID"

lemma local_consent_token: "opaque_token id [7] = ''07''" "generate_pending_id [1, 2] = ''0102''"
  by (simp_all add: opaque_token_def generate_pending_id_def hex_digit_def)

lemma local_consent_read:
  "consent_read (local_agent consent_crates local_urls 5003 serve opts) consent_crates minted_test_keys (\<lambda>_. sample_env) 5003 id (\<lambda>_. [7])
     ''agent.p.s''"
proof -
  have r: "reads_local (local_client sj local_urls) 5003 ''/resource/pending/0102''"
    "cl_parse (local_client sj local_urls) (local_url 5003 @ ''/resource/authorize'') = Ok (local_parts 5003 ''/resource/authorize'')" for sj
    by (simp_all add: reads_local_def local_client_def local_urls_def local_url_paths local_parts_def)
  have x: "cr_json consent_crates = document_json consent_documents" "cr_http consent_crates = fr_http sample_front"
    by (simp_all add: consent_crates_def local_crates_def)
  have "reads_back (document_json consent_documents) (JObj [(''scope'', JStr [])])"
    by (rule document_read) (simp add: consent_documents_def)
  moreover have "signs_tokens consent_crates minted_test_keys paths [(''authorization'', ''AAuth 07'')] 1000 ''agent.p.s''" for paths
    unfolding consent_crates_def by (rule local_signs) (simp_all add: sample_extras_def)
  moreover have "hl_header_name (fr_http sample_front) n = Some n" for n
    by (simp add: sample_front_def sample_http_def)
  moreover have "ev_id_bytes sample_env = [1, 2]" by (simp add: sample_env_def)
  ultimately show ?thesis
    using r local_reads(1) sample_token68 by (simp add: consent_read_def x local_consent_token)
qed

theorem resource_managed_example_runs_witness:
  "\<exists>ex s. resource_managed_main consent_crates 1000 ''j1'' minted_test_keys local_operator (local_url 5001) (local_url 5003) = Some ex \<and>
     handle_inner (local_agent consent_crates local_urls 5003 (site_serve (local_consent (ex_fetcher ex))) (ex_agent ex)) False
       (data_request 5003) ((mem_new, opaque_new), agent_auth_from_options (ex_agent ex)) =
     Some (Ok (json_response (cr_json consent_crates) 200 [] (JObj [(''agent'', JStr AGENT_ID), (''status'', JStr ''ok'')])), s)"
proof -
  let ?X = consent_crates
  have X: "cr_jwt ?X = local_lib (local_claims None) minted_auth (local_challenge [])"
    "cr_keys ?X = local_keys_lib (local_claims None) minted_auth (local_challenge [])"
    by (simp_all add: consent_crates_def local_crates_def)
  obtain mp where mp: "multi_party_build (cr_jwt ?X) (cr_keys ?X) absent_metadata_fetcher
      (mb_new minted_test_keys (local_url 5001) (local_url 5003)) = Some mp"
    unfolding X using local_parties [OF builder_keys(1)] by blast
  let ?b = "cb_interaction local_operator (client_builder_new minted_test_keys (multi_party_fetcher mp))"
  obtain opts :: "managed_store agent_options" where opts: "client_build (cr_jwt ?X) (cr_keys ?X) 1000 ''j1'' ?b = Some opts"
    unfolding X using local_client_built [of ?b None] by (auto simp: client_builders)
  obtain ex :: "managed_store example" where ex:
    "resource_managed_main ?X 1000 ''j1'' minted_test_keys local_operator (local_url 5001) (local_url 5003) = Some ex"
    "ex_agent ex = opts"
    using mp opts by (simp add: resource_managed_main_def)
  let ?S = "local_consent (ex_fetcher ex)"
  let ?A = "local_agent ?X local_urls 5003 (site_serve ?S) (ex_agent ex)"
  have c: "sound_crates ?X"
    "mint_agent_jwt (cr_jwt ?X) (cr_keys ?X) minted_test_keys 1000 ''j1'' AGENT_ISSUER AGENT_ID None = Some ''agent.p.s''"
    unfolding X by (simp_all add: local_mint) (simp add: consent_crates_def local_sound)
  have s: "surrounded ?A ?X minted_test_keys ?S (\<lambda>w. w) 1000 {''agent.p.s''}"
    by (rule local_surrounded [OF _ _ _ _ consent_crates_def])
      (simp_all add: local_consent_def resource_managed_site_def Let_def consent_documents_def)
  have "ao_on_interaction (ex_agent ex) = Some local_operator"
    using client_built(10) [OF opts, unfolded client_builders, OF refl] c(2) ex(2) by simp
  then have op: "operated ?A (\<lambda>w. w) id id (\<lambda>_. [7])"
    by (simp add: operated_def) (simp add: local_operator_def)
  have "\<exists>s. handle_inner ?A False (data_request 5003) ((mem_new, opaque_new), agent_auth_from_options (ag_opts ?A)) =
     Some (Ok (json_response (cr_json ?X) 200 [] (JObj [(''agent'', JStr AGENT_ID), (''status'', JStr ''ok'')])), s)"
    by (rule resource_managed_example_runs [OF c(1) ex(1) c(2) _ local_consent_def s op local_consent_read])
      (simp_all add: yields_keys_def)
  then show ?thesis using ex by simp
qed

end
