(* ===== verification/Spec2Isabelle.thy ===== *)
theory Spec2Isabelle
  imports Error_Mapping Headers Person_Runs Resource_Runs Agent_Middleware Flow_Samples Example_Samples
begin

text \<open>
  A verification development for the AAuth libraries of this repository: the protocol in which
  an agent with a signed identity is challenged by a resource, obtains an auth token from a
  Person Server (and, federated, from an Access Server behind it) and is let through.

  \<^bold>\<open>The program.\<close> Five crates. \<^verbatim>\<open>httpsig-key\<close> signs and verifies HTTP requests whose key is named
  in a \<^verbatim>\<open>Signature-Key\<close> header. \<^verbatim>\<open>aauth\<close> holds the wire types, the token verifiers, the service
  traits of the three servers and the agent's state machine. \<^verbatim>\<open>aauth-policy\<close> implements the services
  over a policy and a store of pending requests. \<^verbatim>\<open>aauth-axum\<close> is the HTTP side of the servers,
  \<^verbatim>\<open>aauth-reqwest\<close> the HTTP side of the agent and of the Person Server's client. The state is small:
  the pending stores, the resource's opaque tokens, the agent's credential caches and the metadata
  cache; everything else is a function of the request, the clock and what the network answers.

  \<^bold>\<open>Theories and code.\<close>
  \<^item> \<open>Prelude\<close>: results as \<open>'e + 'a\<close> with \<open>bind_res\<close> for \<^verbatim>\<open>?\<close>, the string functions of Rust's
    standard library, their simplification rules (\<open>str_simps\<close>, \<open>res_simps\<close>).
  \<^item> \<open>Wire\<close>, \<open>Json\<close>: \<^verbatim>\<open>aauth/src/protocol\<close>, \<^verbatim>\<open>aauth/src/jwt/claims.rs\<close>: the structs as records, the
    enums as datatypes, the \<^verbatim>\<open>serde\<close> encoders and decoders that the code derives.
  \<^item> \<open>Errors\<close>, \<open>Error_Mapping\<close>: \<^verbatim>\<open>aauth/src/error.rs\<close>, \<^verbatim>\<open>httpsig-key/src/error.rs\<close>: every error
    variant, its message, its status, body and \<^verbatim>\<open>Signature-Error\<close> header.
  \<^item> \<open>Headers\<close>, \<open>Identifiers\<close>, \<open>Interaction_Code\<close>: \<^verbatim>\<open>protocol/headers.rs\<close>, \<^verbatim>\<open>token68.rs\<close>,
    \<^verbatim>\<open>identifiers.rs\<close>, \<^verbatim>\<open>interaction_code.rs\<close>, \<^verbatim>\<open>resource_verify/audience.rs\<close>.
  \<^item> \<open>Jwt\<close>, \<open>Verify\<close>, \<open>Keys\<close>: \<^verbatim>\<open>aauth/src/jwt\<close>, \<^verbatim>\<open>resource_verify/verify.rs\<close>, \<^verbatim>\<open>metadata.rs\<close>, \<^verbatim>\<open>keys.rs\<close> and
    the \<^verbatim>\<open>keys.rs\<close> of the four roles: reading, verifying and minting tokens.
  \<^item> \<open>Httpsig\<close>: the crate \<^verbatim>\<open>httpsig-key\<close>. \<open>Http\<close>: requests, responses and header maps.
  \<^item> \<open>Deferred\<close>, \<open>Pending_Store\<close>, \<open>Services\<close>: \<^verbatim>\<open>aauth/src/deferred\<close>, \<^verbatim>\<open>aauth-policy/src/store\<close>, the
    contexts, outcomes, decisions and shipped policies.
  \<^item> \<open>Federation\<close>, \<open>Person_Service\<close>, \<open>Access_Service\<close>, \<open>Resource_Service\<close>: \<^verbatim>\<open>aauth/src/person_server\<close>
    and the services of \<^verbatim>\<open>aauth-policy\<close>, operation by operation.
  \<^item> \<open>Respond\<close>, \<open>Resource_Layer\<close>, \<open>Routes\<close>: \<^verbatim>\<open>aauth-axum\<close>: the responses, the layer that guards a
    resource and every handler. \<open>Person_Runs\<close>, \<open>Access_Runs\<close>, \<open>Resource_Runs\<close>: the three routers,
    the resource's with the approval of \<^verbatim>\<open>examples/resource_managed.rs\<close>, and their runs.
  \<^item> \<open>Agent_Options\<close>, \<open>Exchange_Options\<close>, \<open>Agent_Auth\<close>, \<open>Agent_Poll\<close>, \<open>Token_Exchange\<close>,
    \<open>Agent_Middleware\<close>, \<open>Access_Client\<close>, \<open>Metadata\<close>: \<^verbatim>\<open>aauth/src/agent\<close> and \<^verbatim>\<open>aauth-reqwest\<close>: how an
    agent and its exchanges are configured, its state machine, polling, the exchange, the retry
    loop, the Access Server client and the metadata cache.
  \<^item> \<open>Handshake\<close>, \<open>Flows\<close>, \<open>Federated\<close> and this theory: the parties together, step by step and as one
    flow, with and without an Access Server behind the Person Server. \<open>Flow_Samples\<close>: parties for
    which the flows are evaluated.
  \<^item> \<open>Setup\<close>, \<open>Examples\<close>: \<^verbatim>\<open>aauth-axum/examples\<close> and the part of \<^verbatim>\<open>aauth-axum/tests/support\<close> they are
    built from: the shared fetcher, the agent client, the servers and their configuration, the
    guarded route. \<open>Sessions\<close>, \<open>Asserted_Sessions\<close>, \<open>Managed_Sessions\<close>: what passes between the
    middleware of an agent and local servers, request by request, with a resource that wants an auth
    token and with one that manages access itself. \<open>Example_Runs\<close>: the examples from \<^verbatim>\<open>main\<close> to the
    printed answer; \<open>Example_Samples\<close>: a machine on which they run.

  \<^bold>\<open>How the model corresponds.\<close> A struct is a record, an enum a datatype, \<^verbatim>\<open>Result\<close> is a sum and
  \<^verbatim>\<open>Option\<close> an option; a failing \<^verbatim>\<open>expect\<close> or slice is \<open>None\<close> (or \<open>LO_Panic\<close>) where the code can
  panic. \<^verbatim>\<open>u64\<close> and \<^verbatim>\<open>i64\<close> are 64-bit words, so additions wrap as in a release build and
  \<^verbatim>\<open>exp as i64\<close> keeps the bits; \<open>i64_less\<close> compares signed. Strings are byte strings: a Rust
  \<^verbatim>\<open>char\<close> above 127 is its UTF-8 bytes. An \<^verbatim>\<open>async\<close> method of a service is an \<open>action\<close>, a function
  of the store's state that returns a result and the next state; awaits inside one call are
  not interleaved with other calls. The clients thread a world \<open>'w\<close> through every request,
  sleep and callback, so the network may answer differently each time. Hash maps are
  association lists or maps whose iteration order is a parameter.

  \<^bold>\<open>Parameters.\<close> Code outside the repository is an argument: \<open>jwt_lib\<close> (\<^verbatim>\<open>jsonwebtoken\<close>, base64,
  SHA-256), \<open>key_lib\<close> (\<^verbatim>\<open>ed25519-dalek\<close>), \<open>httpsig_lib\<close> (\<^verbatim>\<open>httpsig\<close>), \<open>serde_json\<close>, \<open>url_parser\<close>,
  \<open>front\<close> (\<^verbatim>\<open>axum\<close>), the world's clock and \<^verbatim>\<open>reqwest\<close>. What a theorem needs of them is a named
  hypothesis of documented behaviour: \<open>decode_agrees\<close>, \<open>codec_for\<close>, \<open>crate_agrees\<close>, \<open>reads_back\<close>,
  \<open>reads_jwk\<close>, \<open>refuses\<close>, for the network between two servers \<open>reaches\<close>, between an agent and local
  servers \<open>surrounded\<close>. Each is shown satisfiable by the witness of the theorem that uses it.

  \<^bold>\<open>Interfaces.\<close> \<open>pending_store\<close> states what a provider of pending records promises;
  \<open>person_store\<close> and \<open>access_store\<close> extend it for the services, and the in-memory store is
  proved to be all three. \<open>opaque_store\<close> is the contract of opaque tokens, \<open>consent_access\<close>
  that of the consent service behind the layer. Clients are proved against the contracts.

  \<^bold>\<open>What is shown.\<close>
  \<^item> Authenticity: what an accepted HTTP signature, token, challenge or federated token is known
    to be by the checks the code makes (\<open>Httpsig\<close>, \<open>Verify\<close>, \<open>Federation\<close>), that nothing is forwarded by a
    resource or admitted at the token endpoint without it (\<open>Resource_Layer\<close>, \<open>Routes\<close>), and that the
    agent keeps and presents only credentials it has checked (\<open>Agent_Auth\<close>, \<open>Agent_Middleware\<close>).
  \<^item> The other direction: what is signed is verified, what is minted is accepted, what is
    written is read back, and both flows of the protocol go through as a whole
    (\<open>signed_request_verifies\<close>, \<open>minted_tokens_accepted\<close>, \<open>person_managed_flow\<close>, \<open>federated_flow\<close>).
    The four examples are run: the client their \<^verbatim>\<open>main\<close> builds discovers, is challenged or deferred,
    exchanges or polls, caches and retries against the servers their \<^verbatim>\<open>main\<close> starts, and returns
    the answer.
  \<^item> The pending requests: every operation touches one record and stores what it reports; over
    all runs of a Person Server each record stems from a token request with a verified HTTP
    signature and resource token (the agent token is only parsed), a success needs one, and a code
    is redeemed at most as often as it was issued (\<open>Person_Runs\<close>); every token the Access Server hands
    out was decided for a verified Person Server (\<open>Access_Runs\<close>); every opaque token a resource
    honours was granted by its policy or approved by its operator (\<open>Resource_Runs\<close>).
  \<^item> Loops: polling ends within its deadline, the retry loop ends against a resource that gives
    nothing, and does not end against one that keeps granting and refusing.
  \<^item> Shortcomings of the code as theorems: unverified tokens at the Access Server and on the
    opaque path, consent without a person, finished requests that resume, a pending poll that
    the client cannot read.

  \<^bold>\<open>Termination and bounds.\<close> Three loops may not end and are \<open>partial_function (option)\<close>, where
  \<open>None\<close> is not returning: \<open>poll_loop\<close>, \<open>access_poll_loop\<close>, \<open>agent_loop\<close>. That the polling loops
  return is proved under a clock that advances by the time slept; no fuel is used anywhere.
  The other recursions are structural or carry a measure.

  \<^bold>\<open>Not modelled, and why.\<close> Setter and getter methods that only copy a field (the options of
  an agent and of an exchange apart), constructors that only fill a struct, and \<^verbatim>\<open>Arc\<close> or reference
  impls that forward; the routers' path matching, which is \<^verbatim>\<open>axum\<close>'s; the JWKS documents, which
  print a crate's type; the bodies in \<^verbatim>\<open>protocol/{audit,permission,mission,interaction}.rs\<close>, which
  no code of the repository reads or writes; module roots; tests; binding ports, spawning servers
  and printing in the examples; the task that the callback of \<^verbatim>\<open>resource_managed\<close> spawns is taken to
  be done before the agent polls. Concurrency inside one call is not modelled: two requests of a run
  are served one after the other.

  \<^bold>\<open>Plan.\<close> A deferred federated flow, in which the Access Server asks for consent and the Person
  Server resumes; today's client cannot poll such a request (\<open>pending_poll_unreadable\<close>).
\<close>

section \<open>The Person Server managed flow\<close>

text \<open>
  C1: the protocol goes through. With the parties wired as \<open>managed_setup\<close> says, an agent that
  signs with its own minted agent token is challenged by the resource; reads the challenge as a
  token exchange and accepts it as the resource's; its signed token request with the
  challenge's token is answered by the Person Server with a token for the person; the agent
  accepts that token as the answer to its challenge; and its next request to the resource,
  signed under that token, is forwarded with the person's claims. Every party judges with its
  own clock, anywhere in the lifetime of what it is shown.
\<close>
theorem person_managed_flow:
  fixes rl :: "('key, 'p, 'g, 'st, 'err) resource_layer" and svc :: "('key, 's, 'e) person_service"
  assumes wired: "managed_setup K keys agent_url ps rl svc F low user t2 j2"
    and agent: "mint_agent_jwt (rl_jwt rl) K keys t0 j0 agent_url sub (Some ps) = Some aj"
      "A = flow_agent (rl_jwt rl) keys t0 j0 agent_url sub ps" "tp = kp_thumbprint (tk_agent_ephemeral keys)"
    and asked: "layer_verify rl t1 rq1 = Ok v1" "vs_jwt v1 = Some aj" "vs_thumbprint v1 = tp"
      "\<not> i64_less (t1 + CLOCK_SKEW) t0" "\<not> expired_at t1 (t0 + 3600)"
    and challenge: "rl_sign rl (typ_as_str Typ_Resource) (challenge_claims rl t1 tp A ps) = Ok rt"
    and client: "\<not> expired_at ca (t1 + 300)" "\<not> expired_at cb (t2 + 3600)"
      "normalize_server_url clow (rl_resource_url rl) = normalize_server_url clow origin"
    and exchange: "optional_json Fr de_token_exchange rq = Ok (Some body)" "tx_resource_token body = rt"
      "verify_post Fr (pv_lib svc) ev rq = Ok v" "vs_jwt v = Some aj" "vs_thumbprint v = tp"
      "\<not> expired_at (ev_now ev) (t1 + 300)"
    and minted: "person_minter K keys t2 j2 ps (rl_resource_url rl) sub
        (kp_public_jwk (rl_jwt rl) (tk_agent_ephemeral keys)) (Some user) None = Ok token"
    and retried: "layer_verify rl t3 rq3 = Ok v3" "vs_jwt v3 = Some token" "vs_thumbprint v3 = tp"
      "\<not> expired_at t3 (t2 + 3600)"
  shows "\<exists>resp auth.
    layer_call rl t1 rq1 st = (LO_Reply resp, st) \<and>
    observe_response order origin AA_AgentSigned (rs_status resp) (rs_headers resp) a = (Ok (AS_ExchangeToken rt), a) \<and>
    verify_resource_challenge (rl_jwt rl) clow F ca rt origin sub tp = Ok (challenge_claims rl t1 tp A ps) \<and>
    token_exchange_handler Fr ev svc rq s =
      (Some (json_response (fr_json Fr) 200 [] (en_token_response \<lparr>auth_token = token, expires_in = 3600\<rparr>)), s) \<and>
    verify_client_auth_token (rl_jwt rl) clow F cb token origin ps sub tp check = Ok auth \<and>
    layer_call rl t3 rq3 st = (LO_Forward (PT_Auth auth), st) \<and>
    au_sub auth = Some user \<and> au_agent auth = sub \<and> au_iss auth = ps \<and> au_aud auth = rl_resource_url rl"
proof -
  have w: "wired K keys agent_url ps ps rl (pv_config svc) F" and p: "psc_person_server_url (pv_config svc) = ps"
      "pv_lib svc = rl_jwt rl" "publishes (rl_jwt rl) (rl_fetcher rl) ps ''aauth-person.json'' (tk_person_server keys)"
      "publishes (rl_jwt rl) F ps ''aauth-person.json'' (tk_person_server keys)"
    using wired by (simp_all add: managed_setup_def Let_def)
  have mint: "encode_auth_jwt (auth_encoder K (tk_person_server keys)) t2 j2 (kp_kid (tk_person_server keys))
      ''aauth-person.json'' ps (rl_resource_url rl) sub (kp_public_jwk (rl_jwt rl) (tk_agent_ephemeral keys)) (Some user) None = Ok token"
    "well_kept (rl_jwt rl) K (tk_person_server keys)"
    using minted wiredD(2) [OF w] by (simp_all add: person_minter_def mint_person_auth_jwt_def keys_kept_def)
  obtain ctx where ctx: "verify_token_request (rl_jwt rl) (ev_now ev) (pv_config svc) aj tp rt body = Ok ctx"
    "pt_resource_claims ctx = challenge_claims rl t1 tp A ps" "pt_agent_claims ctx = A" "pt_person_server_url ctx = ps"
    using wired_challenge(4) [OF w agent refl challenge refl exchange(6), of body] p(1) by simp
  have "person_exchange_token ev svc ctx aj s = (Ok (PF_Granted (minted_answer token)), s)"
    by (rule managed_grant [OF wired ctx(4)])
      (simp_all add: ctx wired_challenge_token(5,6) [OF w refl challenge] challenge_claims_fields,
        simp add: agent(2) flow_agent_fields minted)
  then have "token_exchange_handler Fr ev svc rq s =
      (Some (json_response (fr_json Fr) 200 [] (en_token_response (minted_answer token))), s)"
    using granted_answer [OF exchange(1,3,4)] ctx(1) exchange(2,5) p(2) by simp
  then show ?thesis
    using wired_flow [OF w agent asked challenge client mint p(3,4) retried] by blast
qed

section \<open>The federated flow\<close>

text \<open>
  C2: the federated protocol goes through, over HTTP. The resource trusts an Access Server;
  the agent is challenged and asks its Person Server as before; the Person Server, not being the audience, fetches the Access Server's metadata,
  signs and sends the exchange, and the Access Server verifies the signature, grants and mints;
  the Person Server verifies the token and relays it; the agent accepts it as the answer to its
  challenge, and the resource forwards the retried request with the claims the Access Server
  chose. The network, the JSON crate and the signature are \<open>reaches\<close>.
\<close>
theorem federated_flow:
  fixes rl :: "('key, 'p, 'g, 'st, 'err) resource_layer" and svc :: "('key, 's, 'e) person_service"
  assumes wired: "federated_setup K keys agent_url ps as rl svc F asvc low consented user t2 j2"
    and net: "reaches (psc_access_server (pv_config svc)) C w AF (rl_jwt rl) aev asvc state
      (federation_documents (av_config asvc) (federated_request rt aj) (minted_answer token))"
    and agent: "mint_agent_jwt (rl_jwt rl) K keys t0 j0 agent_url sub (Some ps) = Some aj"
      "A = flow_agent (rl_jwt rl) keys t0 j0 agent_url sub ps" "tp = kp_thumbprint (tk_agent_ephemeral keys)"
    and asked: "layer_verify rl t1 rq1 = Ok v1" "vs_jwt v1 = Some aj" "vs_thumbprint v1 = tp"
      "\<not> i64_less (t1 + CLOCK_SKEW) t0" "\<not> expired_at t1 (t0 + 3600)"
    and challenge: "rl_sign rl (typ_as_str Typ_Resource) (challenge_claims rl t1 tp A as) = Ok rt"
    and client: "\<not> expired_at ca (t1 + 300)" "\<not> expired_at cb (t2 + 3600)"
      "normalize_server_url clow (rl_resource_url rl) = normalize_server_url clow origin"
    and exchange: "optional_json Fr de_token_exchange rq = Ok (Some body)" "tx_resource_token body = rt"
      "verify_post Fr (pv_lib svc) ev rq = Ok v" "vs_jwt v = Some aj" "vs_thumbprint v = tp"
      "\<not> expired_at (ev_now ev) (t1 + 300)" "\<not> expired_at (ev_now ev) (t2 + 3600)"
    and minted: "access_minter K keys t2 j2 as (rl_resource_url rl) sub
        (kp_public_jwk (rl_jwt rl) (tk_agent_ephemeral keys)) (Some user) None = Ok token"
    and retried: "layer_verify rl t3 rq3 = Ok v3" "vs_jwt v3 = Some token" "vs_thumbprint v3 = tp"
      "\<not> expired_at t3 (t2 + 3600)"
  shows "\<exists>resp auth.
    layer_call rl t1 rq1 st = (LO_Reply resp, st) \<and>
    observe_response order origin AA_AgentSigned (rs_status resp) (rs_headers resp) a = (Ok (AS_ExchangeToken rt), a) \<and>
    verify_resource_challenge (rl_jwt rl) clow F ca rt origin sub tp = Ok (challenge_claims rl t1 tp A as) \<and>
    token_exchange_handler Fr ev svc rq s =
      (Some (json_response (fr_json Fr) 200 [] (en_token_response (minted_answer token))), s) \<and>
    verify_client_auth_token (rl_jwt rl) clow F cb token origin as sub tp check = Ok auth \<and>
    layer_call rl t3 rq3 st = (LO_Forward (PT_Auth auth), st) \<and>
    au_sub auth = Some user \<and> au_agent auth = sub \<and> au_iss auth = as \<and> au_aud auth = rl_resource_url rl"
proof -
  have w: "wired K keys agent_url ps as rl (pv_config svc) F" and p: "psc_person_server_url (pv_config svc) = ps"
      "pv_lib svc = rl_jwt rl" "publishes (rl_jwt rl) (rl_fetcher rl) as ''aauth-access.json'' (tk_access_server keys)"
      "publishes (rl_jwt rl) F as ''aauth-access.json'' (tk_access_server keys)"
    using wired by (simp_all add: federated_setup_def Let_def)
  have mint: "encode_auth_jwt (auth_encoder K (tk_access_server keys)) t2 j2 (kp_kid (tk_access_server keys))
      ''aauth-access.json'' as (rl_resource_url rl) sub (kp_public_jwk (rl_jwt rl) (tk_agent_ephemeral keys)) (Some user) None = Ok token"
    "well_kept (rl_jwt rl) K (tk_access_server keys)"
    using minted wiredD(2) [OF w] by (simp_all add: access_minter_def mint_access_auth_jwt_def keys_kept_def)
  note tok = wired_challenge_token(4-6) [OF w refl challenge]
  obtain ctx where ctx: "verify_token_request (rl_jwt rl) (ev_now ev) (pv_config svc) aj tp rt body = Ok ctx"
    "pt_resource_claims ctx = challenge_claims rl t1 tp A as" "pt_agent_claims ctx = A" "pt_person_server_url ctx = ps"
    "pt_exchange_request ctx = body"
    using wired_challenge(4) [OF w agent refl challenge refl exchange(6), of body] p(1) by simp
  have "federate_to_access_server (rl_jwt rl) (ev_parse ev) (ev_now ev) (pv_config svc) rt aj = Ok (FedComplete (minted_answer token))"
    by (rule federated_exchange [OF wired tok(1) wired_agent_token(2) [OF w agent(1)] _ tok(3) _ _ minted net exchange(7)])
      (simp_all add: challenge_claims_fields flow_agent_fields)
  then have "person_exchange_token ev svc ctx aj s = (Ok (PF_Granted (minted_answer token)), s)"
    by (intro federated_token_grant [OF wired, of ctx rt])
      (simp_all add: ctx tok challenge_claims_fields exchange(2))
  then have "token_exchange_handler Fr ev svc rq s =
      (Some (json_response (fr_json Fr) 200 [] (en_token_response (minted_answer token))), s)"
    using granted_answer [OF exchange(1,3,4)] ctx(1) exchange(2,5) p(2) by simp
  then show ?thesis
    using wired_flow [OF w agent asked challenge client mint p(3,4) retried] by blast
qed

section \<open>Concrete flows\<close>

theorem person_managed_flow_witness:
  "\<exists>resp auth.
    layer_call (flow_layer minted_auth None) 1000 (sample_get (flow_headers ''agent.p.s'')) () = (LO_Reply resp, ()) \<and>
    token_exchange_handler flow_front sample_env (flow_service minted_auth None absent_access_client) flow_post mem_new =
      (Some (json_response (fr_json flow_front) 200 [] (en_token_response (minted_answer ''auth.p.s''))), mem_new) \<and>
    layer_call (flow_layer minted_auth None) 1000 (sample_get (flow_headers ''auth.p.s'')) () = (LO_Forward (PT_Auth auth), ()) \<and>
    au_sub auth = Some ''u''"
proof -
  have x: "tx_resource_token (sample_exchange\<lparr>tx_resource_token := ''resource.p.s''\<rparr>) = ''resource.p.s''" by simp
  have set: "managed_setup (flow_keys_lib minted_auth None) minted_test_keys ''https://a'' ''https://p'' (flow_layer minted_auth None)
      (flow_service minted_auth None absent_access_client) flow_fetcher id ''u'' 1000 ''j2''"
    using flow_wired [of minted_auth None absent_access_client]
    by (simp add: managed_setup_def flow_publishes flow_aud_def)
  note flow = person_managed_flow [where clow = id and origin = "''https://r''" and ca = 1000 and cb = 1000 and
      A = minted_agent and tp = "''T''" and Fr = flow_front and ev = sample_env and rq = flow_post and s = mem_new and st = "()",
      OF set]
  have lv: "layer_verify (flow_layer minted_auth None) 1000 (sample_get (flow_headers ''agent.p.s'')) = Ok (flow_verified ''agent.p.s'')"
    "layer_verify (flow_layer minted_auth None) 1000 (sample_get (flow_headers ''auth.p.s'')) = Ok (flow_verified ''auth.p.s'')"
    by (simp_all add: flow_layer_verify)
  have ch: "resource_signer (flow_keys_lib minted_auth None) minted_test_keys (typ_as_str Typ_Resource)
      (challenge_claims (flow_layer minted_auth None) 1000 ''T'' minted_agent ''https://p'') = Ok ''resource.p.s''"
    using flow_challenge [of minted_auth None] by (simp add: flow_aud_def)
  show ?thesis
    using flow [unfolded flow_layer_simps flow_service_simps flow_keys_simps flow_now(4), OF flow_agent_minted refl
        lv(1) flow_verified_simps flow_now(3,2) ch flow_now(1,2) refl
        flow_post_reads(2) x flow_post_reads(1) flow_verified_simps flow_now(1) minted_person_token lv(2) flow_verified_simps flow_now(2)]
    by blast
qed

theorem federated_flow_witness:
  "\<exists>resp auth.
    layer_call (flow_layer access_auth flow_as) 1000 (sample_get (flow_headers ''agent.p.s'')) () = (LO_Reply resp, ()) \<and>
    token_exchange_handler flow_front sample_env (flow_service access_auth flow_as flow_access_client) flow_post mem_new =
      (Some (json_response (fr_json flow_front) 200 [] (en_token_response (minted_answer ''auth.p.s''))), mem_new) \<and>
    layer_call (flow_layer access_auth flow_as) 1000 (sample_get (flow_headers ''auth.p.s'')) () = (LO_Forward (PT_Auth auth), ()) \<and>
    au_sub auth = Some ''u'' \<and> au_iss auth = ''https://s''"
proof -
  have x: "tx_resource_token (sample_exchange\<lparr>tx_resource_token := ''resource.p.s''\<rparr>) = ''resource.p.s''" by simp
  note flow = federated_flow [where clow = id and origin = "''https://r''" and ca = 1000 and cb = 1000 and
      A = minted_agent and tp = "''T''" and Fr = flow_front and ev = sample_env and rq = flow_post and s = mem_new and st = "()"
      and C = flow_client and w = mem_new and AF = flow_access_front and aev = sample_env and state = id,
      OF flow_federated]
  have lv: "layer_verify (flow_layer access_auth flow_as) 1000 (sample_get (flow_headers ''agent.p.s'')) = Ok (flow_verified ''agent.p.s'')"
    "layer_verify (flow_layer access_auth flow_as) 1000 (sample_get (flow_headers ''auth.p.s'')) = Ok (flow_verified ''auth.p.s'')"
    by (simp_all add: flow_layer_verify)
  have ch: "resource_signer (flow_keys_lib access_auth flow_as) minted_test_keys (typ_as_str Typ_Resource)
      (challenge_claims (flow_layer access_auth flow_as) 1000 ''T'' minted_agent ''https://s'') = Ok ''resource.p.s''"
    using flow_challenge [of access_auth flow_as] by (simp add: flow_aud_def)
  show ?thesis
    using flow [unfolded flow_layer_simps flow_service_simps flow_keys_simps flow_now(4) flow_client_simps(8), OF flow_reaches flow_agent_minted refl
        lv(1) flow_verified_simps flow_now(3,2) ch flow_now(1,2) refl
        flow_post_reads(2) x flow_post_reads(1) flow_verified_simps flow_now(1,2) flow_access_token lv(2) flow_verified_simps flow_now(2)]
    by blast
qed

end
